(* ===== verification/Prelude.thy ===== *)
theory Prelude
  imports Main "HOL-Library.Word" "HOL-Library.AList" "HOL-Library.Char_ord"
    "HOL-Library.List_Lexorder"
begin

text \<open>
  What the components share: the types that stand for Go's time, durations and maps; the
  string functions of the Go standard library the sources call; the index loops that
  \<open>internal/replicate\<close> and \<open>internal/config\<close> repeat over slices (find the first match,
  replace it or append, delete it), with their lemmas; and the interfaces (locales) several
  components implement.

  Conventions. A Go string is a byte string, so it is a list of characters (a character is a
  byte), and Go's \<open><\<close> on strings and \<open>sort.Strings\<close> are the lexicographic order on bytes
  (\<open>List_Lexorder\<close> over \<open>Char_ord\<close>). A \<open>time.Time\<close> is the number of nanoseconds since
  Go's zero time, so \<open>IsZero\<close> is \<open>t = 0\<close>. A \<open>time.Duration\<close> is an int64 number of
  nanoseconds: sums and products that can leave the range are wrapped by \<open>int64\<close>, and
  \<open>Time.Sub\<close> saturates. A Go map is an association list with distinct keys; where the
  iteration order of a map can be seen in a result, it is a parameter of the definition.
\<close>

section \<open>Time, durations, machine integers\<close>

type_synonym gotime = int
type_synonym duration = int

named_theorems unit_defs \<open>the durations the sources name\<close>

definition Second :: duration where [unit_defs]: "Second = 1000000000"
definition Millisecond :: duration where [unit_defs]: "Millisecond = 1000000"
definition Minute :: duration where [unit_defs]: "Minute = 60 * Second"
definition Hour :: duration where [unit_defs]: "Hour = 60 * Minute"

text \<open>Two's complement wrap-around of an int64.\<close>

definition int64 :: "int \<Rightarrow> int" where
  "int64 x = (x + 2 ^ 63) mod 2 ^ 64 - 2 ^ 63"

lemma int64_id [simp]: "- (2 ^ 63) \<le> x \<Longrightarrow> x < 2 ^ 63 \<Longrightarrow> int64 x = x"
  by (simp add: int64_def)

lemma int64_bounds: "- (2 ^ 63) \<le> int64 x" "int64 x < 2 ^ 63"
  by (simp_all add: int64_def)

text \<open>\<open>t.Sub(u)\<close>: the difference, saturated at the bounds of an int64.\<close>

definition time_Sub :: "gotime \<Rightarrow> gotime \<Rightarrow> duration" where
  "time_Sub t u = max (- (2 ^ 63)) (min (2 ^ 63 - 1) (t - u))"

lemma time_Sub_gt: "d < 2 ^ 63 - 1 \<Longrightarrow> - (2 ^ 63) \<le> d \<Longrightarrow> d < time_Sub t u \<longleftrightarrow> d < t - u"
  by (auto simp: time_Sub_def)

lemma time_Sub_ge: "d < 2 ^ 63 \<Longrightarrow> - (2 ^ 63) < d \<Longrightarrow> d \<le> time_Sub t u \<longleftrightarrow> d \<le> t - u"
  by (auto simp: time_Sub_def)

section \<open>Errors\<close>

text \<open>
  The errors the modelled code returns. \<open>ErrLib\<close> is an error that a library call handed over, with
  its text, \<open>ErrMsg\<close> a message of the program, \<open>ErrNotFound\<close> a message followed by a quoted
  name (\<open>%q\<close>), and \<open>ErrWrap\<close> a message wrapped around another error (\<open>%w\<close>).
\<close>

datatype err =
    ErrLib string
  | ErrMsg string
  | ErrNotFound string string
  | ErrWrap string err

section \<open>Strings\<close>

definition is_space :: "char \<Rightarrow> bool" where
  "is_space c = (let n = (of_char c :: nat) in n = 32 \<or> 9 \<le> n \<and> n \<le> 13)"

definition TrimSpace :: "string \<Rightarrow> string" where
  "TrimSpace s = rev (dropWhile is_space (rev (dropWhile is_space s)))"

definition lower_char :: "char \<Rightarrow> char" where
  "lower_char c = (let n = (of_char c :: nat) in if 65 \<le> n \<and> n \<le> 90 then char_of (n + 32) else c)"

definition upper_char :: "char \<Rightarrow> char" where
  "upper_char c = (let n = (of_char c :: nat) in if 97 \<le> n \<and> n \<le> 122 then char_of (n - 32) else c)"

definition ToLower :: "string \<Rightarrow> string" where
  "ToLower s = map lower_char s"

definition ToUpper :: "string \<Rightarrow> string" where
  "ToUpper s = map upper_char s"

definition HasPrefix :: "string \<Rightarrow> string \<Rightarrow> bool" where
  "HasPrefix s p \<longleftrightarrow> take (length p) s = p"

definition TrimPrefix :: "string \<Rightarrow> string \<Rightarrow> string" where
  "TrimPrefix s p = (if HasPrefix s p then drop (length p) s else s)"

fun Contains :: "string \<Rightarrow> string \<Rightarrow> bool" where
  "Contains [] sub = (sub = [])"
| "Contains (c # cs) sub = (HasPrefix (c # cs) sub \<or> Contains cs sub)"

text \<open>\<open>strings.Split(s, sep)\<close> for a one-character separator.\<close>

fun Split :: "char \<Rightarrow> string \<Rightarrow> string list" where
  "Split sep [] = [[]]"
| "Split sep (c # cs) =
     (if c = sep then [] # Split sep cs
      else (case Split sep cs of [] \<Rightarrow> [[c]] | w # ws \<Rightarrow> (c # w) # ws))"

fun Join :: "string list \<Rightarrow> string \<Rightarrow> string" where
  "Join [] sep = []"
| "Join [s] sep = s"
| "Join (s # t # ss) sep = s @ sep @ Join (t # ss) sep"

fun index_of :: "char \<Rightarrow> string \<Rightarrow> nat option" where
  "index_of c [] = None"
| "index_of c (d # ds) = (if c = d then Some 0 else map_option Suc (index_of c ds))"

fun last_index_of :: "char \<Rightarrow> string \<Rightarrow> nat option" where
  "last_index_of c [] = None"
| "last_index_of c (d # ds) =
     (case last_index_of c ds of Some i \<Rightarrow> Some (Suc i)
      | None \<Rightarrow> if c = d then Some 0 else None)"

text \<open>Decimal rendering (\<open>%d\<close>, \<open>strconv.Itoa\<close>).\<close>

fun nat_digits :: "nat \<Rightarrow> string" where
  "nat_digits n = (if n < 10 then [char_of (48 + n)]
                   else nat_digits (n div 10) @ [char_of (48 + n mod 10)])"

declare nat_digits.simps [simp del]

definition Itoa :: "int \<Rightarrow> string" where
  "Itoa i = (if i < 0 then CHR ''-'' # nat_digits (nat (- i)) else nat_digits (nat i))"

text \<open>\<open>strconv.Quote\<close> (\<open>%q\<close>) on bytes below 128; the others are taken to be printable text.\<close>

definition quote_char :: "char \<Rightarrow> string" where
  "quote_char c =
     (let n = (of_char c :: nat); hex = (\<lambda>k. char_of (if k < 10 then 48 + k else 87 + k :: nat)) in
      if n = 34 \<or> n = 92 then [char_of (92 :: nat), c]
      else if n = 7 then [char_of (92 :: nat), CHR ''a''] else if n = 8 then [char_of (92 :: nat), CHR ''b'']
      else if n = 12 then [char_of (92 :: nat), CHR ''f''] else if n = 10 then [char_of (92 :: nat), CHR ''n'']
      else if n = 13 then [char_of (92 :: nat), CHR ''r''] else if n = 9 then [char_of (92 :: nat), CHR ''t'']
      else if n = 11 then [char_of (92 :: nat), CHR ''v'']
      else if n < 32 \<or> n = 127 then [char_of (92 :: nat), CHR ''x'', hex (n div 16), hex (n mod 16)]
      else [c])"

definition Quote :: "string \<Rightarrow> string" where
  "Quote s = char_of (34 :: nat) # concat (map quote_char s) @ [char_of (34 :: nat)]"

text \<open>The em dash in UTF-8, as the messages of the program contain it.\<close>

definition emdash :: string where "emdash = [CHR 0xE2, CHR 0x80, CHR 0x94]"

text \<open>\<open>err.Error()\<close>.\<close>

fun err_text :: "err \<Rightarrow> string" where
  "err_text (ErrLib s) = s"
| "err_text (ErrMsg s) = s"
| "err_text (ErrNotFound s a) = s @ '' '' @ Quote a"
| "err_text (ErrWrap s e) = s @ '': '' @ err_text e"

lemma Itoa_nonempty [simp]: "Itoa i \<noteq> []"
  by (auto simp: Itoa_def nat_digits.simps)

text \<open>\<open>strconv.Atoi\<close>: an optional sign and decimal digits, in the range of a 64-bit int.\<close>

definition is_digit :: "char \<Rightarrow> bool" where
  "is_digit c = (let n = (of_char c :: nat) in 48 \<le> n \<and> n \<le> 57)"

definition digits_val :: "string \<Rightarrow> nat" where
  "digits_val ds = foldl (\<lambda>v c. 10 * v + (of_char c - 48)) 0 ds"

definition Atoi :: "string \<Rightarrow> int option" where
  "Atoi s =
     (let (neg, ds) = (case s of [] \<Rightarrow> (False, [])
            | c # cs \<Rightarrow> if c = CHR ''-'' then (True, cs) else if c = CHR ''+'' then (False, cs) else (False, s));
          v = (if neg then - int (digits_val ds) else int (digits_val ds))
      in if ds = [] \<or> \<not> list_all is_digit ds then None
         else if - (2 ^ 63) \<le> v \<and> v < 2 ^ 63 then Some v else None)"

lemma dropWhile_idem: "dropWhile P (dropWhile P xs) = dropWhile P xs"
  by (induction xs) auto

lemma dropWhile_rev_dropWhile:
  "dropWhile P (rev (dropWhile P (rev (dropWhile P xs)))) = rev (dropWhile P (rev (dropWhile P xs)))"
proof (cases "dropWhile P xs")
  case Nil
  then show ?thesis by (metis dropWhile.simps(1) rev.simps(1))
next
  case (Cons y ys)
  have "\<not> P y" using Cons by (metis dropWhile_eq_Cons_conv)
  have "dropWhile P (rev ys @ [y]) = dropWhile P (rev ys) @ [y]"
    using \<open>\<not> P y\<close> by (induction "rev ys") (auto simp: dropWhile_append)
  then have "rev (dropWhile P (rev (y # ys))) = y # rev (dropWhile P (rev ys))"
    by simp
  then show ?thesis using Cons \<open>\<not> P y\<close> by simp
qed

lemma TrimSpace_idem [simp]: "TrimSpace (TrimSpace s) = TrimSpace s"
  by (simp add: TrimSpace_def dropWhile_rev_dropWhile dropWhile_idem)

lemma TrimSpace_Nil [simp]: "TrimSpace [] = []"
  by (simp add: TrimSpace_def)

lemma HasPrefix_append [simp]: "HasPrefix (p @ s) p"
  by (simp add: HasPrefix_def)

lemma TrimPrefix_append [simp]: "TrimPrefix (p @ s) p = s"
  by (simp add: TrimPrefix_def)

section \<open>The index loops over slices\<close>

text \<open>
  \<open>for i, existing := range xs { if P(existing) { xs[i] = x; return } }; xs = append(xs, x)\<close>
\<close>

fun upsert :: "('a \<Rightarrow> bool) \<Rightarrow> 'a \<Rightarrow> 'a list \<Rightarrow> 'a list" where
  "upsert P x [] = [x]"
| "upsert P x (y # ys) = (if P y then x # ys else y # upsert P x ys)"

text \<open>
  \<open>for i, existing := range xs { if P(existing) { xs = append(xs[:i], xs[i+1:]...); return } }\<close>;
  \<open>None\<close> when no element matches.
\<close>

fun remove_first :: "('a \<Rightarrow> bool) \<Rightarrow> 'a list \<Rightarrow> 'a list option" where
  "remove_first P [] = None"
| "remove_first P (y # ys) = (if P y then Some ys else map_option ((#) y) (remove_first P ys))"

text \<open>\<open>for i := range xs { if P(xs[i]) { xs[i] = f(xs[i]); return } }\<close>; \<open>None\<close> when no element matches.\<close>

fun modify_first :: "('a \<Rightarrow> bool) \<Rightarrow> ('a \<Rightarrow> 'a) \<Rightarrow> 'a list \<Rightarrow> 'a list option" where
  "modify_first P f [] = None"
| "modify_first P f (y # ys) =
     (if P y then Some (f y # ys) else map_option ((#) y) (modify_first P f ys))"

lemma upsert_not_Nil [simp]: "upsert P x xs \<noteq> []"
  by (cases xs) auto

lemma in_set_upsert [simp]: "x \<in> set (upsert P x xs)"
  by (induction xs) auto

lemma set_upsert_subset: "set (upsert P x xs) \<subseteq> insert x (set xs)"
  by (induction xs) auto

lemma set_upsert_keeps: "y \<in> set xs \<Longrightarrow> \<not> P y \<Longrightarrow> y \<in> set (upsert P x xs)"
  by (induction xs) auto

lemma length_upsert: "length (upsert P x xs) = (if \<exists>y \<in> set xs. P y then length xs else Suc (length xs))"
  by (induction xs) auto

lemma upsert_append_new: "\<forall>y \<in> set xs. \<not> P y \<Longrightarrow> upsert P x xs = xs @ [x]"
  by (induction xs) auto

lemma upsert_idem: "P x \<Longrightarrow> upsert P x (upsert P x xs) = upsert P x xs"
  by (induction xs) auto

lemma remove_first_None: "remove_first P xs = None \<longleftrightarrow> (\<forall>y \<in> set xs. \<not> P y)"
  by (induction xs) auto

lemma remove_first_find_None: "remove_first P xs = None \<longleftrightarrow> List.find P xs = None"
  by (induction xs) auto

lemma length_remove_first: "remove_first P xs = Some ys \<Longrightarrow> length xs = Suc (length ys)"
  by (induction xs arbitrary: ys) (auto split: if_splits)

lemma set_remove_first: "remove_first P xs = Some ys \<Longrightarrow> set ys \<subseteq> set xs"
  by (induction xs arbitrary: ys) (auto split: if_splits)

lemma remove_first_keeps:
  "remove_first P xs = Some ys \<Longrightarrow> y \<in> set xs \<Longrightarrow> \<not> P y \<Longrightarrow> y \<in> set ys"
  by (induction xs arbitrary: ys) (auto split: if_splits)

lemma mset_remove_first:
  "remove_first P xs = Some ys \<Longrightarrow> \<exists>x. List.find P xs = Some x \<and> P x \<and> count_list xs x = Suc (count_list ys x)"
  by (induction xs arbitrary: ys) (auto split: if_splits)

lemma remove_first_split:
  "remove_first P xs = Some ys \<longleftrightarrow>
     (\<exists>as x bs. xs = as @ x # bs \<and> P x \<and> (\<forall>a \<in> set as. \<not> P a) \<and> ys = as @ bs \<and> List.find P xs = Some x)"
proof (induction xs arbitrary: ys)
  case Nil
  then show ?case by simp
next
  case (Cons y zs)
  show ?case
  proof (cases "P y")
    case True
    show ?thesis
    proof
      assume "remove_first P (y # zs) = Some ys"
      with True have "y # zs = [] @ y # zs \<and> P y \<and> (\<forall>a \<in> set []. \<not> P a) \<and> ys = [] @ zs \<and> List.find P (y # zs) = Some y"
        by simp
      then show "\<exists>as x bs. y # zs = as @ x # bs \<and> P x \<and> (\<forall>a \<in> set as. \<not> P a) \<and> ys = as @ bs \<and>
          List.find P (y # zs) = Some x" by blast
    next
      assume "\<exists>as x bs. y # zs = as @ x # bs \<and> P x \<and> (\<forall>a \<in> set as. \<not> P a) \<and> ys = as @ bs \<and>
          List.find P (y # zs) = Some x"
      then obtain as x bs where h: "y # zs = as @ x # bs" "\<forall>a \<in> set as. \<not> P a" "ys = as @ bs" by blast
      with True have "as = []" by (cases as) auto
      with h True show "remove_first P (y # zs) = Some ys" by simp
    qed
  next
    case False
    show ?thesis
    proof
      assume "remove_first P (y # zs) = Some ys"
      with False obtain us where us: "remove_first P zs = Some us" "ys = y # us" by auto
      then obtain as x bs where "zs = as @ x # bs" "P x" "\<forall>a \<in> set as. \<not> P a" "us = as @ bs" "List.find P zs = Some x"
        using Cons by blast
      with False us have "y # zs = (y # as) @ x # bs \<and> P x \<and> (\<forall>a \<in> set (y # as). \<not> P a) \<and>
          ys = (y # as) @ bs \<and> List.find P (y # zs) = Some x" by simp
      then show "\<exists>as x bs. y # zs = as @ x # bs \<and> P x \<and> (\<forall>a \<in> set as. \<not> P a) \<and> ys = as @ bs \<and>
          List.find P (y # zs) = Some x" by blast
    next
      assume "\<exists>as x bs. y # zs = as @ x # bs \<and> P x \<and> (\<forall>a \<in> set as. \<not> P a) \<and> ys = as @ bs \<and>
          List.find P (y # zs) = Some x"
      then obtain as x bs where h: "y # zs = as @ x # bs" "P x" "\<forall>a \<in> set as. \<not> P a" "ys = as @ bs"
        "List.find P (y # zs) = Some x" by blast
      with False obtain as' where "as = y # as'" by (cases as) auto
      with h False have "zs = as' @ x # bs \<and> P x \<and> (\<forall>a \<in> set as'. \<not> P a) \<and> as' @ bs = as' @ bs \<and> List.find P zs = Some x"
        by simp
      then have "remove_first P zs = Some (as' @ bs)" using Cons by blast
      with h False \<open>as = y # as'\<close> show "remove_first P (y # zs) = Some ys" by simp
    qed
  qed
qed

lemma modify_first_None: "modify_first P f xs = None \<longleftrightarrow> (\<forall>y \<in> set xs. \<not> P y)"
  by (induction xs) auto

lemma modify_first_map:
  "modify_first P f xs = Some ys \<Longrightarrow> (\<And>x. g (f x) = g x) \<Longrightarrow> map g ys = map g xs"
  by (induction xs arbitrary: ys) (auto split: if_splits)

lemma modify_first_key:
  "modify_first (\<lambda>x. g x = k) f xs = Some ys \<Longrightarrow> distinct (map g xs) \<Longrightarrow> ys = map (\<lambda>x. if g x = k then f x else x) xs"
proof (induction xs arbitrary: ys)
  case (Cons x xs)
  then show ?case
    by (cases "g x = k") (auto simp: image_iff intro!: map_idI [symmetric] split: option.splits)
qed simp

lemma find_Some_iff_first: "List.find P xs = Some x \<Longrightarrow> P x \<and> x \<in> set xs"
  by (induction xs) (auto split: if_splits)

lemma find_None_ball: "List.find P xs = None \<longleftrightarrow> (\<forall>x \<in> set xs. \<not> P x)"
  by (induction xs) auto

lemma find_append:
  "List.find P (xs @ ys) = (case List.find P xs of Some x \<Rightarrow> Some x | None \<Rightarrow> List.find P ys)"
  by (induction xs) auto

text \<open>Keep, of the elements with the same key, the first.\<close>

fun first_by :: "('a \<Rightarrow> 'k) \<Rightarrow> 'a list \<Rightarrow> 'a list" where
  "first_by f [] = []"
| "first_by f (x # xs) = x # filter (\<lambda>y. f y \<noteq> f x) (first_by f xs)"

lemma set_first_by_subset: "set (first_by f xs) \<subseteq> set xs"
  by (induction xs) auto

lemma keys_first_by: "f ` set (first_by f xs) = f ` set xs"
proof (induction xs)
  case Nil
  then show ?case by simp
next
  case (Cons x xs)
  have "f ` {y \<in> S. f y \<noteq> f x} = f ` S - {f x}" for S by auto
  with Cons show ?case by auto
qed

lemma distinct_first_by: "distinct (map f (first_by f xs))"
  by (induction xs) (auto simp: distinct_map_filter)

section \<open>Keyed slices and the store interface\<close>

text \<open>A slice used as a table: one row per key, looked up, replaced and deleted by key.\<close>

definition row_get :: "('a \<Rightarrow> 'k) \<Rightarrow> 'k \<Rightarrow> 'a list \<Rightarrow> 'a option" where
  "row_get key k xs = List.find (\<lambda>x. key x = k) xs"

definition row_put :: "('a \<Rightarrow> 'k) \<Rightarrow> 'a \<Rightarrow> 'a list \<Rightarrow> 'a list" where
  "row_put key x xs = upsert (\<lambda>y. key y = key x) x xs"

definition row_del :: "('a \<Rightarrow> 'k) \<Rightarrow> 'k \<Rightarrow> 'a list \<Rightarrow> 'a list" where
  "row_del key k xs = (case remove_first (\<lambda>y. key y = k) xs of None \<Rightarrow> xs | Some ys \<Rightarrow> ys)"

text \<open>
  The contract of a table: what a lookup returns after a put and after a delete. Everything
  the clients prove about sequences of writes is proved once, from these laws.
\<close>

locale keyed_table =
  fixes key :: "'a \<Rightarrow> 'k"
    and get :: "'k \<Rightarrow> 's \<Rightarrow> 'a option"
    and put :: "'a \<Rightarrow> 's \<Rightarrow> 's"
    and del :: "'k \<Rightarrow> 's \<Rightarrow> 's"
    and wf :: "'s \<Rightarrow> bool"
  assumes get_put: "wf s \<Longrightarrow> get k (put x s) = (if k = key x then Some x else get k s)"
    and get_del: "wf s \<Longrightarrow> get k' (del k s) = (if k' = k then None else get k' s)"
    and wf_put: "wf s \<Longrightarrow> wf (put x s)"
    and wf_del: "wf s \<Longrightarrow> wf (del k s)"
    and get_key: "wf s \<Longrightarrow> get k s = Some x \<Longrightarrow> key x = k"
begin

lemma wf_fold_put: "wf s \<Longrightarrow> wf (fold put xs s)"
  by (induction xs arbitrary: s) (auto simp: wf_put)

lemma get_fold_put:
  "wf s \<Longrightarrow> get k (fold put xs s) =
     (case List.find (\<lambda>x. key x = k) (rev xs) of Some x \<Rightarrow> Some x | None \<Rightarrow> get k s)"
proof (induction xs arbitrary: s)
  case Nil
  then show ?case by simp
next
  case (Cons x xs)
  have "get k (fold put xs (put x s)) =
      (case List.find (\<lambda>y. key y = k) (rev xs) of Some y \<Rightarrow> Some y | None \<Rightarrow> get k (put x s))"
    using Cons by (simp add: wf_put)
  then show ?case
    using Cons.prems by (simp add: get_put find_append split: option.split)
qed

lemma put_then_del: "wf s \<Longrightarrow> get k (del (key x) (put x s)) = get k (del (key x) s)"
  by (simp add: get_put get_del wf_put)

lemma get_put_same: "wf s \<Longrightarrow> get (key x) (put x s) = Some x"
  by (simp add: get_put)

end

lemma row_find_upsert:
  "List.find (\<lambda>y. key y = k) (upsert (\<lambda>y. key y = key x) x xs) =
     (if k = key x then Some x else List.find (\<lambda>y. key y = k) xs)"
  by (induction xs) auto

lemma row_find_remove:
  "distinct (map key xs) \<Longrightarrow> remove_first (\<lambda>y. key y = k) xs = Some ys \<Longrightarrow>
     List.find (\<lambda>y. key y = k') ys = (if k' = k then None else List.find (\<lambda>y. key y = k') xs)"
proof (induction xs arbitrary: ys)
  case Nil
  then show ?case by simp
next
  case (Cons x xs)
  show ?case
  proof (cases "key x = k")
    case True
    with Cons.prems have "ys = xs" and "k \<notin> key ` set xs" by auto
    then have "List.find (\<lambda>y. key y = k) xs = None" by (auto simp: find_None_ball)
    with True \<open>ys = xs\<close> show ?thesis by simp
  next
    case False
    with Cons.prems obtain zs where "remove_first (\<lambda>y. key y = k) xs = Some zs" and "ys = x # zs"
      by auto
    with Cons False show ?thesis by auto
  qed
qed

lemma row_keys_upsert:
  "map key (upsert (\<lambda>y. key y = key x) x xs) =
     (if key x \<in> key ` set xs then map key xs else map key xs @ [key x])"
  by (induction xs) auto

lemma row_distinct_upsert:
  "distinct (map key xs) \<Longrightarrow> distinct (map key (upsert (\<lambda>y. key y = key x) x xs))"
  by (auto simp: row_keys_upsert)

lemma distinct_remove_first:
  "distinct (map f xs) \<Longrightarrow> remove_first P xs = Some ys \<Longrightarrow> distinct (map f ys)"
proof (induction xs arbitrary: ys)
  case Nil
  then show ?case by simp
next
  case (Cons x xs)
  show ?case
  proof (cases "P x")
    case True
    with Cons.prems show ?thesis by simp
  next
    case False
    with Cons.prems obtain zs where zs: "remove_first P xs = Some zs" and "ys = x # zs"
      by auto
    moreover have "f x \<notin> f ` set zs"
      using set_remove_first [OF zs] Cons.prems(1) by auto
    ultimately show ?thesis using Cons by simp
  qed
qed

lemma row_table: "keyed_table key (row_get key) (row_put key) (row_del key) (\<lambda>xs. distinct (map key xs))"
proof (unfold_locales, goal_cases)
  case (1 s k x)
  then show ?case by (simp add: row_get_def row_put_def row_find_upsert)
next
  case (2 s k' k)
  then show ?case
    by (auto simp: row_get_def row_del_def row_find_remove remove_first_find_None split: option.splits)
next
  case (3 s x)
  then show ?case by (simp add: row_put_def row_distinct_upsert)
next
  case (4 s k)
  then show ?case by (auto simp: row_del_def dest: distinct_remove_first split: option.splits)
next
  case (5 s k x)
  then show ?case by (auto simp: row_get_def dest: find_Some_iff_first)
qed

section \<open>Codecs\<close>

text \<open>The contract of an encoder and its decoder.\<close>

locale roundtrip_codec =
  fixes enc :: "'a \<Rightarrow> 'w"
    and dec :: "'w \<Rightarrow> 'a option"
    and dom_ok :: "'a \<Rightarrow> bool"
  assumes dec_enc: "dom_ok x \<Longrightarrow> dec (enc x) = Some x"
begin

lemma enc_inj: "dom_ok x \<Longrightarrow> dom_ok y \<Longrightarrow> enc x = enc y \<Longrightarrow> x = y"
  by (metis dec_enc option.inject)

lemma dec_enc_list: "list_all dom_ok xs \<Longrightarrow> map (\<lambda>x. dec (enc x)) xs = map Some xs"
  by (induction xs) (auto simp: dec_enc)

end

section \<open>Runs of events and invariants\<close>

text \<open>A run is allowed when each event is allowed in the state it meets.\<close>

fun allowed_run :: "('e \<Rightarrow> 's \<Rightarrow> bool) \<Rightarrow> ('e \<Rightarrow> 's \<Rightarrow> 's) \<Rightarrow> 'e list \<Rightarrow> 's \<Rightarrow> bool" where
  "allowed_run ok step [] s = True"
| "allowed_run ok step (e # es) s = (ok e s \<and> allowed_run ok step es (step e s))"

text \<open>
  The contract of a component with an invariant: every operation, in a state where the code
  can issue it, keeps the invariant. The client lemmas lift it to runs of any length.
\<close>

locale guarded_component =
  fixes step :: "'e \<Rightarrow> 's \<Rightarrow> 's"
    and ok :: "'e \<Rightarrow> 's \<Rightarrow> bool"
    and inv :: "'s \<Rightarrow> bool"
  assumes step_inv: "inv s \<Longrightarrow> ok e s \<Longrightarrow> inv (step e s)"
begin

lemma run_inv: "inv s \<Longrightarrow> allowed_run ok step es s \<Longrightarrow> inv (fold step es s)"
  by (induction es arbitrary: s) (auto simp: step_inv)

lemma run_prefix_inv:
  "inv s \<Longrightarrow> allowed_run ok step (es @ fs) s \<Longrightarrow> inv (fold step es s)"
  by (induction es arbitrary: s) (auto simp: step_inv)

end

text \<open>A component with an invariant and a measure that no operation decreases.\<close>

locale monotone_component = guarded_component step ok inv
  for step :: "'e \<Rightarrow> 's \<Rightarrow> 's" and ok :: "'e \<Rightarrow> 's \<Rightarrow> bool" and inv :: "'s \<Rightarrow> bool" +
  fixes mu :: "'s \<Rightarrow> 'm::order"
  assumes step_mono: "inv s \<Longrightarrow> ok e s \<Longrightarrow> mu s \<le> mu (step e s)"
begin

lemma run_mono: "inv s \<Longrightarrow> allowed_run ok step es s \<Longrightarrow> mu s \<le> mu (fold step es s)"
proof (induction es arbitrary: s)
  case Nil
  then show ?case by simp
next
  case (Cons e es)
  then have "mu s \<le> mu (step e s)" and "mu (step e s) \<le> mu (fold step es (step e s))"
    by (auto simp: step_mono step_inv)
  then show ?case by simp
qed

end

end
