(* ===== verification/Paths.thy ===== *)
theory Paths
  imports Prelude
begin

text \<open>
  \<open>internal/config/paths.go\<close>: where the node keeps its files, and \<open>AtomicWrite\<close>, through which
  every file of the data directory is written. The process environment is a record (unset
  variables read as the empty string, as \<open>os.Getenv\<close> does), the file system a map from paths
  to files; the results of the system calls \<open>AtomicWrite\<close> makes are inputs.
\<close>

section \<open>filepath.Join\<close>

text \<open>
  \<open>filepath.Clean\<close> on the components of a path: empty and \<open>.\<close> components are dropped, \<open>..\<close>
  removes the component before it, at the root it is dropped and in a relative path it stays.
  The accumulator holds the cleaned components in reverse.
\<close>

fun clean_comps :: "bool \<Rightarrow> string list \<Rightarrow> string list \<Rightarrow> string list" where
  "clean_comps rooted acc [] = rev acc"
| "clean_comps rooted acc (c # cs) =
     (if c = [] \<or> c = ''.'' then clean_comps rooted acc cs
      else if c = ''..'' then
        (case acc of
           [] \<Rightarrow> clean_comps rooted (if rooted then [] else [c]) cs
         | a # acc' \<Rightarrow> clean_comps rooted (if a = ''..'' then c # acc else acc') cs)
      else clean_comps rooted (c # acc) cs)"

definition path_Clean :: "string \<Rightarrow> string" where
  "path_Clean p =
     (let rooted = HasPrefix p ''/'';
          body = Join (clean_comps rooted [] (Split (CHR ''/'') p)) ''/''
      in if rooted then CHR ''/'' # body else if body = [] then ''.'' else body)"

definition path_Join :: "string list \<Rightarrow> string" where
  "path_Join ps =
     (let qs = filter (\<lambda>p. p \<noteq> []) ps
      in if qs = [] then [] else path_Clean (Join qs ''/''))"

section \<open>Where the files live\<close>

record os_env =
  Getenv :: "string \<Rightarrow> string"
  Geteuid :: nat
  UserHomeDir :: "string option"
  TempDir :: string
  Stat_ok :: "string \<Rightarrow> bool"

definition DataDir :: "os_env \<Rightarrow> string" where
  "DataDir e =
     (if Getenv e ''QUPTIME_DIR'' \<noteq> [] then Getenv e ''QUPTIME_DIR''
      else if Geteuid e = 0 then ''/etc/quptime''
      else if Getenv e ''XDG_CONFIG_HOME'' \<noteq> [] then path_Join [Getenv e ''XDG_CONFIG_HOME'', ''quptime'']
      else (case UserHomeDir e of
              None \<Rightarrow> ''./quptime''
            | Some home \<Rightarrow> if home = [] then ''./quptime''
                            else path_Join [home, ''.config'', ''quptime'']))"

definition SocketName :: string where "SocketName = ''quptime.sock''"

definition envUserSuffix :: "os_env \<Rightarrow> string" where
  "envUserSuffix e = (if Getenv e ''USER'' \<noteq> [] then Getenv e ''USER'' else ''default'')"

definition SocketPath :: "os_env \<Rightarrow> string" where
  "SocketPath e =
     (if Getenv e ''QUPTIME_SOCKET'' \<noteq> [] then Getenv e ''QUPTIME_SOCKET''
      else if Getenv e ''RUNTIME_DIRECTORY'' \<noteq> [] then
        (let v = Getenv e ''RUNTIME_DIRECTORY'';
             v' = (case index_of (CHR '':'') v of Some i \<Rightarrow> take i v | None \<Rightarrow> v)
         in path_Join [v', SocketName])
      else (case List.find (Stat_ok e) [''/run/quptime/'' @ SocketName, ''/var/run/quptime/'' @ SocketName] of
              Some p \<Rightarrow> p
            | None \<Rightarrow>
                if Geteuid e = 0 then ''/var/run/quptime/'' @ SocketName
                else if Getenv e ''XDG_RUNTIME_DIR'' \<noteq> [] then
                  path_Join [Getenv e ''XDG_RUNTIME_DIR'', ''quptime'', SocketName]
                else path_Join [TempDir e, ''quptime-'' @ envUserSuffix e, SocketName]))"

definition NodeFilePath :: "os_env \<Rightarrow> string" where
  "NodeFilePath e = path_Join [DataDir e, ''node.yaml'']"

definition ClusterFilePath :: "os_env \<Rightarrow> string" where
  "ClusterFilePath e = path_Join [DataDir e, ''cluster.yaml'']"

definition TrustFilePath :: "os_env \<Rightarrow> string" where
  "TrustFilePath e = path_Join [DataDir e, ''trust.yaml'']"

definition PrivateKeyPath :: "os_env \<Rightarrow> string" where
  "PrivateKeyPath e = path_Join [DataDir e, ''keys'', ''private.pem'']"

definition PublicKeyPath :: "os_env \<Rightarrow> string" where
  "PublicKeyPath e = path_Join [DataDir e, ''keys'', ''public.pem'']"

definition CertFilePath :: "os_env \<Rightarrow> string" where
  "CertFilePath e = path_Join [DataDir e, ''keys'', ''cert.pem'']"

section \<open>AtomicWrite\<close>

record fs_file =
  f_data :: string
  f_perm :: nat

type_synonym fs = "string \<Rightarrow> fs_file option"

text \<open>The outcomes of the system calls: an error, or none. \<open>tmp_rand\<close> is the random part of the
  temporary name, \<open>torn\<close> the bytes that reached the file when the write failed.\<close>

record write_env =
  mkdir_err :: "err option"
  create_err :: "err option"
  tmp_rand :: string
  torn :: string
  write_err :: "err option"
  chmod_err :: "err option"
  close_err :: "err option"
  remove_ok :: bool
  rename_err :: "err option"

definition tmp_name :: "string \<Rightarrow> write_env \<Rightarrow> string" where
  "tmp_name path w = path @ ''.tmp-'' @ tmp_rand w"

definition fs_Remove :: "write_env \<Rightarrow> string \<Rightarrow> fs \<Rightarrow> fs" where
  "fs_Remove w p f = (if remove_ok w then f(p := None) else f)"

definition AtomicWrite :: "write_env \<Rightarrow> string \<Rightarrow> string \<Rightarrow> nat \<Rightarrow> fs \<Rightarrow> err option \<times> fs" where
  "AtomicWrite w path data perm f =
     (if path = [] then (Some (ErrMsg ''empty path''), f)
      else case mkdir_err w of Some e \<Rightarrow> (Some e, f) | None \<Rightarrow>
      (case create_err w of Some e \<Rightarrow> (Some e, f) | None \<Rightarrow>
      (let tmp = tmp_name path w in
       case write_err w of
         Some e \<Rightarrow> (Some e, fs_Remove w tmp (f(tmp \<mapsto> \<lparr>f_data = torn w, f_perm = 384\<rparr>)))
       | None \<Rightarrow>
      (let f1 = f(tmp \<mapsto> \<lparr>f_data = data, f_perm = 384\<rparr>) in
       case chmod_err w of Some e \<Rightarrow> (Some e, fs_Remove w tmp f1) | None \<Rightarrow>
      (let f2 = f(tmp \<mapsto> \<lparr>f_data = data, f_perm = perm\<rparr>) in
       case close_err w of Some e \<Rightarrow> (Some e, fs_Remove w tmp f2) | None \<Rightarrow>
      (case rename_err w of
         Some e \<Rightarrow> (Some e, f2)
       | None \<Rightarrow> (None, f2(tmp := None, path \<mapsto> \<lparr>f_data = data, f_perm = perm\<rparr>))))))))"

text \<open>An environment in which every call succeeds.\<close>

definition io_good :: write_env where
  "io_good = \<lparr>mkdir_err = None, create_err = None, tmp_rand = ''1'', torn = [], write_err = None,
     chmod_err = None, close_err = None, remove_ok = True, rename_err = None\<rparr>"

lemma tmp_name_neq [simp]: "tmp_name path w \<noteq> path" "path \<noteq> tmp_name path w"
  by (auto simp: tmp_name_def)

lemma AtomicWrite_ok:
  "AtomicWrite w path data perm f = (None, f') \<Longrightarrow>
     f' = f(tmp_name path w := None, path \<mapsto> \<lparr>f_data = data, f_perm = perm\<rparr>)"
  by (auto simp: AtomicWrite_def Let_def split: if_splits option.splits)

lemma AtomicWrite_err:
  "AtomicWrite w path data perm f = (Some e, f') \<Longrightarrow> p \<noteq> tmp_name path w \<Longrightarrow> f' p = f p"
  by (auto simp: AtomicWrite_def Let_def fs_Remove_def split: if_splits option.splits)

lemma AtomicWrite_err_target:
  "AtomicWrite w path data perm f = (Some e, f') \<Longrightarrow> f' path = f path"
  by (metis AtomicWrite_err tmp_name_neq(2))

lemma AtomicWrite_good: "path \<noteq> [] \<Longrightarrow> fst (AtomicWrite io_good path data perm f) = None"
  by (simp add: AtomicWrite_def io_good_def)

lemma path_Clean_nonempty [simp]: "path_Clean p \<noteq> []"
  by (simp add: path_Clean_def Let_def)

lemma path_Join_nonempty [simp]: "path_Join (a # b # ps) \<noteq> [] \<longleftrightarrow> (\<exists>p \<in> set (a # b # ps). p \<noteq> [])"
  by (auto simp: path_Join_def Let_def filter_empty_conv)

text \<open>\<open>AtomicWrite\<close> is all or nothing on the target: when it reports success the target holds
  exactly the new bytes and mode and the temporary file is gone; when it reports an error the
  target is what it was; and no file but the target and the temporary name ever changes. Unless
  the final rename (or the clean-up itself) failed, no temporary file is left behind.\<close>

theorem atomic_write_all_or_nothing:
  "let (r, f') = AtomicWrite w path data perm f; tmp = tmp_name path w in
     f' = (if r = None then f(tmp := None, path \<mapsto> \<lparr>f_data = data, f_perm = perm\<rparr>)
           else f(tmp := f' tmp)) \<and>
     (rename_err w = None \<and> remove_ok w \<and> f tmp = None \<longrightarrow> f' tmp = None)"
proof (cases "AtomicWrite w path data perm f")
  case (Pair r f')
  show ?thesis
  proof (cases r)
    case None
    with Pair have "f' = f(tmp_name path w := None, path \<mapsto> \<lparr>f_data = data, f_perm = perm\<rparr>)"
      by (auto dest: AtomicWrite_ok)
    with Pair None show ?thesis by simp
  next
    case (Some e)
    with Pair have "f' = f(tmp_name path w := f' (tmp_name path w))"
      by (auto intro!: ext dest: AtomicWrite_err)
    moreover have "rename_err w = None \<Longrightarrow> remove_ok w \<Longrightarrow> f (tmp_name path w) = None \<Longrightarrow>
        f' (tmp_name path w) = None"
      using Pair Some
      by (auto simp: AtomicWrite_def Let_def fs_Remove_def split: if_splits option.splits)
    ultimately show ?thesis using Pair Some by simp
  qed
qed

text \<open>A write that fails half-way: the target keeps its old bytes and no temporary is left.\<close>

theorem atomic_write_all_or_nothing_witness:
  "let w = io_good\<lparr>torn := ''ha'', write_err := Some (ErrLib ''ENOSPC'')\<rparr>;
       f = Map.empty(''n'' \<mapsto> \<lparr>f_data = ''old'', f_perm = 384\<rparr>);
       (r, f') = AtomicWrite w ''n'' ''half'' 384 f
   in r = Some (ErrLib ''ENOSPC'') \<and> f' (tmp_name ''n'' w) = None \<and> f' ''n'' = Some \<lparr>f_data = ''old'', f_perm = 384\<rparr>"
  using atomic_write_all_or_nothing [of "io_good\<lparr>torn := ''ha'', write_err := Some (ErrLib ''ENOSPC'')\<rparr>"
      "''n''" "''half''" 384 "Map.empty(''n'' \<mapsto> \<lparr>f_data = ''old'', f_perm = 384\<rparr>)"]
  by (simp add: AtomicWrite_def io_good_def Let_def fs_Remove_def tmp_name_def)

section \<open>The files of the data directory are different\<close>

lemma Split_sep: "Split s (a @ s # b) = Split s a @ Split s b"
proof (induction a)
  case (Cons c a)
  have "Split s a \<noteq> []" by (induction a) (simp_all split: list.split)
  with Cons show ?case by (auto split: list.splits)
qed simp

lemma Split_single: "s \<notin> set a \<Longrightarrow> Split s a = [a]"
  by (induction a) auto

lemma clean_comps_snoc:
  "n \<noteq> [] \<Longrightarrow> n \<noteq> ''.'' \<Longrightarrow> n \<noteq> ''..'' \<Longrightarrow> clean_comps r acc (cs @ [n]) = clean_comps r acc cs @ [n]"
  by (induction r acc cs rule: clean_comps.induct) (auto split: list.split)

lemma Join_snoc: "Join (xs @ [n]) sep = (if xs = [] then n else Join xs sep @ sep @ n)"
  by (induction xs sep rule: Join.induct) auto

text \<open>A file name joined to a directory is the name after a prefix that only depends on the directory.\<close>

definition dir_prefix :: "string \<Rightarrow> string" where
  "dir_prefix d =
     (let rooted = HasPrefix d ''/''; cs = clean_comps rooted [] (Split (CHR ''/'') d)
      in if d = [] then [] else (if rooted then ''/'' else []) @ (if cs = [] then [] else Join cs ''/'' @ ''/''))"

lemma path_Join_name:
  assumes "CHR ''/'' \<notin> set n" and "n \<noteq> []" and "n \<noteq> ''.''" and "n \<noteq> ''..''"
  shows "path_Join [d, n] = dir_prefix d @ n"
proof (cases "d = []")
  case True
  have "\<not> HasPrefix n ''/''" using assms(1,2) by (cases n) (auto simp: HasPrefix_def)
  with True assms show ?thesis by (simp add: path_Join_def dir_prefix_def path_Clean_def Split_single)
next
  case False
  have "HasPrefix (d @ ''/'' @ n) ''/'' = HasPrefix d ''/''" using False by (cases d) (auto simp: HasPrefix_def)
  moreover have "Split (CHR ''/'') (d @ ''/'' @ n) = Split (CHR ''/'') d @ [n]"
    using Split_sep [of "CHR ''/''" d n] Split_single [OF assms(1)] by simp
  ultimately show ?thesis
    using False assms clean_comps_snoc [OF assms(2-4)]
    by (simp add: path_Join_def dir_prefix_def path_Clean_def Join_snoc Let_def)
qed

lemma data_file_prefix:
  "NodeFilePath e = dir_prefix (DataDir e) @ ''node.yaml''" "ClusterFilePath e = dir_prefix (DataDir e) @ ''cluster.yaml''"
  "TrustFilePath e = dir_prefix (DataDir e) @ ''trust.yaml''"
  by (simp_all add: NodeFilePath_def ClusterFilePath_def TrustFilePath_def path_Join_name)

lemma data_files_distinct:
  "TrustFilePath e \<noteq> ClusterFilePath e" "TrustFilePath e \<noteq> tmp_name (ClusterFilePath e) w"
  "ClusterFilePath e \<noteq> TrustFilePath e" "ClusterFilePath e \<noteq> tmp_name (TrustFilePath e) w"
  "NodeFilePath e \<noteq> ClusterFilePath e" "NodeFilePath e \<noteq> tmp_name (ClusterFilePath e) w"
  by (simp_all add: data_file_prefix tmp_name_def)

lemma path_Join_name2:
  assumes a: "CHR ''/'' \<notin> set a" "a \<noteq> []" "a \<noteq> ''.''" "a \<noteq> ''..''" and b: "CHR ''/'' \<notin> set b" "b \<noteq> []" "b \<noteq> ''.''" "b \<noteq> ''..''"
  shows "path_Join [d, a, b] = dir_prefix d @ a @ ''/'' @ b"
proof (cases "d = []")
  case True
  have "\<not> HasPrefix (a @ ''/'' @ b) ''/''" using a(1,2) by (cases a) (auto simp: HasPrefix_def)
  moreover have "Split (CHR ''/'') (a @ ''/'' @ b) = [a, b]"
    using Split_sep [of "CHR ''/''" a b] Split_single [OF a(1)] Split_single [OF b(1)] by simp
  ultimately show ?thesis using True a b by (simp add: path_Join_def dir_prefix_def path_Clean_def)
next
  case False
  have "HasPrefix (d @ ''/'' @ a @ ''/'' @ b) ''/'' = HasPrefix d ''/''" using False by (cases d) (auto simp: HasPrefix_def)
  moreover have "Split (CHR ''/'') (d @ ''/'' @ a @ ''/'' @ b) = (Split (CHR ''/'') d @ [a]) @ [b]"
    using Split_sep [of "CHR ''/''" d "a @ ''/'' @ b"] Split_sep [of "CHR ''/''" a b] Split_single [OF a(1)] Split_single [OF b(1)] by simp
  moreover have "clean_comps r [] ((Split (CHR ''/'') d @ [a]) @ [b]) = (clean_comps r [] (Split (CHR ''/'') d) @ [a]) @ [b]" for r
    unfolding clean_comps_snoc [OF b(2-4)] clean_comps_snoc [OF a(2-4)] ..
  moreover have "Join ((xs @ [a]) @ [b]) ''/'' = (if xs = [] then [] else Join xs ''/'' @ ''/'') @ a @ ''/'' @ b" for xs
    by (simp only: Join_snoc) simp
  ultimately show ?thesis
    using False a b by (simp add: path_Join_def dir_prefix_def path_Clean_def Let_def)
qed

lemma key_file_prefix:
  "PrivateKeyPath e = dir_prefix (DataDir e) @ ''keys/private.pem''" "PublicKeyPath e = dir_prefix (DataDir e) @ ''keys/public.pem''"
  "CertFilePath e = dir_prefix (DataDir e) @ ''keys/cert.pem''"
  by (simp_all add: PrivateKeyPath_def PublicKeyPath_def CertFilePath_def path_Join_name2)

text \<open>No two of the six files, nor any of them and the temporary file of another, have the same path.\<close>

lemmas data_paths = data_file_prefix key_file_prefix tmp_name_def

end
