(* ===== verification/Config.thy ===== *)
theory Config
  imports Paths
begin

text \<open>
  \<open>internal/config/cluster.go\<close>: the replicated cluster configuration. The Go struct
  \<open>ClusterConfig\<close> carries the replicated (YAML) fields and, unexported, the lock, the change
  callbacks and the hash of the bytes last written. Here the YAML fields are the record
  \<open>ClusterConfig\<close>, and \<open>cfg_state\<close> is the live object: the configuration, \<open>lastSum\<close>, the
  registered callbacks and the file system it writes to. Each operation that holds the lock is
  one function on \<open>cfg_state\<close>; the callbacks it fires after releasing the lock are returned.
  \<open>yaml.Marshal\<close>, \<open>yaml.Unmarshal\<close> (a third-party package) and the SHA-256 function are the
  fields of a parameter record \<open>codec\<close>.
\<close>

section \<open>The data\<close>

record PeerInfo =
  pi_NodeID :: string
  pi_Advertise :: string
  pi_Fingerprint :: string
  pi_CertPEM :: string

text \<open>\<open>CheckType\<close> is a string type with five named constants; \<open>cluster.yaml\<close> can hold others.\<close>

type_synonym CheckType = string

named_theorems tag_defs \<open>the string constants of the Go enums\<close>

definition CheckHTTP :: CheckType where [tag_defs]: "CheckHTTP = ''http''"
definition CheckTCP :: CheckType where [tag_defs]: "CheckTCP = ''tcp''"
definition CheckICMP :: CheckType where [tag_defs]: "CheckICMP = ''icmp''"
definition CheckTLS :: CheckType where [tag_defs]: "CheckTLS = ''tls''"
definition CheckDNS :: CheckType where [tag_defs]: "CheckDNS = ''dns''"

record Check =
  ck_ID :: string
  ck_Name :: string
  ck_Type :: CheckType
  ck_Target :: string
  ck_Interval :: duration
  ck_Timeout :: duration
  ck_ExpectStatus :: int
  ck_BodyMatch :: string
  ck_TLSWarnDays :: int
  ck_TLSServerName :: string
  ck_DNSRecord :: string
  ck_DNSResolver :: string
  ck_DNSExpect :: string
  ck_AlertIDs :: "string list"
  ck_SuppressAlertIDs :: "string list"
  ck_Disabled :: bool
  ck_Resolvers :: "string list"

text \<open>The zero value of the struct.\<close>

definition zero_Check :: Check where
  "zero_Check = \<lparr>ck_ID = [], ck_Name = [], ck_Type = [], ck_Target = [], ck_Interval = 0,
     ck_Timeout = 0, ck_ExpectStatus = 0, ck_BodyMatch = [], ck_TLSWarnDays = 0,
     ck_TLSServerName = [], ck_DNSRecord = [], ck_DNSResolver = [], ck_DNSExpect = [],
     ck_AlertIDs = [], ck_SuppressAlertIDs = [], ck_Disabled = False, ck_Resolvers = []\<rparr>"

type_synonym AlertType = string

definition AlertSMTP :: AlertType where [tag_defs]: "AlertSMTP = ''smtp''"
definition AlertDiscord :: AlertType where [tag_defs]: "AlertDiscord = ''discord''"

record Alert =
  al_ID :: string
  al_Name :: string
  al_Type :: AlertType
  al_Default :: bool
  al_Disabled :: bool
  al_SMTPHost :: string
  al_SMTPPort :: int
  al_SMTPUser :: string
  al_SMTPPassword :: string
  al_SMTPFrom :: string
  al_SMTPTo :: "string list"
  al_SMTPStartTLS :: bool
  al_DiscordWebhook :: string
  al_SubjectTemplate :: string
  al_BodyTemplate :: string

definition zero_Alert :: Alert where
  "zero_Alert = \<lparr>al_ID = [], al_Name = [], al_Type = [], al_Default = False, al_Disabled = False,
     al_SMTPHost = [], al_SMTPPort = 0, al_SMTPUser = [], al_SMTPPassword = [], al_SMTPFrom = [],
     al_SMTPTo = [], al_SMTPStartTLS = False, al_DiscordWebhook = [], al_SubjectTemplate = [],
     al_BodyTemplate = []\<rparr>"

record PendingJoin =
  pj_NodeID :: string
  pj_Advertise :: string
  pj_Fingerprint :: string
  pj_CertPEM :: string
  pj_SubmittedAt :: gotime

text \<open>The pointer field \<open>PendingJoin\<close> is an option; \<open>nil\<close> is \<open>None\<close>.\<close>

record PendingEnrollment =
  pe_ID :: string
  pe_Name :: string
  pe_SecretHash :: string
  pe_AutoApprove :: bool
  pe_CreatedBy :: string
  pe_CreatedAt :: gotime
  pe_ExpiresAt :: gotime
  pe_PendingJoin :: "PendingJoin option"

record ClusterConfig =
  cc_Version :: "64 word"
  cc_UpdatedAt :: gotime
  cc_UpdatedBy :: string
  cc_Peers :: "PeerInfo list"
  cc_Checks :: "Check list"
  cc_Alerts :: "Alert list"
  cc_PendingEnrollments :: "PendingEnrollment list"
  cc_Resolvers :: "string list"

definition zero_ClusterConfig :: ClusterConfig where
  "zero_ClusterConfig = \<lparr>cc_Version = 0, cc_UpdatedAt = 0, cc_UpdatedBy = [], cc_Peers = [],
     cc_Checks = [], cc_Alerts = [], cc_PendingEnrollments = [], cc_Resolvers = []\<rparr>"

section \<open>The live configuration object\<close>

record codec =
  yaml_Marshal :: "ClusterConfig \<Rightarrow> err + string"
  yaml_Unmarshal :: "string \<Rightarrow> err + ClusterConfig"
  sha256 :: "string \<Rightarrow> string"

text \<open>Callbacks are named by numbers, in the order they were registered.\<close>

type_synonym callback = nat

record cfg_state =
  cs_cfg :: ClusterConfig
  cs_lastSum :: string
  cs_onChange :: "callback list"
  cs_fs :: fs

text \<open>What one call sees of its environment: the wall clock and the system calls of its write.\<close>

record call_env =
  ce_now :: gotime
  ce_write :: write_env

definition OnChange :: "callback \<Rightarrow> cfg_state \<Rightarrow> cfg_state" where
  "OnChange fn s = s\<lparr>cs_onChange := cs_onChange s @ [fn]\<rparr>"

definition fireOnChange :: "cfg_state \<Rightarrow> callback list" where
  "fireOnChange s = cs_onChange s"

definition LastSavedSum :: "cfg_state \<Rightarrow> string" where
  "LastSavedSum s = cs_lastSum s"

definition SetLastSavedSum :: "string \<Rightarrow> cfg_state \<Rightarrow> cfg_state" where
  "SetLastSavedSum sm s = s\<lparr>cs_lastSum := sm\<rparr>"

text \<open>The hash of the zero value \<open>[32]byte{}\<close>.\<close>

definition zero_sum :: string where
  "zero_sum = replicate 32 (CHR 0x00)"

text \<open>\<open>LoadClusterConfig\<close>: a missing file is the empty configuration. \<open>read_err\<close> is an error
  of \<open>os.ReadFile\<close> other than a missing file.\<close>

definition LoadClusterConfig ::
  "codec \<Rightarrow> os_env \<Rightarrow> err option \<Rightarrow> fs \<Rightarrow> err + cfg_state" where
  "LoadClusterConfig L e read_err f =
     (case read_err of Some x \<Rightarrow> Inl x | None \<Rightarrow>
     (case f (ClusterFilePath e) of
        None \<Rightarrow> Inr \<lparr>cs_cfg = zero_ClusterConfig, cs_lastSum = zero_sum, cs_onChange = [], cs_fs = f\<rparr>
      | Some raw \<Rightarrow>
         (case yaml_Unmarshal L (f_data raw) of
            Inl x \<Rightarrow> Inl (ErrWrap ''parse cluster.yaml'' x)
          | Inr cfg \<Rightarrow> Inr \<lparr>cs_cfg = cfg, cs_lastSum = sha256 L (f_data raw), cs_onChange = [], cs_fs = f\<rparr>)))"

text \<open>
  \<open>write_config\<close> is the tail that \<open>Save\<close>, \<open>Mutate\<close> and \<open>Replace\<close> share: marshal, write
  atomically with mode 0600, remember the hash of the bytes.
\<close>

definition write_config :: "codec \<Rightarrow> os_env \<Rightarrow> call_env \<Rightarrow> cfg_state \<Rightarrow> err option \<times> cfg_state" where
  "write_config L e env s =
     (case yaml_Marshal L (cs_cfg s) of
        Inl x \<Rightarrow> (Some x, s)
      | Inr out \<Rightarrow>
         (case AtomicWrite (ce_write env) (ClusterFilePath e) out 384 (cs_fs s) of
            (Some x, f) \<Rightarrow> (Some x, s\<lparr>cs_fs := f\<rparr>)
          | (None, f) \<Rightarrow> (None, s\<lparr>cs_fs := f, cs_lastSum := sha256 L out\<rparr>)))"

definition Save :: "codec \<Rightarrow> os_env \<Rightarrow> call_env \<Rightarrow> cfg_state \<Rightarrow> err option \<times> cfg_state" where
  "Save L e env s = write_config L e env s"

text \<open>\<open>copyEnrollments\<close> and \<open>Snapshot\<close> copy slice by slice; the values are the same.\<close>

definition copyEnrollments :: "PendingEnrollment list \<Rightarrow> PendingEnrollment list" where
  "copyEnrollments src =
     (if src = [] then []
      else map (\<lambda>e. e\<lparr>pe_PendingJoin := (case pe_PendingJoin e of None \<Rightarrow> None | Some pj \<Rightarrow> Some pj)\<rparr>) src)"

definition Snapshot :: "cfg_state \<Rightarrow> ClusterConfig" where
  "Snapshot s =
     (let c = cs_cfg s in
      \<lparr>cc_Version = cc_Version c, cc_UpdatedAt = cc_UpdatedAt c, cc_UpdatedBy = cc_UpdatedBy c,
       cc_Peers = cc_Peers c, cc_Checks = cc_Checks c, cc_Alerts = cc_Alerts c,
       cc_PendingEnrollments = copyEnrollments (cc_PendingEnrollments c),
       cc_Resolvers = cc_Resolvers c\<rparr>)"

text \<open>
  \<open>Mutate\<close>: \<open>fn\<close> edits the configuration in place and may fail (what it had changed by then
  stays); on success the version is bumped (a uint64, so it wraps), the file is written, and
  the callbacks fire. Note that when marshalling or the write fails the bumped configuration
  stays in memory.
\<close>

type_synonym edit = "ClusterConfig \<Rightarrow> err option \<times> ClusterConfig"

definition Mutate ::
  "codec \<Rightarrow> os_env \<Rightarrow> call_env \<Rightarrow> string \<Rightarrow> edit \<Rightarrow> cfg_state \<Rightarrow> err option \<times> cfg_state \<times> callback list" where
  "Mutate L e env byNode fn s =
     (case fn (cs_cfg s) of
        (Some x, c) \<Rightarrow> (Some x, s\<lparr>cs_cfg := c\<rparr>, [])
      | (None, c) \<Rightarrow>
         (let c' = c\<lparr>cc_Version := cc_Version c + 1, cc_UpdatedAt := ce_now env, cc_UpdatedBy := byNode\<rparr>
          in case write_config L e env (s\<lparr>cs_cfg := c'\<rparr>) of
               (Some x, s') \<Rightarrow> (Some x, s', [])
             | (None, s') \<Rightarrow> (None, s', fireOnChange s')))"

text \<open>\<open>Replace\<close>: only a strictly greater version is taken.\<close>

definition Replace ::
  "codec \<Rightarrow> os_env \<Rightarrow> call_env \<Rightarrow> ClusterConfig \<Rightarrow> cfg_state \<Rightarrow> (err + bool) \<times> cfg_state \<times> callback list" where
  "Replace L e env incoming s =
     (if cc_Version incoming \<le> cc_Version (cs_cfg s) then (Inr False, s, [])
      else
        (let c' = \<lparr>cc_Version = cc_Version incoming, cc_UpdatedAt = cc_UpdatedAt incoming,
                   cc_UpdatedBy = cc_UpdatedBy incoming, cc_Peers = cc_Peers incoming,
                   cc_Checks = cc_Checks incoming, cc_Alerts = cc_Alerts incoming,
                   cc_PendingEnrollments = copyEnrollments (cc_PendingEnrollments incoming),
                   cc_Resolvers = cc_Resolvers incoming\<rparr>
         in case write_config L e env (s\<lparr>cs_cfg := c'\<rparr>) of
              (Some x, s') \<Rightarrow> (Inl x, s', [])
            | (None, s') \<Rightarrow> (Inr True, s', fireOnChange s')))"

section \<open>Queries\<close>

text \<open>
  \<open>EffectiveAlertsFor\<close>: the closure \<open>add\<close> works on the pair of the map \<open>seen\<close> and the slice
  \<open>out\<close>; the two loops add the explicitly listed alerts in the check's order and then the
  defaults in the configuration's order. A nil check has no alerts.
\<close>

definition add_alert :: "string list \<Rightarrow> Alert \<Rightarrow> string list \<times> Alert list \<Rightarrow> string list \<times> Alert list" where
  "add_alert suppress a acc =
     (case acc of (seen, out) \<Rightarrow>
      if al_Disabled a then (seen, out)
      else if al_ID a \<in> set seen then (seen, out)
      else if al_ID a \<in> set suppress then (seen, out)
      else if al_Name a \<in> set suppress then (seen, out)
      else (al_ID a # seen, out @ [a]))"

definition alert_matches :: "string \<Rightarrow> Alert \<Rightarrow> bool" where
  "alert_matches want a \<longleftrightarrow> al_ID a = want \<or> al_Name a = want"

definition add_wanted ::
  "string list \<Rightarrow> Alert list \<Rightarrow> string \<Rightarrow> string list \<times> Alert list \<Rightarrow> string list \<times> Alert list" where
  "add_wanted suppress alerts want acc =
     (case List.find (alert_matches want) alerts of
        None \<Rightarrow> acc
      | Some a \<Rightarrow> add_alert suppress a acc)"

definition add_default :: "string list \<Rightarrow> Alert \<Rightarrow> string list \<times> Alert list \<Rightarrow> string list \<times> Alert list" where
  "add_default suppress a acc = (if al_Default a then add_alert suppress a acc else acc)"

definition EffectiveAlertsFor :: "ClusterConfig \<Rightarrow> Check option \<Rightarrow> Alert list" where
  "EffectiveAlertsFor c check =
     (case check of
        None \<Rightarrow> []
      | Some ch \<Rightarrow>
         snd (fold (add_default (ck_SuppressAlertIDs ch)) (cc_Alerts c)
           (fold (add_wanted (ck_SuppressAlertIDs ch) (cc_Alerts c)) (ck_AlertIDs ch) ([], []))))"

definition FindAlert :: "ClusterConfig \<Rightarrow> string \<Rightarrow> Alert option" where
  "FindAlert c idOrName = List.find (alert_matches idOrName) (cc_Alerts c)"

definition enrollment_matches :: "string \<Rightarrow> PendingEnrollment \<Rightarrow> bool" where
  "enrollment_matches idOrName e \<longleftrightarrow> pe_ID e = idOrName \<or> (pe_Name e \<noteq> [] \<and> pe_Name e = idOrName)"

definition FindEnrollment :: "ClusterConfig \<Rightarrow> string \<Rightarrow> PendingEnrollment option" where
  "FindEnrollment c idOrName = List.find (enrollment_matches idOrName) (cc_PendingEnrollments c)"

definition FindEnrollmentByID :: "ClusterConfig \<Rightarrow> string \<Rightarrow> PendingEnrollment option" where
  "FindEnrollmentByID c ident = List.find (\<lambda>e. pe_ID e = ident) (cc_PendingEnrollments c)"

definition QuorumSize :: "ClusterConfig \<Rightarrow> nat" where
  "QuorumSize c = (let n = length (cc_Peers c) in if n = 0 then 1 else n div 2 + 1)"

section \<open>Lemmas on the configuration object\<close>

lemma copyEnrollments_id [simp]: "copyEnrollments es = es"
  by (auto simp: copyEnrollments_def intro!: map_idI split: option.splits)

lemma Snapshot_id [simp]: "Snapshot s = cs_cfg s"
  by (simp add: Snapshot_def Let_def)

lemma ClusterFilePath_nonempty [simp]: "ClusterFilePath e \<noteq> []"
  by (simp add: ClusterFilePath_def)

lemma write_config_frame:
  "write_config L e env s = (r, s') \<Longrightarrow> cs_cfg s' = cs_cfg s \<and> cs_onChange s' = cs_onChange s"
  by (auto simp: write_config_def split: sum.splits prod.splits option.splits)

lemma write_config_okD:
  assumes "write_config L e env s = (None, s')"
  obtains out where "yaml_Marshal L (cs_cfg s) = Inr out"
    and "cs_fs s' (ClusterFilePath e) = Some \<lparr>f_data = out, f_perm = 384\<rparr>"
    and "cs_lastSum s' = sha256 L out" and "cs_cfg s' = cs_cfg s" and "cs_onChange s' = cs_onChange s"
  using assms
  by (auto simp: write_config_def dest!: AtomicWrite_ok split: sum.splits prod.splits option.splits)

lemma write_config_errD:
  assumes "write_config L e env s = (Some x, s')"
  shows "cs_cfg s' = cs_cfg s" and "cs_lastSum s' = cs_lastSum s" and "cs_onChange s' = cs_onChange s"
    and "cs_fs s' (ClusterFilePath e) = cs_fs s (ClusterFilePath e)"
  using assms
  by (auto simp: write_config_def dest: AtomicWrite_err_target split: sum.splits prod.splits option.splits)

lemma write_config_good:
  "ce_write env = io_good \<Longrightarrow> yaml_Marshal L (cs_cfg s) = Inr out \<Longrightarrow>
     \<exists>s'. write_config L e env s = (None, s')"
  using AtomicWrite_good [of "ClusterFilePath e" out 384 "cs_fs s"]
  by (auto simp: write_config_def split: prod.splits)

text \<open>The file and the remembered hash agree: what the manual-edit watcher relies on.\<close>

definition disk_synced :: "codec \<Rightarrow> os_env \<Rightarrow> cfg_state \<Rightarrow> bool" where
  "disk_synced L e s =
     (case cs_fs s (ClusterFilePath e) of
        None \<Rightarrow> False
      | Some raw \<Rightarrow> yaml_Marshal L (cs_cfg s) = Inr (f_data raw) \<and> cs_lastSum s = sha256 L (f_data raw))"

lemma write_config_synced: "write_config L e env s = (None, s') \<Longrightarrow> disk_synced L e s'"
  by (erule write_config_okD) (simp add: disk_synced_def)

fun bump :: "call_env \<Rightarrow> string \<Rightarrow> ClusterConfig \<Rightarrow> ClusterConfig" where
  "bump env byNode c = c\<lparr>cc_Version := cc_Version c + 1, cc_UpdatedAt := ce_now env, cc_UpdatedBy := byNode\<rparr>"

declare bump.simps [simp del]

lemma Mutate_cases:
  "Mutate L e env byNode fn s =
     (case fn (cs_cfg s) of
        (Some x, c) \<Rightarrow> (Some x, s\<lparr>cs_cfg := c\<rparr>, [])
      | (None, c) \<Rightarrow>
         (case write_config L e env (s\<lparr>cs_cfg := bump env byNode c\<rparr>) of
            (Some x, s') \<Rightarrow> (Some x, s', [])
          | (None, s') \<Rightarrow> (None, s', cs_onChange s)))"
proof (cases "fn (cs_cfg s)")
  case (Pair r c)
  show ?thesis
  proof (cases "write_config L e env (s\<lparr>cs_cfg := bump env byNode c\<rparr>)")
    case (Pair r' s')
    note w = this and fr = write_config_frame [OF this]
    show ?thesis
      using \<open>fn (cs_cfg s) = (r, c)\<close> w fr
      by (cases r; cases r') (simp_all add: Mutate_def bump.simps Let_def fireOnChange_def)
  qed
qed

text \<open>The configuration in memory after a \<open>Mutate\<close>, whatever the outcome.\<close>

lemma Mutate_cfg:
  "cs_cfg (fst (snd (Mutate L e env byNode fn s))) =
     (case fn (cs_cfg s) of (Some x, c) \<Rightarrow> c | (None, c) \<Rightarrow> bump env byNode c)"
  by (auto simp: Mutate_cases dest!: write_config_frame split: prod.split option.split)

lemma Replace_cfg:
  "cs_cfg (fst (snd (Replace L e env incoming s))) =
     (if cc_Version incoming \<le> cc_Version (cs_cfg s) then cs_cfg s else incoming)"
  by (auto simp: Replace_def Let_def dest!: write_config_frame split: prod.split option.split)

lemma Replace_result:
  "Replace L e env incoming s = (Inr True, s', cbs) \<Longrightarrow>
     cc_Version (cs_cfg s) < cc_Version incoming \<and> cs_cfg s' = incoming \<and> disk_synced L e s' \<and>
     cbs = cs_onChange s"
  by (auto simp: Replace_def Let_def fireOnChange_def split: if_splits prod.splits option.splits
      dest: write_config_synced write_config_frame)

lemma Replace_stale:
  "cc_Version incoming \<le> cc_Version (cs_cfg s) \<Longrightarrow> Replace L e env incoming s = (Inr False, s, [])"
  by (simp add: Replace_def)

section \<open>Effective alerts\<close>

text \<open>
  The reference: the listed alerts in the check's order, then the defaults in the
  configuration's order, without the disabled and the suppressed ones, each ID once.
\<close>

definition alert_eligible :: "string list \<Rightarrow> Alert \<Rightarrow> bool" where
  "alert_eligible suppress a \<longleftrightarrow>
     \<not> al_Disabled a \<and> al_ID a \<notin> set suppress \<and> al_Name a \<notin> set suppress"

definition listed_alerts :: "ClusterConfig \<Rightarrow> Check \<Rightarrow> Alert list" where
  "listed_alerts c ch = List.map_filter (FindAlert c) (ck_AlertIDs ch)"

lemma fold_add_alert:
  "snd (fold (add_alert sps) xs (seen, out)) =
     out @ filter (\<lambda>a. al_ID a \<notin> set seen) (first_by al_ID (filter (alert_eligible sps) xs))"
proof (induction xs arbitrary: seen out)
  case Nil
  then show ?case by simp
next
  case (Cons x xs)
  then show ?case
    by (auto simp: add_alert_def alert_eligible_def intro!: filter_cong)
qed

lemma fold_add_wanted:
  "fold (add_wanted sps (cc_Alerts c)) ws acc =
     fold (add_alert sps) (List.map_filter (FindAlert c) ws) acc"
  by (induction ws arbitrary: acc)
     (auto simp: add_wanted_def FindAlert_def List.map_filter_simps split: option.split)

lemma fold_add_default:
  "fold (add_default sps) xs acc = fold (add_alert sps) (filter al_Default xs) acc"
  by (induction xs arbitrary: acc) (auto simp: add_default_def)

lemma effective_alerts_eq:
  "EffectiveAlertsFor c (Some ch) =
     first_by al_ID (filter (alert_eligible (ck_SuppressAlertIDs ch))
       (listed_alerts c ch @ filter al_Default (cc_Alerts c)))"
proof -
  have "EffectiveAlertsFor c (Some ch) =
      snd (fold (add_alert (ck_SuppressAlertIDs ch))
        (listed_alerts c ch @ filter al_Default (cc_Alerts c)) ([], []))"
    by (simp add: EffectiveAlertsFor_def fold_add_wanted fold_add_default listed_alerts_def)
  then show ?thesis by (simp only: fold_add_alert) simp
qed

lemma listed_alerts_subset: "set (listed_alerts c ch) \<subseteq> set (cc_Alerts c)"
  by (auto simp: listed_alerts_def List.map_filter_def FindAlert_def dest: find_Some_iff_first)

lemma effective_alerts_sub:
  "a \<in> set (EffectiveAlertsFor c (Some ch)) \<Longrightarrow>
     a \<in> set (cc_Alerts c) \<and> alert_eligible (ck_SuppressAlertIDs ch) a \<and>
     (a \<in> set (listed_alerts c ch) \<or> al_Default a)"
  using set_first_by_subset [of al_ID] listed_alerts_subset [of c ch]
  by (fastforce simp: effective_alerts_eq)

lemma effective_alerts_distinct: "distinct (map al_ID (EffectiveAlertsFor c (Some ch)))"
  by (simp add: effective_alerts_eq distinct_first_by)

lemma effective_alerts_complete:
  assumes "distinct (map al_ID (cc_Alerts c))" and "a \<in> set (cc_Alerts c)"
    and "alert_eligible (ck_SuppressAlertIDs ch) a" and "a \<in> set (listed_alerts c ch) \<or> al_Default a"
  shows "a \<in> set (EffectiveAlertsFor c (Some ch))"
proof -
  let ?xs = "filter (alert_eligible (ck_SuppressAlertIDs ch))
       (listed_alerts c ch @ filter al_Default (cc_Alerts c))"
  have "a \<in> set ?xs" using assms by auto
  then have "al_ID a \<in> al_ID ` set (first_by al_ID ?xs)" by (simp add: keys_first_by)
  then obtain b where b: "b \<in> set (first_by al_ID ?xs)" and "al_ID b = al_ID a" by auto
  have "b \<in> set (cc_Alerts c)"
    using b effective_alerts_sub [of b c ch] by (simp add: effective_alerts_eq)
  with \<open>al_ID b = al_ID a\<close> assms(1,2) have "b = a"
    by (metis distinct_map inj_onD)
  with b show ?thesis by (simp add: effective_alerts_eq)
qed

section \<open>Properties\<close>

text \<open>\<open>EffectiveAlertsFor\<close>, a loop with a \<open>seen\<close> map and early returns, computes the
  reference list: the listed alerts, then the defaults, only those neither disabled nor
  suppressed by ID or name, and of several with one ID the first.\<close>

theorem effective_alerts_reference:
  "EffectiveAlertsFor c check =
     (case check of None \<Rightarrow> []
      | Some ch \<Rightarrow> first_by al_ID (filter (alert_eligible (ck_SuppressAlertIDs ch))
          (listed_alerts c ch @ filter al_Default (cc_Alerts c))))"
  by (cases check) (simp_all add: effective_alerts_eq, simp add: EffectiveAlertsFor_def)

text \<open>C33. When alert IDs are unique in the configuration, the alerts that fire for a check are
  exactly those that are enabled, not suppressed, and listed by the check or marked default;
  each fires once.\<close>

theorem effective_alerts_exact:
  assumes "distinct (map al_ID (cc_Alerts c))"
  shows "distinct (map al_ID (EffectiveAlertsFor c (Some ch))) \<and>
     set (EffectiveAlertsFor c (Some ch)) =
       {a \<in> set (cc_Alerts c). \<not> al_Disabled a \<and> al_ID a \<notin> set (ck_SuppressAlertIDs ch) \<and>
          al_Name a \<notin> set (ck_SuppressAlertIDs ch) \<and>
          (al_Default a \<or> (\<exists>w \<in> set (ck_AlertIDs ch). FindAlert c w = Some a))}"
proof -
  have listed: "a \<in> set (listed_alerts c ch) \<longleftrightarrow> (\<exists>w \<in> set (ck_AlertIDs ch). FindAlert c w = Some a)" for a
    by (force simp: listed_alerts_def List.map_filter_def)
  have "set (EffectiveAlertsFor c (Some ch)) =
     {a \<in> set (cc_Alerts c). \<not> al_Disabled a \<and> al_ID a \<notin> set (ck_SuppressAlertIDs ch) \<and>
        al_Name a \<notin> set (ck_SuppressAlertIDs ch) \<and>
        (al_Default a \<or> (\<exists>w \<in> set (ck_AlertIDs ch). FindAlert c w = Some a))}"
    using effective_alerts_complete [OF assms, of _ ch] effective_alerts_sub [of _ c ch]
    unfolding alert_eligible_def listed by blast
  then show ?thesis using effective_alerts_distinct by blast
qed

definition demo_alert :: "string \<Rightarrow> bool \<Rightarrow> Alert" where
  "demo_alert i dflt = zero_Alert\<lparr>al_ID := i, al_Name := ''name-'' @ i, al_Type := AlertDiscord, al_Default := dflt\<rparr>"

definition demo_alerts :: ClusterConfig where
  "demo_alerts = zero_ClusterConfig\<lparr>cc_Alerts := [demo_alert ''1'' True, demo_alert ''2'' False, demo_alert ''3'' True]\<rparr>"

definition demo_check :: Check where
  "demo_check = zero_Check\<lparr>ck_ID := ''c1'', ck_AlertIDs := [''name-2''], ck_SuppressAlertIDs := [''3'']\<rparr>"

lemma demo_alert_simps [simp]:
  "al_Disabled (demo_alert i d) = False" "al_ID (demo_alert i d) = i"
  "al_Name (demo_alert i d) = ''name-'' @ i" "al_Default (demo_alert i d) = d"
  by (simp_all add: demo_alert_def zero_Alert_def)

lemma demo_alerts_simps [simp]:
  "cc_Alerts demo_alerts = [demo_alert ''1'' True, demo_alert ''2'' False, demo_alert ''3'' True]"
  by (simp add: demo_alerts_def)

lemma demo_check_simps [simp]:
  "ck_AlertIDs demo_check = [''name-2'']" "ck_SuppressAlertIDs demo_check = [''3'']"
  by (simp_all add: demo_check_def)

theorem effective_alerts_exact_witness:
  "demo_alert ''1'' True \<in> set (EffectiveAlertsFor demo_alerts (Some demo_check)) \<and>
   demo_alert ''2'' False \<in> set (EffectiveAlertsFor demo_alerts (Some demo_check)) \<and>
   demo_alert ''3'' True \<notin> set (EffectiveAlertsFor demo_alerts (Some demo_check))"
proof -
  have "distinct (map al_ID (cc_Alerts demo_alerts))" by simp
  note exact = conjunct2 [OF effective_alerts_exact [OF this, of demo_check]]
  have find: "FindAlert demo_alerts ''name-2'' = Some (demo_alert ''2'' False)"
    by (simp add: FindAlert_def alert_matches_def)
  show ?thesis unfolding exact by (simp add: find)
qed

text \<open>\<open>Mutate\<close> on every branch. When the edit fails nothing is written and no callback
  fires. When it succeeds the configuration in memory is the edited one with the version one
  higher; on success the file holds it and the hash matches; when the write fails the bumped
  configuration stays in memory while file, hash and callbacks are as if nothing had happened.\<close>

theorem mutate_outcome:
  "let (r, s', cbs) = Mutate L e env byNode fn s in
     (case fn (cs_cfg s) of
        (Some x, c) \<Rightarrow> r = Some x \<and> s' = s\<lparr>cs_cfg := c\<rparr> \<and> cbs = []
      | (None, c) \<Rightarrow>
          cs_cfg s' = c\<lparr>cc_Version := cc_Version c + 1, cc_UpdatedAt := ce_now env, cc_UpdatedBy := byNode\<rparr> \<and>
          (case r of
             None \<Rightarrow> disk_synced L e s' \<and> cbs = cs_onChange s
           | Some x \<Rightarrow> cbs = [] \<and> cs_lastSum s' = cs_lastSum s \<and>
               cs_fs s' (ClusterFilePath e) = cs_fs s (ClusterFilePath e)))"
  by (auto simp: Mutate_cases Let_def bump.simps dest: write_config_synced write_config_frame
        write_config_errD split: prod.split option.split)

text \<open>\<open>Replace\<close> is gated by a strictly greater version: a snapshot with a version at most
  ours changes nothing at all, a newer one becomes the configuration, and in either case the
  version in memory never goes down.\<close>

theorem replace_version_gate:
  "let (r, s', cbs) = Replace L e env incoming s in
     cc_Version (cs_cfg s) \<le> cc_Version (cs_cfg s') \<and>
     (if cc_Version (cs_cfg s) < cc_Version incoming
      then cs_cfg s' = incoming \<and>
        (case r of Inl x \<Rightarrow> cbs = [] \<and> cs_lastSum s' = cs_lastSum s
         | Inr b \<Rightarrow> b \<and> disk_synced L e s' \<and> cbs = cs_onChange s)
      else r = Inr False \<and> s' = s \<and> cbs = [])"
  by (auto simp: Replace_def Let_def fireOnChange_def dest: write_config_synced write_config_frame
        write_config_errD split: prod.split option.split)

text \<open>What a restart reads back: after a successful \<open>Mutate\<close>, \<open>LoadClusterConfig\<close> on the
  resulting file system gives the configuration in memory and the same hash, so the watcher
  does not take the daemon's own write for an edit.\<close>

theorem mutate_then_load:
  assumes yaml: "\<And>c out. yaml_Marshal L c = Inr out \<Longrightarrow> yaml_Unmarshal L out = Inr c"
    and ok: "Mutate L e env byNode fn s = (None, s', cbs)"
  shows "\<exists>s''. LoadClusterConfig L e None (cs_fs s') = Inr s'' \<and> cs_cfg s'' = cs_cfg s' \<and>
     cs_lastSum s'' = cs_lastSum s'"
proof -
  have "disk_synced L e s'"
    using ok by (auto simp: Mutate_cases dest: write_config_synced split: prod.splits option.splits)
  then show ?thesis
    using yaml by (auto simp: disk_synced_def LoadClusterConfig_def split: option.splits)
qed

definition demo_codec :: "ClusterConfig \<Rightarrow> codec" where
  "demo_codec c0 = \<lparr>yaml_Marshal = (\<lambda>c. if c = c0 then Inr ''yaml'' else Inl (ErrLib ''yaml'')),
     yaml_Unmarshal = (\<lambda>s. if s = ''yaml'' then Inr c0 else Inl (ErrLib ''yaml'')),
     sha256 = (\<lambda>s. s)\<rparr>"

definition demo_env :: os_env where
  "demo_env = \<lparr>Getenv = (\<lambda>_. []), Geteuid = 0, UserHomeDir = None, TempDir = ''/tmp'', Stat_ok = (\<lambda>_. False)\<rparr>"

definition demo_call :: call_env where
  "demo_call = \<lparr>ce_now = 7, ce_write = io_good\<rparr>"

definition demo_state :: cfg_state where
  "demo_state = \<lparr>cs_cfg = zero_ClusterConfig, cs_lastSum = zero_sum, cs_onChange = [1], cs_fs = (\<lambda>_. None)\<rparr>"

theorem mutate_then_load_witness:
  "\<exists>s' s''. Mutate (demo_codec (bump demo_call ''a'' zero_ClusterConfig)) demo_env demo_call ''a''
        (\<lambda>c. (None, c)) demo_state = (None, s', [1]) \<and>
     LoadClusterConfig (demo_codec (bump demo_call ''a'' zero_ClusterConfig)) demo_env None (cs_fs s') = Inr s'' \<and>
     cs_cfg s'' = cs_cfg s'"
proof -
  let ?L = "demo_codec (bump demo_call ''a'' zero_ClusterConfig)"
  have ok: "\<exists>s'. Mutate ?L demo_env demo_call ''a'' (\<lambda>c. (None, c)) demo_state = (None, s', [1])"
    using write_config_good [of demo_call ?L "demo_state\<lparr>cs_cfg := bump demo_call ''a'' zero_ClusterConfig\<rparr>"
        "''yaml''" demo_env]
    by (auto simp: Mutate_cases demo_call_def demo_codec_def demo_state_def)
  have yaml: "yaml_Marshal ?L c = Inr out \<Longrightarrow> yaml_Unmarshal ?L out = Inr c" for c out
    by (auto simp: demo_codec_def split: if_splits)
  from ok obtain s' where s': "Mutate ?L demo_env demo_call ''a'' (\<lambda>c. (None, c)) demo_state = (None, s', [1])"
    by blast
  from mutate_then_load [of ?L, OF yaml s'] s' show ?thesis by blast
qed

text \<open>Any two sets of members that each reach \<open>QuorumSize\<close> share a member.\<close>

theorem quorum_size_intersects:
  assumes "A \<subseteq> pi_NodeID ` set (cc_Peers c)" and "B \<subseteq> pi_NodeID ` set (cc_Peers c)"
    and "QuorumSize c \<le> card A" and "QuorumSize c \<le> card B"
  shows "A \<inter> B \<noteq> {}"
proof
  assume "A \<inter> B = {}"
  have fin: "finite A" "finite B" using assms(1,2) by (auto intro: finite_subset)
  have "card A + card B = card (A \<union> B)" using fin \<open>A \<inter> B = {}\<close> by (simp add: card_Un_disjoint)
  also have "\<dots> \<le> card (pi_NodeID ` set (cc_Peers c))" using assms(1,2) by (intro card_mono) auto
  also have "\<dots> \<le> length (cc_Peers c)" by (metis card_length length_map set_map)
  finally show False using assms(3,4) by (auto simp: QuorumSize_def Let_def split: if_splits)
qed

definition demo_peer :: "string \<Rightarrow> PeerInfo" where
  "demo_peer i = \<lparr>pi_NodeID = i, pi_Advertise = i @ '':9901'', pi_Fingerprint = ''fp-'' @ i, pi_CertPEM = ''pem-'' @ i\<rparr>"

definition demo_cluster :: ClusterConfig where
  "demo_cluster = zero_ClusterConfig\<lparr>cc_Version := 1,
     cc_Peers := [demo_peer ''a'', demo_peer ''b'', demo_peer ''c'']\<rparr>"

theorem quorum_size_intersects_witness:
  "{''a'', ''b''} \<inter> {''b'', ''c''} \<noteq> {} \<and> QuorumSize demo_cluster = 2"
proof -
  have "{''a'', ''b''} \<inter> {''b'', ''c''} \<noteq> ({} :: string set)"
    by (rule quorum_size_intersects [of _ demo_cluster])
       (simp_all add: demo_cluster_def demo_peer_def QuorumSize_def)
  then show ?thesis by (simp add: demo_cluster_def QuorumSize_def)
qed

end
