(* ===== verification/Messages.thy ===== *)
theory Messages
  imports Config
begin

text \<open>
  \<open>internal/transport/messages.go\<close>: the request and response types of the RPC methods. Uint64
  fields are 64-bit words, \<open>json.RawMessage\<close> is a string, pointers are options, and an \<open>Error\<close>
  string field is empty when there is no error. The request types without a field
  (\<open>PingRequest\<close>, \<open>WhoAmIRequest\<close>, \<open>GetClusterCfgRequest\<close>, \<open>StatusRequest\<close>) carry nothing and
  have no record.
\<close>

section \<open>Method names\<close>

definition MethodPing :: string where [tag_defs]: "MethodPing = ''Ping''"
definition MethodWhoAmI :: string where [tag_defs]: "MethodWhoAmI = ''WhoAmI''"
definition MethodJoin :: string where [tag_defs]: "MethodJoin = ''Join''"
definition MethodEnroll :: string where [tag_defs]: "MethodEnroll = ''Enroll''"
definition MethodHeartbeat :: string where [tag_defs]: "MethodHeartbeat = ''Heartbeat''"
definition MethodGetClusterCfg :: string where [tag_defs]: "MethodGetClusterCfg = ''GetClusterCfg''"
definition MethodApplyClusterCfg :: string where [tag_defs]: "MethodApplyClusterCfg = ''ApplyClusterCfg''"
definition MethodProposeMutation :: string where [tag_defs]: "MethodProposeMutation = ''ProposeMutation''"
definition MethodReportResult :: string where [tag_defs]: "MethodReportResult = ''ReportResult''"
definition MethodStatus :: string where [tag_defs]: "MethodStatus = ''Status''"

section \<open>Payloads\<close>

record PingResponse =
  pr_NodeID :: string
  pr_Now :: gotime

record WhoAmIResponse =
  wr_NodeID :: string
  wr_Advertise :: string
  wr_Fingerprint :: string
  wr_CertPEM :: string

record JoinRequest =
  jr_NodeID :: string
  jr_Advertise :: string
  jr_Fingerprint :: string
  jr_CertPEM :: string
  jr_ClusterSecret :: string

record JoinResponse =
  jp_Accepted :: bool
  jp_Error :: string

record EnrollRequest =
  er_TokenID :: string
  er_TokenSecret :: string
  er_NodeID :: string
  er_Advertise :: string
  er_Fingerprint :: string
  er_CertPEM :: string

record EnrolledPeer =
  ep_NodeID :: string
  ep_Advertise :: string
  ep_Fingerprint :: string
  ep_CertPEM :: string

record enrollClusterSummary =
  es_Peers :: "EnrolledPeer list"

record EnrollResponse =
  en_Accepted :: bool
  en_Pending :: bool
  en_Error :: string
  en_Cluster :: "enrollClusterSummary option"

definition NewEnrollSummary :: "EnrolledPeer list \<Rightarrow> enrollClusterSummary option" where
  "NewEnrollSummary peers = Some \<lparr>es_Peers = peers\<rparr>"

definition EnrollSummaryPeers :: "enrollClusterSummary option \<Rightarrow> EnrolledPeer list" where
  "EnrollSummaryPeers s = (case s of None \<Rightarrow> [] | Some x \<Rightarrow> es_Peers x)"

record HeartbeatRequest =
  hq_FromNodeID :: string
  hq_Advertise :: string
  hq_Term :: "64 word"
  hq_MasterID :: string
  hq_Version :: "64 word"

record HeartbeatResponse =
  hr_NodeID :: string
  hr_Advertise :: string
  hr_Term :: "64 word"
  hr_MasterID :: string
  hr_Version :: "64 word"

record GetClusterCfgResponse =
  gr_Config :: "ClusterConfig option"

record ApplyClusterCfgRequest =
  aq_Config :: "ClusterConfig option"

record ApplyClusterCfgResponse =
  ar_Applied :: bool
  ar_Version :: "64 word"

text \<open>\<open>MutationKind\<close> is a string type: a request can carry a kind that is none of the constants.\<close>

datatype MutationKind =
    MutationAddCheck
  | MutationRemoveCheck
  | MutationAddAlert
  | MutationRemoveAlert
  | MutationAddPeer
  | MutationRemovePeer
  | MutationReplaceConfig
  | MutationAddEnrollment
  | MutationRemoveEnrollment
  | MutationRecordEnrollPending
  | MutationApproveEnrollment
  | MutationSetResolvers
  | MutationOther string

record ProposeMutationRequest =
  mq_FromNodeID :: string
  mq_Kind :: MutationKind
  mq_Payload :: string

record ProposeMutationResponse =
  mr_NewVersion :: "64 word"
  mr_Error :: "err option"

record ReportResultRequest =
  rq_FromNodeID :: string
  rq_CheckID :: string
  rq_OK :: bool
  rq_Detail :: string
  rq_LatencyMS :: int
  rq_At :: gotime

record PeerLiveness =
  pl_NodeID :: string
  pl_Advertise :: string
  pl_Live :: bool
  pl_LastSeen :: gotime

record CheckSnapshot =
  cs_CheckID :: string
  cs_Name :: string
  cs_State :: string
  cs_OKCount :: nat
  cs_Total :: nat
  cs_Detail :: string
  cs_Disabled :: bool
  cs_Alerts :: "string list"

record StatusResponse =
  sr_NodeID :: string
  sr_Term :: "64 word"
  sr_MasterID :: string
  sr_Version :: "64 word"
  sr_Peers :: "PeerLiveness list"
  sr_Checks :: "CheckSnapshot list"
  sr_HasQuorum :: bool
  sr_QuorumSize :: nat

lemma EnrollSummaryPeers_New [simp]: "EnrollSummaryPeers (NewEnrollSummary ps) = ps"
  by (simp add: EnrollSummaryPeers_def NewEnrollSummary_def)

end
