(* ===== verification/Replicate.thy ===== *)
theory Replicate
  imports Messages
begin

text \<open>
  \<open>internal/replicate/replicator.go\<close>: how changes of the cluster configuration are routed,
  applied and spread. The twelve cases of the switch in \<open>applyLocally\<close> are one definition each
  (\<open>apply_add_check\<close> and so on), an \<open>edit\<close> of the configuration given the decoded payload;
  \<open>apply_mutation\<close> is the switch. \<open>json.Unmarshal\<close> into each payload type is a field of the
  parameter record \<open>json_codec\<close>. What the quorum manager answers is the record \<open>master_view\<close>,
  the interface \<open>MasterView\<close> of the source; a remote call is a function from its arguments to its
  result. The \<open>Error\<close> string of a proposal's answer is the error itself.
\<close>

section \<open>Interfaces\<close>

record master_view =
  mv_Master :: string
  mv_IsMaster :: bool
  mv_HasQuorum :: bool

record json_codec =
  js_Check :: "string \<Rightarrow> err + Check"
  js_Alert :: "string \<Rightarrow> err + Alert"
  js_Peer :: "string \<Rightarrow> err + PeerInfo"
  js_Target :: "string \<Rightarrow> err + string"
  js_Config :: "string \<Rightarrow> err + ClusterConfig"
  js_Enrollment :: "string \<Rightarrow> err + PendingEnrollment"
  js_RecordPending :: "string \<Rightarrow> err + (string \<times> PendingJoin option)"
  js_Resolvers :: "string \<Rightarrow> err + string list"

text \<open>\<open>if err := json.Unmarshal(payload, &v); err != nil { return fmt.Errorf("decode ...: %w", err) }\<close>\<close>

definition decode :: "string \<Rightarrow> (string \<Rightarrow> err + 'a) \<Rightarrow> string \<Rightarrow> ('a \<Rightarrow> edit) \<Rightarrow> edit" where
  "decode what js payload body c =
     (case js payload of Inl e \<Rightarrow> (Some (ErrWrap (''decode '' @ what) e), c) | Inr v \<Rightarrow> body v c)"

section \<open>The edits\<close>

definition apply_add_check :: "Check \<Rightarrow> edit" where
  "apply_add_check ch c =
     (if ck_ID ch = [] \<or> ck_Name ch = [] then (Some (ErrMsg ''check needs id and name''), c)
      else (None, c\<lparr>cc_Checks := upsert (\<lambda>x. ck_ID x = ck_ID ch \<or> ck_Name x = ck_Name ch) ch (cc_Checks c)\<rparr>))"

definition apply_remove_check :: "string \<Rightarrow> edit" where
  "apply_remove_check target c =
     (case remove_first (\<lambda>x. ck_ID x = target \<or> ck_Name x = target) (cc_Checks c) of
        Some xs \<Rightarrow> (None, c\<lparr>cc_Checks := xs\<rparr>)
      | None \<Rightarrow> (Some (ErrNotFound ''no such check'' target), c))"

definition apply_add_alert :: "Alert \<Rightarrow> edit" where
  "apply_add_alert a c =
     (if al_ID a = [] \<or> al_Name a = [] then (Some (ErrMsg ''alert needs id and name''), c)
      else (None, c\<lparr>cc_Alerts := upsert (\<lambda>x. al_ID x = al_ID a \<or> al_Name x = al_Name a) a (cc_Alerts c)\<rparr>))"

definition apply_remove_alert :: "string \<Rightarrow> edit" where
  "apply_remove_alert target c =
     (case remove_first (\<lambda>x. al_ID x = target \<or> al_Name x = target) (cc_Alerts c) of
        Some xs \<Rightarrow> (None, c\<lparr>cc_Alerts := xs\<rparr>)
      | None \<Rightarrow> (Some (ErrNotFound ''no such alert'' target), c))"

definition apply_add_peer :: "PeerInfo \<Rightarrow> edit" where
  "apply_add_peer p c =
     (if pi_NodeID p = [] then (Some (ErrMsg ''peer needs node_id''), c)
      else (None, c\<lparr>cc_Peers := upsert (\<lambda>x. pi_NodeID x = pi_NodeID p) p (cc_Peers c)\<rparr>))"

definition apply_remove_peer :: "string \<Rightarrow> edit" where
  "apply_remove_peer target c =
     (case remove_first (\<lambda>x. pi_NodeID x = target) (cc_Peers c) of
        Some xs \<Rightarrow> (None, c\<lparr>cc_Peers := xs\<rparr>)
      | None \<Rightarrow> (Some (ErrNotFound ''no such peer'' target), c))"

definition apply_replace_config :: "ClusterConfig \<Rightarrow> edit" where
  "apply_replace_config incoming c =
     (None, c\<lparr>cc_Peers := cc_Peers incoming, cc_Checks := cc_Checks incoming,
              cc_Alerts := cc_Alerts incoming, cc_Resolvers := cc_Resolvers incoming\<rparr>)"

definition apply_add_enrollment :: "PendingEnrollment \<Rightarrow> edit" where
  "apply_add_enrollment e c =
     (if pe_ID e = [] \<or> pe_SecretHash e = [] then (Some (ErrMsg ''enrollment needs id and secret_hash''), c)
      else (None, c\<lparr>cc_PendingEnrollments := upsert (\<lambda>x. pe_ID x = pe_ID e) e (cc_PendingEnrollments c)\<rparr>))"

definition apply_remove_enrollment :: "string \<Rightarrow> edit" where
  "apply_remove_enrollment target c =
     (case remove_first (enrollment_matches target) (cc_PendingEnrollments c) of
        Some xs \<Rightarrow> (None, c\<lparr>cc_PendingEnrollments := xs\<rparr>)
      | None \<Rightarrow> (Some (ErrNotFound ''no such enrollment'' target), c))"

definition apply_record_pending :: "string \<times> PendingJoin option \<Rightarrow> edit" where
  "apply_record_pending body c =
     (case body of (ident, pj) \<Rightarrow>
      if ident = [] \<or> pj = None then (Some (ErrMsg ''record-pending needs id and pending_join''), c)
      else (case modify_first (\<lambda>x. pe_ID x = ident) (\<lambda>x. x\<lparr>pe_PendingJoin := pj\<rparr>) (cc_PendingEnrollments c) of
              Some xs \<Rightarrow> (None, c\<lparr>cc_PendingEnrollments := xs\<rparr>)
            | None \<Rightarrow> (Some (ErrNotFound ''no such enrollment'' ident), c)))"

definition apply_set_resolvers :: "string list \<Rightarrow> edit" where
  "apply_set_resolvers rs c =
     (None, c\<lparr>cc_Resolvers := filter (\<lambda>s. s \<noteq> []) (map TrimSpace rs)\<rparr>)"

definition peer_of_join :: "PendingJoin \<Rightarrow> PeerInfo" where
  "peer_of_join pj = \<lparr>pi_NodeID = pj_NodeID pj, pi_Advertise = pj_Advertise pj,
     pi_Fingerprint = pj_Fingerprint pj, pi_CertPEM = pj_CertPEM pj\<rparr>"

definition apply_approve :: "string \<Rightarrow> edit" where
  "apply_approve target c =
     (case List.find (enrollment_matches target) (cc_PendingEnrollments c) of
        None \<Rightarrow> (Some (ErrNotFound ''no such enrollment'' target), c)
      | Some e \<Rightarrow>
         (case pe_PendingJoin e of
            None \<Rightarrow> (Some (ErrMsg (''enrollment '' @ Quote target @ '' has no pending join to approve'')), c)
          | Some pj \<Rightarrow>
             (let peer = peer_of_join pj in
              (None, c\<lparr>cc_Peers := upsert (\<lambda>x. pi_NodeID x = pi_NodeID peer) peer (cc_Peers c),
                       cc_PendingEnrollments :=
                         (case remove_first (enrollment_matches target) (cc_PendingEnrollments c) of
                            Some xs \<Rightarrow> xs | None \<Rightarrow> cc_PendingEnrollments c)\<rparr>))))"

definition apply_mutation :: "json_codec \<Rightarrow> MutationKind \<Rightarrow> string \<Rightarrow> edit" where
  "apply_mutation J kind payload =
     (case kind of
        MutationAddCheck \<Rightarrow> decode ''check'' (js_Check J) payload apply_add_check
      | MutationRemoveCheck \<Rightarrow> decode ''target'' (js_Target J) payload apply_remove_check
      | MutationAddAlert \<Rightarrow> decode ''alert'' (js_Alert J) payload apply_add_alert
      | MutationRemoveAlert \<Rightarrow> decode ''target'' (js_Target J) payload apply_remove_alert
      | MutationAddPeer \<Rightarrow> decode ''peer'' (js_Peer J) payload apply_add_peer
      | MutationReplaceConfig \<Rightarrow> decode ''replace_config'' (js_Config J) payload apply_replace_config
      | MutationRemovePeer \<Rightarrow> decode ''target'' (js_Target J) payload apply_remove_peer
      | MutationAddEnrollment \<Rightarrow> decode ''enrollment'' (js_Enrollment J) payload apply_add_enrollment
      | MutationRemoveEnrollment \<Rightarrow> decode ''target'' (js_Target J) payload apply_remove_enrollment
      | MutationRecordEnrollPending \<Rightarrow> decode ''record-pending'' (js_RecordPending J) payload apply_record_pending
      | MutationSetResolvers \<Rightarrow> decode ''resolvers'' (js_Resolvers J) payload apply_set_resolvers
      | MutationApproveEnrollment \<Rightarrow> decode ''target'' (js_Target J) payload apply_approve
      | MutationOther k \<Rightarrow> (\<lambda>c. (Some (ErrNotFound ''unknown mutation kind'' k), c)))"

section \<open>Routing and spreading\<close>

definition applyLocally ::
  "json_codec \<Rightarrow> codec \<Rightarrow> os_env \<Rightarrow> call_env \<Rightarrow> string \<Rightarrow> MutationKind \<Rightarrow> string \<Rightarrow> cfg_state \<Rightarrow>
     (err + 64 word) \<times> cfg_state \<times> callback list" where
  "applyLocally J L e env selfID kind payload s =
     (case Mutate L e env selfID (apply_mutation J kind payload) s of
        (Some x, s', cbs) \<Rightarrow> (Inl x, s', cbs)
      | (None, s', cbs) \<Rightarrow> (Inr (cc_Version (Snapshot s')), s', cbs))"

text \<open>\<open>broadcast\<close>: the calls it starts, one goroutine each.\<close>

definition broadcast :: "string \<Rightarrow> cfg_state \<Rightarrow> (string \<times> string \<times> ApplyClusterCfgRequest) list" where
  "broadcast selfID s =
     (let snap = Snapshot s in
      map (\<lambda>p. (pi_NodeID p, pi_Advertise p, \<lparr>aq_Config = Some snap\<rparr>))
        (filter (\<lambda>p. \<not> (pi_NodeID p = selfID \<or> pi_NodeID p = [] \<or> pi_Advertise p = [])) (cc_Peers snap)))"

definition addressOf :: "string \<Rightarrow> cfg_state \<Rightarrow> string" where
  "addressOf nodeID s =
     (case List.find (\<lambda>p. pi_NodeID p = nodeID) (cc_Peers (Snapshot s)) of
        Some p \<Rightarrow> pi_Advertise p | None \<Rightarrow> [])"

definition LocalMutate ::
  "json_codec \<Rightarrow> codec \<Rightarrow> os_env \<Rightarrow> call_env \<Rightarrow> string \<Rightarrow> master_view \<Rightarrow>
     (string \<Rightarrow> string \<Rightarrow> ProposeMutationRequest \<Rightarrow> err + ProposeMutationResponse) \<Rightarrow>
     MutationKind \<Rightarrow> err + string \<Rightarrow> cfg_state \<Rightarrow>
     (err + 64 word) \<times> cfg_state \<times> callback list \<times> (string \<times> string \<times> ApplyClusterCfgRequest) list" where
  "LocalMutate J L e env selfID mv rpc kind marshalled s =
     (if \<not> mv_HasQuorum mv then (Inl (ErrMsg ''no quorum: refusing mutation''), s, [], [])
      else case marshalled of
        Inl x \<Rightarrow> (Inl (ErrWrap ''marshal payload'' x), s, [], [])
      | Inr raw \<Rightarrow>
         (if mv_IsMaster mv then
            (case applyLocally J L e env selfID kind raw s of
               (Inl x, s', cbs) \<Rightarrow> (Inl x, s', cbs, [])
             | (Inr v, s', cbs) \<Rightarrow> (Inr v, s', cbs, broadcast selfID s'))
          else
            (let masterID = mv_Master mv in
             if masterID = [] then (Inl (ErrMsg ''master unknown''), s, [], [])
             else
               (let addr = addressOf masterID s in
                if addr = [] then (Inl (ErrMsg (''master '' @ masterID @ '' has no advertise address'')), s, [], [])
                else
                  (case rpc masterID addr \<lparr>mq_FromNodeID = selfID, mq_Kind = kind, mq_Payload = raw\<rparr> of
                     Inl x \<Rightarrow> (Inl (ErrWrap ''propose to master'' x), s, [], [])
                   | Inr resp \<Rightarrow>
                      (case mr_Error resp of
                         Some x \<Rightarrow> (Inl x, s, [], [])
                       | None \<Rightarrow> (Inr (mr_NewVersion resp), s, [], [])))))))"

definition HandleProposeMutation ::
  "json_codec \<Rightarrow> codec \<Rightarrow> os_env \<Rightarrow> call_env \<Rightarrow> string \<Rightarrow> master_view \<Rightarrow> ProposeMutationRequest \<Rightarrow> cfg_state \<Rightarrow>
     ProposeMutationResponse \<times> cfg_state \<times> callback list \<times> (string \<times> string \<times> ApplyClusterCfgRequest) list" where
  "HandleProposeMutation J L e env selfID mv req s =
     (if \<not> mv_IsMaster mv then (\<lparr>mr_NewVersion = 0, mr_Error = Some (ErrMsg ''not master'')\<rparr>, s, [], [])
      else if \<not> mv_HasQuorum mv then (\<lparr>mr_NewVersion = 0, mr_Error = Some (ErrMsg ''no quorum'')\<rparr>, s, [], [])
      else
        (case applyLocally J L e env selfID (mq_Kind req) (mq_Payload req) s of
           (Inl x, s', cbs) \<Rightarrow> (\<lparr>mr_NewVersion = 0, mr_Error = Some x\<rparr>, s', cbs, [])
         | (Inr v, s', cbs) \<Rightarrow> (\<lparr>mr_NewVersion = v, mr_Error = None\<rparr>, s', cbs, broadcast selfID s')))"

definition HandleApplyClusterCfg ::
  "codec \<Rightarrow> os_env \<Rightarrow> call_env \<Rightarrow> ApplyClusterCfgRequest \<Rightarrow> cfg_state \<Rightarrow>
     ApplyClusterCfgResponse \<times> cfg_state \<times> callback list" where
  "HandleApplyClusterCfg L e env req s =
     (let (applied, s', cbs) =
        (case aq_Config req of
           None \<Rightarrow> (False, s, [])
         | Some cfg \<Rightarrow>
            (case Replace L e env cfg s of
               (Inr True, s', cbs) \<Rightarrow> (True, s', cbs)
             | (_, s', cbs) \<Rightarrow> (False, s', cbs)))
      in (\<lparr>ar_Applied = applied, ar_Version = cc_Version (Snapshot s')\<rparr>, s', cbs))"

definition HandleGetClusterCfg :: "cfg_state \<Rightarrow> GetClusterCfgResponse" where
  "HandleGetClusterCfg s = \<lparr>gr_Config = Some (Snapshot s)\<rparr>"

definition PullFrom ::
  "codec \<Rightarrow> os_env \<Rightarrow> call_env \<Rightarrow> (string \<Rightarrow> string \<Rightarrow> err + GetClusterCfgResponse) \<Rightarrow> string \<Rightarrow> string \<Rightarrow> cfg_state \<Rightarrow>
     err option \<times> cfg_state \<times> callback list" where
  "PullFrom L e env rpc peerID addr s =
     (if peerID = [] \<or> addr = [] then (Some (ErrMsg ''pull: empty peer''), s, [])
      else case rpc peerID addr of
        Inl x \<Rightarrow> (Some (ErrWrap (''pull from '' @ peerID) x), s, [])
      | Inr resp \<Rightarrow>
         (case gr_Config resp of
            None \<Rightarrow> (Some (ErrMsg ''pull: empty config''), s, [])
          | Some cfg \<Rightarrow>
             (case Replace L e env cfg s of
                (Inl x, s', cbs) \<Rightarrow> (Some x, s', cbs)
              | (Inr _, s', cbs) \<Rightarrow> (None, s', cbs))))"

section \<open>Lemmas on the edits\<close>

named_theorems apply_defs \<open>the edits\<close>

lemmas [apply_defs] = apply_add_check_def apply_remove_check_def apply_add_alert_def
  apply_remove_alert_def apply_add_peer_def apply_remove_peer_def apply_replace_config_def
  apply_add_enrollment_def apply_remove_enrollment_def apply_record_pending_def
  apply_set_resolvers_def apply_approve_def

text \<open>What every edit shares: on an error the configuration is untouched, and the version fields
  are left to \<open>Mutate\<close>.\<close>

definition tame :: "edit \<Rightarrow> bool" where
  "tame f \<longleftrightarrow> (\<forall>c. (fst (f c) \<noteq> None \<longrightarrow> snd (f c) = c) \<and> cc_Version (snd (f c)) = cc_Version c \<and>
     cc_UpdatedAt (snd (f c)) = cc_UpdatedAt c \<and> cc_UpdatedBy (snd (f c)) = cc_UpdatedBy c)"

lemma tame_decode: "(\<And>v. tame (body v)) \<Longrightarrow> tame (decode what js payload body)"
  by (simp add: tame_def decode_def split: sum.split)

lemma tame_edits:
  "tame (apply_add_check ch)" "tame (apply_remove_check t)" "tame (apply_add_alert a)"
  "tame (apply_remove_alert t)" "tame (apply_add_peer p)" "tame (apply_remove_peer t)"
  "tame (apply_replace_config inc)" "tame (apply_add_enrollment en)" "tame (apply_remove_enrollment t)"
  "tame (apply_record_pending b)" "tame (apply_set_resolvers rs)" "tame (apply_approve t)"
  by (auto simp: tame_def apply_defs Let_def split: option.split prod.split)

lemma tame_mutation: "tame (apply_mutation J kind payload)"
  unfolding apply_mutation_def
  by (cases kind) (auto intro!: tame_decode tame_edits, simp_all add: tame_def)

lemma mutation_error: "fst (apply_mutation J kind payload c) = Some x \<Longrightarrow> snd (apply_mutation J kind payload c) = c"
  using tame_mutation [of J kind payload] by (auto simp: tame_def)

lemma mutation_version: "cc_Version (snd (apply_mutation J kind payload c)) = cc_Version c"
  using tame_mutation [of J kind payload] by (simp add: tame_def)

section \<open>Tables\<close>

interpretation peers: keyed_table pi_NodeID "row_get pi_NodeID" "row_put pi_NodeID" "row_del pi_NodeID"
    "\<lambda>xs. distinct (map pi_NodeID xs)"
  by (rule row_table)

interpretation enrollments: keyed_table pe_ID "row_get pe_ID" "row_put pe_ID" "row_del pe_ID"
    "\<lambda>xs. distinct (map pe_ID xs)"
  by (rule row_table)

text \<open>Membership and enrollment tokens are tables: one row per node ID, one row per token ID.\<close>

definition cfg_wf :: "ClusterConfig \<Rightarrow> bool" where
  "cfg_wf c \<longleftrightarrow> distinct (map pi_NodeID (cc_Peers c)) \<and> distinct (map pe_ID (cc_PendingEnrollments c))"

lemma cfg_wf_zero [simp]: "cfg_wf zero_ClusterConfig"
  by (simp add: cfg_wf_def zero_ClusterConfig_def)

definition edit_wf :: "edit \<Rightarrow> bool" where
  "edit_wf f \<longleftrightarrow> (\<forall>c. cfg_wf c \<longrightarrow> cfg_wf (snd (f c)))"

lemma edit_wf_decode: "(\<And>v. js payload = Inr v \<Longrightarrow> edit_wf (body v)) \<Longrightarrow> edit_wf (decode what js payload body)"
  by (auto simp: edit_wf_def decode_def split: sum.split)

lemma edit_wf_edits:
  "edit_wf (apply_add_check ch)" "edit_wf (apply_remove_check t)" "edit_wf (apply_add_alert a)"
  "edit_wf (apply_remove_alert t)" "edit_wf (apply_add_peer p)" "edit_wf (apply_remove_peer t)"
  "edit_wf (apply_add_enrollment en)" "edit_wf (apply_remove_enrollment t)"
  "edit_wf (apply_set_resolvers rs)"
  by (auto simp: edit_wf_def cfg_wf_def apply_defs row_distinct_upsert dest: distinct_remove_first split: option.split)

lemma edit_wf_record: "edit_wf (apply_record_pending b)"
  by (auto simp: edit_wf_def cfg_wf_def apply_record_pending_def dest!: modify_first_map [where g = pe_ID]
      split: option.split prod.split)

lemma edit_wf_approve: "edit_wf (apply_approve t)"
  by (auto simp: edit_wf_def cfg_wf_def apply_approve_def Let_def row_distinct_upsert
      dest: distinct_remove_first split: option.split)

lemma edit_wf_replace: "distinct (map pi_NodeID (cc_Peers inc)) \<Longrightarrow> edit_wf (apply_replace_config inc)"
  by (simp add: edit_wf_def cfg_wf_def apply_replace_config_def)

text \<open>A mutation that can be applied to a well-formed configuration: only a wholesale replacement
  brings peers of its own.\<close>

definition payload_ok :: "json_codec \<Rightarrow> MutationKind \<Rightarrow> string \<Rightarrow> bool" where
  "payload_ok J kind payload =
     (if kind = MutationReplaceConfig
      then (case js_Config J payload of Inl e \<Rightarrow> True | Inr inc \<Rightarrow> distinct (map pi_NodeID (cc_Peers inc)))
      else True)"

lemma edit_wf_mutation: "payload_ok J kind payload \<Longrightarrow> edit_wf (apply_mutation J kind payload)"
  unfolding apply_mutation_def payload_ok_def
  by (cases kind) (auto intro!: edit_wf_decode edit_wf_edits edit_wf_record edit_wf_approve edit_wf_replace,
      simp_all add: edit_wf_def)

section \<open>One replica over time\<close>

text \<open>What can change the configuration a node holds: a mutation applied here (we are master), and a
  snapshot that arrives, by broadcast or by pull.\<close>

datatype rep_event =
    RMutate call_env MutationKind string
  | RApply call_env ClusterConfig

fun rep_step :: "json_codec \<Rightarrow> codec \<Rightarrow> os_env \<Rightarrow> string \<Rightarrow> rep_event \<Rightarrow> cfg_state \<Rightarrow> cfg_state" where
  "rep_step J L e selfID (RMutate env kind payload) s = fst (snd (applyLocally J L e env selfID kind payload s))"
| "rep_step J L e selfID (RApply env cfg) s = fst (snd (Replace L e env cfg s))"

fun rep_ok :: "json_codec \<Rightarrow> rep_event \<Rightarrow> cfg_state \<Rightarrow> bool" where
  "rep_ok J (RMutate env kind payload) s \<longleftrightarrow> payload_ok J kind payload \<and> cc_Version (cs_cfg s) \<noteq> - 1"
| "rep_ok J (RApply env cfg) s \<longleftrightarrow> cfg_wf cfg"

lemma applyLocally_cfg:
  "cs_cfg (fst (snd (applyLocally J L e env selfID kind payload s))) =
     (case apply_mutation J kind payload (cs_cfg s) of (Some x, c) \<Rightarrow> cs_cfg s | (None, c) \<Rightarrow> bump env selfID c)"
proof -
  have "cs_cfg (fst (snd (applyLocally J L e env selfID kind payload s))) =
      cs_cfg (fst (snd (Mutate L e env selfID (apply_mutation J kind payload) s)))"
    by (simp add: applyLocally_def split: prod.split option.split)
  then show ?thesis
    using mutation_error [of J kind payload "cs_cfg s"] by (auto simp: Mutate_cfg split: prod.split option.split)
qed

lemma cfg_wf_bump [simp]: "cfg_wf (bump env n c) = cfg_wf c"
  by (simp add: cfg_wf_def bump.simps)

lemma Suc_word_gt: "v \<noteq> - 1 \<Longrightarrow> v < v + (1 :: 64 word)"
  using inc_less_eq_self_iff_eq [of v] by (simp add: not_le [symmetric])

interpretation replica: monotone_component "rep_step J L e selfID" "rep_ok J" "\<lambda>s. cfg_wf (cs_cfg s)"
    "\<lambda>s. cc_Version (cs_cfg s)"
proof (unfold_locales, goal_cases)
  case (1 s ev)
  then show ?case
    using edit_wf_mutation
    by (cases ev) (fastforce simp: applyLocally_cfg Replace_cfg edit_wf_def split: prod.split option.split)+
next
  case (2 s ev)
  show ?case
  proof (cases ev)
    case (RMutate env kind payload)
    with 2 have "cc_Version (cs_cfg s) < cc_Version (cs_cfg s) + 1" by (simp add: Suc_word_gt)
    then show ?thesis
      using RMutate mutation_version [of J kind payload "cs_cfg s"]
      by (auto simp: applyLocally_cfg bump.simps split: prod.split option.split)
  next
    case (RApply env cfg)
    then show ?thesis by (auto simp: Replace_cfg)
  qed
qed

section \<open>Properties\<close>

definition demo_join :: PendingJoin where
  "demo_join = \<lparr>pj_NodeID = ''d'', pj_Advertise = ''d:9901'', pj_Fingerprint = ''fp-d'', pj_CertPEM = ''pem-d'', pj_SubmittedAt = 5\<rparr>"

definition demo_enrollment :: PendingEnrollment where
  "demo_enrollment = \<lparr>pe_ID = ''t1'', pe_Name = ''rack'', pe_SecretHash = ''sha256:00'', pe_AutoApprove = False,
     pe_CreatedBy = ''a'', pe_CreatedAt = 1, pe_ExpiresAt = 100, pe_PendingJoin = Some demo_join\<rparr>"

definition demo_json :: json_codec where
  "demo_json = \<lparr>js_Check = (\<lambda>s. Inr (zero_Check\<lparr>ck_ID := s, ck_Name := s\<rparr>)),
     js_Alert = (\<lambda>s. Inr (zero_Alert\<lparr>al_ID := s, al_Name := s\<rparr>)), js_Peer = (\<lambda>s. Inr (demo_peer s)),
     js_Target = Inr, js_Config = (\<lambda>_. Inl (ErrLib ''json'')), js_Enrollment = (\<lambda>_. Inr demo_enrollment),
     js_RecordPending = (\<lambda>s. Inr (s, Some demo_join)), js_Resolvers = (\<lambda>s. Inr [s])\<rparr>"

definition demo_members :: cfg_state where
  "demo_members = demo_state\<lparr>cs_cfg := demo_cluster\<lparr>cc_PendingEnrollments := [demo_enrollment]\<rparr>\<rparr>"

lemma Mutate_error_frame:
  "fn (cs_cfg s) = (Some x, c) \<Longrightarrow> c = cs_cfg s \<Longrightarrow> Mutate L e env n fn s = (Some x, s, [])"
  by (simp add: Mutate_cases)

lemma applyLocally_error:
  "fst (apply_mutation J kind payload (cs_cfg s)) = Some x \<Longrightarrow>
     applyLocally J L e env selfID kind payload s = (Inl x, s, [])"
  using Mutate_error_frame [of "apply_mutation J kind payload" s x] mutation_error [of J kind payload "cs_cfg s" x]
  by (cases "apply_mutation J kind payload (cs_cfg s)") (simp add: applyLocally_def)

lemma applyLocally_okD:
  assumes "applyLocally J L e env selfID kind payload s = (Inr v, s', cbs)"
  shows "\<exists>c. apply_mutation J kind payload (cs_cfg s) = (None, c) \<and> cs_cfg s' = bump env selfID c \<and>
    v = cc_Version (cs_cfg s) + 1 \<and> cc_Version (cs_cfg s') = v \<and> cbs = cs_onChange s \<and> disk_synced L e s'"
proof -
  obtain c where c: "apply_mutation J kind payload (cs_cfg s) = (None, c)"
    using assms applyLocally_error [of J kind payload s _ L e env selfID]
    by (cases "apply_mutation J kind payload (cs_cfg s)") (metis Inl_Inr_False fst_conv option.exhaust prod.inject)
  from assms have "write_config L e env (s\<lparr>cs_cfg := bump env selfID c\<rparr>) = (None, s') \<and> cbs = cs_onChange s \<and>
      v = cc_Version (cs_cfg s')"
    by (auto simp: applyLocally_def Mutate_cases c split: prod.splits option.splits)
  then show ?thesis
    using c mutation_version [of J kind payload "cs_cfg s"]
    by (auto simp: bump.simps dest: write_config_frame write_config_synced)
qed

text \<open>C18. A mutation is all or nothing in what it does to the configuration. When the payload does not
  decode or the edit is rejected, the state, the file and the callbacks are untouched; when it is
  accepted, the configuration becomes the edited one with the version exactly one higher and this
  node as its author, and a version is reported only if file and hash hold it and the callbacks
  fire.\<close>

theorem mutation_all_or_nothing:
  "let (r, s', cbs) = applyLocally J L e env selfID kind payload s in
     (case apply_mutation J kind payload (cs_cfg s) of
        (Some x, c) \<Rightarrow> r = Inl x \<and> s' = s \<and> cbs = []
      | (None, c) \<Rightarrow>
          cs_cfg s' = c\<lparr>cc_Version := cc_Version (cs_cfg s) + 1, cc_UpdatedAt := ce_now env, cc_UpdatedBy := selfID\<rparr> \<and>
          (case r of Inl x \<Rightarrow> cbs = []
           | Inr v \<Rightarrow> v = cc_Version (cs_cfg s) + 1 \<and> disk_synced L e s' \<and> cbs = cs_onChange s))"
proof (cases "apply_mutation J kind payload (cs_cfg s)")
  case (Pair r0 c)
  show ?thesis
  proof (cases r0)
    case (Some x)
    then show ?thesis using Pair applyLocally_error [of J kind payload s x L e env selfID] by simp
  next
    case None
    have "cs_cfg (fst (snd (applyLocally J L e env selfID kind payload s))) = bump env selfID c"
      using Pair None by (simp add: applyLocally_cfg)
    moreover have "fst (applyLocally J L e env selfID kind payload s) = Inl x \<Longrightarrow>
        snd (snd (applyLocally J L e env selfID kind payload s)) = []" for x
      using Pair None by (auto simp: applyLocally_def Mutate_cases split: prod.splits option.splits)
    moreover have "cc_Version c = cc_Version (cs_cfg s)"
      using mutation_version [of J kind payload "cs_cfg s"] Pair by simp
    ultimately show ?thesis
      using Pair None applyLocally_okD [of J L e env selfID kind payload s]
      by (cases "applyLocally J L e env selfID kind payload s") (auto simp: bump.simps split: sum.split)
  qed
qed

text \<open>Only the master of a quorum changes the configuration by a mutation: a node that is not
  master, or sees no quorum, leaves state, file and callbacks untouched and broadcasts nothing,
  whether the mutation comes from its own CLI or from a peer.\<close>

theorem only_master_mutates:
  assumes "\<not> (mv_IsMaster mv \<and> mv_HasQuorum mv)"
  shows "(\<exists>r. LocalMutate J L e env selfID mv rpc kind marshalled s = (r, s, [], [])) \<and>
     (\<exists>x. HandleProposeMutation J L e env selfID mv req s = (\<lparr>mr_NewVersion = 0, mr_Error = Some x\<rparr>, s, [], []))"
  using assms
  by (auto simp: LocalMutate_def HandleProposeMutation_def Let_def split: sum.split option.split)

theorem only_master_mutates_witness:
  "\<exists>x. HandleProposeMutation demo_json (demo_codec demo_cluster) demo_env demo_call ''b''
     \<lparr>mv_Master = ''a'', mv_IsMaster = False, mv_HasQuorum = True\<rparr>
     \<lparr>mq_FromNodeID = ''c'', mq_Kind = MutationAddPeer, mq_Payload = ''d''\<rparr> demo_members =
       (\<lparr>mr_NewVersion = 0, mr_Error = Some x\<rparr>, demo_members, [], [])"
  by (rule conjunct2 [OF only_master_mutates [of "\<lparr>mv_Master = ''a'', mv_IsMaster = False, mv_HasQuorum = True\<rparr>"]])
     simp

text \<open>Forwarding is transparent. When a follower with a quorum knows the master's address and the
  call gets through, the result of its \<open>LocalMutate\<close> is the result the master got from applying
  the mutation itself: the same new version, or the same error; the follower's own state stays as
  it was until the broadcast arrives.\<close>

theorem forwarded_mutation:
  assumes "mv_HasQuorum mf" and "\<not> mv_IsMaster mf" and "mv_Master mf \<noteq> []" and "addressOf (mv_Master mf) f \<noteq> []"
    and "mv_IsMaster mm" and "mv_HasQuorum mm"
    and rpc: "rpc (mv_Master mf) (addressOf (mv_Master mf) f) =
       (\<lambda>req. Inr (fst (HandleProposeMutation J L e env (mv_Master mf) mm req m)))"
  shows "fst (LocalMutate J L e' env' fid mf rpc kind (Inr raw) f) =
      fst (applyLocally J L e env (mv_Master mf) kind raw m) \<and>
     fst (snd (LocalMutate J L e' env' fid mf rpc kind (Inr raw) f)) = f"
  using assms
  by (cases "applyLocally J L e env (mv_Master mf) kind raw m")
     (simp add: LocalMutate_def HandleProposeMutation_def Let_def split: sum.split)

theorem forwarded_mutation_witness:
  "fst (LocalMutate demo_json (demo_codec demo_cluster) demo_env demo_call ''b''
      \<lparr>mv_Master = ''a'', mv_IsMaster = False, mv_HasQuorum = True\<rparr>
      (\<lambda>_ _ req. Inr (fst (HandleProposeMutation demo_json (demo_codec demo_cluster) demo_env demo_call ''a''
         \<lparr>mv_Master = ''a'', mv_IsMaster = True, mv_HasQuorum = True\<rparr> req demo_members)))
      MutationRemovePeer (Inr ''zz'') demo_members) = Inl (ErrNotFound ''no such peer'' ''zz'')"
proof -
  have addr: "addressOf ''a'' demo_members \<noteq> []"
    by (simp add: addressOf_def demo_members_def demo_cluster_def demo_peer_def)
  have "fst (apply_mutation demo_json MutationRemovePeer ''zz'' (cs_cfg demo_members)) =
      Some (ErrNotFound ''no such peer'' ''zz'')"
    by (simp add: apply_mutation_def decode_def demo_json_def apply_remove_peer_def demo_members_def demo_cluster_def demo_peer_def)
  from applyLocally_error [OF this]
  show ?thesis
    using forwarded_mutation [of "\<lparr>mv_Master = ''a'', mv_IsMaster = False, mv_HasQuorum = True\<rparr>" demo_members
        "\<lparr>mv_Master = ''a'', mv_IsMaster = True, mv_HasQuorum = True\<rparr>"
        "\<lambda>_ _ req. Inr (fst (HandleProposeMutation demo_json (demo_codec demo_cluster) demo_env demo_call ''a''
         \<lparr>mv_Master = ''a'', mv_IsMaster = True, mv_HasQuorum = True\<rparr> req demo_members))"
        demo_json "demo_codec demo_cluster" demo_env demo_call demo_members demo_env demo_call "''b''" MutationRemovePeer "''zz''"] addr
    by simp
qed

text \<open>What the master applied is what a follower ends up with. Each message of the broadcast that
  follows a successful mutation on the master goes to another peer's advertised address and carries
  the new configuration; a follower at a lower version that handles it holds exactly the master's
  configuration afterwards, and acknowledges it as applied exactly when its own file holds it too.\<close>

theorem broadcast_converges:
  assumes ok: "LocalMutate J L e env selfID mv rpc kind marshalled s = (Inr v, s', cbs, out)"
    and "mv_IsMaster mv" and msg: "(peer, addr, req) \<in> set out" and old: "cc_Version (cs_cfg f) < v"
    and h: "HandleApplyClusterCfg L e' env' req f = (resp, f', cbs')"
  shows "cs_cfg f' = cs_cfg s' \<and> cc_Version (cs_cfg s') = v \<and> ar_Version resp = v \<and>
     peer \<noteq> selfID \<and> (\<exists>p \<in> set (cc_Peers (cs_cfg s')). pi_NodeID p = peer \<and> pi_Advertise p = addr) \<and>
     (ar_Applied resp \<longleftrightarrow> cbs' = cs_onChange f \<and> disk_synced L e' f' \<and> fst (Replace L e' env' (cs_cfg s') f) = Inr True)"
proof -
  obtain raw where app: "applyLocally J L e env selfID kind raw s = (Inr v, s', cbs)"
    and out: "out = broadcast selfID s'"
    using ok assms(2) by (auto simp: LocalMutate_def Let_def split: if_splits sum.splits prod.splits)
  then have v: "cc_Version (cs_cfg s') = v" using applyLocally_okD by blast
  from msg out have req: "req = \<lparr>aq_Config = Some (cs_cfg s')\<rparr>" and peer: "peer \<noteq> selfID"
    "\<exists>p \<in> set (cc_Peers (cs_cfg s')). pi_NodeID p = peer \<and> pi_Advertise p = addr"
    by (auto simp: broadcast_def Let_def)
  have cfg: "cs_cfg (fst (snd (Replace L e' env' (cs_cfg s') f))) = cs_cfg s'"
    using old v by (simp add: Replace_cfg not_le [symmetric])
  obtain r g cb where rep: "Replace L e' env' (cs_cfg s') f = (r, g, cb)" by (metis prod_cases3)
  have not_stale: "r \<noteq> Inr False"
    using rep old v by (auto simp: Replace_def Let_def split: if_splits prod.splits option.splits)
  have "cs_cfg g = cs_cfg s'" using cfg rep by simp
  then show ?thesis
    using h rep not_stale v peer Replace_result [of L e' env' "cs_cfg s'" f g cb]
    unfolding req by (auto simp: HandleApplyClusterCfg_def Let_def split: sum.splits bool.splits)
qed

lemma applyLocally_good:
  assumes "ce_write env = io_good" and "apply_mutation J kind payload (cs_cfg s) = (None, c)"
    and "yaml_Marshal L (bump env n c) = Inr out"
  shows "\<exists>s'. applyLocally J L e env n kind payload s = (Inr (cc_Version (cs_cfg s) + 1), s', cs_onChange s) \<and>
     cs_cfg s' = bump env n c"
proof -
  obtain s' where w: "write_config L e env (s\<lparr>cs_cfg := bump env n c\<rparr>) = (None, s')"
    using write_config_good [of env L "s\<lparr>cs_cfg := bump env n c\<rparr>" out e] assms by auto
  then have "cs_cfg s' = bump env n c" using write_config_frame [OF w] by simp
  moreover have "cc_Version c = cc_Version (cs_cfg s)"
    using mutation_version [of J kind payload "cs_cfg s"] assms(2) by simp
  ultimately show ?thesis
    using w assms(2) by (simp add: applyLocally_def Mutate_cases bump.simps)
qed

definition demo_grown :: ClusterConfig where
  "demo_grown = bump demo_call ''a'' ((cs_cfg demo_members)\<lparr>cc_Peers := map demo_peer [''a'', ''b'', ''c'', ''d'']\<rparr>)"

lemma demo_grow:
  "\<exists>s'. applyLocally demo_json (demo_codec demo_grown) demo_env demo_call ''a'' MutationAddPeer ''d'' demo_members =
       (Inr 2, s', [1]) \<and> cs_cfg s' = demo_grown"
proof -
  have "apply_mutation demo_json MutationAddPeer ''d'' (cs_cfg demo_members) =
      (None, (cs_cfg demo_members)\<lparr>cc_Peers := map demo_peer [''a'', ''b'', ''c'', ''d'']\<rparr>)"
    by (simp add: apply_mutation_def decode_def demo_json_def apply_add_peer_def demo_members_def demo_cluster_def demo_peer_def)
  from applyLocally_good [OF _ this, of demo_call "demo_codec demo_grown" "''a''" "''yaml''" demo_env]
  show ?thesis
    by (auto simp: demo_call_def demo_codec_def demo_grown_def demo_members_def demo_state_def demo_cluster_def)
qed

theorem broadcast_converges_witness:
  "\<exists>f' resp cbs. HandleApplyClusterCfg (demo_codec demo_grown) demo_env demo_call \<lparr>aq_Config = Some demo_grown\<rparr> demo_state =
     (resp, f', cbs) \<and> cs_cfg f' = demo_grown \<and> ar_Version resp = 2"
proof -
  let ?mv = "\<lparr>mv_Master = ''a'', mv_IsMaster = True, mv_HasQuorum = True\<rparr>"
  obtain s' where s': "applyLocally demo_json (demo_codec demo_grown) demo_env demo_call ''a'' MutationAddPeer ''d'' demo_members =
       (Inr 2, s', [1])" and cfg: "cs_cfg s' = demo_grown"
    using demo_grow by blast
  then have ok: "LocalMutate demo_json (demo_codec demo_grown) demo_env demo_call ''a'' ?mv (\<lambda>_ _ _. Inl (ErrLib [])) MutationAddPeer
      (Inr ''d'') demo_members = (Inr 2, s', [1], broadcast ''a'' s')"
    by (simp add: LocalMutate_def)
  have msg: "(''b'', ''b:9901'', \<lparr>aq_Config = Some demo_grown\<rparr>) \<in> set (broadcast ''a'' s')"
  proof -
    have "cc_Peers demo_grown = map demo_peer [''a'', ''b'', ''c'', ''d'']" by (simp add: demo_grown_def bump.simps)
    then show ?thesis by (simp add: broadcast_def Let_def cfg demo_peer_def)
  qed
  have old: "cc_Version (cs_cfg demo_state) < 2" by (simp add: demo_state_def zero_ClusterConfig_def)
  obtain resp f' cbs where h: "HandleApplyClusterCfg (demo_codec demo_grown) demo_env demo_call \<lparr>aq_Config = Some demo_grown\<rparr> demo_state =
     (resp, f', cbs)" by (metis prod_cases3)
  from broadcast_converges [OF ok _ msg old h] h cfg show ?thesis by simp
qed

text \<open>Over any sequence of mutations applied and snapshots received, a replica's version never goes
  down (as long as no mutation is applied at the last 64-bit version, and replacements bring
  distinct peers), and node IDs of peers and IDs of enrollment tokens stay unique.\<close>

theorem replica_history:
  assumes "cfg_wf (cs_cfg s)" and "allowed_run (rep_ok J) (rep_step J L e selfID) evs s"
  shows "cc_Version (cs_cfg s) \<le> cc_Version (cs_cfg (fold (rep_step J L e selfID) evs s)) \<and>
     distinct (map pi_NodeID (cc_Peers (cs_cfg (fold (rep_step J L e selfID) evs s)))) \<and>
     distinct (map pe_ID (cc_PendingEnrollments (cs_cfg (fold (rep_step J L e selfID) evs s))))"
  using replica.run_mono [OF assms] replica.run_inv [OF assms] by (simp add: cfg_wf_def)

theorem replica_history_witness:
  "1 \<le> cc_Version (cs_cfg (fold (rep_step demo_json (demo_codec demo_cluster) demo_env ''a'')
     [RMutate demo_call MutationAddPeer ''b'', RApply demo_call zero_ClusterConfig] demo_members))"
proof -
  have wf: "cfg_wf (cs_cfg demo_members)"
    by (simp add: cfg_wf_def demo_members_def demo_cluster_def demo_peer_def)
  have v: "cc_Version (cs_cfg demo_members) = 1" by (simp add: demo_members_def demo_cluster_def)
  have run: "allowed_run (rep_ok demo_json) (rep_step demo_json (demo_codec demo_cluster) demo_env ''a'')
     [RMutate demo_call MutationAddPeer ''b'', RApply demo_call zero_ClusterConfig] demo_members"
    using v by (simp add: payload_ok_def)
  from conjunct1 [OF replica_history [OF wf run]] show ?thesis unfolding v .
qed

lemma approve_effect:
  assumes wf: "cfg_wf c" and ok: "apply_mutation J MutationApproveEnrollment payload c = (None, c')"
  shows "\<exists>target en pj as bs. js_Target J payload = Inr target \<and> FindEnrollment c target = Some en \<and>
     pe_PendingJoin en = Some pj \<and>
     (\<forall>k. row_get pi_NodeID k (cc_Peers c') =
        (if k = pj_NodeID pj then Some (peer_of_join pj) else row_get pi_NodeID k (cc_Peers c))) \<and>
     cc_PendingEnrollments c = as @ en # bs \<and> cc_PendingEnrollments c' = as @ bs \<and>
     FindEnrollmentByID c' (pe_ID en) = None \<and>
     c' = c\<lparr>cc_Peers := cc_Peers c', cc_PendingEnrollments := cc_PendingEnrollments c'\<rparr>"
proof -
  obtain target where t: "js_Target J payload = Inr target" and ap: "apply_approve target c = (None, c')"
    using ok by (auto simp: apply_mutation_def decode_def split: sum.splits)
  then obtain en pj where f: "List.find (enrollment_matches target) (cc_PendingEnrollments c) = Some en"
    and pj: "pe_PendingJoin en = Some pj"
    by (auto simp: apply_approve_def split: option.splits)
  then obtain rest where rest: "remove_first (enrollment_matches target) (cc_PendingEnrollments c) = Some rest"
    by (metis not_None_eq remove_first_find_None)
  then obtain as bs where split: "cc_PendingEnrollments c = as @ en # bs" "rest = as @ bs"
    using f by (auto simp: remove_first_split)
  have peer: "pi_NodeID (peer_of_join pj) = pj_NodeID pj" by (simp add: peer_of_join_def)
  have c': "c' = c\<lparr>cc_Peers := row_put pi_NodeID (peer_of_join pj) (cc_Peers c), cc_PendingEnrollments := as @ bs\<rparr>"
    using ap f pj rest split by (simp add: apply_approve_def Let_def row_put_def)
  have "distinct (map pe_ID (as @ en # bs))" using wf split by (simp add: cfg_wf_def)
  then have "FindEnrollmentByID c' (pe_ID en) = None"
    unfolding c' FindEnrollmentByID_def find_None_ball by (auto simp: image_iff)
  moreover have "row_get pi_NodeID k (cc_Peers c') =
      (if k = pj_NodeID pj then Some (peer_of_join pj) else row_get pi_NodeID k (cc_Peers c))" for k
    using peers.get_put [of "cc_Peers c" k "peer_of_join pj"] wf peer unfolding c' by (simp add: cfg_wf_def)
  ultimately show ?thesis
    using t f pj split c' by (auto simp: FindEnrollment_def)
qed

text \<open>Approving an enrollment admits exactly the joiner it recorded and consumes the token. On
  success the target names a token with a pending join; afterwards the joiner's node ID resolves to
  the recorded identity, every other peer is unchanged, the token is gone while the other tokens
  stay in order, a second approval of its ID is refused, and checks, alerts and resolvers are
  untouched.\<close>

theorem approve_consumes_token:
  assumes wf: "cfg_wf c" and ok: "apply_mutation J MutationApproveEnrollment payload c = (None, c')"
  shows "\<exists>target en pj as bs. js_Target J payload = Inr target \<and> FindEnrollment c target = Some en \<and>
     pe_PendingJoin en = Some pj \<and>
     (\<forall>k. row_get pi_NodeID k (cc_Peers c') =
        (if k = pj_NodeID pj then Some (peer_of_join pj) else row_get pi_NodeID k (cc_Peers c))) \<and>
     cc_PendingEnrollments c = as @ en # bs \<and> cc_PendingEnrollments c' = as @ bs \<and>
     FindEnrollmentByID c' (pe_ID en) = None \<and>
     c' = c\<lparr>cc_Peers := cc_Peers c', cc_PendingEnrollments := cc_PendingEnrollments c'\<rparr>"
  using assms by (rule approve_effect)

theorem approve_consumes_token_witness:
  "\<exists>c'. apply_mutation demo_json MutationApproveEnrollment ''rack'' (cs_cfg demo_members) = (None, c') \<and>
     row_get pi_NodeID ''d'' (cc_Peers c') = Some (peer_of_join demo_join) \<and> FindEnrollmentByID c' ''t1'' = None"
proof -
  have wf: "cfg_wf (cs_cfg demo_members)"
    by (simp add: cfg_wf_def demo_members_def demo_cluster_def demo_peer_def)
  have find: "FindEnrollment (cs_cfg demo_members) ''rack'' = Some demo_enrollment"
    by (simp add: FindEnrollment_def enrollment_matches_def demo_members_def demo_enrollment_def)
  have "\<exists>c'. apply_mutation demo_json MutationApproveEnrollment ''rack'' (cs_cfg demo_members) = (None, c')"
    using find by (simp add: apply_mutation_def decode_def demo_json_def apply_approve_def FindEnrollment_def
        demo_enrollment_def Let_def)
  then obtain c' where c': "apply_mutation demo_json MutationApproveEnrollment ''rack'' (cs_cfg demo_members) = (None, c')"
    by blast
  have "js_Target demo_json = Inr" "pe_PendingJoin demo_enrollment = Some demo_join" "pj_NodeID demo_join = ''d''"
    "pe_ID demo_enrollment = ''t1''"
    by (simp_all add: demo_json_def demo_enrollment_def demo_join_def)
  with approve_consumes_token [OF wf c'] find c' show ?thesis by auto
qed

text \<open>Editing a check by \<open>add_check\<close>. When IDs and names of the checks are unique and the new check
  collides, by ID or by name, with at most one of them, it takes that one's place, all the others
  stay, and IDs and names are unique again.\<close>

theorem add_check_upserts:
  assumes "distinct (map ck_ID (cc_Checks c))" and "distinct (map ck_Name (cc_Checks c))"
    and one: "\<And>x y. x \<in> set (cc_Checks c) \<Longrightarrow> y \<in> set (cc_Checks c) \<Longrightarrow> ck_ID x = ck_ID ch \<or> ck_Name x = ck_Name ch \<Longrightarrow>
        ck_ID y = ck_ID ch \<or> ck_Name y = ck_Name ch \<Longrightarrow> x = y"
    and ok: "apply_add_check ch c = (None, c')"
  shows "distinct (map ck_ID (cc_Checks c')) \<and> distinct (map ck_Name (cc_Checks c')) \<and>
     set (cc_Checks c') = insert ch {x \<in> set (cc_Checks c). ck_ID x \<noteq> ck_ID ch \<and> ck_Name x \<noteq> ck_Name ch}"
proof -
  let ?P = "\<lambda>x. ck_ID x = ck_ID ch \<or> ck_Name x = ck_Name ch"
  have gen: "distinct (map ck_ID (upsert ?P ch xs)) \<and> distinct (map ck_Name (upsert ?P ch xs)) \<and>
      set (upsert ?P ch xs) = insert ch {x \<in> set xs. \<not> ?P x}"
    if "distinct (map ck_ID xs)" "distinct (map ck_Name xs)"
      "\<And>x y. x \<in> set xs \<Longrightarrow> y \<in> set xs \<Longrightarrow> ?P x \<Longrightarrow> ?P y \<Longrightarrow> x = y" for xs
    using that
  proof (induction xs)
    case Nil
    then show ?case by simp
  next
    case (Cons z zs)
    show ?case
    proof (cases "?P z")
      case True
      then have none: "\<not> ?P y" if "y \<in> set zs" for y
        using Cons.prems that by (metis distinct.simps(2) image_eqI list.set_intros list.simps(9) set_map)
      then have "ck_ID ch \<notin> ck_ID ` set zs" and "ck_Name ch \<notin> ck_Name ` set zs" and "{x \<in> set zs. \<not> ?P x} = set zs"
        by force+
      moreover have "{x \<in> set (z # zs). \<not> ?P x} = {x \<in> set zs. \<not> ?P x}" using True by auto
      ultimately show ?thesis using True Cons.prems(1,2) by simp
    next
      case False
      have "distinct (map ck_ID (upsert ?P ch zs)) \<and> distinct (map ck_Name (upsert ?P ch zs)) \<and>
          set (upsert ?P ch zs) = insert ch {x \<in> set zs. \<not> ?P x}"
        by (rule Cons.IH) (use Cons.prems in auto)
      with False Cons.prems show ?thesis by (auto simp: image_iff)
    qed
  qed
  have "cc_Checks c' = upsert ?P ch (cc_Checks c)"
    using ok by (auto simp: apply_add_check_def split: if_splits)
  then show ?thesis using gen [OF assms(1,2) one] by auto
qed

definition demo_chk :: "string \<Rightarrow> string \<Rightarrow> Check" where
  "demo_chk i n = zero_Check\<lparr>ck_ID := i, ck_Name := n\<rparr>"

lemma demo_chk_simps [simp]: "ck_ID (demo_chk i n) = i" "ck_Name (demo_chk i n) = n"
  by (simp_all add: demo_chk_def)

definition two_checks :: ClusterConfig where
  "two_checks = zero_ClusterConfig\<lparr>cc_Checks := [demo_chk ''1'' ''web'', demo_chk ''2'' ''db'']\<rparr>"

theorem add_check_upserts_witness:
  "\<exists>c'. apply_add_check (demo_chk ''2'' ''mail'') two_checks = (None, c') \<and> distinct (map ck_Name (cc_Checks c'))"
proof -
  have checks: "cc_Checks two_checks = [demo_chk ''1'' ''web'', demo_chk ''2'' ''db'']" by (simp add: two_checks_def)
  have "fst (apply_add_check (demo_chk ''2'' ''mail'') two_checks) = None" by (simp add: apply_add_check_def)
  then obtain c' where c': "apply_add_check (demo_chk ''2'' ''mail'') two_checks = (None, c')"
    by (metis prod.collapse)
  have dist: "distinct (map ck_ID (cc_Checks two_checks))" "distinct (map ck_Name (cc_Checks two_checks))"
    unfolding checks by simp_all
  have hit: "x = demo_chk ''2'' ''db''" if "x \<in> set (cc_Checks two_checks)"
    "ck_ID x = ck_ID (demo_chk ''2'' ''mail'') \<or> ck_Name x = ck_Name (demo_chk ''2'' ''mail'')" for x
    using that unfolding checks by fastforce
  then have one: "x = y" if "x \<in> set (cc_Checks two_checks)" "y \<in> set (cc_Checks two_checks)"
    "ck_ID x = ck_ID (demo_chk ''2'' ''mail'') \<or> ck_Name x = ck_Name (demo_chk ''2'' ''mail'')"
    "ck_ID y = ck_ID (demo_chk ''2'' ''mail'') \<or> ck_Name y = ck_Name (demo_chk ''2'' ''mail'')" for x y
    using that by blast
  from add_check_upserts [OF dist one c'] c' show ?thesis by blast
qed

text \<open>Renaming a check onto the name of an earlier one: the row with the name is replaced, the row
  with the ID stays, and the configuration has two checks with one ID.\<close>

lemma add_check_can_duplicate:
  "\<exists>c'. apply_add_check (demo_chk ''2'' ''web'') two_checks = (None, c') \<and>
     map ck_ID (cc_Checks c') = [''2'', ''2'']"
  by (simp add: apply_add_check_def two_checks_def)

end
