(* ===== verification/Cluster.thy ===== *)
theory Cluster
  imports Replicate
begin

text \<open>
  The replicas together. A state of the system is the configuration object of every node, the snapshots that
  were committed, newest first, and the configurations nodes wrote for themselves before they met the
  cluster. A step is a mutation applied at a node (\<open>replicator.applyLocally\<close>), a node taking any
  snapshot that has existed (\<open>cluster.Replace\<close>, reached by \<open>HandleApplyClusterCfg\<close> and \<open>PullFrom\<close>: messages
  may be lost, repeated and reordered), a node seeding its own file (\<open>Mutate\<close> in \<open>bootstrapNode\<close> of
  \<open>internal/cli/init.go\<close> and \<open>seedJoinerClusterYaml\<close> of \<open>internal/cli/enroll.go\<close>), or a node coming
  back on an older file. Every node has its own file system and clock.
\<close>

record csys =
  sy_node :: "string \<Rightarrow> cfg_state"
  sy_hist :: "ClusterConfig list"
  sy_seeds :: "ClusterConfig list"

text \<open>What a master must satisfy: it holds a version at least as high as anything committed so far, which is
  what the election of one master and its catching up are for.\<close>

definition up_to_date :: "string \<Rightarrow> csys \<Rightarrow> bool" where
  "up_to_date n y \<longleftrightarrow> (\<forall>c \<in> set (sy_hist y). cc_Version c \<le> cc_Version (cs_cfg (sy_node y n)))"

text \<open>A node's own seeds have the versions 1 (\<open>qu init\<close>) and 2 (\<open>qu enroll join\<close>).\<close>

definition seed_version :: "64 word" where
  "seed_version = 2"

definition keeps_version :: "edit \<Rightarrow> bool" where
  "keeps_version fn \<longleftrightarrow> (\<forall>c. cc_Version (snd (fn c)) = cc_Version c)"

inductive sys_step :: "json_codec \<Rightarrow> codec \<Rightarrow> bool \<Rightarrow> csys \<Rightarrow> csys \<Rightarrow> bool"
  for J :: json_codec and L :: codec and disciplined :: bool where
  Seed: "cc_Version (cs_cfg (sy_node y n)) < seed_version \<Longrightarrow> keeps_version fn \<Longrightarrow>
     Mutate L e env n fn (sy_node y n) = (r, s', cbs) \<Longrightarrow>
     sys_step J L disciplined y (y\<lparr>sy_node := (sy_node y)(n := s'), sy_seeds := cs_cfg s' # sy_seeds y\<rparr>)"
| Reject: "fst (apply_mutation J kind payload (cs_cfg (sy_node y n))) \<noteq> None \<Longrightarrow>
     applyLocally J L e env n kind payload (sy_node y n) = (r, s', cbs) \<Longrightarrow>
     sys_step J L disciplined y (y\<lparr>sy_node := (sy_node y)(n := s')\<rparr>)"
| Commit: "fst (apply_mutation J kind payload (cs_cfg (sy_node y n))) = None \<Longrightarrow>
     cc_Version (cs_cfg (sy_node y n)) \<noteq> - 1 \<Longrightarrow> (disciplined \<longrightarrow> up_to_date n y) \<Longrightarrow>
     applyLocally J L e env n kind payload (sy_node y n) = (r, s', cbs) \<Longrightarrow>
     sys_step J L disciplined y (y\<lparr>sy_node := (sy_node y)(n := s'), sy_hist := cs_cfg s' # sy_hist y\<rparr>)"
| Deliver: "snap \<in> set (sy_hist y) \<union> set (sy_seeds y) \<Longrightarrow>
     Replace L e env snap (sy_node y n) = (r, s', cbs) \<Longrightarrow>
     sys_step J L disciplined y (y\<lparr>sy_node := (sy_node y)(n := s')\<rparr>)"
| Restart: "cs_cfg s' \<in> set (sy_hist y) \<union> set (sy_seeds y) \<Longrightarrow>
     sys_step J L disciplined y (y\<lparr>sy_node := (sy_node y)(n := s')\<rparr>)"

definition sys_init :: "(string \<Rightarrow> cfg_state) \<Rightarrow> csys" where
  "sys_init nodes = \<lparr>sy_node = nodes, sy_hist = [zero_ClusterConfig], sy_seeds = []\<rparr>"

inductive sys_reach :: "json_codec \<Rightarrow> codec \<Rightarrow> bool \<Rightarrow> csys \<Rightarrow> bool"
  for J :: json_codec and L :: codec and disciplined :: bool where
  Init: "(\<And>n. cs_cfg (nodes n) = zero_ClusterConfig) \<Longrightarrow> sys_reach J L disciplined (sys_init nodes)"
| Step: "sys_reach J L disciplined y \<Longrightarrow> sys_step J L disciplined y y' \<Longrightarrow> sys_reach J L disciplined y'"

inductive_cases sys_stepE: "sys_step J L disciplined y y'"

section \<open>One committed history\<close>

text \<open>A configuration is known if it was committed, or is one of the low versions that nodes give themselves.\<close>

definition known :: "csys \<Rightarrow> ClusterConfig \<Rightarrow> bool" where
  "known y c \<longleftrightarrow> c \<in> set (sy_hist y) \<or> cc_Version c \<le> seed_version"

definition hist_inv :: "csys \<Rightarrow> bool" where
  "hist_inv y \<longleftrightarrow> sy_hist y \<noteq> [] \<and>
     sorted_wrt (\<lambda>a b. cc_Version b < cc_Version a) (sy_hist y) \<and>
     (\<forall>n. known y (cs_cfg (sy_node y n))) \<and> (\<forall>c \<in> set (sy_seeds y). cc_Version c \<le> seed_version)"

lemma hist_inv_hd: "hist_inv y \<Longrightarrow> c \<in> set (sy_hist y) \<Longrightarrow> cc_Version c \<le> cc_Version (hd (sy_hist y))"
  by (cases "sy_hist y") (auto simp: hist_inv_def)

lemma hist_inv_inj: "hist_inv y \<Longrightarrow> c \<in> set (sy_hist y) \<Longrightarrow> d \<in> set (sy_hist y) \<Longrightarrow>
    cc_Version c = cc_Version d \<Longrightarrow> c = d"
proof -
  have "c = d" if "sorted_wrt (\<lambda>a b. cc_Version b < cc_Version a) xs" "c \<in> set xs" "d \<in> set xs"
    "cc_Version c = cc_Version d" for xs :: "ClusterConfig list"
    using that by (induction xs) auto
  then show "hist_inv y \<Longrightarrow> c \<in> set (sy_hist y) \<Longrightarrow> d \<in> set (sy_hist y) \<Longrightarrow>
    cc_Version c = cc_Version d \<Longrightarrow> c = d" by (auto simp: hist_inv_def)
qed

lemma hist_inv_node: "hist_inv y \<Longrightarrow> known y (cs_cfg s') \<Longrightarrow> hist_inv (y\<lparr>sy_node := (sy_node y)(n := s')\<rparr>)"
  by (simp add: hist_inv_def known_def)

lemma seed_low:
  assumes "cc_Version (cs_cfg s) < seed_version" and "keeps_version fn" and "Mutate L e env n fn s = (r, s', cbs)"
  shows "cc_Version (cs_cfg s') \<le> seed_version"
proof -
  have "cc_Version (cs_cfg s) + 1 \<le> seed_version" using assms(1) by (simp add: seed_version_def word_le_nat_alt word_less_nat_alt unat_word_ariths)
  moreover have "cc_Version (snd (fn (cs_cfg s))) = cc_Version (cs_cfg s)" using assms(2) by (simp add: keeps_version_def)
  ultimately show ?thesis
    using Mutate_cfg [of L e env n fn s] assms(1,3) by (auto simp: bump.simps split: prod.splits option.splits)
qed

lemma hist_inv_step: "sys_step J L True y y' \<Longrightarrow> hist_inv y \<Longrightarrow> hist_inv y'"
proof (erule sys_stepE, goal_cases)
  case (1 n fn e env r s' cbs)
  with seed_low have "cc_Version (cs_cfg s') \<le> seed_version" by blast
  with 1 show ?case by (simp add: hist_inv_def known_def)
next
  case (2 kind payload n e env r s' cbs)
  then have "s' = sy_node y n" by (auto simp: applyLocally_error)
  with 2 show ?case by simp
next
  case (3 kind payload n e env r s' cbs)
  have "\<forall>d \<in> set (sy_hist y). cc_Version d \<le> cc_Version (cs_cfg (sy_node y n))" using 3 by (simp add: up_to_date_def)
  moreover obtain c where c: "apply_mutation J kind payload (cs_cfg (sy_node y n)) = (None, c)"
    using 3(3) by (metis prod.collapse)
  then have "cs_cfg s' = bump env n c"
    using 3(6) applyLocally_cfg [of J L e env n kind payload "sy_node y n"] by simp
  then have "cc_Version (cs_cfg (sy_node y n)) < cc_Version (cs_cfg s')"
    using Suc_word_gt [OF 3(4)] mutation_version [of J kind payload "cs_cfg (sy_node y n)"] c
    by (simp add: bump.simps)
  ultimately have "\<forall>d \<in> set (sy_hist y). cc_Version d < cc_Version (cs_cfg s')" by (meson order.strict_trans1)
  with 3 show ?case by (auto simp: hist_inv_def known_def)
next
  case (4 snap e env n r s' cbs)
  have "cs_cfg s' = (if cc_Version snap \<le> cc_Version (cs_cfg (sy_node y n)) then cs_cfg (sy_node y n) else snap)"
    using Replace_cfg [of L e env snap "sy_node y n"] 4(4) by simp
  with 4 have "known y (cs_cfg s')" by (auto simp: hist_inv_def known_def)
  with 4 show ?case by (simp add: hist_inv_node)
next
  case (5 s' n)
  then have "known y (cs_cfg s')" by (auto simp: hist_inv_def known_def)
  with 5 show ?case by (simp add: hist_inv_node)
qed

lemma hist_inv_reach: "sys_reach J L True y \<Longrightarrow> hist_inv y"
proof (induction rule: sys_reach.induct)
  case (Init nodes)
  then show ?case by (simp add: hist_inv_def known_def sys_init_def)
next
  case (Step y y')
  then show ?case by (blast intro: hist_inv_step)
qed

section \<open>Properties\<close>

text \<open>C1. Replication is consistent among committed versions. Nodes come up with seeds of their own, of
  version 1 or 2, which may well differ. After that, let every mutation be committed at a node
  that holds a version at least as high as all committed before it. Then whatever mutations are applied or
  refused, whatever snapshots, seeds included, are lost, repeated, reordered or delivered late, and
  whichever nodes come back on an older file: any two nodes that hold the same version above 2 hold the
  same configuration, every configuration of such a version was committed, and no two committed
  configurations share a version.\<close>

theorem replicas_agree:
  assumes "sys_reach J L True y"
  shows "(cc_Version (cs_cfg (sy_node y a)) = cc_Version (cs_cfg (sy_node y b)) \<and> seed_version < cc_Version (cs_cfg (sy_node y a)) \<longrightarrow>
       cs_cfg (sy_node y a) = cs_cfg (sy_node y b)) \<and>
     (seed_version < cc_Version (cs_cfg (sy_node y a)) \<longrightarrow>
       cs_cfg (sy_node y a) \<in> set (sy_hist y) \<and> cc_Version (cs_cfg (sy_node y a)) \<le> cc_Version (hd (sy_hist y))) \<and>
     sorted_wrt (\<lambda>c d. cc_Version d < cc_Version c) (sy_hist y)"
proof -
  have inv: "hist_inv y" using assms by (rule hist_inv_reach)
  then have "cs_cfg (sy_node y n) \<in> set (sy_hist y)" if "seed_version < cc_Version (cs_cfg (sy_node y n))" for n
    using that by (auto simp: hist_inv_def known_def)
  then show ?thesis using hist_inv_inj [OF inv] hist_inv_hd [OF inv] inv unfolding hist_inv_def by metis
qed

text \<open>Catching up takes one delivery: from any reachable state, a node that is given the newest
  committed snapshot, once that is above the seeds, holds it, whatever it held and whether or not its disk
  write succeeds.\<close>

lemma newest_snapshot_catches_up:
  assumes "sys_reach J L True y" and "Replace L e env (hd (sy_hist y)) (sy_node y n) = (r, s', cbs)"
    and "seed_version < cc_Version (hd (sy_hist y))"
  shows "cs_cfg s' = hd (sy_hist y) \<and> sys_reach J L True (y\<lparr>sy_node := (sy_node y)(n := s')\<rparr>)"
proof -
  have inv: "hist_inv y" using assms(1) by (rule hist_inv_reach)
  then have hd: "hd (sy_hist y) \<in> set (sy_hist y)" and n: "known y (cs_cfg (sy_node y n))" by (auto simp: hist_inv_def)
  have "cs_cfg s' = (if cc_Version (hd (sy_hist y)) \<le> cc_Version (cs_cfg (sy_node y n))
      then cs_cfg (sy_node y n) else hd (sy_hist y))"
    using Replace_cfg [of L e env "hd (sy_hist y)" "sy_node y n"] assms(2) by simp
  moreover have "cs_cfg (sy_node y n) = hd (sy_hist y)" if "cc_Version (hd (sy_hist y)) \<le> cc_Version (cs_cfg (sy_node y n))"
  proof -
    have "cs_cfg (sy_node y n) \<in> set (sy_hist y)" using n that assms(3) by (auto simp: known_def)
    with that show ?thesis using hist_inv_hd [OF inv] hist_inv_inj [OF inv _ hd] by fastforce
  qed
  ultimately show ?thesis using Step [OF assms(1) Deliver [OF _ assms(2)]] hd by simp
qed

section \<open>A concrete system\<close>

abbreviation held :: "csys \<Rightarrow> string \<Rightarrow> ClusterConfig" where
  "held y n \<equiv> cs_cfg (sy_node y n)"

definition demo_seed :: "string \<Rightarrow> ClusterConfig \<Rightarrow> ClusterConfig" where
  "demo_seed n c = bump demo_call n (c\<lparr>cc_Peers := [demo_peer n]\<rparr>)"

definition demo_added :: "string \<Rightarrow> string \<Rightarrow> ClusterConfig \<Rightarrow> ClusterConfig" where
  "demo_added n p c = bump demo_call n (snd (apply_mutation demo_json MutationAddPeer p c))"

lemma reach_seed:
  assumes "sys_reach J L disciplined y" and "cc_Version (held y n) < seed_version"
  shows "\<exists>y'. sys_reach J L disciplined y' \<and> sy_hist y' = sy_hist y \<and> sy_seeds y' = demo_seed n (held y n) # sy_seeds y \<and>
     held y' = (held y)(n := demo_seed n (held y n))"
proof -
  let ?fn = "\<lambda>c. (None, c\<lparr>cc_Peers := [demo_peer n]\<rparr>)"
  obtain r s' cbs where m: "Mutate L demo_env demo_call n ?fn (sy_node y n) = (r, s', cbs)" by (metis prod_cases3)
  have c: "cs_cfg s' = demo_seed n (held y n)"
    using Mutate_cfg [of L demo_env demo_call n ?fn "sy_node y n"] m by (simp add: demo_seed_def)
  have "keeps_version ?fn" by (simp add: keeps_version_def)
  from Step [OF assms(1) Seed [OF assms(2) this m]] c show ?thesis by (intro exI conjI) (assumption, auto)
qed

lemma reach_commit:
  assumes "sys_reach demo_json L disciplined y" and "disciplined \<longrightarrow> up_to_date n y" and "cc_Version (held y n) \<noteq> - 1" and "p \<noteq> []"
  shows "\<exists>y'. sys_reach demo_json L disciplined y' \<and> sy_hist y' = demo_added n p (held y n) # sy_hist y \<and> sy_seeds y' = sy_seeds y \<and>
     held y' = (held y)(n := demo_added n p (held y n))"
proof -
  obtain r s' cbs where m: "applyLocally demo_json L demo_env demo_call n MutationAddPeer p (sy_node y n) = (r, s', cbs)" by (metis prod_cases3)
  have ok: "fst (apply_mutation demo_json MutationAddPeer p (held y n)) = None"
    using assms(4) by (simp add: apply_mutation_def decode_def demo_json_def apply_add_peer_def demo_peer_def)
  then have c: "cs_cfg s' = demo_added n p (held y n)"
    using applyLocally_cfg [of demo_json L demo_env demo_call n MutationAddPeer p "sy_node y n"] m
    by (simp add: demo_added_def split: prod.splits)
  from Step [OF assms(1) Commit [OF ok assms(3,2) m]] c show ?thesis by (intro exI conjI) (assumption, auto)
qed

lemma reach_deliver:
  assumes "sys_reach J L disciplined y" and "c \<in> set (sy_hist y) \<union> set (sy_seeds y)" and "cc_Version (held y n) < cc_Version c"
  shows "\<exists>y'. sys_reach J L disciplined y' \<and> sy_hist y' = sy_hist y \<and> sy_seeds y' = sy_seeds y \<and> held y' = (held y)(n := c)"
proof -
  obtain r s' cbs where m: "Replace L demo_env demo_call c (sy_node y n) = (r, s', cbs)" by (metis prod_cases3)
  have "cs_cfg s' = c" using Replace_cfg [of L demo_env demo_call c "sy_node y n"] m assms(3) by (simp add: not_le [symmetric])
  with Step [OF assms(1) Deliver [OF assms(2) m]] show ?thesis by (intro exI conjI) (assumption, auto)
qed

lemma demo_versions:
  "cc_Version (demo_seed n c) = cc_Version c + 1" "cc_Version (demo_added n p c) = cc_Version c + 1"
  using mutation_version [of demo_json MutationAddPeer p c] by (simp_all add: demo_seed_def demo_added_def bump.simps)

lemma demo_writers: "cc_UpdatedBy (demo_seed n c) = n" "cc_UpdatedBy (demo_added n p c) = n"
  by (simp_all add: demo_seed_def demo_added_def bump.simps)

definition twice_seeded :: "string \<Rightarrow> ClusterConfig" where
  "twice_seeded n = demo_seed n (demo_seed n zero_ClusterConfig)"

lemma twice_seeded_simps [simp]: "cc_Version (twice_seeded n) = 2" "cc_UpdatedBy (twice_seeded n) = n"
  by (simp_all add: twice_seeded_def demo_versions demo_writers zero_ClusterConfig_def)

text \<open>Two nodes come up by themselves: both are at version 2, with different configurations.\<close>

lemma two_seeded:
  "\<exists>y. sys_reach demo_json L disciplined y \<and> sy_hist y = [zero_ClusterConfig] \<and>
     {twice_seeded ''a'', twice_seeded ''b''} \<subseteq> set (sy_seeds y) \<and>
     held y = (\<lambda>_. zero_ClusterConfig)(''a'' := twice_seeded ''a'', ''b'' := twice_seeded ''b'')"
proof -
  have low: "cc_Version zero_ClusterConfig < seed_version" "cc_Version (demo_seed n zero_ClusterConfig) < seed_version" for n
    by (simp_all add: demo_versions zero_ClusterConfig_def seed_version_def)
  have r0: "sys_reach demo_json L disciplined (sys_init (\<lambda>_. demo_state))" by (rule Init) (simp add: demo_state_def)
  have h0: "held (sys_init (\<lambda>_. demo_state)) = (\<lambda>_. zero_ClusterConfig)" "sy_hist (sys_init (\<lambda>_. demo_state)) = [zero_ClusterConfig]"
    by (simp_all add: sys_init_def demo_state_def)
  obtain y1 where 1: "sys_reach demo_json L disciplined y1" "sy_hist y1 = [zero_ClusterConfig]"
    "held y1 = (\<lambda>_. zero_ClusterConfig)(''a'' := demo_seed ''a'' zero_ClusterConfig)"
    using reach_seed [OF r0, of "''a''"] low(1) h0 by (auto simp: fun_eq_iff)
  obtain y2 where 2: "sys_reach demo_json L disciplined y2" "sy_hist y2 = [zero_ClusterConfig]" "twice_seeded ''a'' \<in> set (sy_seeds y2)"
    "held y2 = (\<lambda>_. zero_ClusterConfig)(''a'' := twice_seeded ''a'')"
    using reach_seed [OF 1(1), of "''a''"] low(2) 1 by (auto simp: fun_eq_iff twice_seeded_def)
  obtain y3 where 3: "sys_reach demo_json L disciplined y3" "sy_hist y3 = [zero_ClusterConfig]" "twice_seeded ''a'' \<in> set (sy_seeds y3)"
    "held y3 = (\<lambda>_. zero_ClusterConfig)(''a'' := twice_seeded ''a'', ''b'' := demo_seed ''b'' zero_ClusterConfig)"
    using reach_seed [OF 2(1), of "''b''"] low(1) 2 by (auto simp: fun_eq_iff)
  show ?thesis
    using reach_seed [OF 3(1), of "''b''"] low(2) 3 by (auto simp: fun_eq_iff twice_seeded_def)
qed

text \<open>One of them commits, the other is told: the seeds differ, the committed version does not.\<close>

theorem replicas_agree_witness:
  "\<exists>y. sys_reach demo_json (demo_codec demo_cluster) True y \<and> twice_seeded ''a'' \<noteq> twice_seeded ''b'' \<and>
     twice_seeded ''b'' \<in> set (sy_seeds y) \<and> cc_Version (held y ''a'') = 3 \<and> cc_Version (held y ''b'') = 3 \<and>
     held y ''a'' = held y ''b'' \<and> held y ''a'' \<in> set (sy_hist y)"
proof -
  let ?L = "demo_codec demo_cluster" and ?c = "demo_added ''a'' ''x'' (twice_seeded ''a'')"
  obtain y0 where 0: "sys_reach demo_json ?L True y0" "sy_hist y0 = [zero_ClusterConfig]"
    "{twice_seeded ''a'', twice_seeded ''b''} \<subseteq> set (sy_seeds y0)"
    "held y0 = (\<lambda>_. zero_ClusterConfig)(''a'' := twice_seeded ''a'', ''b'' := twice_seeded ''b'')" using two_seeded by blast
  have h0: "held y0 ''a'' = twice_seeded ''a''" "held y0 ''b'' = twice_seeded ''b''" using fun_cong [OF 0(4), of "''a''"] fun_cong [OF 0(4), of "''b''"] by simp_all
  have "up_to_date ''a'' y0" by (simp add: up_to_date_def 0(2) h0 zero_ClusterConfig_def)
  then obtain y1 where 1: "sys_reach demo_json ?L True y1" "sy_hist y1 = [?c, zero_ClusterConfig]" "sy_seeds y1 = sy_seeds y0"
    "held y1 = (held y0)(''a'' := ?c)"
    using reach_commit [OF 0(1), of "''a''" "''x''"] 0(2) h0 by auto
  have h1: "held y1 ''a'' = ?c" "held y1 ''b'' = twice_seeded ''b''" using fun_cong [OF 1(4), of "''a''"] fun_cong [OF 1(4), of "''b''"] h0 by simp_all
  have v: "cc_Version ?c = 3" by (simp add: demo_versions)
  obtain y2 where 2: "sys_reach demo_json ?L True y2" "sy_seeds y2 = sy_seeds y0" "held y2 = (held y1)(''b'' := ?c)"
    using reach_deliver [OF 1(1), of ?c "''b''"] 1(2,3) h1 v by auto
  have h2: "held y2 ''a'' = ?c" "held y2 ''b'' = ?c" using fun_cong [OF 2(3), of "''a''"] fun_cong [OF 2(3), of "''b''"] h1 by simp_all
  have "cc_UpdatedBy (twice_seeded ''a'') \<noteq> cc_UpdatedBy (twice_seeded ''b'')" by simp
  then have "twice_seeded ''a'' \<noteq> twice_seeded ''b''" by metis
  moreover have "twice_seeded ''b'' \<in> set (sy_seeds y2)" using 0(3) 2(2) by simp
  moreover have v2: "cc_Version (held y2 ''a'') = 3" "cc_Version (held y2 ''b'') = 3" unfolding h2 by (rule v)+
  moreover have "seed_version < cc_Version (held y2 ''a'')" unfolding v2 by (simp add: seed_version_def)
  ultimately show ?thesis
    using replicas_agree [OF 2(1), of "''a''" "''b''"] 2(1) by metis
qed

section \<open>Without the discipline\<close>

text \<open>Two nodes that both take themselves for master (which the election allows, see
  \<open>same_live_set_two_masters\<close>) can commit different configurations under one version, and since
  \<open>Replace\<close> takes strictly greater versions only, delivering either snapshot anywhere repairs
  nothing: the split lasts until a later mutation.\<close>

lemma two_masters_diverge:
  "\<exists>y. sys_reach demo_json (demo_codec demo_cluster) False y \<and> seed_version < cc_Version (held y ''a'') \<and>
     held y ''a'' \<noteq> held y ''b'' \<and> held y ''a'' \<in> set (sy_hist y) \<and> held y ''b'' \<in> set (sy_hist y) \<and>
     (\<forall>e env. fst (snd (Replace (demo_codec demo_cluster) e env (held y ''a'') (sy_node y ''b''))) = sy_node y ''b'' \<and>
              fst (snd (Replace (demo_codec demo_cluster) e env (held y ''b'') (sy_node y ''a''))) = sy_node y ''a'')"
proof -
  let ?L = "demo_codec demo_cluster" and ?c = "demo_added ''a'' ''x'' (twice_seeded ''a'')" and ?d = "demo_added ''b'' ''z'' (twice_seeded ''b'')"
  obtain y0 where 0: "sys_reach demo_json ?L False y0"
    "held y0 = (\<lambda>_. zero_ClusterConfig)(''a'' := twice_seeded ''a'', ''b'' := twice_seeded ''b'')" using two_seeded by blast
  have h0: "held y0 ''a'' = twice_seeded ''a''" "held y0 ''b'' = twice_seeded ''b''" using fun_cong [OF 0(2), of "''a''"] fun_cong [OF 0(2), of "''b''"] by simp_all
  obtain y1 where 1: "sys_reach demo_json ?L False y1" "?c \<in> set (sy_hist y1)" "held y1 = (held y0)(''a'' := ?c)"
    using reach_commit [OF 0(1), of "''a''" "''x''"] h0 by auto
  have h1: "held y1 ''a'' = ?c" "held y1 ''b'' = twice_seeded ''b''" using fun_cong [OF 1(3), of "''a''"] fun_cong [OF 1(3), of "''b''"] h0 by simp_all
  obtain y2 where 2: "sys_reach demo_json ?L False y2" "{?c, ?d} \<subseteq> set (sy_hist y2)" "held y2 = (held y1)(''b'' := ?d)"
    using reach_commit [OF 1(1), of "''b''" "''z''"] h1 1(2) by auto
  have h2: "held y2 ''a'' = ?c" "held y2 ''b'' = ?d" using fun_cong [OF 2(3), of "''a''"] fun_cong [OF 2(3), of "''b''"] h1 by simp_all
  have v: "cc_Version ?c = 3" "cc_Version ?d = 3" by (simp_all add: demo_versions)
  have "cc_UpdatedBy ?c \<noteq> cc_UpdatedBy ?d" by (simp add: demo_writers)
  then have "?c \<noteq> ?d" by metis
  moreover have "fst (snd (Replace ?L e env c (sy_node y2 n))) = sy_node y2 n" if "cc_Version c = cc_Version (held y2 n)" for e env c n
    using that by (simp add: Replace_stale)
  moreover have "seed_version < cc_Version ?c" unfolding v by (simp add: seed_version_def)
  ultimately show ?thesis using 2(1,2) v by (intro exI [of _ y2]) (simp add: h2 del: fun_upd_apply)
qed

end
