(* ===== verification/Frame.thy ===== *)
theory Frame
  imports Prelude
begin

text \<open>
  \<open>internal/transport/frame.go\<close>: length-prefixed messages, and the same format as
  \<open>internal/daemon/control.go\<close> uses it on the control socket. A stream is the list of bytes
  still to be read, after which the reader sees the end of the file; \<open>io.ReadFull\<close> is written
  out. A writer accepts its two writes or fails with an error in one of them.
\<close>

definition MaxFrameSize :: nat where
  "MaxFrameSize = 16 * 1024 * 1024"

section \<open>Big-endian headers\<close>

definition PutUint32 :: "32 word \<Rightarrow> string" where
  "PutUint32 w = (let n = unat w in
     [char_of (n div 2 ^ 24), char_of (n div 2 ^ 16 mod 256), char_of (n div 2 ^ 8 mod 256), char_of (n mod 256)])"

definition Uint32 :: "string \<Rightarrow> 32 word" where
  "Uint32 bs = of_nat (foldl (\<lambda>v b. 256 * v + of_char b) 0 bs)"

lemma join_digits:
  "((n div 2 ^ 24 * 256 + n div 2 ^ 16 mod 256) * 256 + n div 2 ^ 8 mod 256) * 256 + n mod 256 = (n :: nat)"
proof -
  have "n div 2 ^ 24 = n div 2 ^ 16 div 256" "n div 2 ^ 16 = n div 2 ^ 8 div 256"
    by (simp_all add: div_mult2_eq [symmetric])
  then have "n div 2 ^ 24 * 256 + n div 2 ^ 16 mod 256 = n div 2 ^ 16"
    and "n div 2 ^ 16 * 256 + n div 2 ^ 8 mod 256 = n div 2 ^ 8"
    by (simp_all only: div_mult_mod_eq)
  then show ?thesis by simp
qed

lemma Uint32_Put [simp]: "Uint32 (PutUint32 w) = w"
proof -
  have "unat w < 2 ^ 32" using unsigned_less [of w] by simp
  then have "unat w div 2 ^ 24 < 256" by (simp add: less_mult_imp_div_less)
  then have "unat w div 2 ^ 24 mod 256 = unat w div 2 ^ 24" by simp
  then have "foldl (\<lambda>v b. 256 * v + of_char b) 0 (PutUint32 w) = unat w"
    using join_digits [of "unat w"] by (simp only: PutUint32_def Let_def foldl.simps of_char_of mult.commute [of 256]) simp
  then show ?thesis by (simp add: Uint32_def)
qed

lemma length_Put [simp]: "length (PutUint32 w) = 4"
  by (simp add: PutUint32_def Let_def)

section \<open>Reading and writing\<close>

text \<open>\<open>io.ReadFull\<close> for \<open>n\<close> bytes: the bytes and the rest of the stream, or the error and what is
  left (nothing).\<close>

definition ReadFull :: "nat \<Rightarrow> string \<Rightarrow> (err + string) \<times> string" where
  "ReadFull n st =
     (if n \<le> length st then (Inr (take n st), drop n st)
      else if st = [] then (Inl (ErrLib ''EOF''), [])
      else (Inl (ErrLib ''unexpected EOF''), []))"

definition readFrame :: "string \<Rightarrow> (err + string) \<times> string" where
  "readFrame st =
     (case ReadFull 4 st of
        (Inl e, st') \<Rightarrow> (Inl e, st')
      | (Inr hdr, st') \<Rightarrow>
         (let n = Uint32 hdr in
          if unat n > MaxFrameSize then (Inl (ErrMsg ''incoming frame exceeds MaxFrameSize''), st')
          else ReadFull (unat n) st'))"

text \<open>\<open>writeFrame\<close>: the error, and the bytes written; \<open>w1\<close> and \<open>w2\<close> are the results of the two
  calls of \<open>Write\<close> (a failed one is taken to have written nothing).\<close>

definition writeFrame :: "err option \<Rightarrow> err option \<Rightarrow> string \<Rightarrow> err option \<times> string" where
  "writeFrame w1 w2 body =
     (if length body > MaxFrameSize then (Some (ErrMsg ''frame too large''), [])
      else
        (let hdr = PutUint32 (of_nat (length body)) in
         case w1 of
           Some e \<Rightarrow> (Some e, [])
         | None \<Rightarrow> (case w2 of Some e \<Rightarrow> (Some e, hdr) | None \<Rightarrow> (None, hdr @ body))))"

definition frame :: "string \<Rightarrow> string" where
  "frame body = PutUint32 (of_nat (length body)) @ body"

definition unframe :: "string \<Rightarrow> string option" where
  "unframe st = (case readFrame st of (Inr body, []) \<Rightarrow> Some body | _ \<Rightarrow> None)"

text \<open>Read frames until the stream ends: the loop of a connection's reader.\<close>

fun read_frames :: "nat \<Rightarrow> string \<Rightarrow> string list \<times> err" where
  "read_frames 0 st = ([], ErrMsg ''stopped'')"
| "read_frames (Suc k) st =
     (case readFrame st of
        (Inl e, _) \<Rightarrow> ([], e)
      | (Inr body, st') \<Rightarrow> (case read_frames k st' of (bodies, e) \<Rightarrow> (body # bodies, e)))"

lemma unat_len: "length body \<le> MaxFrameSize \<Longrightarrow> unat (of_nat (length body) :: 32 word) = length body"
  by (simp add: MaxFrameSize_def unat_of_nat take_bit_nat_eq_self_iff take_bit_eq_mod)

lemma readFrame_frame:
  "length body \<le> MaxFrameSize \<Longrightarrow> readFrame (frame body @ rest) = (Inr body, rest)"
  by (simp add: readFrame_def frame_def ReadFull_def unat_len Let_def)

interpretation frame: roundtrip_codec frame unframe "\<lambda>body. length body \<le> MaxFrameSize"
  by unfold_locales (use readFrame_frame [of _ "[]"] in \<open>simp add: unframe_def\<close>)

lemma writeFrame_ok:
  "writeFrame w1 w2 body = (None, out) \<longleftrightarrow> w1 = None \<and> w2 = None \<and> length body \<le> MaxFrameSize \<and> out = frame body"
  by (auto simp: writeFrame_def frame_def Let_def split: option.splits)

lemma ReadFull_cases:
  "ReadFull n st = (r, st') \<Longrightarrow> (case r of Inl e \<Rightarrow> st' = [] \<and> length st < n | Inr bs \<Rightarrow> st = bs @ st' \<and> length bs = n)"
  by (auto simp: ReadFull_def split: if_splits)

lemma PutUint32_Uint32:
  assumes "length bs = 4"
  shows "PutUint32 (Uint32 bs) = bs"
proof -
  obtain a b c d where bs: "bs = [a, b, c, d]"
    using assms by (auto simp: numeral_eq_Suc length_Suc_conv)
  define w x y z where "w = (of_char a :: nat)" and "x = (of_char b :: nat)" and "y = (of_char c :: nat)" and "z = (of_char d :: nat)"
  note defs = w_def x_def y_def z_def
  have lt: "w < 256" "x < 256" "y < 256" "z < 256" by (simp_all add: defs)
  define n where "n = ((w * 256 + x) * 256 + y) * 256 + z"
  have "n < 2 ^ 32" using lt by (simp add: n_def)
  then have n: "unat (of_nat n :: 32 word) = n"
    by (simp add: unat_of_nat take_bit_nat_eq_self_iff take_bit_eq_mod)
  have m: "(a * 256 + b) mod 256 = b" "(a * 256 + b) div 256 = a" if "b < 256" for a b :: nat
    using that by simp_all
  have "n mod 256 = z" and 1: "n div 256 = (w * 256 + x) * 256 + y" unfolding n_def by (rule m, rule lt)+
  moreover have "n div 256 mod 256 = y" and 2: "n div 256 div 256 = w * 256 + x" unfolding 1 by (rule m, rule lt)+
  moreover have "n div 256 div 256 mod 256 = x" "n div 256 div 256 div 256 = w" unfolding 2 by (rule m, rule lt)+
  moreover have "n div 2 ^ 24 = n div 256 div 256 div 256" "n div 2 ^ 16 = n div 256 div 256" "n div 2 ^ 8 = n div 256"
    by (simp_all add: div_mult2_eq [symmetric])
  ultimately have digits: "n div 2 ^ 24 = w" "n div 2 ^ 16 mod 256 = x" "n div 2 ^ 8 mod 256 = y" "n mod 256 = z"
    by simp_all
  have "Uint32 bs = of_nat n"
    by (simp only: Uint32_def bs foldl.simps n_def defs mult.commute [of 256]) simp
  then have "PutUint32 (Uint32 bs) = [char_of w, char_of x, char_of y, char_of z]"
    by (simp only: PutUint32_def Let_def n digits)
  then show ?thesis by (simp add: bs defs)
qed

section \<open>Properties\<close>

lemma readFrame_exact:
  "readFrame st = (Inr body, rest) \<longleftrightarrow> st = frame body @ rest \<and> length body \<le> MaxFrameSize"
proof
  assume r: "readFrame st = (Inr body, rest)"
  then obtain hdr st1 where 1: "ReadFull 4 st = (Inr hdr, st1)" and le: "unat (Uint32 hdr) \<le> MaxFrameSize"
    and 2: "ReadFull (unat (Uint32 hdr)) st1 = (Inr body, rest)"
    by (auto simp: readFrame_def Let_def split: prod.splits sum.splits if_splits)
  from ReadFull_cases [OF 1] have st: "st = hdr @ st1" "length hdr = 4" by simp_all
  from ReadFull_cases [OF 2] have st1: "st1 = body @ rest" "length body = unat (Uint32 hdr)" by simp_all
  then have "PutUint32 (of_nat (length body)) = hdr" using st(2) by (simp add: PutUint32_Uint32)
  with st st1 le show "st = frame body @ rest \<and> length body \<le> MaxFrameSize" by (simp add: frame_def)
qed (simp add: readFrame_frame)

text \<open>The frame reader is exact: it returns a body precisely when the stream starts with that
  body's frame, at most 16 MiB long, and it leaves the stream at the byte after it. So what
  \<open>writeFrame\<close> wrote successfully, and nothing else, is what is read back.\<close>

theorem read_frame_exact:
  "readFrame st = (Inr body, rest) \<longleftrightarrow>
     (\<exists>out. writeFrame None None body = (None, out) \<and> st = out @ rest)"
  by (auto simp: readFrame_exact writeFrame_ok)

text \<open>Every frame is the output of a successful \<open>writeFrame\<close>.\<close>

definition puts :: "string \<Rightarrow> string \<Rightarrow> bool" where
  "puts body out \<longleftrightarrow> writeFrame None None body = (None, out)"

lemma puts_eq: "puts body out \<longleftrightarrow> length body \<le> MaxFrameSize \<and> out = frame body"
  by (auto simp: puts_def writeFrame_ok)

lemma puts_all: "list_all2 puts bodies outs \<longleftrightarrow> list_all (\<lambda>b. length b \<le> MaxFrameSize) bodies \<and> outs = map frame bodies"
  by (induction bodies outs rule: list_induct2') (auto simp: puts_eq)

lemma read_frames_append:
  "list_all (\<lambda>b. length b \<le> MaxFrameSize) bodies \<Longrightarrow>
     read_frames (length bodies + k) (concat (map frame bodies) @ rest) = (bodies @ fst (read_frames k rest), snd (read_frames k rest))"
  by (induction bodies) (simp_all add: readFrame_frame split: prod.split)

lemma frame_length: "length (frame body) = 4 + length body"
  by (simp add: frame_def)

text \<open>A frame that breaks off: at its first byte and after the header the reader sees a plain end of file.\<close>

lemma readFrame_broken:
  assumes "length body \<le> MaxFrameSize" and "k < length (frame body)"
  shows "fst (readFrame (take k (frame body))) = Inl (ErrLib (if k = 0 \<or> k = 4 then ''EOF'' else ''unexpected EOF''))"
proof (cases "k < 4")
  case True
  moreover have "PutUint32 w \<noteq> []" for w by (simp add: PutUint32_def Let_def)
  ultimately show ?thesis by (auto simp: readFrame_def ReadFull_def frame_def)
next
  case False
  then obtain j where k: "k = 4 + j" by (metis le_add_diff_inverse not_less)
  have j: "j < length body" using assms(2) by (simp add: k frame_length)
  have "take k (frame body) = PutUint32 (of_nat (length body)) @ take j body" by (simp add: k frame_def)
  then show ?thesis using j assms(1) by (auto simp: readFrame_def ReadFull_def Let_def unat_len k)
qed

lemma read_frames_exact:
  "read_frames n st = (bodies, e) \<Longrightarrow> \<exists>rest. st = concat (map frame bodies) @ rest \<and> list_all (\<lambda>b. length b \<le> MaxFrameSize) bodies"
proof (induction n arbitrary: st bodies e)
  case (Suc n)
  show ?case
  proof (cases "readFrame st")
    case (Pair r st')
    show ?thesis
    proof (cases r)
      case (Inl x)
      with Suc.prems Pair show ?thesis by simp
    next
      case (Inr body)
      obtain bs e' where rec: "read_frames n st' = (bs, e')" by fastforce
      with Suc.prems Pair Inr have "bodies = body # bs" by simp
      moreover have "st = frame body @ st' \<and> length body \<le> MaxFrameSize" using Pair Inr by (simp add: readFrame_exact)
      ultimately show ?thesis using Suc.IH [OF rec] by auto
    qed
  qed
qed simp

text \<open>C38. A connection carries a sequence of messages without loss, and nothing else. \<open>writeFrame\<close> puts out
  exactly the messages of at most 16 MiB. When a list of messages has been written, the reader yields
  that list and then the end of the file. When the connection breaks inside one more frame, it
  yields the list and then the error \<open>unexpected EOF\<close>, unless the break falls between the header and the
  first byte of the body, which looks like an orderly end. And whatever messages are read from a
  stream, it starts with what \<open>writeFrame\<close> puts out for them.\<close>

theorem frames_roundtrip:
  "((\<exists>out. writeFrame None None body = (None, out)) \<longleftrightarrow> length body \<le> MaxFrameSize) \<and>
   (list_all2 (\<lambda>b out. writeFrame None None b = (None, out)) bodies outs \<longrightarrow>
      read_frames (Suc (length bodies)) (concat outs) = (bodies, ErrLib ''EOF'') \<and>
      (writeFrame None None body = (None, out) \<and> 0 < k \<and> k < length out \<longrightarrow>
         read_frames (Suc (length bodies)) (concat outs @ take k out) = (bodies, ErrLib (if k = 4 then ''EOF'' else ''unexpected EOF'')))) \<and>
   (read_frames n st = (got, e) \<longrightarrow>
      (\<exists>outs rest. list_all2 (\<lambda>b out. writeFrame None None b = (None, out)) got outs \<and> st = concat outs @ rest))"
proof -
  have one: "read_frames (Suc 0) st = ([], x)" if "fst (readFrame st) = Inl x" for st x
    using that by (cases "readFrame st") simp
  have end_of: "fst (readFrame []) = Inl (ErrLib ''EOF'')" by (simp add: readFrame_def ReadFull_def)
  have "read_frames (Suc (length bodies)) (concat outs) = (bodies, ErrLib ''EOF'')" if "list_all2 puts bodies outs"
    using read_frames_append [of bodies 1 "[]"] one [OF end_of] that by (simp add: puts_all del: read_frames.simps)
  moreover have "read_frames (Suc (length bodies)) (concat outs @ take k out) = (bodies, ErrLib (if k = 4 then ''EOF'' else ''unexpected EOF''))"
    if "list_all2 puts bodies outs" "puts body out" "0 < k" "k < length out"
    using read_frames_append [of bodies 1 "take k out"] one [OF readFrame_broken [of body k]] that
    by (simp add: puts_all puts_eq del: read_frames.simps)
  moreover have "\<exists>outs rest. list_all2 puts got outs \<and> st = concat outs @ rest" if "read_frames n st = (got, e)"
    using read_frames_exact [OF that] by (auto simp: puts_all)
  moreover have "(\<exists>out. puts body out) \<longleftrightarrow> length body \<le> MaxFrameSize" by (simp add: puts_eq)
  ultimately show ?thesis unfolding puts_def by blast
qed

theorem frames_roundtrip_witness:
  "\<exists>outs. list_all2 (\<lambda>b out. writeFrame None None b = (None, out)) [''ping'', []] outs \<and>
     read_frames 3 (concat outs) = ([''ping'', []], ErrLib ''EOF'')"
proof -
  have w: "list_all2 (\<lambda>b out. writeFrame None None b = (None, out)) [''ping'', []] (map frame [''ping'', []])"
    by (simp add: writeFrame_ok MaxFrameSize_def)
  from frames_roundtrip [of "[]" "[''ping'', []]" "map frame [''ping'', []]" "[]" 0 0 "[]" "[]" "ErrLib []", THEN conjunct2, THEN conjunct1] w
  have "read_frames (Suc (length [''ping'', []])) (concat (map frame [''ping'', []])) = ([''ping'', []], ErrLib ''EOF'')" by blast
  moreover have "Suc (length [''ping'', []]) = 3" by simp
  ultimately show ?thesis using w by metis
qed

end
