(* ===== verification/Crypto.thy ===== *)
theory Crypto
  imports Prelude
begin

text \<open>
  \<open>internal/crypto/cert.go\<close> (and its copy in \<open>internal/transport/tofu.go\<close>): fingerprints. The
  hex coding of \<open>encoding/hex\<close> is written out; SHA-256 and the PEM and X.509 parsers are the
  fields of a parameter record, a parsed certificate keeping what the sources read of it. Also the
  enrollment-secret hash of \<open>internal/daemon/handlers.go\<close>, which is built from the same pieces.
\<close>

section \<open>encoding/hex\<close>

definition hex_digit :: "nat \<Rightarrow> char" where
  "hex_digit n = (if n < 10 then char_of (48 + n) else char_of (87 + n))"

definition hex_byte :: "char \<Rightarrow> string" where
  "hex_byte c = (let n = (of_char c :: nat) in [hex_digit (n div 16), hex_digit (n mod 16)])"

definition hex_EncodeToString :: "string \<Rightarrow> string" where
  "hex_EncodeToString s = concat (map hex_byte s)"

definition unhex :: "char \<Rightarrow> nat option" where
  "unhex c = (let n = (of_char c :: nat) in
     if 48 \<le> n \<and> n \<le> 57 then Some (n - 48)
     else if 97 \<le> n \<and> n \<le> 102 then Some (n - 87)
     else if 65 \<le> n \<and> n \<le> 70 then Some (n - 55)
     else None)"

fun hex_DecodeString :: "string \<Rightarrow> string option" where
  "hex_DecodeString [] = Some []"
| "hex_DecodeString [c] = None"
| "hex_DecodeString (a # b # cs) =
     (case (unhex a, unhex b) of
        (Some x, Some y) \<Rightarrow> map_option ((#) (char_of (16 * x + y))) (hex_DecodeString cs)
      | _ \<Rightarrow> None)"

lemma unhex_digit [simp]: "n < 16 \<Longrightarrow> unhex (hex_digit n) = Some n"
  by (auto simp: hex_digit_def unhex_def Let_def)

lemma hex_roundtrip [simp]: "hex_DecodeString (hex_EncodeToString s) = Some s"
proof (induction s)
  case Nil
  then show ?case by (simp add: hex_EncodeToString_def)
next
  case (Cons c s)
  have lt: "(of_char c :: nat) div 16 < 16"
    using nat_of_char_less_256 [of c] by arith
  have "hex_DecodeString (hex_byte c @ hex_EncodeToString s) = Some (c # s)"
    using lt Cons by (simp add: hex_byte_def Let_def)
  then show ?case by (simp add: hex_EncodeToString_def)
qed

interpretation hex: roundtrip_codec hex_EncodeToString hex_DecodeString "\<lambda>_. True"
  by unfold_locales simp

section \<open>The self-signed certificate\<close>

definition CertValidity :: duration where "CertValidity = 10 * 365 * 24 * Hour"

datatype key_usage = KeyUsageDigitalSignature | KeyUsageKeyEncipherment
datatype ext_key_usage = ExtKeyUsageServerAuth | ExtKeyUsageClientAuth

record cert_template =
  tm_SerialNumber :: nat
  tm_CommonName :: string
  tm_Organization :: "string list"
  tm_NotBefore :: gotime
  tm_NotAfter :: gotime
  tm_KeyUsage :: "key_usage list"
  tm_ExtKeyUsage :: "ext_key_usage list"
  tm_BasicConstraintsValid :: bool
  tm_IsCA :: bool

text \<open>\<open>create\<close> is \<open>x509.CreateCertificate\<close> for one key, which signs the template with itself; \<open>serial\<close> the
  random number below 2 to the 128th, \<open>t1\<close> and \<open>t2\<close> the two readings of the clock.\<close>

definition buildSelfSignedCert ::
  "(cert_template \<Rightarrow> err + string) \<Rightarrow> err + nat \<Rightarrow> gotime \<Rightarrow> gotime \<Rightarrow> string \<Rightarrow> err + string" where
  "buildSelfSignedCert create serial t1 t2 commonName =
     (case serial of
        Inl e \<Rightarrow> Inl e
      | Inr n \<Rightarrow>
         create \<lparr>tm_SerialNumber = n, tm_CommonName = commonName, tm_Organization = [''quptime''],
           tm_NotBefore = t1 + - 1 * Hour, tm_NotAfter = t2 + CertValidity,
           tm_KeyUsage = [KeyUsageDigitalSignature, KeyUsageKeyEncipherment],
           tm_ExtKeyUsage = [ExtKeyUsageServerAuth, ExtKeyUsageClientAuth],
           tm_BasicConstraintsValid = True, tm_IsCA = False\<rparr>)"

section \<open>Certificates and fingerprints\<close>

record cert =
  cert_SPKI :: string
  cert_CommonName :: string
  cert_Raw :: string

record pki =
  pk_sha256 :: "string \<Rightarrow> string"
  pk_pem :: "string \<Rightarrow> string option"
  pk_der :: "string \<Rightarrow> err + cert"

definition FingerprintFromSPKI :: "pki \<Rightarrow> string \<Rightarrow> string" where
  "FingerprintFromSPKI K spki = ''sha256:'' @ hex_EncodeToString (pk_sha256 K spki)"

definition Fingerprint :: "pki \<Rightarrow> cert \<Rightarrow> string" where
  "Fingerprint K c = FingerprintFromSPKI K (cert_SPKI c)"

definition FingerprintFromCertPEM :: "pki \<Rightarrow> string \<Rightarrow> err + string" where
  "FingerprintFromCertPEM K pem =
     (case pk_pem K pem of
        None \<Rightarrow> Inl (ErrMsg ''cert: no PEM block'')
      | Some block \<Rightarrow>
         (case pk_der K block of
            Inl e \<Rightarrow> Inl (ErrWrap ''parse cert'' e)
          | Inr c \<Rightarrow> Inr (Fingerprint K c)))"

text \<open>\<open>transport.fingerprintOf\<close>: the same computation, duplicated in the transport package.\<close>

definition fingerprintOf :: "pki \<Rightarrow> cert \<Rightarrow> string" where
  "fingerprintOf K c = ''sha256:'' @ hex_EncodeToString (pk_sha256 K (cert_SPKI c))"

lemma fingerprintOf_eq: "fingerprintOf K c = Fingerprint K c"
  by (simp add: fingerprintOf_def Fingerprint_def FingerprintFromSPKI_def)

lemma Fingerprint_nonempty [simp]: "Fingerprint K c \<noteq> []"
  by (simp add: Fingerprint_def FingerprintFromSPKI_def)

section \<open>Enrollment secrets\<close>

definition hashEnrollSecret :: "pki \<Rightarrow> string \<Rightarrow> string" where
  "hashEnrollSecret K secret = ''sha256:'' @ hex_EncodeToString (pk_sha256 K secret)"

definition decodeHashHex :: "string \<Rightarrow> err + string" where
  "decodeHashHex stored =
     (let pre = ''sha256:'' in
      if length stored \<le> length pre \<or> take (length pre) stored \<noteq> pre
      then Inl (ErrMsg ''hash has no sha256: prefix'')
      else (case hex_DecodeString (drop (length pre) stored) of
              None \<Rightarrow> Inl (ErrLib ''encoding/hex'')
            | Some bs \<Rightarrow> Inr bs))"

text \<open>\<open>subtle.ConstantTimeCompare\<close> is equality of the byte slices.\<close>

definition verifyEnrollSecret :: "pki \<Rightarrow> string \<Rightarrow> string \<Rightarrow> bool" where
  "verifyEnrollSecret K presented storedHash =
     (case decodeHashHex storedHash of
        Inl e \<Rightarrow> False
      | Inr want \<Rightarrow> want = pk_sha256 K presented)"

lemma hex_Encode_Nil [simp]: "hex_EncodeToString s = [] \<longleftrightarrow> s = []"
  by (cases s) (auto simp: hex_EncodeToString_def hex_byte_def Let_def)

text \<open>A presented secret verifies against the hash of an issued secret exactly when the two
  have the same SHA-256 digest (digests being non-empty); in particular the issued secret
  verifies, and a stored value without the \<open>sha256:\<close> prefix or with bad hex verifies nothing.\<close>

lemma secret_verifies:
  assumes "pk_sha256 K secret \<noteq> []"
  shows "verifyEnrollSecret K presented (hashEnrollSecret K secret) \<longleftrightarrow>
     pk_sha256 K presented = pk_sha256 K secret"
  using assms by (auto simp: verifyEnrollSecret_def hashEnrollSecret_def decodeHashHex_def Let_def)

definition demo_pki :: pki where
  "demo_pki = \<lparr>pk_sha256 = (\<lambda>s. s @ ''!''), pk_pem = (\<lambda>s. Some s),
     pk_der = (\<lambda>s. Inr \<lparr>cert_SPKI = s, cert_CommonName = s, cert_Raw = s\<rparr>)\<rparr>"

end
