(* ===== verification/Trust.thy ===== *)
theory Trust
  imports Crypto Config "HOL-Library.Multiset"
begin

text \<open>
  \<open>internal/trust/store.go\<close>: the fingerprints a node accepts. The store is a map from node IDs
  to entries, kept as an association list, and the file \<open>trust.yaml\<close>. The order in which Go
  iterates over the map is the parameter \<open>ord\<close>; the properties hold for every order that is a
  permutation.
\<close>

record trust_entry =
  te_NodeID :: string
  te_Address :: string
  te_Fingerprint :: string
  te_PublicKeyPEM :: string
  te_CertPEM :: string
  te_AddedAt :: gotime

type_synonym trust_map = "(string \<times> trust_entry) list"
type_synonym map_order = "trust_entry list \<Rightarrow> trust_entry list"

record trust_codec =
  tyaml_Marshal :: "trust_entry list \<Rightarrow> err + string"
  tyaml_Unmarshal :: "string \<Rightarrow> err + trust_entry list"

record trust_store =
  ts_entries :: trust_map
  ts_fs :: fs

text \<open>One write to the map: \<open>s.entries[e.NodeID] = e\<close>.\<close>

definition trust_put :: "trust_entry \<Rightarrow> trust_map \<Rightarrow> trust_map" where
  "trust_put e m = AList.update (te_NodeID e) e m"

definition trust_values :: "map_order \<Rightarrow> trust_map \<Rightarrow> trust_entry list" where
  "trust_values ord m = ord (map snd m)"

definition trust_Load :: "trust_codec \<Rightarrow> os_env \<Rightarrow> err option \<Rightarrow> fs \<Rightarrow> err + trust_store" where
  "trust_Load L e read_err f =
     (case read_err of Some x \<Rightarrow> Inl x | None \<Rightarrow>
     (case f (TrustFilePath e) of
        None \<Rightarrow> Inr \<lparr>ts_entries = [], ts_fs = f\<rparr>
      | Some raw \<Rightarrow>
         (case tyaml_Unmarshal L (f_data raw) of
            Inl x \<Rightarrow> Inl (ErrWrap ''parse trust.yaml'' x)
          | Inr es \<Rightarrow> Inr \<lparr>ts_entries = fold trust_put es [], ts_fs = f\<rparr>)))"

definition trust_Save ::
  "trust_codec \<Rightarrow> os_env \<Rightarrow> map_order \<Rightarrow> write_env \<Rightarrow> trust_store \<Rightarrow> err option \<times> trust_store" where
  "trust_Save L e ord w s =
     (case tyaml_Marshal L (trust_values ord (ts_entries s)) of
        Inl x \<Rightarrow> (Some x, s)
      | Inr out \<Rightarrow>
         (case AtomicWrite w (TrustFilePath e) out 384 (ts_fs s) of
            (r, f) \<Rightarrow> (r, s\<lparr>ts_fs := f\<rparr>)))"

definition trust_Add ::
  "trust_codec \<Rightarrow> os_env \<Rightarrow> map_order \<Rightarrow> call_env \<Rightarrow> trust_entry \<Rightarrow> trust_store \<Rightarrow> err option \<times> trust_store" where
  "trust_Add L e ord env x s =
     (if te_NodeID x = [] \<or> te_Fingerprint x = []
      then (Some (ErrMsg ''trust entry needs node_id and fingerprint''), s)
      else
        (let x' = (if te_AddedAt x = 0 then x\<lparr>te_AddedAt := ce_now env\<rparr> else x)
         in trust_Save L e ord (ce_write env) (s\<lparr>ts_entries := trust_put x' (ts_entries s)\<rparr>)))"

definition trust_Remove ::
  "trust_codec \<Rightarrow> os_env \<Rightarrow> map_order \<Rightarrow> write_env \<Rightarrow> string \<Rightarrow> trust_store \<Rightarrow> (bool \<times> err option) \<times> trust_store" where
  "trust_Remove L e ord w nodeID s =
     (case map_of (ts_entries s) nodeID of
        None \<Rightarrow> ((False, None), s)
      | Some _ \<Rightarrow>
         (case trust_Save L e ord w (s\<lparr>ts_entries := AList.delete nodeID (ts_entries s)\<rparr>) of
            (r, s') \<Rightarrow> ((True, r), s')))"

definition trust_List :: "map_order \<Rightarrow> trust_store \<Rightarrow> trust_entry list" where
  "trust_List ord s = trust_values ord (ts_entries s)"

definition trust_Get :: "string \<Rightarrow> trust_store \<Rightarrow> trust_entry option" where
  "trust_Get nodeID s = map_of (ts_entries s) nodeID"

definition LookupByFingerprint :: "map_order \<Rightarrow> string \<Rightarrow> trust_store \<Rightarrow> trust_entry option" where
  "LookupByFingerprint ord fp s = List.find (\<lambda>e. te_Fingerprint e = fp) (trust_values ord (ts_entries s))"

definition VerifyPeerCert :: "pki \<Rightarrow> map_order \<Rightarrow> string list \<Rightarrow> trust_store \<Rightarrow> err option" where
  "VerifyPeerCert K ord rawCerts s =
     (case rawCerts of
        [] \<Rightarrow> Some (ErrMsg ''peer presented no certificate'')
      | raw # _ \<Rightarrow>
         (case pk_der K raw of
            Inl e \<Rightarrow> Some (ErrWrap ''parse peer cert'' e)
          | Inr c \<Rightarrow>
             (case LookupByFingerprint ord (Fingerprint K c) s of
                None \<Rightarrow> Some (ErrMsg (''peer cert fingerprint '' @ Fingerprint K c @ '' not in trust store''))
              | Some _ \<Rightarrow> None)))"

section \<open>The table\<close>

text \<open>Keys are distinct, each entry is filed under its own node ID.\<close>

definition trust_wf :: "trust_map \<Rightarrow> bool" where
  "trust_wf m \<longleftrightarrow> distinct (map fst m) \<and> list_all (\<lambda>(k, e). te_NodeID e = k) m"

lemma trust_wf_Nil [simp]: "trust_wf []"
  by (simp add: trust_wf_def)

lemma list_all_update:
  "list_all P m \<Longrightarrow> P (k, v) \<Longrightarrow> list_all P (AList.update k v m)"
  by (induction m) auto

lemma trust_wf_put: "trust_wf m \<Longrightarrow> trust_wf (trust_put e m)"
  by (simp add: trust_wf_def trust_put_def distinct_update list_all_update)

lemma in_set_delete: "p \<in> set (AList.delete k m) \<longleftrightarrow> p \<in> set m \<and> fst p \<noteq> k"
  by (auto simp: AList.delete_eq)

lemma trust_wf_delete: "trust_wf m \<Longrightarrow> trust_wf (AList.delete k m)"
  by (auto simp: trust_wf_def distinct_delete list_all_iff in_set_delete)

lemma trust_wf_key: "trust_wf m \<Longrightarrow> map_of m k = Some e \<Longrightarrow> te_NodeID e = k"
  by (auto simp: trust_wf_def list_all_iff dest: map_of_SomeD)

interpretation trust: keyed_table te_NodeID "\<lambda>k m. map_of m k" trust_put AList.delete trust_wf
proof (unfold_locales, goal_cases)
  case (1 s k x)
  then show ?case by (simp add: trust_put_def update_conv')
next
  case (2 s k' k)
  then show ?case by (simp add: AList.delete_conv')
next
  case (3 s x)
  then show ?case by (rule trust_wf_put)
next
  case (4 s k)
  then show ?case by (rule trust_wf_delete)
next
  case (5 s k x)
  then show ?case by (rule trust_wf_key)
qed

text \<open>Two well-formed maps with the same lookups have the same entries, whatever the order of
  the rows.\<close>

lemma trust_values_set: "trust_wf m \<Longrightarrow> set (map snd m) = {e. map_of m (te_NodeID e) = Some e}"
  by (force simp: trust_wf_def list_all_iff)

lemma fold_put_values:
  assumes "trust_wf m" and "mset es = mset (map snd m)"
  shows "map_of (fold trust_put es []) k = map_of m k"
proof -
  have keys: "map te_NodeID (map snd m) = map fst m"
    using assms(1) by (auto simp: trust_wf_def list_all_iff)
  have "distinct (map te_NodeID es)"
    using assms keys by (metis mset_eq_imp_distinct_iff mset_map trust_wf_def)
  have "set es = {e. map_of m (te_NodeID e) = Some e}"
    using assms trust_values_set by (metis mset_eq_setD)
  have "map_of (fold trust_put es []) k = List.find (\<lambda>x. te_NodeID x = k) (rev es)"
    using trust.get_fold_put [of "[]" es k] by (simp split: option.splits)
  also have "\<dots> = map_of m k"
  proof (cases "map_of m k")
    case None
    then show ?thesis
      using \<open>set es = _\<close> by (auto simp: find_None_ball)
  next
    case (Some e)
    then have e: "e \<in> set es" "te_NodeID e = k"
      using \<open>set es = _\<close> trust_wf_key [OF assms(1) Some] by auto
    obtain x where x: "List.find (\<lambda>x. te_NodeID x = k) (rev es) = Some x"
      using e by (cases "List.find (\<lambda>x. te_NodeID x = k) (rev es)") (auto simp: find_None_ball)
    then have "x \<in> set es" "te_NodeID x = k" by (auto dest: find_Some_iff_first)
    then have "map_of m k = Some x" using \<open>set es = _\<close> by auto
    with x Some show ?thesis by simp
  qed
  finally show ?thesis .
qed

lemma trust_Save_entries: "ts_entries (snd (trust_Save L e ord w s)) = ts_entries s"
  by (simp add: trust_Save_def split: sum.split prod.split)

lemma trust_Save_ok:
  assumes "trust_Save L e ord w s = (None, s')"
  obtains out where "tyaml_Marshal L (trust_values ord (ts_entries s)) = Inr out"
    and "ts_fs s' (TrustFilePath e) = Some \<lparr>f_data = out, f_perm = 384\<rparr>"
    and "ts_entries s' = ts_entries s"
  using assms by (auto simp: trust_Save_def dest!: AtomicWrite_ok split: sum.splits prod.splits)

text \<open>What \<open>Load\<close> reads after a successful save has the lookups of the store in memory.\<close>

lemma trust_Load_Save:
  assumes yaml: "\<And>c out. tyaml_Marshal L c = Inr out \<Longrightarrow> tyaml_Unmarshal L out = Inr c"
    and "\<And>xs. mset (ord xs) = mset xs"
    and "trust_Save L e ord w s = (None, s')" and "trust_wf (ts_entries s)"
  shows "\<exists>s''. trust_Load L e None (ts_fs s') = Inr s'' \<and> trust_wf (ts_entries s'') \<and>
     (\<forall>k. trust_Get k s'' = trust_Get k s)"
proof -
  from assms(3) obtain out where "tyaml_Marshal L (trust_values ord (ts_entries s)) = Inr out"
    and "ts_fs s' (TrustFilePath e) = Some \<lparr>f_data = out, f_perm = 384\<rparr>"
    by (rule trust_Save_ok)
  then have "trust_Load L e None (ts_fs s') =
      Inr \<lparr>ts_entries = fold trust_put (trust_values ord (ts_entries s)) [], ts_fs = ts_fs s'\<rparr>"
    by (simp add: trust_Load_def yaml)
  then show ?thesis
    using fold_put_values [of "ts_entries s" "trust_values ord (ts_entries s)"] assms(2,4)
      trust.wf_fold_put [of "[]"]
    by (simp add: trust_Get_def trust_values_def)
qed

section \<open>Properties\<close>

text \<open>The TLS callback lets a peer through exactly when it presents a certificate, the first
  one parses, and its fingerprint is that of an entry of the store, in whatever order the map is
  iterated.\<close>

theorem verify_peer_cert_exact:
  assumes "\<And>xs. mset (ord xs) = mset xs"
  shows "VerifyPeerCert K ord rawCerts s = None \<longleftrightarrow>
     (\<exists>raw rest c. rawCerts = raw # rest \<and> pk_der K raw = Inr c \<and>
        Fingerprint K c \<in> te_Fingerprint ` set (map snd (ts_entries s)))"
proof -
  have "set (trust_values ord (ts_entries s)) = set (map snd (ts_entries s))"
    using assms by (metis mset_eq_setD trust_values_def)
  then have "LookupByFingerprint ord fp s = None \<longleftrightarrow> fp \<notin> te_Fingerprint ` set (map snd (ts_entries s))" for fp
    unfolding LookupByFingerprint_def find_None_ball by auto
  moreover from this have "LookupByFingerprint ord fp s = Some e \<Longrightarrow>
      fp \<in> te_Fingerprint ` set (map snd (ts_entries s))" for fp e
    by (metis option.distinct(1))
  ultimately show ?thesis
    by (auto simp: VerifyPeerCert_def split: list.split sum.split option.split)
qed

definition demo_entry :: "string \<Rightarrow> trust_entry" where
  "demo_entry i = \<lparr>te_NodeID = i, te_Address = i @ '':9901'', te_Fingerprint = Fingerprint demo_pki
     \<lparr>cert_SPKI = i, cert_CommonName = i, cert_Raw = i\<rparr>, te_PublicKeyPEM = [], te_CertPEM = i, te_AddedAt = 1\<rparr>"

theorem verify_peer_cert_exact_witness:
  "VerifyPeerCert demo_pki rev [''b''] \<lparr>ts_entries = [(''b'', demo_entry ''b'')], ts_fs = (\<lambda>_. None)\<rparr> = None"
proof -
  have "mset (rev xs) = mset xs" for xs :: "trust_entry list" by simp
  from verify_peer_cert_exact [OF this] show ?thesis
    by (simp add: demo_entry_def demo_pki_def)
qed

text \<open>Trust decisions are durable and precise. A successful \<open>Add\<close> files the entry (with the
  time of the call when it had none) under its node ID, leaves every other entry alone, and a
  restart, that is \<open>Load\<close> on the file it wrote, sees exactly the same entries.\<close>

theorem trust_add_durable:
  assumes yaml: "\<And>c out. tyaml_Marshal L c = Inr out \<Longrightarrow> tyaml_Unmarshal L out = Inr c"
    and ord: "\<And>xs. mset (ord xs) = mset xs" and wf: "trust_wf (ts_entries s)"
    and ok: "trust_Add L e ord env x s = (None, s')"
  shows "trust_Get k s' =
      (if k = te_NodeID x then Some (if te_AddedAt x = 0 then x\<lparr>te_AddedAt := ce_now env\<rparr> else x)
       else trust_Get k s) \<and>
    te_NodeID x \<noteq> [] \<and> te_Fingerprint x \<noteq> [] \<and>
    (\<exists>s''. trust_Load L e None (ts_fs s') = Inr s'' \<and> (\<forall>j. trust_Get j s'' = trust_Get j s'))"
proof -
  let ?x = "if te_AddedAt x = 0 then x\<lparr>te_AddedAt := ce_now env\<rparr> else x"
  let ?s = "s\<lparr>ts_entries := trust_put ?x (ts_entries s)\<rparr>"
  have ne: "te_NodeID x \<noteq> []" "te_Fingerprint x \<noteq> []"
    and save: "trust_Save L e ord (ce_write env) ?s = (None, s')"
    using ok by (auto simp: trust_Add_def Let_def split: if_splits)
  have same: "ts_entries s' = ts_entries ?s"
    using trust_Save_entries [of L e ord "ce_write env" ?s] save by simp
  have key: "te_NodeID ?x = te_NodeID x" by simp
  have get: "trust_Get k s' = (if k = te_NodeID x then Some ?x else trust_Get k s)"
    using trust.get_put [OF wf, of ?x k] unfolding trust_Get_def same key by simp
  have "trust_wf (ts_entries ?s)" using trust_wf_put [OF wf, of ?x] by simp
  from trust_Load_Save [OF yaml ord save this]
  have "\<exists>s''. trust_Load L e None (ts_fs s') = Inr s'' \<and> (\<forall>j. trust_Get j s'' = trust_Get j s')"
    unfolding trust_Get_def same by blast
  with get ne show ?thesis by blast
qed

definition demo_trust_codec :: trust_codec where
  "demo_trust_codec = \<lparr>tyaml_Marshal = (\<lambda>c. if c = [demo_entry ''b''] then Inr ''yaml'' else Inl (ErrLib ''yaml'')),
     tyaml_Unmarshal = (\<lambda>s. if s = ''yaml'' then Inr [demo_entry ''b''] else Inl (ErrLib ''yaml''))\<rparr>"

theorem trust_add_durable_witness:
  "\<exists>s'. trust_Add demo_trust_codec demo_env rev demo_call (demo_entry ''b'') \<lparr>ts_entries = [], ts_fs = (\<lambda>_. None)\<rparr> = (None, s') \<and>
     trust_Get ''b'' s' = Some (demo_entry ''b'') \<and> trust_Get ''c'' s' = None"
proof -
  let ?s = "\<lparr>ts_entries = [], ts_fs = (\<lambda>_. None)\<rparr>"
  have yaml: "tyaml_Marshal demo_trust_codec c = Inr out \<Longrightarrow> tyaml_Unmarshal demo_trust_codec out = Inr c" for c out
    by (auto simp: demo_trust_codec_def split: if_splits)
  have ord: "mset (rev xs) = mset xs" for xs :: "trust_entry list" by simp
  have wf: "trust_wf (ts_entries ?s)" by simp
  have "\<exists>s'. trust_Add demo_trust_codec demo_env rev demo_call (demo_entry ''b'') ?s = (None, s')"
    using AtomicWrite_good [of "TrustFilePath demo_env" "''yaml''" 384 "\<lambda>_. None"]
    by (cases "AtomicWrite io_good (TrustFilePath demo_env) ''yaml'' 384 (\<lambda>_. None)")
       (auto simp: trust_Add_def trust_Save_def trust_values_def trust_put_def demo_call_def demo_trust_codec_def
         demo_entry_def TrustFilePath_def)
  then obtain s' where s': "trust_Add demo_trust_codec demo_env rev demo_call (demo_entry ''b'') ?s = (None, s')" by blast
  have "te_NodeID (demo_entry ''b'') = ''b''" "te_AddedAt (demo_entry ''b'') = 1" by (simp_all add: demo_entry_def)
  with trust_add_durable [OF yaml ord wf s', of "''b''"] trust_add_durable [OF yaml ord wf s', of "''c''"] s'
  show ?thesis by (simp add: trust_Get_def)
qed

text \<open>\<open>Remove\<close> revokes: whatever the outcome of the write, the node has no entry afterwards, all
  other entries stay, and the reported flag says whether there was one; after it no certificate
  is accepted on the strength of the removed entry alone.\<close>

theorem trust_remove_revokes:
  assumes wf: "trust_wf (ts_entries s)" and rm: "trust_Remove L e ord w nodeID s = ((found, r), s')"
  shows "trust_wf (ts_entries s') \<and> (found \<longleftrightarrow> trust_Get nodeID s \<noteq> None) \<and>
    trust_Get k s' = (if k = nodeID then None else trust_Get k s) \<and>
    set (map snd (ts_entries s')) = {x \<in> set (map snd (ts_entries s)). te_NodeID x \<noteq> nodeID}"
proof -
  have ents: "ts_entries s' = AList.delete nodeID (ts_entries s) \<and> (found \<longleftrightarrow> trust_Get nodeID s \<noteq> None)"
  proof (cases "map_of (ts_entries s) nodeID")
    case None
    then have "AList.delete nodeID (ts_entries s) = ts_entries s"
      by (metis delete_id map_of_eq_None_iff)
    with None rm show ?thesis by (auto simp: trust_Remove_def trust_Get_def)
  next
    case (Some x)
    then show ?thesis
      using rm trust_Save_entries [of L e ord w "s\<lparr>ts_entries := AList.delete nodeID (ts_entries s)\<rparr>"]
      by (auto simp: trust_Remove_def trust_Get_def split: prod.splits)
  qed
  moreover have "set (map snd (AList.delete nodeID (ts_entries s))) =
      {x \<in> set (map snd (ts_entries s)). te_NodeID x \<noteq> nodeID}"
    using wf by (force simp: trust_wf_def list_all_iff AList.delete_eq)
  ultimately show ?thesis
    using trust.get_del [OF wf, of nodeID k] trust_wf_delete [OF wf, of nodeID] by (simp add: trust_Get_def)
qed

theorem trust_remove_revokes_witness:
  "\<exists>s'. trust_Remove demo_trust_codec demo_env rev io_good ''b''
      \<lparr>ts_entries = [(''a'', demo_entry ''a''), (''b'', demo_entry ''b'')], ts_fs = (\<lambda>_. None)\<rparr> =
        ((True, Some (ErrLib ''yaml'')), s') \<and>
     trust_Get ''b'' s' = None \<and> trust_Get ''a'' s' = Some (demo_entry ''a'')"
proof -
  let ?s = "\<lparr>ts_entries = [(''a'', demo_entry ''a''), (''b'', demo_entry ''b'')], ts_fs = (\<lambda>_. None)\<rparr>"
  have wf: "trust_wf (ts_entries ?s)" by (simp add: trust_wf_def demo_entry_def)
  have "demo_entry ''a'' \<noteq> demo_entry ''b''" by (simp add: demo_entry_def)
  then have "\<exists>s'. trust_Remove demo_trust_codec demo_env rev io_good ''b'' ?s = ((True, Some (ErrLib ''yaml'')), s')"
    by (simp add: trust_Remove_def trust_Save_def trust_values_def demo_trust_codec_def)
  then obtain s' where s': "trust_Remove demo_trust_codec demo_env rev io_good ''b'' ?s = ((True, Some (ErrLib ''yaml'')), s')"
    by blast
  from trust_remove_revokes [OF wf s', of "''b''"] trust_remove_revokes [OF wf s', of "''a''"] s'
  show ?thesis by (simp add: trust_Get_def)
qed

end
