(* ===== verification/Rpc.thy ===== *)
theory Rpc
  imports Frame Trust Messages
begin

text \<open>
  \<open>internal/transport/rpc.go\<close> and \<open>tls.go\<close>: which peers may call what, the server's loop over
  one connection, and the client's connection pool. The TLS handshake yields the list of
  certificates the peer presented. A registered handler is a function on the state \<open>'s\<close> of the
  process (which includes the trust store), its result the value already marshalled (\<open>None\<close> for a
  nil result, \<open>Some (Inl e)\<close> when marshalling failed); JSON coding of envelopes is a parameter.
\<close>

section \<open>Certificates of a connection\<close>

definition peerNodeIDFromConnState :: "cert list \<Rightarrow> string" where
  "peerNodeIDFromConnState certs = (case certs of [] \<Rightarrow> [] | c # _ \<Rightarrow> cert_CommonName c)"

definition peerFingerprintFromConnState :: "pki \<Rightarrow> cert list \<Rightarrow> string" where
  "peerFingerprintFromConnState K certs = (case certs of [] \<Rightarrow> [] | c # _ \<Rightarrow> fingerprintOf K c)"

definition peerTrusted :: "map_order \<Rightarrow> string \<Rightarrow> trust_store \<Rightarrow> bool" where
  "peerTrusted ord peerFP st =
     (if peerFP = [] then False
      else (case LookupByFingerprint ord peerFP st of None \<Rightarrow> False | Some _ \<Rightarrow> True))"

text \<open>\<open>tlsCert\<close>: the local certificate of both configurations.\<close>

definition tlsCert :: "pki \<Rightarrow> string \<Rightarrow> err + cert" where
  "tlsCert K pem =
     (case pk_pem K pem of
        None \<Rightarrow> Inl (ErrMsg ''cert PEM has no block'')
      | Some block \<Rightarrow> (case pk_der K block of Inl e \<Rightarrow> Inl (ErrWrap ''parse leaf'' e) | Inr c \<Rightarrow> Inr c))"

definition makeStrictVerifier :: "pki \<Rightarrow> string \<Rightarrow> trust_store \<Rightarrow> string list \<Rightarrow> err option" where
  "makeStrictVerifier K expectedNodeID st rawCerts =
     (case rawCerts of
        [] \<Rightarrow> Some (ErrMsg ''peer presented no certificate'')
      | raw # _ \<Rightarrow>
         (case pk_der K raw of
            Inl e \<Rightarrow> Some (ErrWrap ''parse peer cert'' e)
          | Inr c \<Rightarrow>
             (case trust_Get expectedNodeID st of
                None \<Rightarrow> Some (ErrMsg (''no trust entry for node '' @ expectedNodeID))
              | Some entry \<Rightarrow>
                 (let got = fingerprintOf K c in
                  if got \<noteq> te_Fingerprint entry then Some (ErrMsg (''fingerprint mismatch for '' @ expectedNodeID @ '': got '' @ got @ '' want '' @ te_Fingerprint entry))
                  else None))))"

text \<open>\<open>ClientConfig\<close>: an error, or the certificate to present and the verification callback.\<close>

definition ClientConfig ::
  "pki \<Rightarrow> map_order \<Rightarrow> string \<Rightarrow> string \<Rightarrow> trust_store \<Rightarrow> err + cert \<times> (string list \<Rightarrow> err option)" where
  "ClientConfig K ord certPEM expectedNodeID st =
     (case tlsCert K certPEM of
        Inl e \<Rightarrow> Inl e
      | Inr c \<Rightarrow> Inr (c, if expectedNodeID \<noteq> [] then makeStrictVerifier K expectedNodeID st
                        else (\<lambda>rawCerts. VerifyPeerCert K ord rawCerts st)))"

section \<open>The server's loop\<close>

record requestEnvelope =
  req_ID :: "64 word"
  req_Method :: string
  req_Params :: string

record responseEnvelope =
  resp_ID :: "64 word"
  resp_Result :: "string option"
  resp_Error :: "err option"

type_synonym handler_result = "err + (err + string) option"
type_synonym 's handler = "string \<Rightarrow> string \<Rightarrow> 's \<Rightarrow> handler_result \<times> 's"

text \<open>What the loop reads in one round: the next frame or the error of \<open>readFrame\<close>, and whether
  the write of the answer succeeds.\<close>

record round =
  rd_frame :: "err + string"
  rd_write_ok :: bool

record 's server =
  sv_handlers :: "string \<Rightarrow> 's handler option"
  sv_decode :: "string \<Rightarrow> err + requestEnvelope"
  sv_trust :: "'s \<Rightarrow> trust_store"

definition Handle :: "string \<Rightarrow> 's handler \<Rightarrow> 's server \<Rightarrow> 's server" where
  "Handle method fn sv = sv\<lparr>sv_handlers := (sv_handlers sv)(method := Some fn)\<rparr>"

definition writeError :: "64 word \<Rightarrow> err \<Rightarrow> responseEnvelope" where
  "writeError ident e = \<lparr>resp_ID = ident, resp_Result = None, resp_Error = Some e\<rparr>"

definition writeResult :: "64 word \<Rightarrow> (err + string) option \<Rightarrow> responseEnvelope" where
  "writeResult ident result =
     (case result of
        None \<Rightarrow> \<lparr>resp_ID = ident, resp_Result = None, resp_Error = None\<rparr>
      | Some (Inl e) \<Rightarrow> writeError ident (ErrWrap ''marshal result'' e)
      | Some (Inr raw) \<Rightarrow> \<lparr>resp_ID = ident, resp_Result = Some raw, resp_Error = None\<rparr>)"

definition bootstrap_method :: "string \<Rightarrow> bool" where
  "bootstrap_method m \<longleftrightarrow> m = MethodJoin \<or> m = MethodEnroll"

text \<open>
  The body of the loop for one request, from the trust gate on: the answer it writes, the handler
  it invoked (method, the state it was given and the one it left), whether the loop goes on,
  and the new values of \<open>trusted\<close> and of the state. \<open>ok\<close> says whether writing a result succeeds;
  the error of \<open>writeError\<close> is ignored, as in the source.
\<close>

definition serve_request ::
  "'s server \<Rightarrow> map_order \<Rightarrow> string \<Rightarrow> string \<Rightarrow> bool \<Rightarrow> bool \<Rightarrow> requestEnvelope \<Rightarrow> 's \<Rightarrow>
     responseEnvelope \<times> (string \<times> 's \<times> 's) list \<times> bool \<times> bool \<times> 's" where
  "serve_request sv ord peerID peerFP trusted ok req s =
     (if \<not> trusted \<and> req_Method req \<noteq> MethodJoin \<and> req_Method req \<noteq> MethodEnroll then
        (writeError (req_ID req) (ErrMsg ''peer not trusted; obtain an enrollment token via `qu enroll create` on the cluster''), [], True, trusted, s)
      else case sv_handlers sv (req_Method req) of
        None \<Rightarrow> (writeError (req_ID req) (ErrMsg (''unknown method: '' @ req_Method req)), [], True, trusted, s)
      | Some fn \<Rightarrow>
         (case fn peerID (req_Params req) s of
            (Inl e, s1) \<Rightarrow> (writeError (req_ID req) e, [(req_Method req, s, s1)], True, trusted, s1)
          | (Inr result, s1) \<Rightarrow>
             (if \<not> ok then (writeResult (req_ID req) result, [(req_Method req, s, s1)], False, trusted, s1)
              else (writeResult (req_ID req) result, [(req_Method req, s, s1)], True,
                    (if \<not> trusted \<and> (req_Method req = MethodJoin \<or> req_Method req = MethodEnroll)
                     then peerTrusted ord peerFP (sv_trust sv s1) else trusted), s1))))"

text \<open>\<open>handleConn\<close> after the handshake: the answers, the handlers invoked and the final state.\<close>

fun serve_rounds ::
  "'s server \<Rightarrow> map_order \<Rightarrow> string \<Rightarrow> string \<Rightarrow> bool \<Rightarrow> round list \<Rightarrow> 's \<Rightarrow>
     responseEnvelope list \<times> (string \<times> 's \<times> 's) list \<times> 's" where
  "serve_rounds sv ord peerID peerFP trusted [] s = ([], [], s)"
| "serve_rounds sv ord peerID peerFP trusted (r # rs) s =
     (case rd_frame r of
        Inl e \<Rightarrow> ([], [], s)
      | Inr body \<Rightarrow>
         (case sv_decode sv body of
            Inl e \<Rightarrow> ([writeError 0 (ErrWrap ''decode request'' e)], [], s)
          | Inr req \<Rightarrow>
             (case serve_request sv ord peerID peerFP trusted (rd_write_ok r) req s of
                (resp, call, continue, trusted', s1) \<Rightarrow>
                  (if continue then
                     (case serve_rounds sv ord peerID peerFP trusted' rs s1 of
                        (out, calls, s') \<Rightarrow> (resp # out, call @ calls, s'))
                   else ([resp], call, s1)))))"

declare serve_rounds.simps(2) [simp del]

definition handleConn ::
  "'s server \<Rightarrow> map_order \<Rightarrow> pki \<Rightarrow> cert list \<Rightarrow> round list \<Rightarrow> 's \<Rightarrow>
     responseEnvelope list \<times> (string \<times> 's \<times> 's) list \<times> 's" where
  "handleConn sv ord K certs rounds s =
     (let peerID = peerNodeIDFromConnState certs;
          peerFP = peerFingerprintFromConnState K certs;
          trusted = peerTrusted ord peerFP (sv_trust sv s)
      in serve_rounds sv ord peerID peerFP trusted rounds s)"

section \<open>The client's pool\<close>

text \<open>The pool maps node IDs to open connections (of a type \<open>'c\<close>); \<open>meanwhile\<close> is what other
  goroutines do to the pool while this one dials without the lock.\<close>

record 'c rpc_client =
  cl_conns :: "(string \<times> 'c) list"
  cl_nextID :: "64 word"

definition getConn ::
  "(err + 'c) \<Rightarrow> ('c rpc_client \<Rightarrow> 'c rpc_client) \<Rightarrow> string \<Rightarrow> 'c rpc_client \<Rightarrow> (err + 'c) \<times> 'c rpc_client" where
  "getConn dialled meanwhile nodeID c =
     (case map_of (cl_conns c) nodeID of
        Some cc \<Rightarrow> (Inr cc, c)
      | None \<Rightarrow>
         (let c1 = meanwhile c in
          case dialled of
            Inl e \<Rightarrow> (Inl e, c1)
          | Inr cc \<Rightarrow>
             (case map_of (cl_conns c1) nodeID of
                Some existing \<Rightarrow> (Inr existing, c1)
              | None \<Rightarrow> (Inr cc, c1\<lparr>cl_conns := AList.update nodeID cc (cl_conns c1)\<rparr>))))"

definition dropConn :: "string \<Rightarrow> 'c rpc_client \<Rightarrow> 'c rpc_client" where
  "dropConn nodeID c = c\<lparr>cl_conns := AList.delete nodeID (cl_conns c)\<rparr>"

definition Close_pool :: "'c rpc_client \<Rightarrow> 'c rpc_client" where
  "Close_pool c = c\<lparr>cl_conns := []\<rparr>"

text \<open>\<open>callOn\<close>: \<open>params\<close> is the marshalled parameters, \<open>encode_env\<close> and \<open>decode_env\<close> the envelope
  codings, \<open>exchange\<close> what comes back on the connection for the frame sent, \<open>want_out\<close> whether the
  caller passed somewhere to put a result, \<open>decode_out\<close> decodes it. The answer's ID is not looked at.\<close>

definition callOn ::
  "(requestEnvelope \<Rightarrow> err + string) \<Rightarrow> (string \<Rightarrow> err + responseEnvelope) \<Rightarrow> ('c \<Rightarrow> string \<Rightarrow> err + string) \<Rightarrow>
     bool \<Rightarrow> (string \<Rightarrow> err + 'r) \<Rightarrow> 'c \<Rightarrow> string \<Rightarrow> (err + string) \<Rightarrow> 'c rpc_client \<Rightarrow> (err + 'r option) \<times> 'c rpc_client" where
  "callOn encode_env decode_env exchange want_out decode_out cc method params c =
     (case params of
        Inl e \<Rightarrow> (Inl (ErrWrap ''marshal params'' e), c)
      | Inr p \<Rightarrow>
         (let ident = cl_nextID c + 1;
              c1 = c\<lparr>cl_nextID := ident\<rparr>;
              env = \<lparr>req_ID = ident, req_Method = method, req_Params = p\<rparr>
          in case encode_env env of
               Inl e \<Rightarrow> (Inl e, c1)
             | Inr body \<Rightarrow>
                (if length body > MaxFrameSize then (Inl (ErrMsg ''frame too large''), c1)
                 else case exchange cc body of
                   Inl e \<Rightarrow> (Inl e, c1)
                 | Inr respBody \<Rightarrow>
                    (case decode_env respBody of
                       Inl e \<Rightarrow> (Inl (ErrWrap ''decode response'' e), c1)
                     | Inr resp \<Rightarrow>
                        (case resp_Error resp of
                           Some e \<Rightarrow> (Inl (ErrWrap ''remote'' e), c1)
                         | None \<Rightarrow>
                            (case resp_Result resp of
                               None \<Rightarrow> (Inr None, c1)
                             | Some raw \<Rightarrow>
                                (if want_out \<and> raw \<noteq> [] then
                                   (case decode_out raw of
                                      Inl e \<Rightarrow> (Inl (ErrWrap ''decode result'' e), c1)
                                    | Inr v \<Rightarrow> (Inr (Some v), c1))
                                 else (Inr None, c1))))))))"

definition Call ::
  "(requestEnvelope \<Rightarrow> err + string) \<Rightarrow> (string \<Rightarrow> err + responseEnvelope) \<Rightarrow> ('c \<Rightarrow> string \<Rightarrow> err + string) \<Rightarrow>
     bool \<Rightarrow> (string \<Rightarrow> err + 'r) \<Rightarrow> (err + 'c) \<Rightarrow> ('c rpc_client \<Rightarrow> 'c rpc_client) \<Rightarrow> string \<Rightarrow> string \<Rightarrow> (err + string) \<Rightarrow>
     'c rpc_client \<Rightarrow> (err + 'r option) \<times> 'c rpc_client" where
  "Call encode_env decode_env exchange want_out decode_out dialled meanwhile nodeID method params c =
     (case getConn dialled meanwhile nodeID c of
        (Inl e, c1) \<Rightarrow> (Inl e, c1)
      | (Inr cc, c1) \<Rightarrow>
         (case callOn encode_env decode_env exchange want_out decode_out cc method params c1 of
            (Inl e, c2) \<Rightarrow> (Inl e, dropConn nodeID c2)
          | (Inr v, c2) \<Rightarrow> (Inr v, c2)))"

section \<open>Properties\<close>

lemma strict_verifier_iff:
  "makeStrictVerifier K nodeID st rawCerts = None \<longleftrightarrow>
     (\<exists>raw rest c en. rawCerts = raw # rest \<and> pk_der K raw = Inr c \<and> trust_Get nodeID st = Some en \<and>
        Fingerprint K c = te_Fingerprint en)"
  by (auto simp: makeStrictVerifier_def fingerprintOf_eq Let_def split: list.split sum.split option.split)

text \<open>Dialling a named node is pinned to that node: with a node ID, the client's TLS callback
  accepts exactly a first certificate that parses and carries the fingerprint of that node's own
  entry, and whatever it accepts the general trust check accepts too; a certificate of another
  trusted node is refused unless the two share a fingerprint.\<close>

theorem strict_pin:
  assumes "ClientConfig K ord certPEM nodeID st = Inr (own, verify)" and "nodeID \<noteq> []"
    and "\<And>xs. mset (ord xs) = mset xs"
  shows "(verify rawCerts = None \<longleftrightarrow>
       (\<exists>raw rest c en. rawCerts = raw # rest \<and> pk_der K raw = Inr c \<and> trust_Get nodeID st = Some en \<and>
          Fingerprint K c = te_Fingerprint en)) \<and>
     (verify rawCerts = None \<longrightarrow> VerifyPeerCert K ord rawCerts st = None)"
proof -
  have v: "verify = makeStrictVerifier K nodeID st"
    using assms(1,2) by (auto simp: ClientConfig_def split: sum.splits)
  have "VerifyPeerCert K ord rawCerts st = None" if "verify rawCerts = None"
  proof -
    from that obtain raw rest c en where "rawCerts = raw # rest" "pk_der K raw = Inr c"
      and en: "trust_Get nodeID st = Some en" "Fingerprint K c = te_Fingerprint en"
      unfolding v strict_verifier_iff by blast
    moreover have "en \<in> set (trust_values ord (ts_entries st))"
    proof -
      have "en \<in> set (map snd (ts_entries st))"
        using en(1) by (force simp: trust_Get_def dest: map_of_SomeD)
      then show ?thesis using assms(3) by (metis mset_eq_setD trust_values_def)
    qed
    then have "LookupByFingerprint ord (Fingerprint K c) st \<noteq> None"
      unfolding LookupByFingerprint_def find_None_ball using en(2) by auto
    ultimately show ?thesis by (auto simp: VerifyPeerCert_def)
  qed
  then show ?thesis unfolding v strict_verifier_iff by blast
qed

definition demo_store :: trust_store where
  "demo_store = \<lparr>ts_entries = [(''a'', demo_entry ''a''), (''b'', demo_entry ''b'')], ts_fs = (\<lambda>_. None)\<rparr>"

theorem strict_pin_witness:
  "\<exists>own verify. ClientConfig demo_pki rev ''me'' ''b'' demo_store = Inr (own, verify) \<and>
     verify [''b''] = None \<and> verify [''a''] \<noteq> None"
proof -
  obtain own verify where cfg: "ClientConfig demo_pki rev ''me'' ''b'' demo_store = Inr (own, verify)"
    by (simp add: ClientConfig_def tlsCert_def demo_pki_def)
  have ord: "mset (rev xs) = mset xs" for xs :: "trust_entry list" by simp
  have en: "trust_Get ''b'' demo_store = Some (demo_entry ''b'')"
    by (simp add: trust_Get_def demo_store_def)
  have fp: "Fingerprint demo_pki \<lparr>cert_SPKI = i, cert_CommonName = i, cert_Raw = i\<rparr> = te_Fingerprint (demo_entry i)"
    "pk_der demo_pki i = Inr \<lparr>cert_SPKI = i, cert_CommonName = i, cert_Raw = i\<rparr>" for i
    by (simp_all add: demo_entry_def demo_pki_def)
  have "te_Fingerprint (demo_entry ''a'') \<noteq> te_Fingerprint (demo_entry ''b'')"
    using hex.enc_inj [of "''a!''" "''b!''"]
    by (auto simp: demo_entry_def Fingerprint_def FingerprintFromSPKI_def demo_pki_def)
  then show ?thesis
    using cfg strict_pin [OF cfg _ ord, of "[''b'']"] strict_pin [OF cfg _ ord, of "[''a'']"]
    by (simp add: fp en)
qed

lemma serve_rounds_calls:
  "fst (snd (serve_rounds sv ord peerID fp trusted (r # rs) s)) =
     (case rd_frame r of Inl e \<Rightarrow> [] | Inr body \<Rightarrow>
       (case sv_decode sv body of Inl e \<Rightarrow> [] | Inr req \<Rightarrow>
         (case serve_request sv ord peerID fp trusted (rd_write_ok r) req s of
            (resp, call, continue, trusted', s1) \<Rightarrow>
              call @ (if continue then fst (snd (serve_rounds sv ord peerID fp trusted' rs s1)) else []))))"
  by (simp add: serve_rounds.simps(2) split: sum.split prod.split)

text \<open>One request of a peer that is not trusted yet: only a bootstrap method is invoked, and the peer
  is trusted from then on only if that method left its fingerprint in the store.\<close>

lemma serve_request_gate:
  assumes "serve_request sv ord peerID fp False ok req s = (resp, call, continue, trusted', s1)"
  shows "(call = [] \<and> \<not> trusted' \<and> s1 = s) \<or>
     (call = [(req_Method req, s, s1)] \<and> bootstrap_method (req_Method req) \<and>
        (trusted' \<longrightarrow> peerTrusted ord fp (sv_trust sv s1)))"
  using assms unfolding serve_request_def bootstrap_method_def
  by (auto split: if_splits option.splits prod.splits sum.splits)

lemma serve_gate:
  assumes "fst (snd (serve_rounds sv ord peerID fp trusted rs s)) = pre @ (m, t, t') # post"
  shows "trusted \<or> bootstrap_method m \<or>
     list_ex (\<lambda>(b, u, u'). bootstrap_method b \<and> peerTrusted ord fp (sv_trust sv u')) pre"
  using assms
proof (induction rs arbitrary: trusted s pre)
  case Nil
  then show ?case by simp
next
  case (Cons r rs)
  show ?case
  proof (cases trusted)
    case True
    then show ?thesis ..
  next
    case False
    with Cons.prems have calls: "fst (snd (serve_rounds sv ord peerID fp False (r # rs) s)) = pre @ (m, t, t') # post"
      by simp
    then obtain req resp call continue trusted' s1
      where req: "serve_request sv ord peerID fp False (rd_write_ok r) req s = (resp, call, continue, trusted', s1)"
        and split: "pre @ (m, t, t') # post =
          call @ (if continue then fst (snd (serve_rounds sv ord peerID fp trusted' rs s1)) else [])"
      by (auto simp: serve_rounds_calls split: sum.splits prod.splits)
    from serve_request_gate [OF req] show ?thesis
    proof
      assume c: "call = [] \<and> \<not> trusted' \<and> s1 = s"
      with split have "fst (snd (serve_rounds sv ord peerID fp trusted' rs s1)) = pre @ (m, t, t') # post"
        by (cases continue) simp_all
      from Cons.IH [OF this] c show ?thesis by simp
    next
      assume c: "call = [(req_Method req, s, s1)] \<and> bootstrap_method (req_Method req) \<and>
        (trusted' \<longrightarrow> peerTrusted ord fp (sv_trust sv s1))"
      show ?thesis
      proof (cases pre)
        case Nil
        with split c show ?thesis by simp
      next
        case (Cons p pre')
        with split c have p: "p = (req_Method req, s, s1)"
          and "(if continue then fst (snd (serve_rounds sv ord peerID fp trusted' rs s1)) else []) = pre' @ (m, t, t') # post"
          by simp_all
        then have "fst (snd (serve_rounds sv ord peerID fp trusted' rs s1)) = pre' @ (m, t, t') # post"
          by (cases continue) simp_all
        from Cons.IH [OF this] show ?thesis using c by (auto simp: \<open>pre = p # pre'\<close> p)
      qed
    qed
  qed
qed

text \<open>C16. The trust gate of the RPC server. On a connection whose peer is not in the trust store when it
  connects (in particular one without a certificate), every handler invoked is \<open>Enroll\<close> or
  \<open>Join\<close>, unless an earlier \<open>Enroll\<close> or \<open>Join\<close> on the same connection left the peer's
  fingerprint in the store. This holds for every sequence of frames, decode failures, handler
  errors and failed writes.\<close>

theorem rpc_trust_gate:
  assumes "handleConn sv ord K certs rounds s = (out, pre @ (m, t, t') # post, s')"
    and "\<not> peerTrusted ord (peerFingerprintFromConnState K certs) (sv_trust sv s)"
  shows "m = MethodJoin \<or> m = MethodEnroll \<or>
     list_ex (\<lambda>(b, u, u'). (b = MethodJoin \<or> b = MethodEnroll) \<and>
        peerTrusted ord (peerFingerprintFromConnState K certs) (sv_trust sv u')) pre"
proof -
  have "fst (snd (serve_rounds sv ord (peerNodeIDFromConnState certs) (peerFingerprintFromConnState K certs) False rounds s)) =
      pre @ (m, t, t') # post"
    using assms by (simp add: handleConn_def Let_def)
  from serve_gate [OF this] show ?thesis by (simp add: bootstrap_method_def)
qed

definition demo_server :: "trust_store server" where
  "demo_server = Handle ''Status'' (\<lambda>_ _ s. (Inr None, s)) (Handle ''Enroll'' (\<lambda>_ _ s. (Inr None, s))
     \<lparr>sv_handlers = (\<lambda>_. None), sv_decode = (\<lambda>b. Inr \<lparr>req_ID = 1, req_Method = b, req_Params = []\<rparr>), sv_trust = (\<lambda>s. s)\<rparr>)"

definition demo_rounds :: "round list" where
  "demo_rounds = [\<lparr>rd_frame = Inr ''Status'', rd_write_ok = True\<rparr>, \<lparr>rd_frame = Inr ''Enroll'', rd_write_ok = True\<rparr>]"

lemma demo_session:
  "fst (snd (handleConn demo_server rev demo_pki [] demo_rounds demo_store)) = [(''Enroll'', demo_store, demo_store)]"
  by (simp add: handleConn_def peerFingerprintFromConnState_def peerTrusted_def demo_rounds_def serve_rounds.simps(2) serve_request_def
      demo_server_def Handle_def tag_defs Let_def)

theorem rpc_trust_gate_witness:
  "\<exists>out s'. handleConn demo_server rev demo_pki [] demo_rounds demo_store = (out, [(''Enroll'', demo_store, demo_store)], s') \<and>
     (''Enroll'' = MethodJoin \<or> ''Enroll'' = MethodEnroll)"
proof -
  obtain out s' where run: "handleConn demo_server rev demo_pki [] demo_rounds demo_store =
      (out, [] @ (''Enroll'', demo_store, demo_store) # [], s')"
    using demo_session by (metis append_Nil prod.collapse)
  have "\<not> peerTrusted rev (peerFingerprintFromConnState demo_pki []) (sv_trust demo_server demo_store)"
    by (simp add: peerTrusted_def peerFingerprintFromConnState_def)
  from rpc_trust_gate [OF run this] run show ?thesis by auto
qed

lemma callOn_conns: "cl_conns (snd (callOn ee de ex w od cc meth params c)) = cl_conns c"
  by (auto simp: callOn_def Let_def split: sum.split option.split)

text \<open>The connection pool. A call that fails, at any stage, leaves no pooled connection to that
  node, so the next call dials afresh; a call that succeeds leaves the connection it used, which is
  the pooled one if there was one and the one dialled otherwise; connections to other nodes are
  untouched.\<close>

theorem call_pool:
  assumes "Call ee de ex w od dialled (\<lambda>c. c) nodeID meth params c = (r, c')"
  shows "map_of (cl_conns c') k =
     (if k \<noteq> nodeID then map_of (cl_conns c) k
      else case r of Inl e \<Rightarrow> None
        | Inr v \<Rightarrow> (case map_of (cl_conns c) nodeID of Some cc \<Rightarrow> Some cc
                    | None \<Rightarrow> (case dialled of Inl e \<Rightarrow> None | Inr cc \<Rightarrow> Some cc)))"
proof -
  obtain g c1 where g: "getConn dialled (\<lambda>c. c) nodeID c = (g, c1)" by fastforce
  have c1: "map_of (cl_conns c1) k = (if k \<noteq> nodeID then map_of (cl_conns c) k
      else case map_of (cl_conns c) nodeID of Some cc \<Rightarrow> Some cc
           | None \<Rightarrow> (case dialled of Inl e \<Rightarrow> None | Inr cc \<Rightarrow> Some cc))"
    and g_err: "g = Inl e \<Longrightarrow> map_of (cl_conns c) nodeID = None \<and> dialled = Inl e" for e
    using g by (auto simp: getConn_def Let_def update_conv' split: option.splits sum.splits)
  show ?thesis
  proof (cases g)
    case (Inl e)
    with assms g have "r = Inl e" "c' = c1" by (simp_all add: Call_def)
    with c1 g_err [OF Inl] show ?thesis by simp
  next
    case (Inr cc)
    obtain r1 c2 where call: "callOn ee de ex w od cc meth params c1 = (r1, c2)" by fastforce
    have "cl_conns c2 = cl_conns c1" using callOn_conns [of ee de ex w od cc meth params c1] call by simp
    with assms g call Inr c1 show ?thesis
      by (cases r1) (auto simp: Call_def dropConn_def AList.delete_conv')
  qed
qed

theorem call_pool_witness:
  "\<exists>r c'. Call (\<lambda>_. Inr ''req'') (\<lambda>_. Inl (ErrLib ''json'')) (\<lambda>_ _. Inr ''garbage'') True (\<lambda>_. Inr ()) (Inr (7 :: nat)) (\<lambda>c. c)
      ''b'' ''Ping'' (Inr []) \<lparr>cl_conns = [(''a'', 3)], cl_nextID = 0\<rparr> = (r, c') \<and>
     map_of (cl_conns c') ''a'' = Some 3"
proof -
  obtain r c' where c: "Call (\<lambda>_. Inr ''req'') (\<lambda>_. Inl (ErrLib ''json'')) (\<lambda>_ _. Inr ''garbage'') True (\<lambda>_. Inr ()) (Inr (7 :: nat)) (\<lambda>c. c)
      ''b'' ''Ping'' (Inr []) \<lparr>cl_conns = [(''a'', 3)], cl_nextID = 0\<rparr> = (r, c')"
    by fastforce
  from call_pool [OF c, of "''a''"] c show ?thesis by simp
qed

end
