(* ===== verification/Quorum.thy ===== *)
theory Quorum
  imports Messages
begin

text \<open>
  \<open>internal/quorum/manager.go\<close>: liveness and master election. The record \<open>manager\<close> has the
  fields of the Go struct; the cluster configuration it shares with the replicator is an
  argument of the operations that read it. Every \<open>time.Now()\<close> is an argument, one per reading
  (\<open>t_mark\<close> in \<open>markLive\<close>, \<open>t_live\<close> in \<open>LiveSet\<close>, \<open>t_now\<close> in the locked part of the election).
  \<open>recomputeMaster\<close> reads the live set under the read lock and elects under the write lock, so
  other operations can run between: the two parts are separate events of \<open>mgr_step\<close>, and the
  invariants are proved for arbitrary interleavings of the events.
\<close>

section \<open>State\<close>

definition DefaultHeartbeatInterval :: duration where [unit_defs]: "DefaultHeartbeatInterval = 1 * Second"
definition DefaultDeadAfter :: duration where [unit_defs]: "DefaultDeadAfter = 4 * Second"
definition DefaultMasterCooldown :: duration where [unit_defs]: "DefaultMasterCooldown = 2 * Minute"

record manager =
  m_selfID :: string
  m_selfAdvertise :: string
  m_heartbeatInterval :: duration
  m_deadAfter :: duration
  m_masterCooldown :: duration
  m_term :: "64 word"
  m_masterID :: string
  m_lastSeen :: "(string \<times> gotime) list"
  m_liveSince :: "(string \<times> gotime) list"
  m_addrOf :: "(string \<times> string) list"
  m_observer :: bool

definition New_Manager :: "string \<Rightarrow> manager" where
  "New_Manager selfID = \<lparr>m_selfID = selfID, m_selfAdvertise = [],
     m_heartbeatInterval = DefaultHeartbeatInterval, m_deadAfter = DefaultDeadAfter,
     m_masterCooldown = DefaultMasterCooldown, m_term = 0, m_masterID = [], m_lastSeen = [],
     m_liveSince = [], m_addrOf = [], m_observer = False\<rparr>"

definition SetSelfAdvertise :: "string \<Rightarrow> manager \<Rightarrow> manager" where
  "SetSelfAdvertise addr m = m\<lparr>m_selfAdvertise := addr\<rparr>"

definition SetVersionObserver :: "manager \<Rightarrow> manager" where
  "SetVersionObserver m = m\<lparr>m_observer := True\<rparr>"

section \<open>Operations\<close>

definition Master :: "manager \<Rightarrow> string" where "Master m = m_masterID m"
definition IsMaster :: "manager \<Rightarrow> bool" where "IsMaster m \<longleftrightarrow> Master m = m_selfID m"
definition Term :: "manager \<Rightarrow> 64 word" where "Term m = m_term m"

definition LiveSet :: "gotime \<Rightarrow> manager \<Rightarrow> string list" where
  "LiveSet t_live m =
     (let cutoff = t_live - m_deadAfter m
      in sort (map fst (filter (\<lambda>(ident, ts). ts > cutoff \<or> ident = m_selfID m) (m_lastSeen m))))"

definition HasQuorum :: "gotime \<Rightarrow> ClusterConfig \<Rightarrow> manager \<Rightarrow> bool" where
  "HasQuorum t_live c m \<longleftrightarrow> QuorumSize c \<le> length (LiveSet t_live m)"

definition Liveness :: "manager \<Rightarrow> (string \<times> gotime) list" where
  "Liveness m = m_lastSeen m"

definition set_addr :: "string \<Rightarrow> string \<Rightarrow> manager \<Rightarrow> manager" where
  "set_addr ident addr m = m\<lparr>m_addrOf := AList.update ident addr (m_addrOf m)\<rparr>"

definition markLive :: "gotime \<Rightarrow> string \<Rightarrow> manager \<Rightarrow> manager" where
  "markLive t_mark ident m =
     (let fresh = (case map_of (m_lastSeen m) ident of
                     None \<Rightarrow> True
                   | Some prev \<Rightarrow> time_Sub t_mark prev > m_deadAfter m);
          m1 = (if fresh then m\<lparr>m_liveSince := AList.update ident t_mark (m_liveSince m)\<rparr> else m)
      in m1\<lparr>m_lastSeen := AList.update ident t_mark (m_lastSeen m)\<rparr>)"

text \<open>The loop over the sorted live set that looks for a peer entitled to displace a live
  incumbent; it stops at the first ID that is not lower.\<close>

fun challenger :: "gotime \<Rightarrow> duration \<Rightarrow> (string \<times> gotime) list \<Rightarrow> string \<Rightarrow> string list \<Rightarrow> string" where
  "challenger t_now cooldown since incumbent [] = incumbent"
| "challenger t_now cooldown since incumbent (ident # rest) =
     (if ident \<ge> incumbent then incumbent
      else (case map_of since ident of
              Some s \<Rightarrow> if time_Sub t_now s \<ge> cooldown then ident
                        else challenger t_now cooldown since incumbent rest
            | None \<Rightarrow> challenger t_now cooldown since incumbent rest))"

definition new_master :: "gotime \<Rightarrow> nat \<Rightarrow> string list \<Rightarrow> manager \<Rightarrow> string" where
  "new_master t_now quorum live m =
     (if length live \<ge> quorum \<and> length live > 0 then
        (if m_masterID m = [] then live ! 0
         else if \<not> list_ex (\<lambda>ident. ident = m_masterID m) live then live ! 0
         else challenger t_now (m_masterCooldown m) (m_liveSince m) (m_masterID m) live)
      else [])"

text \<open>The part of \<open>recomputeMaster\<close> that holds the write lock.\<close>

definition elect :: "gotime \<Rightarrow> nat \<Rightarrow> string list \<Rightarrow> manager \<Rightarrow> manager" where
  "elect t_now quorum live m =
     (let newMaster = new_master t_now quorum live m
      in if newMaster \<noteq> m_masterID m then m\<lparr>m_term := m_term m + 1, m_masterID := newMaster\<rparr> else m)"

definition recomputeMaster :: "gotime \<Rightarrow> gotime \<Rightarrow> ClusterConfig \<Rightarrow> manager \<Rightarrow> manager" where
  "recomputeMaster t_live t_now c m = elect t_now (QuorumSize c) (LiveSet t_live m) m"

text \<open>\<open>maybeNotifyVersion\<close>: the arguments with which the observer is called, if it is.\<close>

definition maybeNotifyVersion ::
  "string \<Rightarrow> 64 word \<Rightarrow> ClusterConfig \<Rightarrow> manager \<Rightarrow> (string \<times> string \<times> 64 word) option" where
  "maybeNotifyVersion peerID peerVer c m =
     (if \<not> m_observer m then None
      else if peerVer \<le> cc_Version c then None
      else (case map_of (m_addrOf m) peerID of
              None \<Rightarrow> None
            | Some addr \<Rightarrow> if addr = [] then None else Some (peerID, addr, peerVer)))"

text \<open>The observer runs before the election: \<open>obs\<close> is the configuration it leaves behind, which the
  election and the answer read.\<close>

definition HandleHeartbeat ::
  "gotime \<Rightarrow> gotime \<Rightarrow> gotime \<Rightarrow> (string \<times> string \<times> 64 word \<Rightarrow> ClusterConfig) \<Rightarrow> ClusterConfig \<Rightarrow>
     HeartbeatRequest \<Rightarrow> manager \<Rightarrow> HeartbeatResponse \<times> (string \<times> string \<times> 64 word) option \<times> manager" where
  "HandleHeartbeat t_mark t_live t_now obs c req m =
     (let (note, m1) =
        (if hq_FromNodeID req \<noteq> [] \<and> hq_FromNodeID req \<noteq> m_selfID m then
           (let m' = markLive t_mark (hq_FromNodeID req) m;
                m'' = (if hq_Advertise req \<noteq> [] then set_addr (hq_FromNodeID req) (hq_Advertise req) m' else m')
            in (maybeNotifyVersion (hq_FromNodeID req) (hq_Version req) c m'', m''))
         else (None, m));
          c' = (case note of None \<Rightarrow> c | Some n \<Rightarrow> obs n);
          m2 = recomputeMaster t_live t_now c' m1
      in (\<lparr>hr_NodeID = m_selfID m2, hr_Advertise = m_selfAdvertise m2, hr_Term = Term m2,
            hr_MasterID = Master m2, hr_Version = cc_Version c'\<rparr>, note, m2))"

text \<open>
  \<open>tick\<close>: remember the configured addresses, start one heartbeat per peer (a goroutine each,
  which captures the master, our address and the version read here), mark ourselves live,
  elect. \<open>heartbeat_request\<close> is what such a goroutine sends, the term read when it runs, and
  \<open>heartbeat_reply\<close> what it does with the answer.
\<close>

definition remember_addrs :: "ClusterConfig \<Rightarrow> manager \<Rightarrow> manager" where
  "remember_addrs c m =
     fold (\<lambda>p m. if pi_NodeID p \<noteq> [] \<and> pi_Advertise p \<noteq> [] then set_addr (pi_NodeID p) (pi_Advertise p) m else m)
       (cc_Peers c) m"

definition heartbeat_targets :: "ClusterConfig \<Rightarrow> manager \<Rightarrow> (string \<times> string) list" where
  "heartbeat_targets c m =
     map (\<lambda>p. (pi_NodeID p, pi_Advertise p))
       (filter (\<lambda>p. \<not> (pi_NodeID p = m_selfID m \<or> pi_NodeID p = [] \<or> pi_Advertise p = [])) (cc_Peers c))"

definition heartbeat_request :: "manager \<Rightarrow> string \<Rightarrow> string \<Rightarrow> 64 word \<Rightarrow> HeartbeatRequest" where
  "heartbeat_request m selfAdv currentMaster ver =
     \<lparr>hq_FromNodeID = m_selfID m, hq_Advertise = selfAdv, hq_Term = Term m,
      hq_MasterID = currentMaster, hq_Version = ver\<rparr>"

definition heartbeat_reply ::
  "gotime \<Rightarrow> string \<Rightarrow> err + HeartbeatResponse \<Rightarrow> ClusterConfig \<Rightarrow> manager \<Rightarrow>
     (string \<times> string \<times> 64 word) option \<times> manager" where
  "heartbeat_reply t_mark peerID res c m =
     (case res of
        Inl e \<Rightarrow> (None, m)
      | Inr resp \<Rightarrow>
         (let m1 = markLive t_mark peerID m;
              m2 = (if hr_Advertise resp \<noteq> [] then set_addr peerID (hr_Advertise resp) m1 else m1)
          in (maybeNotifyVersion peerID (hr_Version resp) c m2, m2)))"

definition tick ::
  "gotime \<Rightarrow> gotime \<Rightarrow> gotime \<Rightarrow> ClusterConfig \<Rightarrow> manager \<Rightarrow>
     (string \<times> string) list \<times> string \<times> string \<times> 64 word \<times> manager" where
  "tick t_mark t_live t_now c m =
     (let m1 = remember_addrs c m;
          currentMaster = Master m1;
          selfAdv = m_selfAdvertise m1;
          m2 = markLive t_mark (m_selfID m1) m1
      in (heartbeat_targets c m1, selfAdv, currentMaster, cc_Version c, recomputeMaster t_live t_now c m2))"

definition Start :: "gotime \<Rightarrow> gotime \<Rightarrow> gotime \<Rightarrow> ClusterConfig \<Rightarrow> manager \<Rightarrow> manager" where
  "Start t_mark t_live t_now c m = recomputeMaster t_live t_now c (markLive t_mark (m_selfID m) m)"

section \<open>Runs of atomic events\<close>

text \<open>The critical sections of the code, each of them one event.\<close>

datatype mgr_event =
    EvMarkLive gotime string
  | EvSetAddr string string
  | EvElect gotime nat "string list"
  | EvSetAdvertise string

fun mgr_step :: "mgr_event \<Rightarrow> manager \<Rightarrow> manager" where
  "mgr_step (EvMarkLive t ident) m = markLive t ident m"
| "mgr_step (EvSetAddr ident addr) m = set_addr ident addr m"
| "mgr_step (EvElect t quorum live) m = elect t quorum live m"
| "mgr_step (EvSetAdvertise addr) m = SetSelfAdvertise addr m"

text \<open>An event the code can issue: the clock does not run backwards.\<close>

fun mgr_ok :: "mgr_event \<Rightarrow> manager \<Rightarrow> bool" where
  "mgr_ok (EvMarkLive t ident) m = list_all (\<lambda>(_, ts). ts \<le> t) (m_lastSeen m)"
| "mgr_ok (EvElect t quorum live) m = (sorted live \<and> distinct live \<and> [] \<notin> set live)"
| "mgr_ok _ m = True"

lemma remember_addrs_run:
  "remember_addrs c m =
     fold mgr_step (map (\<lambda>p. EvSetAddr (pi_NodeID p) (pi_Advertise p))
       (filter (\<lambda>p. pi_NodeID p \<noteq> [] \<and> pi_Advertise p \<noteq> []) (cc_Peers c))) m"
proof -
  have "fold (\<lambda>p m. if pi_NodeID p \<noteq> [] \<and> pi_Advertise p \<noteq> [] then set_addr (pi_NodeID p) (pi_Advertise p) m else m) ps m =
     fold mgr_step (map (\<lambda>p. EvSetAddr (pi_NodeID p) (pi_Advertise p))
       (filter (\<lambda>p. pi_NodeID p \<noteq> [] \<and> pi_Advertise p \<noteq> []) ps)) m" for ps
    by (induction ps arbitrary: m) auto
  then show ?thesis by (simp add: remember_addrs_def)
qed

lemma recomputeMaster_event:
  "recomputeMaster t_live t_now c m = mgr_step (EvElect t_now (QuorumSize c) (LiveSet t_live m)) m"
  by (simp add: recomputeMaster_def)

section \<open>The live set\<close>

lemma LiveSet_sorted [simp]: "sorted (LiveSet t m)"
  by (simp add: LiveSet_def Let_def)

lemma set_LiveSet:
  "set (LiveSet t m) = {ident. \<exists>ts. (ident, ts) \<in> set (m_lastSeen m) \<and> (t - m_deadAfter m < ts \<or> ident = m_selfID m)}"
  by (auto simp: LiveSet_def Let_def image_iff)

lemma LiveSet_distinct: "distinct (map fst (m_lastSeen m)) \<Longrightarrow> distinct (LiveSet t m)"
  by (simp add: LiveSet_def Let_def distinct_map_filter)

section \<open>The election\<close>

lemma challenger_cases:
  assumes "sorted live"
  shows "challenger t d since inc live =
     (let cs = filter (\<lambda>ident. ident < inc \<and> (\<exists>s. map_of since ident = Some s \<and> time_Sub t s \<ge> d)) live
      in if cs = [] then inc else hd cs)"
  using assms
proof (induction live)
  case Nil
  then show ?case by simp
next
  case (Cons x xs)
  show ?case
  proof (cases "x \<ge> inc")
    case True
    then have "\<forall>y \<in> set (x # xs). \<not> y < inc" using Cons.prems by fastforce
    then have "filter (\<lambda>ident. ident < inc \<and> (\<exists>s. map_of since ident = Some s \<and> time_Sub t s \<ge> d)) (x # xs) = []"
      by (simp add: filter_empty_conv)
    with True show ?thesis by simp
  next
    case False
    with Cons show ?thesis by (auto simp: Let_def split: option.split)
  qed
qed

text \<open>Who may hold the role: a live peer lower than the incumbent whose streak is long enough.\<close>

definition entitled :: "gotime \<Rightarrow> string list \<Rightarrow> manager \<Rightarrow> string \<Rightarrow> bool" where
  "entitled t_now live m ident \<longleftrightarrow>
     ident \<in> set live \<and> ident < m_masterID m \<and>
     (case map_of (m_liveSince m) ident of None \<Rightarrow> False | Some s \<Rightarrow> time_Sub t_now s \<ge> m_masterCooldown m)"

lemma sorted_hd_Min: "sorted xs \<Longrightarrow> xs \<noteq> [] \<Longrightarrow> hd xs = Min (set xs)"
  by (cases xs) (auto intro!: Min_eqI [symmetric])

lemma challenger_Min:
  assumes "sorted live"
  shows "challenger t d since inc live =
     Min (insert inc {ident \<in> set live. ident < inc \<and> (\<exists>s. map_of since ident = Some s \<and> time_Sub t s \<ge> d)})"
proof -
  define cs where "cs = filter (\<lambda>ident. ident < inc \<and> (\<exists>s. map_of since ident = Some s \<and> time_Sub t s \<ge> d)) live"
  have srt: "sorted cs" using assms by (simp add: cs_def sorted_filter [of "\<lambda>x. x", simplified])
  have low: "x < inc" if "x \<in> set cs" for x using that by (simp add: cs_def)
  have "(if cs = [] then inc else hd cs) = Min (insert inc (set cs))"
  proof (cases "cs = []")
    case False
    then have "hd cs < inc" "hd cs = Min (set cs)" using low sorted_hd_Min [OF srt] by simp_all
    moreover have "Min (insert inc (set cs)) = min inc (Min (set cs))" using False by simp
    ultimately show ?thesis using False min.absorb4 [of "Min (set cs)" inc] by (simp only: if_False)
  qed simp
  moreover have "set cs = {ident \<in> set live. ident < inc \<and> (\<exists>s. map_of since ident = Some s \<and> time_Sub t s \<ge> d)}"
    by (simp add: cs_def)
  moreover have "challenger t d since inc live = (if cs = [] then inc else hd cs)"
    unfolding cs_def challenger_cases [OF assms] Let_def by (rule refl)
  ultimately show ?thesis by simp
qed

lemma new_master_spec:
  assumes "sorted live"
  shows "new_master t_now quorum live m =
     (if live = [] \<or> length live < quorum then []
      else if m_masterID m \<in> set live \<and> m_masterID m \<noteq> []
      then Min (insert (m_masterID m) {ident. entitled t_now live m ident})
      else Min (set live))"
proof -
  have ent: "{ident. entitled t_now live m ident} =
      {ident \<in> set live. ident < m_masterID m \<and>
        (\<exists>s. map_of (m_liveSince m) ident = Some s \<and> time_Sub t_now s \<ge> m_masterCooldown m)}"
    by (auto simp: entitled_def split: option.splits)
  have hd: "live \<noteq> [] \<Longrightarrow> live ! 0 = Min (set live)"
    using sorted_hd_Min [OF assms] by (simp add: hd_conv_nth)
  have mem: "list_ex (\<lambda>ident. ident = m_masterID m) live \<longleftrightarrow> m_masterID m \<in> set live"
    by (auto simp: list_ex_iff)
  show ?thesis
    unfolding new_master_def ent mem challenger_Min [OF assms] using hd
    by (simp add: not_le [symmetric])
qed

lemma new_master_live:
  "sorted live \<Longrightarrow> new_master t_now quorum live m \<noteq> [] \<Longrightarrow>
     new_master t_now quorum live m \<in> set live \<and> quorum \<le> length live"
proof -
  assume srt: "sorted live" and ne: "new_master t_now quorum live m \<noteq> []"
  let ?E = "insert (m_masterID m) {ident. entitled t_now live m ident}"
  have fin: "finite ?E" "m_masterID m \<in> set live \<Longrightarrow> ?E \<subseteq> set live"
    by (auto simp: entitled_def intro: finite_subset [of _ "set live"])
  have "Min ?E \<in> ?E" using fin by (intro Min_in) auto
  moreover have "live \<noteq> [] \<Longrightarrow> Min (set live) \<in> set live" by simp
  ultimately show ?thesis
    using ne fin(2) unfolding new_master_spec [OF srt] by (auto split: if_splits)
qed

section \<open>The invariant\<close>

definition mgr_inv :: "manager \<Rightarrow> bool" where
  "mgr_inv m \<longleftrightarrow>
     distinct (map fst (m_lastSeen m)) \<and> distinct (map fst (m_liveSince m)) \<and>
     distinct (map fst (m_addrOf m)) \<and> fst ` set (m_liveSince m) = fst ` set (m_lastSeen m) \<and>
     list_all (\<lambda>(ident, s). case map_of (m_lastSeen m) ident of None \<Rightarrow> False | Some ts \<Rightarrow> s \<le> ts)
       (m_liveSince m)"

lemma mgr_inv_New [simp]: "mgr_inv (New_Manager selfID)"
  by (simp add: mgr_inv_def New_Manager_def)

lemma mgr_inv_SetAdvertise [simp]: "mgr_inv (SetSelfAdvertise a m) = mgr_inv m"
  by (simp add: mgr_inv_def SetSelfAdvertise_def)

lemma mgr_inv_set_addr: "mgr_inv m \<Longrightarrow> mgr_inv (set_addr ident addr m)"
  by (simp add: mgr_inv_def set_addr_def distinct_update)

lemma mgr_inv_elect: "mgr_inv m \<Longrightarrow> mgr_inv (elect t q live m)"
  by (simp add: mgr_inv_def elect_def Let_def)

lemma keys_update: "fst ` set (AList.update k v xs) = insert k (fst ` set xs)"
  by (simp add: dom_update)

lemma update_pairs: "(a, b) \<in> set (AList.update k v xs) \<Longrightarrow> distinct (map fst xs) \<Longrightarrow>
    a = k \<and> b = v \<or> a \<noteq> k \<and> (a, b) \<in> set xs"
  by (metis distinct_update map_of_eq_Some_iff update_Some_unfold)

lemma mgr_inv_markLive:
  assumes "mgr_inv m" and "mgr_ok (EvMarkLive t ident) m"
  shows "mgr_inv (markLive t ident m)"
proof -
  note dist = assms(1) [unfolded mgr_inv_def]
  define m1 where "m1 = (if (case map_of (m_lastSeen m) ident of None \<Rightarrow> True
        | Some prev \<Rightarrow> time_Sub t prev > m_deadAfter m)
      then AList.update ident t (m_liveSince m) else m_liveSince m)"
  have eq: "markLive t ident m = m\<lparr>m_liveSince := m1, m_lastSeen := AList.update ident t (m_lastSeen m)\<rparr>"
    by (simp add: markLive_def Let_def m1_def)
  have old: "s \<le> ts" if "(k, s) \<in> set (m_liveSince m)" "map_of (m_lastSeen m) k = Some ts" for k s ts
    using dist that by (force simp: list_all_iff)
  have now: "ts \<le> t" if "map_of (m_lastSeen m) k = Some ts" for k ts
    using assms(2) that by (auto simp: list_all_iff dest: map_of_SomeD)
  have keys: "insert ident (fst ` set m1) = insert ident (fst ` set (m_lastSeen m))" and "distinct (map fst m1)"
    using dist by (simp_all add: m1_def keys_update distinct_update)
  moreover have "ident \<in> fst ` set m1"
  proof (cases "map_of (m_lastSeen m) ident")
    case None
    then show ?thesis by (simp add: m1_def keys_update)
  next
    case (Some ts)
    then have "ident \<in> fst ` set (m_liveSince m)" using dist by (force dest: map_of_SomeD)
    then show ?thesis by (simp add: m1_def keys_update)
  qed
  moreover have "case map_of (AList.update ident t (m_lastSeen m)) k of None \<Rightarrow> False | Some ts \<Rightarrow> s \<le> ts"
    if "(k, s) \<in> set m1" for k s
  proof (cases "k = ident")
    case True
    have "s \<le> t"
    proof (cases "map_of (m_lastSeen m) ident")
      case None
      then have "(ident, s) \<in> set (AList.update ident t (m_liveSince m))"
        using that True by (simp add: m1_def)
      with dist show ?thesis by (blast dest: update_pairs)
    next
      case (Some prev)
      from that True have "(ident, s) \<in> set (AList.update ident t (m_liveSince m)) \<or> (ident, s) \<in> set (m_liveSince m)"
        by (simp add: m1_def split: if_splits)
      then have "s = t \<or> (ident, s) \<in> set (m_liveSince m)" using dist by (blast dest: update_pairs)
      then show ?thesis using old [OF _ Some] now [OF Some] by fastforce
    qed
    with True show ?thesis by (simp add: update_conv')
  next
    case False
    then have "(k, s) \<in> set (m_liveSince m)"
      using that dist by (auto simp: m1_def split: if_splits dest: update_pairs)
    with False dist show ?thesis by (force simp: update_conv' list_all_iff)
  qed
  ultimately show ?thesis
    using dist unfolding eq mgr_inv_def
    by (auto simp: distinct_update keys_update list_all_iff insert_absorb)
qed

lemma mgr_step_keys: "fst ` set (m_lastSeen m) \<subseteq> fst ` set (m_lastSeen (mgr_step e m))"
  by (cases e) (auto simp: markLive_def set_addr_def elect_def SetSelfAdvertise_def Let_def keys_update)

interpretation mgr: monotone_component mgr_step mgr_ok mgr_inv "\<lambda>m. fst ` set (m_lastSeen m)"
proof (unfold_locales, goal_cases)
  case (1 m e)
  then show ?case
    by (cases e) (auto simp: mgr_inv_set_addr mgr_inv_elect intro: mgr_inv_markLive)
next
  case (2 m e)
  show ?case by (rule mgr_step_keys)
qed

section \<open>Liveness streaks\<close>

text \<open>
  The specification of \<open>liveSince\<close>: of the contacts with a peer, newest first, the start of the
  longest recent chain in which no two neighbours are more than \<open>d\<close> apart.
\<close>

fun streak_start :: "duration \<Rightarrow> gotime list \<Rightarrow> gotime option" where
  "streak_start d [] = None"
| "streak_start d [t] = Some t"
| "streak_start d (t # u # ts) = (if t - u > d then Some t else streak_start d (u # ts))"

definition contacts :: "string \<Rightarrow> mgr_event list \<Rightarrow> gotime list" where
  "contacts ident es =
     rev (concat (map (\<lambda>e. case e of EvMarkLive t i \<Rightarrow> if i = ident then [t] else [] | _ \<Rightarrow> []) es))"

lemma contacts_Nil [simp]: "contacts ident [] = []"
  by (simp add: contacts_def)

lemma contacts_snoc: "contacts ident (es @ [e]) =
    (case e of EvMarkLive t i \<Rightarrow> if i = ident then t # contacts ident es else contacts ident es
     | _ \<Rightarrow> contacts ident es)"
  by (simp add: contacts_def split: mgr_event.split)

lemma streak_start_chain:
  "streak_start d ts = Some s \<Longrightarrow>
     \<exists>us vs. ts = us @ vs \<and> us \<noteq> [] \<and> last us = s \<and> successively (\<lambda>t u. t - u \<le> d) us"
proof (induction d ts rule: streak_start.induct)
  case (1 d)
  then show ?case by simp
next
  case (2 d t)
  then have "[t] = [t] @ [] \<and> [t] \<noteq> [] \<and> last [t] = s \<and> successively (\<lambda>t u. t - u \<le> d) [t]" by simp
  then show ?case by blast
next
  case (3 d t u ts)
  show ?case
  proof (cases "t - u > d")
    case True
    with 3 have "t # u # ts = [t] @ (u # ts) \<and> [t] \<noteq> [] \<and> last [t] = s \<and> successively (\<lambda>t u. t - u \<le> d) [t]"
      by simp
    then show ?thesis by blast
  next
    case False
    with 3 obtain us vs where us: "u # ts = us @ vs" "us \<noteq> []" "last us = s" "successively (\<lambda>t u. t - u \<le> d) us"
      by auto
    then have "hd us = u" by (cases us) auto
    with us False have "t # u # ts = (t # us) @ vs \<and> t # us \<noteq> [] \<and> last (t # us) = s \<and>
        successively (\<lambda>t u. t - u \<le> d) (t # us)"
      by (simp add: successively_Cons)
    then show ?thesis by blast
  qed
qed

lemma mgr_run_const:
  "m_deadAfter (fold mgr_step es m) = m_deadAfter m \<and> m_masterCooldown (fold mgr_step es m) = m_masterCooldown m \<and>
   m_selfID (fold mgr_step es m) = m_selfID m"
proof (induction es arbitrary: m)
  case Nil
  then show ?case by simp
next
  case (Cons e es)
  have "m_deadAfter (mgr_step e m) = m_deadAfter m \<and> m_masterCooldown (mgr_step e m) = m_masterCooldown m \<and>
      m_selfID (mgr_step e m) = m_selfID m"
    by (cases e) (simp_all add: markLive_def set_addr_def elect_def SetSelfAdvertise_def Let_def)
  with Cons show ?case by simp
qed

lemma streak_run:
  assumes "0 \<le> m_deadAfter m" and "m_deadAfter m < 2 ^ 63 - 1" and "m_lastSeen m = []" and "m_liveSince m = []"
  shows "map_of (m_lastSeen (fold mgr_step es m)) ident =
       (case contacts ident es of [] \<Rightarrow> None | t # _ \<Rightarrow> Some t) \<and>
     map_of (m_liveSince (fold mgr_step es m)) ident = streak_start (m_deadAfter m) (contacts ident es)"
proof (induction es rule: rev_induct)
  case Nil
  then show ?case using assms by simp
next
  case (snoc e es)
  let ?m = "fold mgr_step es m"
  have d: "m_deadAfter ?m = m_deadAfter m" using mgr_run_const [of es m] by simp
  have gap: "time_Sub t u > m_deadAfter m \<longleftrightarrow> t - u > m_deadAfter m" for t u
    using assms(1,2) by (intro time_Sub_gt) auto
  show ?case
  proof (cases e)
    case (EvMarkLive t i)
    show ?thesis
    proof (cases "i = ident")
      case False
      with snoc EvMarkLive show ?thesis
        by (simp add: contacts_snoc markLive_def Let_def update_conv')
    next
      case True
      show ?thesis
      proof (cases "contacts ident es")
        case Nil
        with snoc EvMarkLive True show ?thesis
          by (simp add: contacts_snoc markLive_def Let_def update_conv')
      next
        case (Cons u us)
        with snoc EvMarkLive True d gap show ?thesis
          by (simp add: contacts_snoc markLive_def Let_def update_conv')
      qed
    qed
  qed (use snoc in \<open>simp_all add: contacts_snoc set_addr_def elect_def SetSelfAdvertise_def Let_def\<close>)
qed

section \<open>Properties\<close>

text \<open>C10. The election rule. \<open>recomputeMaster\<close> walks the sorted live set with early exits; what
  it computes is: no master without quorum; the smallest live node ID when there is no incumbent
  or the incumbent is not live; and otherwise the smallest among the incumbent and the live peers
  below it whose liveness streak has lasted the cooldown. The term is bumped exactly when the
  master changes, and nothing else of the state changes.\<close>

theorem election_rule:
  "let live = LiveSet t_live m; inc = m_masterID m; m' = recomputeMaster t_live t_now c m;
       winner = (if live = [] \<or> length live < QuorumSize c then []
                 else if inc \<in> set live \<and> inc \<noteq> []
                 then Min (insert inc {ident. entitled t_now live m ident})
                 else Min (set live))
   in m' = m\<lparr>m_masterID := winner, m_term := m_term m + (if winner = inc then 0 else 1)\<rparr>"
  using new_master_spec [OF LiveSet_sorted, of t_now "QuorumSize c" t_live m m]
  by (simp add: recomputeMaster_def elect_def Let_def)

text \<open>C15. \<open>liveSince\<close> is exact. Whatever interleaving of contacts, elections and address updates a
  manager has gone through since it was made, \<open>lastSeen\<close> of a peer is the time of its latest
  contact and \<open>liveSince\<close> the start of its current chain of contacts at most 4 seconds apart.\<close>

theorem live_since_exact:
  "let m = fold mgr_step es (New_Manager selfID) in
     map_of (m_lastSeen m) ident = (case contacts ident es of [] \<Rightarrow> None | t # _ \<Rightarrow> Some t) \<and>
     map_of (m_liveSince m) ident = streak_start (4 * Second) (contacts ident es)"
  using streak_run [of "New_Manager selfID" es ident]
  by (simp add: New_Manager_def unit_defs)

lemma elected_handoff:
  assumes srt: "sorted live" and inc: "m_masterID m \<in> set live"
    and win: "m_masterID (elect t q live m) \<noteq> []" "m_masterID (elect t q live m) \<noteq> m_masterID m"
    and ne: "m_masterID m \<noteq> []"
  shows "entitled t live m (m_masterID (elect t q live m)) \<and> q \<le> length live"
proof -
  let ?E = "{ident. entitled t live m ident}"
  have m': "m_masterID (elect t q live m) = new_master t q live m"
    by (simp add: elect_def Let_def)
  have q: "live \<noteq> []" "\<not> length live < q" and w: "new_master t q live m = Min (insert (m_masterID m) ?E)"
    using win(1) inc ne unfolding m' new_master_spec [OF srt] by (auto split: if_splits)
  have "finite ?E" by (auto simp: entitled_def intro: finite_subset [of _ "set live"])
  then have "Min (insert (m_masterID m) ?E) \<in> insert (m_masterID m) ?E" by (intro Min_in) auto
  with win(2) q show ?thesis unfolding m' w by auto
qed

text \<open>C11. The cooldown protects a live master. Take any run of the manager and then an election
  over a sorted live set that contains the incumbent. If another node takes over, its ID is lower,
  it is in the live set, the set has quorum size, and the manager has seen an unbroken chain of
  contacts with it (gaps of at most 4 seconds) that began at least 2 minutes before.\<close>

theorem cooldown_protects_master:
  assumes "m = fold mgr_step es (New_Manager selfID)"
    and "sorted live" and "m_masterID m \<in> set live" and "m_masterID m \<noteq> []"
    and "m' = elect t_now q live m" and "m_masterID m' \<noteq> []" and "m_masterID m' \<noteq> m_masterID m"
  shows "m_masterID m' < m_masterID m \<and> m_masterID m' \<in> set live \<and> q \<le> length live \<and>
     (\<exists>us vs. contacts (m_masterID m') es = us @ vs \<and> us \<noteq> [] \<and>
        t_now - last us \<ge> 2 * Minute \<and> successively (\<lambda>t u. t - u \<le> 4 * Second) us)"
proof -
  have ent: "entitled t_now live m (m_masterID m')" and q: "q \<le> length live"
    using elected_handoff [OF assms(2,3) _ _ assms(4)] assms(5-7) by auto
  then obtain s where s: "map_of (m_liveSince m) (m_masterID m') = Some s" "time_Sub t_now s \<ge> m_masterCooldown m"
    by (auto simp: entitled_def split: option.splits)
  have "streak_start (4 * Second) (contacts (m_masterID m') es) = Some s"
    using streak_run [of "New_Manager selfID" es "m_masterID m'"] s(1) assms(1)
    by (simp add: New_Manager_def unit_defs)
  moreover have "m_masterCooldown m = 2 * Minute"
    using mgr_run_const [of es "New_Manager selfID"] assms(1) by (simp add: New_Manager_def DefaultMasterCooldown_def)
  then have "t_now - s \<ge> 2 * Minute"
    using s(2) by (simp add: time_Sub_ge unit_defs)
  ultimately show ?thesis
    using ent q streak_start_chain by (fastforce simp: entitled_def)
qed

definition demo_run :: "mgr_event list" where
  "demo_run = EvElect 0 1 [''b''] # map (\<lambda>i. EvMarkLive (int i * 4000000000) ''a'') [0..<31]"

lemma demo_run_b: "m_masterID (fold mgr_step demo_run (New_Manager ''b'')) = ''b''"
  by code_simp

lemma demo_run_a: "m_masterID (elect 120000000000 2 [''a'', ''b''] (fold mgr_step demo_run (New_Manager ''b''))) = ''a''"
  by code_simp

theorem cooldown_protects_master_witness:
  "\<exists>us vs. contacts ''a'' demo_run = us @ vs \<and> us \<noteq> [] \<and> 120000000000 - last us \<ge> 2 * Minute \<and>
     successively (\<lambda>t u. t - u \<le> 4 * Second) us"
proof -
  have "''a'' < (''b'' :: string)" by code_simp
  then have "sorted [''a'', ''b'' :: string]" by (simp add: less_imp_le)
  from cooldown_protects_master [OF refl this _ _ refl, of demo_run "''b''" 120000000000 2]
  show ?thesis by (simp add: demo_run_a demo_run_b)
qed

lemma term_step:
  "m_term (mgr_step e m) = m_term m + (if m_masterID (mgr_step e m) = m_masterID m then 0 else 1)"
  by (cases e) (simp_all add: markLive_def set_addr_def elect_def SetSelfAdvertise_def Let_def)

fun handoffs :: "mgr_event list \<Rightarrow> manager \<Rightarrow> nat" where
  "handoffs [] m = 0"
| "handoffs (e # es) m =
     (if m_masterID (mgr_step e m) = m_masterID m then 0 else 1) + handoffs es (mgr_step e m)"

lemma term_run: "m_term (fold mgr_step es m) = m_term m + of_nat (handoffs es m)"
  by (induction es arbitrary: m) (auto simp: term_step)

lemma handoffs_le: "handoffs es m \<le> length es"
  by (induction es arbitrary: m) (auto intro: le_SucI)

lemma handoffs_0:
  "handoffs es m = 0 \<longleftrightarrow> (\<forall>k \<le> length es. m_masterID (fold mgr_step (take k es) m) = m_masterID m)"
proof (induction es arbitrary: m)
  case Nil
  then show ?case by simp
next
  case (Cons e es)
  show ?case
  proof
    assume "handoffs (e # es) m = 0"
    then have "m_masterID (mgr_step e m) = m_masterID m" and "handoffs es (mgr_step e m) = 0"
      by (auto split: if_splits)
    with Cons show "\<forall>k \<le> length (e # es). m_masterID (fold mgr_step (take k (e # es)) m) = m_masterID m"
      by (auto simp: take_Cons split: nat.split)
  next
    assume all: "\<forall>k \<le> length (e # es). m_masterID (fold mgr_step (take k (e # es)) m) = m_masterID m"
    have "m_masterID (mgr_step e m) = m_masterID m" using all [rule_format, of 1] by simp
    moreover have "m_masterID (fold mgr_step (take k es) (mgr_step e m)) = m_masterID m" if "k \<le> length es" for k
      using all [rule_format, of "Suc k"] that by simp
    ultimately show "handoffs (e # es) m = 0" using Cons by simp
  qed
qed

text \<open>A term names one mastership: over any interleaving of fewer than 2^64 events the term is
  the same at the end as at the start exactly when the master never changed in between, even for
  a moment.\<close>

theorem term_names_mastership:
  assumes "length es < 2 ^ 64"
  shows "m_term (fold mgr_step es m) = m_term m \<longleftrightarrow>
     (\<forall>k \<le> length es. m_masterID (fold mgr_step (take k es) m) = m_masterID m)"
proof -
  have "handoffs es m < 2 ^ 64" using handoffs_le [of es m] assms by linarith
  then have "(of_nat (handoffs es m) :: 64 word) = 0 \<longleftrightarrow> handoffs es m = 0"
    using nat_dvd_not_less [of "handoffs es m" "2 ^ 64"] by (auto simp: word_of_nat_eq_0_iff)
  then show ?thesis unfolding term_run handoffs_0 [symmetric] by simp
qed

theorem term_names_mastership_witness:
  "m_term (fold mgr_step [EvElect 0 1 [''a''], EvElect 1 2 [''a'']] (New_Manager ''a'')) \<noteq> 0"
proof -
  let ?es = "[EvElect 0 1 [''a''], EvElect 1 2 [''a'']]"
  have len: "length ?es < 2 ^ 64" by simp
  have "m_masterID (fold mgr_step (take 1 ?es) (New_Manager ''a'')) \<noteq> m_masterID (New_Manager ''a'')"
    by (simp add: elect_def new_master_def New_Manager_def Let_def)
  then have "m_term (fold mgr_step ?es (New_Manager ''a'')) \<noteq> m_term (New_Manager ''a'')"
    unfolding term_names_mastership [OF len] by (metis One_nat_def Suc_le_mono le0 length_Cons)
  then show ?thesis by (simp add: New_Manager_def)
qed

lemma lowest_wins:
  assumes "LiveSet t_live m \<noteq> []" and "QuorumSize c \<le> length (LiveSet t_live m)"
    and "low = Min (set (LiveSet t_live m))"
    and "m_masterID m = [] \<or> m_masterID m \<notin> set (LiveSet t_live m) \<or> m_masterID m = low \<or>
      (\<exists>s. map_of (m_liveSince m) low = Some s \<and> time_Sub t_now s \<ge> m_masterCooldown m)"
  shows "m_masterID (recomputeMaster t_live t_now c m) = low"
proof -
  let ?live = "LiveSet t_live m" and ?E = "{ident. entitled t_now (LiveSet t_live m) m ident}"
  have low: "low \<in> set ?live" "\<And>x. x \<in> set ?live \<Longrightarrow> low \<le> x" using assms(1,3) by simp_all
  have new: "m_masterID (recomputeMaster t_live t_now c m) = new_master t_now (QuorumSize c) ?live m"
    by (simp add: recomputeMaster_def elect_def Let_def)
  have fin: "finite ?E" by (auto simp: entitled_def intro: finite_subset [of _ "set ?live"])
  show ?thesis
  proof (cases "m_masterID m \<in> set ?live \<and> m_masterID m \<noteq> []")
    case True
    have "low \<in> insert (m_masterID m) ?E"
    proof (cases "m_masterID m = low")
      case False
      then have "low < m_masterID m" using low(2) True by force
      with False True assms(4) low(1) show ?thesis by (auto simp: entitled_def)
    qed simp
    moreover have "low \<le> x" if "x \<in> insert (m_masterID m) ?E" for x
      using that True low(2) by (auto simp: entitled_def)
    ultimately have "Min (insert (m_masterID m) ?E) = low" using fin by (intro Min_eqI) auto
    with True assms(1,2) show ?thesis unfolding new new_master_spec [OF LiveSet_sorted] by simp
  next
    case False
    with assms(1-3) show ?thesis unfolding new new_master_spec [OF LiveSet_sorted] by (simp only: if_False simp_thms) (simp add: not_less)
  qed
qed

text \<open>Agreement. Two nodes that see the same live set, with a quorum of it, and for each of
  which the smallest live node has been live for its cooldown, elect the same master at their next
  election, whatever terms and masters they had before: that smallest node.\<close>

theorem agreement_after_cooldown:
  assumes same: "set (LiveSet t1 m1) = set (LiveSet t2 m2)" and low: "low = Min (set (LiveSet t1 m1))"
    and ne: "LiveSet t1 m1 \<noteq> []"
    and q: "QuorumSize c1 \<le> length (LiveSet t1 m1)" "QuorumSize c2 \<le> length (LiveSet t2 m2)"
    and s1: "map_of (m_liveSince m1) low = Some s1" "time_Sub u1 s1 \<ge> m_masterCooldown m1"
    and s2: "map_of (m_liveSince m2) low = Some s2" "time_Sub u2 s2 \<ge> m_masterCooldown m2"
  shows "m_masterID (recomputeMaster t1 u1 c1 m1) = low \<and> m_masterID (recomputeMaster t2 u2 c2 m2) = low"
proof -
  have "LiveSet t2 m2 \<noteq> []" using same ne by auto
  then show ?thesis
    using lowest_wins [OF ne q(1) low] lowest_wins [OF _ q(2), of low] low same s1 s2 by simp
qed

definition demo_mgr :: "string \<Rightarrow> string \<Rightarrow> manager" where
  "demo_mgr self inc = (New_Manager self)\<lparr>m_masterID := inc,
     m_lastSeen := [(''a'', 200000000000), (''b'', 200000000000)],
     m_liveSince := [(''a'', 0), (''b'', 100000000000)]\<rparr>"

lemma demo_mgr_live: "LiveSet 200000000000 (demo_mgr self inc) = [''a'', ''b'']"
proof -
  have "''a'' \<le> (''b'' :: string)" by code_simp
  then show ?thesis by (simp add: LiveSet_def demo_mgr_def New_Manager_def unit_defs)
qed

theorem agreement_after_cooldown_witness:
  "m_masterID (recomputeMaster 200000000000 200000000000 demo_cluster (demo_mgr ''a'' ''b'')) = ''a'' \<and>
   m_masterID (recomputeMaster 200000000000 200000000000 demo_cluster (demo_mgr ''b'' [])) = ''a''"
proof -
  have q: "QuorumSize demo_cluster = 2" by (simp add: QuorumSize_def demo_cluster_def)
  have "''a'' < (''b'' :: string)" by code_simp
  then have "Min {''a'', ''b''} = (''a'' :: string)" by (simp add: min_def less_imp_le)
  then show ?thesis
    using agreement_after_cooldown [of 200000000000 "demo_mgr ''a'' ''b''" 200000000000 "demo_mgr ''b'' []" "''a''"
        demo_cluster demo_cluster 0 200000000000 0 200000000000]
    unfolding demo_mgr_live q
    by (simp add: demo_mgr_def New_Manager_def unit_defs time_Sub_def)
qed

text \<open>The heartbeat handler on every branch. A request with a sender other than ourselves
  counts as one contact, caches the sender's address when it gives one, and calls the observer
  exactly when one is registered, the sender's configuration version is greater than ours and an
  address for it is known; any other request changes nothing before the election. The answer
  carries the term and the master after the election and the version after the observer.\<close>

theorem handle_heartbeat_spec:
  "let (resp, note, m') = HandleHeartbeat t_mark t_live t_now obs c req m;
       c' = (case note of None \<Rightarrow> c | Some n \<Rightarrow> obs n);
       peer = hq_FromNodeID req; adv = hq_Advertise req;
       valid = (peer \<noteq> [] \<and> peer \<noteq> m_selfID m);
       evs = (if valid then EvMarkLive t_mark peer # (if adv = [] then [] else [EvSetAddr peer adv]) else []);
       addr = (if adv = [] then map_of (m_addrOf m) peer else Some adv)
   in m' = recomputeMaster t_live t_now c' (fold mgr_step evs m) \<and>
      hr_Term resp = m_term m' \<and> hr_MasterID resp = m_masterID m' \<and> hr_NodeID resp = m_selfID m \<and>
      hr_Version resp = cc_Version c' \<and>
      note = (if valid \<and> m_observer m \<and> cc_Version c < hq_Version req \<and> addr \<noteq> None \<and> addr \<noteq> Some []
              then Some (peer, the addr, hq_Version req) else None)"
proof -
  have self: "m_selfID (recomputeMaster t_live t_now c m) = m_selfID m" for c m
    by (simp add: recomputeMaster_def elect_def Let_def)
  have mark: "m_selfID (markLive t p m) = m_selfID m \<and> m_addrOf (markLive t p m) = m_addrOf m \<and>
      m_observer (markLive t p m) = m_observer m" for t p m
    by (simp add: markLive_def Let_def)
  have addr: "m_selfID (set_addr p a m) = m_selfID m \<and> m_observer (set_addr p a m) = m_observer m \<and>
      map_of (m_addrOf (set_addr p a m)) p = Some a" for p a m
    by (simp add: set_addr_def update_conv')
  show ?thesis
  proof (cases "hq_FromNodeID req \<noteq> [] \<and> hq_FromNodeID req \<noteq> m_selfID m")
    case False
    then show ?thesis by (auto simp: HandleHeartbeat_def Let_def Term_def Master_def self)
  next
    case True
    then show ?thesis
      by (cases "hq_Advertise req = []"; cases "map_of (m_addrOf m) (hq_FromNodeID req)"; cases "m_observer m")
        (simp_all add: HandleHeartbeat_def Let_def Term_def Master_def self mark addr maybeNotifyVersion_def not_le,
          auto simp: self)
  qed
qed

text \<open>A one-node cluster elects itself on tick zero: a manager that has seen nobody yet, on a
  configuration with at most one peer, is master with the next term after \<open>Start\<close>'s first two steps,
  however long the two steps take.\<close>

lemma single_node_starts_as_master:
  assumes "m_selfID m \<noteq> []" and "length (cc_Peers c) \<le> 1" and new: "m_masterID m = []" "m_lastSeen m = []"
  shows "IsMaster (Start t_mark t_live t_now c m) \<and> Term (Start t_mark t_live t_now c m) = m_term m + 1 \<and>
     HasQuorum t_live c (Start t_mark t_live t_now c m)"
proof -
  have q: "QuorumSize c = 1" using assms(2) by (auto simp: QuorumSize_def Let_def)
  have live: "LiveSet t (markLive t_mark (m_selfID m) m) = [m_selfID m]" for t
    using new by (simp add: markLive_def LiveSet_def Let_def)
  have "m_masterID (markLive t_mark (m_selfID m) m) = []" "m_selfID (markLive t_mark (m_selfID m) m) = m_selfID m"
    "m_term (markLive t_mark (m_selfID m) m) = m_term m"
    using new by (simp_all add: markLive_def Let_def)
  moreover have "LiveSet t (n\<lparr>m_term := x, m_masterID := y\<rparr>) = LiveSet t n" for t n x y
    by (simp add: LiveSet_def Let_def)
  ultimately show ?thesis
    using assms(1) by (simp add: Start_def recomputeMaster_def elect_def new_master_def q live IsMaster_def
      Master_def Term_def HasQuorum_def Let_def)
qed

section \<open>Leadership settles\<close>

text \<open>How many lower nodes of the live set there still are for the role to move to.\<close>

definition moves_left :: "string list \<Rightarrow> manager \<Rightarrow> nat" where
  "moves_left live m = (if m_masterID m \<in> set live then card {x \<in> set live. x < m_masterID m} else card (set live))"

text \<open>Elections over a fixed live set that has quorum, with anything else in between.\<close>

definition steady :: "string list \<Rightarrow> mgr_event \<Rightarrow> bool" where
  "steady live e = (case e of EvElect t q l \<Rightarrow> l = live \<and> q \<le> length live | _ \<Rightarrow> True)"

lemma card_below_less: "(y :: string) \<in> set live \<Longrightarrow> card {x \<in> set live. x < y} < card (set live)"
proof (rule psubset_card_mono)
  assume "y \<in> set live"
  then show "{x \<in> set live. x < y} \<subset> set live" using less_irrefl [of y] by blast
qed simp

lemma challenger_not_Nil: "inc \<noteq> [] \<Longrightarrow> [] \<notin> set live \<Longrightarrow> challenger t d since inc live \<noteq> []"
  by (induction t d since inc live rule: challenger.induct) (auto split: option.split)

lemma elect_lives:
  assumes "sorted live" and "[] \<notin> set live" and "live \<noteq> []" and "quorum \<le> length live"
  shows "new_master t quorum live m \<in> set live"
proof -
  have "0 < length live" using assms(3) by simp
  then have "live ! 0 \<in> set live" by (rule nth_mem)
  then have "live ! 0 \<noteq> []" using assms(2) by metis
  then have "new_master t quorum live m \<noteq> []"
    using assms challenger_not_Nil by (auto simp: new_master_def)
  then show ?thesis using new_master_live [OF assms(1)] by blast
qed

lemma elect_moves:
  assumes "sorted live" and "[] \<notin> set live" and "live \<noteq> []" and "quorum \<le> length live"
    and "m_masterID (elect t quorum live m) \<noteq> m_masterID m"
  shows "moves_left live (elect t quorum live m) < moves_left live m"
proof -
  let ?n = "m_masterID (elect t quorum live m)"
  have "?n = new_master t quorum live m" by (simp add: elect_def Let_def)
  then have n: "?n \<in> set live" using elect_lives [OF assms(1-4)] assms(5) by metis
  show ?thesis
  proof (cases "m_masterID m \<in> set live")
    case False
    then show ?thesis unfolding moves_left_def using card_below_less [OF n] n by (simp only: if_True if_False)
  next
    case True
    have "m_masterID m \<noteq> []" "?n \<noteq> []" using True n assms(2) by metis+
    then have "entitled t live m ?n" using elected_handoff [OF assms(1) True _ assms(5)] by blast
    then have lower: "?n < m_masterID m" unfolding entitled_def by blast
    have "{x \<in> set live. x < ?n} \<subset> {x \<in> set live. x < m_masterID m}"
    proof
      show "{x \<in> set live. x < ?n} \<subseteq> {x \<in> set live. x < m_masterID m}" using less_trans [OF _ lower] by blast
      have "?n \<in> {x \<in> set live. x < m_masterID m}" using n lower by blast
      then show "{x \<in> set live. x < ?n} \<noteq> {x \<in> set live. x < m_masterID m}" using less_irrefl [of ?n] by blast
    qed
    then have "card {x \<in> set live. x < ?n} < card {x \<in> set live. x < m_masterID m}" by (intro psubset_card_mono) simp
    then show ?thesis unfolding moves_left_def using True n by (simp only: if_True)
  qed
qed

lemma steady_step:
  assumes "sorted live" and "[] \<notin> set live" and "live \<noteq> []" and "steady live e"
  shows "(if m_masterID (mgr_step e m) = m_masterID m then 0 else 1) + moves_left live (mgr_step e m) \<le> moves_left live m"
proof (cases e)
  case (EvElect t q l)
  then show ?thesis
    using assms elect_moves [of live q t m] by (cases "m_masterID (elect t q live m) = m_masterID m") (auto simp: steady_def moves_left_def)
qed (simp_all add: moves_left_def markLive_def set_addr_def SetSelfAdvertise_def Let_def)

text \<open>C23. Leadership settles. While the live set stays the same and has quorum, over any interleaving of
  elections, heartbeats and address updates, the master changes at most once per live node lower
  than it, or once per live node when there is no live master to begin with; so from some
  point on it stays the same, however long the run.\<close>

theorem leadership_settles:
  assumes "sorted live" and "[] \<notin> set live" and "live \<noteq> []" and "list_all (steady live) es"
  shows "handoffs es m \<le> moves_left live m \<and> moves_left live m \<le> card (set live)"
proof
  show "handoffs es m \<le> moves_left live m"
    using assms(4)
  proof (induction es arbitrary: m)
    case (Cons e es)
    then have "handoffs es (mgr_step e m) \<le> moves_left live (mgr_step e m)" by simp
    moreover have "(if m_masterID (mgr_step e m) = m_masterID m then 0 else 1) + moves_left live (mgr_step e m) \<le> moves_left live m"
      using steady_step [OF assms(1-3)] Cons.prems by simp
    ultimately show ?case unfolding handoffs.simps by linarith
  qed simp
  show "moves_left live m \<le> card (set live)"
    by (auto simp: moves_left_def intro: card_mono)
qed

text \<open>A fresh node b: it elects a, the smallest, and two more elections change nothing.\<close>

theorem leadership_settles_witness:
  "handoffs [EvElect 0 1 [''a'', ''b''], EvMarkLive 5 ''b'', EvElect 9 2 [''a'', ''b''], EvElect 10 2 [''a'', ''b'']] (New_Manager ''b'') \<le> 2"
proof -
  let ?es = "[EvElect 0 1 [''a'', ''b''], EvMarkLive 5 ''b'', EvElect 9 2 [''a'', ''b''], EvElect 10 2 [''a'', ''b'']]"
  have "''a'' \<le> (''b'' :: string)" by code_simp
  then have "handoffs ?es (New_Manager ''b'') \<le> moves_left [''a'', ''b''] (New_Manager ''b'') \<and>
      moves_left [''a'', ''b''] (New_Manager ''b'') \<le> card {''a'', ''b'' :: string}"
    using leadership_settles [of "[''a'', ''b'']" ?es "New_Manager ''b''"] by (simp add: steady_def)
  then show ?thesis by simp
qed

section \<open>What the rule does not give\<close>

text \<open>Two nodes with the same live set, configuration and clock can hold different masters for the
  length of the cooldown: the election depends on the incumbent too. Node b has incumbent b,
  node a has just started and sees nobody in the role.\<close>

lemma same_live_set_two_masters:
  "let mb = (demo_mgr ''b'' ''b'')\<lparr>m_liveSince := [(''a'', 190000000000), (''b'', 0)]\<rparr>;
       ma = (demo_mgr ''a'' [])\<lparr>m_liveSince := [(''a'', 190000000000), (''b'', 190000000000)]\<rparr>;
       t = 200000000000
   in LiveSet t ma = LiveSet t mb \<and> IsMaster (recomputeMaster t t demo_cluster ma) \<and>
      IsMaster (recomputeMaster t t demo_cluster mb)"
  by code_simp

text \<open>The live set is not restricted to the members of the configuration: in a cluster of three
  members of which only the node itself is up, heartbeats of a node that is no member give it
  quorum, and a non-member with the smallest ID becomes master.\<close>

lemma non_member_counts_for_quorum:
  "let m = markLive 0 ''b'' (New_Manager ''b'');
       m' = snd (snd (HandleHeartbeat 1 1 1 (\<lambda>_. demo_cluster) demo_cluster
              \<lparr>hq_FromNodeID = ''Z'', hq_Advertise = [], hq_Term = 0, hq_MasterID = [], hq_Version = 0\<rparr> m))
   in \<not> HasQuorum 1 demo_cluster m \<and> HasQuorum 1 demo_cluster m' \<and> Master m' = ''Z'' \<and>
      ''Z'' \<notin> pi_NodeID ` set (cc_Peers demo_cluster)"
  by code_simp

end
