(* ===== verification/Resolver.thy ===== *)
theory Resolver
  imports Config
begin

text \<open>
  \<open>internal/checks/resolver.go\<close>: which DNS servers a check uses, and the dialling loops over
  servers and addresses. \<open>net.SplitHostPort\<close>, \<open>net.JoinHostPort\<close> are written out from the Go
  library; looking a host up, parsing an IP and dialling are the fields of the parameter record
  \<open>net_env\<close> (\<open>'c\<close> is the type of connections).
\<close>

section \<open>host:port strings\<close>

definition addr_err :: "string \<Rightarrow> string \<Rightarrow> err + 'a" where
  "addr_err hostport why = Inl (ErrLib (''address '' @ hostport @ '': '' @ why))"

definition SplitHostPort :: "string \<Rightarrow> err + string \<times> string" where
  "SplitHostPort hp =
     (case last_index_of (CHR '':'') hp of
        None \<Rightarrow> addr_err hp ''missing port in address''
      | Some i \<Rightarrow>
         (if hp ! 0 = CHR ''['' then
            (case index_of (CHR '']'') hp of
               None \<Rightarrow> addr_err hp ''missing ']' in address''
             | Some e \<Rightarrow>
                (if e + 1 = length hp then addr_err hp ''missing port in address''
                 else if e + 1 \<noteq> i then
                   addr_err hp (if hp ! (e + 1) = CHR '':'' then ''too many colons in address'' else ''missing port in address'')
                 else if CHR ''['' \<in> set (drop 1 hp) then addr_err hp ''unexpected '[' in address''
                 else if CHR '']'' \<in> set (drop (e + 1) hp) then addr_err hp ''unexpected ']' in address''
                 else Inr (drop 1 (take e hp), drop (i + 1) hp)))
          else if CHR '':'' \<in> set (take i hp) then addr_err hp ''too many colons in address''
          else if CHR ''['' \<in> set hp then addr_err hp ''unexpected '[' in address''
          else if CHR '']'' \<in> set hp then addr_err hp ''unexpected ']' in address''
          else Inr (take i hp, drop (i + 1) hp)))"

definition JoinHostPort :: "string \<Rightarrow> string \<Rightarrow> string" where
  "JoinHostPort host port =
     (if CHR '':'' \<in> set host then ''['' @ host @ '']:'' @ port else host @ '':'' @ port)"

section \<open>Choosing resolvers\<close>

definition defaultResolverPort :: string where
  "defaultResolverPort = ''53''"

text \<open>The body of the loop for one entry: nothing for a blank one.\<close>

definition normalise_entry :: "string \<Rightarrow> string list" where
  "normalise_entry raw =
     (let s = TrimSpace raw in
      if s = [] then []
      else (case SplitHostPort s of Inl e \<Rightarrow> [JoinHostPort s defaultResolverPort] | Inr hp \<Rightarrow> [s]))"

definition normaliseResolvers :: "string list \<Rightarrow> string list" where
  "normaliseResolvers xs = concat (map normalise_entry xs)"

definition EffectiveResolvers :: "Check option \<Rightarrow> string list \<Rightarrow> string list" where
  "EffectiveResolvers check clusterDefaults =
     (case check of
        None \<Rightarrow> []
      | Some c \<Rightarrow>
         (let own = normaliseResolvers (ck_Resolvers c) in
          if own \<noteq> [] then own
          else
            (let dflt = normaliseResolvers clusterDefaults in
             if dflt \<noteq> [] then dflt
             else if ck_Type c = CheckDNS then
               (let s = TrimSpace (ck_DNSResolver c) in if s \<noteq> [] then normaliseResolvers [s] else [])
             else [])))"

section \<open>Dialling\<close>

text \<open>A resolver: the servers it walks and the timeout of each dial; \<open>None\<close> is the system's.\<close>

type_synonym resolver = "(string list \<times> duration) option"

definition resolverFor :: "string list \<Rightarrow> duration \<Rightarrow> resolver" where
  "resolverFor servers timeout =
     (let servers = normaliseResolvers servers in
      if servers = [] then None
      else Some (servers, if timeout \<le> 0 then 5 * Second else timeout))"

definition resolverForCheck :: "Check \<Rightarrow> resolver" where
  "resolverForCheck c = resolverFor (ck_Resolvers c) (ck_Timeout c)"

text \<open>The loop of the \<open>Dial\<close> closure, and of \<open>dialWithResolver\<close> over the addresses: the first that
  connects, or the last error.\<close>

fun dial_first :: "(string \<Rightarrow> err + 'c) \<Rightarrow> string list \<Rightarrow> err option \<Rightarrow> err option + 'c" where
  "dial_first dial [] lastErr = Inl lastErr"
| "dial_first dial (s # ss) lastErr =
     (case dial s of Inr c \<Rightarrow> Inr c | Inl e \<Rightarrow> dial_first dial ss (Some e))"

definition resolver_Dial :: "(string \<Rightarrow> err + 'c) \<Rightarrow> string list \<Rightarrow> err + 'c" where
  "resolver_Dial dial servers =
     (case dial_first dial servers None of
        Inr c \<Rightarrow> Inr c
      | Inl None \<Rightarrow> Inl (ErrMsg ''no resolvers configured'')
      | Inl (Some e) \<Rightarrow> Inl e)"

record 'c net_env =
  ParseIP :: "string \<Rightarrow> bool"
  LookupIP :: "resolver \<Rightarrow> string \<Rightarrow> string \<Rightarrow> err + string list"
  DialContext :: "duration \<Rightarrow> string \<Rightarrow> string \<Rightarrow> err + 'c"

text \<open>\<open>dialWithResolver\<close>; \<open>nil, nil\<close> cannot come back, as the list of addresses is not empty.\<close>

definition dialWithResolver :: "'c net_env \<Rightarrow> Check \<Rightarrow> string \<Rightarrow> string \<Rightarrow> err + 'c" where
  "dialWithResolver N c network addr =
     (case SplitHostPort addr of
        Inl e \<Rightarrow> Inl (ErrWrap (''split host:port '' @ Quote addr) e)
      | Inr (host, port) \<Rightarrow>
         (let timeout = (if ck_Timeout c \<le> 0 then 10 * Second else ck_Timeout c) in
          if ParseIP N host then DialContext N timeout network addr
          else (case LookupIP N (resolverForCheck c) ''ip'' host of
                  Inl e \<Rightarrow> Inl (ErrWrap (''resolve '' @ host) e)
                | Inr ips \<Rightarrow>
                   (if ips = [] then Inl (ErrMsg (''resolve '' @ host @ '': no addresses''))
                    else (case dial_first (\<lambda>ip. DialContext N timeout network (JoinHostPort ip port)) ips None of
                            Inr conn \<Rightarrow> Inr conn
                          | Inl (Some e) \<Rightarrow> Inl e
                          | Inl None \<Rightarrow> Inl (ErrMsg []))))))"

definition resolveOne :: "'c net_env \<Rightarrow> Check \<Rightarrow> string \<Rightarrow> err + string" where
  "resolveOne N c rawhost =
     (let host = TrimSpace rawhost in
      if host = [] then Inl (ErrMsg ''empty target'')
      else if ParseIP N host then Inr host
      else if normaliseResolvers (ck_Resolvers c) = [] then Inr host
      else (case LookupIP N (resolverForCheck c) ''ip'' host of
              Inl e \<Rightarrow> Inl (ErrWrap (''resolve '' @ host) e)
            | Inr ips \<Rightarrow>
               (case ips of [] \<Rightarrow> Inl (ErrMsg (''resolve '' @ host @ '': no addresses''))
                | ip # _ \<Rightarrow> Inr ip)))"

section \<open>Lemmas\<close>

lemma last_index_of_append:
  "last_index_of c (xs @ ys) =
     (case last_index_of c ys of Some i \<Rightarrow> Some (length xs + i) | None \<Rightarrow> last_index_of c xs)"
  by (induction xs) (auto split: option.splits)

lemma last_index_of_None: "last_index_of c xs = None \<longleftrightarrow> c \<notin> set xs"
  by (induction xs) (auto split: option.splits)

lemma index_of_append_new: "c \<notin> set xs \<Longrightarrow> index_of c (xs @ c # ys) = Some (length xs)"
  by (induction xs) auto

definition bracket_free :: "string \<Rightarrow> bool" where
  "bracket_free s \<longleftrightarrow> CHR ''['' \<notin> set s \<and> CHR '']'' \<notin> set s"

text \<open>What \<open>JoinHostPort\<close> builds from a bracket-free host and a port without colons or brackets
  splits into them again.\<close>

lemma Split_Join:
  assumes "bracket_free h" and "bracket_free p" and "CHR '':'' \<notin> set p"
  shows "SplitHostPort (JoinHostPort h p) = Inr (h, p)"
proof (cases "CHR '':'' \<in> set h")
  case True
  have "last_index_of (CHR '':'') p = None" using assms(3) by (simp add: last_index_of_None)
  then have "last_index_of (CHR '':'') (''['' @ h @ '']:'' @ p) = Some (length h + 2)"
    by (simp add: last_index_of_append)
  moreover have "index_of (CHR '']'') (''['' @ h @ '']:'' @ p) = Some (length h + 1)"
    using assms(1) index_of_append_new [of "CHR '']''" h "CHR '':'' # p"] by (simp add: bracket_free_def)
  ultimately show ?thesis
    using assms True by (simp add: SplitHostPort_def JoinHostPort_def bracket_free_def)
next
  case False
  have "last_index_of (CHR '':'') p = None" using assms(3) by (simp add: last_index_of_None)
  then have "last_index_of (CHR '':'') (h @ '':'' @ p) = Some (length h)"
    by (simp add: last_index_of_append)
  moreover have "(h @ '':'' @ p) ! 0 \<noteq> CHR ''[''"
    using assms(1) by (cases h) (auto simp: bracket_free_def)
  ultimately show ?thesis
    using assms False by (simp add: SplitHostPort_def JoinHostPort_def bracket_free_def)
qed

lemma TrimSpace_fix: "s \<noteq> [] \<Longrightarrow> TrimSpace s = s \<longleftrightarrow> \<not> is_space (hd s) \<and> \<not> is_space (last s)"
proof
  assume "s \<noteq> []" and t: "TrimSpace s = s"
  have "length (dropWhile is_space (rev (dropWhile is_space s))) = length s"
    using t by (metis TrimSpace_def length_rev)
  then have "length (dropWhile is_space s) = length s"
    by (metis length_dropWhile_le length_rev order.antisym)
  then have d: "dropWhile is_space s = s"
    by (metis append_eq_append_conv append_Nil takeWhile_dropWhile_id)
  then have "dropWhile is_space (rev s) = rev s" using t by (metis TrimSpace_def rev_rev_ident)
  with d \<open>s \<noteq> []\<close> show "\<not> is_space (hd s) \<and> \<not> is_space (last s)"
    by (metis dropWhile_eq_self_iff hd_rev rev_is_Nil_conv)
next
  assume "s \<noteq> []" and "\<not> is_space (hd s) \<and> \<not> is_space (last s)"
  then have "dropWhile is_space s = s" "dropWhile is_space (rev s) = rev s"
    by (simp_all add: dropWhile_eq_self_iff hd_rev)
  then show "TrimSpace s = s" by (simp add: TrimSpace_def)
qed

lemma TrimSpace_Join: "TrimSpace s = s \<Longrightarrow> s \<noteq> [] \<Longrightarrow> TrimSpace (JoinHostPort s ''53'') = JoinHostPort s ''53''"
  by (simp add: TrimSpace_fix JoinHostPort_def is_space_def Let_def)

text \<open>An entry the code can make something of: it has a port already, or no brackets.\<close>

definition has_port :: "string \<Rightarrow> bool" where
  "has_port s = (case SplitHostPort s of Inl e \<Rightarrow> False | Inr hp \<Rightarrow> True)"

definition entry_ok :: "string \<Rightarrow> bool" where
  "entry_ok raw \<longleftrightarrow> has_port (TrimSpace raw) \<or> bracket_free (TrimSpace raw)"

lemma normalise_entry_ok:
  assumes "entry_ok raw" and "s \<in> set (normalise_entry raw)"
  shows "TrimSpace s = s \<and> s \<noteq> [] \<and> (\<exists>h p. SplitHostPort s = Inr (h, p) \<and>
     (if has_port (TrimSpace raw) then s = TrimSpace raw else h = TrimSpace raw \<and> p = ''53''))"
proof -
  have ne: "TrimSpace raw \<noteq> []" using assms(2) by (auto simp: normalise_entry_def Let_def)
  show ?thesis
  proof (cases "SplitHostPort (TrimSpace raw)")
    case (Inr hp)
    with assms(2) ne have "s = TrimSpace raw" by (simp add: normalise_entry_def Let_def)
    with Inr ne show ?thesis by (cases hp) (simp add: has_port_def)
  next
    case (Inl e)
    with assms ne have s: "s = JoinHostPort (TrimSpace raw) ''53''" and b: "bracket_free (TrimSpace raw)"
      by (auto simp: normalise_entry_def Let_def defaultResolverPort_def entry_ok_def has_port_def)
    have "TrimSpace s = s" using TrimSpace_Join [of "TrimSpace raw"] ne s by simp
    moreover have "SplitHostPort s = Inr (TrimSpace raw, ''53'')"
      unfolding s by (rule Split_Join) (use b in \<open>simp_all add: bracket_free_def\<close>)
    moreover have "s \<noteq> []" by (simp add: s JoinHostPort_def)
    ultimately show ?thesis using Inl by (simp add: has_port_def)
  qed
qed

lemma normalise_entry_fix: "TrimSpace s = s \<Longrightarrow> s \<noteq> [] \<Longrightarrow> SplitHostPort s = Inr hp \<Longrightarrow> normalise_entry s = [s]"
  by (simp add: normalise_entry_def Let_def)

section \<open>Properties\<close>

text \<open>Normalised resolver entries can be dialled. When each entry has a port already or is free of
  brackets, every entry of the result splits into host and port, the host being the trimmed entry
  with port 53 where none was given; and normalising again (which \<open>resolverFor\<close> does with lists the
  scheduler has already normalised) changes nothing.\<close>

theorem normalised_resolvers:
  assumes "list_all entry_ok xs"
  shows "list_all (\<lambda>s. case SplitHostPort s of Inl e \<Rightarrow> False | Inr (h, p) \<Rightarrow>
       list_ex (\<lambda>raw. if has_port (TrimSpace raw) then s = TrimSpace raw else h = TrimSpace raw \<and> p = ''53'') xs)
       (normaliseResolvers xs) \<and>
     normaliseResolvers (normaliseResolvers xs) = normaliseResolvers xs"
proof -
  have "case SplitHostPort s of Inl e \<Rightarrow> False | Inr (h, p) \<Rightarrow>
       list_ex (\<lambda>raw. if has_port (TrimSpace raw) then s = TrimSpace raw else h = TrimSpace raw \<and> p = ''53'') xs"
    if "s \<in> set (normaliseResolvers xs)" for s
  proof -
    from that obtain raw where raw: "raw \<in> set xs" "s \<in> set (normalise_entry raw)"
      by (auto simp: normaliseResolvers_def)
    then have "entry_ok raw" using assms by (simp add: list_all_iff)
    from normalise_entry_ok [OF this raw(2)] obtain h p where "SplitHostPort s = Inr (h, p)"
      and "if has_port (TrimSpace raw) then s = TrimSpace raw else h = TrimSpace raw \<and> p = ''53''"
      by blast
    moreover from this(2) raw(1) have "list_ex (\<lambda>raw. if has_port (TrimSpace raw) then s = TrimSpace raw
        else h = TrimSpace raw \<and> p = ''53'') xs"
      unfolding list_ex_iff by blast
    ultimately show ?thesis by simp
  qed
  moreover have "concat (map normalise_entry (normalise_entry raw)) = normalise_entry raw" if "entry_ok raw" for raw
  proof (cases "normalise_entry raw")
    case (Cons s ss)
    moreover have "ss = []" using Cons by (auto simp: normalise_entry_def Let_def split: if_splits sum.splits)
    moreover have "normalise_entry s = [s]"
      using normalise_entry_ok [OF that, of s] normalise_entry_fix [of s] Cons by auto
    ultimately show ?thesis by simp
  qed simp
  then have "normaliseResolvers (normaliseResolvers xs) = normaliseResolvers xs"
    using assms unfolding normaliseResolvers_def by (induction xs) auto
  ultimately show ?thesis by (simp add: list_all_iff)
qed

lemma demo_entries_ok: "list_all entry_ok ['' 1.1.1.1 '', ''2606::1'', ''[2606::1]:5353'', '''']"
  by code_simp

theorem normalised_resolvers_witness:
  "normaliseResolvers (normaliseResolvers ['' 1.1.1.1 '', ''2606::1'', ''[2606::1]:5353'', '''']) =
     [''1.1.1.1:53'', ''[2606::1]:53'', ''[2606::1]:5353'']"
proof -
  have "normaliseResolvers ['' 1.1.1.1 '', ''2606::1'', ''[2606::1]:5353'', ''''] =
     [''1.1.1.1:53'', ''[2606::1]:53'', ''[2606::1]:5353'']" by code_simp
  with normalised_resolvers [OF demo_entries_ok] show ?thesis by simp
qed

text \<open>A bare IPv6 address in brackets is doubled, the result does not split, and normalising again
  changes it again.\<close>

lemma bracketed_resolver_broken:
  "normaliseResolvers [''[::1]''] = [''[[::1]]:53''] \<and> \<not> has_port ''[[::1]]:53'' \<and>
   normaliseResolvers (normaliseResolvers [''[::1]'']) \<noteq> normaliseResolvers [''[::1]'']"
  by code_simp

text \<open>The dialling loop finds the first that connects.\<close>

lemma dial_first_spec:
  "dial_first dial ss lastErr =
     (case List.find (\<lambda>s. case dial s of Inl e \<Rightarrow> False | Inr c \<Rightarrow> True) ss of
        Some s \<Rightarrow> (case dial s of Inl e \<Rightarrow> Inl lastErr | Inr c \<Rightarrow> Inr c)
      | None \<Rightarrow> Inl (if ss = [] then lastErr else (case dial (last ss) of Inl e \<Rightarrow> Some e | Inr c \<Rightarrow> None)))"
proof (induction ss arbitrary: lastErr)
  case Nil
  then show ?case by simp
next
  case (Cons s ss)
  then show ?case by (cases "dial s") (auto split: option.split sum.split dest: find_Some_iff_first)
qed

definition connects :: "(string \<Rightarrow> err + 'c) \<Rightarrow> string \<Rightarrow> bool" where
  "connects dial s = (case dial s of Inl e \<Rightarrow> False | Inr c \<Rightarrow> True)"

lemma dial_first_result:
  assumes "ss \<noteq> []"
  shows "(case dial_first dial ss None of Inr c \<Rightarrow> Inr c | Inl r \<Rightarrow> (case r of Some e \<Rightarrow> Inl e | None \<Rightarrow> Inl other)) =
     (case List.find (connects dial) ss of Some s \<Rightarrow> dial s | None \<Rightarrow> dial (last ss))"
proof (cases "List.find (connects dial) ss")
  case None
  then have "\<not> connects dial (last ss)" using assms by (simp add: find_None_ball)
  with None assms show ?thesis
    unfolding dial_first_spec connects_def [abs_def] by (auto split: sum.splits)
next
  case (Some s)
  then have "connects dial s" by (auto dest: find_Some_iff_first)
  with Some show ?thesis
    unfolding dial_first_spec connects_def [abs_def] by (auto split: sum.splits)
qed

text \<open>Failover of the dialler. For a target that is no IP literal and resolves to addresses, the
  result is the connection to the first address that accepts one, in the resolver's order; it is an
  error only when every address refuses, and then the last address's error.\<close>

theorem dial_failover:
  assumes "SplitHostPort addr = Inr (host, port)" and "\<not> ParseIP N host"
    and "LookupIP N (resolverForCheck c) ''ip'' host = Inr ips" and "ips \<noteq> []"
  shows "dialWithResolver N c network addr =
     (let dial = (\<lambda>ip. DialContext N (if ck_Timeout c \<le> 0 then 10 * Second else ck_Timeout c) network (JoinHostPort ip port))
      in case List.find (connects dial) ips of
           Some ip \<Rightarrow> dial ip
         | None \<Rightarrow> dial (last ips))"
  using assms unfolding dialWithResolver_def
  by (simp add: Let_def dial_first_result cong: option.case_cong sum.case_cong)

definition demo_net :: "string net_env" where
  "demo_net = \<lparr>ParseIP = (\<lambda>_. False), LookupIP = (\<lambda>_ _ _. Inr [''10.0.0.1'', ''10.0.0.2'']),
     DialContext = (\<lambda>_ _ a. if a = ''10.0.0.2:80'' then Inr a else Inl (ErrLib ''refused''))\<rparr>"

theorem dial_failover_witness:
  "dialWithResolver demo_net zero_Check ''tcp'' ''web:80'' = Inr ''10.0.0.2:80''"
proof -
  have "SplitHostPort ''web:80'' = Inr (''web'', ''80'')" by code_simp
  from dial_failover [OF this, of demo_net zero_Check "[''10.0.0.1'', ''10.0.0.2'']" "''tcp''"] show ?thesis
    by (simp add: demo_net_def JoinHostPort_def connects_def)
qed

end
