(* ===== verification/Probes.thy ===== *)
theory Probes
  imports Resolver
begin

text \<open>
  \<open>internal/checks/probe.go\<close>, \<open>http.go\<close>, \<open>tcp.go\<close>, \<open>icmp.go\<close>, \<open>tls.go\<close>, \<open>dns.go\<close>: one
  probe of a check. What the network answers is a parameter: the record \<open>net_env\<close> for
  dialling, \<open>dns_env\<close> for record lookups, and per prober the outcome of the request, the handshake
  or the ping. \<open>lat\<close> is the latency the prober measures. \<open>url.Parse\<close> and the RFC 3339 formatter
  are parameters too.
\<close>

record Result =
  rs_CheckID :: string
  rs_OK :: bool
  rs_Detail :: string
  rs_Latency :: duration
  rs_Timestamp :: gotime

definition mk_result :: "bool \<Rightarrow> string \<Rightarrow> duration \<Rightarrow> Result" where
  "mk_result ok detail lat = \<lparr>rs_CheckID = [], rs_OK = ok, rs_Detail = detail, rs_Latency = lat, rs_Timestamp = 0\<rparr>"

section \<open>TCP\<close>

definition tcp_Probe :: "'c net_env \<Rightarrow> duration \<Rightarrow> Check \<Rightarrow> Result" where
  "tcp_Probe N lat c =
     (case dialWithResolver N c ''tcp'' (ck_Target c) of
        Inl e \<Rightarrow> mk_result False (err_text e) lat
      | Inr conn \<Rightarrow> mk_result True [] lat)"

section \<open>ICMP\<close>

text \<open>A ping: whether the pinger could be made, whether it finished before the context, the number
  of replies and their average time.\<close>

record ping =
  pg_new_err :: "err option"
  pg_done :: bool
  pg_received :: nat
  pg_avg :: duration

definition icmp_Probe :: "'c net_env \<Rightarrow> (string \<Rightarrow> duration \<Rightarrow> ping) \<Rightarrow> duration \<Rightarrow> Check \<Rightarrow> Result" where
  "icmp_Probe N pinger lat c =
     (case resolveOne N c (ck_Target c) of
        Inl e \<Rightarrow> mk_result False (''resolve: '' @ err_text e) 0
      | Inr target \<Rightarrow>
         (let p = pinger target (if ck_Timeout c \<le> 0 then 5 * Second else ck_Timeout c) in
          case pg_new_err p of
            Some e \<Rightarrow> mk_result False (''resolve: '' @ err_text e) 0
          | None \<Rightarrow>
             (if \<not> pg_done p then mk_result False ''timeout'' lat
              else if pg_received p = 0 then mk_result False ''no reply'' lat
              else mk_result True [] (pg_avg p))))"

section \<open>HTTP\<close>

definition maxBodyRead :: nat where
  "maxBodyRead = 2 ^ 20"

text \<open>A response: the status, and the bytes of the body up to its end or to a read error.\<close>

record http_response =
  hp_StatusCode :: int
  hp_Status :: string
  hp_body :: string
  hp_body_err :: "err option"

text \<open>\<open>io.ReadAll(io.LimitReader(resp.Body, maxBodyRead))\<close>: a read error past the limit is not seen.\<close>

definition read_limited :: "http_response \<Rightarrow> err + string" where
  "read_limited r =
     (if maxBodyRead \<le> length (hp_body r) then Inr (take maxBodyRead (hp_body r))
      else (case hp_body_err r of Some e \<Rightarrow> Inl e | None \<Rightarrow> Inr (hp_body r)))"

definition http_Probe :: "err option \<Rightarrow> (err + http_response) \<Rightarrow> duration \<Rightarrow> Check \<Rightarrow> Result" where
  "http_Probe build_err answer lat c =
     (case build_err of
        Some e \<Rightarrow> mk_result False (''build request: '' @ err_text e) 0
      | None \<Rightarrow>
         (case answer of
            Inl e \<Rightarrow> mk_result False (err_text e) lat
          | Inr resp \<Rightarrow>
             (let expected = (if ck_ExpectStatus c = 0 then 200 else ck_ExpectStatus c) in
              if hp_StatusCode resp \<noteq> expected then mk_result False (''status '' @ hp_Status resp) lat
              else if ck_BodyMatch c \<noteq> [] then
                (case read_limited resp of
                   Inl e \<Rightarrow> mk_result False (''read body: '' @ err_text e) lat
                 | Inr body \<Rightarrow>
                    (if \<not> Contains body (ck_BodyMatch c) then mk_result False ''body match miss'' lat
                     else mk_result True [] lat))
              else mk_result True [] lat)))"

section \<open>TLS\<close>

definition defaultTLSWarnDays :: int where
  "defaultTLSWarnDays = 14"

text \<open>\<open>url.Parse\<close> as far as it is used: an error, or \<open>Hostname()\<close> and \<open>Port()\<close>.\<close>

type_synonym url_parser = "string \<Rightarrow> err + string \<times> string"

definition tlsDialAddr :: "url_parser \<Rightarrow> string \<Rightarrow> string \<Rightarrow> err + string \<times> string" where
  "tlsDialAddr url_Parse rawtarget overrideSNI =
     (let target = TrimSpace rawtarget in
      if target = [] then Inl (ErrMsg ''empty target'')
      else case (if Contains target ''://'' then
                   (case url_Parse target of Inl e \<Rightarrow> Inl (ErrWrap ''parse target'' e) | Inr hp \<Rightarrow> Inr hp)
                 else (case SplitHostPort target of Inr hp \<Rightarrow> Inr hp | Inl e \<Rightarrow> Inr (target, []))) of
        Inl e \<Rightarrow> Inl e
      | Inr (host, port) \<Rightarrow>
         (if host = [] then Inl (ErrNotFound ''no host in target'' target)
          else
            (let port = (if port = [] then ''443'' else port);
                 sni = (if overrideSNI = [] then host else overrideSNI)
             in Inr (JoinHostPort host port, sni))))"

text \<open>\<open>Duration.String\<close> of a duration rounded to seconds, for durations below a minute (rounding
  can reach the minute).\<close>

definition seconds_string :: "duration \<Rightarrow> string" where
  "seconds_string d =
     (let r = d mod Second; s = (if r + r < Second then d - r else d + Second - r) div Second
      in if s = 60 then ''1m0s'' else Itoa s @ ''s'')"

definition roundDur :: "duration \<Rightarrow> string" where
  "roundDur d =
     (if d \<ge> 24 * Hour then Itoa (d div (24 * Hour)) @ ''d''
      else if d \<ge> Hour then Itoa (d div Hour) @ ''h''
      else if d \<ge> Minute then Itoa (d div Minute) @ ''m''
      else seconds_string d)"

text \<open>The handshake: an error, or the expiry times of the certificates presented, leaf first.
  \<open>now\<close> is the clock at \<open>time.Until\<close>.\<close>

definition tls_Probe ::
  "'c net_env \<Rightarrow> url_parser \<Rightarrow> (gotime \<Rightarrow> string) \<Rightarrow> ('c \<Rightarrow> string \<Rightarrow> err + gotime list) \<Rightarrow> gotime \<Rightarrow> duration \<Rightarrow> Check \<Rightarrow> Result" where
  "tls_Probe N url_Parse rfc3339 handshake now lat c =
     (case tlsDialAddr url_Parse (ck_Target c) (ck_TLSServerName c) of
        Inl e \<Rightarrow> mk_result False (err_text e) 0
      | Inr (addr, sni) \<Rightarrow>
         (case dialWithResolver N c ''tcp'' addr of
            Inl e \<Rightarrow> mk_result False (err_text e) lat
          | Inr conn \<Rightarrow>
             (case handshake conn sni of
                Inl e \<Rightarrow> mk_result False (err_text e) lat
              | Inr certs \<Rightarrow>
                 (case certs of
                    [] \<Rightarrow> mk_result False ''peer presented no certificate'' lat
                  | notAfter # _ \<Rightarrow>
                     (let warnDays = (if ck_TLSWarnDays c \<le> 0 then defaultTLSWarnDays else ck_TLSWarnDays c);
                          remaining = time_Sub notAfter now
                      in if remaining \<le> 0 then
                           mk_result False (''cert expired '' @ roundDur (int64 (- remaining)) @ '' ago (notAfter='' @ rfc3339 notAfter @ '')'') lat
                         else if remaining < int64 (int64 (warnDays * 24) * Hour) then
                           mk_result False (''cert expires in '' @ roundDur remaining @ '' (notAfter='' @ rfc3339 notAfter @ '')'') lat
                         else mk_result True [] lat)))))"

section \<open>DNS\<close>

record dns_env =
  dn_IP :: "resolver \<Rightarrow> string \<Rightarrow> string \<Rightarrow> err + string list"
  dn_CNAME :: "resolver \<Rightarrow> string \<Rightarrow> err + string"
  dn_MX :: "resolver \<Rightarrow> string \<Rightarrow> err + (int \<times> string) list"
  dn_TXT :: "resolver \<Rightarrow> string \<Rightarrow> err + string list"
  dn_NS :: "resolver \<Rightarrow> string \<Rightarrow> err + string list"

definition lookupRecord :: "dns_env \<Rightarrow> resolver \<Rightarrow> string \<Rightarrow> string \<Rightarrow> err + string list" where
  "lookupRecord D r rec host =
     (if rec = ''a'' then dn_IP D r ''ip4'' host
      else if rec = ''aaaa'' then dn_IP D r ''ip6'' host
      else if rec = ''cname'' then
        (case dn_CNAME D r host of Inl e \<Rightarrow> Inl e | Inr cname \<Rightarrow> Inr (if cname = [] then [] else [cname]))
      else if rec = ''mx'' then
        (case dn_MX D r host of Inl e \<Rightarrow> Inl e | Inr mxs \<Rightarrow> Inr (map (\<lambda>(pref, h). Itoa pref @ '' '' @ h) mxs))
      else if rec = ''txt'' then dn_TXT D r host
      else if rec = ''ns'' then dn_NS D r host
      else Inl (ErrMsg (''unsupported record type '' @ Quote rec @ '' (want a|aaaa|cname|mx|txt|ns)'')))"

definition summariseAnswers :: "string list \<Rightarrow> string" where
  "summariseAnswers answers =
     (if length answers \<le> 3 then Join answers '', ''
      else Join (take 3 answers) '', '' @ '', '' @ [CHR 0xE2, CHR 0x80, CHR 0xA6] @ '' +'' @
           Itoa (int (length answers - 3)) @ '' more'')"

definition dns_Probe :: "dns_env \<Rightarrow> duration \<Rightarrow> Check \<Rightarrow> Result" where
  "dns_Probe D lat c =
     (let host = TrimSpace (ck_Target c) in
      if host = [] then mk_result False ''empty target'' 0
      else
        (let rec0 = ToLower (TrimSpace (ck_DNSRecord c));
             rec = (if rec0 = [] then ''a'' else rec0)
         in case lookupRecord D (resolverForCheck c) rec host of
              Inl e \<Rightarrow> mk_result False (err_text e) lat
            | Inr answers \<Rightarrow>
               (if answers = [] then
                  mk_result False (''no '' @ ToUpper rec @ '' records for '' @ host) lat
                else
                  (let want = TrimSpace (ck_DNSExpect c) in
                   if want \<noteq> [] \<and> \<not> list_ex (\<lambda>a. Contains (ToLower a) (ToLower want)) answers then
                     mk_result False (''no answer contains '' @ Quote want @ '' (got '' @ summariseAnswers answers @ '')'') lat
                   else mk_result True [] lat))))"

section \<open>Dispatch\<close>

text \<open>The probers as they are run: each a function of the check.\<close>

record probers =
  pb_http :: "Check \<Rightarrow> Result"
  pb_tcp :: "Check \<Rightarrow> Result"
  pb_icmp :: "Check \<Rightarrow> Result"
  pb_tls :: "Check \<Rightarrow> Result"
  pb_dns :: "Check \<Rightarrow> Result"

definition Run :: "probers \<Rightarrow> gotime \<Rightarrow> Check \<Rightarrow> Result" where
  "Run P now c =
     (let finish = (\<lambda>res. let res = res\<lparr>rs_CheckID := ck_ID c\<rparr>
                          in if rs_Timestamp res = 0 then res\<lparr>rs_Timestamp := now\<rparr> else res)
      in if ck_Type c = CheckHTTP then finish (pb_http P c)
         else if ck_Type c = CheckTCP then finish (pb_tcp P c)
         else if ck_Type c = CheckICMP then finish (pb_icmp P c)
         else if ck_Type c = CheckTLS then finish (pb_tls P c)
         else if ck_Type c = CheckDNS then finish (pb_dns P c)
         else \<lparr>rs_CheckID = ck_ID c, rs_OK = False, rs_Detail = ''unknown check type '' @ Quote (ck_Type c),
               rs_Latency = 0, rs_Timestamp = now\<rparr>)"

section \<open>Properties\<close>

lemma mk_result_OK [simp]: "rs_OK (mk_result ok d lat) = ok"
  by (simp add: mk_result_def)

text \<open>The verdict of a TLS check. For a warning window of at most 106751 days (292 years) the probe
  reports OK exactly when the target normalises to an address that can be dialled, the handshake
  succeeds, a certificate is presented, and the leaf is valid for the whole window, 14 days unless
  the check asks for more or fewer.\<close>

theorem tls_verdict:
  assumes "ck_TLSWarnDays c \<le> 106751"
  shows "rs_OK (tls_Probe N url_Parse rfc3339 handshake now lat c) \<longleftrightarrow>
     (\<exists>addr sni conn notAfter rest. tlsDialAddr url_Parse (ck_Target c) (ck_TLSServerName c) = Inr (addr, sni) \<and>
        dialWithResolver N c ''tcp'' addr = Inr conn \<and> handshake conn sni = Inr (notAfter # rest) \<and>
        notAfter - now \<ge> (if ck_TLSWarnDays c \<le> 0 then 14 else ck_TLSWarnDays c) * 24 * Hour)"
proof -
  define w where "w = (if ck_TLSWarnDays c \<le> 0 then 14 else ck_TLSWarnDays c)"
  have w: "1 \<le> w" "w \<le> 106751" using assms by (auto simp: w_def)
  then have "int64 (w * 24) = w * 24" by (intro int64_id) simp_all
  moreover have "int64 (w * 24 * Hour) = w * 24 * Hour"
    using w by (intro int64_id) (simp_all add: unit_defs)
  ultimately have win: "int64 (int64 (w * 24) * Hour) = w * 24 * Hour" by simp
  have sub: "(\<not> time_Sub notAfter now \<le> 0 \<and> \<not> time_Sub notAfter now < W) \<longleftrightarrow> W \<le> notAfter - now"
    if "0 < W" "W < 2 ^ 63" for notAfter W
    using that time_Sub_ge [of W notAfter now] by linarith
  have pos: "0 < w * 24 * Hour" "w * 24 * Hour < 2 ^ 63" using w by (simp_all add: unit_defs)
  have "rs_OK (tls_Probe N url_Parse rfc3339 handshake now lat c) \<longleftrightarrow>
     (\<exists>addr sni conn notAfter rest. tlsDialAddr url_Parse (ck_Target c) (ck_TLSServerName c) = Inr (addr, sni) \<and>
        dialWithResolver N c ''tcp'' addr = Inr conn \<and> handshake conn sni = Inr (notAfter # rest) \<and>
        \<not> time_Sub notAfter now \<le> 0 \<and> \<not> time_Sub notAfter now < w * 24 * Hour)"
    unfolding tls_Probe_def defaultTLSWarnDays_def w_def [symmetric] Let_def win
    by (simp split: sum.split list.split prod.split)
  then show ?thesis unfolding sub [OF pos] unfolding w_def .
qed

definition demo_tls :: Check where
  "demo_tls = zero_Check\<lparr>ck_Target := ''web''\<rparr>"

theorem tls_verdict_witness:
  "\<not> rs_OK (tls_Probe demo_net (\<lambda>_. Inl (ErrLib [])) (\<lambda>_. []) (\<lambda>_ _. Inr [10 * 24 * Hour]) 0 1 demo_tls)"
proof -
  have le: "ck_TLSWarnDays demo_tls \<le> 106751" by (simp add: demo_tls_def zero_Check_def)
  show ?thesis
    unfolding tls_verdict [OF le] by (auto simp: demo_tls_def zero_Check_def unit_defs)
qed

text \<open>Past that bound the window wraps around: a check that wants 213504 days of validity passes
  on a certificate that has an hour left.\<close>

lemma tls_window_wraps: "int64 (int64 (213504 * 24) * Hour) < Hour"
  by (simp add: int64_def unit_defs)

text \<open>The verdict of a DNS check: OK exactly when the trimmed target is not empty, the lookup of
  the record type (case and blanks ignored, A by default) succeeds with at least one answer, and
  when an expectation is set some answer contains it, ignoring case.\<close>

theorem dns_verdict:
  "rs_OK (dns_Probe D lat c) \<longleftrightarrow>
     TrimSpace (ck_Target c) \<noteq> [] \<and>
     (\<exists>answers. lookupRecord D (resolverForCheck c)
          (if TrimSpace (ck_DNSRecord c) = [] then ''a'' else ToLower (TrimSpace (ck_DNSRecord c)))
          (TrimSpace (ck_Target c)) = Inr answers \<and>
        answers \<noteq> [] \<and>
        list_ex (\<lambda>a. TrimSpace (ck_DNSExpect c) = [] \<or> Contains (ToLower a) (ToLower (TrimSpace (ck_DNSExpect c)))) answers)"
proof -
  define rec where "rec = (if TrimSpace (ck_DNSRecord c) = [] then ''a'' else ToLower (TrimSpace (ck_DNSRecord c)))"
  have low: "ToLower s = [] \<longleftrightarrow> s = []" for s by (simp add: ToLower_def)
  have run: "dns_Probe D lat c =
      (if TrimSpace (ck_Target c) = [] then mk_result False ''empty target'' 0
       else case lookupRecord D (resolverForCheck c) rec (TrimSpace (ck_Target c)) of
              Inl e \<Rightarrow> mk_result False (err_text e) lat
            | Inr answers \<Rightarrow>
               (if answers = [] then mk_result False (''no '' @ ToUpper rec @ '' records for '' @ TrimSpace (ck_Target c)) lat
                else (let want = TrimSpace (ck_DNSExpect c) in
                   if want \<noteq> [] \<and> \<not> list_ex (\<lambda>a. Contains (ToLower a) (ToLower want)) answers then
                     mk_result False (''no answer contains '' @ Quote want @ '' (got '' @ summariseAnswers answers @ '')'') lat
                   else mk_result True [] lat)))"
    unfolding dns_Probe_def rec_def Let_def low by (rule refl)
  have ex: "list_ex (\<lambda>a. P \<or> Q a) xs \<longleftrightarrow> P \<or> list_ex Q xs" if "xs \<noteq> []" for P Q and xs :: "string list"
    using that by (cases xs) (auto simp: list_ex_iff)
  show ?thesis
  proof (cases "lookupRecord D (resolverForCheck c) rec (TrimSpace (ck_Target c))")
    case (Inl e)
    then show ?thesis unfolding run rec_def [symmetric] by simp
  next
    case (Inr answers)
    then show ?thesis
      unfolding run rec_def [symmetric] by (cases "answers = []") (simp_all add: ex Let_def)
  qed
qed

text \<open>The verdict of an HTTP check: OK exactly when the request could be built and answered, the
  status is the expected one (200 unless set), and when a text is to match, it occurs in the first
  MiB of the body and the body could be read that far.\<close>

theorem http_verdict:
  "rs_OK (http_Probe build_err answer lat c) \<longleftrightarrow>
     build_err = None \<and>
     (\<exists>resp. answer = Inr resp \<and>
        hp_StatusCode resp = (if ck_ExpectStatus c = 0 then 200 else ck_ExpectStatus c) \<and>
        (ck_BodyMatch c = [] \<or>
          Contains (take maxBodyRead (hp_body resp)) (ck_BodyMatch c) \<and>
          (hp_body_err resp = None \<or> maxBodyRead \<le> length (hp_body resp))))"
  by (auto simp: http_Probe_def read_limited_def Let_def split: option.split sum.split)

end
