(* ===== verification/Scheduler.thy ===== *)
theory Scheduler
  imports Probes
begin

text \<open>
  \<open>internal/checks/scheduler.go\<close>: the set of running probe workers. A worker is the check it was
  started with; \<open>reconcile\<close> compares them with the configuration and returns, beside the new set,
  the workers it cancelled and the checks it started. The order in which Go iterates over the maps
  \<open>running\<close> and \<open>want\<close> only permutes those lists.
\<close>

definition ReconcileInterval :: duration where [unit_defs]: "ReconcileInterval = 5 * Second"

type_synonym workers = "(string \<times> Check) list"

definition sameStrings :: "string list \<Rightarrow> string list \<Rightarrow> bool" where
  "sameStrings a b =
     (if length a \<noteq> length b then False else \<not> list_ex (\<lambda>i. a ! i \<noteq> b ! i) [0..<length a])"

definition sameCheck :: "Check \<Rightarrow> Check \<Rightarrow> bool" where
  "sameCheck a b \<longleftrightarrow>
     ck_ID a = ck_ID b \<and> ck_Type a = ck_Type b \<and> ck_Target a = ck_Target b \<and>
     ck_Interval a = ck_Interval b \<and> ck_Timeout a = ck_Timeout b \<and>
     ck_ExpectStatus a = ck_ExpectStatus b \<and> ck_BodyMatch a = ck_BodyMatch b \<and>
     sameStrings (ck_Resolvers a) (ck_Resolvers b)"

lemma sameStrings_eq [simp]: "sameStrings a b = (a = b)"
  unfolding sameStrings_def list_eq_iff_nth_eq list_ex_iff by auto

definition baked :: "ClusterConfig \<Rightarrow> Check \<Rightarrow> Check" where
  "baked c ch = ch\<lparr>ck_Resolvers := EffectiveResolvers (Some ch) (cc_Resolvers c)\<rparr>"

definition want :: "ClusterConfig \<Rightarrow> workers" where
  "want c = fold (\<lambda>ch m. if ck_ID ch = [] \<or> ck_Disabled ch then m
                          else AList.update (ck_ID ch) (baked c ch) m) (cc_Checks c) []"

definition obsolete :: "workers \<Rightarrow> string \<times> Check \<Rightarrow> bool" where
  "obsolete w worker =
     (case map_of w (fst worker) of None \<Rightarrow> True | Some desired \<Rightarrow> \<not> sameCheck desired (snd worker))"

definition reconcile :: "ClusterConfig \<Rightarrow> workers \<Rightarrow> workers \<times> workers \<times> workers" where
  "reconcile c running =
     (let w = want c;
          cancelled = filter (obsolete w) running;
          kept = filter (\<lambda>x. \<not> obsolete w x) running;
          started = filter (\<lambda>x. map_of kept (fst x) = None) w
      in (cancelled, started, kept @ started))"

definition stopAll :: "workers \<Rightarrow> workers \<times> workers" where
  "stopAll running = (running, [])"

text \<open>\<open>run\<close>: the delay before the first probe and the interval between probes; \<open>nano\<close> is
  \<open>time.Now().UnixNano()\<close>, positive.\<close>

definition run_interval :: "Check \<Rightarrow> duration" where
  "run_interval c = (if ck_Interval c \<le> 0 then 30 * Second else ck_Interval c)"

definition run_delay :: "int \<Rightarrow> Check \<Rightarrow> duration" where
  "run_delay nano c = (let jitter = run_interval c div 10 in if jitter > 0 then nano mod jitter else 0)"

definition probe_time :: "gotime \<Rightarrow> int \<Rightarrow> Check \<Rightarrow> nat \<Rightarrow> gotime" where
  "probe_time start nano c k = start + run_delay nano c + int k * run_interval c"

section \<open>Lemmas\<close>

definition runnable :: "Check \<Rightarrow> bool" where
  "runnable ch \<longleftrightarrow> ck_ID ch \<noteq> [] \<and> \<not> ck_Disabled ch"

lemma want_distinct_aux:
  "distinct (map fst m) \<Longrightarrow>
     distinct (map fst (fold (\<lambda>ch m. if ck_ID ch = [] \<or> ck_Disabled ch then m
        else AList.update (ck_ID ch) (baked c ch) m) cs m))"
  by (induction cs arbitrary: m) (auto simp: distinct_update)

lemma want_distinct [simp]: "distinct (map fst (want c))"
  by (simp add: want_def want_distinct_aux)

lemma want_map_aux:
  "map_of (fold (\<lambda>ch m. if ck_ID ch = [] \<or> ck_Disabled ch then m
        else AList.update (ck_ID ch) (baked c ch) m) cs m) k =
     (case List.find (\<lambda>ch. runnable ch \<and> ck_ID ch = k) (rev cs) of
        Some ch \<Rightarrow> Some (baked c ch) | None \<Rightarrow> map_of m k)"
  by (induction cs arbitrary: m) (auto simp: find_append update_conv' runnable_def split: option.split)

lemma want_map:
  "map_of (want c) k =
     map_option (baked c) (List.find (\<lambda>ch. runnable ch \<and> ck_ID ch = k) (rev (cc_Checks c)))"
  by (auto simp: want_def want_map_aux split: option.split)

lemma sameCheck_refl [simp]: "sameCheck x x"
  by (simp add: sameCheck_def)

lemma kept_lookup:
  "map_of (filter (\<lambda>x. \<not> obsolete w x) running) k =
     (case map_of running k of None \<Rightarrow> None | Some x \<Rightarrow> if obsolete w (k, x) then None else Some x)"
  if "distinct (map fst running)"
  using that
proof (induction running)
  case Nil
  then show ?case by simp
next
  case (Cons p running)
  have "map_of running (fst p) = None" using Cons.prems by (simp add: map_of_eq_None_iff)
  with Cons show ?case by (cases p) (auto split: option.split)
qed

lemma filter_lookup:
  "map_of (filter (\<lambda>x. Q (fst x)) m) k = (if Q k then map_of m k else None)"
  by (induction m) auto

lemma reconcile_running:
  "reconcile c running = (cancelled, started, running') \<Longrightarrow>
     running' = filter (\<lambda>x. \<not> obsolete (want c) x) running @
       filter (\<lambda>x. map_of (filter (\<lambda>x. \<not> obsolete (want c) x) running) (fst x) = None) (want c)"
  by (auto simp: reconcile_def Let_def)

lemma reconcile_lookup:
  assumes "distinct (map fst running)" and "reconcile c running = (cancelled, started, running')"
  shows "map_of running' k =
     (case map_of (want c) k of
        None \<Rightarrow> None
      | Some d \<Rightarrow> (case map_of running k of None \<Rightarrow> Some d | Some x \<Rightarrow> if sameCheck d x then Some x else Some d))"
proof -
  define kept where "kept = filter (\<lambda>x. \<not> obsolete (want c) x) running"
  have run: "running' = kept @ filter (\<lambda>x. (\<lambda>k. map_of kept k = None) (fst x)) (want c)"
    using reconcile_running [OF assms(2)] by (simp add: kept_def)
  have kept: "map_of kept k = (case map_of running k of None \<Rightarrow> None | Some x \<Rightarrow> if obsolete (want c) (k, x) then None else Some x)"
    unfolding kept_def by (rule kept_lookup [OF assms(1)])
  have "map_of running' k = (case map_of kept k of Some x \<Rightarrow> Some x | None \<Rightarrow> map_of (want c) k)"
    using filter_lookup [of "\<lambda>j. map_of kept j = None" "want c"] by (simp add: run map_add_def split: option.split)
  then show ?thesis
    unfolding kept obsolete_def by (cases "map_of (want c) k"; cases "map_of running k") simp_all
qed

lemma reconcile_distinct:
  assumes "distinct (map fst running)" and "reconcile c running = (cancelled, started, running')"
  shows "distinct (map fst running')"
proof -
  define kept where "kept = filter (\<lambda>x. \<not> obsolete (want c) x) running"
  have "running' = kept @ filter (\<lambda>x. map_of kept (fst x) = None) (want c)"
    using reconcile_running [OF assms(2)] by (simp add: kept_def)
  moreover have "distinct (map fst kept)" using assms(1) by (simp add: kept_def distinct_map_filter)
  moreover have "distinct (map fst (filter P (want c)))" for P by (simp add: distinct_map_filter)
  moreover have "fst ` set kept \<inter> fst ` set (filter (\<lambda>x. map_of kept (fst x) = None) (want c)) = {}"
    by (fastforce simp: map_of_eq_None_iff image_iff)
  ultimately show ?thesis by simp
qed

text \<open>What a running worker must have in common with the configured check to be left alone, field by field;
  and for probes over TCP, ICMP and HTTP it is all that the outcome depends on.\<close>

definition compared :: "Check \<Rightarrow> string \<times> CheckType \<times> string \<times> duration \<times> duration \<times> int \<times> string \<times> string list" where
  "compared ch = (ck_ID ch, ck_Type ch, ck_Target ch, ck_Interval ch, ck_Timeout ch, ck_ExpectStatus ch, ck_BodyMatch ch, ck_Resolvers ch)"

lemma sameCheck_compared: "sameCheck a b \<longleftrightarrow> compared a = compared b"
  by (auto simp: sameCheck_def compared_def)

definition same_probes :: "Check \<Rightarrow> Check \<Rightarrow> bool" where
  "same_probes a b \<longleftrightarrow> (\<forall>(N :: string net_env) lat. tcp_Probe N lat a = tcp_Probe N lat b) \<and>
     (\<forall>(N :: string net_env) pinger lat. icmp_Probe N pinger lat a = icmp_Probe N pinger lat b) \<and>
     (\<forall>build answer lat. http_Probe build answer lat a = http_Probe build answer lat b)"

lemma compared_probes:
  assumes "compared a = compared b"
  shows "same_probes a b"
proof -
  have f: "ck_Target a = ck_Target b" "ck_Timeout a = ck_Timeout b" "ck_ExpectStatus a = ck_ExpectStatus b"
    "ck_BodyMatch a = ck_BodyMatch b" "ck_Resolvers a = ck_Resolvers b" using assms by (simp_all add: compared_def)
  have r: "resolverForCheck a = resolverForCheck b" by (simp add: resolverForCheck_def f)
  show ?thesis
    unfolding same_probes_def tcp_Probe_def icmp_Probe_def http_Probe_def dialWithResolver_def resolveOne_def f r by simp
qed

lemma reconcile_sets:
  assumes "reconcile c running = (cancelled, started, running')"
  shows "set cancelled = set running - set running' \<and> set started = set running' - set running"
proof -
  let ?kept = "filter (\<lambda>x. \<not> obsolete (want c) x) running"
  have eq: "cancelled = filter (obsolete (want c)) running" "started = filter (\<lambda>x. map_of ?kept (fst x) = None) (want c)"
    "running' = ?kept @ started"
    using assms by (auto simp: reconcile_def Let_def)
  have wanted: "\<not> obsolete (want c) x" if "x \<in> set (want c)" for x
  proof -
    have "map_of (want c) (fst x) = Some (snd x)" using that by (metis map_of_is_SomeI prod.collapse want_distinct)
    then show ?thesis by (simp only: obsolete_def option.case sameCheck_refl simp_thms)
  qed
  have fresh: "x \<notin> set ?kept" if "x \<in> set started" for x
  proof
    assume "x \<in> set ?kept"
    then have "map_of ?kept (fst x) \<noteq> None" by (metis imageI map_of_eq_None_iff set_map list.set_map)
    with that show False by (simp add: eq(2))
  qed
  have "x \<in> set (want c)" if "x \<in> set started" for x using that by (simp add: eq(2))
  with wanted fresh show ?thesis by (auto simp: eq(1,3))
qed

section \<open>Properties\<close>

text \<open>C36. \<open>reconcile\<close> makes the running workers what the configuration wants, as far as it compares them.
  Afterwards there is one worker for each enabled check with an ID (the last with that ID) and no other.
  Its check agrees with the configured one, effective resolvers baked in, in ID, type, target, interval,
  timeout, expected status, body match and resolvers: it is the one that ran before if that one agrees in
  all of these, and the configured one otherwise. So TCP, ICMP and HTTP probes come out as
  configured (for DNS and TLS checks see \<open>dns_edit_not_picked_up\<close>). Exactly the workers that no
  longer run were cancelled, exactly those that did not run before were started, and a second
  pass over the same configuration cancels and starts nothing.\<close>

theorem reconcile_converges:
  assumes "distinct (map fst running)" and "reconcile c running = (cancelled, started, running')"
  shows "(case List.find (\<lambda>ch. runnable ch \<and> ck_ID ch = k) (rev (cc_Checks c)) of
        None \<Rightarrow> map_of running' k = None
      | Some ch \<Rightarrow> (case map_of running' k of None \<Rightarrow> False | Some x \<Rightarrow> compared x = compared (baked c ch) \<and> same_probes x (baked c ch) \<and>
          x = (case map_of running k of None \<Rightarrow> baked c ch | Some old \<Rightarrow> if compared old = compared (baked c ch) then old else baked c ch))) \<and>
     set cancelled = set running - set running' \<and> set started = set running' - set running \<and>
     distinct (map fst running') \<and> reconcile c running' = ([], [], running')"
proof -
  note look = reconcile_lookup [OF assms]
  have d: "distinct (map fst running')" by (rule reconcile_distinct [OF assms])
  have "\<not> obsolete (want c) (j, x)" if "(j, x) \<in> set running'" for j x
  proof -
    have "map_of running' j = Some x" using that d by simp
    then show ?thesis
      using look [of j] unfolding obsolete_def
      by (cases "map_of (want c) j"; cases "map_of running j") (simp_all split: if_splits)
  qed
  then have none: "filter (obsolete (want c)) running' = []" "filter (\<lambda>x. \<not> obsolete (want c) x) running' = running'"
    by (auto simp: filter_empty_conv filter_id_conv)
  have "map_of running' (fst x) \<noteq> None" if "x \<in> set (want c)" for x
  proof -
    have "map_of (want c) (fst x) = Some (snd x)" using that by (metis map_of_is_SomeI prod.collapse want_distinct)
    with look [of "fst x"] show ?thesis
      by (cases "map_of running (fst x)") (simp_all only: option.case split: if_split, simp_all)
  qed
  then have "reconcile c running' = ([], [], running')"
    by (auto simp: reconcile_def none Let_def filter_empty_conv)
  moreover have "case List.find (\<lambda>ch. runnable ch \<and> ck_ID ch = k) (rev (cc_Checks c)) of
        None \<Rightarrow> map_of running' k = None
      | Some ch \<Rightarrow> (case map_of running' k of None \<Rightarrow> False | Some x \<Rightarrow> compared x = compared (baked c ch) \<and> same_probes x (baked c ch) \<and>
          x = (case map_of running k of None \<Rightarrow> baked c ch | Some old \<Rightarrow> if compared old = compared (baked c ch) then old else baked c ch))"
    using look [of k] compared_probes unfolding want_map sameCheck_compared
    by (cases "List.find (\<lambda>ch. runnable ch \<and> ck_ID ch = k) (rev (cc_Checks c))"; cases "map_of running k")
      (auto split: if_splits)
  ultimately show ?thesis using d reconcile_sets [OF assms(2)] by blast
qed

definition sched_check :: "string \<Rightarrow> Check" where
  "sched_check target = zero_Check\<lparr>ck_ID := ''c1'', ck_Type := CheckDNS, ck_Target := target\<rparr>"

definition sched_cfg :: "Check \<Rightarrow> ClusterConfig" where
  "sched_cfg ch = zero_ClusterConfig\<lparr>cc_Checks := [ch]\<rparr>"

theorem reconcile_converges_witness:
  "\<exists>cancelled started running'. reconcile (sched_cfg (sched_check ''b'')) [(''c1'', sched_check ''a''), (''c2'', sched_check ''x'')] =
      (cancelled, started, running') \<and> map_of running' ''c2'' = None \<and>
     reconcile (sched_cfg (sched_check ''b'')) running' = ([], [], running')"
proof -
  let ?r = "[(''c1'', sched_check ''a''), (''c2'', sched_check ''x'')]"
  have d: "distinct (map fst ?r)" by simp
  obtain cancelled started running' where r: "reconcile (sched_cfg (sched_check ''b'')) ?r = (cancelled, started, running')"
    by (metis prod_cases3)
  have "List.find (\<lambda>ch. runnable ch \<and> ck_ID ch = ''c2'') (rev (cc_Checks (sched_cfg (sched_check ''b'')))) = None"
    by (simp add: sched_cfg_def sched_check_def)
  with reconcile_converges [OF d r, of "''c2''"] r show ?thesis by auto
qed

text \<open>An edit of the fields \<open>sameCheck\<close> leaves out does not reach a running worker: after the
  expected answer of a DNS check (or the record type, or the warning window and server name of a
  TLS check) is edited, the worker goes on with the old one.\<close>

lemma dns_edit_not_picked_up:
  "let old = sched_check ''web''; new = old\<lparr>ck_DNSExpect := ''10.0.0.9'', ck_DNSRecord := ''mx'',
         ck_TLSWarnDays := 30, ck_TLSServerName := ''sni''\<rparr>
   in reconcile (sched_cfg new) [(''c1'', baked (sched_cfg old) old)] = ([], [], [(''c1'', baked (sched_cfg old) old)])"
  by code_simp

end
