(* ===== verification/Aggregator.thy ===== *)
theory Aggregator
  imports Probes "HOL-Library.Multiset"
begin

text \<open>
  \<open>internal/checks/aggregator.go\<close>: the master's verdict on each check. The two maps are
  association lists; the order in which Go iterates over a map of reports is the parameter
  \<open>ord\<close> of the snapshot, where it picks the detail shown. Each \<open>time.Now()\<close> is an argument:
  \<open>t_eval\<close> for the cutoff of the evaluation, \<open>t_snap\<close> for the cutoff of the snapshot, \<open>t_upd\<close>
  for its time stamp.
\<close>

section \<open>State\<close>

text \<open>\<open>State\<close> is a string type of which the aggregator uses three values.\<close>

datatype State = StateUnknown | StateUp | StateDown

fun state_string :: "State \<Rightarrow> string" where
  "state_string StateUnknown = ''unknown''"
| "state_string StateUp = ''up''"
| "state_string StateDown = ''down''"

definition HysteresisCount :: nat where
  "HysteresisCount = 2"

record Snapshot =
  sn_CheckID :: string
  sn_State :: State
  sn_Reports :: nat
  sn_OKCount :: nat
  sn_NotOK :: nat
  sn_Detail :: string
  sn_UpdateAt :: gotime

record nodeResult =
  nr_OK :: bool
  nr_Detail :: string
  nr_At :: gotime

type_synonym reports = "(string \<times> nodeResult) list"
type_synonym report_order = "nodeResult list \<Rightarrow> nodeResult list"

record checkState =
  st_latest :: reports
  st_committed :: State
  st_candidate :: State
  st_consecutive :: nat

record aggregator =
  ag_transition :: bool
  ag_perCheck :: "(string \<times> checkState) list"

type_synonym transition = "Check \<times> State \<times> State \<times> Snapshot"

definition NewAggregator :: "bool \<Rightarrow> aggregator" where
  "NewAggregator fn = \<lparr>ag_transition = fn, ag_perCheck = []\<rparr>"

definition SetTransition :: "bool \<Rightarrow> aggregator \<Rightarrow> aggregator" where
  "SetTransition fn a = a\<lparr>ag_transition := fn\<rparr>"

definition new_checkState :: checkState where
  "new_checkState = \<lparr>st_latest = [], st_committed = StateUnknown, st_candidate = StateUnknown, st_consecutive = 0\<rparr>"

section \<open>Operations\<close>

definition freshWindowFor :: "duration \<Rightarrow> duration" where
  "freshWindowFor interval =
     (if interval \<le> 0 then 60 * Second
      else (let w = int64 (interval * 3) in if w < 30 * Second then 30 * Second else w))"

definition lookupCheck :: "ClusterConfig \<Rightarrow> string \<Rightarrow> Check option" where
  "lookupCheck c ident = List.find (\<lambda>ch. ck_ID ch = ident) (cc_Checks c)"

text \<open>The counting loop: \<open>ok_\<close>, \<open>notOK\<close> and the first non-empty detail of a failure.\<close>

definition count_report :: "gotime \<Rightarrow> nodeResult \<Rightarrow> nat \<times> nat \<times> string \<Rightarrow> nat \<times> nat \<times> string" where
  "count_report cutoff nr acc =
     (case acc of (ok, notOK, detail) \<Rightarrow>
      if nr_At nr < cutoff then (ok, notOK, detail)
      else if nr_OK nr then (ok + 1, notOK, detail)
      else (ok, notOK + 1, if detail = [] then nr_Detail nr else detail))"

definition count_reports :: "gotime \<Rightarrow> nodeResult list \<Rightarrow> nat \<times> nat \<times> string" where
  "count_reports cutoff rs = fold (count_report cutoff) rs (0, 0, [])"

definition snapshotLocked ::
  "report_order \<Rightarrow> gotime \<Rightarrow> gotime \<Rightarrow> ClusterConfig \<Rightarrow> string \<Rightarrow> checkState \<Rightarrow> Snapshot" where
  "snapshotLocked ord t_snap t_upd c checkID st =
     (let freshWindow = (case lookupCheck c checkID of None \<Rightarrow> 60 * Second | Some ch \<Rightarrow> freshWindowFor (ck_Interval ch));
          cutoff = t_snap - freshWindow
      in case count_reports cutoff (ord (map snd (st_latest st))) of
           (ok, notOK, detail) \<Rightarrow>
             \<lparr>sn_CheckID = checkID, sn_State = st_committed st, sn_Reports = ok + notOK, sn_OKCount = ok,
              sn_NotOK = notOK, sn_Detail = detail, sn_UpdateAt = t_upd\<rparr>)"

definition SnapshotFor :: "report_order \<Rightarrow> gotime \<Rightarrow> gotime \<Rightarrow> ClusterConfig \<Rightarrow> string \<Rightarrow> aggregator \<Rightarrow> Snapshot option" where
  "SnapshotFor ord t_snap t_upd c checkID a =
     (case map_of (ag_perCheck a) checkID of
        None \<Rightarrow> None
      | Some st \<Rightarrow> Some (snapshotLocked ord t_snap t_upd c checkID st))"

definition candidate_for :: "gotime \<Rightarrow> duration \<Rightarrow> reports \<Rightarrow> State" where
  "candidate_for t_eval interval latest =
     (let cutoff = t_eval - freshWindowFor interval in
      case count_reports cutoff (map snd latest) of (ok, notOK, _) \<Rightarrow>
        if ok + notOK = 0 then StateUnknown else if notOK > ok then StateDown else StateUp)"

text \<open>The hysteresis: the new record and, when the committed state flips, the old and new one.\<close>

definition hysteresis :: "State \<Rightarrow> checkState \<Rightarrow> (State \<times> State) option \<times> checkState" where
  "hysteresis candidate st =
     (let st1 = (if candidate = st_candidate st then st\<lparr>st_consecutive := st_consecutive st + 1\<rparr>
                 else st\<lparr>st_candidate := candidate, st_consecutive := 1\<rparr>)
      in if candidate \<noteq> st_committed st1 \<and> st_consecutive st1 \<ge> HysteresisCount
         then (Some (st_committed st1, candidate), st1\<lparr>st_committed := candidate\<rparr>)
         else (None, st1))"

definition evaluate ::
  "report_order \<Rightarrow> gotime \<Rightarrow> gotime \<Rightarrow> gotime \<Rightarrow> ClusterConfig \<Rightarrow> string \<Rightarrow> aggregator \<Rightarrow> transition option \<times> aggregator" where
  "evaluate ord t_eval t_snap t_upd c checkID a =
     (case lookupCheck c checkID of
        None \<Rightarrow> (None, a\<lparr>ag_perCheck := AList.delete checkID (ag_perCheck a)\<rparr>)
      | Some check \<Rightarrow>
         (case map_of (ag_perCheck a) checkID of
            None \<Rightarrow> (None, a)
          | Some st \<Rightarrow>
             (case hysteresis (candidate_for t_eval (ck_Interval check) (st_latest st)) st of
                (fired, st') \<Rightarrow>
                  (let a' = a\<lparr>ag_perCheck := AList.update checkID st' (ag_perCheck a)\<rparr>;
                       snap = snapshotLocked ord t_snap t_upd c checkID st'
                   in (case fired of
                         None \<Rightarrow> (None, a')
                       | Some (from, to) \<Rightarrow>
                           (if ag_transition a then (Some (check, from, to, snap), a') else (None, a')))))))"

definition record_report :: "string \<Rightarrow> Result \<Rightarrow> aggregator \<Rightarrow> aggregator" where
  "record_report nodeID r a =
     (let st = (case map_of (ag_perCheck a) (rs_CheckID r) of None \<Rightarrow> new_checkState | Some st \<Rightarrow> st);
          nr = \<lparr>nr_OK = rs_OK r, nr_Detail = rs_Detail r, nr_At = rs_Timestamp r\<rparr>
      in a\<lparr>ag_perCheck := AList.update (rs_CheckID r)
             (st\<lparr>st_latest := AList.update nodeID nr (st_latest st)\<rparr>) (ag_perCheck a)\<rparr>)"

definition Submit ::
  "report_order \<Rightarrow> gotime \<Rightarrow> gotime \<Rightarrow> gotime \<Rightarrow> ClusterConfig \<Rightarrow> string \<Rightarrow> Result \<Rightarrow> aggregator \<Rightarrow> transition option \<times> aggregator" where
  "Submit ord t_eval t_snap t_upd c nodeID r a =
     (if rs_CheckID r = [] then (None, a)
      else evaluate ord t_eval t_snap t_upd c (rs_CheckID r) (record_report nodeID r a))"

section \<open>Counting\<close>

definition fresh_ok :: "gotime \<Rightarrow> nodeResult list \<Rightarrow> nat" where
  "fresh_ok cutoff rs = length (filter (\<lambda>nr. cutoff \<le> nr_At nr \<and> nr_OK nr) rs)"

definition fresh_bad :: "gotime \<Rightarrow> nodeResult list \<Rightarrow> nat" where
  "fresh_bad cutoff rs = length (filter (\<lambda>nr. cutoff \<le> nr_At nr \<and> \<not> nr_OK nr) rs)"

lemma fold_count: "\<exists>d. fold (count_report cutoff) rs (i, j, d0) = (i + fresh_ok cutoff rs, j + fresh_bad cutoff rs, d)"
proof (induction rs arbitrary: i j d0)
  case Nil
  then show ?case by (simp add: fresh_ok_def fresh_bad_def)
next
  case (Cons r rs)
  obtain i' j' d' where r: "count_report cutoff r (i, j, d0) = (i', j', d')" by (metis prod_cases3)
  then have "i' = i + fresh_ok cutoff [r]" "j' = j + fresh_bad cutoff [r]"
    by (auto simp: count_report_def fresh_ok_def fresh_bad_def split: if_splits)
  moreover obtain d where "fold (count_report cutoff) rs (i', j', d') = (i' + fresh_ok cutoff rs, j' + fresh_bad cutoff rs, d)"
    using Cons by blast
  ultimately show ?case using r by (simp add: fresh_ok_def fresh_bad_def)
qed

lemma count_reports_eq: "\<exists>d. count_reports cutoff rs = (fresh_ok cutoff rs, fresh_bad cutoff rs, d)"
  using fold_count [of cutoff rs 0 0 "[]"] by (simp add: count_reports_def)

lemma fresh_mset:
  assumes "mset xs = mset ys"
  shows "fresh_ok cutoff xs = fresh_ok cutoff ys \<and> fresh_bad cutoff xs = fresh_bad cutoff ys"
proof -
  have "length (filter P xs) = length (filter P ys)" for P
    using assms by (metis mset_filter size_mset)
  then show ?thesis by (simp add: fresh_ok_def fresh_bad_def)
qed

lemma candidate_for_eq:
  "candidate_for t interval latest =
     (let good = fresh_ok (t - freshWindowFor interval) (map snd latest);
          bad = fresh_bad (t - freshWindowFor interval) (map snd latest)
      in if good + bad = 0 then StateUnknown else if good < bad then StateDown else StateUp)"
  using count_reports_eq [of "t - freshWindowFor interval" "map snd latest"]
  by (auto simp: candidate_for_def Let_def)

section \<open>Hysteresis\<close>

text \<open>The specification: of a list of verdicts, newest first, the last one that occurred twice in a
  row, unknown when there is none.\<close>

fun last_pair :: "State list \<Rightarrow> State" where
  "last_pair (v # w # vs) = (if v = w then v else last_pair (w # vs))"
| "last_pair vs = StateUnknown"

text \<open>How the three fields represent the verdicts so far: the current run of equal verdicts, newest
  first, is the candidate, \<open>st_consecutive\<close> times.\<close>

definition represents :: "checkState \<Rightarrow> State list \<Rightarrow> bool" where
  "represents st vs \<longleftrightarrow> st_committed st = last_pair vs \<and>
     (case vs of
        [] \<Rightarrow> st_candidate st = StateUnknown \<and> st_consecutive st = 0
      | v # ws \<Rightarrow> st_candidate st = v \<and> st_consecutive st \<ge> 1 \<and>
          (st_consecutive st \<ge> 2 \<longleftrightarrow> ws \<noteq> [] \<and> hd ws = v))"

lemma represents_new [simp]: "represents new_checkState []"
  by (simp add: represents_def new_checkState_def)

lemma represents_latest [simp]: "represents (st\<lparr>st_latest := l\<rparr>) vs = represents st vs"
  by (cases vs) (simp_all add: represents_def)

lemma hysteresis_step:
  assumes "represents st vs" and "hysteresis v st = (fired, st')"
  shows "represents st' (v # vs) \<and> st_latest st' = st_latest st \<and>
     fired = (if last_pair (v # vs) = last_pair vs then None else Some (last_pair vs, last_pair (v # vs)))"
proof (cases "v = st_candidate st")
  case True
  have st': "st' = (if v \<noteq> st_committed st \<and> st_consecutive st \<ge> 1
      then st\<lparr>st_consecutive := st_consecutive st + 1, st_committed := v\<rparr>
      else st\<lparr>st_consecutive := st_consecutive st + 1\<rparr>)"
    and fired: "fired = (if v \<noteq> st_committed st \<and> st_consecutive st \<ge> 1 then Some (st_committed st, v) else None)"
    using assms(2) True by (auto simp: hysteresis_def HysteresisCount_def Let_def split: if_splits)
  show ?thesis
  proof (cases vs)
    case Nil
    with assms(1) True have "st_committed st = StateUnknown" "v = StateUnknown" "st_consecutive st = 0"
      by (simp_all add: represents_def)
    with Nil True show ?thesis unfolding st' fired by (simp add: represents_def)
  next
    case (Cons w ws)
    with assms(1) True have "st_committed st = last_pair (w # ws)" "v = w" "st_consecutive st \<ge> 1"
      by (simp_all add: represents_def)
    with Cons True show ?thesis unfolding st' fired by (simp add: represents_def)
  qed
next
  case False
  have st': "st' = st\<lparr>st_candidate := v, st_consecutive := 1\<rparr>" and fired: "fired = None"
    using assms(2) False by (auto simp: hysteresis_def HysteresisCount_def Let_def split: if_splits)
  show ?thesis
  proof (cases vs)
    case Nil
    with assms(1) show ?thesis unfolding st' fired by (simp add: represents_def)
  next
    case (Cons w ws)
    with assms(1) False have "st_committed st = last_pair (w # ws)" "v \<noteq> w"
      by (simp_all add: represents_def)
    with Cons show ?thesis unfolding st' fired by (simp add: represents_def)
  qed
qed

section \<open>Runs of submissions\<close>

text \<open>One call of \<open>Submit\<close> with what it sees: the clock readings, the iteration order, the
  configuration.\<close>

record submission =
  sb_order :: report_order
  sb_eval :: gotime
  sb_snap :: gotime
  sb_upd :: gotime
  sb_cfg :: ClusterConfig
  sb_node :: string
  sb_result :: Result

definition submit_step :: "submission \<Rightarrow> aggregator \<Rightarrow> aggregator" where
  "submit_step s a = snd (Submit (sb_order s) (sb_eval s) (sb_snap s) (sb_upd s) (sb_cfg s) (sb_node s) (sb_result s) a)"

text \<open>The specification of a check's state: the latest report of each node about it, and the verdict
  after each report about it, from those reports alone.\<close>

definition about :: "string \<Rightarrow> submission list \<Rightarrow> submission list" where
  "about cid subs = filter (\<lambda>s. rs_CheckID (sb_result s) = cid) subs"

definition to_report :: "submission \<Rightarrow> nodeResult" where
  "to_report s = \<lparr>nr_OK = rs_OK (sb_result s), nr_Detail = rs_Detail (sb_result s), nr_At = rs_Timestamp (sb_result s)\<rparr>"

definition latest_reports :: "submission list \<Rightarrow> reports" where
  "latest_reports subs = fold (\<lambda>s. AList.update (sb_node s) (to_report s)) subs []"

definition verdict_now :: "string \<Rightarrow> submission list \<Rightarrow> State" where
  "verdict_now cid subs =
     candidate_for (sb_eval (last subs))
       (case lookupCheck (sb_cfg (last subs)) cid of None \<Rightarrow> 0 | Some ch \<Rightarrow> ck_Interval ch) (latest_reports subs)"

definition verdicts :: "string \<Rightarrow> submission list \<Rightarrow> State list" where
  "verdicts cid subs = map (\<lambda>k. verdict_now cid (take (Suc k) subs)) (rev [0..<length subs])"

lemma verdicts_Nil [simp]: "verdicts cid [] = []"
  by (simp add: verdicts_def)

lemma verdicts_snoc: "verdicts cid (subs @ [s]) = verdict_now cid (subs @ [s]) # verdicts cid subs"
  by (simp add: verdicts_def)

lemma latest_snoc: "latest_reports (subs @ [s]) = AList.update (sb_node s) (to_report s) (latest_reports subs)"
  by (simp add: latest_reports_def)

lemma about_snoc: "about cid (subs @ [s]) =
    (if rs_CheckID (sb_result s) = cid then about cid subs @ [s] else about cid subs)"
  by (simp add: about_def)

text \<open>The aggregator's record of a check, if any, is the one the specification gives.\<close>

definition tracks :: "string \<Rightarrow> submission list \<Rightarrow> aggregator \<Rightarrow> bool" where
  "tracks cid subs a \<longleftrightarrow>
     (case map_of (ag_perCheck a) cid of
        None \<Rightarrow> subs = []
      | Some st \<Rightarrow> subs \<noteq> [] \<and> st_latest st = latest_reports subs \<and> represents st (verdicts cid subs))"

text \<open>A submission about another check leaves this one's record alone.\<close>

lemma submit_other:
  "rs_CheckID (sb_result s) \<noteq> cid \<Longrightarrow> map_of (ag_perCheck (submit_step s a)) cid = map_of (ag_perCheck a) cid"
  by (auto simp: submit_step_def Submit_def evaluate_def record_report_def Let_def update_conv' AList.delete_conv'
      split: option.split prod.split)

lemma submit_tracks:
  assumes "tracks cid subs a" and "cid \<noteq> []" and "rs_CheckID (sb_result s) = cid"
    and look: "lookupCheck (sb_cfg s) cid = Some ch"
  shows "tracks cid (subs @ [s]) (submit_step s a) \<and>
    fst (Submit (sb_order s) (sb_eval s) (sb_snap s) (sb_upd s) (sb_cfg s) (sb_node s) (sb_result s) a) =
      (let old = last_pair (verdicts cid subs); new = last_pair (verdicts cid (subs @ [s])) in
       if new = old \<or> \<not> ag_transition a then None
       else Some (ch, old, new, the (SnapshotFor (sb_order s) (sb_snap s) (sb_upd s) (sb_cfg s) cid (submit_step s a))))"
proof -
  define st0 where "st0 = (case map_of (ag_perCheck a) cid of None \<Rightarrow> new_checkState | Some st \<Rightarrow> st)"
  define st where "st = st0\<lparr>st_latest := AList.update (sb_node s) (to_report s) (st_latest st0)\<rparr>"
  have st0: "st_latest st0 = latest_reports subs" "represents st0 (verdicts cid subs)"
  proof -
    have "st_latest new_checkState = latest_reports []" by (simp add: new_checkState_def latest_reports_def)
    with assms(1) show "st_latest st0 = latest_reports subs" "represents st0 (verdicts cid subs)"
      by (auto simp: tracks_def st0_def split: option.splits)
  qed
  have rec: "record_report (sb_node s) (sb_result s) a = a\<lparr>ag_perCheck := AList.update cid st (ag_perCheck a)\<rparr>"
    using assms(3) by (simp add: record_report_def st_def st0_def to_report_def Let_def)
  have latest: "st_latest st = latest_reports (subs @ [s])" by (simp add: st_def st0 latest_snoc)
  have rep: "represents st (verdicts cid subs)" by (simp add: st_def st0)
  define v where "v = candidate_for (sb_eval s) (ck_Interval ch) (st_latest st)"
  have v: "v = verdict_now cid (subs @ [s])" by (simp add: v_def verdict_now_def look latest)
  obtain fired st' where h: "hysteresis v st = (fired, st')" by fastforce
  note step = hysteresis_step [OF rep h]
  have run: "Submit (sb_order s) (sb_eval s) (sb_snap s) (sb_upd s) (sb_cfg s) (sb_node s) (sb_result s) a =
      (let a' = a\<lparr>ag_perCheck := AList.update cid st' (AList.update cid st (ag_perCheck a))\<rparr>
       in case fired of None \<Rightarrow> (None, a')
          | Some (from, to) \<Rightarrow>
             (if ag_transition a then (Some (ch, from, to, snapshotLocked (sb_order s) (sb_snap s) (sb_upd s) (sb_cfg s) cid st'), a')
              else (None, a')))"
    using assms(2,3) look h by (simp add: Submit_def evaluate_def rec update_conv' v_def Let_def split: option.split)
  then have a': "submit_step s a = a\<lparr>ag_perCheck := AList.update cid st' (AList.update cid st (ag_perCheck a))\<rparr>"
    by (simp add: submit_step_def Let_def split: option.split)
  have "tracks cid (subs @ [s]) (submit_step s a)"
    using step latest by (simp add: tracks_def a' update_conv' verdicts_snoc v)
  moreover have "SnapshotFor (sb_order s) (sb_snap s) (sb_upd s) (sb_cfg s) cid (submit_step s a) =
      Some (snapshotLocked (sb_order s) (sb_snap s) (sb_upd s) (sb_cfg s) cid st')"
    by (simp add: SnapshotFor_def a' update_conv')
  ultimately show ?thesis
    using run step by (auto simp: verdicts_snoc v Let_def)
qed

lemma run_tracks:
  assumes "cid \<noteq> []" and "list_all (\<lambda>s. lookupCheck (sb_cfg s) cid \<noteq> None) (about cid subs)"
  shows "tracks cid (about cid subs) (fold submit_step subs (NewAggregator fn))"
  using assms(2)
proof (induction subs rule: rev_induct)
  case Nil
  then show ?case by (simp add: tracks_def about_def NewAggregator_def)
next
  case (snoc s subs)
  show ?case
  proof (cases "rs_CheckID (sb_result s) = cid")
    case True
    with snoc have "tracks cid (about cid subs) (fold submit_step subs (NewAggregator fn))"
      and "lookupCheck (sb_cfg s) cid \<noteq> None" by (simp_all add: about_snoc)
    with submit_tracks [OF _ assms(1) True] show ?thesis by (auto simp: about_snoc True)
  next
    case False
    with snoc show ?thesis by (simp add: about_snoc tracks_def submit_other)
  qed
qed

lemma submit_keeps_transition: "ag_transition (submit_step s a) = ag_transition a"
  by (auto simp: submit_step_def Submit_def evaluate_def record_report_def Let_def split: option.split prod.split)

lemma run_keeps_transition: "ag_transition (fold submit_step subs a) = ag_transition a"
  by (induction subs arbitrary: a) (simp_all add: submit_keeps_transition)

section \<open>Properties\<close>

text \<open>The committed state is the hysteresis of the verdicts. After any sequence of submissions, about
  any checks from any nodes at any times, the record of a check that was configured whenever it was
  reported on holds the latest report of each node about it, and its committed state is the last
  verdict that came twice in a row, unknown if none did; submissions about other checks have no
  influence.\<close>

theorem committed_is_last_pair:
  assumes "cid \<noteq> []" and "list_all (\<lambda>s. lookupCheck (sb_cfg s) cid \<noteq> None) (about cid subs)"
  shows "case map_of (ag_perCheck (fold submit_step subs (NewAggregator fn))) cid of
       None \<Rightarrow> about cid subs = []
     | Some st \<Rightarrow> st_latest st = latest_reports (about cid subs) \<and>
         st_committed st = last_pair (verdicts cid (about cid subs))"
  using run_tracks [OF assms, of fn] by (auto simp: tracks_def represents_def split: option.splits)

definition demo_cfg :: ClusterConfig where
  "demo_cfg = zero_ClusterConfig\<lparr>cc_Checks := [zero_Check\<lparr>ck_ID := ''c1'', ck_Interval := 30 * Second\<rparr>]\<rparr>"

definition demo_sub :: "string \<Rightarrow> bool \<Rightarrow> gotime \<Rightarrow> submission" where
  "demo_sub n ok t = \<lparr>sb_order = (\<lambda>xs. xs), sb_eval = t, sb_snap = t, sb_upd = t, sb_cfg = demo_cfg, sb_node = n,
     sb_result = \<lparr>rs_CheckID = ''c1'', rs_OK = ok, rs_Detail = [], rs_Latency = 0, rs_Timestamp = t\<rparr>\<rparr>"

lemma demo_verdicts: "last_pair (verdicts ''c1'' [demo_sub ''a'' False 10, demo_sub ''b'' False 20]) = StateDown"
  by code_simp

lemma demo_sub_ok: "lookupCheck (sb_cfg (demo_sub n ok t)) ''c1'' \<noteq> None" "rs_CheckID (sb_result (demo_sub n ok t)) = ''c1''"
  by (simp_all add: demo_sub_def lookupCheck_def demo_cfg_def)

theorem committed_is_last_pair_witness:
  "case map_of (ag_perCheck (fold submit_step [demo_sub ''a'' False 10, demo_sub ''b'' False 20] (NewAggregator True))) ''c1'' of
     None \<Rightarrow> False | Some st \<Rightarrow> st_committed st = StateDown"
proof -
  have ab: "about ''c1'' [demo_sub ''a'' False 10, demo_sub ''b'' False 20] = [demo_sub ''a'' False 10, demo_sub ''b'' False 20]"
    by (simp add: about_def demo_sub_ok)
  have "list_all (\<lambda>s. lookupCheck (sb_cfg s) ''c1'' \<noteq> None) (about ''c1'' [demo_sub ''a'' False 10, demo_sub ''b'' False 20])"
    unfolding ab using demo_sub_ok by simp
  from committed_is_last_pair [OF _ this, of True] show ?thesis
    unfolding ab by (auto simp: demo_verdicts split: option.splits)
qed

text \<open>Alerts fire exactly on flips. In such a run the next submission about the check calls the
  transition callback if and only if one is wired and the submission's verdict flips the committed
  state, once, with the check, the old and the new state, and the aggregate's snapshot.\<close>

theorem transition_on_flip:
  assumes "cid \<noteq> []" and "list_all (\<lambda>s. lookupCheck (sb_cfg s) cid \<noteq> None) (about cid subs)"
    and "rs_CheckID (sb_result s) = cid" and "lookupCheck (sb_cfg s) cid = Some ch"
  shows "fst (Submit (sb_order s) (sb_eval s) (sb_snap s) (sb_upd s) (sb_cfg s) (sb_node s) (sb_result s)
        (fold submit_step subs (NewAggregator fn))) =
     (let old = last_pair (verdicts cid (about cid subs)); new = last_pair (verdicts cid (about cid (subs @ [s]))) in
      if new = old \<or> \<not> fn then None
      else Some (ch, old, new, the (SnapshotFor (sb_order s) (sb_snap s) (sb_upd s) (sb_cfg s) cid
             (fold submit_step (subs @ [s]) (NewAggregator fn)))))"
  using conjunct2 [OF submit_tracks [OF run_tracks [OF assms(1,2), of fn] assms(1,3,4)]] assms(3)
  by (simp add: about_snoc run_keeps_transition NewAggregator_def Let_def)

theorem transition_on_flip_witness:
  "\<exists>ch snap. fst (Submit (\<lambda>xs. xs) 20 20 20 demo_cfg ''b'' (sb_result (demo_sub ''b'' False 20))
      (fold submit_step [demo_sub ''a'' False 10] (NewAggregator True))) = Some (ch, StateUnknown, StateDown, snap)"
proof -
  have ab: "about ''c1'' [demo_sub ''a'' False 10] = [demo_sub ''a'' False 10]"
    "about ''c1'' ([demo_sub ''a'' False 10] @ [demo_sub ''b'' False 20]) = [demo_sub ''a'' False 10, demo_sub ''b'' False 20]"
    by (simp_all add: about_def demo_sub_ok)
  have all: "list_all (\<lambda>s. lookupCheck (sb_cfg s) ''c1'' \<noteq> None) (about ''c1'' [demo_sub ''a'' False 10])"
    unfolding ab using demo_sub_ok by simp
  obtain ch where ch: "lookupCheck (sb_cfg (demo_sub ''b'' False 20)) ''c1'' = Some ch" using demo_sub_ok(1) by blast
  have one: "last_pair (verdicts ''c1'' [demo_sub ''a'' False 10]) = StateUnknown" by (simp add: verdicts_def)
  have id: "sb_order (demo_sub ''b'' False 20) = (\<lambda>xs. xs)" "sb_eval (demo_sub ''b'' False 20) = 20"
    "sb_snap (demo_sub ''b'' False 20) = 20" "sb_upd (demo_sub ''b'' False 20) = 20"
    "sb_cfg (demo_sub ''b'' False 20) = demo_cfg" "sb_node (demo_sub ''b'' False 20) = ''b''"
    by (simp_all add: demo_sub_def)
  from transition_on_flip [OF _ all demo_sub_ok(2) ch, of True] show ?thesis
    unfolding ab one demo_verdicts by (simp add: Let_def id)
qed

text \<open>The verdict is the majority of the fresh reports, in whatever order they are counted: DOWN
  exactly when more of them failed than succeeded, unknown exactly when there is none, UP on a tie;
  and the snapshot's counts are those of the fresh reports.\<close>

theorem verdict_is_majority:
  assumes "\<And>xs. mset (ord xs) = mset xs" and "map_of (ag_perCheck a) cid = Some st"
    and "lookupCheck c cid = Some ch" and "SnapshotFor ord t t' c cid a = Some snap"
  shows "sn_OKCount snap = fresh_ok (t - freshWindowFor (ck_Interval ch)) (map snd (st_latest st)) \<and>
     sn_NotOK snap = fresh_bad (t - freshWindowFor (ck_Interval ch)) (map snd (st_latest st)) \<and>
     sn_Reports snap = sn_OKCount snap + sn_NotOK snap \<and> sn_State snap = st_committed st \<and>
     candidate_for t (ck_Interval ch) (st_latest st) =
       (if sn_Reports snap = 0 then StateUnknown else if sn_OKCount snap < sn_NotOK snap then StateDown else StateUp)"
proof -
  let ?cut = "t - freshWindowFor (ck_Interval ch)" and ?rs = "map snd (st_latest st)"
  obtain d where d: "count_reports ?cut (ord ?rs) = (fresh_ok ?cut (ord ?rs), fresh_bad ?cut (ord ?rs), d)"
    using count_reports_eq by blast
  have same: "fresh_ok ?cut (ord ?rs) = fresh_ok ?cut ?rs" "fresh_bad ?cut (ord ?rs) = fresh_bad ?cut ?rs"
    using fresh_mset [OF assms(1)] by simp_all
  have "snap = \<lparr>sn_CheckID = cid, sn_State = st_committed st, sn_Reports = fresh_ok ?cut ?rs + fresh_bad ?cut ?rs,
      sn_OKCount = fresh_ok ?cut ?rs, sn_NotOK = fresh_bad ?cut ?rs, sn_Detail = d, sn_UpdateAt = t'\<rparr>"
    using assms(2-4) d by (simp add: SnapshotFor_def snapshotLocked_def Let_def same)
  then show ?thesis by (simp add: candidate_for_eq Let_def)
qed

theorem verdict_is_majority_witness:
  "\<exists>snap. SnapshotFor rev 20 20 demo_cfg ''c1'' \<lparr>ag_transition = True, ag_perCheck = [(''c1'',
       new_checkState\<lparr>st_latest := [(''a'', \<lparr>nr_OK = True, nr_Detail = [], nr_At = 10\<rparr>), (''b'', \<lparr>nr_OK = False, nr_Detail = [], nr_At = 15\<rparr>)]\<rparr>)]\<rparr> = Some snap \<and>
     sn_Reports snap = sn_OKCount snap + sn_NotOK snap"
proof -
  let ?st = "new_checkState\<lparr>st_latest := [(''a'', \<lparr>nr_OK = True, nr_Detail = [], nr_At = 10\<rparr>), (''b'', \<lparr>nr_OK = False, nr_Detail = [], nr_At = 15\<rparr>)]\<rparr>"
  let ?a = "\<lparr>ag_transition = True, ag_perCheck = [(''c1'', ?st)]\<rparr>"
  have ord: "mset (rev xs) = mset xs" for xs :: "nodeResult list" by simp
  have m: "map_of (ag_perCheck ?a) ''c1'' = Some ?st" by simp
  obtain ch where ch: "lookupCheck demo_cfg ''c1'' = Some ch" by (simp add: lookupCheck_def demo_cfg_def)
  obtain snap where s: "SnapshotFor rev 20 20 demo_cfg ''c1'' ?a = Some snap" by (simp add: SnapshotFor_def)
  from verdict_is_majority [OF ord m ch s] s show ?thesis by blast
qed

text \<open>With one node reporting, its second failing probe in a row makes the aggregate DOWN, whatever the
  size of the cluster: the majority is one of the reports received, not of the nodes.\<close>

lemma lone_reporter_trips:
  "case map_of (ag_perCheck (fold submit_step [demo_sub ''a'' False 10, demo_sub ''a'' False 20] (NewAggregator True))) ''c1'' of
     None \<Rightarrow> False | Some st \<Rightarrow> st_committed st = StateDown"
  by code_simp

end
