(* ===== verification/Alerts.thy ===== *)
theory Alerts
  imports Aggregator
begin

text \<open>
  \<open>internal/alerts\<close>: what is sent, to whom, when a check's committed state flips. The built-in
  templates of \<open>defaults.go\<close> are constants, so they are definitions of the text they render to;
  operator-supplied templates go through the parameter \<open>exec\<close> (the \<open>text/template\<close> engine). The
  Discord webhook and the SMTP server are parameters: a function from the request to the response,
  and a function from the commands so far and the next one to its outcome. Logging is left out.
  \<open>when\<close> is the RFC 3339 time stamp \<open>newContext\<close> takes.
\<close>

section \<open>Messages and their context\<close>

record TemplateContext =
  tc_Check :: Check
  tc_From :: string
  tc_To :: string
  tc_Verb :: string
  tc_VerbLower :: string
  tc_Snapshot :: Snapshot
  tc_NodeID :: string
  tc_When :: string

record Message =
  msg_Subject :: string
  msg_Body :: string

definition transitionVerb :: "State \<Rightarrow> State \<Rightarrow> string" where
  "transitionVerb from to =
     (case to of
        StateDown \<Rightarrow> ''DOWN''
      | StateUp \<Rightarrow> if from = StateDown then ''RECOVERED'' else ''UP''
      | StateUnknown \<Rightarrow> ToUpper (state_string to))"

definition newContext :: "string \<Rightarrow> string \<Rightarrow> Check \<Rightarrow> State \<Rightarrow> State \<Rightarrow> Snapshot \<Rightarrow> TemplateContext" where
  "newContext when nodeID check from to snap =
     (let verb = transitionVerb from to in
      \<lparr>tc_Check = check, tc_From = state_string from, tc_To = state_string to, tc_Verb = verb,
       tc_VerbLower = ToLower verb, tc_Snapshot = snap, tc_NodeID = nodeID, tc_When = when\<rparr>)"

section \<open>The built-in templates\<close>

definition nl :: string where "nl = [CHR 0x0A]"
definition dquoted :: "string \<Rightarrow> string" where "dquoted s = CHR 0x22 # s @ [CHR 0x22]"

text \<open>\<open>{{- if cond}}\<close>, a line, \<open>{{- end}}\<close>: the line, or nothing.\<close>

definition opt_line :: "bool \<Rightarrow> string \<Rightarrow> string list" where
  "opt_line cond l = (if cond then [l] else [])"

definition reporters :: "Snapshot \<Rightarrow> string" where
  "reporters s = Itoa (int (sn_OKCount s)) @ ''/'' @ Itoa (int (sn_Reports s)) @ '' OK, '' @ Itoa (int (sn_NotOK s)) @ '' failing''"

text \<open>The subject of the five typed templates and of the generic one.\<close>

definition default_subject :: "CheckType \<Rightarrow> TemplateContext \<Rightarrow> string" where
  "default_subject t x =
     (let name = ck_Name (tc_Check x); target = ck_Target (tc_Check x);
          typed = (\<lambda>label. ''[quptime] '' @ label @ '' '' @ tc_Verb x @ '' '' @ emdash @ '' '' @ name @ '' ('' @ target @ '')'')
      in if t = CheckHTTP then typed ''HTTP''
         else if t = CheckTLS then typed ''TLS cert''
         else if t = CheckTCP then typed ''TCP''
         else if t = CheckICMP then typed ''Ping''
         else if t = CheckDNS then typed ''DNS''
         else ''[quptime] '' @ name @ '' '' @ tc_Verb x @ '' '' @ emdash @ '' '' @ target)"

definition tail_lines :: "TemplateContext \<Rightarrow> string list" where
  "tail_lines x = [''Previous:   '' @ tc_From x, ''Reporters:  '' @ reporters (tc_Snapshot x),
     ''Master:     '' @ tc_NodeID x, ''When:       '' @ tc_When x, []]"

definition detail_line :: "TemplateContext \<Rightarrow> string list" where
  "detail_line x = opt_line (sn_Detail (tc_Snapshot x) \<noteq> []) (''Detail:     '' @ sn_Detail (tc_Snapshot x))"

definition body_HTTP :: "TemplateContext \<Rightarrow> string" where
  "body_HTTP x = (let c = tc_Check x in Join
     ([''HTTP endpoint '' @ dquoted (ck_Name c) @ '' is now '' @ tc_VerbLower x @ ''.'', [], ''URL:        '' @ ck_Target c] @
      opt_line (ck_ExpectStatus c \<noteq> 0) (''Expected:   HTTP '' @ Itoa (ck_ExpectStatus c)) @
      opt_line (ck_BodyMatch c \<noteq> []) (''Body match: contains '' @ dquoted (ck_BodyMatch c)) @
      detail_line x @ tail_lines x) nl)"

definition body_TLS :: "TemplateContext \<Rightarrow> string" where
  "body_TLS x = (let c = tc_Check x; s = tc_Snapshot x in Join
     ([''TLS certificate for '' @ dquoted (ck_Name c) @ '' is now '' @ tc_VerbLower x @ ''.'', [], ''Host:        '' @ ck_Target c] @
      opt_line (ck_TLSServerName c \<noteq> []) (''SNI:         '' @ ck_TLSServerName c) @
      opt_line (ck_TLSWarnDays c \<noteq> 0) (''Warn window: '' @ Itoa (ck_TLSWarnDays c) @ ''d before NotAfter'') @
      opt_line (sn_Detail s \<noteq> []) (''Cert state:  '' @ sn_Detail s) @
      [''Previous:    '' @ tc_From x, ''Reporters:   '' @ reporters s, ''Master:      '' @ tc_NodeID x,
       ''When:        '' @ tc_When x, []]) nl)"

definition body_TCP :: "TemplateContext \<Rightarrow> string" where
  "body_TCP x = Join
     ([''TCP service '' @ dquoted (ck_Name (tc_Check x)) @ '' is now '' @ tc_VerbLower x @ ''.'', [],
       ''Endpoint:   '' @ ck_Target (tc_Check x)] @ detail_line x @ tail_lines x) nl"

definition body_ICMP :: "TemplateContext \<Rightarrow> string" where
  "body_ICMP x = Join
     ([''Host '' @ dquoted (ck_Name (tc_Check x)) @ '' is now '' @ tc_VerbLower x @ ''.'', [],
       ''Host:       '' @ ck_Target (tc_Check x)] @ detail_line x @ tail_lines x) nl"

definition body_DNS :: "TemplateContext \<Rightarrow> string" where
  "body_DNS x = (let c = tc_Check x in Join
     ([''DNS lookup for '' @ dquoted (ck_Name c) @ '' is now '' @ tc_VerbLower x @ ''.'', [], ''Target:     '' @ ck_Target c] @
      opt_line (ck_DNSRecord c \<noteq> []) (''Record:     '' @ ck_DNSRecord c) @
      opt_line (ck_DNSResolver c \<noteq> []) (''Resolver:   '' @ ck_DNSResolver c) @
      opt_line (ck_DNSExpect c \<noteq> []) (''Expected:   contains '' @ dquoted (ck_DNSExpect c)) @
      detail_line x @ tail_lines x) nl)"

definition body_Generic :: "TemplateContext \<Rightarrow> string" where
  "body_Generic x = (let c = tc_Check x in Join
     ([''Check '' @ dquoted (ck_Name c) @ '' is now '' @ tc_VerbLower x @ ''.'', [],
       ''Target:     '' @ ck_Target c @ '' ('' @ ck_Type c @ '')''] @ detail_line x @ tail_lines x) nl)"

definition default_body :: "CheckType \<Rightarrow> TemplateContext \<Rightarrow> string" where
  "default_body t x =
     (if t = CheckHTTP then body_HTTP x
      else if t = CheckTLS then body_TLS x
      else if t = CheckTCP then body_TCP x
      else if t = CheckICMP then body_ICMP x
      else if t = CheckDNS then body_DNS x
      else body_Generic x)"

definition Render :: "string \<Rightarrow> string \<Rightarrow> Check \<Rightarrow> State \<Rightarrow> State \<Rightarrow> Snapshot \<Rightarrow> Message" where
  "Render when nodeID check from to snap =
     (let x = newContext when nodeID check from to snap in
      \<lparr>msg_Subject = default_subject (ck_Type check) x, msg_Body = default_body (ck_Type check) x\<rparr>)"

type_synonym template_engine = "string \<Rightarrow> string \<Rightarrow> TemplateContext \<Rightarrow> err + string"

text \<open>\<open>RenderFor\<close>; a nil alert is \<open>None\<close>. \<open>when\<close> and \<open>when'\<close> are the two time stamps.\<close>

definition RenderFor ::
  "template_engine \<Rightarrow> string \<Rightarrow> string \<Rightarrow> Alert option \<Rightarrow> string \<Rightarrow> Check \<Rightarrow> State \<Rightarrow> State \<Rightarrow> Snapshot \<Rightarrow>
     Message \<times> err option" where
  "RenderFor exec when when' alert nodeID check from to snap =
     (let dflt = Render when nodeID check from to snap in
      case alert of
        None \<Rightarrow> (dflt, None)
      | Some a \<Rightarrow>
         (if al_SubjectTemplate a = [] \<and> al_BodyTemplate a = [] then (dflt, None)
          else
            (let x = newContext when' nodeID check from to snap;
                 (msg1, err1) =
                   (if al_SubjectTemplate a \<noteq> [] then
                      (case exec ''subject'' (al_SubjectTemplate a) x of
                         Inl e \<Rightarrow> (dflt, Some e)
                       | Inr s \<Rightarrow> (dflt\<lparr>msg_Subject := s\<rparr>, None))
                    else (dflt, None))
             in if al_BodyTemplate a \<noteq> [] then
                  (case exec ''body'' (al_BodyTemplate a) x of
                     Inl e \<Rightarrow> (msg1, if err1 = None then Some e else err1)
                   | Inr s \<Rightarrow> (msg1\<lparr>msg_Body := s\<rparr>, err1))
                else (msg1, err1))))"

section \<open>Channels\<close>

type_synonym webhook = "string \<Rightarrow> string \<Rightarrow> err + int \<times> string"

definition discord_content :: "Alert \<Rightarrow> Message \<Rightarrow> string" where
  "discord_content a msg =
     (if al_BodyTemplate a \<noteq> [] then msg_Body msg
      else msg_Subject msg @ nl @ ''```'' @ nl @ msg_Body msg @ nl @ ''```'')"

text \<open>\<open>sendDiscord\<close>: the requests made (URL and content) and the error; \<open>post\<close> includes building the
  request. The body of an error answer is cut at 4096 bytes.\<close>

definition sendDiscord :: "webhook \<Rightarrow> Alert \<Rightarrow> Message \<Rightarrow> (string \<times> string) list \<times> err option" where
  "sendDiscord post a msg =
     (if al_DiscordWebhook a = [] then ([], Some (ErrMsg ''discord webhook url not set''))
      else
        (let content = discord_content a msg in
         ([(al_DiscordWebhook a, content)],
          case post (al_DiscordWebhook a) content of
            Inl e \<Rightarrow> Some (ErrWrap ''discord webhook'' e)
          | Inr (status, body) \<Rightarrow>
             (if status \<ge> 300 then Some (ErrMsg (''discord webhook status '' @ Itoa status @ '': '' @ take 4096 body))
              else None))))"

definition crlf :: string where "crlf = [CHR 0x0D, CHR 0x0A]"

definition buildRFC822 :: "string \<Rightarrow> string list \<Rightarrow> Message \<Rightarrow> string" where
  "buildRFC822 from to msg =
     ''From: '' @ from @ crlf @ ''To: '' @ Join to '', '' @ crlf @ ''Subject: '' @ msg_Subject msg @ crlf @
     ''MIME-Version: 1.0'' @ crlf @ ''Content-Type: text/plain; charset=UTF-8'' @ crlf @ crlf @ msg_Body msg"

text \<open>The calls on the SMTP client, each of which can fail.\<close>

datatype smtp_cmd =
    SmtpDial string
  | SmtpExtension string
  | SmtpStartTLS string
  | SmtpAuth string string string
  | SmtpMail string
  | SmtpRcpt string
  | SmtpData
  | SmtpWrite string
  | SmtpCloseData
  | SmtpQuit

type_synonym smtp_server = "smtp_cmd list \<Rightarrow> smtp_cmd \<Rightarrow> err option"

text \<open>The sequence of calls of \<open>sendSMTP\<close> with the error each turns into.\<close>

definition smtp_plan :: "Alert \<Rightarrow> Message \<Rightarrow> (smtp_cmd \<times> (err \<Rightarrow> err)) list" where
  "smtp_plan a msg =
     [(SmtpDial (al_SMTPHost a @ '':'' @ Itoa (al_SMTPPort a)), ErrWrap ''dial smtp'')] @
     (if al_SMTPStartTLS a
      then [(SmtpExtension ''STARTTLS'', \<lambda>_. ErrMsg ''server does not support STARTTLS''),
            (SmtpStartTLS (al_SMTPHost a), ErrWrap ''starttls'')] else []) @
     (if al_SMTPUser a \<noteq> []
      then [(SmtpAuth (al_SMTPUser a) (al_SMTPPassword a) (al_SMTPHost a), ErrWrap ''smtp auth'')] else []) @
     [(SmtpMail (al_SMTPFrom a), ErrWrap ''mail from'')] @
     map (\<lambda>r. (SmtpRcpt r, ErrWrap (''rcpt '' @ r))) (al_SMTPTo a) @
     [(SmtpData, ErrWrap ''data''),
      (SmtpWrite (buildRFC822 (al_SMTPFrom a) (al_SMTPTo a) msg), ErrWrap ''write body''),
      (SmtpCloseData, ErrWrap ''close body''), (SmtpQuit, \<lambda>e. e)]"

text \<open>Run the calls until one fails: the calls made (the failing one is the last), and the error.\<close>

fun smtp_run :: "smtp_server \<Rightarrow> smtp_cmd list \<Rightarrow> (smtp_cmd \<times> (err \<Rightarrow> err)) list \<Rightarrow> smtp_cmd list \<times> err option" where
  "smtp_run srv done [] = (done, None)"
| "smtp_run srv done ((c, wrap) # cs) =
     (case srv done c of Some e \<Rightarrow> (done @ [c], Some (wrap e)) | None \<Rightarrow> smtp_run srv (done @ [c]) cs)"

definition sendSMTP :: "smtp_server \<Rightarrow> Alert \<Rightarrow> Message \<Rightarrow> smtp_cmd list \<times> err option" where
  "sendSMTP srv a msg =
     (if al_SMTPHost a = [] \<or> al_SMTPPort a = 0 then ([], Some (ErrMsg ''smtp host/port not set''))
      else if al_SMTPFrom a = [] \<or> al_SMTPTo a = [] then ([], Some (ErrMsg ''smtp from/to not set''))
      else smtp_run srv [] (smtp_plan a msg))"

section \<open>The dispatcher\<close>

definition shouldAlert :: "State \<Rightarrow> State \<Rightarrow> bool" where
  "shouldAlert from to =
     (if to = StateUnknown then False
      else if from = StateUnknown \<and> to = StateUp then False
      else True)"

record channels =
  ch_post :: webhook
  ch_smtp :: smtp_server

definition dispatchOne :: "channels \<Rightarrow> Alert \<Rightarrow> Message \<Rightarrow> err option" where
  "dispatchOne ch a msg =
     (if al_Type a = AlertSMTP then snd (sendSMTP (ch_smtp ch) a msg)
      else if al_Type a = AlertDiscord then snd (sendDiscord (ch_post ch) a msg)
      else Some (ErrNotFound ''unknown alert type'' (al_Type a)))"

text \<open>\<open>OnTransition\<close>: the messages it dispatches, with their results, in order.\<close>

definition OnTransition ::
  "template_engine \<Rightarrow> channels \<Rightarrow> string \<Rightarrow> string \<Rightarrow> ClusterConfig \<Rightarrow> Check \<Rightarrow> State \<Rightarrow> State \<Rightarrow> Snapshot \<Rightarrow>
     (Alert \<times> Message \<times> err option) list" where
  "OnTransition exec ch when selfID c check from to snap =
     (if \<not> shouldAlert from to then []
      else map (\<lambda>a. let msg = fst (RenderFor exec when when (Some a) selfID check from to snap)
                    in (a, msg, dispatchOne ch a msg)) (EffectiveAlertsFor c (Some check)))"

definition parseTestState :: "string \<Rightarrow> err + State \<times> State" where
  "parseTestState state =
     (let s = ToLower (TrimSpace state) in
      if s = [] \<or> s = ''down'' then Inr (StateUp, StateDown)
      else if s = ''recovered'' then Inr (StateDown, StateUp)
      else if s = ''up'' then Inr (StateUnknown, StateUp)
      else Inl (ErrMsg (''unknown test state '' @ Quote state @ '' (want down|up|recovered)'')))"

text \<open>\<open>in_week\<close> is the RFC 3339 form of the time seven days from now.\<close>

definition syntheticDetail :: "string \<Rightarrow> Check \<Rightarrow> string" where
  "syntheticDetail in_week check =
     (if ck_Type check = CheckHTTP then ''[test] status 503 Service Unavailable''
      else if ck_Type check = CheckTCP then ''[test] dial tcp: i/o timeout''
      else if ck_Type check = CheckICMP then ''[test] no reply''
      else if ck_Type check = CheckTLS then ''[test] cert expires in 7d (notAfter='' @ in_week @ '')''
      else if ck_Type check = CheckDNS then ''[test] lookup '' @ ck_Target check @ '': no such host''
      else ''[test] synthetic failure'')"

definition syntheticSnapshot :: "string \<Rightarrow> Check \<Rightarrow> State \<Rightarrow> nat \<Rightarrow> Snapshot" where
  "syntheticSnapshot in_week check to nodes =
     (let n = (if nodes < 1 then 1 else nodes) in
      if to = StateDown then
        \<lparr>sn_CheckID = ck_ID check, sn_State = to, sn_Reports = n, sn_OKCount = 0, sn_NotOK = n,
         sn_Detail = syntheticDetail in_week check, sn_UpdateAt = 0\<rparr>
      else
        \<lparr>sn_CheckID = ck_ID check, sn_State = to, sn_Reports = n, sn_OKCount = n, sn_NotOK = 0,
         sn_Detail = [], sn_UpdateAt = 0\<rparr>)"

definition TestCheck ::
  "template_engine \<Rightarrow> channels \<Rightarrow> string \<Rightarrow> string \<Rightarrow> string \<Rightarrow> ClusterConfig \<Rightarrow> string \<Rightarrow> string \<Rightarrow>
     (Alert \<times> Message \<times> err option) list \<times> err option" where
  "TestCheck exec ch when in_week selfID c checkID state =
     (case List.find (\<lambda>x. ck_ID x = checkID \<or> ck_Name x = checkID) (cc_Checks c) of
        None \<Rightarrow> ([], Some (ErrMsg (''check '' @ Quote checkID @ '' not found'')))
      | Some check \<Rightarrow>
         (case parseTestState state of
            Inl e \<Rightarrow> ([], Some e)
          | Inr (from, to) \<Rightarrow>
             (let nodes = (if length (cc_Peers c) = 0 then 3 else length (cc_Peers c));
                  ss = syntheticSnapshot in_week check to nodes;
                  alerts = EffectiveAlertsFor c (Some check)
              in if alerts = [] then
                   ([], Some (ErrMsg (''check '' @ Quote (ck_Name check) @ '' has no effective alerts (nothing to fire)'')))
                 else
                   (let sent = map (\<lambda>a. let msg = fst (RenderFor exec when when (Some a) selfID check from to ss)
                                        in (a, msg, dispatchOne ch a msg)) alerts;
                        errs = concat (map (\<lambda>(a, msg, r). case r of None \<Rightarrow> [] | Some e \<Rightarrow> [al_Name a @ '': '' @ err_text e]) sent)
                    in (sent,
                        if errs \<noteq> [] then
                          Some (ErrMsg (Itoa (int (length errs)) @ ''/'' @ Itoa (int (length alerts)) @ '' alerts failed: '' @ Join errs ''; ''))
                        else None)))))"

text \<open>The snapshot of the sample transition has the zero value of its state field, the empty string;
  no built-in template shows it, and it is \<open>StateUnknown\<close> here.\<close>

definition Test_alert ::
  "template_engine \<Rightarrow> channels \<Rightarrow> string \<Rightarrow> string \<Rightarrow> ClusterConfig \<Rightarrow> string \<Rightarrow> (Alert \<times> Message) list \<times> err option" where
  "Test_alert exec ch when selfID c alertID =
     (case FindAlert c alertID of
        None \<Rightarrow> ([], Some (ErrMsg (''alert '' @ Quote alertID @ '' not found'')))
      | Some a \<Rightarrow>
         (if al_SubjectTemplate a = [] \<and> al_BodyTemplate a = [] then
            (let msg = \<lparr>msg_Subject = ''[quptime] test alert'',
                        msg_Body = ''This is a test of alert '' @ Quote (al_Name a) @ '' from node '' @ selfID @ ''.'' @ nl @
                          ''If you see this, the alert channel is wired correctly.'' @ nl\<rparr>
             in ([(a, msg)], dispatchOne ch a msg))
          else
            (let sample = zero_Check\<lparr>ck_ID := ''test-check'', ck_Name := ''test-check'', ck_Type := CheckHTTP,
                            ck_Target := ''https://example.com''\<rparr>;
                 snap = \<lparr>sn_CheckID = [], sn_State = StateUnknown, sn_Reports = 3, sn_OKCount = 0, sn_NotOK = 3,
                         sn_Detail = ''synthetic test failure'', sn_UpdateAt = 0\<rparr>
             in case RenderFor exec when when (Some a) selfID sample StateUp StateDown snap of
                  (msg, Some e) \<Rightarrow> ([], Some (ErrWrap ''render template'' e))
                | (msg, None) \<Rightarrow> ([(a, msg)], dispatchOne ch a msg))))"

section \<open>Properties\<close>

definition field_of :: "template_engine \<Rightarrow> string \<Rightarrow> string \<Rightarrow> TemplateContext \<Rightarrow> string \<Rightarrow> string" where
  "field_of exec name src x dflt =
     (if src = [] then dflt else (case exec name src x of Inl e \<Rightarrow> dflt | Inr s \<Rightarrow> s))"

lemma RenderFor_fields:
  "fst (RenderFor exec when when' (Some a) nodeID check from to snap) =
     (let dflt = Render when nodeID check from to snap; x = newContext when' nodeID check from to snap in
      \<lparr>msg_Subject = field_of exec ''subject'' (al_SubjectTemplate a) x (msg_Subject dflt),
       msg_Body = field_of exec ''body'' (al_BodyTemplate a) x (msg_Body dflt)\<rparr>)"
  by (simp add: RenderFor_def field_of_def Let_def split: sum.split)

lemma OnTransition_alerts:
  "map fst (OnTransition exec ch when selfID c check from to snap) =
     (if shouldAlert from to then EffectiveAlertsFor c (Some check) else [])"
  by (simp add: OnTransition_def Let_def comp_def)

text \<open>Who is told what when a check flips. A transition to unknown, or from unknown to up, sends
  nothing (so a new master does not announce every healthy check); any other sends exactly one
  message to each effective alert of the check, in order. Each message carries the alert's own
  template's subject and body where it has one that renders, and the built-in text where it has none
  or it fails: a broken template never loses an alert.\<close>

theorem transition_messages:
  "let sent = OnTransition exec ch when selfID c check from to snap;
       dflt = Render when selfID check from to snap; x = newContext when selfID check from to snap in
     map fst sent = (if to = StateUnknown \<or> (from = StateUnknown \<and> to = StateUp) then [] else EffectiveAlertsFor c (Some check)) \<and>
     distinct (map (\<lambda>m. al_ID (fst m)) sent) \<and>
     list_all (\<lambda>(a, msg, r). r = dispatchOne ch a msg \<and>
       msg_Subject msg = field_of exec ''subject'' (al_SubjectTemplate a) x (msg_Subject dflt) \<and>
       msg_Body msg = field_of exec ''body'' (al_BodyTemplate a) x (msg_Body dflt)) sent"
proof -
  let ?sent = "OnTransition exec ch when selfID c check from to snap"
  have "map (\<lambda>m. al_ID (fst m)) ?sent = map al_ID (map fst ?sent)" by simp
  then have "distinct (map (\<lambda>m. al_ID (fst m)) ?sent)"
    unfolding OnTransition_alerts using effective_alerts_distinct by simp
  moreover have "map fst ?sent = (if to = StateUnknown \<or> (from = StateUnknown \<and> to = StateUp) then []
      else EffectiveAlertsFor c (Some check))"
    unfolding OnTransition_alerts shouldAlert_def by simp
  ultimately show ?thesis
    by (simp add: OnTransition_def RenderFor_fields Let_def list_all_iff)
qed

text \<open>A step of the dialogue that was taken and that the server accepted, given what it had seen before.\<close>

definition smtp_accepted :: "smtp_server \<Rightarrow> smtp_cmd list \<Rightarrow> smtp_cmd \<Rightarrow> bool" where
  "smtp_accepted srv issued x \<longleftrightarrow> (\<exists>p q. issued = p @ x # q \<and> srv p x = None)"

text \<open>The commands issued are a prefix of the plan; all but the last were accepted; and the last was accepted
  only if it ends the plan.\<close>

lemma smtp_run_answers:
  "smtp_run srv done cs = (issued, r) \<Longrightarrow>
     \<exists>new rest. issued = done @ new \<and> map fst cs = new @ rest \<and> (cs = [] \<longleftrightarrow> new = []) \<and> (cs = [] \<longrightarrow> r = None) \<and>
       (\<forall>p x q. new = p @ x # q \<longrightarrow>
          (if q \<noteq> [] then srv (done @ p) x = None
           else (case srv (done @ p) x of None \<Rightarrow> r = None \<and> rest = []
                 | Some e \<Rightarrow> \<exists>wrap. (x, wrap) \<in> set cs \<and> r = Some (wrap e))))"
proof (induction srv "done" cs rule: smtp_run.induct)
  case (1 srv "done")
  then show ?case by simp
next
  case (2 srv "done" c wrap cs)
  show ?case
  proof (cases "srv done c")
    case None
    with 2 obtain new rest where new: "issued = (done @ [c]) @ new" "map fst cs = new @ rest" "cs = [] \<longleftrightarrow> new = []" "cs = [] \<longrightarrow> r = None"
      and step: "\<And>p x q. new = p @ x # q \<Longrightarrow> (if q \<noteq> [] then srv ((done @ [c]) @ p) x = None
           else (case srv ((done @ [c]) @ p) x of None \<Rightarrow> r = None \<and> rest = []
                 | Some e \<Rightarrow> \<exists>wrap. (x, wrap) \<in> set cs \<and> r = Some (wrap e)))"
      by (auto simp del: append_assoc)
    have "if q \<noteq> [] then srv (done @ p) x = None
           else (case srv (done @ p) x of None \<Rightarrow> r = None \<and> rest = []
                 | Some e \<Rightarrow> \<exists>wrap'. (x, wrap') \<in> set ((c, wrap) # cs) \<and> r = Some (wrap' e))" if split: "c # new = p @ x # q" for p x q
    proof (cases p)
      case Nil
      with split None new show ?thesis by auto
    next
      case (Cons y p')
      with split have "y = c" "new = p' @ x # q" by auto
      with step [OF this(2)] Cons show ?thesis by (auto split: option.splits if_splits)
    qed
    with new show ?thesis by (intro exI [of _ "c # new"] exI [of _ rest]) auto
  next
    case (Some e)
    with 2 have "issued = done @ [c]" "r = Some (wrap e)" by auto
    with Some show ?thesis by (intro exI [of _ "[c]"] exI [of _ "map fst cs"]) (auto simp: Cons_eq_append_conv)
  qed
qed

text \<open>C35. Order on the SMTP connection, whatever the server answers. With STARTTLS set, credentials and
  mail commands are only ever sent after the server accepted the extension query and the TLS handshake;
  the message is written only after the server accepted the sender, every recipient and the start of the data,
  and the credentials where there are any. A command the server refuses is the last one, and its error, wrapped, is
  the result; the result is success exactly if the whole dialogue took place and each step was accepted.\<close>

theorem smtp_order:
  assumes "sendSMTP srv a msg = (issued, r)" and "issued = pre @ c # post"
  shows "(al_SMTPStartTLS a \<and> c \<noteq> SmtpDial (al_SMTPHost a @ '':'' @ Itoa (al_SMTPPort a)) \<and>
       c \<noteq> SmtpExtension ''STARTTLS'' \<and> c \<noteq> SmtpStartTLS (al_SMTPHost a) \<longrightarrow>
       smtp_accepted srv pre (SmtpExtension ''STARTTLS'') \<and> smtp_accepted srv pre (SmtpStartTLS (al_SMTPHost a))) \<and>
     (\<forall>body. c = SmtpWrite body \<longrightarrow> body = buildRFC822 (al_SMTPFrom a) (al_SMTPTo a) msg \<and>
        smtp_accepted srv pre (SmtpMail (al_SMTPFrom a)) \<and> (\<forall>rcpt \<in> set (al_SMTPTo a). smtp_accepted srv pre (SmtpRcpt rcpt)) \<and>
        smtp_accepted srv pre SmtpData \<and>
        (al_SMTPUser a \<noteq> [] \<longrightarrow> smtp_accepted srv pre (SmtpAuth (al_SMTPUser a) (al_SMTPPassword a) (al_SMTPHost a)))) \<and>
     (case srv pre c of
        None \<Rightarrow> post = [] \<longrightarrow> r = None \<and> issued = map fst (smtp_plan a msg)
      | Some e \<Rightarrow> post = [] \<and> (\<exists>wrap. (c, wrap) \<in> set (smtp_plan a msg) \<and> r = Some (wrap e)))"
proof -
  from assms have ne: "issued \<noteq> []" by simp
  with assms(1) have "smtp_run srv [] (smtp_plan a msg) = (issued, r)"
    by (auto simp: sendSMTP_def split: if_splits)
  from smtp_run_answers [OF this] obtain rest where planned: "map fst (smtp_plan a msg) = issued @ rest"
    and step: "\<And>p x q. issued = p @ x # q \<Longrightarrow> (if q \<noteq> [] then srv p x = None
           else (case srv p x of None \<Rightarrow> r = None \<and> rest = []
                 | Some e \<Rightarrow> \<exists>wrap. (x, wrap) \<in> set (smtp_plan a msg) \<and> r = Some (wrap e)))" unfolding append_Nil by blast
  have plan: "map fst (smtp_plan a msg) = pre @ c # (post @ rest)" using planned assms(2) by simp
  define hd_cmds where "hd_cmds = SmtpDial (al_SMTPHost a @ '':'' @ Itoa (al_SMTPPort a)) #
     (if al_SMTPStartTLS a then [SmtpExtension ''STARTTLS'', SmtpStartTLS (al_SMTPHost a)] else [])"
  define mid where "mid = (if al_SMTPUser a \<noteq> [] then [SmtpAuth (al_SMTPUser a) (al_SMTPPassword a) (al_SMTPHost a)] else []) @
     SmtpMail (al_SMTPFrom a) # map SmtpRcpt (al_SMTPTo a) @ [SmtpData]"
  define tl_cmds where "tl_cmds = [SmtpWrite (buildRFC822 (al_SMTPFrom a) (al_SMTPTo a) msg), SmtpCloseData, SmtpQuit]"
  have shape: "map fst (smtp_plan a msg) = hd_cmds @ mid @ tl_cmds"
    by (simp add: smtp_plan_def hd_cmds_def mid_def tl_cmds_def)
  have pre_of: "set xs \<subseteq> set pre" if "pre @ c # ws = xs @ ys" "c \<notin> set xs" for xs ys ws
    using that by (auto simp: append_eq_append_conv2 Cons_eq_append_conv)
  have acc: "smtp_accepted srv pre x" if "x \<in> set pre" for x
  proof -
    from that obtain p q where "pre = p @ x # q" by (metis split_list)
    with step [of p x "q @ c # post"] assms(2) show ?thesis by (auto simp: smtp_accepted_def)
  qed
  have 1: "smtp_accepted srv pre (SmtpExtension ''STARTTLS'') \<and> smtp_accepted srv pre (SmtpStartTLS (al_SMTPHost a))"
    if "al_SMTPStartTLS a" "c \<notin> set hd_cmds"
    using pre_of [of "post @ rest" hd_cmds "mid @ tl_cmds"] plan shape that acc by (auto simp: hd_cmds_def)
  have 2: "body = buildRFC822 (al_SMTPFrom a) (al_SMTPTo a) msg \<and> set mid \<subseteq> set pre" if "c = SmtpWrite body" for body
  proof -
    have c: "c \<notin> set (hd_cmds @ mid)" using that by (auto simp: hd_cmds_def mid_def)
    have "c \<in> set (hd_cmds @ mid @ tl_cmds)" using plan shape by (metis in_set_conv_decomp)
    with c that have "body = buildRFC822 (al_SMTPFrom a) (al_SMTPTo a) msg" by (simp add: tl_cmds_def)
    moreover from pre_of [OF _ c, of "post @ rest" tl_cmds] plan shape have "set (hd_cmds @ mid) \<subseteq> set pre" by simp
    ultimately show ?thesis by simp
  qed
  have 3: "case srv pre c of None \<Rightarrow> post = [] \<longrightarrow> r = None \<and> issued = map fst (smtp_plan a msg)
      | Some e \<Rightarrow> post = [] \<and> (\<exists>wrap. (c, wrap) \<in> set (smtp_plan a msg) \<and> r = Some (wrap e))"
    using step [OF assms(2)] planned by (cases "srv pre c") (auto split: if_splits)
  have tls: "c \<notin> set hd_cmds" if "al_SMTPStartTLS a \<and> c \<noteq> SmtpDial (al_SMTPHost a @ '':'' @ Itoa (al_SMTPPort a)) \<and>
       c \<noteq> SmtpExtension ''STARTTLS'' \<and> c \<noteq> SmtpStartTLS (al_SMTPHost a)"
    using that by (simp add: hd_cmds_def)
  have body: "smtp_accepted srv pre x" if "c = SmtpWrite body" "x \<in> set mid" for body x
    using 2 [OF that(1)] that(2) acc by blast
  show ?thesis
    using 1 tls 2 3 body by (auto simp: mid_def)
qed

definition demo_smtp :: Alert where
  "demo_smtp = zero_Alert\<lparr>al_Type := AlertSMTP, al_SMTPHost := ''mx'', al_SMTPPort := 587, al_SMTPUser := ''u'',
     al_SMTPPassword := ''p'', al_SMTPFrom := ''f'', al_SMTPTo := [''t''], al_SMTPStartTLS := True\<rparr>"

theorem smtp_order_witness:
  "let srv = \<lambda>done c. if c = SmtpAuth ''u'' ''p'' ''mx'' then Some (ErrLib ''535'') else None;
       (issued, r) = sendSMTP srv demo_smtp \<lparr>msg_Subject = [], msg_Body = []\<rparr>
   in issued = [SmtpDial ''mx:587'', SmtpExtension ''STARTTLS'', SmtpStartTLS ''mx'', SmtpAuth ''u'' ''p'' ''mx''] \<and>
      r \<noteq> None \<and> smtp_accepted srv [SmtpDial ''mx:587'', SmtpExtension ''STARTTLS'', SmtpStartTLS ''mx''] (SmtpStartTLS ''mx'')"
proof -
  let ?srv = "\<lambda>done c. if c = SmtpAuth ''u'' ''p'' ''mx'' then Some (ErrLib ''535'') else None"
  have port: "Itoa 587 = ''587''" by code_simp
  obtain r where run: "sendSMTP ?srv demo_smtp \<lparr>msg_Subject = [], msg_Body = []\<rparr> =
     ([SmtpDial ''mx:587'', SmtpExtension ''STARTTLS'', SmtpStartTLS ''mx'', SmtpAuth ''u'' ''p'' ''mx''], r)"
    by (simp add: sendSMTP_def smtp_plan_def demo_smtp_def zero_Alert_def port)
  have flds: "al_SMTPStartTLS demo_smtp" "al_SMTPHost demo_smtp = ''mx''" "al_SMTPPort demo_smtp = 587"
    by (simp_all add: demo_smtp_def)
  from smtp_order [OF run, of "[SmtpDial ''mx:587'', SmtpExtension ''STARTTLS'', SmtpStartTLS ''mx'']" "SmtpAuth ''u'' ''p'' ''mx''" "[]"]
  show ?thesis using run by (auto simp: flds)
qed

end
