(* ===== verification/Token.thy ===== *)
theory Token
  imports Prelude
begin

text \<open>
  The enrollment tokens of \<open>internal/daemon/control.go\<close>: what the operator carries from
  \<open>qu enroll create\<close> to \<open>qu enroll join\<close>. \<open>base64.RawURLEncoding\<close> is written out, with the
  decoder's treatment of line breaks; JSON is a parameter.
\<close>

section \<open>encoding/base64, RawURLEncoding\<close>

definition b64_digit :: "nat \<Rightarrow> char" where
  "b64_digit n =
     (if n < 26 then char_of (65 + n) else if n < 52 then char_of (71 + n)
      else if n < 62 then char_of (n - 4) else if n = 62 then CHR ''-'' else CHR ''_'')"

definition b64_val :: "char \<Rightarrow> nat option" where
  "b64_val c = (let n = (of_char c :: nat) in
     if 65 \<le> n \<and> n \<le> 90 then Some (n - 65)
     else if 97 \<le> n \<and> n \<le> 122 then Some (n - 71)
     else if 48 \<le> n \<and> n \<le> 57 then Some (n + 4)
     else if c = CHR ''-'' then Some 62
     else if c = CHR ''_'' then Some 63
     else None)"

text \<open>Three bytes are four digits; one or two bytes at the end are two or three, without padding.\<close>

fun sextets :: "nat list \<Rightarrow> nat list" where
  "sextets [] = []"
| "sextets [a] = [a div 4, a mod 4 * 16]"
| "sextets [a, b] = [a div 4, a mod 4 * 16 + b div 16, b mod 16 * 4]"
| "sextets (a # b # c # bs) = a div 4 # (a mod 4 * 16 + b div 16) # (b mod 16 * 4 + c div 64) # c mod 64 # sextets bs"

fun octets :: "nat list \<Rightarrow> nat list option" where
  "octets [] = Some []"
| "octets [x] = None"
| "octets [x, y] = Some [x * 4 + y div 16]"
| "octets [x, y, z] = Some [x * 4 + y div 16, y mod 16 * 16 + z div 4]"
| "octets (x # y # z # w # xs) =
     map_option (\<lambda>bs. (x * 4 + y div 16) # (y mod 16 * 16 + z div 4) # (z mod 4 * 64 + w) # bs) (octets xs)"

definition b64_EncodeToString :: "string \<Rightarrow> string" where
  "b64_EncodeToString s = map b64_digit (sextets (map of_char s))"

definition b64_DecodeString :: "string \<Rightarrow> err + string" where
  "b64_DecodeString s =
     (case those (map b64_val (filter (\<lambda>c. c \<noteq> CHR 0x0A \<and> c \<noteq> CHR 0x0D) s)) of
        None \<Rightarrow> Inl (ErrLib ''illegal base64 data'')
      | Some xs \<Rightarrow>
         (case octets xs of
            None \<Rightarrow> Inl (ErrLib ''illegal base64 data'')
          | Some bs \<Rightarrow> Inr (map char_of bs)))"

lemma b64_val_digit: "n < 64 \<Longrightarrow> b64_val (b64_digit n) = Some n"
proof -
  assume "n < 64"
  then consider "n < 26" | "26 \<le> n \<and> n < 52" | "52 \<le> n \<and> n < 62" | "n = 62" | "n = 63" by linarith
  then show ?thesis
  proof cases
    case 3
    then have "(n - 4) mod 256 = n - 4" by (intro mod_less) linarith
    with 3 show ?thesis by (auto simp: b64_digit_def b64_val_def Let_def)
  qed (simp_all add: b64_digit_def b64_val_def Let_def)
qed

lemma sextets_lt: "list_all (\<lambda>b. b < 256) bs \<Longrightarrow> list_all (\<lambda>x. x < 64) (sextets bs)"
proof (induction bs rule: sextets.induct)
  case (2 a)
  then show ?case by (simp add: less_mult_imp_div_less)
next
  case (3 a b)
  then have "a div 4 < 64" "b div 16 < 16" by (simp_all add: less_mult_imp_div_less)
  moreover have "a mod 4 < 4" "b mod 16 < 16" by simp_all
  ultimately show ?case by simp
next
  case (4 a b c bs)
  then have "a div 4 < 64" "b div 16 < 16" "c div 64 < 4" by (simp_all add: less_mult_imp_div_less)
  moreover have "a mod 4 < 4" "b mod 16 < 16" "c mod 64 < 64" by simp_all
  ultimately have "a mod 4 * 16 + b div 16 < 64" "b mod 16 * 4 + c div 64 < 64" by linarith+
  with \<open>a div 4 < 64\<close> 4 show ?case by simp
qed simp

lemma octets_sextets: "list_all (\<lambda>b. b < 256) bs \<Longrightarrow> octets (sextets bs) = Some bs"
proof (induction bs rule: sextets.induct)
  case (3 a b)
  then have "b div 16 < 16" by (simp add: less_mult_imp_div_less)
  then show ?case by simp
next
  case (4 a b c bs)
  then have "b div 16 < 16" "c div 64 < 4" by (simp_all add: less_mult_imp_div_less)
  with 4 show ?case by simp
qed simp_all

lemma those_digits: "list_all (\<lambda>x. x < 64) xs \<Longrightarrow> those (map b64_val (map b64_digit xs)) = Some xs"
  by (induction xs) (simp_all add: b64_val_digit)

lemma digit_no_break: "n < 64 \<Longrightarrow> b64_digit n \<noteq> CHR 0x0A \<and> b64_digit n \<noteq> CHR 0x0D"
  using b64_val_digit [of n] by (auto simp: b64_val_def Let_def)

lemma b64_roundtrip [simp]: "b64_DecodeString (b64_EncodeToString s) = Inr s"
proof -
  let ?bs = "map of_char s :: nat list"
  have bs: "list_all (\<lambda>b. b < 256) ?bs" by (simp add: list_all_iff)
  have "filter (\<lambda>c. c \<noteq> CHR 0x0A \<and> c \<noteq> CHR 0x0D) (map b64_digit (sextets ?bs)) = map b64_digit (sextets ?bs)"
    using sextets_lt [OF bs] by (auto simp: list_all_iff filter_id_conv digit_no_break)
  then have "b64_DecodeString (b64_EncodeToString s) = Inr (map char_of ?bs)"
    using those_digits [OF sextets_lt [OF bs]] octets_sextets [OF bs]
    by (simp add: b64_DecodeString_def b64_EncodeToString_def)
  then show ?thesis by (simp add: comp_def)
qed

interpretation b64: roundtrip_codec b64_EncodeToString
    "\<lambda>s. case b64_DecodeString s of Inl e \<Rightarrow> None | Inr x \<Rightarrow> Some x" "\<lambda>_. True"
  by unfold_locales simp

section \<open>Tokens\<close>

record EnrollEndpoint =
  ee_Advertise :: string
  ee_Fingerprint :: string

record EnrollmentTokenPayload =
  tp_ID :: string
  tp_Secret :: string
  tp_Endpoints :: "EnrollEndpoint list"
  tp_ExpiresAt :: gotime

record token_json =
  tj_Marshal :: "EnrollmentTokenPayload \<Rightarrow> err + string"
  tj_Unmarshal :: "string \<Rightarrow> err + EnrollmentTokenPayload"

text \<open>A marshalling error is dropped: the token is then the empty string.\<close>

definition EncodeEnrollmentToken :: "token_json \<Rightarrow> EnrollmentTokenPayload \<Rightarrow> string" where
  "EncodeEnrollmentToken T p = b64_EncodeToString (case tj_Marshal T p of Inl e \<Rightarrow> [] | Inr raw \<Rightarrow> raw)"

definition DecodeEnrollmentToken :: "token_json \<Rightarrow> string \<Rightarrow> err + EnrollmentTokenPayload" where
  "DecodeEnrollmentToken T token =
     (case b64_DecodeString token of
        Inl e \<Rightarrow> Inl (ErrWrap ''decode token'' e)
      | Inr raw \<Rightarrow>
         (case tj_Unmarshal T raw of
            Inl e \<Rightarrow> Inl (ErrWrap ''parse token'' e)
          | Inr p \<Rightarrow>
             (if tp_ID p = [] \<or> tp_Secret p = [] \<or> length (tp_Endpoints p) = 0
              then Inl (ErrMsg ''malformed token: missing id, secret, or endpoints'')
              else Inr p)))"

text \<open>\<open>randomEnrollID\<close> and \<open>randomEnrollSecret\<close>; \<open>rnd\<close> is what \<open>rand.Read\<close> delivers for 6 and
  for 32 bytes.\<close>

definition randomEnrollID :: "err + string \<Rightarrow> err + string" where
  "randomEnrollID rnd = (case rnd of Inl e \<Rightarrow> Inl e | Inr b \<Rightarrow> Inr (b64_EncodeToString b))"

definition randomEnrollSecret :: "err + string \<Rightarrow> err + string" where
  "randomEnrollSecret rnd = (case rnd of Inl e \<Rightarrow> Inl e | Inr b \<Rightarrow> Inr (b64_EncodeToString b))"

lemma b64_Nil_iff [simp]: "b64_EncodeToString s = [] \<longleftrightarrow> s = []"
  using b64.enc_inj [of s "[]"] by (auto simp: b64_EncodeToString_def)

lemma decode_encoded:
  assumes "tj_Marshal T p = Inr raw" and "tj_Unmarshal T raw = Inr p"
  shows "DecodeEnrollmentToken T (EncodeEnrollmentToken T p) =
     (if tp_ID p = [] \<or> tp_Secret p = [] \<or> tp_Endpoints p = []
      then Inl (ErrMsg ''malformed token: missing id, secret, or endpoints'') else Inr p)"
  using assms by (simp add: DecodeEnrollmentToken_def EncodeEnrollmentToken_def)

end
