(* ===== verification/Node.thy ===== *)
theory Node
  imports Config
begin

text \<open>
  \<open>internal/config/node.go\<close>: the identity file of one node, never replicated. The record
  \<open>NodeConfig\<close> has the YAML fields; the environment overrides are applied in the order of the
  source, and an override that is not an integer stops it half-way, as there.
\<close>

record NodeConfig =
  nc_NodeID :: string
  nc_BindAddr :: string
  nc_BindPort :: int
  nc_Advertise :: string
  nc_ClusterSecret :: string

definition zero_NodeConfig :: NodeConfig where
  "zero_NodeConfig = \<lparr>nc_NodeID = [], nc_BindAddr = [], nc_BindPort = 0, nc_Advertise = [],
     nc_ClusterSecret = []\<rparr>"

record node_codec =
  nyaml_Marshal :: "NodeConfig \<Rightarrow> err + string"
  nyaml_Unmarshal :: "string \<Rightarrow> err + NodeConfig"

definition AdvertiseAddr :: "NodeConfig \<Rightarrow> string" where
  "AdvertiseAddr n =
     (if nc_Advertise n \<noteq> [] then nc_Advertise n
      else
        (let bind = nc_BindAddr n;
             bind = (if bind = [] \<or> bind = ''0.0.0.0'' \<or> bind = ''::'' then ''127.0.0.1'' else bind)
         in bind @ '':'' @ Itoa (nc_BindPort n)))"

text \<open>\<open>ApplyEnvOverrides\<close>: the error and the configuration as far as it was edited.\<close>

definition ApplyEnvOverrides :: "os_env \<Rightarrow> NodeConfig \<Rightarrow> err option \<times> NodeConfig" where
  "ApplyEnvOverrides e n =
     (let n1 = (if Getenv e ''QUPTIME_NODE_ID'' \<noteq> [] then n\<lparr>nc_NodeID := Getenv e ''QUPTIME_NODE_ID''\<rparr> else n);
          n2 = (if Getenv e ''QUPTIME_BIND_ADDR'' \<noteq> [] then n1\<lparr>nc_BindAddr := Getenv e ''QUPTIME_BIND_ADDR''\<rparr> else n1);
          v = Getenv e ''QUPTIME_BIND_PORT'';
          last_part = (\<lambda>m. if Getenv e ''QUPTIME_ADVERTISE'' \<noteq> []
                           then m\<lparr>nc_Advertise := Getenv e ''QUPTIME_ADVERTISE''\<rparr> else m)
      in if v \<noteq> [] then
           (case Atoi v of
              None \<Rightarrow> (Some (ErrWrap (''QUPTIME_BIND_PORT='' @ Quote v @ '': not an integer'') (ErrLib ''strconv.Atoi'')), n2)
            | Some p \<Rightarrow> (None, last_part (n2\<lparr>nc_BindPort := p\<rparr>)))
         else (None, last_part n2))"

definition LoadNodeConfig :: "node_codec \<Rightarrow> os_env \<Rightarrow> err option \<Rightarrow> fs \<Rightarrow> err + NodeConfig" where
  "LoadNodeConfig L e read_err f =
     (case read_err of Some x \<Rightarrow> Inl x | None \<Rightarrow>
     (case f (NodeFilePath e) of
        None \<Rightarrow> Inl (ErrLib ''no such file or directory'')
      | Some raw \<Rightarrow>
         (case nyaml_Unmarshal L (f_data raw) of
            Inl x \<Rightarrow> Inl (ErrWrap ''parse node.yaml'' x)
          | Inr cfg \<Rightarrow>
             (case ApplyEnvOverrides e cfg of
                (Some x, _) \<Rightarrow> Inl x
              | (None, cfg) \<Rightarrow>
                 (let cfg = (if nc_BindPort cfg = 0 then cfg\<lparr>nc_BindPort := 9901\<rparr> else cfg);
                      cfg = (if nc_BindAddr cfg = [] then cfg\<lparr>nc_BindAddr := ''0.0.0.0''\<rparr> else cfg)
                  in Inr cfg)))))"

definition NodeConfig_Save ::
  "node_codec \<Rightarrow> os_env \<Rightarrow> write_env \<Rightarrow> NodeConfig \<Rightarrow> fs \<Rightarrow> err option \<times> fs" where
  "NodeConfig_Save L e w n f =
     (case nyaml_Marshal L n of
        Inl x \<Rightarrow> (Some x, f)
      | Inr out \<Rightarrow> AtomicWrite w (NodeFilePath e) out 384 f)"

text \<open>The precedence the source documents: environment, then file, then the compiled default.\<close>

definition layered :: "string \<Rightarrow> string \<Rightarrow> string \<Rightarrow> string" where
  "layered env_val from_file dflt =
     (if env_val \<noteq> [] then env_val else if from_file \<noteq> [] then from_file else dflt)"

lemma override_field:
  "(if v \<noteq> [] then n\<lparr>nc_NodeID := v\<rparr> else n) = n\<lparr>nc_NodeID := layered v (nc_NodeID n) []\<rparr>"
  "(if v \<noteq> [] then n\<lparr>nc_BindAddr := v\<rparr> else n) = n\<lparr>nc_BindAddr := layered v (nc_BindAddr n) []\<rparr>"
  "(if v \<noteq> [] then n\<lparr>nc_Advertise := v\<rparr> else n) = n\<lparr>nc_Advertise := layered v (nc_Advertise n) []\<rparr>"
  by (simp_all add: layered_def)

lemma ApplyEnvOverrides_eq:
  "ApplyEnvOverrides e n =
     (let m = n\<lparr>nc_NodeID := layered (Getenv e ''QUPTIME_NODE_ID'') (nc_NodeID n) [],
                nc_BindAddr := layered (Getenv e ''QUPTIME_BIND_ADDR'') (nc_BindAddr n) []\<rparr>;
          adv = layered (Getenv e ''QUPTIME_ADVERTISE'') (nc_Advertise n) [];
          v = Getenv e ''QUPTIME_BIND_PORT''
      in if v = [] then (None, m\<lparr>nc_Advertise := adv\<rparr>)
         else (case Atoi v of
                 None \<Rightarrow> (Some (ErrWrap (''QUPTIME_BIND_PORT='' @ Quote v @ '': not an integer'') (ErrLib ''strconv.Atoi'')), m)
               | Some p \<Rightarrow> (None, m\<lparr>nc_BindPort := p, nc_Advertise := adv\<rparr>)))"
  unfolding ApplyEnvOverrides_def Let_def override_field by (simp split: option.split)

lemma layered_default [simp]:
  "(layered v x [] = []) = (v = [] \<and> x = [])"
  "layered v x d \<noteq> layered v x [] \<longleftrightarrow> v = [] \<and> x = [] \<and> d \<noteq> []"
  by (auto simp: layered_def)

text \<open>What a restarted node runs with: after a successful \<open>Save\<close>, \<open>LoadNodeConfig\<close> on the
  resulting file system layers each field: a non-empty environment variable wins over the saved
  value, the saved value over the compiled default (0.0.0.0, port 9901), and a bind port in the
  environment that is not an integer is the only way to fail.\<close>

theorem node_config_layers:
  assumes yaml: "\<And>c out. nyaml_Marshal L c = Inr out \<Longrightarrow> nyaml_Unmarshal L out = Inr c"
    and ok: "NodeConfig_Save L e w n f = (None, f')"
  shows "case LoadNodeConfig L e None f' of
       Inl x \<Rightarrow> Getenv e ''QUPTIME_BIND_PORT'' \<noteq> [] \<and> Atoi (Getenv e ''QUPTIME_BIND_PORT'') = None
     | Inr m \<Rightarrow>
         nc_NodeID m = layered (Getenv e ''QUPTIME_NODE_ID'') (nc_NodeID n) [] \<and>
         nc_BindAddr m = layered (Getenv e ''QUPTIME_BIND_ADDR'') (nc_BindAddr n) ''0.0.0.0'' \<and>
         nc_Advertise m = layered (Getenv e ''QUPTIME_ADVERTISE'') (nc_Advertise n) [] \<and>
         nc_BindPort m =
           (let p = (if Getenv e ''QUPTIME_BIND_PORT'' = [] then nc_BindPort n
                     else the (Atoi (Getenv e ''QUPTIME_BIND_PORT'')))
            in if p = 0 then 9901 else p)"
proof -
  obtain out where "nyaml_Marshal L n = Inr out"
    and "f' (NodeFilePath e) = Some \<lparr>f_data = out, f_perm = 384\<rparr>"
    using ok by (auto simp: NodeConfig_Save_def dest!: AtomicWrite_ok split: sum.splits)
  then have load: "LoadNodeConfig L e None f' =
      (case ApplyEnvOverrides e n of (Some x, _) \<Rightarrow> Inl x
       | (None, cfg) \<Rightarrow>
          (let cfg = (if nc_BindPort cfg = 0 then cfg\<lparr>nc_BindPort := 9901\<rparr> else cfg);
               cfg = (if nc_BindAddr cfg = [] then cfg\<lparr>nc_BindAddr := ''0.0.0.0''\<rparr> else cfg)
           in Inr cfg))"
    by (simp add: LoadNodeConfig_def yaml)
  have addr: "layered v x ''0.0.0.0'' = (if layered v x [] = [] then ''0.0.0.0'' else layered v x [])" for v x
    by (simp add: layered_def)
  show ?thesis
    unfolding load ApplyEnvOverrides_eq Let_def addr
    by (cases "Getenv e ''QUPTIME_BIND_PORT'' = []"; cases "Atoi (Getenv e ''QUPTIME_BIND_PORT'')") auto
qed

definition demo_node :: NodeConfig where
  "demo_node = zero_NodeConfig\<lparr>nc_NodeID := ''a'', nc_Advertise := ''a:9901''\<rparr>"

definition demo_node_codec :: node_codec where
  "demo_node_codec = \<lparr>nyaml_Marshal = (\<lambda>c. if c = demo_node then Inr ''yaml'' else Inl (ErrLib ''yaml'')),
     nyaml_Unmarshal = (\<lambda>s. if s = ''yaml'' then Inr demo_node else Inl (ErrLib ''yaml''))\<rparr>"

definition port_env :: "string \<Rightarrow> os_env" where
  "port_env v = demo_env\<lparr>Getenv := (\<lambda>x. if x = ''QUPTIME_BIND_PORT'' then v else [])\<rparr>"

lemma demo_node_saved:
  "\<exists>f'. NodeConfig_Save demo_node_codec e io_good demo_node (\<lambda>_. None) = (None, f')"
  using AtomicWrite_good [of "NodeFilePath e" "''yaml''" 384 "\<lambda>_. None"]
  by (cases "AtomicWrite io_good (NodeFilePath e) ''yaml'' 384 (\<lambda>_. None)")
     (simp add: NodeConfig_Save_def demo_node_codec_def NodeFilePath_def)

theorem node_config_layers_witness:
  "\<exists>f'. NodeConfig_Save demo_node_codec (port_env ''99x'') io_good demo_node (\<lambda>_. None) = (None, f') \<and>
     (case LoadNodeConfig demo_node_codec (port_env ''99x'') None f' of
        Inl x \<Rightarrow> True | Inr m \<Rightarrow> nc_BindAddr m = ''0.0.0.0'')"
proof -
  have yaml: "nyaml_Marshal demo_node_codec c = Inr out \<Longrightarrow> nyaml_Unmarshal demo_node_codec out = Inr c" for c out
    by (auto simp: demo_node_codec_def split: if_splits)
  from demo_node_saved obtain f'
    where f': "NodeConfig_Save demo_node_codec (port_env ''99x'') io_good demo_node (\<lambda>_. None) = (None, f')" by blast
  from node_config_layers [of demo_node_codec, OF yaml f'] f' show ?thesis
    by (auto simp: port_env_def layered_def demo_env_def demo_node_def zero_NodeConfig_def split: sum.splits)
qed

end
