(* ===== verification/Daemon.thy ===== *)
theory Daemon
  imports Replicate Rpc Quorum Scheduler Alerts Token Node
begin

text \<open>
  \<open>internal/daemon/daemon.go\<close> and \<open>watcher.go\<close>: how the components are wired into one process.
  The record \<open>daemon\<close> holds the state of every component; the configuration and the trust store
  carry the part of the file system each writes to. \<open>daemon_env\<close> collects the parameters that stay
  the same during a run (codings, certificates, the process environment); what differs from call to
  call (clock readings, outcomes of system calls, answers of peers) is in the records \<open>mut_env\<close> and
  \<open>agg_env\<close>. The only change callback registered is \<open>syncTrustFromCluster\<close>; callbacks run inside
  the call that changed the configuration, before it returns.
\<close>

section \<open>The process\<close>

record json_enc =
  jm_Target :: "string \<Rightarrow> err + string"
  jm_RecordPending :: "string \<times> PendingJoin option \<Rightarrow> err + string"
  jm_Enrollment :: "PendingEnrollment \<Rightarrow> err + string"
  jm_Config :: "ClusterConfig \<Rightarrow> err + string"

record daemon_env =
  dv_pki :: pki
  dv_os :: os_env
  dv_yaml :: codec
  dv_tyaml :: trust_codec
  dv_json :: json_codec
  dv_enc :: json_enc
  dv_ord :: map_order

record daemon =
  d_node :: NodeConfig
  d_cert :: string
  d_cfg :: cfg_state
  d_trust :: trust_store
  d_quorum :: manager
  d_agg :: aggregator

abbreviation self_of :: "daemon \<Rightarrow> string" where
  "self_of d \<equiv> nc_NodeID (d_node d)"

section \<open>Trust follows membership\<close>

definition entry_of :: "PeerInfo \<Rightarrow> trust_entry" where
  "entry_of p = \<lparr>te_NodeID = pi_NodeID p, te_Address = pi_Advertise p, te_Fingerprint = pi_Fingerprint p,
     te_PublicKeyPEM = [], te_CertPEM = pi_CertPEM p, te_AddedAt = 0\<rparr>"

definition sync_peer :: "daemon_env \<Rightarrow> string \<Rightarrow> call_env \<Rightarrow> PeerInfo \<Rightarrow> trust_store \<Rightarrow> trust_store" where
  "sync_peer D self ce p st =
     (if pi_NodeID p = [] \<or> pi_NodeID p = self then st
      else if pi_Fingerprint p = [] \<or> pi_CertPEM p = [] then st
      else if (case trust_Get (pi_NodeID p) st of
                 Some existing \<Rightarrow> te_Fingerprint existing = pi_Fingerprint p | None \<Rightarrow> False) then st
      else snd (trust_Add (dv_tyaml D) (dv_os D) (dv_ord D) ce (entry_of p) st))"

text \<open>The loop over the peers; \<open>tce n\<close> is what the \<open>n\<close>-th turn sees.\<close>

fun sync_peers :: "daemon_env \<Rightarrow> string \<Rightarrow> (nat \<Rightarrow> call_env) \<Rightarrow> nat \<Rightarrow> PeerInfo list \<Rightarrow> trust_store \<Rightarrow> trust_store" where
  "sync_peers D self tce n [] st = st"
| "sync_peers D self tce n (p # ps) st = sync_peers D self tce (Suc n) ps (sync_peer D self (tce n) p st)"

definition syncTrustFromCluster :: "daemon_env \<Rightarrow> (nat \<Rightarrow> call_env) \<Rightarrow> daemon \<Rightarrow> daemon" where
  "syncTrustFromCluster D tce d =
     d\<lparr>d_trust := sync_peers D (self_of d) tce 0 (cc_Peers (Snapshot (d_cfg d))) (d_trust d)\<rparr>"

text \<open>What \<open>ClusterConfig\<close> runs after a change: each registered callback.\<close>

definition run_callbacks :: "daemon_env \<Rightarrow> (nat \<Rightarrow> call_env) \<Rightarrow> callback list \<Rightarrow> daemon \<Rightarrow> daemon" where
  "run_callbacks D tce cbs d = fold (\<lambda>_. syncTrustFromCluster D tce) cbs d"

section \<open>Mutations and snapshots as the daemon makes and receives them\<close>

record mut_env =
  mu_now :: gotime
  mu_call :: call_env
  mu_rpc :: "string \<Rightarrow> string \<Rightarrow> ProposeMutationRequest \<Rightarrow> err + ProposeMutationResponse"
  mu_trust :: "nat \<Rightarrow> call_env"

type_synonym outbox = "(string \<times> string \<times> ApplyClusterCfgRequest) list"

text \<open>The quorum manager's answers to the replicator.\<close>

definition view :: "gotime \<Rightarrow> daemon \<Rightarrow> master_view" where
  "view t d = \<lparr>mv_Master = Master (d_quorum d), mv_IsMaster = IsMaster (d_quorum d),
     mv_HasQuorum = HasQuorum t (cs_cfg (d_cfg d)) (d_quorum d)\<rparr>"

definition daemon_mutate ::
  "daemon_env \<Rightarrow> mut_env \<Rightarrow> MutationKind \<Rightarrow> err + string \<Rightarrow> daemon \<Rightarrow> (err + 64 word) \<times> daemon \<times> outbox" where
  "daemon_mutate D mu kind marshalled d =
     (case LocalMutate (dv_json D) (dv_yaml D) (dv_os D) (mu_call mu) (self_of d) (view (mu_now mu) d)
             (mu_rpc mu) kind marshalled (d_cfg d) of
        (r, s, cbs, out) \<Rightarrow> (r, run_callbacks D (mu_trust mu) cbs (d\<lparr>d_cfg := s\<rparr>), out))"

definition daemon_propose ::
  "daemon_env \<Rightarrow> mut_env \<Rightarrow> ProposeMutationRequest \<Rightarrow> daemon \<Rightarrow> ProposeMutationResponse \<times> daemon \<times> outbox" where
  "daemon_propose D mu req d =
     (case HandleProposeMutation (dv_json D) (dv_yaml D) (dv_os D) (mu_call mu) (self_of d) (view (mu_now mu) d) req (d_cfg d) of
        (resp, s, cbs, out) \<Rightarrow> (resp, run_callbacks D (mu_trust mu) cbs (d\<lparr>d_cfg := s\<rparr>), out))"

definition daemon_apply ::
  "daemon_env \<Rightarrow> mut_env \<Rightarrow> ApplyClusterCfgRequest \<Rightarrow> daemon \<Rightarrow> ApplyClusterCfgResponse \<times> daemon" where
  "daemon_apply D mu req d =
     (case HandleApplyClusterCfg (dv_yaml D) (dv_os D) (mu_call mu) req (d_cfg d) of
        (resp, s, cbs) \<Rightarrow> (resp, run_callbacks D (mu_trust mu) cbs (d\<lparr>d_cfg := s\<rparr>)))"

text \<open>The version observer that \<open>New\<close> installs in the quorum manager.\<close>

definition observe_version ::
  "daemon_env \<Rightarrow> mut_env \<Rightarrow> (string \<Rightarrow> string \<Rightarrow> err + GetClusterCfgResponse) \<Rightarrow> string \<Rightarrow> string \<Rightarrow> daemon \<Rightarrow> err option \<times> daemon" where
  "observe_version D mu rpc peerID peerAddr d =
     (case PullFrom (dv_yaml D) (dv_os D) (mu_call mu) rpc peerID peerAddr (d_cfg d) of
        (r, s, cbs) \<Rightarrow> (r, run_callbacks D (mu_trust mu) cbs (d\<lparr>d_cfg := s\<rparr>)))"

text \<open>The \<open>Heartbeat\<close> method: the quorum manager's handler with that observer, which pulls before the
  election. And what the goroutine that sent a heartbeat does with the answer.\<close>

definition observed ::
  "daemon_env \<Rightarrow> mut_env \<Rightarrow> (string \<Rightarrow> string \<Rightarrow> err + GetClusterCfgResponse) \<Rightarrow> (string \<times> string \<times> 64 word) option \<Rightarrow> daemon \<Rightarrow> daemon" where
  "observed D mu rpc note d =
     (case note of None \<Rightarrow> d | Some (peerID, addr, ver) \<Rightarrow> snd (observe_version D mu rpc peerID addr d))"

definition daemon_heartbeat ::
  "daemon_env \<Rightarrow> mut_env \<Rightarrow> (string \<Rightarrow> string \<Rightarrow> err + GetClusterCfgResponse) \<Rightarrow> gotime \<Rightarrow> gotime \<Rightarrow> gotime \<Rightarrow>
     HeartbeatRequest \<Rightarrow> daemon \<Rightarrow> HeartbeatResponse \<times> (string \<times> string \<times> 64 word) option \<times> daemon" where
  "daemon_heartbeat D mu rpc t_mark t_live t_now req d =
     (case HandleHeartbeat t_mark t_live t_now (\<lambda>n. cs_cfg (d_cfg (observed D mu rpc (Some n) d))) (cs_cfg (d_cfg d)) req (d_quorum d) of
        (resp, note, m) \<Rightarrow> (resp, note, (observed D mu rpc note d)\<lparr>d_quorum := m\<rparr>))"

definition daemon_heard ::
  "daemon_env \<Rightarrow> mut_env \<Rightarrow> (string \<Rightarrow> string \<Rightarrow> err + GetClusterCfgResponse) \<Rightarrow> gotime \<Rightarrow> string \<Rightarrow>
     err + HeartbeatResponse \<Rightarrow> daemon \<Rightarrow> daemon" where
  "daemon_heard D mu rpc t_mark peerID res d =
     (case heartbeat_reply t_mark peerID res (cs_cfg (d_cfg d)) (d_quorum d) of
        (note, m) \<Rightarrow> observed D mu rpc note (d\<lparr>d_quorum := m\<rparr>))"

section \<open>Probe results\<close>

definition daemon_addressOf :: "string \<Rightarrow> daemon \<Rightarrow> string" where
  "daemon_addressOf nodeID d =
     (case List.find (\<lambda>p. pi_NodeID p = nodeID) (cc_Peers (Snapshot (d_cfg d))) of
        Some p \<Rightarrow> pi_Advertise p | None \<Rightarrow> [])"

text \<open>What one submission to the aggregator sees: iteration order and clocks, and what the dispatcher
  needs to send alerts.\<close>

record agg_env =
  ae_order :: report_order
  ae_eval :: gotime
  ae_snap :: gotime
  ae_upd :: gotime
  ae_exec :: template_engine
  ae_channels :: channels
  ae_when :: string

text \<open>\<open>Aggregator.Submit\<close> with the transition callback that \<open>New\<close> installs: only the master hands
  a transition to the dispatcher. The messages sent, and the new state.\<close>

definition aggregate ::
  "agg_env \<Rightarrow> string \<Rightarrow> Result \<Rightarrow> daemon \<Rightarrow> (Alert \<times> Message \<times> err option) list \<times> daemon" where
  "aggregate E nodeID r d =
     (case Submit (ae_order E) (ae_eval E) (ae_snap E) (ae_upd E) (cs_cfg (d_cfg d)) nodeID r (d_agg d) of
        (fired, a) \<Rightarrow>
          (case fired of
             None \<Rightarrow> []
           | Some (check, from, to, snap) \<Rightarrow>
              (if \<not> IsMaster (d_quorum d) then []
               else OnTransition (ae_exec E) (ae_channels E) (ae_when E) (self_of d) (cs_cfg (d_cfg d)) check from to snap),
           d\<lparr>d_agg := a\<rparr>))"

text \<open>\<open>Duration.Milliseconds\<close>: division that truncates toward zero.\<close>

definition Milliseconds :: "duration \<Rightarrow> int" where
  "Milliseconds t = sgn t * (abs t div 1000000)"

text \<open>\<open>sink.Submit\<close>: aggregate here, report to the master (ID, address, request), or drop.\<close>

datatype route =
    RouteDrop
  | RouteLocal
  | RouteRemote string string ReportResultRequest

definition sink_route :: "Result \<Rightarrow> daemon \<Rightarrow> route" where
  "sink_route r d =
     (if IsMaster (d_quorum d) then RouteLocal
      else
        (let masterID = Master (d_quorum d) in
         if masterID = [] then RouteDrop
         else
           (let addr = daemon_addressOf masterID d in
            if addr = [] then RouteDrop
            else RouteRemote masterID addr
              \<lparr>rq_FromNodeID = self_of d, rq_CheckID = rs_CheckID r, rq_OK = rs_OK r, rq_Detail = rs_Detail r,
               rq_LatencyMS = Milliseconds (rs_Latency r), rq_At = rs_Timestamp r\<rparr>)))"

definition sink_Submit ::
  "agg_env \<Rightarrow> Result \<Rightarrow> daemon \<Rightarrow> (Alert \<times> Message \<times> err option) list \<times> route \<times> daemon" where
  "sink_Submit E r d =
     (case sink_route r d of
        RouteLocal \<Rightarrow> (case aggregate E (self_of d) r d of (sent, d') \<Rightarrow> (sent, RouteLocal, d'))
      | other \<Rightarrow> ([], other, d))"

text \<open>The handler of \<open>ReportResult\<close>.\<close>

definition report_result :: "ReportResultRequest \<Rightarrow> Result" where
  "report_result req = \<lparr>rs_CheckID = rq_CheckID req, rs_OK = rq_OK req, rs_Detail = rq_Detail req,
     rs_Latency = int64 (rq_LatencyMS req * Millisecond), rs_Timestamp = rq_At req\<rparr>"

definition handle_report ::
  "agg_env \<Rightarrow> ReportResultRequest \<Rightarrow> daemon \<Rightarrow> (Alert \<times> Message \<times> err option) list \<times> daemon" where
  "handle_report E req d = aggregate E (rq_FromNodeID req) (report_result req) d"

section \<open>Status\<close>

text \<open>The clock readings of \<open>buildStatus\<close>; each check's snapshot has its own.\<close>

record status_env =
  su_live :: gotime
  su_quorum :: gotime
  su_order :: report_order
  su_snap :: "nat \<Rightarrow> gotime"
  su_upd :: "nat \<Rightarrow> gotime"

definition peer_row :: "gotime \<Rightarrow> manager \<Rightarrow> PeerInfo \<Rightarrow> PeerLiveness" where
  "peer_row t m p = \<lparr>pl_NodeID = pi_NodeID p, pl_Advertise = pi_Advertise p,
     pl_Live = (pi_NodeID p \<in> set (LiveSet t m)),
     pl_LastSeen = (case map_of (Liveness m) (pi_NodeID p) of None \<Rightarrow> 0 | Some ts \<Rightarrow> ts)\<rparr>"

definition check_row :: "status_env \<Rightarrow> nat \<Rightarrow> ClusterConfig \<Rightarrow> aggregator \<Rightarrow> Check \<Rightarrow> CheckSnapshot" where
  "check_row su n c agg ch =
     (let cs = \<lparr>cs_CheckID = ck_ID ch, cs_Name = ck_Name ch, cs_State = ''unknown'', cs_OKCount = 0, cs_Total = 0,
               cs_Detail = [], cs_Disabled = ck_Disabled ch, cs_Alerts = []\<rparr>;
          cs' = (case SnapshotFor (su_order su) (su_snap su n) (su_upd su n) c (ck_ID ch) agg of
                   None \<Rightarrow> cs
                 | Some a \<Rightarrow> cs\<lparr>cs_State := state_string (sn_State a), cs_OKCount := sn_OKCount a,
                                cs_Total := sn_Reports a, cs_Detail := sn_Detail a\<rparr>)
      in cs'\<lparr>cs_Alerts := map (\<lambda>a. if al_Default a then al_Name a @ ''*'' else al_Name a)
                            (EffectiveAlertsFor c (Some ch))\<rparr>)"

fun check_rows :: "status_env \<Rightarrow> nat \<Rightarrow> ClusterConfig \<Rightarrow> aggregator \<Rightarrow> Check list \<Rightarrow> CheckSnapshot list" where
  "check_rows su n c agg [] = []"
| "check_rows su n c agg (ch # chs) = check_row su n c agg ch # check_rows su (Suc n) c agg chs"

definition buildStatus :: "status_env \<Rightarrow> daemon \<Rightarrow> StatusResponse" where
  "buildStatus su d =
     (let snap = Snapshot (d_cfg d) in
      \<lparr>sr_NodeID = self_of d, sr_Term = Term (d_quorum d), sr_MasterID = Master (d_quorum d), sr_Version = cc_Version snap,
       sr_Peers = map (peer_row (su_live su) (d_quorum d)) (cc_Peers snap),
       sr_Checks = check_rows su 0 snap (d_agg d) (cc_Checks snap),
       sr_HasQuorum = HasQuorum (su_quorum su) snap (d_quorum d), sr_QuorumSize = QuorumSize snap\<rparr>)"

definition buildStatusForCLI ::
  "status_env \<Rightarrow> (string \<Rightarrow> string \<Rightarrow> err + StatusResponse) \<Rightarrow> daemon \<Rightarrow> StatusResponse" where
  "buildStatusForCLI su rpc d =
     (let local_view = buildStatus su d in
      if IsMaster (d_quorum d) then local_view
      else
        (let masterID = Master (d_quorum d) in
         if masterID = [] then local_view
         else
           (let addr = daemon_addressOf masterID d in
            if addr = [] then local_view
            else (case rpc masterID addr of
                    Inl e \<Rightarrow> local_view
                  | Inr remote \<Rightarrow> local_view\<lparr>sr_Checks := sr_Checks remote\<rparr>))))"

section \<open>Manual edits\<close>

text \<open>
  \<open>checkManualEdit\<close> on the outcome \<open>raw\<close> of reading the file. \<open>reflect.DeepEqual\<close> tells a nil slice
  from an empty one: the snapshot's empty slices are nil, and \<open>written key\<close> says whether the file
  gives the key an explicit (possibly empty) list. (Lists nested in a check or an alert are compared
  as values.) Returns whether the edit was replicated.
\<close>

definition slice_DeepEqual :: "'a list \<Rightarrow> 'a list \<Rightarrow> bool \<Rightarrow> bool" where
  "slice_DeepEqual current edited edited_written \<longleftrightarrow> current = edited \<and> \<not> (edited = [] \<and> edited_written)"

definition checkManualEdit ::
  "daemon_env \<Rightarrow> mut_env \<Rightarrow> err + string \<Rightarrow> (string \<Rightarrow> bool) \<Rightarrow> daemon \<Rightarrow> (err + 64 word) option \<times> daemon \<times> outbox" where
  "checkManualEdit D mu raw written d =
     (case raw of
        Inl e \<Rightarrow> (None, d, [])
      | Inr bytes \<Rightarrow>
         (let sum = sha256 (dv_yaml D) bytes in
          if sum = LastSavedSum (d_cfg d) then (None, d, [])
          else
            (let pinned = d\<lparr>d_cfg := SetLastSavedSum sum (d_cfg d)\<rparr> in
             case yaml_Unmarshal (dv_yaml D) bytes of
               Inl e \<Rightarrow> (None, pinned, [])
             | Inr edited \<Rightarrow>
                (let current = Snapshot (d_cfg d) in
                 if slice_DeepEqual (cc_Peers current) (cc_Peers edited) (written ''peers'') \<and>
                    slice_DeepEqual (cc_Checks current) (cc_Checks edited) (written ''checks'') \<and>
                    slice_DeepEqual (cc_Alerts current) (cc_Alerts edited) (written ''alerts'')
                 then (None, pinned, [])
                 else
                   (let payload = zero_ClusterConfig\<lparr>cc_Peers := cc_Peers edited, cc_Checks := cc_Checks edited,
                                     cc_Alerts := cc_Alerts edited\<rparr>
                    in case daemon_mutate D mu MutationReplaceConfig (jm_Config (dv_enc D) payload) pinned of
                         (r, d', out) \<Rightarrow> (Some r, d', out))))))"

section \<open>Start-up\<close>

text \<open>What \<open>New\<close> finds: the files, read errors, the key and certificate files.\<close>

record start_env =
  sx_fs :: fs
  sx_node_err :: "err option"
  sx_node_write :: write_env
  sx_cluster_err :: "err option"
  sx_trust_err :: "err option"
  sx_key :: "err option"
  sx_cert :: "err + string"
  sx_trust :: "nat \<Rightarrow> call_env"

definition New_node :: "node_codec \<Rightarrow> os_env \<Rightarrow> start_env \<Rightarrow> err + NodeConfig \<times> fs" where
  "New_node N e sx =
     (case LoadNodeConfig N e (sx_node_err sx) (sx_fs sx) of
        Inl x \<Rightarrow> Inl (ErrWrap ''load node.yaml'' x)
      | Inr node \<Rightarrow>
         (if nc_NodeID node = [] then Inl (ErrMsg (''node.yaml has empty node_id '' @ emdash @ '' run `qu init` first''))
          else if nc_ClusterSecret node \<noteq> [] then
            (case NodeConfig_Save N e (sx_node_write sx) (node\<lparr>nc_ClusterSecret := []\<rparr>) (sx_fs sx) of
               (Some x, f) \<Rightarrow> Inl (ErrWrap ''rewrite node.yaml without cluster_secret'' x)
             | (None, f) \<Rightarrow> Inr (node\<lparr>nc_ClusterSecret := []\<rparr>, f))
          else Inr (node, sx_fs sx)))"

definition New_assemble :: "daemon_env \<Rightarrow> (nat \<Rightarrow> call_env) \<Rightarrow> NodeConfig \<Rightarrow> string \<Rightarrow> cfg_state \<Rightarrow> trust_store \<Rightarrow> daemon" where
  "New_assemble D tce node cert cluster store =
     syncTrustFromCluster D tce
       \<lparr>d_node = node, d_cert = cert, d_cfg = OnChange 0 cluster, d_trust = store,
        d_quorum = SetVersionObserver (SetSelfAdvertise (AdvertiseAddr node) (New_Manager (nc_NodeID node))),
        d_agg = SetTransition True (NewAggregator False)\<rparr>"

definition New_daemon :: "daemon_env \<Rightarrow> node_codec \<Rightarrow> start_env \<Rightarrow> err + daemon" where
  "New_daemon D N sx =
     (case New_node N (dv_os D) sx of
        Inl x \<Rightarrow> Inl x
      | Inr (node, f) \<Rightarrow>
         (case LoadClusterConfig (dv_yaml D) (dv_os D) (sx_cluster_err sx) f of
            Inl x \<Rightarrow> Inl (ErrWrap ''load cluster.yaml'' x)
          | Inr cluster \<Rightarrow>
             (case trust_Load (dv_tyaml D) (dv_os D) (sx_trust_err sx) f of
                Inl x \<Rightarrow> Inl (ErrWrap ''load trust.yaml'' x)
              | Inr store \<Rightarrow>
                 (case sx_key sx of
                    Some x \<Rightarrow> Inl (ErrWrap ''load private key'' x)
                  | None \<Rightarrow>
                     (case sx_cert sx of
                        Inl x \<Rightarrow> Inl (ErrWrap ''load cert'' x)
                      | Inr cert \<Rightarrow> Inr (New_assemble D (sx_trust sx) node cert cluster store))))))"

section \<open>Lemmas on the trust sync\<close>

definition syncable :: "string \<Rightarrow> PeerInfo \<Rightarrow> bool" where
  "syncable self p \<longleftrightarrow> pi_NodeID p \<noteq> [] \<and> pi_NodeID p \<noteq> self \<and> pi_Fingerprint p \<noteq> [] \<and> pi_CertPEM p \<noteq> []"

lemma entry_of_simps [simp]:
  "te_NodeID (entry_of p) = pi_NodeID p" "te_Fingerprint (entry_of p) = pi_Fingerprint p"
  "te_CertPEM (entry_of p) = pi_CertPEM p" "te_Address (entry_of p) = pi_Advertise p"
  by (simp_all add: entry_of_def)

text \<open>\<open>Add\<close> files the entry in memory whatever becomes of the write.\<close>

lemma trust_Add_entries:
  assumes "te_NodeID x \<noteq> []" and "te_Fingerprint x \<noteq> []" and "trust_wf (ts_entries s)"
  shows "trust_wf (ts_entries (snd (trust_Add L e ord env x s)))"
    and "trust_Get k (snd (trust_Add L e ord env x s)) =
      (if k = te_NodeID x then Some (if te_AddedAt x = 0 then x\<lparr>te_AddedAt := ce_now env\<rparr> else x) else trust_Get k s)"
proof -
  let ?x = "if te_AddedAt x = 0 then x\<lparr>te_AddedAt := ce_now env\<rparr> else x"
  let ?s = "s\<lparr>ts_entries := trust_put ?x (ts_entries s)\<rparr>"
  have "trust_Add L e ord env x s = trust_Save L e ord (ce_write env) ?s"
    using assms(1,2) by (simp add: trust_Add_def Let_def)
  then have ents: "ts_entries (snd (trust_Add L e ord env x s)) = trust_put ?x (ts_entries s)"
    using trust_Save_entries [of L e ord "ce_write env" ?s] by simp
  show "trust_wf (ts_entries (snd (trust_Add L e ord env x s)))"
    unfolding ents using assms(3) by (rule trust_wf_put)
  have "te_NodeID ?x = te_NodeID x" by simp
  then show "trust_Get k (snd (trust_Add L e ord env x s)) = (if k = te_NodeID x then Some ?x else trust_Get k s)"
    unfolding trust_Get_def ents using trust.get_put [OF assms(3), of ?x k] by simp
qed

lemma sync_peer_skip: "\<not> syncable self p \<Longrightarrow> sync_peer D self ce p st = st"
  by (auto simp: sync_peer_def syncable_def)

lemma sync_peer_wf: "trust_wf (ts_entries st) \<Longrightarrow> trust_wf (ts_entries (sync_peer D self ce p st))"
  by (simp add: sync_peer_def trust_Add_entries)

lemma sync_peer_other: "trust_wf (ts_entries st) \<Longrightarrow> k \<noteq> pi_NodeID p \<Longrightarrow> trust_Get k (sync_peer D self ce p st) = trust_Get k st"
  by (simp add: sync_peer_def trust_Add_entries)

lemma sync_peer_same:
  assumes "trust_wf (ts_entries st)" and "syncable self p"
  shows "\<exists>x. trust_Get (pi_NodeID p) (sync_peer D self ce p st) = Some x \<and> te_Fingerprint x = pi_Fingerprint p"
  using assms by (auto simp: sync_peer_def syncable_def trust_Add_entries split: option.split)

lemma sync_peers_wf: "trust_wf (ts_entries st) \<Longrightarrow> trust_wf (ts_entries (sync_peers D self tce n ps st))"
  by (induction D self tce n ps st rule: sync_peers.induct) (simp_all add: sync_peer_wf)

lemma sync_peers_other:
  "trust_wf (ts_entries st) \<Longrightarrow> \<forall>p \<in> set ps. pi_NodeID p = k \<longrightarrow> \<not> syncable self p \<Longrightarrow>
     trust_Get k (sync_peers D self tce n ps st) = trust_Get k st"
proof (induction ps arbitrary: n st)
  case Nil
  then show ?case by simp
next
  case (Cons p ps)
  have "trust_Get k (sync_peer D self (tce n) p st) = trust_Get k st"
    using Cons.prems sync_peer_skip [of self p D "tce n" st] sync_peer_other [of st k p D self "tce n"] by auto
  with Cons.IH [of "sync_peer D self (tce n) p st" "Suc n"] Cons.prems show ?case
    by (simp add: sync_peer_wf)
qed

lemma sync_peers_same:
  assumes "trust_wf (ts_entries st)" and "distinct (map pi_NodeID ps)" and "p \<in> set ps" and "syncable self p"
  shows "\<exists>x. trust_Get (pi_NodeID p) (sync_peers D self tce n ps st) = Some x \<and> te_Fingerprint x = pi_Fingerprint p"
  using assms(1-3)
proof (induction ps arbitrary: n st)
  case Nil
  then show ?case by simp
next
  case (Cons q ps)
  show ?case
  proof (cases "p = q")
    case True
    with Cons.prems(2) have "\<forall>r \<in> set ps. pi_NodeID r = pi_NodeID p \<longrightarrow> \<not> syncable self r" by (auto simp: image_iff)
    then have "trust_Get (pi_NodeID p) (sync_peers D self tce (Suc n) ps (sync_peer D self (tce n) p st)) =
        trust_Get (pi_NodeID p) (sync_peer D self (tce n) p st)"
      by (intro sync_peers_other sync_peer_wf Cons.prems(1))
    with sync_peer_same [OF Cons.prems(1) assms(4), of D "tce n"]
    show ?thesis by (simp add: True [symmetric])
  next
    case False
    with Cons.prems Cons.IH [of "sync_peer D self (tce n) q st" "Suc n"] show ?thesis by (simp add: sync_peer_wf)
  qed
qed

lemma syncTrust_frame:
  "d_node (syncTrustFromCluster D tce d) = d_node d" "d_cert (syncTrustFromCluster D tce d) = d_cert d"
  "d_cfg (syncTrustFromCluster D tce d) = d_cfg d" "d_quorum (syncTrustFromCluster D tce d) = d_quorum d"
  "d_agg (syncTrustFromCluster D tce d) = d_agg d"
  by (simp_all add: syncTrustFromCluster_def)

lemma run_callbacks_frame:
  "d_node (run_callbacks D tce cbs d) = d_node d \<and> d_cert (run_callbacks D tce cbs d) = d_cert d \<and>
   d_cfg (run_callbacks D tce cbs d) = d_cfg d \<and> d_quorum (run_callbacks D tce cbs d) = d_quorum d \<and>
   d_agg (run_callbacks D tce cbs d) = d_agg d"
  unfolding run_callbacks_def by (induction cbs arbitrary: d) (simp_all add: syncTrust_frame)

lemma syncTrust_wf: "trust_wf (ts_entries (d_trust d)) \<Longrightarrow> trust_wf (ts_entries (d_trust (syncTrustFromCluster D tce d)))"
  by (simp add: syncTrustFromCluster_def sync_peers_wf)

lemma run_callbacks_wf: "trust_wf (ts_entries (d_trust d)) \<Longrightarrow> trust_wf (ts_entries (d_trust (run_callbacks D tce cbs d)))"
  unfolding run_callbacks_def by (induction cbs arbitrary: d) (simp_all add: syncTrust_wf)

lemma run_callbacks_other:
  assumes "trust_wf (ts_entries (d_trust d))"
    and "\<forall>p \<in> set (cc_Peers (cs_cfg (d_cfg d))). pi_NodeID p = k \<longrightarrow> \<not> syncable (self_of d) p"
  shows "trust_Get k (d_trust (run_callbacks D tce cbs d)) = trust_Get k (d_trust d)"
  using assms unfolding run_callbacks_def
proof (induction cbs arbitrary: d)
  case (Cons cb cbs)
  let ?d = "syncTrustFromCluster D tce d"
  have "trust_Get k (d_trust ?d) = trust_Get k (d_trust d)"
    using sync_peers_other [OF Cons.prems] by (simp add: syncTrustFromCluster_def)
  with Cons.IH [of ?d] Cons.prems show ?case by (simp add: syncTrust_wf syncTrust_frame)
qed simp

section \<open>Properties\<close>

text \<open>C29. The trust store follows the membership list. After a sync every peer of the configuration (with
  an ID other than the node's own, a fingerprint and a certificate) has an entry with its current
  fingerprint, also when writing \<open>trust.yaml\<close> fails; entries of all other nodes, and everything else
  in the process, are as before. In particular a sync never removes trust.\<close>

theorem trust_follows_membership:
  assumes "trust_wf (ts_entries (d_trust d))" and "distinct (map pi_NodeID (cc_Peers (cs_cfg (d_cfg d))))"
  shows "let d' = syncTrustFromCluster D tce d in
     trust_wf (ts_entries (d_trust d')) \<and> d' = d\<lparr>d_trust := d_trust d'\<rparr> \<and>
     (\<forall>p \<in> set (cc_Peers (cs_cfg (d_cfg d))). syncable (self_of d) p \<longrightarrow>
        (\<exists>x. trust_Get (pi_NodeID p) (d_trust d') = Some x \<and> te_Fingerprint x = pi_Fingerprint p)) \<and>
     (\<forall>k. k \<notin> pi_NodeID ` {p \<in> set (cc_Peers (cs_cfg (d_cfg d))). syncable (self_of d) p} \<longrightarrow>
        trust_Get k (d_trust d') = trust_Get k (d_trust d))"
proof -
  have "trust_Get k (sync_peers D (self_of d) tce 0 (cc_Peers (cs_cfg (d_cfg d))) (d_trust d)) = trust_Get k (d_trust d)"
    if "k \<notin> pi_NodeID ` {p \<in> set (cc_Peers (cs_cfg (d_cfg d))). syncable (self_of d) p}" for k
    using that by (intro sync_peers_other assms(1)) auto
  then show ?thesis
    using sync_peers_wf [OF assms(1)] sync_peers_same [OF assms]
    by (simp add: syncTrustFromCluster_def Let_def)
qed
definition demo_enc :: json_enc where
  "demo_enc = \<lparr>jm_Target = Inr, jm_RecordPending = (\<lambda>(i, pj). Inr i), jm_Enrollment = (\<lambda>e. Inr (pe_ID e)),
     jm_Config = (\<lambda>c. Inr ''cfg'')\<rparr>"

definition demo_denv :: "ClusterConfig \<Rightarrow> daemon_env" where
  "demo_denv c = \<lparr>dv_pki = demo_pki, dv_os = demo_env, dv_yaml = demo_codec c, dv_tyaml = demo_trust_codec,
     dv_json = demo_json, dv_enc = demo_enc, dv_ord = rev\<rparr>"

definition demo_daemon :: "string \<Rightarrow> cfg_state \<Rightarrow> daemon" where
  "demo_daemon self s = \<lparr>d_node = demo_node\<lparr>nc_NodeID := self\<rparr>, d_cert = self, d_cfg = s\<lparr>cs_onChange := [0]\<rparr>,
     d_trust = \<lparr>ts_entries = [], ts_fs = (\<lambda>_. None)\<rparr>, d_quorum = demo_mgr self ''a'', d_agg = NewAggregator True\<rparr>"

lemma demo_daemon_simps [simp]:
  "self_of (demo_daemon self s) = self" "cs_cfg (d_cfg (demo_daemon self s)) = cs_cfg s"
  "ts_entries (d_trust (demo_daemon self s)) = []" "d_quorum (demo_daemon self s) = demo_mgr self ''a''"
  "d_cfg (demo_daemon self s) = s\<lparr>cs_onChange := [0]\<rparr>" "d_agg (demo_daemon self s) = NewAggregator True"
  by (simp_all add: demo_daemon_def)

theorem trust_follows_membership_witness:
  "\<exists>x. trust_Get ''b'' (d_trust (syncTrustFromCluster (demo_denv demo_cluster) (\<lambda>_. demo_call) (demo_daemon ''a'' demo_members))) = Some x \<and>
     te_Fingerprint x = ''fp-b''"
proof -
  have peers: "cc_Peers (cs_cfg (d_cfg (demo_daemon ''a'' demo_members))) = map demo_peer [''a'', ''b'', ''c'']"
    by (simp add: demo_members_def demo_cluster_def)
  have wf: "trust_wf (ts_entries (d_trust (demo_daemon ''a'' demo_members)))" by simp
  have dist: "distinct (map pi_NodeID (cc_Peers (cs_cfg (d_cfg (demo_daemon ''a'' demo_members)))))"
    unfolding peers by (simp add: demo_peer_def)
  have "demo_peer ''b'' \<in> set (map demo_peer [''a'', ''b'', ''c''])"
    "syncable (self_of (demo_daemon ''a'' demo_members)) (demo_peer ''b'')"
    by (simp_all add: syncable_def demo_peer_def)
  with trust_follows_membership [OF wf dist, of "demo_denv demo_cluster" "\<lambda>_. demo_call"]
  show ?thesis unfolding peers Let_def by (auto simp: demo_peer_def)
qed

text \<open>Eviction by \<open>qu node remove\<close> reaches the other nodes as a new configuration without the peer.
  Applying it leaves the trust entry of the removed peer in place, so the removed node's certificate
  goes on passing the trust gate of every node but the one the command ran on.\<close>

lemma evicted_peer_still_trusted:
  assumes wf: "trust_wf (ts_entries (d_trust d))" and new: "cc_Version (cs_cfg (d_cfg d)) < cc_Version cfg"
    and gone: "row_get pi_NodeID k (cc_Peers cfg) = None"
  shows "trust_Get k (d_trust (snd (daemon_apply D mu \<lparr>aq_Config = Some cfg\<rparr> d))) = trust_Get k (d_trust d)"
proof -
  obtain resp s cbs where h: "HandleApplyClusterCfg (dv_yaml D) (dv_os D) (mu_call mu) \<lparr>aq_Config = Some cfg\<rparr> (d_cfg d) = (resp, s, cbs)"
    by (metis prod_cases3)
  have "cs_cfg s = cs_cfg (fst (snd (Replace (dv_yaml D) (dv_os D) (mu_call mu) cfg (d_cfg d))))"
    using h by (auto simp: HandleApplyClusterCfg_def Let_def split: prod.splits sum.splits bool.splits)
  then have "cs_cfg s = cfg" using new by (simp add: Replace_cfg)
  moreover have "\<forall>p \<in> set (cc_Peers cfg). pi_NodeID p \<noteq> k"
    using gone by (simp add: row_get_def find_None_ball)
  ultimately have "trust_Get k (d_trust (run_callbacks D (mu_trust mu) cbs (d\<lparr>d_cfg := s\<rparr>))) = trust_Get k (d_trust (d\<lparr>d_cfg := s\<rparr>))"
    using wf by (intro run_callbacks_other) simp_all
  then show ?thesis using h by (simp add: daemon_apply_def)
qed

lemma Submit_latency: "Submit ord t u v c n (r\<lparr>rs_Latency := l\<rparr>) a = Submit ord t u v c n r a"
  by (simp add: Submit_def record_report_def)

text \<open>Where a probe ran makes no difference to the verdict. A result goes to the aggregator of the node
  the prober takes for the master, its own or, by a report to the address the membership list gives,
  the remote one; and a report handled by a master has exactly the effect that the same probe run on
  that master for the reporting node would have, on the aggregator and on the alerts sent. A prober
  that is not master changes nothing of its own.\<close>

theorem reports_are_transparent:
  assumes "m_selfID (d_quorum d) = self_of d" and "sink_route r d = RouteRemote m addr req"
  shows "handle_report E req dm = aggregate E (self_of d) r dm \<and>
     sink_Submit E r d = ([], RouteRemote m addr req, d) \<and> m = Master (d_quorum d) \<and> m \<noteq> self_of d"
proof -
  have req: "req = \<lparr>rq_FromNodeID = self_of d, rq_CheckID = rs_CheckID r, rq_OK = rs_OK r, rq_Detail = rs_Detail r,
      rq_LatencyMS = Milliseconds (rs_Latency r), rq_At = rs_Timestamp r\<rparr>" "m = Master (d_quorum d)"
    "\<not> IsMaster (d_quorum d)"
    using assms by (auto simp: sink_route_def Let_def split: if_splits)
  have "report_result req = r\<lparr>rs_Latency := int64 (rq_LatencyMS req * Millisecond)\<rparr>"
    by (simp add: report_result_def req)
  then have "handle_report E req dm = aggregate E (self_of d) r dm"
    by (simp add: handle_report_def aggregate_def Submit_latency req)
  then show ?thesis using req assms by (auto simp: sink_Submit_def IsMaster_def)
qed

definition committed_state :: "string \<Rightarrow> aggregator \<Rightarrow> State" where
  "committed_state cid a = (case map_of (ag_perCheck a) cid of None \<Rightarrow> StateUnknown | Some st \<Rightarrow> st_committed st)"

lemma hysteresis_fires:
  "hysteresis v st = (fired, st') \<Longrightarrow>
     fired = (if st_committed st' = st_committed st then None else Some (st_committed st, st_committed st'))"
  by (auto simp: hysteresis_def HysteresisCount_def Let_def split: if_splits)

lemma record_report_committed:
  "\<exists>st. map_of (ag_perCheck (record_report n r a)) (rs_CheckID r) = Some st \<and> st_committed st = committed_state (rs_CheckID r) a"
  by (simp add: record_report_def committed_state_def update_conv' new_checkState_def Let_def split: option.split)

lemma record_report_transition: "ag_transition (record_report n r a) = ag_transition a"
  by (simp add: record_report_def Let_def)

lemma Submit_fires:
  assumes "Submit ord t u v c n r a = (fired, a')" and "rs_CheckID r \<noteq> []"
  shows "(case lookupCheck c (rs_CheckID r) of
      None \<Rightarrow> fired = None
    | Some ch \<Rightarrow> if committed_state (rs_CheckID r) a' = committed_state (rs_CheckID r) a \<or> \<not> ag_transition a then fired = None
        else (\<exists>snap. fired = Some (ch, committed_state (rs_CheckID r) a, committed_state (rs_CheckID r) a', snap)))"
proof (cases "lookupCheck c (rs_CheckID r)")
  case None
  with assms show ?thesis by (simp add: Submit_def evaluate_def)
next
  case (Some ch)
  obtain st where st: "map_of (ag_perCheck (record_report n r a)) (rs_CheckID r) = Some st"
    and com: "st_committed st = committed_state (rs_CheckID r) a"
    using record_report_committed by blast
  obtain f st' where h: "hysteresis (candidate_for t (ck_Interval ch) (st_latest st)) st = (f, st')" by fastforce
  from hysteresis_fires [OF h] com
  have f: "f = (if st_committed st' = committed_state (rs_CheckID r) a then None
      else Some (committed_state (rs_CheckID r) a, st_committed st'))" by simp
  have new: "committed_state (rs_CheckID r) a' = st_committed st'"
    using assms Some st h
    by (auto simp: Submit_def evaluate_def Let_def committed_state_def update_conv' split: option.splits prod.splits if_splits)
  show ?thesis
    using assms Some st h
    by (auto simp: Submit_def evaluate_def Let_def f new record_report_transition split: option.splits prod.splits if_splits)
qed


definition demo_probe :: Result where
  "demo_probe = \<lparr>rs_CheckID = ''c1'', rs_OK = False, rs_Detail = ''refused'', rs_Latency = 1500000, rs_Timestamp = 3\<rparr>"

lemma demo_mgr_ids [simp]: "m_selfID (demo_mgr self inc) = self" "m_masterID (demo_mgr self inc) = inc"
  by (simp_all add: demo_mgr_def New_Manager_def)

theorem reports_are_transparent_witness:
  "\<exists>req. sink_route demo_probe (demo_daemon ''b'' demo_members) = RouteRemote ''a'' ''a:9901'' req \<and> rq_LatencyMS req = 1 \<and>
     handle_report E req (demo_daemon ''a'' demo_members) = aggregate E ''b'' demo_probe (demo_daemon ''a'' demo_members)"
proof -
  let ?d = "demo_daemon ''b'' demo_members"
  have self: "m_selfID (d_quorum ?d) = self_of ?d" by simp
  have addr: "daemon_addressOf ''a'' ?d = ''a:9901''"
    by (simp add: daemon_addressOf_def demo_members_def demo_cluster_def demo_peer_def)
  obtain req where req: "sink_route demo_probe ?d = RouteRemote ''a'' ''a:9901'' req" "rq_LatencyMS req = 1"
    using addr by (simp add: sink_route_def IsMaster_def Master_def Let_def Milliseconds_def demo_probe_def)
  from conjunct1 [OF reports_are_transparent [OF self req(1), of E "demo_daemon ''a'' demo_members"]] req
  show ?thesis by simp
qed

lemma OnTransition_quiet:
  "OnTransition exec ch when selfID c check from StateUnknown snap = []"
  "OnTransition exec ch when selfID c check StateUnknown StateUp snap = []"
  by (simp_all add: OnTransition_def shouldAlert_def)

text \<open>The alerting pipeline from report to message. A report that reaches a node sends messages exactly
  when that node is master and the report flips the committed state of its check to down, or to up
  from down; they go to the check's effective alerts, one each, in order. No other node sends
  anything, and nothing is sent for a check that is not configured.\<close>

theorem alert_pipeline:
  "let (sent, d') = aggregate E n r d; cid = rs_CheckID r; old = committed_state cid (d_agg d); new = committed_state cid (d_agg d') in
     map fst sent =
       (case lookupCheck (cs_cfg (d_cfg d)) cid of
          None \<Rightarrow> []
        | Some ch \<Rightarrow>
            if IsMaster (d_quorum d) \<and> ag_transition (d_agg d) \<and> new \<noteq> old \<and> new \<noteq> StateUnknown \<and> \<not> (old = StateUnknown \<and> new = StateUp)
            then EffectiveAlertsFor (cs_cfg (d_cfg d)) (Some ch) else []) \<and>
     d' = d\<lparr>d_agg := d_agg d'\<rparr>"
proof -
  obtain fired a' where sub: "Submit (ae_order E) (ae_eval E) (ae_snap E) (ae_upd E) (cs_cfg (d_cfg d)) n r (d_agg d) = (fired, a')"
    by fastforce
  show ?thesis
  proof (cases "rs_CheckID r = []")
    case True
    with sub have "fired = None" "a' = d_agg d" by (simp_all add: Submit_def)
    then show ?thesis using sub by (simp add: aggregate_def split: option.split)
  next
    case False
    from Submit_fires [OF sub False] show ?thesis
      using sub OnTransition_alerts
      by (cases "lookupCheck (cs_cfg (d_cfg d)) (rs_CheckID r)")
         (auto simp: aggregate_def shouldAlert_def OnTransition_quiet Let_def split: if_splits)
  qed
qed

section \<open>The manual-edit watcher\<close>

lemma daemon_mutate_master:
  assumes ok: "daemon_mutate D mu kind m d = (Inr v, d', out)" and master: "IsMaster (d_quorum d)"
  shows "\<exists>raw c. m = Inr raw \<and> apply_mutation (dv_json D) kind raw (cs_cfg (d_cfg d)) = (None, c) \<and>
     cs_cfg (d_cfg d') = bump (mu_call mu) (self_of d) c \<and> v = cc_Version (cs_cfg (d_cfg d)) + 1 \<and>
     disk_synced (dv_yaml D) (dv_os D) (d_cfg d') \<and> cs_onChange (d_cfg d') = cs_onChange (d_cfg d) \<and>
     out = broadcast (self_of d) (d_cfg d') \<and>
     d' = run_callbacks D (mu_trust mu) (cs_onChange (d_cfg d)) (d\<lparr>d_cfg := d_cfg d'\<rparr>)"
proof -
  obtain s cbs where L: "LocalMutate (dv_json D) (dv_yaml D) (dv_os D) (mu_call mu) (self_of d) (view (mu_now mu) d)
      (mu_rpc mu) kind m (d_cfg d) = (Inr v, s, cbs, out)"
    and d': "d' = run_callbacks D (mu_trust mu) cbs (d\<lparr>d_cfg := s\<rparr>)"
    using ok by (auto simp: daemon_mutate_def split: prod.splits)
  have "mv_IsMaster (view (mu_now mu) d)" using master by (simp add: view_def)
  with L obtain raw where m: "m = Inr raw"
    and app: "applyLocally (dv_json D) (dv_yaml D) (dv_os D) (mu_call mu) (self_of d) kind raw (d_cfg d) = (Inr v, s, cbs)"
    and out: "out = broadcast (self_of d) s"
    by (auto simp: LocalMutate_def Let_def split: if_splits sum.splits prod.splits)
  have s: "d_cfg d' = s" using run_callbacks_frame [of D "mu_trust mu" cbs "d\<lparr>d_cfg := s\<rparr>"] d' by simp
  have "cs_onChange s = cs_onChange (d_cfg d)"
    using app by (auto simp: applyLocally_def Mutate_cases dest!: write_config_frame split: prod.splits option.splits)
  with applyLocally_okD [OF app] m out d' s show ?thesis by auto
qed

text \<open>The watcher never takes the daemon's own writes for an operator's edit: after any mutation the
  master applied successfully, a poll that reads the file as it was written does nothing at all.\<close>

theorem own_write_ignored:
  assumes ok: "daemon_mutate D mu kind m d = (Inr v, d', out)" and master: "IsMaster (d_quorum d)"
    and onfile: "cs_fs (d_cfg d') (ClusterFilePath (dv_os D)) = Some raw"
  shows "checkManualEdit D mu' (Inr (f_data raw)) written d' = (None, d', [])"
proof -
  have "disk_synced (dv_yaml D) (dv_os D) (d_cfg d')" using daemon_mutate_master [OF ok master] by blast
  with onfile have "sha256 (dv_yaml D) (f_data raw) = LastSavedSum (d_cfg d')"
    by (simp add: disk_synced_def LastSavedSum_def)
  then show ?thesis by (simp add: checkManualEdit_def Let_def)
qed

lemma daemon_mutate_good:
  assumes master: "IsMaster (d_quorum d)" and quorum: "HasQuorum (mu_now mu) (cs_cfg (d_cfg d)) (d_quorum d)"
    and disk: "ce_write (mu_call mu) = io_good" "yaml_Marshal (dv_yaml D) (bump (mu_call mu) (self_of d) c) = Inr bytes"
    and app: "apply_mutation (dv_json D) kind raw (cs_cfg (d_cfg d)) = (None, c)"
  shows "\<exists>d' out. daemon_mutate D mu kind (Inr raw) d = (Inr (cc_Version (cs_cfg (d_cfg d)) + 1), d', out) \<and>
    cs_cfg (d_cfg d') = bump (mu_call mu) (self_of d) c \<and> d_quorum d' = d_quorum d \<and> d_node d' = d_node d"
proof -
  obtain s' where "applyLocally (dv_json D) (dv_yaml D) (dv_os D) (mu_call mu) (self_of d) kind raw (d_cfg d) =
      (Inr (cc_Version (cs_cfg (d_cfg d)) + 1), s', cs_onChange (d_cfg d))" "cs_cfg s' = bump (mu_call mu) (self_of d) c"
    using applyLocally_good [OF disk(1) app disk(2)] by blast
  moreover have "view (mu_now mu) d = \<lparr>mv_Master = Master (d_quorum d), mv_IsMaster = True, mv_HasQuorum = True\<rparr>"
    using master quorum by (simp add: view_def)
  ultimately show ?thesis by (simp add: daemon_mutate_def LocalMutate_def run_callbacks_frame)
qed

lemma demo_add_peer:
  "\<exists>d' out. daemon_mutate (demo_denv demo_grown) \<lparr>mu_now = 200000000000, mu_call = demo_call, mu_rpc = \<lambda>_ _ _. Inl (ErrLib []),
      mu_trust = \<lambda>_. demo_call\<rparr> MutationAddPeer (Inr ''d'') (demo_daemon ''a'' demo_members) = (Inr 2, d', out)"
proof -
  let ?s = "demo_members\<lparr>cs_onChange := [0]\<rparr>"
  have cfg: "cs_cfg ?s = cs_cfg demo_members" by simp
  have "apply_mutation demo_json MutationAddPeer ''d'' (cs_cfg ?s) =
      (None, (cs_cfg demo_members)\<lparr>cc_Peers := map demo_peer [''a'', ''b'', ''c'', ''d'']\<rparr>)"
    by (simp add: apply_mutation_def decode_def demo_json_def apply_add_peer_def demo_members_def demo_cluster_def demo_peer_def)
  from applyLocally_good [OF _ this, of demo_call "demo_codec demo_grown" "''a''" "''yaml''" demo_env]
  obtain s' where app: "applyLocally demo_json (demo_codec demo_grown) demo_env demo_call ''a'' MutationAddPeer ''d'' ?s = (Inr 2, s', [0])"
    by (auto simp: demo_call_def demo_codec_def demo_grown_def demo_members_def demo_state_def demo_cluster_def)
  have v: "view 200000000000 (demo_daemon ''a'' demo_members) = \<lparr>mv_Master = ''a'', mv_IsMaster = True, mv_HasQuorum = True\<rparr>"
    using demo_mgr_live [of "''a''" "''a''"]
    by (simp add: view_def Master_def IsMaster_def HasQuorum_def demo_members_def demo_cluster_def QuorumSize_def)
  show ?thesis
    using app by (simp add: daemon_mutate_def v LocalMutate_def demo_denv_def)
qed

theorem own_write_ignored_witness:
  "\<exists>d' raw. cs_fs (d_cfg d') (ClusterFilePath demo_env) = Some raw \<and> self_of d' = ''a'' \<and>
     checkManualEdit (demo_denv demo_grown) mu' (Inr (f_data raw)) written d' = (None, d', [])"
proof -
  let ?mu = "\<lparr>mu_now = 200000000000, mu_call = demo_call, mu_rpc = \<lambda>_ _ _. Inl (ErrLib []), mu_trust = \<lambda>_. demo_call\<rparr>"
  let ?d = "demo_daemon ''a'' demo_members"
  obtain d' out where ok: "daemon_mutate (demo_denv demo_grown) ?mu MutationAddPeer (Inr ''d'') ?d = (Inr 2, d', out)"
    using demo_add_peer by blast
  have m: "IsMaster (d_quorum ?d)" by (simp add: IsMaster_def Master_def)
  have os: "dv_os (demo_denv demo_grown) = demo_env" by (simp add: demo_denv_def)
  from daemon_mutate_master [OF ok m]
  have d': "d' = run_callbacks (demo_denv demo_grown) (\<lambda>_. demo_call) (cs_onChange (d_cfg ?d)) (?d\<lparr>d_cfg := d_cfg d'\<rparr>)"
    and "disk_synced (dv_yaml (demo_denv demo_grown)) demo_env (d_cfg d')"
    by (auto simp: os)
  then obtain raw where raw: "cs_fs (d_cfg d') (ClusterFilePath demo_env) = Some raw"
    by (auto simp: disk_synced_def split: option.splits)
  have "d_node d' = d_node ?d"
    by (subst d') (simp add: run_callbacks_frame)
  then have "self_of d' = ''a''" by simp
  with raw own_write_ignored [OF ok m, of raw mu' written] show ?thesis by (auto simp: os)
qed

lemma apply_replace_config_ok: "apply_mutation J MutationReplaceConfig raw c =
    (case js_Config J raw of Inl e \<Rightarrow> (Some (ErrWrap ''decode replace_config'' e), c) | Inr inc \<Rightarrow> apply_replace_config inc c)"
  by (simp add: apply_mutation_def decode_def split: sum.split)

text \<open>C17. A hand edit of \<open>cluster.yaml\<close> on the master is replicated, and only once. When a changed file
  parses and differs in peers, checks or alerts, and the replacement goes through, the configuration
  takes those three lists from the file at the next version, keeps the pending enrollments, is
  broadcast, and the file is what the next poll expects. The cluster-wide resolver list is not
  carried over from the file: it ends up empty.\<close>

theorem hand_edit_replicates:
  assumes master: "IsMaster (d_quorum d)" and parse: "yaml_Unmarshal (dv_yaml D) bytes = Inr edited"
    and json: "\<And>c raw. jm_Config (dv_enc D) c = Inr raw \<Longrightarrow> js_Config (dv_json D) raw = Inr c"
    and ok: "checkManualEdit D mu (Inr bytes) written d = (Some (Inr v), d', out)"
  shows "let c = cs_cfg (d_cfg d); c' = cs_cfg (d_cfg d') in
     cc_Peers c' = cc_Peers edited \<and> cc_Checks c' = cc_Checks edited \<and> cc_Alerts c' = cc_Alerts edited \<and>
     cc_PendingEnrollments c' = cc_PendingEnrollments c \<and> cc_Resolvers c' = [] \<and>
     cc_Version c' = cc_Version c + 1 \<and> v = cc_Version c' \<and> out = broadcast (self_of d) (d_cfg d') \<and>
     disk_synced (dv_yaml D) (dv_os D) (d_cfg d') \<and> sha256 (dv_yaml D) bytes \<noteq> LastSavedSum (d_cfg d)"
proof -
  let ?pay = "zero_ClusterConfig\<lparr>cc_Peers := cc_Peers edited, cc_Checks := cc_Checks edited, cc_Alerts := cc_Alerts edited\<rparr>"
  let ?pin = "d\<lparr>d_cfg := SetLastSavedSum (sha256 (dv_yaml D) bytes) (d_cfg d)\<rparr>"
  have sum: "sha256 (dv_yaml D) bytes \<noteq> LastSavedSum (d_cfg d)"
    and mut: "daemon_mutate D mu MutationReplaceConfig (jm_Config (dv_enc D) ?pay) ?pin = (Inr v, d', out)"
    using ok parse by (auto simp: checkManualEdit_def Let_def split: if_splits prod.splits)
  have "IsMaster (d_quorum ?pin)" using master by simp
  from daemon_mutate_master [OF mut this] obtain raw c where raw: "jm_Config (dv_enc D) ?pay = Inr raw"
    and app: "apply_mutation (dv_json D) MutationReplaceConfig raw (cs_cfg (d_cfg d)) = (None, c)"
    and c': "cs_cfg (d_cfg d') = bump (mu_call mu) (self_of d) c" and v: "v = cc_Version (cs_cfg (d_cfg d)) + 1"
    and rest: "disk_synced (dv_yaml D) (dv_os D) (d_cfg d')" "out = broadcast (self_of d) (d_cfg d')"
    by (auto simp: SetLastSavedSum_def)
  have "c = (cs_cfg (d_cfg d))\<lparr>cc_Peers := cc_Peers edited, cc_Checks := cc_Checks edited, cc_Alerts := cc_Alerts edited, cc_Resolvers := []\<rparr>"
    using app json [OF raw] by (simp add: apply_replace_config_ok apply_replace_config_def zero_ClusterConfig_def)
  with c' v rest sum show ?thesis by (simp add: bump.simps Let_def)
qed

definition edit_start :: cfg_state where
  "edit_start = demo_members\<lparr>cs_cfg := (cs_cfg demo_members)\<lparr>cc_Resolvers := [''1.1.1.1'']\<rparr>\<rparr>"

definition edit_file :: ClusterConfig where
  "edit_file = zero_ClusterConfig\<lparr>cc_Peers := map demo_peer [''a'', ''b'']\<rparr>"

definition edit_result :: ClusterConfig where
  "edit_result = bump demo_call ''a'' ((cs_cfg demo_members)\<lparr>cc_Peers := map demo_peer [''a'', ''b'']\<rparr>)"

definition edit_denv :: daemon_env where
  "edit_denv = (demo_denv edit_result)\<lparr>
     dv_yaml := (demo_codec edit_result)\<lparr>yaml_Unmarshal := (\<lambda>_. Inr edit_file)\<rparr>,
     dv_json := demo_json\<lparr>js_Config := (\<lambda>_. Inr edit_file)\<rparr>,
     dv_enc := demo_enc\<lparr>jm_Config := (\<lambda>c. if c = edit_file then Inr ''cfg'' else Inl (ErrLib ''json''))\<rparr>\<rparr>"

definition edit_mut :: mut_env where
  "edit_mut = \<lparr>mu_now = 200000000000, mu_call = demo_call, mu_rpc = \<lambda>_ _ _. Inl (ErrLib []), mu_trust = \<lambda>_. demo_call\<rparr>"

lemma edit_checked:
  "\<exists>d' out. checkManualEdit edit_denv edit_mut (Inr ''vim'') (\<lambda>_. True) (demo_daemon ''a'' edit_start) = (Some (Inr 2), d', out)"
proof -
  let ?s = "SetLastSavedSum ''vim'' (edit_start\<lparr>cs_onChange := [0]\<rparr>)"
  have flds: "cc_Checks (cs_cfg demo_members) = []" "cc_Alerts (cs_cfg demo_members) = []" "cc_Version (cs_cfg demo_members) = 1"
    "cs_lastSum demo_members = zero_sum"
    by (simp_all add: demo_members_def demo_cluster_def demo_state_def zero_ClusterConfig_def)
  have cfg: "cs_cfg ?s = (cs_cfg demo_members)\<lparr>cc_Resolvers := [''1.1.1.1'']\<rparr>"
    by (simp add: edit_start_def SetLastSavedSum_def)
  have res: "cc_Resolvers (cs_cfg demo_members) = []"
    by (simp add: demo_members_def demo_cluster_def demo_state_def zero_ClusterConfig_def)
  have "apply_mutation (dv_json edit_denv) MutationReplaceConfig ''cfg'' (cs_cfg ?s) =
      (None, (cs_cfg demo_members)\<lparr>cc_Peers := map demo_peer [''a'', ''b'']\<rparr>)"
    using flds(1,2) res unfolding cfg
    by (simp add: apply_replace_config_ok apply_replace_config_def edit_denv_def edit_file_def zero_ClusterConfig_def)
  from applyLocally_good [OF _ this, of demo_call "dv_yaml edit_denv" "''a''" "''yaml''" demo_env]
  obtain s' where app: "applyLocally (dv_json edit_denv) (dv_yaml edit_denv) demo_env demo_call ''a'' MutationReplaceConfig ''cfg'' ?s = (Inr 2, s', [0])"
    using flds by (auto simp: demo_call_def demo_codec_def edit_denv_def edit_result_def edit_start_def SetLastSavedSum_def)
  let ?d = "(demo_daemon ''a'' edit_start)\<lparr>d_cfg := ?s\<rparr>"
  have v: "view 200000000000 ?d = \<lparr>mv_Master = ''a'', mv_IsMaster = True, mv_HasQuorum = True\<rparr>"
    using demo_mgr_live [of "''a''" "''a''"]
    by (simp add: view_def Master_def IsMaster_def HasQuorum_def edit_start_def SetLastSavedSum_def demo_members_def demo_cluster_def QuorumSize_def)
  have env: "dv_os edit_denv = demo_env" "jm_Config (dv_enc edit_denv) edit_file = Inr ''cfg''"
    "yaml_Unmarshal (dv_yaml edit_denv) ''vim'' = Inr edit_file" "sha256 (dv_yaml edit_denv) ''vim'' = ''vim''"
    by (simp_all add: edit_denv_def demo_denv_def demo_codec_def)
  have mut: "\<exists>d' out. daemon_mutate edit_denv edit_mut MutationReplaceConfig (Inr ''cfg'') ?d = (Inr 2, d', out)"
    using app v by (simp add: daemon_mutate_def LocalMutate_def edit_mut_def env)
  have "zero_sum \<noteq> ''vim''" by (simp add: zero_sum_def numeral_eq_Suc)
  then have "''vim'' \<noteq> LastSavedSum (edit_start\<lparr>cs_onChange := [0]\<rparr>)"
    using flds(4) by (simp add: LastSavedSum_def edit_start_def)
  moreover have "cc_Peers edit_file \<noteq> cc_Peers (cs_cfg edit_start)"
    by (simp add: edit_file_def edit_start_def demo_members_def demo_cluster_def)
  moreover have "zero_ClusterConfig\<lparr>cc_Peers := cc_Peers edit_file, cc_Checks := cc_Checks edit_file, cc_Alerts := cc_Alerts edit_file\<rparr> = edit_file"
    by (simp add: edit_file_def zero_ClusterConfig_def)
  ultimately show ?thesis
    using mut env by (auto simp: checkManualEdit_def slice_DeepEqual_def Let_def)
qed

theorem hand_edit_replicates_witness:
  "\<exists>d' out. checkManualEdit edit_denv edit_mut (Inr ''vim'') (\<lambda>_. True) (demo_daemon ''a'' edit_start) = (Some (Inr 2), d', out) \<and>
     cc_Peers (cs_cfg (d_cfg d')) = map demo_peer [''a'', ''b''] \<and>
     cc_Resolvers (cs_cfg edit_start) = [''1.1.1.1''] \<and> cc_Resolvers (cs_cfg (d_cfg d')) = []"
proof -
  obtain d' out where ok: "checkManualEdit edit_denv edit_mut (Inr ''vim'') (\<lambda>_. True) (demo_daemon ''a'' edit_start) = (Some (Inr 2), d', out)"
    using edit_checked by blast
  have m: "IsMaster (d_quorum (demo_daemon ''a'' edit_start))" by (simp add: IsMaster_def Master_def)
  have parse: "yaml_Unmarshal (dv_yaml edit_denv) ''vim'' = Inr edit_file" by (simp add: edit_denv_def)
  have json: "jm_Config (dv_enc edit_denv) c = Inr raw \<Longrightarrow> js_Config (dv_json edit_denv) raw = Inr c" for c raw
    by (simp add: edit_denv_def split: if_splits)
  have "cc_Resolvers (cs_cfg edit_start) = [''1.1.1.1'']" "cc_Peers edit_file = map demo_peer [''a'', ''b'']"
    by (simp_all add: edit_start_def edit_file_def)
  with hand_edit_replicates [OF m parse json ok] ok show ?thesis by (simp add: Let_def)
qed
end
