(* ===== verification/Enroll.thy ===== *)
theory Enroll
  imports Daemon
begin

text \<open>
  Enrollment as the cluster side runs it: \<open>handleEnroll\<close> and \<open>enrollPeersForJoiner\<close> of
  \<open>internal/daemon/handlers.go\<close>, \<open>enrollCreate\<close>, \<open>enrollEndpoints\<close> and \<open>enrollList\<close> of
  \<open>internal/daemon/control.go\<close>. \<open>handleEnroll\<close> is the composition of its stages: the checks
  (\<open>enroll_check\<close>, no effect), recording the joiner under the token, and, for an auto-approve
  token, the approval and the eager trust entry.
\<close>

section \<open>handleEnroll\<close>

definition enroll_error :: "string \<Rightarrow> EnrollResponse" where
  "enroll_error e = \<lparr>en_Accepted = False, en_Pending = False, en_Error = e, en_Cluster = None\<rparr>"

text \<open>Everything before the first mutation: the token entry, or the text of the error.\<close>

definition enroll_check :: "daemon_env \<Rightarrow> gotime \<Rightarrow> EnrollRequest \<Rightarrow> ClusterConfig \<Rightarrow> string + PendingEnrollment" where
  "enroll_check D now req c =
     (if er_TokenID req = [] \<or> er_TokenSecret req = [] then Inl ''token_id and token_secret are required''
      else if er_NodeID req = [] \<or> er_CertPEM req = [] \<or> er_Fingerprint req = [] then
        Inl ''node_id, cert_pem and fingerprint are required''
      else case FingerprintFromCertPEM (dv_pki D) (er_CertPEM req) of
        Inl e \<Rightarrow> Inl (''parse cert: '' @ err_text e)
      | Inr derivedFP \<Rightarrow>
         (if derivedFP \<noteq> er_Fingerprint req then Inl ''claimed fingerprint does not match supplied cert''
          else case FindEnrollmentByID c (er_TokenID req) of
            None \<Rightarrow> Inl ''unknown enrollment token''
          | Some entry \<Rightarrow>
             (if pe_ExpiresAt entry \<noteq> 0 \<and> now > pe_ExpiresAt entry then Inl ''enrollment token expired''
              else if \<not> verifyEnrollSecret (dv_pki D) (er_TokenSecret req) (pe_SecretHash entry) then
                Inl ''invalid enrollment token''
              else Inr entry)))"

definition join_of :: "gotime \<Rightarrow> EnrollRequest \<Rightarrow> PendingJoin" where
  "join_of submitted req = \<lparr>pj_NodeID = er_NodeID req, pj_Advertise = er_Advertise req, pj_Fingerprint = er_Fingerprint req,
     pj_CertPEM = er_CertPEM req, pj_SubmittedAt = submitted\<rparr>"

record enroll_env =
  ee_check :: gotime
  ee_submit :: gotime
  ee_record :: mut_env
  ee_approve :: mut_env
  ee_trust :: call_env

definition record_join ::
  "daemon_env \<Rightarrow> mut_env \<Rightarrow> string \<Rightarrow> PendingJoin \<Rightarrow> daemon \<Rightarrow> (err + 64 word) \<times> daemon \<times> outbox" where
  "record_join D mu ident pj d = daemon_mutate D mu MutationRecordEnrollPending (jm_RecordPending (dv_enc D) (ident, Some pj)) d"

definition approve_join :: "daemon_env \<Rightarrow> mut_env \<Rightarrow> string \<Rightarrow> daemon \<Rightarrow> (err + 64 word) \<times> daemon \<times> outbox" where
  "approve_join D mu ident d = daemon_mutate D mu MutationApproveEnrollment (jm_Target (dv_enc D) ident) d"

definition trust_joiner :: "daemon_env \<Rightarrow> call_env \<Rightarrow> PendingJoin \<Rightarrow> daemon \<Rightarrow> daemon" where
  "trust_joiner D ce pj d =
     d\<lparr>d_trust := snd (trust_Add (dv_tyaml D) (dv_os D) (dv_ord D) ce
        \<lparr>te_NodeID = pj_NodeID pj, te_Address = pj_Advertise pj, te_Fingerprint = pj_Fingerprint pj,
         te_PublicKeyPEM = [], te_CertPEM = pj_CertPEM pj, te_AddedAt = 0\<rparr> (d_trust d))\<rparr>"

definition enrollPeersForJoiner :: "string \<Rightarrow> daemon \<Rightarrow> EnrolledPeer list" where
  "enrollPeersForJoiner joinerID d =
     map (\<lambda>p. \<lparr>ep_NodeID = pi_NodeID p, ep_Advertise = pi_Advertise p, ep_Fingerprint = pi_Fingerprint p, ep_CertPEM = pi_CertPEM p\<rparr>)
       (filter (\<lambda>p. \<not> (pi_NodeID p = joinerID \<or> pi_NodeID p = []) \<and> \<not> (pi_Fingerprint p = [] \<or> pi_CertPEM p = []))
         (cc_Peers (Snapshot (d_cfg d))))"

definition handleEnroll ::
  "daemon_env \<Rightarrow> enroll_env \<Rightarrow> EnrollRequest \<Rightarrow> daemon \<Rightarrow> EnrollResponse \<times> daemon \<times> outbox" where
  "handleEnroll D E req d =
     (case enroll_check D (ee_check E) req (cs_cfg (d_cfg d)) of
        Inl msg \<Rightarrow> (enroll_error msg, d, [])
      | Inr entry \<Rightarrow>
         (let pj = join_of (ee_submit E) req in
          case record_join D (ee_record E) (pe_ID entry) pj d of
            (Inl e, d1, out1) \<Rightarrow> (enroll_error (''record pending join: '' @ err_text e), d1, out1)
          | (Inr _, d1, out1) \<Rightarrow>
             (if \<not> pe_AutoApprove entry then
                (\<lparr>en_Accepted = False, en_Pending = True, en_Error = [], en_Cluster = None\<rparr>, d1, out1)
              else
                (case approve_join D (ee_approve E) (pe_ID entry) d1 of
                   (Inl e, d2, out2) \<Rightarrow> (enroll_error (''auto-approve: '' @ err_text e), d2, out1 @ out2)
                 | (Inr _, d2, out2) \<Rightarrow>
                    (let d3 = trust_joiner D (ee_trust E) pj d2 in
                     (\<lparr>en_Accepted = True, en_Pending = False, en_Error = [],
                       en_Cluster = NewEnrollSummary (enrollPeersForJoiner (pj_NodeID pj) d3)\<rparr>, d3, out1 @ out2))))))"

section \<open>Issuing tokens\<close>

record EnrollCreateBody =
  eb_Name :: string
  eb_TTL :: duration
  eb_AutoApprove :: bool

record EnrollCreateResult =
  ec_ID :: string
  ec_Name :: string
  ec_Token :: string
  ec_ExpiresAt :: gotime
  ec_AutoApprove :: bool
  ec_Version :: "64 word"

record create_env =
  cx_id :: "err + string"
  cx_secret :: "err + string"
  cx_now :: gotime
  cx_mut :: mut_env

text \<open>The loop of \<open>enrollEndpoints\<close> carries the map \<open>seen\<close> and the slice \<open>out\<close>.\<close>

fun endpoints_loop :: "string list \<Rightarrow> PeerInfo list \<Rightarrow> EnrollEndpoint list" where
  "endpoints_loop seen [] = []"
| "endpoints_loop seen (p # ps) =
     (if pi_NodeID p \<in> set seen then endpoints_loop seen ps
      else if pi_Advertise p = [] \<or> pi_Fingerprint p = [] then endpoints_loop seen ps
      else \<lparr>ee_Advertise = pi_Advertise p, ee_Fingerprint = pi_Fingerprint p\<rparr> # endpoints_loop (pi_NodeID p # seen) ps)"

definition enrollEndpoints :: "daemon_env \<Rightarrow> daemon \<Rightarrow> EnrollEndpoint list" where
  "enrollEndpoints D d =
     \<lparr>ee_Advertise = AdvertiseAddr (d_node d),
      ee_Fingerprint = (case FingerprintFromCertPEM (dv_pki D) (d_cert d) of Inl e \<Rightarrow> [] | Inr fp \<Rightarrow> fp)\<rparr>
     # endpoints_loop [self_of d] (cc_Peers (Snapshot (d_cfg d)))"

definition effective_ttl :: "duration \<Rightarrow> duration" where
  "effective_ttl ttl = (if ttl \<le> 0 then 1 * Hour else ttl)"

definition enroll_entry :: "daemon_env \<Rightarrow> string \<Rightarrow> gotime \<Rightarrow> EnrollCreateBody \<Rightarrow> string \<Rightarrow> string \<Rightarrow> PendingEnrollment" where
  "enroll_entry D self now body ident secret =
     \<lparr>pe_ID = ident, pe_Name = eb_Name body, pe_SecretHash = hashEnrollSecret (dv_pki D) secret,
      pe_AutoApprove = eb_AutoApprove body, pe_CreatedBy = self, pe_CreatedAt = now,
      pe_ExpiresAt = now + effective_ttl (eb_TTL body), pe_PendingJoin = None\<rparr>"

definition enrollCreate ::
  "daemon_env \<Rightarrow> token_json \<Rightarrow> create_env \<Rightarrow> EnrollCreateBody \<Rightarrow> daemon \<Rightarrow> (err + EnrollCreateResult) \<times> daemon \<times> outbox" where
  "enrollCreate D T X body d =
     (if effective_ttl (eb_TTL body) > 24 * 7 * Hour then (Inl (ErrMsg ''ttl too long; max 168h''), d, [])
      else case randomEnrollID (cx_id X) of
        Inl e \<Rightarrow> (Inl (ErrWrap ''generate token id'' e), d, [])
      | Inr ident \<Rightarrow>
         (case randomEnrollSecret (cx_secret X) of
            Inl e \<Rightarrow> (Inl (ErrWrap ''generate token secret'' e), d, [])
          | Inr secret \<Rightarrow>
             (let entry = enroll_entry D (self_of d) (cx_now X) body ident secret in
              case daemon_mutate D (cx_mut X) MutationAddEnrollment (jm_Enrollment (dv_enc D) entry) d of
                (Inl e, d1, out) \<Rightarrow> (Inl (ErrWrap ''record enrollment'' e), d1, out)
              | (Inr ver, d1, out) \<Rightarrow>
                 (Inr \<lparr>ec_ID = ident, ec_Name = eb_Name body,
                       ec_Token = EncodeEnrollmentToken T \<lparr>tp_ID = ident, tp_Secret = secret, tp_Endpoints = enrollEndpoints D d1,
                                                           tp_ExpiresAt = pe_ExpiresAt entry\<rparr>,
                       ec_ExpiresAt = pe_ExpiresAt entry, ec_AutoApprove = eb_AutoApprove body, ec_Version = ver\<rparr>, d1, out))))"

record EnrollListPendingJoiner =
  lj_NodeID :: string
  lj_Advertise :: string
  lj_Fingerprint :: string
  lj_SubmittedAt :: gotime

record EnrollListEntry =
  le_ID :: string
  le_Name :: string
  le_AutoApprove :: bool
  le_CreatedBy :: string
  le_CreatedAt :: gotime
  le_ExpiresAt :: gotime
  le_Pending :: "EnrollListPendingJoiner option"

definition enrollList :: "daemon \<Rightarrow> EnrollListEntry list" where
  "enrollList d =
     map (\<lambda>e. \<lparr>le_ID = pe_ID e, le_Name = pe_Name e, le_AutoApprove = pe_AutoApprove e, le_CreatedBy = pe_CreatedBy e,
                le_CreatedAt = pe_CreatedAt e, le_ExpiresAt = pe_ExpiresAt e,
                le_Pending = (case pe_PendingJoin e of
                    None \<Rightarrow> None
                  | Some pj \<Rightarrow> Some \<lparr>lj_NodeID = pj_NodeID pj, lj_Advertise = pj_Advertise pj,
                                     lj_Fingerprint = pj_Fingerprint pj, lj_SubmittedAt = pj_SubmittedAt pj\<rparr>)\<rparr>)
       (cc_PendingEnrollments (Snapshot (d_cfg d)))"

section \<open>Lemmas\<close>

lemma enroll_check_ok:
  "enroll_check D now req c = Inr entry \<longleftrightarrow>
     FindEnrollmentByID c (er_TokenID req) = Some entry \<and> er_TokenID req \<noteq> [] \<and> er_TokenSecret req \<noteq> [] \<and>
     er_NodeID req \<noteq> [] \<and> er_CertPEM req \<noteq> [] \<and> er_Fingerprint req \<noteq> [] \<and>
     FingerprintFromCertPEM (dv_pki D) (er_CertPEM req) = Inr (er_Fingerprint req) \<and>
     (pe_ExpiresAt entry = 0 \<or> now \<le> pe_ExpiresAt entry) \<and>
     verifyEnrollSecret (dv_pki D) (er_TokenSecret req) (pe_SecretHash entry)"
  by (auto simp: enroll_check_def split: sum.split option.split)

lemma FindEnrollmentByID_id: "FindEnrollmentByID c i = Some e \<Longrightarrow> pe_ID e = i \<and> e \<in> set (cc_PendingEnrollments c)"
  by (auto simp: FindEnrollmentByID_def dest: find_Some_iff_first)

text \<open>A successful run of \<open>record-pending\<close>: the join is filed under the token, nothing else changes.\<close>

lemma record_pending_effect:
  assumes "cfg_wf c" and "apply_mutation J MutationRecordEnrollPending raw c = (None, c')"
    and "js_RecordPending J raw = Inr (i, Some pj)"
  shows "c' = c\<lparr>cc_PendingEnrollments := map (\<lambda>x. if pe_ID x = i then x\<lparr>pe_PendingJoin := Some pj\<rparr> else x) (cc_PendingEnrollments c)\<rparr>"
proof -
  obtain xs where xs: "modify_first (\<lambda>x. pe_ID x = i) (\<lambda>x. x\<lparr>pe_PendingJoin := Some pj\<rparr>) (cc_PendingEnrollments c) = Some xs"
    and c': "c' = c\<lparr>cc_PendingEnrollments := xs\<rparr>"
    using assms(2,3) by (auto simp: apply_mutation_def decode_def apply_record_pending_def split: if_splits option.splits)
  have "distinct (map pe_ID (cc_PendingEnrollments c))" using assms(1) by (simp add: cfg_wf_def)
  from modify_first_key [OF xs this] c' show ?thesis by simp
qed

lemma recorded_find:
  assumes "List.find (enrollment_matches i) (map (\<lambda>x. if pe_ID x = i then x\<lparr>pe_PendingJoin := Some pj\<rparr> else x) es) = Some en"
    and "\<forall>e \<in> set es. pe_Name e \<noteq> i"
  shows "pe_ID en = i \<and> pe_PendingJoin en = Some pj"
proof -
  from find_Some_iff_first [OF assms(1)]
  have m: "enrollment_matches i en" and "en \<in> set (map (\<lambda>x. if pe_ID x = i then x\<lparr>pe_PendingJoin := Some pj\<rparr> else x) es)"
    by simp_all
  then obtain x where x: "x \<in> set es" and en: "en = (if pe_ID x = i then x\<lparr>pe_PendingJoin := Some pj\<rparr> else x)" by auto
  then show ?thesis using m assms(2) by (auto simp: enrollment_matches_def split: if_splits)
qed

lemma trust_joiner_simps [simp]:
  "d_cfg (trust_joiner D ce pj d) = d_cfg d" "d_quorum (trust_joiner D ce pj d) = d_quorum d"
  "d_node (trust_joiner D ce pj d) = d_node d"
  by (simp_all add: trust_joiner_def)

lemma trust_joiner_get:
  assumes "trust_wf (ts_entries (d_trust d))" and "pj_NodeID pj \<noteq> []" and "pj_Fingerprint pj \<noteq> []"
  shows "\<exists>x. trust_Get (pj_NodeID pj) (d_trust (trust_joiner D ce pj d)) = Some x \<and>
    te_Fingerprint x = pj_Fingerprint pj \<and> te_CertPEM x = pj_CertPEM pj"
  using assms by (simp add: trust_joiner_def trust_Add_entries)

lemma daemon_mutate_frame:
  assumes "daemon_mutate D mu kind m d = (r, d', out)"
  shows "d_quorum d' = d_quorum d \<and> d_node d' = d_node d \<and> d_cert d' = d_cert d \<and> d_agg d' = d_agg d \<and>
    (trust_wf (ts_entries (d_trust d)) \<longrightarrow> trust_wf (ts_entries (d_trust d')))"
  using assms by (auto simp: daemon_mutate_def run_callbacks_frame run_callbacks_wf split: prod.splits)

section \<open>Properties\<close>

text \<open>C8. Nothing happens without a valid token. If an \<open>Enroll\<close> request has any effect at all, on the
  state or by a message sent, or is answered with accepted or pending, then at the time of the check
  the configuration held a token of that ID, not expired, whose hash the presented secret matches,
  and the claimed fingerprint is that of the submitted certificate. Acceptance on the spot needs a
  token issued for auto-approval; any other valid token only yields pending.\<close>

theorem enroll_needs_token:
  assumes "handleEnroll D E req d = (resp, d', out)"
    and "d' \<noteq> d \<or> out \<noteq> [] \<or> en_Accepted resp \<or> en_Pending resp"
  shows "\<exists>entry. FindEnrollmentByID (cs_cfg (d_cfg d)) (er_TokenID req) = Some entry \<and>
     (pe_ExpiresAt entry = 0 \<or> ee_check E \<le> pe_ExpiresAt entry) \<and>
     verifyEnrollSecret (dv_pki D) (er_TokenSecret req) (pe_SecretHash entry) \<and> er_NodeID req \<noteq> [] \<and>
     FingerprintFromCertPEM (dv_pki D) (er_CertPEM req) = Inr (er_Fingerprint req) \<and>
     (en_Accepted resp \<longrightarrow> pe_AutoApprove entry) \<and> (en_Pending resp \<longrightarrow> \<not> pe_AutoApprove entry)"
proof (cases "enroll_check D (ee_check E) req (cs_cfg (d_cfg d))")
  case (Inl msg)
  with assms show ?thesis by (auto simp: handleEnroll_def enroll_error_def)
next
  case (Inr entry)
  have "(en_Accepted resp \<longrightarrow> pe_AutoApprove entry) \<and> (en_Pending resp \<longrightarrow> \<not> pe_AutoApprove entry)"
    using assms(1) Inr by (auto simp: handleEnroll_def enroll_error_def Let_def split: prod.splits sum.splits if_splits)
  with Inr show ?thesis unfolding enroll_check_ok by blast
qed

lemma auto_approve_steps:
  assumes master: "IsMaster (d_quorum d)" and h: "handleEnroll D E req d = (resp, d', out)" and acc: "en_Accepted resp"
  obtains entry d1 out1 d2 out2 v1 v2 where "enroll_check D (ee_check E) req (cs_cfg (d_cfg d)) = Inr entry"
    and "record_join D (ee_record E) (pe_ID entry) (join_of (ee_submit E) req) d = (Inr v1, d1, out1)"
    and "approve_join D (ee_approve E) (pe_ID entry) d1 = (Inr v2, d2, out2)"
    and "d' = trust_joiner D (ee_trust E) (join_of (ee_submit E) req) d2"
    and "en_Cluster resp = NewEnrollSummary (enrollPeersForJoiner (er_NodeID req) d')"
    and "IsMaster (d_quorum d1)"
proof -
  obtain entry where c: "enroll_check D (ee_check E) req (cs_cfg (d_cfg d)) = Inr entry"
    using h acc by (cases "enroll_check D (ee_check E) req (cs_cfg (d_cfg d))") (auto simp: handleEnroll_def enroll_error_def)
  obtain r1 d1 out1 where 1: "record_join D (ee_record E) (pe_ID entry) (join_of (ee_submit E) req) d = (r1, d1, out1)"
    by (metis prod_cases3)
  obtain r2 d2 out2 where 2: "approve_join D (ee_approve E) (pe_ID entry) d1 = (r2, d2, out2)"
    by (metis prod_cases3)
  have m1: "IsMaster (d_quorum d1)"
    using daemon_mutate_frame [OF 1 [unfolded record_join_def]] master by simp
  from h acc c 1 2 obtain v1 v2 where "r1 = Inr v1" "r2 = Inr v2"
    "d' = trust_joiner D (ee_trust E) (join_of (ee_submit E) req) d2"
    "en_Cluster resp = NewEnrollSummary (enrollPeersForJoiner (er_NodeID req) d')"
    by (cases r1; cases r2) (auto simp: handleEnroll_def enroll_error_def Let_def join_of_def split: if_splits)
  with that c 1 2 m1 show ?thesis by blast
qed

lemma recorded_then_approved:
  assumes wf: "cfg_wf c" and ap1: "apply_mutation J MutationRecordEnrollPending raw c = (None, c1)"
    and js1: "js_RecordPending J raw = Inr (i, Some pj)"
    and ap2: "apply_mutation J MutationApproveEnrollment raw2 (bump env n c1) = (None, c2)" and js2: "js_Target J raw2 = Inr i"
    and names: "\<forall>e \<in> set (cc_PendingEnrollments c). pe_Name e \<noteq> i"
  shows "row_get pi_NodeID k (cc_Peers c2) = (if k = pj_NodeID pj then Some (peer_of_join pj) else row_get pi_NodeID k (cc_Peers c))"
    and "FindEnrollmentByID c2 i = None"
    and "cc_Version c2 = cc_Version c + 1 \<and> cc_Checks c2 = cc_Checks c \<and> cc_Alerts c2 = cc_Alerts c"
proof -
  note c1 = record_pending_effect [OF wf ap1 js1]
  have wf1: "cfg_wf (bump env n c1)"
    using edit_wf_mutation [of J MutationRecordEnrollPending raw] wf ap1 by (force simp: payload_ok_def edit_wf_def)
  from approve_effect [OF wf1 ap2] js2 obtain en pj' where
      find: "FindEnrollment (bump env n c1) i = Some en" and pj': "pe_PendingJoin en = Some pj'"
    and peers: "\<forall>k. row_get pi_NodeID k (cc_Peers c2) =
        (if k = pj_NodeID pj' then Some (peer_of_join pj') else row_get pi_NodeID k (cc_Peers (bump env n c1)))"
    and gone: "FindEnrollmentByID c2 (pe_ID en) = None"
    and rest: "c2 = (bump env n c1)\<lparr>cc_Peers := cc_Peers c2, cc_PendingEnrollments := cc_PendingEnrollments c2\<rparr>"
    by auto
  have "List.find (enrollment_matches i)
      (map (\<lambda>x. if pe_ID x = i then x\<lparr>pe_PendingJoin := Some pj\<rparr> else x) (cc_PendingEnrollments c)) = Some en"
    using find by (simp add: FindEnrollment_def bump.simps c1)
  from recorded_find [OF this names] pj' have en: "pe_ID en = i" "pj' = pj" by simp_all
  have "cc_Peers (bump env n c1) = cc_Peers c" by (simp add: bump.simps c1)
  with peers show "row_get pi_NodeID k (cc_Peers c2) = (if k = pj_NodeID pj then Some (peer_of_join pj) else row_get pi_NodeID k (cc_Peers c))"
    by (simp add: en)
  show "FindEnrollmentByID c2 i = None" using gone en by simp
  show "cc_Version c2 = cc_Version c + 1 \<and> cc_Checks c2 = cc_Checks c \<and> cc_Alerts c2 = cc_Alerts c"
    by (subst (1 2 3) rest) (simp add: bump.simps c1)
qed

lemma summary_ids:
  "ep_NodeID ` set (enrollPeersForJoiner j d) =
     {pi_NodeID q |q. q \<in> set (cc_Peers (cs_cfg (d_cfg d))) \<and> pi_NodeID q \<noteq> [] \<and> pi_NodeID q \<noteq> j \<and>
        pi_Fingerprint q \<noteq> [] \<and> pi_CertPEM q \<noteq> []}"
  by (force simp: enrollPeersForJoiner_def)

lemma enroll_reused: "enroll_check D now req c = Inr entry \<Longrightarrow> FindEnrollmentByID c' (er_TokenID req) = None \<Longrightarrow>
    enroll_check D now' req c' = Inl ''unknown enrollment token''"
  by (simp add: enroll_check_ok) (simp add: enroll_check_def)

text \<open>The two mutations of an accepted enrollment, seen on the configuration.\<close>

lemma record_join_config:
  assumes "record_join D mu i pj d = (Inr v, d1, out)" and "IsMaster (d_quorum d)"
    and "\<And>x raw. jm_RecordPending (dv_enc D) x = Inr raw \<Longrightarrow> js_RecordPending (dv_json D) raw = Inr x"
  obtains raw c1 where "js_RecordPending (dv_json D) raw = Inr (i, Some pj)"
    and "apply_mutation (dv_json D) MutationRecordEnrollPending raw (cs_cfg (d_cfg d)) = (None, c1)"
    and "cs_cfg (d_cfg d1) = bump (mu_call mu) (self_of d) c1"
  using daemon_mutate_master [OF assms(1) [unfolded record_join_def] assms(2)] assms(3) by metis

lemma approve_join_config:
  assumes "approve_join D mu i d1 = (Inr v, d2, out)" and "IsMaster (d_quorum d1)"
    and "\<And>t raw. jm_Target (dv_enc D) t = Inr raw \<Longrightarrow> js_Target (dv_json D) raw = Inr t"
  obtains raw c2 where "js_Target (dv_json D) raw = Inr i"
    and "apply_mutation (dv_json D) MutationApproveEnrollment raw (cs_cfg (d_cfg d1)) = (None, c2)"
    and "cs_cfg (d_cfg d2) = bump (mu_call mu) (self_of d1) c2"
  using daemon_mutate_master [OF assms(1) [unfolded approve_join_def] assms(2)] assms(3) by metis

lemma auto_approve_config:
  assumes wf: "cfg_wf (cs_cfg (d_cfg d))" and master: "IsMaster (d_quorum d)"
    and json: "\<And>x raw. jm_RecordPending (dv_enc D) x = Inr raw \<Longrightarrow> js_RecordPending (dv_json D) raw = Inr x"
      "\<And>t raw. jm_Target (dv_enc D) t = Inr raw \<Longrightarrow> js_Target (dv_json D) raw = Inr t"
    and names: "\<forall>e \<in> set (cc_PendingEnrollments (cs_cfg (d_cfg d))). pe_Name e \<noteq> i"
    and rec: "record_join D mu1 i pj d = (Inr v1, d1, out1)" and m1: "IsMaster (d_quorum d1)"
    and app: "approve_join D mu2 i d1 = (Inr v2, d2, out2)"
  shows "row_get pi_NodeID k (cc_Peers (cs_cfg (d_cfg d2))) =
      (if k = pj_NodeID pj then Some (peer_of_join pj) else row_get pi_NodeID k (cc_Peers (cs_cfg (d_cfg d))))"
    and "FindEnrollmentByID (cs_cfg (d_cfg d2)) i = None"
    and "cc_Version (cs_cfg (d_cfg d2)) = cc_Version (cs_cfg (d_cfg d)) + 2 \<and>
      cc_Checks (cs_cfg (d_cfg d2)) = cc_Checks (cs_cfg (d_cfg d)) \<and> cc_Alerts (cs_cfg (d_cfg d2)) = cc_Alerts (cs_cfg (d_cfg d))"
proof -
  obtain raw1 c1 where 1: "js_RecordPending (dv_json D) raw1 = Inr (i, Some pj)"
      "apply_mutation (dv_json D) MutationRecordEnrollPending raw1 (cs_cfg (d_cfg d)) = (None, c1)"
      "cs_cfg (d_cfg d1) = bump (mu_call mu1) (self_of d) c1"
    by (rule record_join_config [OF rec master json(1)])
  obtain raw2 c2 where 2: "js_Target (dv_json D) raw2 = Inr i"
      "apply_mutation (dv_json D) MutationApproveEnrollment raw2 (cs_cfg (d_cfg d1)) = (None, c2)"
      "cs_cfg (d_cfg d2) = bump (mu_call mu2) (self_of d1) c2"
    by (rule approve_join_config [OF app m1 json(2)])
  note eff = recorded_then_approved [OF wf 1(2) 1(1) 2(2) [unfolded 1(3)] 2(1) names]
  show "row_get pi_NodeID k (cc_Peers (cs_cfg (d_cfg d2))) =
      (if k = pj_NodeID pj then Some (peer_of_join pj) else row_get pi_NodeID k (cc_Peers (cs_cfg (d_cfg d))))"
    using eff(1) by (simp add: 2(3) bump.simps)
  show "FindEnrollmentByID (cs_cfg (d_cfg d2)) i = None"
    using eff(2) by (simp add: 2(3) FindEnrollmentByID_def bump.simps)
  show "cc_Version (cs_cfg (d_cfg d2)) = cc_Version (cs_cfg (d_cfg d)) + 2 \<and>
      cc_Checks (cs_cfg (d_cfg d2)) = cc_Checks (cs_cfg (d_cfg d)) \<and> cc_Alerts (cs_cfg (d_cfg d2)) = cc_Alerts (cs_cfg (d_cfg d))"
    using eff(3) by (simp add: 2(3) bump.simps)
qed

lemma enroll_check_fields:
  "enroll_check D now req c = Inr entry \<Longrightarrow> pe_ID entry = er_TokenID req \<and> er_NodeID req \<noteq> [] \<and> er_Fingerprint req \<noteq> []"
  by (auto simp: enroll_check_ok dest: FindEnrollmentByID_id)

lemma reused_token:
  assumes "enroll_check D now req c = Inr entry" and "FindEnrollmentByID (cs_cfg (d_cfg d')) (er_TokenID req) = None"
  shows "fst (handleEnroll D E' req d') = enroll_error ''unknown enrollment token''"
  using enroll_reused [OF assms] by (simp add: handleEnroll_def)

lemma join_of_simps [simp]: "pj_NodeID (join_of t req) = er_NodeID req" "pj_Fingerprint (join_of t req) = er_Fingerprint req"
  "pj_CertPEM (join_of t req) = er_CertPEM req" "pj_Advertise (join_of t req) = er_Advertise req"
  by (simp_all add: join_of_def)

text \<open>C19. What an accepted enrollment leaves behind on the master. The submitted identity, and no other
  change, is in the membership list; the token is gone, so presenting it again is refused; the
  joiner's certificate is trusted at once; the configuration is two versions on; and the joiner is
  told exactly the other peers it can authenticate.\<close>

theorem auto_approve_admits:
  assumes wf: "cfg_wf (cs_cfg (d_cfg d))" and twf: "trust_wf (ts_entries (d_trust d))" and master: "IsMaster (d_quorum d)"
    and json: "\<And>x raw. jm_RecordPending (dv_enc D) x = Inr raw \<Longrightarrow> js_RecordPending (dv_json D) raw = Inr x"
      "\<And>t raw. jm_Target (dv_enc D) t = Inr raw \<Longrightarrow> js_Target (dv_json D) raw = Inr t"
    and names: "\<forall>e \<in> set (cc_PendingEnrollments (cs_cfg (d_cfg d))). pe_Name e \<noteq> er_TokenID req"
    and h: "handleEnroll D E req d = (resp, d', out)" and acc: "en_Accepted resp"
  shows "let c = cs_cfg (d_cfg d); c' = cs_cfg (d_cfg d') in
     (\<forall>k. row_get pi_NodeID k (cc_Peers c') =
        (if k = er_NodeID req then Some (peer_of_join (join_of (ee_submit E) req)) else row_get pi_NodeID k (cc_Peers c))) \<and>
     FindEnrollmentByID c' (er_TokenID req) = None \<and>
     fst (handleEnroll D E' req d') = enroll_error ''unknown enrollment token'' \<and>
     (\<exists>x. trust_Get (er_NodeID req) (d_trust d') = Some x \<and> te_Fingerprint x = er_Fingerprint req) \<and>
     cc_Version c' = cc_Version c + 2 \<and> cc_Checks c' = cc_Checks c \<and> cc_Alerts c' = cc_Alerts c \<and>
     (\<forall>p. p \<in> ep_NodeID ` set (EnrollSummaryPeers (en_Cluster resp)) \<longleftrightarrow>
        p \<noteq> [] \<and> p \<noteq> er_NodeID req \<and> (\<exists>q \<in> set (cc_Peers c'). pi_NodeID q = p \<and> pi_Fingerprint q \<noteq> [] \<and> pi_CertPEM q \<noteq> []))"
proof -
  let ?pj = "join_of (ee_submit E) req"
  obtain entry d1 out1 d2 out2 v1 v2 where chk: "enroll_check D (ee_check E) req (cs_cfg (d_cfg d)) = Inr entry"
    and rec: "record_join D (ee_record E) (pe_ID entry) ?pj d = (Inr v1, d1, out1)"
    and app: "approve_join D (ee_approve E) (pe_ID entry) d1 = (Inr v2, d2, out2)"
    and d': "d' = trust_joiner D (ee_trust E) ?pj d2" and told: "en_Cluster resp = NewEnrollSummary (enrollPeersForJoiner (er_NodeID req) d')"
    and m1: "IsMaster (d_quorum d1)"
    by (rule auto_approve_steps [OF master h acc])
  have ident: "pe_ID entry = er_TokenID req" and ne: "pj_NodeID ?pj \<noteq> []" "pj_Fingerprint ?pj \<noteq> []"
    using enroll_check_fields [OF chk] by simp_all
  note eff = auto_approve_config [OF wf master json names rec [unfolded ident] m1 app [unfolded ident]]
  have cfg: "cs_cfg (d_cfg d') = cs_cfg (d_cfg d2)" by (simp add: d')
  have "trust_wf (ts_entries (d_trust d2))"
    using daemon_mutate_frame [OF rec [unfolded record_join_def]] daemon_mutate_frame [OF app [unfolded approve_join_def]] twf by simp
  from trust_joiner_get [OF this ne]
  have tr: "\<exists>x. trust_Get (er_NodeID req) (d_trust d') = Some x \<and> te_Fingerprint x = er_Fingerprint req"
    by (auto simp: d')
  have again: "fst (handleEnroll D E' req d') = enroll_error ''unknown enrollment token''"
    by (rule reused_token [OF chk]) (simp add: cfg eff(2))
  have ids: "p \<in> ep_NodeID ` set (EnrollSummaryPeers (en_Cluster resp)) \<longleftrightarrow>
      p \<noteq> [] \<and> p \<noteq> er_NodeID req \<and> (\<exists>q \<in> set (cc_Peers (cs_cfg (d_cfg d2))). pi_NodeID q = p \<and> pi_Fingerprint q \<noteq> [] \<and> pi_CertPEM q \<noteq> [])" for p
    by (auto simp: told summary_ids cfg)
  show ?thesis unfolding Let_def cfg
    using eff again tr ids by simp
qed

section \<open>A concrete enrollment\<close>

text \<open>A master with one outstanding auto-approve token, and a joiner that presents it.\<close>

definition enr_entry :: PendingEnrollment where
  "enr_entry = \<lparr>pe_ID = ''t9'', pe_Name = ''rack'', pe_SecretHash = hashEnrollSecret demo_pki ''s3cret'', pe_AutoApprove = True,
     pe_CreatedBy = ''a'', pe_CreatedAt = 1, pe_ExpiresAt = 100, pe_PendingJoin = None\<rparr>"

definition enr_start :: cfg_state where
  "enr_start = demo_members\<lparr>cs_cfg := demo_cluster\<lparr>cc_PendingEnrollments := [enr_entry]\<rparr>\<rparr>"

definition enr_req :: EnrollRequest where
  "enr_req = \<lparr>er_TokenID = ''t9'', er_TokenSecret = ''s3cret'', er_NodeID = ''d'', er_Advertise = ''d:9901'',
     er_Fingerprint = Fingerprint demo_pki \<lparr>cert_SPKI = ''pem-d'', cert_CommonName = ''pem-d'', cert_Raw = ''pem-d''\<rparr>,
     er_CertPEM = ''pem-d''\<rparr>"

definition enr_denv :: daemon_env where
  "enr_denv = (demo_denv demo_cluster)\<lparr>
     dv_yaml := (demo_codec demo_cluster)\<lparr>yaml_Marshal := (\<lambda>_. Inr ''yaml'')\<rparr>,
     dv_json := demo_json\<lparr>js_RecordPending := (\<lambda>_. Inr (''t9'', Some (join_of 50 enr_req)))\<rparr>,
     dv_enc := demo_enc\<lparr>jm_RecordPending := (\<lambda>x. if x = (''t9'', Some (join_of 50 enr_req)) then Inr ''rp'' else Inl (ErrLib ''json''))\<rparr>\<rparr>"

definition enr_mut :: mut_env where
  "enr_mut = \<lparr>mu_now = 200000000000, mu_call = demo_call, mu_rpc = \<lambda>_ _ _. Inl (ErrLib []), mu_trust = \<lambda>_. demo_call\<rparr>"

definition enr_env :: enroll_env where
  "enr_env = \<lparr>ee_check = 50, ee_submit = 50, ee_record = enr_mut, ee_approve = enr_mut, ee_trust = demo_call\<rparr>"

lemma enr_denv_simps [simp]:
  "dv_pki enr_denv = demo_pki" "dv_os enr_denv = demo_env" "yaml_Marshal (dv_yaml enr_denv) c = Inr ''yaml''"
  "js_RecordPending (dv_json enr_denv) raw = Inr (''t9'', Some (join_of 50 enr_req))" "js_Target (dv_json enr_denv) = Inr"
  "jm_Target (dv_enc enr_denv) = Inr"
  "jm_RecordPending (dv_enc enr_denv) x = (if x = (''t9'', Some (join_of 50 enr_req)) then Inr ''rp'' else Inl (ErrLib ''json''))"
  by (simp_all add: enr_denv_def demo_denv_def demo_json_def demo_enc_def)

lemma enr_mut_simps [simp]: "mu_now enr_mut = 200000000000" "mu_call enr_mut = demo_call" "ce_write demo_call = io_good"
  by (simp_all add: enr_mut_def demo_call_def)

lemma enr_checked: "enroll_check enr_denv 50 enr_req (cs_cfg enr_start) = Inr enr_entry"
  by (simp add: enroll_check_ok enr_start_def enr_req_def enr_entry_def FindEnrollmentByID_def FingerprintFromCertPEM_def
      demo_pki_def verifyEnrollSecret_def hashEnrollSecret_def decodeHashHex_def Let_def)

lemma enr_quorum: "length (cc_Peers c) = 3 \<Longrightarrow> HasQuorum 200000000000 c (demo_mgr self inc)"
  by (simp add: HasQuorum_def QuorumSize_def demo_mgr_live)

definition enr_recorded :: ClusterConfig where
  "enr_recorded = bump demo_call ''a'' (demo_cluster\<lparr>cc_PendingEnrollments := [enr_entry\<lparr>pe_PendingJoin := Some (join_of 50 enr_req)\<rparr>]\<rparr>)"

definition enr_approved :: ClusterConfig where
  "enr_approved = bump demo_call ''a'' (enr_recorded\<lparr>cc_Peers := map demo_peer [''a'', ''b'', ''c''] @ [peer_of_join (join_of 50 enr_req)],
     cc_PendingEnrollments := []\<rparr>)"

lemma enr_mutations:
  "apply_mutation (dv_json enr_denv) MutationRecordEnrollPending ''rp'' (cs_cfg enr_start) =
     (None, demo_cluster\<lparr>cc_PendingEnrollments := [enr_entry\<lparr>pe_PendingJoin := Some (join_of 50 enr_req)\<rparr>]\<rparr>)"
  "apply_mutation (dv_json enr_denv) MutationApproveEnrollment ''t9'' enr_recorded =
     (None, enr_recorded\<lparr>cc_Peers := map demo_peer [''a'', ''b'', ''c''] @ [peer_of_join (join_of 50 enr_req)], cc_PendingEnrollments := []\<rparr>)"
  by (simp_all add: apply_mutation_def decode_def apply_record_pending_def apply_approve_def enr_start_def enr_entry_def
      enr_recorded_def bump.simps Let_def enrollment_matches_def demo_cluster_def peer_of_join_def demo_peer_def enr_req_def)

lemma enr_accepted:
  "\<exists>resp d' out. handleEnroll enr_denv enr_env enr_req (demo_daemon ''a'' enr_start) = (resp, d', out) \<and> en_Accepted resp"
proof -
  let ?d = "demo_daemon ''a'' enr_start"
  have m: "IsMaster (d_quorum ?d)" by (simp add: IsMaster_def Master_def)
  have q: "HasQuorum (mu_now enr_mut) (cs_cfg (d_cfg ?d)) (d_quorum ?d)" by (simp add: enr_start_def demo_cluster_def enr_quorum)
  have self: "self_of ?d = ''a''" "cs_cfg (d_cfg ?d) = cs_cfg enr_start" by simp_all
  obtain d1 v1 out1 where 1: "daemon_mutate enr_denv enr_mut MutationRecordEnrollPending (Inr ''rp'') ?d = (Inr v1, d1, out1)"
    "cs_cfg (d_cfg d1) = enr_recorded" "d_quorum d1 = d_quorum ?d" "d_node d1 = d_node ?d"
    using daemon_mutate_good [OF m q, of enr_denv _ "''yaml''" MutationRecordEnrollPending "''rp''"] enr_mutations(1) self
    by (auto simp: enr_recorded_def)
  have m1: "IsMaster (d_quorum d1)" and q1: "HasQuorum (mu_now enr_mut) (cs_cfg (d_cfg d1)) (d_quorum d1)"
    by (simp_all add: 1 IsMaster_def Master_def enr_recorded_def bump.simps demo_cluster_def enr_quorum)
  obtain d2 v2 out2 where 2: "daemon_mutate enr_denv enr_mut MutationApproveEnrollment (Inr ''t9'') d1 = (Inr v2, d2, out2)"
    using daemon_mutate_good [OF m1 q1, of enr_denv _ "''yaml''" MutationApproveEnrollment "''t9''"] enr_mutations(2) 1(2) by auto
  have "pe_ID enr_entry = ''t9''" "pe_AutoApprove enr_entry" by (simp_all add: enr_entry_def)
  with 1(1) 2 enr_checked self show ?thesis
    by (simp add: handleEnroll_def enr_env_def record_join_def approve_join_def Let_def)
qed

theorem auto_approve_admits_witness:
  "\<exists>resp d' out. handleEnroll enr_denv enr_env enr_req (demo_daemon ''a'' enr_start) = (resp, d', out) \<and> en_Accepted resp \<and>
     row_get pi_NodeID ''d'' (cc_Peers (cs_cfg (d_cfg d'))) = Some (peer_of_join (join_of 50 enr_req)) \<and>
     cc_Version (cs_cfg (d_cfg d')) = 3"
proof -
  let ?d = "demo_daemon ''a'' enr_start"
  obtain resp d' out where h: "handleEnroll enr_denv enr_env enr_req ?d = (resp, d', out)" and acc: "en_Accepted resp"
    using enr_accepted by blast
  have wf: "cfg_wf (cs_cfg (d_cfg ?d))"
    by (simp add: cfg_wf_def enr_start_def demo_cluster_def demo_peer_def zero_ClusterConfig_def enr_entry_def)
  have twf: "trust_wf (ts_entries (d_trust ?d))" by simp
  have m: "IsMaster (d_quorum ?d)" by (simp add: IsMaster_def Master_def)
  have j1: "jm_RecordPending (dv_enc enr_denv) x = Inr raw \<Longrightarrow> js_RecordPending (dv_json enr_denv) raw = Inr x" for x raw
    by (simp split: if_splits)
  have j2: "jm_Target (dv_enc enr_denv) t = Inr raw \<Longrightarrow> js_Target (dv_json enr_denv) raw = Inr t" for t raw by simp
  have names: "\<forall>e \<in> set (cc_PendingEnrollments (cs_cfg (d_cfg ?d))). pe_Name e \<noteq> er_TokenID enr_req"
    by (simp add: enr_start_def enr_entry_def enr_req_def)
  from auto_approve_admits [OF wf twf m j1 j2 names h acc] h acc show ?thesis
    by (auto simp: Let_def enr_req_def enr_env_def enr_start_def demo_cluster_def)
qed

theorem enroll_needs_token_witness:
  "\<exists>resp d' out entry. handleEnroll enr_denv enr_env enr_req (demo_daemon ''a'' enr_start) = (resp, d', out) \<and> en_Accepted resp \<and>
     FindEnrollmentByID (cs_cfg enr_start) ''t9'' = Some entry \<and> verifyEnrollSecret demo_pki ''s3cret'' (pe_SecretHash entry)"
proof -
  obtain resp d' out where h: "handleEnroll enr_denv enr_env enr_req (demo_daemon ''a'' enr_start) = (resp, d', out)" and acc: "en_Accepted resp"
    using enr_accepted by blast
  from enroll_needs_token [OF h] acc h show ?thesis by (auto simp: enr_req_def)
qed

section \<open>Tokens as issued\<close>

lemma add_enrollment_config:
  assumes "daemon_mutate D mu MutationAddEnrollment (jm_Enrollment (dv_enc D) en) d = (Inr v, d', out)" and "IsMaster (d_quorum d)"
    and json: "\<And>x raw. jm_Enrollment (dv_enc D) x = Inr raw \<Longrightarrow> js_Enrollment (dv_json D) raw = Inr x"
  shows "FindEnrollmentByID (cs_cfg (d_cfg d')) (pe_ID en) = Some en"
proof -
  obtain raw c where "js_Enrollment (dv_json D) raw = Inr en"
    and "apply_mutation (dv_json D) MutationAddEnrollment raw (cs_cfg (d_cfg d)) = (None, c)"
    and c': "cs_cfg (d_cfg d') = bump (mu_call mu) (self_of d) c"
    using daemon_mutate_master [OF assms(1,2)] json by metis
  then have "cc_PendingEnrollments c = upsert (\<lambda>x. pe_ID x = pe_ID en) en (cc_PendingEnrollments (cs_cfg (d_cfg d)))"
    by (auto simp: apply_mutation_def decode_def apply_add_enrollment_def split: if_splits)
  with row_find_upsert [of pe_ID "pe_ID en" en] show ?thesis
    by (simp add: FindEnrollmentByID_def c' bump.simps)
qed

lemma enrollCreate_steps:
  assumes h: "enrollCreate D T X body d = (Inr res, d', out)"
  obtains bi bs v where "cx_id X = Inr bi" "cx_secret X = Inr bs" "effective_ttl (eb_TTL body) \<le> 24 * 7 * Hour"
    and "daemon_mutate D (cx_mut X) MutationAddEnrollment (jm_Enrollment (dv_enc D)
           (enroll_entry D (self_of d) (cx_now X) body (b64_EncodeToString bi) (b64_EncodeToString bs))) d = (Inr v, d', out)"
    and "ec_ID res = b64_EncodeToString bi" "ec_ExpiresAt res = cx_now X + effective_ttl (eb_TTL body)"
    and "ec_Token res = EncodeEnrollmentToken T \<lparr>tp_ID = b64_EncodeToString bi, tp_Secret = b64_EncodeToString bs,
           tp_Endpoints = enrollEndpoints D d', tp_ExpiresAt = cx_now X + effective_ttl (eb_TTL body)\<rparr>"
  using h by (auto simp: enrollCreate_def randomEnrollID_def randomEnrollSecret_def Let_def enroll_entry_def
      split: if_splits sum.splits prod.splits)

lemma effective_ttl_pos: "0 < effective_ttl t"
  by (simp add: effective_ttl_def unit_defs)

text \<open>What makes an \<open>Enroll\<close> request well formed, whoever sends it.\<close>

definition well_formed_enroll :: "pki \<Rightarrow> EnrollRequest \<Rightarrow> bool" where
  "well_formed_enroll K req \<longleftrightarrow> er_TokenID req \<noteq> [] \<and> er_TokenSecret req \<noteq> [] \<and> er_NodeID req \<noteq> [] \<and> er_CertPEM req \<noteq> [] \<and>
     er_Fingerprint req \<noteq> [] \<and> FingerprintFromCertPEM K (er_CertPEM req) = Inr (er_Fingerprint req)"

lemma check_issued:
  assumes "well_formed_enroll (dv_pki D) req" and "FindEnrollmentByID c (er_TokenID req) = Some en"
    and "pe_SecretHash en = hashEnrollSecret (dv_pki D) secret" and "pk_sha256 (dv_pki D) secret \<noteq> []" and "pe_ExpiresAt en \<noteq> 0"
  shows "enroll_check D now req c =
     (if pe_ExpiresAt en < now then Inl ''enrollment token expired''
      else if pk_sha256 (dv_pki D) (er_TokenSecret req) \<noteq> pk_sha256 (dv_pki D) secret then Inl ''invalid enrollment token''
      else Inr en)"
  using assms secret_verifies [OF assms(4), of "er_TokenSecret req"]
  by (simp add: enroll_check_def well_formed_enroll_def)

text \<open>The life of an enrollment token. The string handed out decodes to the ID, the secret, the
  expiry and an endpoint list that starts with the issuing node; the expiry lies in the future, at
  most seven days ahead. From then on the cluster's check of a well-formed request under that ID is
  decided by the clock and the secret alone: past the expiry it is refused, before it the decoded
  secret is accepted, with the auto-approval that was asked for, and a secret with another digest is
  refused. Only the digest is stored.\<close>

theorem issued_token_lifetime:
  assumes h: "enrollCreate D T X body d = (Inr res, d', out)" and master: "IsMaster (d_quorum d)"
    and json: "\<And>x raw. jm_Enrollment (dv_enc D) x = Inr raw \<Longrightarrow> js_Enrollment (dv_json D) raw = Inr x"
    and token: "\<And>p raw. tj_Marshal T p = Inr raw \<Longrightarrow> tj_Unmarshal T raw = Inr p" "ec_Token res \<noteq> []"
    and rnd: "cx_id X \<noteq> Inr []" "cx_secret X \<noteq> Inr []" and sha: "\<And>s. pk_sha256 (dv_pki D) s \<noteq> []" and clock: "0 < cx_now X"
  shows "\<exists>p. DecodeEnrollmentToken T (ec_Token res) = Inr p \<and> tp_ID p = ec_ID res \<and> tp_ExpiresAt p = ec_ExpiresAt res \<and>
     ee_Advertise (hd (tp_Endpoints p)) = AdvertiseAddr (d_node d) \<and>
     cx_now X < ec_ExpiresAt res \<and> ec_ExpiresAt res \<le> cx_now X + 24 * 7 * Hour \<and>
     (\<forall>now req. well_formed_enroll (dv_pki D) req \<and> er_TokenID req = ec_ID res \<longrightarrow>
        (case enroll_check D now req (cs_cfg (d_cfg d')) of
           Inl msg \<Rightarrow> ec_ExpiresAt res < now \<or> er_TokenSecret req \<noteq> tp_Secret p
         | Inr en \<Rightarrow> now \<le> ec_ExpiresAt res \<and> pk_sha256 (dv_pki D) (er_TokenSecret req) = pk_sha256 (dv_pki D) (tp_Secret p) \<and>
             pe_AutoApprove en = eb_AutoApprove body \<and> pe_SecretHash en = hashEnrollSecret (dv_pki D) (tp_Secret p)))"
proof -
  obtain bi bs v where b: "cx_id X = Inr bi" "cx_secret X = Inr bs" and ttl: "effective_ttl (eb_TTL body) \<le> 24 * 7 * Hour"
    and mut: "daemon_mutate D (cx_mut X) MutationAddEnrollment (jm_Enrollment (dv_enc D)
           (enroll_entry D (self_of d) (cx_now X) body (b64_EncodeToString bi) (b64_EncodeToString bs))) d = (Inr v, d', out)"
    and res: "ec_ID res = b64_EncodeToString bi" "ec_ExpiresAt res = cx_now X + effective_ttl (eb_TTL body)"
    and tok: "ec_Token res = EncodeEnrollmentToken T \<lparr>tp_ID = b64_EncodeToString bi, tp_Secret = b64_EncodeToString bs,
           tp_Endpoints = enrollEndpoints D d', tp_ExpiresAt = cx_now X + effective_ttl (eb_TTL body)\<rparr>"
    by (rule enrollCreate_steps [OF h])
  let ?en = "enroll_entry D (self_of d) (cx_now X) body (b64_EncodeToString bi) (b64_EncodeToString bs)"
  let ?p = "\<lparr>tp_ID = b64_EncodeToString bi, tp_Secret = b64_EncodeToString bs,
           tp_Endpoints = enrollEndpoints D d', tp_ExpiresAt = cx_now X + effective_ttl (eb_TTL body)\<rparr>"
  obtain raw where raw: "tj_Marshal T ?p = Inr raw"
    using token(2) by (cases "tj_Marshal T ?p") (simp_all add: tok EncodeEnrollmentToken_def)
  from raw have "tj_Unmarshal T raw = Inr ?p" by (rule token(1))
  from decode_encoded [OF raw this] have dec: "DecodeEnrollmentToken T (ec_Token res) = Inr ?p"
    using rnd b by (simp add: tok enrollEndpoints_def)
  have find: "FindEnrollmentByID (cs_cfg (d_cfg d')) (pe_ID ?en) = Some ?en" by (rule add_enrollment_config [OF mut master json])
  have en: "pe_SecretHash ?en = hashEnrollSecret (dv_pki D) (b64_EncodeToString bs)" "pe_ID ?en = ec_ID res"
    "pe_ExpiresAt ?en = ec_ExpiresAt res" "pe_AutoApprove ?en = eb_AutoApprove body" "pe_ExpiresAt ?en \<noteq> 0"
    using effective_ttl_pos [of "eb_TTL body"] clock by (simp_all add: enroll_entry_def res)
  have "d_node d' = d_node d" using daemon_mutate_frame [OF mut] by simp
  moreover note dec ttl effective_ttl_pos [of "eb_TTL body"] check_issued [OF _ _ en(1) sha en(5), of req "cs_cfg (d_cfg d')" for req] find en
  ultimately show ?thesis
    by (intro exI [of _ ?p]) (auto simp: res enrollEndpoints_def)
qed


definition iss_body :: EnrollCreateBody where
  "iss_body = \<lparr>eb_Name = ''laptop'', eb_TTL = 0, eb_AutoApprove = False\<rparr>"

definition iss_entry :: PendingEnrollment where
  "iss_entry = enroll_entry (demo_denv demo_cluster) ''a'' 60 iss_body (b64_EncodeToString ''abcdef'') (b64_EncodeToString ''0123'')"

definition iss_denv :: daemon_env where
  "iss_denv = enr_denv\<lparr>dv_json := demo_json\<lparr>js_Enrollment := (\<lambda>_. Inr iss_entry)\<rparr>,
     dv_enc := demo_enc\<lparr>jm_Enrollment := (\<lambda>x. if x = iss_entry then Inr ''en'' else Inl (ErrLib ''json''))\<rparr>\<rparr>"

definition iss_env :: create_env where
  "iss_env = \<lparr>cx_id = Inr ''abcdef'', cx_secret = Inr ''0123'', cx_now = 60, cx_mut = enr_mut\<rparr>"

definition iss_token :: "EnrollmentTokenPayload \<Rightarrow> token_json" where
  "iss_token p0 = \<lparr>tj_Marshal = (\<lambda>p. if p = p0 then Inr ''tok'' else Inl (ErrLib ''json'')), tj_Unmarshal = (\<lambda>_. Inr p0)\<rparr>"

lemma iss_denv_simps [simp]:
  "dv_pki iss_denv = demo_pki" "dv_pki (demo_denv c) = demo_pki" "yaml_Marshal (dv_yaml iss_denv) c = Inr ''yaml''"
  "js_Enrollment (dv_json iss_denv) raw = Inr iss_entry"
  "jm_Enrollment (dv_enc iss_denv) x = (if x = iss_entry then Inr ''en'' else Inl (ErrLib ''json''))"
  by (simp_all add: iss_denv_def enr_denv_def demo_denv_def)

lemma iss_created:
  "\<exists>p0 res d' out. enrollCreate iss_denv (iss_token p0) iss_env iss_body (demo_daemon ''a'' enr_start) = (Inr res, d', out) \<and>
     ec_Token res \<noteq> []"
proof -
  let ?d = "demo_daemon ''a'' enr_start"
  have m: "IsMaster (d_quorum ?d)" by (simp add: IsMaster_def Master_def)
  have q: "HasQuorum (mu_now enr_mut) (cs_cfg (d_cfg ?d)) (d_quorum ?d)" by (simp add: enr_start_def demo_cluster_def enr_quorum)
  have en: "pe_ID iss_entry \<noteq> []" "pe_SecretHash iss_entry \<noteq> []" by (simp_all add: iss_entry_def enroll_entry_def hashEnrollSecret_def)
  have app: "\<exists>c. apply_mutation (dv_json iss_denv) MutationAddEnrollment ''en'' (cs_cfg (d_cfg ?d)) = (None, c)"
    using en by (simp add: apply_mutation_def decode_def apply_add_enrollment_def)
  then obtain d' v out where "daemon_mutate iss_denv enr_mut MutationAddEnrollment (Inr ''en'') ?d = (Inr v, d', out)"
    using daemon_mutate_good [OF m q, of iss_denv _ "''yaml''" MutationAddEnrollment "''en''"] by auto
  moreover have "enroll_entry iss_denv ''a'' 60 iss_body (b64_EncodeToString ''abcdef'') (b64_EncodeToString ''0123'') = iss_entry"
    by (simp add: iss_entry_def enroll_entry_def demo_denv_def)
  ultimately show ?thesis
    by (intro exI [of _ "\<lparr>tp_ID = b64_EncodeToString ''abcdef'', tp_Secret = b64_EncodeToString ''0123'',
           tp_Endpoints = enrollEndpoints iss_denv d', tp_ExpiresAt = pe_ExpiresAt iss_entry\<rparr>"])
      (simp add: enrollCreate_def iss_env_def randomEnrollID_def randomEnrollSecret_def Let_def iss_body_def effective_ttl_def unit_defs
        EncodeEnrollmentToken_def iss_token_def)
qed

theorem issued_token_lifetime_witness:
  "\<exists>p0 res d' out p. enrollCreate iss_denv (iss_token p0) iss_env iss_body (demo_daemon ''a'' enr_start) = (Inr res, d', out) \<and>
     DecodeEnrollmentToken (iss_token p0) (ec_Token res) = Inr p \<and> tp_ID p = ec_ID res \<and> 60 < ec_ExpiresAt res"
proof -
  obtain p0 res d' out where h: "enrollCreate iss_denv (iss_token p0) iss_env iss_body (demo_daemon ''a'' enr_start) = (Inr res, d', out)"
    and ne: "ec_Token res \<noteq> []" using iss_created by blast
  have m: "IsMaster (d_quorum (demo_daemon ''a'' enr_start))" by (simp add: IsMaster_def Master_def)
  have j: "jm_Enrollment (dv_enc iss_denv) x = Inr raw \<Longrightarrow> js_Enrollment (dv_json iss_denv) raw = Inr x" for x raw
    by (simp split: if_splits)
  have t: "tj_Marshal (iss_token p0) p = Inr raw \<Longrightarrow> tj_Unmarshal (iss_token p0) raw = Inr p" for p raw
    by (simp add: iss_token_def split: if_splits)
  have e: "cx_id iss_env \<noteq> Inr []" "cx_secret iss_env \<noteq> Inr []" "0 < cx_now iss_env" by (simp_all add: iss_env_def)
  have sha: "pk_sha256 (dv_pki iss_denv) s \<noteq> []" for s by (simp add: demo_pki_def)
  from issued_token_lifetime [OF h m j t ne e(1,2) sha e(3)] h show ?thesis by (auto simp: iss_env_def)
qed

end
