(* ===== verification/Handlers.thy ===== *)
theory Handlers
  imports Enroll
begin

text \<open>
  \<open>registerHandlers\<close> of \<open>internal/daemon/handlers.go\<close>: the RPC methods of the daemon on the
  transport server. The state the handlers work on is the daemon together with the number of
  handler runs so far, which selects what the next run sees (\<open>nat \<Rightarrow> handler_env\<close>: clocks, outcomes
  of system calls, answers of other nodes), and a log of what the runs sent out.
\<close>

section \<open>What a handler run sees and does\<close>

record rpc_json =
  rj_Enroll :: "string \<Rightarrow> err + EnrollRequest"
  rj_Heartbeat :: "string \<Rightarrow> err + HeartbeatRequest"
  rj_Apply :: "string \<Rightarrow> err + ApplyClusterCfgRequest"
  rj_Propose :: "string \<Rightarrow> err + ProposeMutationRequest"
  rj_Report :: "string \<Rightarrow> err + ReportResultRequest"
  rp_Ping :: "PingResponse \<Rightarrow> err + string"
  rp_WhoAmI :: "WhoAmIResponse \<Rightarrow> err + string"
  rp_Join :: "JoinResponse \<Rightarrow> err + string"
  rp_Enroll :: "EnrollResponse \<Rightarrow> err + string"
  rp_Heartbeat :: "HeartbeatResponse \<Rightarrow> err + string"
  rp_GetClusterCfg :: "GetClusterCfgResponse \<Rightarrow> err + string"
  rp_Apply :: "ApplyClusterCfgResponse \<Rightarrow> err + string"
  rp_Propose :: "ProposeMutationResponse \<Rightarrow> err + string"
  rp_Report :: "err + string"
  rp_Status :: "StatusResponse \<Rightarrow> err + string"

record handler_env =
  he_now :: gotime
  he_mark :: gotime
  he_live :: gotime
  he_elect :: gotime
  he_mut :: mut_env
  he_pull :: "string \<Rightarrow> string \<Rightarrow> err + GetClusterCfgResponse"
  he_enroll :: enroll_env
  he_agg :: agg_env
  he_status :: status_env

text \<open>What leaves the process besides the answer: snapshots broadcast to peers, alert messages, and
  the pull from a peer that the version observer made.\<close>

datatype effect =
    Sent outbox
  | Alerted "(Alert \<times> Message \<times> err option) list"
  | Observed "string \<times> string \<times> 64 word"

record serving =
  sg_daemon :: daemon
  sg_turn :: nat
  sg_log :: "effect list"

type_synonym run_result = "handler_result \<times> daemon \<times> effect list"

definition handler :: "(nat \<Rightarrow> handler_env) \<Rightarrow> (handler_env \<Rightarrow> string \<Rightarrow> daemon \<Rightarrow> run_result) \<Rightarrow> serving handler" where
  "handler H body peer raw s =
     (case body (H (sg_turn s)) raw (sg_daemon s) of
        (r, d', eff) \<Rightarrow> (r, s\<lparr>sg_daemon := d', sg_turn := Suc (sg_turn s), sg_log := sg_log s @ eff\<rparr>))"

definition sent_effect :: "outbox \<Rightarrow> effect list" where
  "sent_effect out = (if out = [] then [] else [Sent out])"

section \<open>The methods\<close>

definition serve_Ping :: "rpc_json \<Rightarrow> handler_env \<Rightarrow> string \<Rightarrow> daemon \<Rightarrow> run_result" where
  "serve_Ping J h raw d = (Inr (Some (rp_Ping J \<lparr>pr_NodeID = self_of d, pr_Now = he_now h\<rparr>)), d, [])"

definition serve_WhoAmI :: "daemon_env \<Rightarrow> rpc_json \<Rightarrow> handler_env \<Rightarrow> string \<Rightarrow> daemon \<Rightarrow> run_result" where
  "serve_WhoAmI D J h raw d =
     (case FingerprintFromCertPEM (dv_pki D) (d_cert d) of
        Inl e \<Rightarrow> (Inl e, d, [])
      | Inr fp \<Rightarrow> (Inr (Some (rp_WhoAmI J \<lparr>wr_NodeID = self_of d, wr_Advertise = AdvertiseAddr (d_node d),
                                       wr_Fingerprint = fp, wr_CertPEM = d_cert d\<rparr>)), d, []))"

definition serve_Join :: "rpc_json \<Rightarrow> handler_env \<Rightarrow> string \<Rightarrow> daemon \<Rightarrow> run_result" where
  "serve_Join J h raw d =
     (Inr (Some (rp_Join J \<lparr>jp_Accepted = False,
        jp_Error = ''cluster-secret join is no longer supported '' @ emdash @
          '' issue a pre-deployment token with `qu enroll create` and run `qu enroll join <token>` on the new host''\<rparr>)), d, [])"

definition serve_Enroll :: "daemon_env \<Rightarrow> rpc_json \<Rightarrow> handler_env \<Rightarrow> string \<Rightarrow> daemon \<Rightarrow> run_result" where
  "serve_Enroll D J h raw d =
     (case rj_Enroll J raw of
        Inl e \<Rightarrow> (Inr (Some (rp_Enroll J (enroll_error (''decode: '' @ err_text e)))), d, [])
      | Inr req \<Rightarrow>
         (case handleEnroll D (he_enroll h) req d of
            (resp, d', out) \<Rightarrow> (Inr (Some (rp_Enroll J resp)), d', sent_effect out)))"

definition serve_Heartbeat :: "daemon_env \<Rightarrow> rpc_json \<Rightarrow> handler_env \<Rightarrow> string \<Rightarrow> daemon \<Rightarrow> run_result" where
  "serve_Heartbeat D J h raw d =
     (case rj_Heartbeat J raw of
        Inl e \<Rightarrow> (Inl e, d, [])
      | Inr req \<Rightarrow>
         (case daemon_heartbeat D (he_mut h) (he_pull h) (he_mark h) (he_live h) (he_elect h) req d of
            (resp, note, d') \<Rightarrow>
              (Inr (Some (rp_Heartbeat J resp)), d', (case note of None \<Rightarrow> [] | Some n \<Rightarrow> [Observed n]))))"

definition serve_GetClusterCfg :: "rpc_json \<Rightarrow> handler_env \<Rightarrow> string \<Rightarrow> daemon \<Rightarrow> run_result" where
  "serve_GetClusterCfg J h raw d = (Inr (Some (rp_GetClusterCfg J (HandleGetClusterCfg (d_cfg d)))), d, [])"

definition serve_ApplyClusterCfg :: "daemon_env \<Rightarrow> rpc_json \<Rightarrow> handler_env \<Rightarrow> string \<Rightarrow> daemon \<Rightarrow> run_result" where
  "serve_ApplyClusterCfg D J h raw d =
     (case rj_Apply J raw of
        Inl e \<Rightarrow> (Inl e, d, [])
      | Inr req \<Rightarrow> (case daemon_apply D (he_mut h) req d of (resp, d') \<Rightarrow> (Inr (Some (rp_Apply J resp)), d', [])))"

definition serve_ProposeMutation :: "daemon_env \<Rightarrow> rpc_json \<Rightarrow> handler_env \<Rightarrow> string \<Rightarrow> daemon \<Rightarrow> run_result" where
  "serve_ProposeMutation D J h raw d =
     (case rj_Propose J raw of
        Inl e \<Rightarrow> (Inl e, d, [])
      | Inr req \<Rightarrow>
         (case daemon_propose D (he_mut h) req d of
            (resp, d', out) \<Rightarrow> (Inr (Some (rp_Propose J resp)), d', sent_effect out)))"

definition serve_ReportResult :: "rpc_json \<Rightarrow> handler_env \<Rightarrow> string \<Rightarrow> daemon \<Rightarrow> run_result" where
  "serve_ReportResult J h raw d =
     (case rj_Report J raw of
        Inl e \<Rightarrow> (Inl e, d, [])
      | Inr req \<Rightarrow> (case handle_report (he_agg h) req d of (sent, d') \<Rightarrow> (Inr (Some (rp_Report J)), d', [Alerted sent])))"

definition serve_Status :: "rpc_json \<Rightarrow> handler_env \<Rightarrow> string \<Rightarrow> daemon \<Rightarrow> run_result" where
  "serve_Status J h raw d = (Inr (Some (rp_Status J (buildStatus (he_status h) d))), d, [])"

definition registerHandlers :: "daemon_env \<Rightarrow> rpc_json \<Rightarrow> (nat \<Rightarrow> handler_env) \<Rightarrow> serving server \<Rightarrow> serving server" where
  "registerHandlers D J H sv0 =
     (let sv1 = Handle MethodPing (handler H (serve_Ping J)) sv0;
          sv2 = Handle MethodWhoAmI (handler H (serve_WhoAmI D J)) sv1;
          sv3 = Handle MethodJoin (handler H (serve_Join J)) sv2;
          sv4 = Handle MethodEnroll (handler H (serve_Enroll D J)) sv3;
          sv5 = Handle MethodHeartbeat (handler H (serve_Heartbeat D J)) sv4;
          sv6 = Handle MethodGetClusterCfg (handler H (serve_GetClusterCfg J)) sv5;
          sv7 = Handle MethodApplyClusterCfg (handler H (serve_ApplyClusterCfg D J)) sv6;
          sv8 = Handle MethodProposeMutation (handler H (serve_ProposeMutation D J)) sv7;
          sv9 = Handle MethodReportResult (handler H (serve_ReportResult J)) sv8
      in Handle MethodStatus (handler H (serve_Status J)) sv9)"

definition rpc_server :: "daemon_env \<Rightarrow> rpc_json \<Rightarrow> (nat \<Rightarrow> handler_env) \<Rightarrow> (string \<Rightarrow> err + requestEnvelope) \<Rightarrow> serving server" where
  "rpc_server D J H dec =
     registerHandlers D J H \<lparr>sv_handlers = (\<lambda>_. None), sv_decode = dec, sv_trust = (\<lambda>s. d_trust (sg_daemon s))\<rparr>"

section \<open>Lookup in the dispatch table\<close>

lemma rpc_server_simps [simp]:
  "sv_decode (rpc_server D J H dec) = dec" "sv_trust (rpc_server D J H dec) s = d_trust (sg_daemon s)"
  by (simp_all add: rpc_server_def registerHandlers_def Handle_def Let_def)

lemma rpc_server_methods:
  "sv_handlers (rpc_server D J H dec) MethodJoin = Some (handler H (serve_Join J))"
  "sv_handlers (rpc_server D J H dec) MethodEnroll = Some (handler H (serve_Enroll D J))"
  "sv_handlers (rpc_server D J H dec) MethodApplyClusterCfg = Some (handler H (serve_ApplyClusterCfg D J))"
  "sv_handlers (rpc_server D J H dec) MethodHeartbeat = Some (handler H (serve_Heartbeat D J))"
  "sv_handlers (rpc_server D J H dec) MethodReportResult = Some (handler H (serve_ReportResult J))"
  by (simp_all add: rpc_server_def registerHandlers_def Handle_def Let_def tag_defs)

section \<open>Strangers\<close>

text \<open>The parameters of an \<open>Enroll\<close> request that name no outstanding token with a matching secret.\<close>

definition tokenless :: "daemon_env \<Rightarrow> rpc_json \<Rightarrow> ClusterConfig \<Rightarrow> string \<Rightarrow> bool" where
  "tokenless D J c raw =
     (case rj_Enroll J raw of
        Inl e \<Rightarrow> True
      | Inr req \<Rightarrow> (case FindEnrollmentByID c (er_TokenID req) of
                      None \<Rightarrow> True
                    | Some entry \<Rightarrow> \<not> verifyEnrollSecret (dv_pki D) (er_TokenSecret req) (pe_SecretHash entry)))"

definition stranger_round :: "daemon_env \<Rightarrow> rpc_json \<Rightarrow> (string \<Rightarrow> err + requestEnvelope) \<Rightarrow> ClusterConfig \<Rightarrow> round \<Rightarrow> bool" where
  "stranger_round D J dec c r =
     (case rd_frame r of
        Inl e \<Rightarrow> True
      | Inr body \<Rightarrow> (case dec body of
                       Inl e \<Rightarrow> True
                     | Inr req \<Rightarrow> req_Method req = MethodEnroll \<longrightarrow> tokenless D J c (req_Params req)))"

text \<open>An answer that refuses: an error, or the body of a refused \<open>Enroll\<close> or \<open>Join\<close>.\<close>

definition refusal :: "rpc_json \<Rightarrow> responseEnvelope \<Rightarrow> bool" where
  "refusal J a \<longleftrightarrow> resp_Error a \<noteq> None \<or>
     (\<exists>raw msg. resp_Result a = Some raw \<and>
        (rp_Enroll J (enroll_error msg) = Inr raw \<or> rp_Join J \<lparr>jp_Accepted = False, jp_Error = msg\<rparr> = Inr raw))"

lemma refusal_error [simp]: "refusal J (writeError i e)"
  by (simp add: refusal_def writeError_def)

lemma refusal_result: "rp = rp_Enroll J (enroll_error msg) \<or> rp = rp_Join J \<lparr>jp_Accepted = False, jp_Error = msg\<rparr> \<Longrightarrow>
    refusal J (writeResult i (Some rp))"
  by (cases rp) (auto simp: refusal_def writeResult_def writeError_def)

lemma tokenless_check:
  assumes "tokenless D J c raw" and "rj_Enroll J raw = Inr req"
  shows "\<exists>msg. enroll_check D now req c = Inl msg"
proof (cases "enroll_check D now req c")
  case (Inr entry)
  with assms show ?thesis by (simp add: enroll_check_ok tokenless_def)
qed simp

lemma stranger_enroll:
  assumes "tokenless D J (cs_cfg (d_cfg d)) raw" and "serve_Enroll D J h raw d = (r, d', eff)"
  shows "d' = d \<and> eff = [] \<and> (\<exists>msg. r = Inr (Some (rp_Enroll J (enroll_error msg))))"
proof (cases "rj_Enroll J raw")
  case (Inl e)
  with assms(2) show ?thesis by (auto simp: serve_Enroll_def)
next
  case (Inr req)
  obtain msg where "enroll_check D (ee_check (he_enroll h)) req (cs_cfg (d_cfg d)) = Inl msg"
    using tokenless_check [OF assms(1) Inr] by blast
  with assms(2) Inr show ?thesis by (auto simp: serve_Enroll_def handleEnroll_def sent_effect_def)
qed

lemma stranger_request:
  assumes req: "serve_request (rpc_server D J H dec) ord peerID fp False ok req s = (resp, call, continue, trusted', s1)"
    and gate: "\<not> peerTrusted ord fp (d_trust (sg_daemon s))"
    and enroll: "req_Method req = MethodEnroll \<Longrightarrow> tokenless D J (cs_cfg (d_cfg (sg_daemon s))) (req_Params req)"
  shows "sg_daemon s1 = sg_daemon s \<and> sg_log s1 = sg_log s \<and> \<not> trusted' \<and> refusal J resp"
proof -
  consider (gated) "req_Method req \<noteq> MethodJoin \<and> req_Method req \<noteq> MethodEnroll"
    | (join) "req_Method req = MethodJoin" | (enroll) "req_Method req = MethodEnroll" by blast
  then show ?thesis
  proof cases
    case gated
    with req show ?thesis by (auto simp: serve_request_def)
  next
    case join
    with req gate refusal_result show ?thesis
      by (auto simp: serve_request_def rpc_server_methods handler_def serve_Join_def split: if_splits)
  next
    case enroll
    obtain r d' eff where run: "serve_Enroll D J (H (sg_turn s)) (req_Params req) (sg_daemon s) = (r, d', eff)"
      by (metis prod_cases3)
    from stranger_enroll [OF assms(3) [OF enroll] run] obtain msg where
      "d' = sg_daemon s" "eff = []" "r = Inr (Some (rp_Enroll J (enroll_error msg)))" by blast
    with req gate enroll run refusal_result show ?thesis
      by (auto simp: serve_request_def rpc_server_methods handler_def split: if_splits)
  qed
qed

lemma stranger_rounds:
  assumes "serve_rounds (rpc_server D J H dec) ord peerID fp False rounds s = (out, calls, s')"
    and "\<not> peerTrusted ord fp (d_trust (sg_daemon s))"
    and "list_all (stranger_round D J dec (cs_cfg (d_cfg (sg_daemon s)))) rounds"
  shows "sg_daemon s' = sg_daemon s \<and> sg_log s' = sg_log s \<and> list_all (refusal J) out"
  using assms
proof (induction rounds arbitrary: s out calls s')
  case Nil
  then show ?case by simp
next
  case (Cons r rs)
  show ?case
  proof (cases "\<exists>body req. rd_frame r = Inr body \<and> dec body = Inr req")
    case False
    with Cons.prems(1) show ?thesis by (auto simp: serve_rounds.simps(2) split: sum.splits)
  next
    case True
    then obtain body req where fr: "rd_frame r = Inr body" "dec body = Inr req" by blast
    obtain resp call continue trusted' s1
      where q: "serve_request (rpc_server D J H dec) ord peerID fp False (rd_write_ok r) req s = (resp, call, continue, trusted', s1)"
      by (metis prod_cases5)
    have "req_Method req = MethodEnroll \<Longrightarrow> tokenless D J (cs_cfg (d_cfg (sg_daemon s))) (req_Params req)"
      using Cons.prems(3) fr by (simp add: stranger_round_def)
    note step = stranger_request [OF q Cons.prems(2) this]
    obtain out2 calls2 s2 where rec: "serve_rounds (rpc_server D J H dec) ord peerID fp False rs s1 = (out2, calls2, s2)"
      by (metis prod_cases3)
    have "sg_daemon s2 = sg_daemon s1 \<and> sg_log s2 = sg_log s1 \<and> list_all (refusal J) out2"
      by (rule Cons.IH [OF rec]) (use Cons.prems step in simp_all)
    with Cons.prems(1) fr q rec step show ?thesis
      by (cases continue) (auto simp: serve_rounds.simps(2))
  qed
qed

text \<open>C2. A stranger without a token can do nothing. On a connection whose peer is not in the trust
  store, where no \<open>Enroll\<close> request presents the ID of an outstanding token together with a secret
  that matches it, whatever frames arrive in whatever order: no part of the daemon's state changes,
  nothing is sent to other nodes, no alert goes out, and every answer is a refusal.\<close>

theorem stranger_changes_nothing:
  assumes "handleConn (rpc_server D J H dec) ord (dv_pki D) certs rounds s = (out, calls, s')"
    and "\<not> peerTrusted ord (peerFingerprintFromConnState (dv_pki D) certs) (d_trust (sg_daemon s))"
    and "list_all (stranger_round D J dec (cs_cfg (d_cfg (sg_daemon s)))) rounds"
  shows "sg_daemon s' = sg_daemon s \<and> sg_log s' = sg_log s \<and> list_all (refusal J) out"
proof -
  have "serve_rounds (rpc_server D J H dec) ord (peerNodeIDFromConnState certs)
      (peerFingerprintFromConnState (dv_pki D) certs) False rounds s = (out, calls, s')"
    using assms(1,2) by (simp add: handleConn_def Let_def)
  from stranger_rounds [OF this assms(2,3)] show ?thesis .
qed

definition guess_json :: rpc_json where
  "guess_json = \<lparr>rj_Enroll = (\<lambda>s. Inr (enr_req\<lparr>er_TokenSecret := s\<rparr>)), rj_Heartbeat = (\<lambda>_. Inl (ErrLib ''json'')),
     rj_Apply = (\<lambda>_. Inl (ErrLib ''json'')), rj_Propose = (\<lambda>_. Inl (ErrLib ''json'')), rj_Report = (\<lambda>_. Inl (ErrLib ''json'')),
     rp_Ping = (\<lambda>_. Inr ''ping''), rp_WhoAmI = (\<lambda>_. Inr ''who''), rp_Join = (\<lambda>_. Inr ''join''), rp_Enroll = (\<lambda>r. Inr (en_Error r)),
     rp_Heartbeat = (\<lambda>_. Inr ''beat''), rp_GetClusterCfg = (\<lambda>_. Inr ''cfg''), rp_Apply = (\<lambda>_. Inr ''applied''),
     rp_Propose = (\<lambda>_. Inr ''proposed''), rp_Report = Inr [], rp_Status = (\<lambda>_. Inr ''status'')\<rparr>"

text \<open>Envelopes \<open>S\<close> (a \<open>Status\<close> call) and \<open>E\<close> (an \<open>Enroll\<close> call with a guessed secret).\<close>

definition guess_decode :: "string \<Rightarrow> err + requestEnvelope" where
  "guess_decode b = (if b = ''S'' then Inr \<lparr>req_ID = 1, req_Method = MethodStatus, req_Params = []\<rparr>
     else if b = ''E'' then Inr \<lparr>req_ID = 2, req_Method = MethodEnroll, req_Params = ''guess''\<rparr>
     else Inl (ErrLib ''json''))"

definition guess_rounds :: "round list" where
  "guess_rounds = [\<lparr>rd_frame = Inr ''S'', rd_write_ok = True\<rparr>, \<lparr>rd_frame = Inr ''E'', rd_write_ok = True\<rparr>]"

definition guess_start :: serving where
  "guess_start = \<lparr>sg_daemon = demo_daemon ''a'' enr_start, sg_turn = 0, sg_log = []\<rparr>"

lemma guess_tokenless: "tokenless enr_denv guess_json (cs_cfg enr_start) ''guess''"
  by (simp add: tokenless_def guess_json_def enr_req_def enr_start_def enr_entry_def FindEnrollmentByID_def
      demo_pki_def secret_verifies)

theorem stranger_changes_nothing_witness:
  "\<forall>H. \<exists>out calls s'. handleConn (rpc_server enr_denv guess_json H guess_decode) rev demo_pki [] guess_rounds guess_start = (out, calls, s') \<and>
     sg_daemon s' = demo_daemon ''a'' enr_start \<and> sg_log s' = []"
proof
  fix H
  obtain out calls s' where run: "handleConn (rpc_server enr_denv guess_json H guess_decode) rev (dv_pki enr_denv) [] guess_rounds guess_start = (out, calls, s')"
    by (metis prod_cases3)
  have gate: "\<not> peerTrusted rev (peerFingerprintFromConnState (dv_pki enr_denv) []) (d_trust (sg_daemon guess_start))"
    by (simp add: peerTrusted_def peerFingerprintFromConnState_def)
  have "list_all (stranger_round enr_denv guess_json guess_decode (cs_cfg (d_cfg (sg_daemon guess_start)))) guess_rounds"
    using guess_tokenless by (simp add: guess_rounds_def guess_start_def stranger_round_def guess_decode_def tag_defs)
  from stranger_changes_nothing [OF run gate this] run show
    "\<exists>out calls s'. handleConn (rpc_server enr_denv guess_json H guess_decode) rev demo_pki [] guess_rounds guess_start = (out, calls, s') \<and>
       sg_daemon s' = demo_daemon ''a'' enr_start \<and> sg_log s' = []"
    by (auto simp: guess_start_def)
qed

end
