(* ===== verification/Control.thy ===== *)
theory Control
  imports Handlers
begin

text \<open>
  The control socket of \<open>internal/daemon/control.go\<close>: its frames, binding the socket, and
  \<open>dispatch\<close>, the commands the CLI sends to the local daemon. The commands act on the daemon of
  \<open>Daemon\<close>; JSON coding of requests, bodies and results is a parameter record, and \<open>control_env\<close>
  holds what one command sees (clocks, outcomes of system calls, answers of other nodes, the
  notification channels).
\<close>

section \<open>Names and payloads\<close>

definition controlMaxFrame :: nat where "controlMaxFrame = 16 * 1024 * 1024"

definition CtrlStatus :: string where [tag_defs]: "CtrlStatus = ''status''"
definition CtrlMutate :: string where [tag_defs]: "CtrlMutate = ''mutate''"
definition CtrlNodeRemove :: string where [tag_defs]: "CtrlNodeRemove = ''node.remove''"
definition CtrlTrustList :: string where [tag_defs]: "CtrlTrustList = ''trust.list''"
definition CtrlTrustRemove :: string where [tag_defs]: "CtrlTrustRemove = ''trust.remove''"
definition CtrlAlertTest :: string where [tag_defs]: "CtrlAlertTest = ''alert.test''"
definition CtrlCheckTest :: string where [tag_defs]: "CtrlCheckTest = ''check.test''"
definition CtrlEnrollCreate :: string where [tag_defs]: "CtrlEnrollCreate = ''enroll.create''"
definition CtrlEnrollList :: string where [tag_defs]: "CtrlEnrollList = ''enroll.list''"
definition CtrlEnrollApprove :: string where [tag_defs]: "CtrlEnrollApprove = ''enroll.approve''"
definition CtrlEnrollRevoke :: string where [tag_defs]: "CtrlEnrollRevoke = ''enroll.revoke''"

record CtrlRequest =
  cr_Method :: string
  cr_Body :: string

record CtrlResponse =
  cp_Error :: string
  cp_Body :: string

record MutateBody =
  mb_Kind :: MutationKind
  mb_Payload :: string

record CheckTestBody =
  ct_CheckID :: string
  ct_State :: string

text \<open>The decoders of the bodies (those with a single string field deliver it), and the encoders of
  the results. \<open>cj_RawPayload\<close> is what marshalling a \<open>json.RawMessage\<close> gives.\<close>

record control_json =
  cj_Request :: "string \<Rightarrow> err + CtrlRequest"
  cj_Response :: "CtrlResponse \<Rightarrow> err + string"
  cj_Mutate :: "string \<Rightarrow> err + MutateBody"
  cj_RawPayload :: "string \<Rightarrow> err + string"
  cj_Node :: "string \<Rightarrow> err + string"
  cj_AlertTest :: "string \<Rightarrow> err + string"
  cj_CheckTest :: "string \<Rightarrow> err + CheckTestBody"
  cj_EnrollCreate :: "string \<Rightarrow> err + EnrollCreateBody"
  cj_EnrollTarget :: "string \<Rightarrow> err + string"
  ce_Status :: "StatusResponse \<Rightarrow> err + string"
  ce_Version :: "64 word \<Rightarrow> err + string"
  ce_Trust :: "trust_entry list \<Rightarrow> err + string"
  ce_Removed :: "bool \<Rightarrow> err + string"
  ce_Sent :: "err + string"
  ce_Created :: "EnrollCreateResult \<Rightarrow> err + string"
  ce_List :: "EnrollListEntry list \<Rightarrow> err + string"

record control_env =
  co_status :: status_env
  co_master_status :: "string \<Rightarrow> string \<Rightarrow> err + StatusResponse"
  co_mut :: mut_env
  co_trust :: write_env
  co_exec :: template_engine
  co_channels :: channels
  co_when :: string
  co_in_week :: string
  co_create :: create_env

section \<open>dispatch\<close>

definition ctrl_ok :: "err + string \<Rightarrow> CtrlResponse" where
  "ctrl_ok v = (case v of Inl e \<Rightarrow> \<lparr>cp_Error = err_text e, cp_Body = []\<rparr> | Inr raw \<Rightarrow> \<lparr>cp_Error = [], cp_Body = raw\<rparr>)"

definition ctrl_fail :: "err \<Rightarrow> CtrlResponse" where
  "ctrl_fail e = \<lparr>cp_Error = err_text e, cp_Body = []\<rparr>"

type_synonym ctrl_result = "CtrlResponse \<times> daemon \<times> effect list"

text \<open>\<open>var body T; if err := json.Unmarshal(req.Body, &body); err != nil { return fail(err) }\<close>\<close>

definition with_body :: "err + 'a \<Rightarrow> daemon \<Rightarrow> ('a \<Rightarrow> ctrl_result) \<Rightarrow> ctrl_result" where
  "with_body b d k = (case b of Inl e \<Rightarrow> (ctrl_fail e, d, []) | Inr v \<Rightarrow> k v)"

text \<open>A mutation answered with the new version: \<open>mutate\<close>, \<open>enroll.approve\<close>, \<open>enroll.revoke\<close>.\<close>

definition ctrl_mutation ::
  "daemon_env \<Rightarrow> control_json \<Rightarrow> control_env \<Rightarrow> MutationKind \<Rightarrow> err + string \<Rightarrow> daemon \<Rightarrow> ctrl_result" where
  "ctrl_mutation D J co kind payload d =
     (case daemon_mutate D (co_mut co) kind payload d of
        (Inl e, d', out) \<Rightarrow> (ctrl_fail e, d', sent_effect out)
      | (Inr ver, d', out) \<Rightarrow> (ctrl_ok (ce_Version J ver), d', sent_effect out))"

definition ctrl_node_remove :: "daemon_env \<Rightarrow> control_json \<Rightarrow> control_env \<Rightarrow> string \<Rightarrow> daemon \<Rightarrow> ctrl_result" where
  "ctrl_node_remove D J co nodeID d =
     (case daemon_mutate D (co_mut co) MutationRemovePeer (jm_Target (dv_enc D) nodeID) d of
        (Inl e, d', out) \<Rightarrow> (ctrl_fail e, d', sent_effect out)
      | (Inr ver, d', out) \<Rightarrow>
         (case trust_Remove (dv_tyaml D) (dv_os D) (dv_ord D) (co_trust co) nodeID (d_trust d') of
            ((removed, Some e), t) \<Rightarrow> (ctrl_fail e, d'\<lparr>d_trust := t\<rparr>, sent_effect out)
          | ((removed, None), t) \<Rightarrow> (ctrl_ok (ce_Version J ver), d'\<lparr>d_trust := t\<rparr>, sent_effect out)))"

definition ctrl_trust_remove :: "daemon_env \<Rightarrow> control_json \<Rightarrow> control_env \<Rightarrow> string \<Rightarrow> daemon \<Rightarrow> ctrl_result" where
  "ctrl_trust_remove D J co nodeID d =
     (case trust_Remove (dv_tyaml D) (dv_os D) (dv_ord D) (co_trust co) nodeID (d_trust d) of
        ((removed, Some e), t) \<Rightarrow> (ctrl_fail e, d\<lparr>d_trust := t\<rparr>, [])
      | ((removed, None), t) \<Rightarrow> (ctrl_ok (ce_Removed J removed), d\<lparr>d_trust := t\<rparr>, []))"

definition ctrl_alert_test :: "control_json \<Rightarrow> control_env \<Rightarrow> string \<Rightarrow> daemon \<Rightarrow> ctrl_result" where
  "ctrl_alert_test J co alertID d =
     (case Test_alert (co_exec co) (co_channels co) (co_when co) (self_of d) (cs_cfg (d_cfg d)) alertID of
        (sent, Some e) \<Rightarrow> (ctrl_fail e, d, [Alerted (map (\<lambda>(a, m). (a, m, Some e)) sent)])
      | (sent, None) \<Rightarrow> (ctrl_ok (ce_Sent J), d, [Alerted (map (\<lambda>(a, m). (a, m, None)) sent)]))"

definition ctrl_check_test :: "control_json \<Rightarrow> control_env \<Rightarrow> CheckTestBody \<Rightarrow> daemon \<Rightarrow> ctrl_result" where
  "ctrl_check_test J co body d =
     (case TestCheck (co_exec co) (co_channels co) (co_when co) (co_in_week co) (self_of d) (cs_cfg (d_cfg d))
             (ct_CheckID body) (ct_State body) of
        (sent, Some e) \<Rightarrow> (ctrl_fail e, d, [Alerted sent])
      | (sent, None) \<Rightarrow> (ctrl_ok (ce_Sent J), d, [Alerted sent]))"

definition ctrl_enroll_create ::
  "daemon_env \<Rightarrow> token_json \<Rightarrow> control_json \<Rightarrow> control_env \<Rightarrow> EnrollCreateBody \<Rightarrow> daemon \<Rightarrow> ctrl_result" where
  "ctrl_enroll_create D T J co body d =
     (case enrollCreate D T (co_create co) body d of
        (Inl e, d', out) \<Rightarrow> (ctrl_fail e, d', sent_effect out)
      | (Inr res, d', out) \<Rightarrow> (ctrl_ok (ce_Created J res), d', sent_effect out))"

definition dispatch ::
  "daemon_env \<Rightarrow> token_json \<Rightarrow> control_json \<Rightarrow> control_env \<Rightarrow> CtrlRequest \<Rightarrow> daemon \<Rightarrow> ctrl_result" where
  "dispatch D T J co req d =
     (let m = cr_Method req; b = cr_Body req in
      if m = CtrlStatus then (ctrl_ok (ce_Status J (buildStatusForCLI (co_status co) (co_master_status co) d)), d, [])
      else if m = CtrlMutate then
        with_body (cj_Mutate J b) d (\<lambda>body. ctrl_mutation D J co (mb_Kind body) (cj_RawPayload J (mb_Payload body)) d)
      else if m = CtrlNodeRemove then with_body (cj_Node J b) d (\<lambda>n. ctrl_node_remove D J co n d)
      else if m = CtrlTrustList then (ctrl_ok (ce_Trust J (trust_List (dv_ord D) (d_trust d))), d, [])
      else if m = CtrlTrustRemove then with_body (cj_Node J b) d (\<lambda>n. ctrl_trust_remove D J co n d)
      else if m = CtrlAlertTest then with_body (cj_AlertTest J b) d (\<lambda>i. ctrl_alert_test J co i d)
      else if m = CtrlCheckTest then with_body (cj_CheckTest J b) d (\<lambda>body. ctrl_check_test J co body d)
      else if m = CtrlEnrollCreate then with_body (cj_EnrollCreate J b) d (\<lambda>body. ctrl_enroll_create D T J co body d)
      else if m = CtrlEnrollList then (ctrl_ok (ce_List J (enrollList d)), d, [])
      else if m = CtrlEnrollApprove then
        with_body (cj_EnrollTarget J b) d (\<lambda>i. ctrl_mutation D J co MutationApproveEnrollment (jm_Target (dv_enc D) i) d)
      else if m = CtrlEnrollRevoke then
        with_body (cj_EnrollTarget J b) d (\<lambda>i. ctrl_mutation D J co MutationRemoveEnrollment (jm_Target (dv_enc D) i) d)
      else (\<lparr>cp_Error = ''unknown method: '' @ m, cp_Body = []\<rparr>, d, []))"

section \<open>Connections\<close>

definition readCtrlFrame :: "string \<Rightarrow> (err + string) \<times> string" where
  "readCtrlFrame st =
     (case ReadFull 4 st of
        (Inl e, st') \<Rightarrow> (Inl e, st')
      | (Inr hdr, st') \<Rightarrow>
         (let n = Uint32 hdr in
          if unat n > controlMaxFrame then (Inl (ErrMsg ''control frame too large''), st')
          else ReadFull (unat n) st'))"

definition writeCtrlFrame :: "err option \<Rightarrow> err option \<Rightarrow> string \<Rightarrow> err option \<times> string" where
  "writeCtrlFrame w1 w2 body =
     (if length body > controlMaxFrame then (Some (ErrMsg ''control frame too large''), [])
      else
        (let hdr = PutUint32 (of_nat (length body)) in
         case w1 of
           Some e \<Rightarrow> (Some e, [])
         | None \<Rightarrow> (case w2 of Some e \<Rightarrow> (Some e, hdr) | None \<Rightarrow> (None, hdr @ body))))"

definition writeCtrlResponse :: "control_json \<Rightarrow> err option \<Rightarrow> err option \<Rightarrow> CtrlResponse \<Rightarrow> err option \<times> string" where
  "writeCtrlResponse J w1 w2 resp = (case cj_Response J resp of Inl e \<Rightarrow> (Some e, []) | Inr body \<Rightarrow> writeCtrlFrame w1 w2 body)"

text \<open>\<open>handleConn\<close> of the control server: the bytes written back, the daemon, what was sent.\<close>

definition ctrl_handleConn ::
  "daemon_env \<Rightarrow> token_json \<Rightarrow> control_json \<Rightarrow> control_env \<Rightarrow> err option \<Rightarrow> err option \<Rightarrow> string \<Rightarrow> daemon \<Rightarrow>
     string \<times> daemon \<times> effect list" where
  "ctrl_handleConn D T J co w1 w2 st d =
     (case fst (readCtrlFrame st) of
        Inl e \<Rightarrow> ([], d, [])
      | Inr body \<Rightarrow>
         (case cj_Request J body of
            Inl e \<Rightarrow> (snd (writeCtrlResponse J w1 w2 \<lparr>cp_Error = ''decode: '' @ err_text e, cp_Body = []\<rparr>), d, [])
          | Inr req \<Rightarrow>
             (case dispatch D T J co req d of
                (resp, d', eff) \<Rightarrow> (snd (writeCtrlResponse J w1 w2 resp), d', eff))))"

text \<open>The start of \<open>Serve\<close>: the system calls it makes, up to the first that fails.\<close>

datatype sock_op = OpMkdirAll | OpUnlink | OpListen | OpChmod | OpClose

record sock_env =
  so_mkdir :: "err option"
  so_stale_socket :: bool
  so_listen :: "err option"
  so_chmod :: "err option"

definition Serve_bind :: "sock_env \<Rightarrow> string \<Rightarrow> err option \<times> sock_op list" where
  "Serve_bind so sockPath =
     (case so_mkdir so of
        Some e \<Rightarrow> (Some (ErrWrap ''control socket dir'' e), [OpMkdirAll])
      | None \<Rightarrow>
         (let ops = OpMkdirAll # (if so_stale_socket so then [OpUnlink] else []) in
          case so_listen so of
            Some e \<Rightarrow> (Some (ErrWrap (''listen '' @ sockPath) e), ops @ [OpListen])
          | None \<Rightarrow>
             (case so_chmod so of
                Some e \<Rightarrow> (Some (ErrWrap (''chmod '' @ sockPath) e), ops @ [OpListen, OpChmod, OpClose])
              | None \<Rightarrow> (None, ops @ [OpListen, OpChmod]))))"

lemma readCtrlFrame_written:
  assumes "writeCtrlFrame None None body = (None, out)"
  shows "readCtrlFrame (out @ rest) = (Inr body, rest)"
proof -
  have len: "length body \<le> MaxFrameSize" and out: "out = frame body"
    using assms by (auto simp: writeCtrlFrame_def controlMaxFrame_def MaxFrameSize_def frame_def Let_def split: if_splits)
  have "unat (Uint32 (PutUint32 (of_nat (length body)))) \<le> controlMaxFrame"
    using len by (simp add: unat_len controlMaxFrame_def MaxFrameSize_def)
  then show ?thesis
    using unat_len [OF len] by (simp add: readCtrlFrame_def out frame_def ReadFull_def Let_def)
qed

section \<open>The client side\<close>

text \<open>\<open>callDaemon\<close> of \<open>internal/cli/client.go\<close>. The client's frames have no size limit of their own. \<open>server\<close> is what the peer of the socket does with
  the bytes written: the bytes it sends back, and its new state.\<close>

definition client_writeFrame :: "err option \<Rightarrow> err option \<Rightarrow> string \<Rightarrow> err option \<times> string" where
  "client_writeFrame w1 w2 body =
     (let hdr = PutUint32 (of_nat (length body)) in
      case w1 of
        Some e \<Rightarrow> (Some e, [])
      | None \<Rightarrow> (case w2 of Some e \<Rightarrow> (Some e, hdr) | None \<Rightarrow> (None, hdr @ body)))"

definition client_readFrame :: "string \<Rightarrow> (err + string) \<times> string" where
  "client_readFrame st =
     (case ReadFull 4 st of
        (Inl e, st') \<Rightarrow> (Inl e, st')
      | (Inr hdr, st') \<Rightarrow> ReadFull (unat (Uint32 hdr)) st')"

record client_json =
  cc_Request :: "CtrlRequest \<Rightarrow> err + string"
  cc_Response :: "string \<Rightarrow> err + CtrlResponse"

definition dialControl :: "err option \<Rightarrow> string \<Rightarrow> err option" where
  "dialControl dial sock = (case dial of Some e \<Rightarrow> Some (ErrWrap (''dial daemon socket '' @ sock) e) | None \<Rightarrow> None)"

definition callDaemon ::
  "client_json \<Rightarrow> err option \<Rightarrow> err option \<Rightarrow> err option \<Rightarrow> string \<Rightarrow> (string \<Rightarrow> 's \<Rightarrow> string \<times> 's) \<Rightarrow>
     string \<Rightarrow> (err + string) option \<Rightarrow> 's \<Rightarrow> (err + string) \<times> 's" where
  "callDaemon C dial w1 w2 sock server method body s =
     (case (case body of None \<Rightarrow> Inr [] | Some b \<Rightarrow> b) of
        Inl e \<Rightarrow> (Inl e, s)
      | Inr rawBody \<Rightarrow>
         (case cc_Request C \<lparr>cr_Method = method, cr_Body = rawBody\<rparr> of
            Inl e \<Rightarrow> (Inl e, s)
          | Inr reqBytes \<Rightarrow>
             (case dialControl dial sock of
                Some e \<Rightarrow> (Inl e, s)
              | None \<Rightarrow>
                 (case client_writeFrame w1 w2 reqBytes of
                    (Some e, sent) \<Rightarrow> (Inl e, snd (server sent s))
                  | (None, sent) \<Rightarrow>
                     (case server sent s of
                        (back, s') \<Rightarrow>
                          (case fst (client_readFrame back) of
                             Inl e \<Rightarrow> (Inl e, s')
                           | Inr respBytes \<Rightarrow>
                              (case cc_Response C respBytes of
                                 Inl e \<Rightarrow> (Inl e, s')
                               | Inr resp \<Rightarrow> (if cp_Error resp \<noteq> [] then Inl (ErrMsg (cp_Error resp)) else Inr (cp_Body resp), s'))))))))"

text \<open>The copy in \<open>internal/tui/client.go\<close>.\<close>

definition tui_writeFrame :: "err option \<Rightarrow> err option \<Rightarrow> string \<Rightarrow> err option \<times> string" where
  "tui_writeFrame w1 w2 body =
     (let hdr = PutUint32 (of_nat (length body)) in
      if w1 \<noteq> None then (w1, []) else if w2 \<noteq> None then (w2, hdr) else (None, hdr @ body))"

definition tui_readFrame :: "string \<Rightarrow> (err + string) \<times> string" where
  "tui_readFrame st =
     (case ReadFull 4 st of
        (Inl e, st') \<Rightarrow> (Inl e, st')
      | (Inr hdr, st') \<Rightarrow>
         (let n = unat (Uint32 hdr) in
          case ReadFull n st' of (Inl e, st'') \<Rightarrow> (Inl e, st'') | (Inr buf, st'') \<Rightarrow> (Inr buf, st'')))"

definition tui_callDaemon ::
  "client_json \<Rightarrow> err option \<Rightarrow> err option \<Rightarrow> err option \<Rightarrow> string \<Rightarrow> (string \<Rightarrow> 's \<Rightarrow> string \<times> 's) \<Rightarrow>
     string \<Rightarrow> (err + string) option \<Rightarrow> 's \<Rightarrow> (err + string) \<times> 's" where
  "tui_callDaemon C dial w1 w2 sock server method body s =
     (case (case body of None \<Rightarrow> Inr [] | Some b \<Rightarrow> b) of
        Inl e \<Rightarrow> (Inl e, s)
      | Inr rawBody \<Rightarrow>
         (case cc_Request C \<lparr>cr_Method = method, cr_Body = rawBody\<rparr> of
            Inl e \<Rightarrow> (Inl e, s)
          | Inr reqBytes \<Rightarrow>
             (case dial of
                Some e \<Rightarrow> (Inl (ErrWrap (''dial daemon socket '' @ sock) e), s)
              | None \<Rightarrow>
                 (case tui_writeFrame w1 w2 reqBytes of
                    (Some e, sent) \<Rightarrow> (Inl e, snd (server sent s))
                  | (None, sent) \<Rightarrow>
                     (case server sent s of
                        (back, s') \<Rightarrow>
                          (case fst (tui_readFrame back) of
                             Inl e \<Rightarrow> (Inl e, s')
                           | Inr respBytes \<Rightarrow>
                              (case cc_Response C respBytes of
                                 Inl e \<Rightarrow> (Inl e, s')
                               | Inr resp \<Rightarrow> (if cp_Error resp \<noteq> [] then Inl (ErrMsg (cp_Error resp)) else Inr (cp_Body resp), s'))))))))"

lemma tui_frames: "tui_writeFrame = client_writeFrame" "tui_readFrame = client_readFrame"
  by (auto simp: fun_eq_iff tui_writeFrame_def client_writeFrame_def tui_readFrame_def client_readFrame_def Let_def
      split: option.split sum.split prod.split)

lemma tui_callDaemon: "tui_callDaemon = callDaemon"
  by (simp add: fun_eq_iff tui_callDaemon_def callDaemon_def dialControl_def tui_frames split_def split: option.split sum.split)

text \<open>The daemon as the server of one connection.\<close>

definition control_service ::
  "daemon_env \<Rightarrow> token_json \<Rightarrow> control_json \<Rightarrow> control_env \<Rightarrow> string \<Rightarrow> daemon \<times> effect list \<Rightarrow> string \<times> daemon \<times> effect list" where
  "control_service D T J co sent s =
     (case ctrl_handleConn D T J co None None sent (fst s) of (back, d', eff) \<Rightarrow> (back, d', snd s @ eff))"

lemma client_readFrame_frame: "length body < 2 ^ 32 \<Longrightarrow> client_readFrame (frame body @ rest) = (Inr body, rest)"
  by (simp add: client_readFrame_def frame_def ReadFull_def unat_of_nat)

lemma frame_client: "snd (client_writeFrame None None body) = frame body"
  by (simp add: client_writeFrame_def frame_def Let_def)

lemma readCtrlFrame_frame:
  assumes "length body < 2 ^ 32"
  shows "fst (readCtrlFrame (frame body)) = (if length body \<le> controlMaxFrame then Inr body else Inl (ErrMsg ''control frame too large''))"
  using assms by (simp add: readCtrlFrame_def frame_def ReadFull_def unat_of_nat Let_def)

text \<open>The contract between the two ends of the socket: what the client gets back, and what the daemon
  does, is one run of \<open>dispatch\<close>, unless a message exceeds the daemon's limit.\<close>

lemma writeCtrlResponse_frame:
  assumes "cj_Response J resp = Inr body"
  shows "snd (writeCtrlResponse J None None resp) = (if length body \<le> controlMaxFrame then frame body else [])"
  using assms by (simp add: writeCtrlResponse_def writeCtrlFrame_def frame_def Let_def)

lemma client_readFrame_Nil: "fst (client_readFrame []) = Inl (ErrLib ''EOF'')"
  by (simp add: client_readFrame_def ReadFull_def)

text \<open>One exchange, and what the frame limit does to it.\<close>

lemma control_exchange:
  assumes enc: "cc_Request C \<lparr>cr_Method = meth, cr_Body = raw\<rparr> = Inr rq" and dec: "cj_Request J rq = Inr \<lparr>cr_Method = meth, cr_Body = raw\<rparr>"
    and small: "length rq < 2 ^ 32"
    and run: "dispatch D T J co \<lparr>cr_Method = meth, cr_Body = raw\<rparr> d = (resp, d', eff)"
    and out: "cj_Response J resp = Inr rs" and ret: "cc_Response C rs = Inr resp" and rs: "length rs < 2 ^ 32"
  shows "callDaemon C None None None sock (control_service D T J co) meth (Some (Inr raw)) (d, []) =
     (if length rq > controlMaxFrame then (Inl (ErrLib ''EOF''), d, [])
      else if length rs > controlMaxFrame then (Inl (ErrLib ''EOF''), d', eff)
      else (if cp_Error resp \<noteq> [] then Inl (ErrMsg (cp_Error resp)) else Inr (cp_Body resp), d', eff))"
proof -
  have w: "client_writeFrame None None rq = (None, frame rq)" by (simp add: client_writeFrame_def frame_def Let_def)
  have service: "control_service D T J co (frame rq) (d, []) =
      (if length rq > controlMaxFrame then ([], d, [])
       else (if length rs \<le> controlMaxFrame then frame rs else [], d', eff))"
    using dec run readCtrlFrame_frame [OF small] writeCtrlResponse_frame [OF out]
    by (simp add: control_service_def ctrl_handleConn_def)
  show ?thesis
    using enc w service ret client_readFrame_frame [OF rs, of "[]"] client_readFrame_Nil
    by (simp add: callDaemon_def dialControl_def)
qed

section \<open>Properties\<close>

text \<open>C20. A command reaches the daemon and its answer comes back unchanged. For a request whose encoding
  the daemon decodes to the same request, \<open>callDaemon\<close> runs \<open>dispatch\<close> exactly once and returns its
  body or its error; if the answer is larger than the daemon's frame limit the command has still run
  and the client sees the end of the stream; if the request is larger, nothing has run.\<close>

theorem control_call:
  assumes enc: "cc_Request C \<lparr>cr_Method = meth, cr_Body = raw\<rparr> = Inr rq" and dec: "cj_Request J rq = Inr \<lparr>cr_Method = meth, cr_Body = raw\<rparr>"
    and small: "length rq < 2 ^ 32"
    and run: "dispatch D T J co \<lparr>cr_Method = meth, cr_Body = raw\<rparr> d = (resp, d', eff)"
    and out: "cj_Response J resp = Inr rs" and ret: "cc_Response C rs = Inr resp" and rs: "length rs < 2 ^ 32"
  shows "callDaemon C None None None sock (control_service D T J co) meth (Some (Inr raw)) (d, []) =
     (if length rq > controlMaxFrame then (Inl (ErrLib ''EOF''), d, [])
      else if length rs > controlMaxFrame then (Inl (ErrLib ''EOF''), d', eff)
      else (if cp_Error resp \<noteq> [] then Inl (ErrMsg (cp_Error resp)) else Inr (cp_Body resp), d', eff))"
  by (rule control_exchange) (fact assms)+

definition list_json :: control_json where
  "list_json = \<lparr>cj_Request = (\<lambda>s. if s = ''rq'' then Inr \<lparr>cr_Method = CtrlTrustList, cr_Body = ''null''\<rparr> else Inl (ErrLib ''json'')),
     cj_Response = (\<lambda>r. if cp_Error r = [] then Inr ''rs'' else Inl (ErrLib ''json'')), cj_Mutate = (\<lambda>_. Inl (ErrLib ''json'')),
     cj_RawPayload = Inr, cj_Node = Inr, cj_AlertTest = Inr, cj_CheckTest = (\<lambda>_. Inl (ErrLib ''json'')),
     cj_EnrollCreate = (\<lambda>_. Inl (ErrLib ''json'')), cj_EnrollTarget = Inr, ce_Status = (\<lambda>_. Inr ''status''),
     ce_Version = (\<lambda>_. Inr ''version''), ce_Trust = (\<lambda>es. Inr (concat (map te_NodeID es))), ce_Removed = (\<lambda>_. Inr ''removed''),
     ce_Sent = Inr ''sent'', ce_Created = (\<lambda>_. Inr ''created''), ce_List = (\<lambda>_. Inr ''[]'')\<rparr>"

definition list_client :: client_json where
  "list_client = \<lparr>cc_Request = (\<lambda>_. Inr ''rq''), cc_Response = (\<lambda>_. Inr \<lparr>cp_Error = [], cp_Body = ''ba''\<rparr>)\<rparr>"

theorem control_call_witness:
  "\<forall>T co. callDaemon list_client None None None ''qu.sock'' (control_service (demo_denv demo_cluster) T list_json co) CtrlTrustList
      (Some (Inr ''null'')) ((demo_daemon ''a'' demo_members)\<lparr>d_trust := demo_store\<rparr>, []) =
     (Inr ''ba'', (demo_daemon ''a'' demo_members)\<lparr>d_trust := demo_store\<rparr>, [])"
proof (intro allI)
  fix T co
  let ?d = "(demo_daemon ''a'' demo_members)\<lparr>d_trust := demo_store\<rparr>"
  have run: "dispatch (demo_denv demo_cluster) T list_json co \<lparr>cr_Method = CtrlTrustList, cr_Body = ''null''\<rparr> ?d =
      (\<lparr>cp_Error = [], cp_Body = ''ba''\<rparr>, ?d, [])"
    by (simp add: dispatch_def tag_defs list_json_def ctrl_ok_def demo_store_def trust_List_def trust_values_def demo_denv_def demo_entry_def)
  show "callDaemon list_client None None None ''qu.sock'' (control_service (demo_denv demo_cluster) T list_json co) CtrlTrustList
      (Some (Inr ''null'')) (?d, []) = (Inr ''ba'', ?d, [])"
    using control_call [of list_client CtrlTrustList "''null''" "''rq''" list_json, OF _ _ _ run, of "''rs''"]
    by (simp add: list_client_def list_json_def controlMaxFrame_def)
qed

lemma remove_peer_config:
  assumes "daemon_mutate D mu MutationRemovePeer (jm_Target (dv_enc D) n) d = (Inr v, d', out)" and "IsMaster (d_quorum d)"
    and wf: "cfg_wf (cs_cfg (d_cfg d))" and json: "\<And>t raw. jm_Target (dv_enc D) t = Inr raw \<Longrightarrow> js_Target (dv_json D) raw = Inr t"
  shows "row_get pi_NodeID k (cc_Peers (cs_cfg (d_cfg d'))) = (if k = n then None else row_get pi_NodeID k (cc_Peers (cs_cfg (d_cfg d))))"
proof -
  obtain raw c where "js_Target (dv_json D) raw = Inr n"
    and "apply_mutation (dv_json D) MutationRemovePeer raw (cs_cfg (d_cfg d)) = (None, c)"
    and c': "cs_cfg (d_cfg d') = bump (mu_call mu) (self_of d) c"
    using daemon_mutate_master [OF assms(1,2)] json by metis
  then obtain xs where "remove_first (\<lambda>x. pi_NodeID x = n) (cc_Peers (cs_cfg (d_cfg d))) = Some xs" "cc_Peers c = xs"
    by (auto simp: apply_mutation_def decode_def apply_remove_peer_def split: option.splits)
  with wf row_find_remove [of pi_NodeID "cc_Peers (cs_cfg (d_cfg d))" n xs k] show ?thesis
    by (simp add: row_get_def cfg_wf_def c' bump.simps)
qed

lemma trust_Remove_get:
  assumes "trust_Remove L e ord w n st = (r, st')" and "trust_wf (ts_entries st)"
  shows "trust_Get k st' = (if k = n then None else trust_Get k st)" and "trust_wf (ts_entries st')"
  using assms trust_Save_entries [of L e ord w "st\<lparr>ts_entries := AList.delete n (ts_entries st)\<rparr>"]
  by (auto simp: trust_Remove_def trust_Get_def delete_conv' trust_wf_delete split: option.splits prod.splits)

lemma apply_keeps_absent:
  assumes "trust_wf (ts_entries (d_trust d))" and "trust_Get n (d_trust d) = None"
    and "cc_Version (cs_cfg (d_cfg d)) < cc_Version cfg" and "row_get pi_NodeID n (cc_Peers cfg) = None"
  shows "trust_Get n (d_trust (snd (daemon_apply D mu \<lparr>aq_Config = Some cfg\<rparr> d))) = None"
  using evicted_peer_still_trusted [OF assms(1,3,4)] assms(2) by simp

lemma node_remove_ok:
  assumes "ctrl_node_remove D J co n d = (resp, d', eff)" and "cp_Body resp \<noteq> []"
  obtains v d1 out r t where "daemon_mutate D (co_mut co) MutationRemovePeer (jm_Target (dv_enc D) n) d = (Inr v, d1, out)"
    and "trust_Remove (dv_tyaml D) (dv_os D) (dv_ord D) (co_trust co) n (d_trust d1) = (r, t)"
    and "d' = d1\<lparr>d_trust := t\<rparr>" and "resp = ctrl_ok (ce_Version J v)"
  using assms by (auto simp: ctrl_node_remove_def ctrl_fail_def split: prod.splits sum.splits option.splits)

text \<open>C30. \<open>qu node remove\<close> evicts on the node it runs on. When the command answers with a result on the
  master, the peer is gone from the membership list (all other members stay as they were) and from
  the local trust store, so no RPC of that certificate passes this node's gate; the reported version
  is the next one; and applying any later configuration that does not list the peer does not bring
  its trust entry back.\<close>

theorem node_remove_evicts:
  assumes run: "dispatch D T J co \<lparr>cr_Method = CtrlNodeRemove, cr_Body = b\<rparr> d = (resp, d', eff)" and body: "cj_Node J b = Inr n"
    and answered: "cp_Body resp \<noteq> []" and master: "IsMaster (d_quorum d)" and wf: "cfg_wf (cs_cfg (d_cfg d))"
    and twf: "trust_wf (ts_entries (d_trust d))"
    and json: "\<And>t raw. jm_Target (dv_enc D) t = Inr raw \<Longrightarrow> js_Target (dv_json D) raw = Inr t"
  shows "(\<forall>k. row_get pi_NodeID k (cc_Peers (cs_cfg (d_cfg d'))) =
        (if k = n then None else row_get pi_NodeID k (cc_Peers (cs_cfg (d_cfg d))))) \<and>
     trust_Get n (d_trust d') = None \<and> resp = ctrl_ok (ce_Version J (cc_Version (cs_cfg (d_cfg d)) + 1)) \<and>
     (\<forall>mu cfg. cc_Version (cs_cfg (d_cfg d')) < cc_Version cfg \<and> row_get pi_NodeID n (cc_Peers cfg) = None \<longrightarrow>
        trust_Get n (d_trust (snd (daemon_apply D mu \<lparr>aq_Config = Some cfg\<rparr> d'))) = None)"
proof -
  have "ctrl_node_remove D J co n d = (resp, d', eff)"
    using run body by (simp add: dispatch_def tag_defs with_body_def)
  then obtain v d1 out r t where mut: "daemon_mutate D (co_mut co) MutationRemovePeer (jm_Target (dv_enc D) n) d = (Inr v, d1, out)"
    and rem: "trust_Remove (dv_tyaml D) (dv_os D) (dv_ord D) (co_trust co) n (d_trust d1) = (r, t)"
    and d': "d' = d1\<lparr>d_trust := t\<rparr>" and resp: "resp = ctrl_ok (ce_Version J v)"
    by (rule node_remove_ok [OF _ answered])
  have twf1: "trust_wf (ts_entries (d_trust d1))" using daemon_mutate_frame [OF mut] twf by simp
  have gone: "trust_Get n (d_trust d') = None" and twf': "trust_wf (ts_entries (d_trust d'))"
    using trust_Remove_get [OF rem twf1] by (simp_all add: d')
  have "v = cc_Version (cs_cfg (d_cfg d)) + 1" using daemon_mutate_master [OF mut master] by blast
  then show ?thesis
    using remove_peer_config [OF mut master wf json] gone resp apply_keeps_absent [OF twf' gone] by (simp add: d')
qed

definition rem_denv :: daemon_env where
  "rem_denv = enr_denv\<lparr>dv_tyaml := demo_trust_codec\<lparr>tyaml_Marshal := (\<lambda>_. Inr ''trust'')\<rparr>\<rparr>"

definition rem_env :: "control_env \<Rightarrow> control_env" where
  "rem_env co = co\<lparr>co_mut := enr_mut, co_trust := io_good\<rparr>"

definition rem_daemon :: daemon where
  "rem_daemon = (demo_daemon ''a'' demo_members)\<lparr>d_trust := demo_store\<rparr>"

lemma rem_denv_simps [simp]:
  "yaml_Marshal (dv_yaml rem_denv) c = Inr ''yaml''" "js_Target (dv_json rem_denv) = Inr" "jm_Target (dv_enc rem_denv) = Inr"
  "tyaml_Marshal (dv_tyaml rem_denv) es = Inr ''trust''"
  by (simp_all add: rem_denv_def enr_denv_def demo_json_def demo_enc_def)

lemma rem_daemon_simps [simp]:
  "IsMaster (d_quorum rem_daemon)" "cs_cfg (d_cfg rem_daemon) = cs_cfg demo_members" "d_trust rem_daemon = demo_store"
  by (simp_all add: rem_daemon_def IsMaster_def Master_def)

lemma trust_Remove_good:
  assumes "tyaml_Marshal L = (\<lambda>_. Inr out)"
  shows "\<exists>removed t. trust_Remove L e ord io_good n st = ((removed, None), t)"
proof -
  have "fst (AtomicWrite io_good (TrustFilePath e) out 384 f) = None" for f
    by (rule AtomicWrite_good) (simp add: TrustFilePath_def)
  then show ?thesis
    by (auto simp: trust_Remove_def trust_Save_def assms split: option.split prod.split) (metis fst_conv)
qed

lemma rem_run:
  "\<exists>resp d' eff. dispatch rem_denv T list_json (rem_env co) \<lparr>cr_Method = CtrlNodeRemove, cr_Body = ''b''\<rparr> rem_daemon = (resp, d', eff) \<and>
     cp_Body resp \<noteq> []"
proof -
  have q: "HasQuorum (mu_now enr_mut) (cs_cfg (d_cfg rem_daemon)) (d_quorum rem_daemon)"
    by (simp add: rem_daemon_def demo_members_def demo_cluster_def enr_quorum)
  have "\<exists>c. apply_mutation (dv_json rem_denv) MutationRemovePeer ''b'' (cs_cfg (d_cfg rem_daemon)) = (None, c)"
    by (simp add: apply_mutation_def decode_def apply_remove_peer_def demo_members_def demo_cluster_def demo_peer_def)
  then obtain v d1 out where mut: "daemon_mutate rem_denv enr_mut MutationRemovePeer (Inr ''b'') rem_daemon = (Inr v, d1, out)"
    using daemon_mutate_good [of rem_daemon enr_mut rem_denv _ "''yaml''" MutationRemovePeer "''b''"] q by auto
  have "tyaml_Marshal (dv_tyaml rem_denv) = (\<lambda>_. Inr ''trust'')" by (simp add: fun_eq_iff)
  from trust_Remove_good [OF this] obtain removed t where
    "trust_Remove (dv_tyaml rem_denv) (dv_os rem_denv) (dv_ord rem_denv) io_good ''b'' (d_trust d1) = ((removed, None), t)" by blast
  with mut show ?thesis
    by (simp add: dispatch_def tag_defs with_body_def ctrl_node_remove_def rem_env_def list_json_def ctrl_ok_def)
qed

theorem node_remove_evicts_witness:
  "\<forall>T co. \<exists>resp d' eff. dispatch rem_denv T list_json (rem_env co) \<lparr>cr_Method = CtrlNodeRemove, cr_Body = ''b''\<rparr> rem_daemon = (resp, d', eff) \<and>
     row_get pi_NodeID ''b'' (cc_Peers (cs_cfg (d_cfg d'))) = None \<and> trust_Get ''b'' (d_trust d') = None"
proof (intro allI)
  fix T co
  obtain resp d' eff where run: "dispatch rem_denv T list_json (rem_env co) \<lparr>cr_Method = CtrlNodeRemove, cr_Body = ''b''\<rparr> rem_daemon = (resp, d', eff)"
    and ne: "cp_Body resp \<noteq> []" using rem_run by blast
  have body: "cj_Node list_json ''b'' = Inr ''b''" by (simp add: list_json_def)
  have wf: "cfg_wf (cs_cfg (d_cfg rem_daemon))" by (simp add: cfg_wf_def demo_members_def demo_cluster_def demo_peer_def zero_ClusterConfig_def)
  have twf: "trust_wf (ts_entries (d_trust rem_daemon))" by (simp add: trust_wf_def demo_store_def demo_entry_def)
  have j: "jm_Target (dv_enc rem_denv) t = Inr raw \<Longrightarrow> js_Target (dv_json rem_denv) raw = Inr t" for t raw by simp
  from node_remove_evicts [OF run body ne rem_daemon_simps(1) wf twf j] run
  show "\<exists>resp d' eff. dispatch rem_denv T list_json (rem_env co) \<lparr>cr_Method = CtrlNodeRemove, cr_Body = ''b''\<rparr> rem_daemon = (resp, d', eff) \<and>
     row_get pi_NodeID ''b'' (cc_Peers (cs_cfg (d_cfg d'))) = None \<and> trust_Get ''b'' (d_trust d') = None" by auto
qed

text \<open>Commands that only look do only that. Every command other than the six that change something
  (\<open>mutate\<close>, \<open>node.remove\<close>, \<open>trust.remove\<close>, \<open>enroll.create\<close>, \<open>enroll.approve\<close>, \<open>enroll.revoke\<close>),
  known or unknown, with any body, leaves the daemon as it was and sends nothing but the test alerts.\<close>

theorem control_queries_pure:
  assumes "dispatch D T J co req d = (resp, d', eff)"
    and "cr_Method req \<notin> {CtrlMutate, CtrlNodeRemove, CtrlTrustRemove, CtrlEnrollCreate, CtrlEnrollApprove, CtrlEnrollRevoke}"
  shows "d' = d \<and> (\<forall>e \<in> set eff. \<exists>sent. e = Alerted sent)"
proof -
  have t: "ctrl_alert_test J co i d = (r, d1, e1) \<Longrightarrow> d1 = d \<and> (\<forall>e \<in> set e1. \<exists>sent. e = Alerted sent)"
    "ctrl_check_test J co b d = (r, d1, e1) \<Longrightarrow> d1 = d \<and> (\<forall>e \<in> set e1. \<exists>sent. e = Alerted sent)" for i b r d1 e1
    by (auto simp: ctrl_alert_test_def ctrl_check_test_def split: prod.splits option.splits)
  show ?thesis
    using assms t by (auto simp: dispatch_def Let_def with_body_def split: if_splits sum.splits)
qed

theorem control_queries_pure_witness:
  "\<forall>T co. snd (dispatch rem_denv T list_json co \<lparr>cr_Method = ''reboot'', cr_Body = []\<rparr> rem_daemon) = (rem_daemon, [])"
proof (intro allI)
  fix T co
  have m: "''reboot'' \<notin> {CtrlMutate, CtrlNodeRemove, CtrlTrustRemove, CtrlEnrollCreate, CtrlEnrollApprove, CtrlEnrollRevoke}"
    by (simp add: tag_defs)
  obtain resp d' eff where run: "dispatch rem_denv T list_json co \<lparr>cr_Method = ''reboot'', cr_Body = []\<rparr> rem_daemon = (resp, d', eff)"
    by (metis prod_cases3)
  have "eff = []" using run by (auto simp: dispatch_def tag_defs Let_def)
  with control_queries_pure [OF run] m run
  show "snd (dispatch rem_denv T list_json co \<lparr>cr_Method = ''reboot'', cr_Body = []\<rparr> rem_daemon) = (rem_daemon, [])" by simp
qed

end
