(* ===== verification/CliEdit.thy ===== *)
theory CliEdit
  imports Replicate
begin

text \<open>
  The editing commands of the CLI: \<open>internal/cli/check.go\<close>, \<open>alert.go\<close>, \<open>node.go\<close> and \<open>cluster.go\<close>.
  Each looks a record up in the local copy of the configuration, applies the flags that were given
  and submits the result as a mutation. A flag that was not given is \<open>None\<close>; \<open>time.ParseDuration\<close>,
  the UUID generator and reading a file are parameters. What is submitted is returned as the value
  of the payload.
\<close>

section \<open>Shared helpers\<close>

definition given :: "'a option \<Rightarrow> ('a \<Rightarrow> 'r \<Rightarrow> 'r) \<Rightarrow> 'r \<Rightarrow> 'r" where
  "given v put c = (case v of None \<Rightarrow> c | Some x \<Rightarrow> put x c)"

definition try_given :: "'a option \<Rightarrow> ('a \<Rightarrow> 'r \<Rightarrow> err + 'r) \<Rightarrow> 'r \<Rightarrow> err + 'r" where
  "try_given v put c = (case v of None \<Rightarrow> Inr c | Some x \<Rightarrow> put x c)"

definition and_then :: "err + 'a \<Rightarrow> ('a \<Rightarrow> err + 'b) \<Rightarrow> err + 'b" where
  "and_then r k = (case r of Inl e \<Rightarrow> Inl e | Inr v \<Rightarrow> k v)"

lemma and_then_ok [simp]: "and_then r k = Inr z \<longleftrightarrow> (\<exists>v. r = Inr v \<and> k v = Inr z)"
  by (simp add: and_then_def split: sum.split)

lemma given_simps [simp]: "given None put c = c" "given (Some x) put c = put x c"
  by (simp_all add: given_def)

lemma try_given_simps [simp]: "try_given None put c = Inr c" "try_given (Some x) put c = put x c"
  by (simp_all add: try_given_def)

text \<open>The loops that trim each item and drop the empty ones.\<close>

definition clean_items :: "string list \<Rightarrow> string list" where
  "clean_items xs = filter (\<lambda>p. p \<noteq> []) (map TrimSpace xs)"

definition clean_csv :: "string \<Rightarrow> string list" where
  "clean_csv csv = clean_items (Split (CHR '','') csv)"

text \<open>\<open>parsePositiveInt\<close>: the accumulator is a 64-bit int.\<close>

fun ppi_loop :: "string \<Rightarrow> int \<Rightarrow> string \<Rightarrow> err + int" where
  "ppi_loop s n [] = Inr n"
| "ppi_loop s n (r # rs) =
     (if \<not> is_digit r then Inl (ErrMsg (''not a positive integer: '' @ Quote s))
      else ppi_loop s (int64 (n * 10 + (of_char r - 48))) rs)"

definition parsePositiveInt :: "string \<Rightarrow> err + int" where
  "parsePositiveInt s = (let s = TrimSpace s in if s = [] then Inr 0 else ppi_loop s 0 s)"

section \<open>check\<close>

definition find_check :: "string \<Rightarrow> ClusterConfig \<Rightarrow> Check option" where
  "find_check target c = List.find (\<lambda>x. ck_ID x = target \<or> ck_Name x = target) (cc_Checks c)"

record check_flags =
  fe_name :: "string option"
  fe_target :: "string option"
  fe_interval :: "string option"
  fe_timeout :: "string option"
  fe_alerts :: "string option"
  fe_resolvers :: "string list option"
  fe_expect :: "string option"
  fe_body_match :: "string option"
  fe_warn_days :: "int option"
  fe_sni :: "string option"
  fe_record :: "string option"
  fe_resolver :: "string option"

definition wrong_type :: "string \<Rightarrow> string \<Rightarrow> Check \<Rightarrow> err" where
  "wrong_type flag kinds c = ErrMsg (''--'' @ flag @ '' only applies to '' @ kinds @ '' checks (this is '' @ ck_Type c @ '')'')"

definition edit_duration :: "(string \<Rightarrow> err + duration) \<Rightarrow> string \<Rightarrow> (duration \<Rightarrow> Check \<Rightarrow> Check) \<Rightarrow> string \<Rightarrow> Check \<Rightarrow> err + Check" where
  "edit_duration pd flag put s c = (case pd s of Inl e \<Rightarrow> Inl (ErrWrap (''--'' @ flag) e) | Inr d \<Rightarrow> Inr (put d c))"

definition edit_expect :: "string \<Rightarrow> Check \<Rightarrow> err + Check" where
  "edit_expect v c =
     (if ck_Type c = CheckHTTP then
        (case parsePositiveInt v of Inl e \<Rightarrow> Inl (ErrWrap ''--expect'' e) | Inr n \<Rightarrow> Inr (c\<lparr>ck_ExpectStatus := n\<rparr>))
      else if ck_Type c = CheckDNS then Inr (c\<lparr>ck_DNSExpect := TrimSpace v\<rparr>)
      else Inl (wrong_type ''expect'' ''HTTP or DNS'' c))"

definition edit_typed :: "string \<Rightarrow> string \<Rightarrow> string \<Rightarrow> ('a \<Rightarrow> Check \<Rightarrow> Check) \<Rightarrow> 'a \<Rightarrow> Check \<Rightarrow> err + Check" where
  "edit_typed ty kinds flag put v c = (if ck_Type c \<noteq> ty then Inl (wrong_type flag kinds c) else Inr (put v c))"

definition check_edit :: "(string \<Rightarrow> err + duration) \<Rightarrow> check_flags \<Rightarrow> Check \<Rightarrow> err + Check" where
  "check_edit pd f c0 =
     and_then (try_given (fe_interval f) (edit_duration pd ''interval'' (\<lambda>d c. c\<lparr>ck_Interval := d\<rparr>))
       (given (fe_target f) (\<lambda>v c. c\<lparr>ck_Target := TrimSpace v\<rparr>)
         (given (fe_name f) (\<lambda>v c. c\<lparr>ck_Name := TrimSpace v\<rparr>) c0))) (\<lambda>c1.
     and_then (try_given (fe_timeout f) (edit_duration pd ''timeout'' (\<lambda>d c. c\<lparr>ck_Timeout := d\<rparr>)) c1) (\<lambda>c2.
     and_then (try_given (fe_expect f) edit_expect
       (given (fe_resolvers f) (\<lambda>rs c. c\<lparr>ck_Resolvers := clean_items rs\<rparr>)
         (given (fe_alerts f) (\<lambda>csv c. c\<lparr>ck_AlertIDs := clean_csv csv\<rparr>) c2))) (\<lambda>c3.
     and_then (try_given (fe_body_match f) (edit_typed CheckHTTP ''HTTP'' ''body-match'' (\<lambda>v c. c\<lparr>ck_BodyMatch := v\<rparr>)) c3) (\<lambda>c4.
     and_then (try_given (fe_warn_days f) (edit_typed CheckTLS ''TLS'' ''warn-days'' (\<lambda>v c. c\<lparr>ck_TLSWarnDays := v\<rparr>)) c4) (\<lambda>c5.
     and_then (try_given (fe_sni f) (edit_typed CheckTLS ''TLS'' ''sni'' (\<lambda>v c. c\<lparr>ck_TLSServerName := TrimSpace v\<rparr>)) c5) (\<lambda>c6.
     and_then (try_given (fe_record f) (edit_typed CheckDNS ''DNS'' ''record'' (\<lambda>v c. c\<lparr>ck_DNSRecord := ToLower (TrimSpace v)\<rparr>)) c6) (\<lambda>c7.
     try_given (fe_resolver f) (edit_typed CheckDNS ''DNS'' ''resolver'' (\<lambda>v c. c\<lparr>ck_DNSResolver := TrimSpace v\<rparr>)) c7)))))))"

definition check_edit_cmd :: "(string \<Rightarrow> err + duration) \<Rightarrow> string \<Rightarrow> check_flags \<Rightarrow> ClusterConfig \<Rightarrow> err + Check" where
  "check_edit_cmd pd target f c =
     (case find_check target c of
        None \<Rightarrow> Inl (ErrMsg (''no check named '' @ Quote target))
      | Some existing \<Rightarrow> check_edit pd f existing)"

text \<open>\<open>qu check enable\<close> and \<open>disable\<close>: \<open>None\<close> when there is nothing to submit.\<close>

definition check_toggle_cmd :: "bool \<Rightarrow> string \<Rightarrow> ClusterConfig \<Rightarrow> err + Check option" where
  "check_toggle_cmd disabled target c =
     (case find_check target c of
        None \<Rightarrow> Inl (ErrMsg (''no check named '' @ Quote target))
      | Some existing \<Rightarrow> (if ck_Disabled existing = disabled then Inr None else Inr (Some (existing\<lparr>ck_Disabled := disabled\<rparr>))))"

text \<open>\<open>qu check add\<close>: here every flag has a value, the default if it was not given.\<close>

record add_flags =
  fa_interval :: string
  fa_timeout :: string
  fa_alerts :: string
  fa_resolvers :: "string list"
  fa_expect_status :: int
  fa_body_match :: string
  fa_warn_days :: int
  fa_sni :: string
  fa_record :: string
  fa_resolver :: string
  fa_dns_expect :: string

definition add_duration :: "(string \<Rightarrow> err + duration) \<Rightarrow> string \<Rightarrow> duration \<Rightarrow> string \<Rightarrow> err + duration" where
  "add_duration pd flag dflt s =
     (if s \<noteq> [] then (case pd s of Inl e \<Rightarrow> Inl (ErrWrap (''--'' @ flag) e) | Inr d \<Rightarrow> Inr d) else Inr dflt)"

definition check_add_cmd :: "(string \<Rightarrow> err + duration) \<Rightarrow> string \<Rightarrow> CheckType \<Rightarrow> string \<Rightarrow> string \<Rightarrow> add_flags \<Rightarrow> err + Check" where
  "check_add_cmd pd uuid ctype nm target f =
     and_then (add_duration pd ''interval'' (30 * Second) (fa_interval f)) (\<lambda>iv.
     and_then (add_duration pd ''timeout'' (10 * Second) (fa_timeout f)) (\<lambda>tm.
       (let ch = zero_Check\<lparr>ck_ID := uuid, ck_Type := ctype, ck_Name := nm, ck_Target := target, ck_Interval := iv, ck_Timeout := tm,
                   ck_AlertIDs := clean_csv (fa_alerts f), ck_Resolvers := clean_items (fa_resolvers f)\<rparr>;
            ch = (if ctype = CheckHTTP then ch\<lparr>ck_ExpectStatus := fa_expect_status f, ck_BodyMatch := fa_body_match f\<rparr> else ch);
            ch = (if ctype = CheckTLS then ch\<lparr>ck_TLSWarnDays := fa_warn_days f, ck_TLSServerName := TrimSpace (fa_sni f)\<rparr> else ch)
        in Inr (if ctype = CheckDNS then
             ch\<lparr>ck_DNSRecord := ToLower (TrimSpace (fa_record f)), ck_DNSResolver := TrimSpace (fa_resolver f),
                ck_DNSExpect := TrimSpace (fa_dns_expect f)\<rparr> else ch))))"

text \<open>\<open>normaliseTestState\<close>.\<close>

definition normaliseTestState :: "string \<Rightarrow> string" where
  "normaliseTestState s =
     (let t = ToLower (TrimSpace s) in
      if t = [] \<or> t = ''down'' then ''down'' else if t = ''up'' then ''up'' else if t = ''recovered'' then ''recovered'' else s)"

section \<open>alert\<close>

text \<open>\<open>resolveTemplateFlags\<close>: inline text wins over a file; \<open>rd\<close> reads a file.\<close>

definition template_flag :: "(string \<Rightarrow> err + string) \<Rightarrow> string \<Rightarrow> string \<Rightarrow> string \<Rightarrow> err + string" where
  "template_flag rd flag inline path =
     (if inline = [] \<and> path \<noteq> [] then
        (case rd path of Inl e \<Rightarrow> Inl (ErrWrap (''read --'' @ flag @ '' '' @ path) e) | Inr raw \<Rightarrow> Inr raw)
      else Inr inline)"

definition resolveTemplateFlags ::
  "(string \<Rightarrow> err + string) \<Rightarrow> string \<Rightarrow> string \<Rightarrow> string \<Rightarrow> string \<Rightarrow> err + string \<times> string" where
  "resolveTemplateFlags rd subject subject_path body body_path =
     and_then (template_flag rd ''subject-file'' subject subject_path) (\<lambda>s.
     and_then (template_flag rd ''body-file'' body body_path) (\<lambda>b. Inr (s, b)))"

record smtp_flags =
  fs_host :: string
  fs_port :: int
  fs_user :: string
  fs_password :: string
  fs_from :: string
  fs_to :: "string list"
  fs_starttls :: bool

definition smtp_add_cmd :: "string \<Rightarrow> string \<Rightarrow> bool \<Rightarrow> smtp_flags \<Rightarrow> err + string \<times> string \<Rightarrow> err + Alert" where
  "smtp_add_cmd uuid nm dflt f templates =
     and_then templates (\<lambda>(subj, body). Inr
       (zero_Alert\<lparr>al_ID := uuid, al_Name := nm, al_Type := AlertSMTP, al_Default := dflt, al_SubjectTemplate := subj,
          al_BodyTemplate := body, al_SMTPHost := fs_host f, al_SMTPPort := fs_port f, al_SMTPUser := fs_user f,
          al_SMTPPassword := fs_password f, al_SMTPFrom := fs_from f, al_SMTPTo := fs_to f, al_SMTPStartTLS := fs_starttls f\<rparr>))"

definition discord_add_cmd :: "string \<Rightarrow> string \<Rightarrow> bool \<Rightarrow> string \<Rightarrow> err + string \<times> string \<Rightarrow> err + Alert" where
  "discord_add_cmd uuid nm dflt webhook templates =
     and_then templates (\<lambda>(subj, body). Inr
       (zero_Alert\<lparr>al_ID := uuid, al_Name := nm, al_Type := AlertDiscord, al_Default := dflt, al_SubjectTemplate := subj,
          al_BodyTemplate := body, al_DiscordWebhook := webhook\<rparr>))"

definition alert_default_cmd :: "string \<Rightarrow> string \<Rightarrow> ClusterConfig \<Rightarrow> err + Alert" where
  "alert_default_cmd target switch c =
     and_then (if switch \<in> {''on'', ''true'', ''yes'', ''1''} then Inr True
               else if switch \<in> {''off'', ''false'', ''no'', ''0''} then Inr False
               else Inl (ErrMsg (''second arg must be on/off, got '' @ Quote switch))) (\<lambda>on.
     (case FindAlert c target of
        None \<Rightarrow> Inl (ErrMsg (''no alert named '' @ Quote target))
      | Some existing \<Rightarrow> Inr (existing\<lparr>al_Default := on\<rparr>)))"

definition alert_toggle_cmd :: "bool \<Rightarrow> string \<Rightarrow> ClusterConfig \<Rightarrow> err + Alert option" where
  "alert_toggle_cmd disabled target c =
     (case FindAlert c target of
        None \<Rightarrow> Inl (ErrMsg (''no alert named '' @ Quote target))
      | Some existing \<Rightarrow> (if al_Disabled existing = disabled then Inr None else Inr (Some (existing\<lparr>al_Disabled := disabled\<rparr>))))"

record alert_flags =
  ff_name :: "string option"
  ff_default :: "bool option"
  ff_subject :: "string option"
  ff_subject_path :: "string option"
  ff_body :: "string option"
  ff_body_path :: "string option"
  ff_host :: "string option"
  ff_port :: "int option"
  ff_user :: "string option"
  ff_password :: "string option"
  ff_from :: "string option"
  ff_to :: "string list option"
  ff_starttls :: "bool option"
  ff_webhook :: "string option"

text \<open>A template of \<open>qu alert edit\<close>: an inline flag that was given wins, otherwise a file with a non-empty
  path is read.\<close>

definition edit_template ::
  "(string \<Rightarrow> err + string) \<Rightarrow> string \<Rightarrow> string option \<Rightarrow> string option \<Rightarrow> (string \<Rightarrow> Alert \<Rightarrow> Alert) \<Rightarrow> Alert \<Rightarrow> err + Alert" where
  "edit_template rd flag inline path put a =
     (case inline of
        Some v \<Rightarrow> Inr (put v a)
      | None \<Rightarrow>
         (case path of
            None \<Rightarrow> Inr a
          | Some p \<Rightarrow>
             (if p = [] then Inr a
              else case rd p of Inl e \<Rightarrow> Inl (ErrWrap (''read --'' @ flag @ '' '' @ p) e) | Inr raw \<Rightarrow> Inr (put raw a))))"

text \<open>The SMTP flags in the order the Discord case looks at them.\<close>

definition smtp_flags_given :: "alert_flags \<Rightarrow> string list" where
  "smtp_flags_given f =
     (if ff_host f \<noteq> None then [''host''] else []) @ (if ff_port f \<noteq> None then [''port''] else []) @
     (if ff_user f \<noteq> None then [''user''] else []) @ (if ff_password f \<noteq> None then [''password''] else []) @
     (if ff_from f \<noteq> None then [''from''] else []) @ (if ff_to f \<noteq> None then [''to''] else []) @
     (if ff_starttls f \<noteq> None then [''starttls''] else [])"

definition edit_channel :: "alert_flags \<Rightarrow> Alert \<Rightarrow> err + Alert" where
  "edit_channel f a =
     (if al_Type a = AlertSMTP then
        (if ff_webhook f \<noteq> None then Inl (ErrMsg ''--webhook only applies to Discord alerts'')
         else Inr (given (ff_starttls f) (\<lambda>v a. a\<lparr>al_SMTPStartTLS := v\<rparr>)
             (given (ff_to f) (\<lambda>v a. a\<lparr>al_SMTPTo := v\<rparr>)
             (given (ff_from f) (\<lambda>v a. a\<lparr>al_SMTPFrom := v\<rparr>)
             (given (ff_password f) (\<lambda>v a. a\<lparr>al_SMTPPassword := v\<rparr>)
             (given (ff_user f) (\<lambda>v a. a\<lparr>al_SMTPUser := v\<rparr>)
             (given (ff_port f) (\<lambda>v a. a\<lparr>al_SMTPPort := v\<rparr>)
             (given (ff_host f) (\<lambda>v a. a\<lparr>al_SMTPHost := v\<rparr>) a))))))))
      else if al_Type a = AlertDiscord then
        (case smtp_flags_given f of
           flag # rest \<Rightarrow> Inl (ErrMsg (''--'' @ flag @ '' only applies to SMTP alerts''))
         | [] \<Rightarrow> Inr (given (ff_webhook f) (\<lambda>v a. a\<lparr>al_DiscordWebhook := v\<rparr>) a))
      else Inr a)"

definition alert_edit :: "(string \<Rightarrow> err + string) \<Rightarrow> alert_flags \<Rightarrow> Alert \<Rightarrow> err + Alert" where
  "alert_edit rd f a =
     and_then (edit_template rd ''subject-file'' (ff_subject f) (ff_subject_path f) (\<lambda>v a. a\<lparr>al_SubjectTemplate := v\<rparr>)
       (given (ff_default f) (\<lambda>v a. a\<lparr>al_Default := v\<rparr>) (given (ff_name f) (\<lambda>v a. a\<lparr>al_Name := v\<rparr>) a))) (\<lambda>a1.
     and_then (edit_template rd ''body-file'' (ff_body f) (ff_body_path f) (\<lambda>v a. a\<lparr>al_BodyTemplate := v\<rparr>) a1) (\<lambda>a2.
     edit_channel f a2))"

definition alert_edit_cmd :: "(string \<Rightarrow> err + string) \<Rightarrow> string \<Rightarrow> alert_flags \<Rightarrow> ClusterConfig \<Rightarrow> err + Alert" where
  "alert_edit_cmd rd target f c =
     (case FindAlert c target of
        None \<Rightarrow> Inl (ErrMsg (''no alert named '' @ Quote target))
      | Some existing \<Rightarrow> alert_edit rd f existing)"

section \<open>node, cluster and the columns of status\<close>

definition node_edit_cmd :: "string option \<Rightarrow> string \<Rightarrow> ClusterConfig \<Rightarrow> err + PeerInfo" where
  "node_edit_cmd address nodeID c =
     (case address of
        None \<Rightarrow> Inl (ErrMsg ''--address is required'')
      | Some v \<Rightarrow>
         (let newAddr = TrimSpace v in
          if newAddr = [] then Inl (ErrMsg ''--address cannot be empty'')
          else case List.find (\<lambda>p. pi_NodeID p = nodeID) (cc_Peers c) of
            None \<Rightarrow> Inl (ErrMsg (''no peer with node id '' @ Quote nodeID))
          | Some existing \<Rightarrow> Inr (existing\<lparr>pi_Advertise := newAddr\<rparr>)))"

definition resolvers_set_cmd :: "string list \<Rightarrow> err + string list" where
  "resolvers_set_cmd args =
     (let cleaned = concat (map clean_csv args) in
      if cleaned = [] then Inl (ErrMsg ''no resolvers given; pass at least one host[:port]'') else Inr cleaned)"

definition stateCol :: "string \<Rightarrow> bool \<Rightarrow> string" where
  "stateCol state disabled = (if disabled then ''(disabled) '' @ state else state)"

definition alertsCol :: "string list \<Rightarrow> string" where
  "alertsCol names = (if length names = 0 then ''-'' else Join names '','')"

definition masterOrNone :: "string \<Rightarrow> string" where
  "masterOrNone ident = (if ident = [] then ''(none '' @ emdash @ '' no quorum or election in progress)'' else ident)"

definition shortID :: "string \<Rightarrow> string" where
  "shortID ident = (if length ident \<le> 12 then ident else take 12 ident)"

section \<open>Lemmas\<close>

lemma int64_step: "int64 (int64 a * 10 + d) = int64 (a * 10 + d)"
proof -
  let ?q = "(a + 2 ^ 63) div 2 ^ 64"
  have "int64 a = a - 2 ^ 64 * ?q" unfolding int64_def minus_mult_div_eq_mod [symmetric] by simp
  then have "int64 a * 10 + d + 2 ^ 63 = (a * 10 + d + 2 ^ 63) + 2 ^ 64 * (- 10 * ?q)" by (simp add: algebra_simps)
  then have "(int64 a * 10 + d + 2 ^ 63) mod 2 ^ 64 = (a * 10 + d + 2 ^ 63) mod 2 ^ 64" by (simp only: mod_mult_self2)
  then show ?thesis by (simp only: int64_def)
qed

lemma ppi_loop_value:
  "list_all is_digit rs \<Longrightarrow> ppi_loop s (int64 (int n)) rs = Inr (int64 (int (foldl (\<lambda>v c. 10 * v + (of_char c - 48)) n rs)))"
proof (induction rs arbitrary: n)
  case Nil
  then show ?case by simp
next
  case (Cons r rs)
  then have "(48 :: nat) \<le> of_char r" by (simp add: is_digit_def Let_def)
  then have "int64 (int n) * 10 + (of_char r - 48) = int64 (int n) * 10 + int (of_char r - 48)" by (simp add: of_nat_diff of_nat_of_char)
  then have "int64 (int64 (int n) * 10 + (of_char r - 48)) = int64 (int (10 * n + (of_char r - 48)))"
    by (simp only: int64_step) (simp add: algebra_simps)
  moreover have "ppi_loop s (int64 (int (10 * n + (of_char r - 48)))) rs =
      Inr (int64 (int (foldl (\<lambda>v c. 10 * v + (of_char c - 48)) (10 * n + (of_char r - 48)) rs)))"
    by (rule Cons.IH) (use Cons.prems in simp)
  ultimately show ?case using Cons.prems by (simp del: of_nat_add of_nat_mult of_nat_numeral of_nat_simps)
qed

lemma ppi_loop_error: "\<not> list_all is_digit rs \<Longrightarrow> ppi_loop s n rs = Inl (ErrMsg (''not a positive integer: '' @ Quote s))"
  by (induction rs arbitrary: n) auto

lemma parse_value:
  "parsePositiveInt s =
     (if \<not> list_all is_digit (TrimSpace s) then Inl (ErrMsg (''not a positive integer: '' @ Quote (TrimSpace s)))
      else Inr (int64 (int (digits_val (TrimSpace s)))))"
proof -
  have "int64 0 = 0" by (simp add: int64_def)
  then show ?thesis
    using ppi_loop_value [of "TrimSpace s" "TrimSpace s" 0] ppi_loop_error [of "TrimSpace s" "TrimSpace s" 0]
    by (simp add: parsePositiveInt_def digits_val_def Let_def)
qed

section \<open>Properties\<close>

text \<open>\<open>parsePositiveInt\<close> computes the decimal value in 64-bit arithmetic and nothing else: blank input
  is 0, a character that is not a digit is an error, and otherwise the result is the value wrapped to
  an int64; so it is the value itself as long as that fits, and can be negative when it does not.\<close>

theorem positive_int_bounds:
  "parsePositiveInt s =
     (if \<not> list_all is_digit (TrimSpace s) then Inl (ErrMsg (''not a positive integer: '' @ Quote (TrimSpace s)))
      else Inr (int64 (int (digits_val (TrimSpace s))))) \<and>
   (list_all is_digit (TrimSpace s) \<and> digits_val (TrimSpace s) < 2 ^ 63 \<longrightarrow> parsePositiveInt s = Inr (int (digits_val (TrimSpace s))))"
  using parse_value [of s] by simp

theorem positive_int_bounds_witness:
  "parsePositiveInt '' 204 '' = Inr 204 \<and> parsePositiveInt ''9223372036854775808'' = Inr (- (2 ^ 63))"
proof -
  have "list_all is_digit (TrimSpace '' 204 '')" "digits_val (TrimSpace '' 204 '') = 204"
    "list_all is_digit (TrimSpace ''9223372036854775808'')" "digits_val (TrimSpace ''9223372036854775808'') = 9223372036854775808"
    by (simp_all add: TrimSpace_def is_space_def is_digit_def digits_val_def)
  with positive_int_bounds [of "'' 204 ''"] positive_int_bounds [of "''9223372036854775808''"] show ?thesis
    by (simp add: int64_def)
qed

text \<open>A check has values only in the fields of its type.\<close>

definition field_types :: "Check \<Rightarrow> bool" where
  "field_types c \<longleftrightarrow>
     (ck_Type c \<noteq> CheckHTTP \<longrightarrow> ck_ExpectStatus c = 0 \<and> ck_BodyMatch c = []) \<and>
     (ck_Type c \<noteq> CheckTLS \<longrightarrow> ck_TLSWarnDays c = 0 \<and> ck_TLSServerName c = []) \<and>
     (ck_Type c \<noteq> CheckDNS \<longrightarrow> ck_DNSRecord c = [] \<and> ck_DNSResolver c = [] \<and> ck_DNSExpect c = [])"

text \<open>What the steps of an edit have in common: the ID, the type, the state switch and the list of
  suppressed alerts stay, and so does \<open>field_types\<close>.\<close>

definition same_check :: "Check \<Rightarrow> Check \<Rightarrow> bool" where
  "same_check c c' \<longleftrightarrow> ck_ID c' = ck_ID c \<and> ck_Type c' = ck_Type c \<and> ck_Disabled c' = ck_Disabled c \<and>
     ck_SuppressAlertIDs c' = ck_SuppressAlertIDs c \<and> (field_types c \<longrightarrow> field_types c')"

lemma same_check_trans: "same_check a b \<Longrightarrow> same_check b c \<Longrightarrow> same_check a c"
  by (simp add: same_check_def)

lemma same_duration:
  "try_given v (edit_duration pd flag put) c = Inr c' \<Longrightarrow> (\<And>d. same_check c (put d c)) \<Longrightarrow> same_check c c'"
  by (cases v) (auto simp: edit_duration_def same_check_def split: sum.splits)

lemma same_typed:
  "try_given v (edit_typed ty kinds flag put) c = Inr c' \<Longrightarrow> (\<And>x. ck_Type c = ty \<Longrightarrow> same_check c (put x c)) \<Longrightarrow> same_check c c'"
  by (cases v) (auto simp: edit_typed_def same_check_def split: if_splits)

lemma same_expect: "try_given v edit_expect c = Inr c' \<Longrightarrow> same_check c c'"
  by (cases v) (auto simp: edit_expect_def same_check_def field_types_def tag_defs split: if_splits sum.splits)

lemma same_given: "(\<And>x. same_check c (put x c)) \<Longrightarrow> same_check c (given v put c)"
  by (cases v) (simp_all add: same_check_def)

lemma same_puts [simp]:
  "same_check c (c\<lparr>ck_Name := n\<rparr>)" "same_check c (c\<lparr>ck_Target := n\<rparr>)" "same_check c (c\<lparr>ck_Interval := i\<rparr>)"
  "same_check c (c\<lparr>ck_Timeout := i\<rparr>)" "same_check c (c\<lparr>ck_AlertIDs := l\<rparr>)" "same_check c (c\<lparr>ck_Resolvers := l\<rparr>)"
  "ck_Type c = CheckHTTP \<Longrightarrow> same_check c (c\<lparr>ck_BodyMatch := n\<rparr>)"
  "ck_Type c = CheckTLS \<Longrightarrow> same_check c (c\<lparr>ck_TLSWarnDays := i\<rparr>)" "ck_Type c = CheckTLS \<Longrightarrow> same_check c (c\<lparr>ck_TLSServerName := n\<rparr>)"
  "ck_Type c = CheckDNS \<Longrightarrow> same_check c (c\<lparr>ck_DNSRecord := n\<rparr>)" "ck_Type c = CheckDNS \<Longrightarrow> same_check c (c\<lparr>ck_DNSResolver := n\<rparr>)"
  by (simp_all add: same_check_def field_types_def tag_defs)

lemma check_edit_same:
  assumes "check_edit pd f c = Inr c'"
  shows "same_check c c'"
proof -
  let ?a = "given (fe_target f) (\<lambda>v c. c\<lparr>ck_Target := TrimSpace v\<rparr>) (given (fe_name f) (\<lambda>v c. c\<lparr>ck_Name := TrimSpace v\<rparr>) c)"
  have a: "same_check c ?a"
    by (rule same_check_trans [OF same_given same_given]) simp_all
  obtain c1 c2 c3 c4 c5 c6 c7 where
    steps: "try_given (fe_interval f) (edit_duration pd ''interval'' (\<lambda>d c. c\<lparr>ck_Interval := d\<rparr>)) ?a = Inr c1"
    "try_given (fe_timeout f) (edit_duration pd ''timeout'' (\<lambda>d c. c\<lparr>ck_Timeout := d\<rparr>)) c1 = Inr c2"
    "try_given (fe_expect f) edit_expect (given (fe_resolvers f) (\<lambda>rs c. c\<lparr>ck_Resolvers := clean_items rs\<rparr>)
       (given (fe_alerts f) (\<lambda>csv c. c\<lparr>ck_AlertIDs := clean_csv csv\<rparr>) c2)) = Inr c3"
    "try_given (fe_body_match f) (edit_typed CheckHTTP ''HTTP'' ''body-match'' (\<lambda>v c. c\<lparr>ck_BodyMatch := v\<rparr>)) c3 = Inr c4"
    "try_given (fe_warn_days f) (edit_typed CheckTLS ''TLS'' ''warn-days'' (\<lambda>v c. c\<lparr>ck_TLSWarnDays := v\<rparr>)) c4 = Inr c5"
    "try_given (fe_sni f) (edit_typed CheckTLS ''TLS'' ''sni'' (\<lambda>v c. c\<lparr>ck_TLSServerName := TrimSpace v\<rparr>)) c5 = Inr c6"
    "try_given (fe_record f) (edit_typed CheckDNS ''DNS'' ''record'' (\<lambda>v c. c\<lparr>ck_DNSRecord := ToLower (TrimSpace v)\<rparr>)) c6 = Inr c7"
    "try_given (fe_resolver f) (edit_typed CheckDNS ''DNS'' ''resolver'' (\<lambda>v c. c\<lparr>ck_DNSResolver := TrimSpace v\<rparr>)) c7 = Inr c'"
    using assms unfolding check_edit_def and_then_ok by blast
  have "same_check c2 (given (fe_resolvers f) (\<lambda>rs c. c\<lparr>ck_Resolvers := clean_items rs\<rparr>)
       (given (fe_alerts f) (\<lambda>csv c. c\<lparr>ck_AlertIDs := clean_csv csv\<rparr>) c2))"
    by (rule same_check_trans [OF same_given same_given]) simp_all
  note g = same_check_trans [OF this same_expect [OF steps(3)]]
  have s: "same_check ?a c1" "same_check c1 c2" "same_check c3 c4" "same_check c4 c5" "same_check c5 c6" "same_check c6 c7" "same_check c7 c'"
    using same_duration [OF steps(1)] same_duration [OF steps(2)] same_typed [OF steps(4)] same_typed [OF steps(5)]
      same_typed [OF steps(6)] same_typed [OF steps(7)] same_typed [OF steps(8)] by simp_all
  show ?thesis using a s g by (simp add: same_check_def)
qed

lemma check_types_distinct [simp]:
  "CheckHTTP \<noteq> CheckTLS" "CheckTLS \<noteq> CheckHTTP" "CheckHTTP \<noteq> CheckDNS" "CheckDNS \<noteq> CheckHTTP" "CheckTLS \<noteq> CheckDNS" "CheckDNS \<noteq> CheckTLS"
  by (simp_all add: tag_defs)

lemma check_add_typed:
  assumes "check_add_cmd pd uuid ctype nm target fa = Inr c"
  shows "field_types c \<and> ck_ID c = uuid \<and> ck_Type c = ctype \<and> \<not> ck_Disabled c \<and> ck_SuppressAlertIDs c = []"
proof -
  let ?b = "\<lambda>iv tm. zero_Check\<lparr>ck_ID := uuid, ck_Type := ctype, ck_Name := nm, ck_Target := target, ck_Interval := iv, ck_Timeout := tm,
                   ck_AlertIDs := clean_csv (fa_alerts fa), ck_Resolvers := clean_items (fa_resolvers fa)\<rparr>"
  obtain iv tm where c: "c = (let ch = ?b iv tm;
      ch = (if ctype = CheckHTTP then ch\<lparr>ck_ExpectStatus := fa_expect_status fa, ck_BodyMatch := fa_body_match fa\<rparr> else ch);
      ch = (if ctype = CheckTLS then ch\<lparr>ck_TLSWarnDays := fa_warn_days fa, ck_TLSServerName := TrimSpace (fa_sni fa)\<rparr> else ch)
    in (if ctype = CheckDNS then ch\<lparr>ck_DNSRecord := ToLower (TrimSpace (fa_record fa)), ck_DNSResolver := TrimSpace (fa_resolver fa),
                ck_DNSExpect := TrimSpace (fa_dns_expect fa)\<rparr> else ch))"
    using assms unfolding check_add_cmd_def and_then_ok Let_def sum.inject by metis
  have z: "ck_ExpectStatus zero_Check = 0" "ck_BodyMatch zero_Check = []" "ck_TLSWarnDays zero_Check = 0" "ck_TLSServerName zero_Check = []"
    "ck_DNSRecord zero_Check = []" "ck_DNSResolver zero_Check = []" "ck_DNSExpect zero_Check = []" "\<not> ck_Disabled zero_Check"
    "ck_SuppressAlertIDs zero_Check = []"
    by (simp_all add: zero_Check_def)
  consider "ctype = CheckHTTP" | "ctype = CheckTLS" | "ctype = CheckDNS" | "ctype \<noteq> CheckHTTP \<and> ctype \<noteq> CheckTLS \<and> ctype \<noteq> CheckDNS" by blast
  then show ?thesis by cases (simp_all add: c field_types_def z)
qed

text \<open>C39. Checks made by the CLI stay well typed. \<open>qu check add\<close> creates a check of the requested type that
  has values only in the fields of that type, under the generated ID, enabled and with nothing
  suppressed; \<open>edit\<close> and the switches keep a well-typed check well typed, and never change its ID,
  its type or its suppressed alerts; and \<open>edit\<close> does not switch it on or off.\<close>

theorem check_commands_typed:
  "(check_add_cmd pd uuid ctype nm target fa = Inr c \<longrightarrow>
      field_types c \<and> ck_ID c = uuid \<and> ck_Type c = ctype \<and> \<not> ck_Disabled c \<and> ck_SuppressAlertIDs c = []) \<and>
   (find_check target cfg = Some c0 \<and> field_types c0 \<longrightarrow>
      (check_edit_cmd pd target f cfg = Inr c \<longrightarrow>
         field_types c \<and> ck_ID c = ck_ID c0 \<and> ck_Type c = ck_Type c0 \<and> ck_SuppressAlertIDs c = ck_SuppressAlertIDs c0 \<and>
         ck_Disabled c = ck_Disabled c0) \<and>
      (check_toggle_cmd b target cfg = Inr (Some c) \<longrightarrow> field_types c \<and> c = c0\<lparr>ck_Disabled := b\<rparr> \<and> ck_Disabled c0 \<noteq> b))"
proof (intro conjI impI)
  assume "check_add_cmd pd uuid ctype nm target fa = Inr c"
  then show "field_types c" "ck_ID c = uuid" "ck_Type c = ctype" "\<not> ck_Disabled c" "ck_SuppressAlertIDs c = []"
    using check_add_typed by blast+
next
  assume h: "find_check target cfg = Some c0 \<and> field_types c0" and "check_edit_cmd pd target f cfg = Inr c"
  then have "same_check c0 c" using check_edit_same by (simp add: check_edit_cmd_def)
  with h show "field_types c" "ck_ID c = ck_ID c0" "ck_Type c = ck_Type c0" "ck_SuppressAlertIDs c = ck_SuppressAlertIDs c0"
    "ck_Disabled c = ck_Disabled c0"
    by (simp_all add: same_check_def)
next
  assume "find_check target cfg = Some c0 \<and> field_types c0" and "check_toggle_cmd b target cfg = Inr (Some c)"
  then show "field_types c" "c = c0\<lparr>ck_Disabled := b\<rparr>" "ck_Disabled c0 \<noteq> b"
    by (auto simp: check_toggle_cmd_def field_types_def split: if_splits)
qed

definition cli_check :: Check where
  "cli_check = zero_Check\<lparr>ck_ID := ''c1'', ck_Name := ''web'', ck_Type := CheckHTTP, ck_Target := ''https://x'', ck_ExpectStatus := 200\<rparr>"

definition cli_cfg :: ClusterConfig where
  "cli_cfg = zero_ClusterConfig\<lparr>cc_Checks := [demo_chk ''c0'' ''dns'', cli_check]\<rparr>"

definition cli_flags :: check_flags where
  "cli_flags = \<lparr>fe_name = Some '' site '', fe_target = None, fe_interval = Some ''1m'', fe_timeout = None, fe_alerts = None,
     fe_resolvers = None, fe_expect = Some ''204'', fe_body_match = None, fe_warn_days = None, fe_sni = None, fe_record = None, fe_resolver = None\<rparr>"

lemma cli_find: "find_check ''web'' cli_cfg = Some cli_check"
  by (simp add: find_check_def cli_cfg_def cli_check_def demo_chk_def)

lemma cli_edited: "check_edit_cmd (\<lambda>_. Inr (1 * Minute)) ''web'' cli_flags cli_cfg =
    Inr (cli_check\<lparr>ck_Name := ''site'', ck_Interval := 1 * Minute, ck_ExpectStatus := 204\<rparr>)"
proof -
  have "list_all is_digit (TrimSpace ''204'')" "digits_val (TrimSpace ''204'') = 204"
    by (simp_all add: TrimSpace_def is_space_def is_digit_def digits_val_def)
  then have "parsePositiveInt ''204'' = Inr 204" by (simp add: parse_value)
  moreover have "TrimSpace '' site '' = ''site''" by (simp add: TrimSpace_def is_space_def)
  moreover have "ck_Type cli_check = CheckHTTP" by (simp add: cli_check_def)
  ultimately show ?thesis
    using cli_find by (simp add: check_edit_cmd_def check_edit_def cli_flags_def edit_duration_def edit_expect_def and_then_def)
qed

theorem check_commands_typed_witness:
  "\<exists>c. check_edit_cmd (\<lambda>_. Inr (1 * Minute)) ''web'' cli_flags cli_cfg = Inr c \<and> field_types c \<and> ck_ID c = ''c1''"
proof -
  have "field_types cli_check" by (simp add: field_types_def cli_check_def zero_Check_def tag_defs)
  note check_commands_typed [where target = "''web''", THEN conjunct2, rule_format, OF conjI [OF cli_find this], THEN conjunct1,
      rule_format, OF cli_edited]
  with cli_edited show ?thesis by (simp add: cli_check_def)
qed

lemma upsert_replace:
  assumes "x \<in> set xs" and "P x" and "\<forall>z \<in> set xs. z \<noteq> x \<longrightarrow> \<not> P z" and "distinct xs"
  shows "upsert P y xs = map (\<lambda>z. if z = x then y else z) xs"
  using assms
proof (induction xs)
  case Nil
  then show ?case by simp
next
  case (Cons z zs)
  show ?case
  proof (cases "z = x")
    case True
    with Cons.prems have "map (\<lambda>z. if z = x then y else z) zs = zs" by (intro map_idI) auto
    with True Cons.prems show ?thesis by simp
  next
    case False
    with Cons show ?thesis by auto
  qed
qed

text \<open>An edit reaches the cluster as a replacement in place. When \<open>qu check edit\<close> produces a check and
  its new name is not the name of another check (IDs being unique), the \<open>add-check\<close> mutation it
  submits replaces exactly the edited entry, at its position; no other check, alert, peer or
  enrollment changes.\<close>

theorem edit_replaces_entry:
  assumes found: "find_check target c = Some ch" and edit: "check_edit_cmd pd target f c = Inr ch'"
    and named: "ck_ID ch \<noteq> []" "ck_Name ch' \<noteq> []" and dist: "distinct (cc_Checks c)"
    and unique: "\<forall>x \<in> set (cc_Checks c). x \<noteq> ch \<longrightarrow> ck_ID x \<noteq> ck_ID ch \<and> ck_Name x \<noteq> ck_Name ch'"
  shows "apply_add_check ch' c = (None, c\<lparr>cc_Checks := map (\<lambda>x. if x = ch then ch' else x) (cc_Checks c)\<rparr>)"
proof -
  have ids: "ck_ID ch' = ck_ID ch" using edit found check_edit_same by (auto simp: check_edit_cmd_def same_check_def)
  have "ch \<in> set (cc_Checks c)" using find_Some_iff_first [OF found [unfolded find_check_def]] by simp
  then have "upsert (\<lambda>x. ck_ID x = ck_ID ch' \<or> ck_Name x = ck_Name ch') ch' (cc_Checks c) =
      map (\<lambda>x. if x = ch then ch' else x) (cc_Checks c)"
    by (rule upsert_replace) (use unique dist ids in auto)
  with named show ?thesis by (simp only: apply_add_check_def ids) simp
qed

theorem edit_replaces_entry_witness:
  "\<exists>ch'. check_edit_cmd (\<lambda>_. Inr (1 * Minute)) ''web'' cli_flags cli_cfg = Inr ch' \<and>
     cc_Checks (snd (apply_add_check ch' cli_cfg)) = [demo_chk ''c0'' ''dns'', ch']"
proof -
  have ne: "demo_chk ''c0'' ''dns'' \<noteq> cli_check"
  proof
    assume "demo_chk ''c0'' ''dns'' = cli_check"
    then have "ck_ID (demo_chk ''c0'' ''dns'') = ck_ID cli_check" by simp
    then show False by (simp add: demo_chk_def cli_check_def)
  qed
  have "apply_add_check (cli_check\<lparr>ck_Name := ''site'', ck_Interval := 1 * Minute, ck_ExpectStatus := 204\<rparr>) cli_cfg =
      (None, cli_cfg\<lparr>cc_Checks := map (\<lambda>x. if x = cli_check then cli_check\<lparr>ck_Name := ''site'', ck_Interval := 1 * Minute, ck_ExpectStatus := 204\<rparr> else x)
         (cc_Checks cli_cfg)\<rparr>)"
    by (rule edit_replaces_entry [OF cli_find cli_edited]) (use ne in \<open>simp_all add: cli_cfg_def cli_check_def demo_chk_def\<close>)
  with cli_edited ne show ?thesis by (auto simp: cli_cfg_def)
qed

end
