(* ===== verification/Client.thy ===== *)
theory Client
  imports Control CliEdit
begin

text \<open>
  The commands of the CLI as they run: the \<open>RunE\<close> functions of \<open>internal/cli/check.go\<close>, \<open>alert.go\<close>,
  \<open>node.go\<close>, \<open>cluster.go\<close>, \<open>status.go\<close>, \<open>trust.go\<close> and \<open>enroll.go\<close>. A command reads the local
  \<open>cluster.yaml\<close> where it needs a current record, computes what to submit (\<open>CliEdit\<close>), calls the
  daemon over the control socket and prints a line. \<open>'s\<close> is the state behind the socket; the
  caller, the JSON coding, the text of a time or a duration, and the alignment of a table's columns
  (\<open>text/tabwriter\<close>) are parameters. The result is an error or the text printed.
\<close>

section \<open>Parameters\<close>

type_synonym 's caller = "string \<Rightarrow> (err + string) option \<Rightarrow> 's \<Rightarrow> (err + string) \<times> 's"

record cmd_json =
  qe_Check :: "Check \<Rightarrow> err + string"
  qe_Alert :: "Alert \<Rightarrow> err + string"
  qe_Peer :: "PeerInfo \<Rightarrow> err + string"
  qe_Target :: "string \<Rightarrow> err + string"
  qe_Resolvers :: "string list \<Rightarrow> err + string"
  qe_Mutate :: "MutateBody \<Rightarrow> err + string"
  qe_Node :: "string \<Rightarrow> err + string"
  qe_AlertTest :: "string \<Rightarrow> err + string"
  qe_CheckTest :: "CheckTestBody \<Rightarrow> err + string"
  qe_EnrollCreate :: "EnrollCreateBody \<Rightarrow> err + string"
  qe_EnrollTarget :: "string \<Rightarrow> err + string"
  qd_Status :: "string \<Rightarrow> err + StatusResponse"
  qd_Trust :: "string \<Rightarrow> err + trust_entry list"
  qd_Created :: "string \<Rightarrow> err + EnrollCreateResult"
  qd_List :: "string \<Rightarrow> err + EnrollListEntry list"
  qd_Version :: "string \<Rightarrow> 64 word"
  qd_Removed :: "string \<Rightarrow> bool"

text \<open>\<open>qd_Version\<close> and \<open>qd_Removed\<close> are what the target variable holds after an \<open>Unmarshal\<close> whose error
  is ignored. \<open>cv_until\<close> is \<open>time.Until\<close> of an instant, as a duration.\<close>

record 's cli_env =
  cv_load :: "err + ClusterConfig"
  cv_call :: "'s caller"
  cv_json :: cmd_json
  cv_pd :: "string \<Rightarrow> err + duration"
  cv_uuid :: string
  cv_read :: "string \<Rightarrow> err + string"
  cv_table :: "string \<Rightarrow> string"
  cv_rfc3339 :: "gotime \<Rightarrow> string"
  cv_now :: gotime
  cv_until :: "gotime \<Rightarrow> duration"
  cv_duration :: "duration \<Rightarrow> string"

type_synonym 's command = "'s \<Rightarrow> (err + string) \<times> 's"

definition line :: "string list \<Rightarrow> string" where
  "line ws = concat ws @ nl"

definition row :: "string list \<Rightarrow> string" where
  "row cells = Join cells [CHR 0x09] @ nl"

definition bool_text :: "bool \<Rightarrow> string" where
  "bool_text b = (if b then ''true'' else ''false'')"

definition ver_text :: "64 word \<Rightarrow> string" where
  "ver_text v = Itoa (uint v)"

section \<open>Submitting\<close>

text \<open>Bodies are marshalled inside \<open>callDaemon\<close>.\<close>

definition submit :: "cmd_json \<Rightarrow> 's caller \<Rightarrow> MutationKind \<Rightarrow> string \<Rightarrow> 's \<Rightarrow> (err + 64 word) \<times> 's" where
  "submit J call kind payload s =
     (case call CtrlMutate (Some (qe_Mutate J \<lparr>mb_Kind = kind, mb_Payload = payload\<rparr>)) s of
        (Inl e, s') \<Rightarrow> (Inl e, s')
      | (Inr raw, s') \<Rightarrow> (Inr (qd_Version J raw), s'))"

definition submit_marshalled :: "cmd_json \<Rightarrow> 's caller \<Rightarrow> MutationKind \<Rightarrow> err + string \<Rightarrow> 's \<Rightarrow> (err + 64 word) \<times> 's" where
  "submit_marshalled J call kind payload s =
     (case payload of Inl e \<Rightarrow> (Inl e, s) | Inr raw \<Rightarrow> submit J call kind raw s)"

text \<open>Where the error of \<open>Marshal\<close> is ignored, the payload is empty after one.\<close>

definition payload_or_empty :: "err + string \<Rightarrow> string" where
  "payload_or_empty r = (case r of Inl e \<Rightarrow> [] | Inr raw \<Rightarrow> raw)"

definition report :: "(64 word \<Rightarrow> string) \<Rightarrow> (err + 64 word) \<times> 's \<Rightarrow> (err + string) \<times> 's" where
  "report txt r = (case r of (Inl e, s) \<Rightarrow> (Inl e, s) | (Inr v, s) \<Rightarrow> (Inr (txt v), s))"

text \<open>A command that computes a record from the local configuration and submits it.\<close>

definition from_local :: "'s cli_env \<Rightarrow> (ClusterConfig \<Rightarrow> err + 'a) \<Rightarrow> ('a \<Rightarrow> 's command) \<Rightarrow> 's command" where
  "from_local R f k s =
     (case cv_load R of
        Inl e \<Rightarrow> (Inl e, s)
      | Inr c \<Rightarrow> (case f c of Inl e \<Rightarrow> (Inl e, s) | Inr x \<Rightarrow> k x s))"

definition now_at :: "64 word \<Rightarrow> string" where
  "now_at v = '' (cluster version now '' @ ver_text v @ '')''"

section \<open>qu check\<close>

definition check_edit_run :: "'s cli_env \<Rightarrow> string \<Rightarrow> check_flags \<Rightarrow> 's command" where
  "check_edit_run R target f =
     from_local R (check_edit_cmd (cv_pd R) target f) (\<lambda>ch s.
       report (\<lambda>v. line [''updated check '', ck_Name ch, now_at v])
         (submit_marshalled (cv_json R) (cv_call R) MutationAddCheck (qe_Check (cv_json R) ch) s))"

definition check_toggle_run :: "'s cli_env \<Rightarrow> string \<Rightarrow> bool \<Rightarrow> string \<Rightarrow> 's command" where
  "check_toggle_run R use disabled target =
     from_local R (\<lambda>c. case check_toggle_cmd disabled target c of
          Inl e \<Rightarrow> Inl e
        | Inr x \<Rightarrow> Inr (x, find_check target c)) (\<lambda>(x, existing) s.
       case x of
         None \<Rightarrow> (Inr (line [''check '', (case existing of None \<Rightarrow> [] | Some ch \<Rightarrow> ck_Name ch), '' already '', use, ''d'']), s)
       | Some ch \<Rightarrow>
           report (\<lambda>v. line [use, ''d check '', ck_Name ch, now_at v])
             (submit_marshalled (cv_json R) (cv_call R) MutationAddCheck (qe_Check (cv_json R) ch) s))"

definition check_add_run :: "'s cli_env \<Rightarrow> CheckType \<Rightarrow> string \<Rightarrow> string \<Rightarrow> add_flags \<Rightarrow> 's command" where
  "check_add_run R ctype nm target f s =
     (case check_add_cmd (cv_pd R) (cv_uuid R) ctype nm target f of
        Inl e \<Rightarrow> (Inl e, s)
      | Inr ch \<Rightarrow>
         report (\<lambda>v. line [''added check '', ck_Name ch, '' ('', ck_Type ch, '') id='', ck_ID ch, '' '', emdash, '' cluster version '', ver_text v])
           (submit_marshalled (cv_json R) (cv_call R) MutationAddCheck (qe_Check (cv_json R) ch) s))"

definition check_remove_run :: "'s cli_env \<Rightarrow> string \<Rightarrow> 's command" where
  "check_remove_run R target s =
     report (\<lambda>v. line [''removed check '', target, now_at v])
       (submit (cv_json R) (cv_call R) MutationRemoveCheck (payload_or_empty (qe_Target (cv_json R) target)) s)"

definition check_test_run :: "'s cli_env \<Rightarrow> string \<Rightarrow> string \<Rightarrow> 's command" where
  "check_test_run R target state s =
     (case cv_call R CtrlCheckTest (Some (qe_CheckTest (cv_json R) \<lparr>ct_CheckID = target, ct_State = state\<rparr>)) s of
        (Inl e, s') \<Rightarrow> (Inl e, s')
      | (Inr raw, s') \<Rightarrow> (Inr (line [''test '', normaliseTestState state, '' transition fired for check '', target]), s'))"

section \<open>qu alert\<close>

definition alert_list_run :: "'s cli_env \<Rightarrow> 's command" where
  "alert_list_run R s =
     (case cv_load R of
        Inl e \<Rightarrow> (Inl e, s)
      | Inr c \<Rightarrow>
         (Inr (cv_table R (row [''ID'', ''TYPE'', ''ENABLED'', ''DEFAULT'', ''NAME''] @
            concat (map (\<lambda>a. row [al_ID a, al_Type a, bool_text (\<not> al_Disabled a), bool_text (al_Default a), al_Name a]) (cc_Alerts c)))), s))"

definition alert_remove_run :: "'s cli_env \<Rightarrow> string \<Rightarrow> 's command" where
  "alert_remove_run R target s =
     report (\<lambda>v. line [''removed alert '', target, now_at v])
       (submit (cv_json R) (cv_call R) MutationRemoveAlert (payload_or_empty (qe_Target (cv_json R) target)) s)"

definition alert_test_run :: "'s cli_env \<Rightarrow> string \<Rightarrow> 's command" where
  "alert_test_run R target s =
     (case cv_call R CtrlAlertTest (Some (qe_AlertTest (cv_json R) target)) s of
        (Inl e, s') \<Rightarrow> (Inl e, s')
      | (Inr raw, s') \<Rightarrow> (Inr (line [''test alert sent via '', target]), s'))"

definition alert_default_run :: "'s cli_env \<Rightarrow> string \<Rightarrow> string \<Rightarrow> 's command" where
  "alert_default_run R target switch s =
     (if switch \<notin> {''on'', ''true'', ''yes'', ''1''} \<and> switch \<notin> {''off'', ''false'', ''no'', ''0''} then
        (Inl (ErrMsg (''second arg must be on/off, got '' @ Quote switch)), s)
      else from_local R (alert_default_cmd target switch) (\<lambda>a s.
        report (\<lambda>v. line [''alert '', al_Name a, '' default='', bool_text (al_Default a), '' '', emdash, '' cluster version '', ver_text v])
          (submit (cv_json R) (cv_call R) MutationAddAlert (payload_or_empty (qe_Alert (cv_json R) a)) s)) s)"

definition alert_toggle_run :: "'s cli_env \<Rightarrow> string \<Rightarrow> bool \<Rightarrow> string \<Rightarrow> 's command" where
  "alert_toggle_run R use disabled target =
     from_local R (\<lambda>c. case alert_toggle_cmd disabled target c of
          Inl e \<Rightarrow> Inl e
        | Inr x \<Rightarrow> Inr (x, FindAlert c target)) (\<lambda>(x, existing) s.
       case x of
         None \<Rightarrow> (Inr (line [''alert '', (case existing of None \<Rightarrow> [] | Some a \<Rightarrow> al_Name a), '' already '', use, ''d'']), s)
       | Some a \<Rightarrow>
           report (\<lambda>v. line [use, ''d alert '', al_Name a, now_at v])
             (submit_marshalled (cv_json R) (cv_call R) MutationAddAlert (qe_Alert (cv_json R) a) s))"

definition alert_edit_run :: "'s cli_env \<Rightarrow> string \<Rightarrow> alert_flags \<Rightarrow> 's command" where
  "alert_edit_run R target f =
     from_local R (alert_edit_cmd (cv_read R) target f) (\<lambda>a s.
       report (\<lambda>v. line [''updated alert '', al_Name a, now_at v])
         (submit_marshalled (cv_json R) (cv_call R) MutationAddAlert (qe_Alert (cv_json R) a) s))"

definition alert_added :: "'s cli_env \<Rightarrow> string \<Rightarrow> err + Alert \<Rightarrow> 's command" where
  "alert_added R kind made s =
     (case made of
        Inl e \<Rightarrow> (Inl e, s)
      | Inr a \<Rightarrow>
         report (\<lambda>v. line [''added '', kind, '' alert '', al_Name a, '' id='', al_ID a, '' '', emdash, '' cluster version '', ver_text v])
           (submit (cv_json R) (cv_call R) MutationAddAlert (payload_or_empty (qe_Alert (cv_json R) a)) s))"

definition smtp_add_run :: "'s cli_env \<Rightarrow> string \<Rightarrow> bool \<Rightarrow> smtp_flags \<Rightarrow> string \<Rightarrow> string \<Rightarrow> string \<Rightarrow> string \<Rightarrow> 's command" where
  "smtp_add_run R nm dflt f subject subject_path body body_path =
     alert_added R ''smtp'' (smtp_add_cmd (cv_uuid R) nm dflt f (resolveTemplateFlags (cv_read R) subject subject_path body body_path))"

definition discord_add_run :: "'s cli_env \<Rightarrow> string \<Rightarrow> bool \<Rightarrow> string \<Rightarrow> string \<Rightarrow> string \<Rightarrow> string \<Rightarrow> string \<Rightarrow> 's command" where
  "discord_add_run R nm dflt webhook subject subject_path body body_path =
     alert_added R ''discord'' (discord_add_cmd (cv_uuid R) nm dflt webhook (resolveTemplateFlags (cv_read R) subject subject_path body body_path))"

section \<open>qu node, qu cluster resolvers, qu trust\<close>

definition node_remove_run :: "'s cli_env \<Rightarrow> string \<Rightarrow> 's command" where
  "node_remove_run R nodeID s =
     (case cv_call R CtrlNodeRemove (Some (qe_Node (cv_json R) nodeID)) s of
        (Inl e, s') \<Rightarrow> (Inl e, s')
      | (Inr raw, s') \<Rightarrow>
         (Inr (line [''removed '', nodeID, now_at (if raw = [] then 0 else qd_Version (cv_json R) raw)]), s'))"

text \<open>The flag is checked before the configuration is read.\<close>

definition node_edit_run :: "'s cli_env \<Rightarrow> string option \<Rightarrow> string \<Rightarrow> 's command" where
  "node_edit_run R address nodeID s =
     (case address of
        None \<Rightarrow> (Inl (ErrMsg ''--address is required''), s)
      | Some v \<Rightarrow>
         (if TrimSpace v = [] then (Inl (ErrMsg ''--address cannot be empty''), s)
          else from_local R (node_edit_cmd address nodeID) (\<lambda>p s.
            report (\<lambda>v. line [''updated peer '', pi_NodeID p, '' -> '', pi_Advertise p, now_at v])
              (submit_marshalled (cv_json R) (cv_call R) MutationAddPeer (qe_Peer (cv_json R) p) s)) s))"

definition resolvers_show_run :: "'s cli_env \<Rightarrow> 's command" where
  "resolvers_show_run R s =
     (case cv_load R of
        Inl e \<Rightarrow> (Inl e, s)
      | Inr c \<Rightarrow>
         (if cc_Resolvers c = [] then (Inr (line [''(none '', emdash, '' checks fall back to each host'', [CHR 0x27], ''s system resolver)'']), s)
          else (Inr (concat (map (\<lambda>r. line [r]) (cc_Resolvers c))), s)))"

definition resolvers_set_run :: "'s cli_env \<Rightarrow> string list \<Rightarrow> 's command" where
  "resolvers_set_run R args s =
     (case resolvers_set_cmd args of
        Inl e \<Rightarrow> (Inl e, s)
      | Inr cleaned \<Rightarrow>
         report (\<lambda>v. line [''cluster resolvers set to '', Join cleaned '', '', now_at v])
           (submit_marshalled (cv_json R) (cv_call R) MutationSetResolvers (qe_Resolvers (cv_json R) cleaned) s))"

definition resolvers_clear_run :: "'s cli_env \<Rightarrow> 's command" where
  "resolvers_clear_run R s =
     report (\<lambda>v. line [''cluster resolvers cleared'', now_at v])
       (submit (cv_json R) (cv_call R) MutationSetResolvers (payload_or_empty (qe_Resolvers (cv_json R) [])) s)"

definition trust_list_run :: "'s cli_env \<Rightarrow> 's command" where
  "trust_list_run R s =
     (case cv_call R CtrlTrustList None s of
        (Inl e, s') \<Rightarrow> (Inl e, s')
      | (Inr raw, s') \<Rightarrow>
         (case qd_Trust (cv_json R) raw of
            Inl e \<Rightarrow> (Inl e, s')
          | Inr es \<Rightarrow>
             (Inr (cv_table R (row [''NODE_ID'', ''ADDRESS'', ''FINGERPRINT'', ''ADDED''] @
                concat (map (\<lambda>e. row [te_NodeID e, te_Address e, te_Fingerprint e, cv_rfc3339 R (te_AddedAt e)]) es))), s')))"

definition trust_remove_run :: "'s cli_env \<Rightarrow> string \<Rightarrow> 's command" where
  "trust_remove_run R nodeID s =
     (case cv_call R CtrlTrustRemove (Some (qe_Node (cv_json R) nodeID)) s of
        (Inl e, s') \<Rightarrow> (Inl e, s')
      | (Inr raw, s') \<Rightarrow>
         (if qd_Removed (cv_json R) raw then (Inr (line [''trust entry '', nodeID, '' removed'']), s')
          else (Inr (line [''no trust entry for '', nodeID]), s')))"

section \<open>qu status\<close>

definition checks_rows :: "CheckSnapshot list \<Rightarrow> string" where
  "checks_rows cs = row [''ID'', ''NAME'', ''STATE'', ''OK/TOTAL'', ''ALERTS'', ''DETAIL''] @
     concat (map (\<lambda>c. row [cs_CheckID c, cs_Name c, stateCol (cs_State c) (cs_Disabled c),
       Itoa (int (cs_OKCount c)) @ ''/'' @ Itoa (int (cs_Total c)), alertsCol (cs_Alerts c), cs_Detail c]) cs)"

definition peers_rows :: "(gotime \<Rightarrow> string) \<Rightarrow> StatusResponse \<Rightarrow> string" where
  "peers_rows rfc st = row [[], ''NODE_ID'', ''ADVERTISE'', ''LIVE'', ''LAST_SEEN''] @
     concat (map (\<lambda>p. row [if pl_NodeID p = sr_NodeID st then ''*'' else '' '', pl_NodeID p, pl_Advertise p, bool_text (pl_Live p),
       if pl_LastSeen p = 0 then ''-'' else rfc (pl_LastSeen p)]) (sr_Peers st))"

definition with_status :: "'s cli_env \<Rightarrow> (StatusResponse \<Rightarrow> string) \<Rightarrow> 's command" where
  "with_status R txt s =
     (case cv_call R CtrlStatus None s of
        (Inl e, s') \<Rightarrow> (Inl e, s')
      | (Inr raw, s') \<Rightarrow> (case qd_Status (cv_json R) raw of Inl e \<Rightarrow> (Inl e, s') | Inr st \<Rightarrow> (Inr (txt st), s')))"

definition runStatusPrint :: "'s cli_env \<Rightarrow> bool \<Rightarrow> 's command" where
  "runStatusPrint R peersOnly =
     with_status R (\<lambda>st.
       line [''node       '', sr_NodeID st] @ line [''term       '', ver_text (sr_Term st)] @
       line [''master     '', masterOrNone (sr_MasterID st)] @
       line [''quorum     '', bool_text (sr_HasQuorum st), '' (need '', Itoa (int (sr_QuorumSize st)), '')''] @
       line [''config ver '', ver_text (sr_Version st)] @ line [] @ line [''PEERS''] @
       cv_table R (peers_rows (cv_rfc3339 R) st) @ line [''(* = this node)''] @
       (if peersOnly then []
        else line [] @ line [''CHECKS''] @ cv_table R (checks_rows (sr_Checks st)) @
          line [''(alerts marked * are attached as defaults)'']))"

definition runStatusPrintChecks :: "'s cli_env \<Rightarrow> 's command" where
  "runStatusPrintChecks R = with_status R (\<lambda>st. cv_table R (checks_rows (sr_Checks st)))"

section \<open>qu enroll\<close>

text \<open>\<open>d.Round(time.Second)\<close>, away from zero on a tie; near the ends of the range it saturates.\<close>

definition round_second :: "duration \<Rightarrow> duration" where
  "round_second d =
     (let a = \<bar>d\<bar>; r = a mod Second; n = (if r + r < Second then a - r else a + Second - r)
      in if d < 0 then max (- (2 ^ 63)) (- n) else min (2 ^ 63 - 1) n)"

text \<open>The summary that \<open>qu init\<close> and the automatic initialisation of \<open>qu serve\<close> print (\<open>internal/cli/init.go\<close>), and what
  \<open>main\<close> makes of the result of a command: the line on the standard error, and the exit code.\<close>

definition printBootstrapResult :: "os_env \<Rightarrow> NodeConfig \<Rightarrow> string" where
  "printBootstrapResult e n =
     line [''initialised node '', nc_NodeID n] @ line [''data dir: '', DataDir e] @ line [''advertise: '', AdvertiseAddr n]"

definition qu_main :: "err + 'a \<Rightarrow> string \<times> nat" where
  "qu_main res = (case res of Inl e \<Rightarrow> (line [''error: '', err_text e], 1) | Inr _ \<Rightarrow> ([], 0))"

definition printEnrollCreateResult :: "'s cli_env \<Rightarrow> EnrollCreateResult \<Rightarrow> string" where
  "printEnrollCreateResult R res =
     line [''enrollment token created.''] @ line [''  id          : '', ec_ID res] @
     (if ec_Name res \<noteq> [] then line [''  name        : '', ec_Name res] else []) @
     line [''  expires at  : '', cv_rfc3339 R (ec_ExpiresAt res), ''  ('',
       cv_duration R (round_second (cv_until R (ec_ExpiresAt res))), '' from now)''] @
     (if ec_AutoApprove res then line [''  approval    : auto (joiner becomes a peer on submission)'']
      else line [''  approval    : manual (run `qu enroll approve` after submission)'']) @
     line [] @ line [''run on the new host:''] @ line [''  qu enroll join '', ec_Token res] @ line [] @
     line [''the token is single-use; revoke with `qu enroll revoke '', ec_ID res, ''`.'']"

definition expires_col :: "'s cli_env \<Rightarrow> EnrollListEntry \<Rightarrow> string" where
  "expires_col R e =
     (if le_ExpiresAt e = 0 then ''-''
      else if le_ExpiresAt e < cv_now R then ''EXPIRED''
      else cv_duration R (round_second (cv_until R (le_ExpiresAt e))))"

definition printEnrollList :: "'s cli_env \<Rightarrow> EnrollListEntry list \<Rightarrow> string" where
  "printEnrollList R es =
     (if es = [] then line [''no outstanding enrollment tokens.'']
      else cv_table R (row [''ID'', ''NAME'', ''APPROVAL'', ''EXPIRES'', ''PENDING JOINER''] @
        concat (map (\<lambda>e. row [shortID (le_ID e), (if le_Name e = [] then ''-'' else le_Name e),
          (if le_AutoApprove e then ''auto'' else ''manual''), expires_col R e,
          (case le_Pending e of None \<Rightarrow> ''-'' | Some pj \<Rightarrow> shortID (lj_NodeID pj) @ '' @ '' @ lj_Advertise pj)]) es)))"

definition enroll_create_run :: "'s cli_env \<Rightarrow> string \<Rightarrow> duration \<Rightarrow> bool \<Rightarrow> 's command" where
  "enroll_create_run R nm ttl autoApprove s =
     (case cv_call R CtrlEnrollCreate
         (Some (qe_EnrollCreate (cv_json R) \<lparr>eb_Name = TrimSpace nm, eb_TTL = ttl, eb_AutoApprove = autoApprove\<rparr>)) s of
        (Inl e, s') \<Rightarrow> (Inl e, s')
      | (Inr raw, s') \<Rightarrow>
         (case qd_Created (cv_json R) raw of Inl e \<Rightarrow> (Inl e, s') | Inr res \<Rightarrow> (Inr (printEnrollCreateResult R res), s')))"

definition enroll_list_run :: "'s cli_env \<Rightarrow> 's command" where
  "enroll_list_run R s =
     (case cv_call R CtrlEnrollList None s of
        (Inl e, s') \<Rightarrow> (Inl e, s')
      | (Inr raw, s') \<Rightarrow>
         (case qd_List (cv_json R) raw of Inl e \<Rightarrow> (Inl e, s') | Inr es \<Rightarrow> (Inr (printEnrollList R es), s')))"

definition enroll_target_run :: "'s cli_env \<Rightarrow> string \<Rightarrow> string \<Rightarrow> string \<Rightarrow> 's command" where
  "enroll_target_run R method verb target s =
     (case cv_call R method (Some (qe_EnrollTarget (cv_json R) target)) s of
        (Inl e, s') \<Rightarrow> (Inl e, s')
      | (Inr raw, s') \<Rightarrow> (Inr (line [verb, '' '', target, now_at (qd_Version (cv_json R) raw)]), s'))"

definition enroll_approve_run :: "'s cli_env \<Rightarrow> string \<Rightarrow> 's command" where
  "enroll_approve_run R = enroll_target_run R CtrlEnrollApprove ''approved''"

definition enroll_revoke_run :: "'s cli_env \<Rightarrow> string \<Rightarrow> 's command" where
  "enroll_revoke_run R = enroll_target_run R CtrlEnrollRevoke ''revoked''"

section \<open>From the command line to the cluster\<close>

text \<open>The coding of one mutation and of its answer works: both ends agree on it, and neither message
  exceeds the daemon's frame limit.\<close>

definition carries :: "client_json \<Rightarrow> control_json \<Rightarrow> cmd_json \<Rightarrow> MutateBody \<Rightarrow> 64 word \<Rightarrow> bool" where
  "carries C J Q mb v \<longleftrightarrow>
     (\<exists>b rq vb rs. qe_Mutate Q mb = Inr b \<and> cj_Mutate J b = Inr mb \<and> cj_RawPayload J (mb_Payload mb) = Inr (mb_Payload mb) \<and>
        cc_Request C \<lparr>cr_Method = CtrlMutate, cr_Body = b\<rparr> = Inr rq \<and> cj_Request J rq = Inr \<lparr>cr_Method = CtrlMutate, cr_Body = b\<rparr> \<and>
        length rq \<le> controlMaxFrame \<and> ce_Version J v = Inr vb \<and> cj_Response J \<lparr>cp_Error = [], cp_Body = vb\<rparr> = Inr rs \<and>
        cc_Response C rs = Inr \<lparr>cp_Error = [], cp_Body = vb\<rparr> \<and> length rs \<le> controlMaxFrame \<and> qd_Version Q vb = v)"

lemma frame_limit: "n \<le> controlMaxFrame \<Longrightarrow> n < 2 ^ 32"
  by (simp add: controlMaxFrame_def)

lemma submit_commits:
  assumes wire: "carries C J Q \<lparr>mb_Kind = kind, mb_Payload = payload\<rparr> (cc_Version (cs_cfg (d_cfg d)) + 1)"
    and master: "IsMaster (d_quorum d)" and quorum: "HasQuorum (mu_now (co_mut co)) (cs_cfg (d_cfg d)) (d_quorum d)"
    and disk: "ce_write (mu_call (co_mut co)) = io_good" "yaml_Marshal (dv_yaml D) (bump (mu_call (co_mut co)) (self_of d) c) = Inr bytes"
    and app: "apply_mutation (dv_json D) kind payload (cs_cfg (d_cfg d)) = (None, c)"
  shows "\<exists>d'. submit Q (callDaemon C None None None sock (control_service D T J co)) kind payload (d, []) =
       (Inr (cc_Version (cs_cfg (d_cfg d)) + 1), d', sent_effect (broadcast (self_of d) (d_cfg d'))) \<and>
     cs_cfg (d_cfg d') = bump (mu_call (co_mut co)) (self_of d) c"
proof -
  let ?v = "cc_Version (cs_cfg (d_cfg d)) + 1"
  from wire obtain b rq vb rs where enc: "qe_Mutate Q \<lparr>mb_Kind = kind, mb_Payload = payload\<rparr> = Inr b"
    and dec: "cj_Mutate J b = Inr \<lparr>mb_Kind = kind, mb_Payload = payload\<rparr>" "cj_RawPayload J payload = Inr payload"
    and req: "cc_Request C \<lparr>cr_Method = CtrlMutate, cr_Body = b\<rparr> = Inr rq" "cj_Request J rq = Inr \<lparr>cr_Method = CtrlMutate, cr_Body = b\<rparr>"
    and small: "length rq \<le> controlMaxFrame" and vb: "ce_Version J ?v = Inr vb"
    and res: "cj_Response J \<lparr>cp_Error = [], cp_Body = vb\<rparr> = Inr rs" "cc_Response C rs = Inr \<lparr>cp_Error = [], cp_Body = vb\<rparr>"
      "length rs \<le> controlMaxFrame" and v: "qd_Version Q vb = ?v"
    by (auto simp: carries_def)
  obtain d' out where mut: "daemon_mutate D (co_mut co) kind (Inr payload) d = (Inr ?v, d', out)"
    and cfg: "cs_cfg (d_cfg d') = bump (mu_call (co_mut co)) (self_of d) c"
    using daemon_mutate_good [OF master quorum disk app] by blast
  have out: "out = broadcast (self_of d) (d_cfg d')" using daemon_mutate_master [OF mut master] by blast
  have "dispatch D T J co \<lparr>cr_Method = CtrlMutate, cr_Body = b\<rparr> d = (\<lparr>cp_Error = [], cp_Body = vb\<rparr>, d', sent_effect out)"
    using dec mut vb by (simp add: dispatch_def tag_defs with_body_def ctrl_mutation_def ctrl_ok_def)
  from control_exchange [OF req(1,2) frame_limit [OF small] this res(1,2) frame_limit [OF res(3)], where sock = sock]
  have "callDaemon C None None None sock (control_service D T J co) CtrlMutate (Some (Inr b)) (d, []) = (Inr vb, d', sent_effect out)"
    using small res(3) by simp
  then show ?thesis using enc v cfg out by (simp add: submit_def)
qed

section \<open>Properties\<close>

text \<open>C27. \<open>qu check edit\<close> from the command line to the cluster. On a master with quorum whose disk works and
  whose \<open>cluster.yaml\<close> is in step, for flags that give a check whose name no other check has, the
  command reports success with the next version; the configuration is then the old one with exactly
  the edited check replaced at its position, at that version; and it has been broadcast.\<close>

theorem check_edit_commits:
  assumes load: "cv_load R = Inr (cs_cfg (d_cfg d))"
    and call: "cv_call R = callDaemon C None None None sock (control_service D T J co)"
    and found: "find_check target (cs_cfg (d_cfg d)) = Some ch" and edit: "check_edit (cv_pd R) f ch = Inr ch'"
    and named: "ck_ID ch \<noteq> []" "ck_Name ch' \<noteq> []" and dist: "distinct (cc_Checks (cs_cfg (d_cfg d)))"
    and unique: "\<forall>x \<in> set (cc_Checks (cs_cfg (d_cfg d))). x \<noteq> ch \<longrightarrow> ck_ID x \<noteq> ck_ID ch \<and> ck_Name x \<noteq> ck_Name ch'"
    and json: "qe_Check (cv_json R) ch' = Inr p" "js_Check (dv_json D) p = Inr ch'"
    and wire: "carries C J (cv_json R) \<lparr>mb_Kind = MutationAddCheck, mb_Payload = p\<rparr> (cc_Version (cs_cfg (d_cfg d)) + 1)"
    and master: "IsMaster (d_quorum d)" and quorum: "HasQuorum (mu_now (co_mut co)) (cs_cfg (d_cfg d)) (d_quorum d)"
    and disk: "ce_write (mu_call (co_mut co)) = io_good" "\<And>c. \<exists>bytes. yaml_Marshal (dv_yaml D) c = Inr bytes"
  shows "\<exists>d'. check_edit_run R target f (d, []) =
       (Inr (line [''updated check '', ck_Name ch', now_at (cc_Version (cs_cfg (d_cfg d)) + 1)]),
        d', sent_effect (broadcast (self_of d) (d_cfg d'))) \<and>
     cs_cfg (d_cfg d') = bump (mu_call (co_mut co)) (self_of d)
       ((cs_cfg (d_cfg d))\<lparr>cc_Checks := map (\<lambda>x. if x = ch then ch' else x) (cc_Checks (cs_cfg (d_cfg d)))\<rparr>)"
proof -
  let ?c = "cs_cfg (d_cfg d)" and ?c' = "(cs_cfg (d_cfg d))\<lparr>cc_Checks := map (\<lambda>x. if x = ch then ch' else x) (cc_Checks (cs_cfg (d_cfg d)))\<rparr>"
  have cmd: "check_edit_cmd (cv_pd R) target f ?c = Inr ch'" using found edit by (simp add: check_edit_cmd_def)
  have "apply_add_check ch' ?c = (None, ?c')" by (rule edit_replaces_entry [OF found cmd named dist unique])
  then have app: "apply_mutation (dv_json D) MutationAddCheck p ?c = (None, ?c')"
    using json by (simp add: apply_mutation_def decode_def)
  obtain bytes where "yaml_Marshal (dv_yaml D) (bump (mu_call (co_mut co)) (self_of d) ?c') = Inr bytes" using disk(2) by blast
  from submit_commits [OF wire master quorum disk(1) this app, where sock = sock and T = T] obtain d' where
    "submit (cv_json R) (cv_call R) MutationAddCheck p (d, []) =
       (Inr (cc_Version ?c + 1), d', sent_effect (broadcast (self_of d) (d_cfg d')))"
    and "cs_cfg (d_cfg d') = bump (mu_call (co_mut co)) (self_of d) ?c'"
    by (auto simp: call)
  then show ?thesis
    using load cmd json by (simp add: check_edit_run_def from_local_def submit_marshalled_def report_def)
qed

text \<open>The edit of \<open>check_commands_typed_witness\<close> on a master of three nodes.\<close>

definition run_edited :: Check where
  "run_edited = cli_check\<lparr>ck_Name := ''site'', ck_Interval := 1 * Minute, ck_ExpectStatus := 204\<rparr>"

definition run_daemon :: daemon where
  "run_daemon = demo_daemon ''a'' (demo_state\<lparr>cs_cfg := demo_cluster\<lparr>cc_Checks := cc_Checks cli_cfg\<rparr>\<rparr>)"

definition run_denv :: daemon_env where
  "run_denv = rem_denv\<lparr>dv_json := demo_json\<lparr>js_Check := (\<lambda>_. Inr run_edited)\<rparr>\<rparr>"

definition run_json :: control_json where
  "run_json = list_json\<lparr>cj_Request := (\<lambda>_. Inr \<lparr>cr_Method = CtrlMutate, cr_Body = ''b''\<rparr>),
     cj_Mutate := (\<lambda>_. Inr \<lparr>mb_Kind = MutationAddCheck, mb_Payload = ''p''\<rparr>), cj_Response := (\<lambda>_. Inr ''rs'')\<rparr>"

definition run_client :: client_json where
  "run_client = \<lparr>cc_Request = (\<lambda>_. Inr ''rq''), cc_Response = (\<lambda>_. Inr \<lparr>cp_Error = [], cp_Body = ''version''\<rparr>)\<rparr>"

definition run_codec :: cmd_json where
  "run_codec = \<lparr>qe_Check = (\<lambda>_. Inr ''p''), qe_Alert = (\<lambda>_. Inr ''p''), qe_Peer = (\<lambda>_. Inr ''p''), qe_Target = Inr, qe_Resolvers = (\<lambda>_. Inr ''p''),
     qe_Mutate = (\<lambda>_. Inr ''b''), qe_Node = Inr, qe_AlertTest = Inr, qe_CheckTest = (\<lambda>_. Inr ''b''), qe_EnrollCreate = (\<lambda>_. Inr ''b''),
     qe_EnrollTarget = Inr, qd_Status = (\<lambda>_. Inl (ErrLib ''json'')), qd_Trust = (\<lambda>_. Inr []), qd_Created = (\<lambda>_. Inl (ErrLib ''json'')),
     qd_List = (\<lambda>_. Inr []), qd_Version = (\<lambda>_. 2), qd_Removed = (\<lambda>_. True)\<rparr>"

definition run_cli :: "token_json \<Rightarrow> control_env \<Rightarrow> (daemon \<times> effect list) cli_env" where
  "run_cli T co = \<lparr>cv_load = Inr (cs_cfg (d_cfg run_daemon)),
     cv_call = callDaemon run_client None None None ''qu.sock'' (control_service run_denv T run_json (rem_env co)), cv_json = run_codec,
     cv_pd = (\<lambda>_. Inr (1 * Minute)), cv_uuid = ''u'', cv_read = Inr, cv_table = (\<lambda>t. t), cv_rfc3339 = (\<lambda>_. []), cv_now = 0,
     cv_until = (\<lambda>_. 0), cv_duration = (\<lambda>_. [])\<rparr>"

lemma run_simps [simp]:
  "cs_cfg (d_cfg run_daemon) = demo_cluster\<lparr>cc_Checks := [demo_chk ''c0'' ''dns'', cli_check]\<rparr>" "IsMaster (d_quorum run_daemon)"
  "self_of run_daemon = ''a''" "js_Check (dv_json run_denv) s = Inr run_edited" "yaml_Marshal (dv_yaml run_denv) c = Inr ''yaml''"
  "co_mut (rem_env co) = enr_mut" "cc_Version demo_cluster = 1"
  by (simp_all add: run_daemon_def cli_cfg_def IsMaster_def Master_def run_denv_def rem_env_def demo_cluster_def)

lemma run_other: "demo_chk ''c0'' ''dns'' \<noteq> cli_check"
proof
  assume "demo_chk ''c0'' ''dns'' = cli_check"
  then have "ck_ID (demo_chk ''c0'' ''dns'') = ck_ID cli_check" by simp
  then show False by (simp add: demo_chk_def cli_check_def)
qed

lemma run_carries: "carries run_client run_json run_codec \<lparr>mb_Kind = MutationAddCheck, mb_Payload = ''p''\<rparr> 2"
  by (simp add: carries_def run_client_def run_json_def run_codec_def list_json_def controlMaxFrame_def)

theorem check_edit_commits_witness:
  "\<forall>T co. \<exists>d'. check_edit_run (run_cli T co) ''web'' cli_flags (run_daemon, []) =
       (Inr (line [''updated check '', ''site'', now_at 2]), d', sent_effect (broadcast ''a'' (d_cfg d'))) \<and>
     cc_Checks (cs_cfg (d_cfg d')) = [demo_chk ''c0'' ''dns'', run_edited]"
proof (intro allI)
  fix T co
  have found: "find_check ''web'' (cs_cfg (d_cfg run_daemon)) = Some cli_check"
    using cli_find by (simp add: find_check_def cli_cfg_def)
  have edit: "check_edit (cv_pd (run_cli T co)) cli_flags cli_check = Inr run_edited"
    using cli_edited cli_find by (simp add: check_edit_cmd_def run_cli_def run_edited_def)
  note ne = run_other
  have q: "HasQuorum (mu_now (co_mut (rem_env co))) (cs_cfg (d_cfg run_daemon)) (d_quorum run_daemon)"
    by (simp add: run_daemon_def demo_cluster_def enr_quorum)
  have "\<exists>d'. check_edit_run (run_cli T co) ''web'' cli_flags (run_daemon, []) =
       (Inr (line [''updated check '', ck_Name run_edited, now_at (cc_Version (cs_cfg (d_cfg run_daemon)) + 1)]), d',
        sent_effect (broadcast (self_of run_daemon) (d_cfg d'))) \<and>
     cs_cfg (d_cfg d') = bump (mu_call (co_mut (rem_env co))) (self_of run_daemon)
       ((cs_cfg (d_cfg run_daemon))\<lparr>cc_Checks := map (\<lambda>x. if x = cli_check then run_edited else x) (cc_Checks (cs_cfg (d_cfg run_daemon)))\<rparr>)"
    by (rule check_edit_commits [OF _ _ found edit, where C = run_client and J = run_json and p = "''p''" and sock = "''qu.sock''"
          and D = run_denv and T = T and co = "rem_env co"])
      (use ne q run_carries in \<open>simp_all add: run_cli_def run_codec_def run_edited_def cli_check_def demo_call_def\<close>)
  with ne show "\<exists>d'. check_edit_run (run_cli T co) ''web'' cli_flags (run_daemon, []) =
       (Inr (line [''updated check '', ''site'', now_at 2]), d', sent_effect (broadcast ''a'' (d_cfg d'))) \<and>
     cc_Checks (cs_cfg (d_cfg d')) = [demo_chk ''c0'' ''dns'', run_edited]"
    by (auto simp: run_edited_def bump.simps)
qed

end
