(* ===== verification/Forms.thy ===== *)
theory Forms
  imports Client
begin

text \<open>
  The dialogs of the terminal UI: \<open>internal/tui/forms.go\<close>. A dialog is a form, a picker or a
  confirmation. A text input of the \<open>bubbles\<close> library is a value of type \<open>'w\<close> with the operations of
  \<open>widgets\<close>; what \<open>lipgloss\<close> makes of a text in a given style is the function \<open>render\<close>. A \<open>tea.Cmd\<close>
  is a value of \<open>tea_cmd\<close> that says what will run and with which captured variables; running it
  against the daemon, which yields the next message, is \<open>run_submit\<close> and, in \<open>Tui\<close>, \<open>perform\<close>.
\<close>

section \<open>Messages and commands\<close>

datatype flashLevel = flashInfo | flashWarn | flashError

datatype tea_msg =
    WindowSizeMsg int int
  | TickMsg
  | StatusMsg "err + StatusResponse"
  | ConfigMsg "err + PeerInfo list \<times> Check list \<times> Alert list"
  | ModalDone string flashLevel
  | FormSubmitErr string
  | KeyMsg string
  | LibMsg string

text \<open>Which form it is, with the variables its submit closure captures.\<close>

datatype form_kind =
    AddCheckForm CheckType
  | AddDiscordForm
  | AddSMTPForm
  | AddNodeForm
  | EditCheckForm Check
  | EditDiscordForm Alert
  | EditSMTPForm Alert
  | EditNodeForm PeerInfo

text \<open>What a confirmation removes: the ID and the name shown.\<close>

datatype remove_target = RemovePeer string | RemoveCheck string string | RemoveAlert string string

datatype tea_cmd =
    NilCmd
  | BatchCmd "tea_cmd list"
  | BlinkCmd
  | LibCmd
  | QuitCmd
  | ClearScreenCmd
  | TickCmd
  | LoadStatusCmd
  | LoadConfigCmd
  | DoneCmd string flashLevel
  | SubmitCmd form_kind "string list"
  | RemoveCmd remove_target
  | TestCheckCmd string string string string
  | TestAlertCmd string string
  | ToggleCheckCmd Check
  | ToggleAlertCmd Alert
  | ToggleDefaultCmd Alert

section \<open>Fields\<close>

datatype widget_kind = TextInput | PasswordInput | TextArea

record 'w widgets =
  wg_new :: "widget_kind \<Rightarrow> string \<Rightarrow> string \<Rightarrow> 'w"
  wg_limit :: "'w \<Rightarrow> 'w"
  wg_value :: "'w \<Rightarrow> string"
  wg_focused :: "'w \<Rightarrow> bool"
  wg_focus :: "'w \<Rightarrow> 'w"
  wg_blur :: "'w \<Rightarrow> 'w"
  wg_setWidth :: "int \<Rightarrow> 'w \<Rightarrow> 'w"
  wg_update :: "tea_msg \<Rightarrow> 'w \<Rightarrow> 'w"
  wg_view :: "'w \<Rightarrow> string"

record 'w formField =
  fd_label :: string
  fd_hint :: string
  fd_required :: bool
  fd_multiline :: bool
  fd_input :: 'w

definition field_value :: "'w widgets \<Rightarrow> 'w formField \<Rightarrow> string" where
  "field_value W fld = wg_value W (fd_input fld)"

definition field_focus :: "'w widgets \<Rightarrow> 'w formField \<Rightarrow> 'w formField" where
  "field_focus W fld = fld\<lparr>fd_input := wg_focus W (fd_input fld)\<rparr>"

definition field_blur :: "'w widgets \<Rightarrow> 'w formField \<Rightarrow> 'w formField" where
  "field_blur W fld = fld\<lparr>fd_input := wg_blur W (fd_input fld)\<rparr>"

definition field_setWidth :: "'w widgets \<Rightarrow> int \<Rightarrow> 'w formField \<Rightarrow> 'w formField" where
  "field_setWidth W w fld = fld\<lparr>fd_input := wg_setWidth W w (fd_input fld)\<rparr>"

text \<open>The width and, for an empty value, the missing \<open>SetValue\<close> are part of \<open>wg_new\<close>.\<close>

definition textFieldWithValue :: "'w widgets \<Rightarrow> string \<Rightarrow> string \<Rightarrow> string \<Rightarrow> bool \<Rightarrow> 'w formField" where
  "textFieldWithValue W label hint v required =
     \<lparr>fd_label = label, fd_hint = hint, fd_required = required, fd_multiline = False, fd_input = wg_new W TextInput hint v\<rparr>"

definition textField :: "'w widgets \<Rightarrow> string \<Rightarrow> string \<Rightarrow> bool \<Rightarrow> 'w formField" where
  "textField W label hint required = textFieldWithValue W label hint [] required"

definition textAreaFieldWithValue :: "'w widgets \<Rightarrow> string \<Rightarrow> string \<Rightarrow> string \<Rightarrow> bool \<Rightarrow> 'w formField" where
  "textAreaFieldWithValue W label hint v required =
     \<lparr>fd_label = label, fd_hint = hint, fd_required = required, fd_multiline = True, fd_input = wg_new W TextArea hint v\<rparr>"

definition textAreaField :: "'w widgets \<Rightarrow> string \<Rightarrow> string \<Rightarrow> bool \<Rightarrow> 'w formField" where
  "textAreaField W label hint required = textAreaFieldWithValue W label hint [] required"

definition passwordFieldWithValue :: "'w widgets \<Rightarrow> string \<Rightarrow> string \<Rightarrow> string \<Rightarrow> 'w formField" where
  "passwordFieldWithValue W label hint v =
     \<lparr>fd_label = label, fd_hint = hint, fd_required = False, fd_multiline = False, fd_input = wg_new W PasswordInput hint v\<rparr>"

definition passwordField :: "'w widgets \<Rightarrow> string \<Rightarrow> string \<Rightarrow> 'w formField" where
  "passwordField W label hint = passwordFieldWithValue W label hint []"

section \<open>Forms\<close>

record 'w form =
  fm_title :: string
  fm_fields :: "'w formField list"
  fm_cursor :: nat
  fm_busy :: bool
  fm_err :: string
  fm_width :: int
  fm_height :: int
  fm_initCmd :: tea_cmd
  fm_submit :: form_kind

definition modalChromeHeight :: int where "modalChromeHeight = 4"
definition defaultFieldWidth :: int where "defaultFieldWidth = 40"

definition fieldWidthFor :: "int \<Rightarrow> int" where
  "fieldWidthFor termWidth = (let w = termWidth - 12 in if w < defaultFieldWidth then defaultFieldWidth else w)"

text \<open>The loop of \<open>focusOnly\<close>: focus the field of that index, blur the others; the command of the
  focused one.\<close>

fun focus_at :: "'w widgets \<Rightarrow> nat \<Rightarrow> 'w formField list \<Rightarrow> 'w formField list" where
  "focus_at W i [] = []"
| "focus_at W i (fld # fs) =
     (case i of 0 \<Rightarrow> field_focus W fld # map (field_blur W) fs | Suc j \<Rightarrow> field_blur W fld # focus_at W j fs)"

definition focusOnly :: "'w widgets \<Rightarrow> nat \<Rightarrow> 'w form \<Rightarrow> tea_cmd \<times> 'w form" where
  "focusOnly W i f = (if i < length (fm_fields f) then BlinkCmd else NilCmd, f\<lparr>fm_fields := focus_at W i (fm_fields f)\<rparr>)"

definition newForm :: "'w widgets \<Rightarrow> string \<Rightarrow> 'w formField list \<Rightarrow> form_kind \<Rightarrow> 'w form" where
  "newForm W title fds kind =
     (let prepared = map (\<lambda>fld. if fd_multiline fld then fld else fld\<lparr>fd_input := wg_limit W (fd_input fld)\<rparr>) fds
      in \<lparr>fm_title = title, fm_fields = focus_at W 0 prepared, fm_cursor = 0, fm_busy = False, fm_err = [], fm_width = 0,
          fm_height = 0, fm_initCmd = (if fds = [] then NilCmd else BlinkCmd), fm_submit = kind\<rparr>)"

definition advance :: "'w widgets \<Rightarrow> int \<Rightarrow> 'w form \<Rightarrow> tea_cmd \<times> 'w form" where
  "advance W delta f =
     (let n = length (fm_fields f) in
      if n = 0 then (NilCmd, f)
      else (let c = nat ((int (fm_cursor f) + delta + int n) mod int n) in focusOnly W c (f\<lparr>fm_cursor := c\<rparr>)))"

text \<open>The validation loop: the first required field left blank.\<close>

fun first_missing :: "'w widgets \<Rightarrow> nat \<Rightarrow> 'w formField list \<Rightarrow> (nat \<times> string) option" where
  "first_missing W i [] = None"
| "first_missing W i (fld # fs) =
     (if fd_required fld \<and> TrimSpace (field_value W fld) = [] then Some (i, fd_label fld) else first_missing W (Suc i) fs)"

definition submitOrAdvance :: "'w widgets \<Rightarrow> 'w form \<Rightarrow> tea_cmd \<times> 'w form" where
  "submitOrAdvance W f =
     (if fm_busy f then (NilCmd, f)
      else if int (fm_cursor f) < int (length (fm_fields f)) - 1 then advance W 1 f
      else
        (let vals = map (field_value W) (fm_fields f) in
         case first_missing W 0 (fm_fields f) of
           Some (i, label) \<Rightarrow> focusOnly W i (f\<lparr>fm_err := label @ '' is required'', fm_cursor := i\<rparr>)
         | None \<Rightarrow> (SubmitCmd (fm_submit f) vals, f\<lparr>fm_busy := True, fm_err := []\<rparr>)))"

definition multiline_at_cursor :: "'w form \<Rightarrow> bool" where
  "multiline_at_cursor f \<longleftrightarrow> fm_cursor f < length (fm_fields f) \<and> fd_multiline (fm_fields f ! fm_cursor f)"

text \<open>What is not claimed goes to the input under the cursor, whose own command is \<open>LibCmd\<close>. The code
  indexes the fields with the cursor there; \<open>form_ok\<close> below keeps that in range.\<close>

definition to_input :: "'w widgets \<Rightarrow> tea_msg \<Rightarrow> 'w form \<Rightarrow> tea_cmd \<times> 'w form" where
  "to_input W msg f =
     (LibCmd, f\<lparr>fm_fields := (fm_fields f)[fm_cursor f :=
        (fm_fields f ! fm_cursor f)\<lparr>fd_input := wg_update W msg (fd_input (fm_fields f ! fm_cursor f))\<rparr>]\<rparr>)"

definition form_key :: "'w widgets \<Rightarrow> string \<Rightarrow> 'w form \<Rightarrow> tea_cmd \<times> 'w form" where
  "form_key W key f =
     (let multiline = multiline_at_cursor f in
      if key = ''esc'' then (DoneCmd [] flashInfo, f)
      else if key = ''tab'' then advance W 1 f
      else if key = ''shift+tab'' then advance W (- 1) f
      else if key = ''down'' \<and> \<not> multiline then advance W 1 f
      else if key = ''up'' \<and> \<not> multiline then advance W (- 1) f
      else if key = ''enter'' \<and> \<not> multiline then submitOrAdvance W f
      else if key = ''shift+enter'' \<or> key = ''ctrl+s'' then submitOrAdvance W f
      else to_input W (KeyMsg key) f)"

definition form_Update :: "'w widgets \<Rightarrow> tea_msg \<Rightarrow> 'w form \<Rightarrow> tea_cmd \<times> 'w form" where
  "form_Update W msg f =
     (case msg of
        WindowSizeMsg w h \<Rightarrow>
          (NilCmd, f\<lparr>fm_width := w, fm_height := (if h - modalChromeHeight < 1 then 1 else h - modalChromeHeight),
             fm_fields := map (field_setWidth W (fieldWidthFor w)) (fm_fields f)\<rparr>)
      | FormSubmitErr e \<Rightarrow> (NilCmd, f\<lparr>fm_busy := False, fm_err := e\<rparr>)
      | KeyMsg key \<Rightarrow> form_key W key f
      | _ \<Rightarrow> to_input W msg f)"

section \<open>Drawing a form\<close>

datatype style =
    TitleStyle | SubtleStyle | AccentStyle | HelpStyle | FlashInfoStyle | FlashWarnStyle | FlashErrorStyle
  | StateUpStyle | StateDownStyle | StateUnknownStyle

text \<open>The arrows and the marker of the cursor, in UTF-8.\<close>

definition up_arrow :: string where "up_arrow = [CHR 0xE2, CHR 0x86, CHR 0x91]"
definition down_arrow :: string where "down_arrow = [CHR 0xE2, CHR 0x86, CHR 0x93]"
definition cursor_mark :: string where "cursor_mark = [CHR 0xE2, CHR 0x96, CHR 0xB8, CHR '' '']"
definition ellipsis :: string where "ellipsis = [CHR 0xE2, CHR 0x80, CHR 0xA6]"

definition lines_of :: "string \<Rightarrow> string list" where
  "lines_of s = Split (CHR 0x0A) s"

text \<open>The lines of one field; the second component says how many of them the focus covers.\<close>

definition field_lines :: "(style \<Rightarrow> string \<Rightarrow> string) \<Rightarrow> 'w widgets \<Rightarrow> bool \<Rightarrow> 'w formField \<Rightarrow> string list" where
  "field_lines render W focused fld =
     ((if focused then cursor_mark else ''  '') @ render (if focused then AccentStyle else SubtleStyle) (fd_label fld)) #
     lines_of (if fd_multiline fld then wg_view W (fd_input fld) else ''  '' @ wg_view W (fd_input fld)) @
     (if focused \<and> fd_hint fld \<noteq> [] then [''  '' @ render HelpStyle (fd_hint fld)] else [])"

fun fields_lines ::
  "(style \<Rightarrow> string \<Rightarrow> string) \<Rightarrow> 'w widgets \<Rightarrow> nat \<Rightarrow> nat \<Rightarrow> string list \<Rightarrow> 'w formField list \<Rightarrow> (nat \<times> nat) option \<Rightarrow>
     string list \<times> (nat \<times> nat) option" where
  "fields_lines render W cursor i ls [] focus = (ls, focus)"
| "fields_lines render W cursor i ls (fld # fs) focus =
     (let ls' = ls @ field_lines render W (i = cursor) fld;
          focus' = (if i = cursor then Some (length ls, length ls') else focus)
      in fields_lines render W cursor (Suc i) (ls' @ [[]]) fs focus')"

definition form_help :: "'w form \<Rightarrow> string" where
  "form_help f =
     (if multiline_at_cursor f then ''tab field   enter newline   shift+enter/ctrl+s submit   esc cancel''
      else up_arrow @ down_arrow @ '' field   enter next/submit   esc cancel'')"

definition renderLines :: "(style \<Rightarrow> string \<Rightarrow> string) \<Rightarrow> 'w widgets \<Rightarrow> 'w form \<Rightarrow> string list \<times> (nat \<times> nat) option" where
  "renderLines render W f =
     (case fields_lines render W (fm_cursor f) 0 (lines_of (render TitleStyle (fm_title f)) @ [[]]) (fm_fields f) None of
        (ls, focus) \<Rightarrow>
          (ls @ (if fm_err f \<noteq> [] then [render FlashErrorStyle (''error: '' @ fm_err f), []] else []) @
             [if fm_busy f then render FlashWarnStyle (''working'' @ ellipsis) else render HelpStyle (form_help f)], focus))"

text \<open>\<open>clipAroundFocus\<close>, with the code's integers; \<open>-1\<close> as the start of the focus means there is none.\<close>

definition clip_start :: "int \<Rightarrow> int \<Rightarrow> int \<Rightarrow> int \<Rightarrow> int" where
  "clip_start n focusStart focusH maxH =
     (let start = (if focusH < maxH then focusStart - (maxH - focusH) div 2 else focusStart);
          start = (if start + maxH > n then n - maxH else start)
      in if start < 0 then 0 else start)"

definition clipAroundFocus :: "(style \<Rightarrow> string \<Rightarrow> string) \<Rightarrow> string list \<Rightarrow> int \<Rightarrow> int \<Rightarrow> int \<Rightarrow> string list" where
  "clipAroundFocus render ls focusStart0 focusEnd0 maxH =
     (let n = int (length ls) in
      if maxH \<le> 0 \<or> n \<le> maxH then ls
      else
        (let focusStart = (if focusStart0 < 0 then 0 else focusStart0);
             focusEnd = (if focusStart0 < 0 then 1 else focusEnd0);
             focusH = (if focusEnd - focusStart < 1 then 1 else focusEnd - focusStart);
             start = clip_start n focusStart focusH maxH;
             stop = start + maxH;
             out = take (nat maxH) (drop (nat start) ls);
             out = (if start > 0 \<and> focusStart > start
                    then out[0 := render SubtleStyle (up_arrow @ '' '' @ Itoa start @ '' more above'')] else out)
         in if stop < n \<and> focusEnd \<le> stop - 1
            then out[length out - 1 := render SubtleStyle (down_arrow @ '' '' @ Itoa (n - stop) @ '' more below'')] else out))"

definition form_View :: "(style \<Rightarrow> string \<Rightarrow> string) \<Rightarrow> 'w widgets \<Rightarrow> 'w form \<Rightarrow> string" where
  "form_View render W f =
     (case renderLines render W f of
        (ls, focus) \<Rightarrow>
          Join (if fm_height f > 0 \<and> int (length ls) > fm_height f
                then (case focus of
                        None \<Rightarrow> clipAroundFocus render ls (- 1) (- 1) (fm_height f)
                      | Some (a, b) \<Rightarrow> clipAroundFocus render ls (int a) (int b) (fm_height f))
                else ls) nl)"

section \<open>Parsing the values of a form\<close>

definition parseDurationOr :: "(string \<Rightarrow> err + duration) \<Rightarrow> string \<Rightarrow> duration \<Rightarrow> duration" where
  "parseDurationOr pd s fallback =
     (let s = TrimSpace s in
      if s = [] then fallback else (case pd s of Inl e \<Rightarrow> fallback | Inr d \<Rightarrow> d))"

text \<open>The accumulator of \<open>atoiOr\<close> is a 64-bit int.\<close>

fun atoi_loop :: "int \<Rightarrow> int \<Rightarrow> string \<Rightarrow> int" where
  "atoi_loop fallback n [] = n"
| "atoi_loop fallback n (r # rs) =
     (if \<not> is_digit r then fallback else atoi_loop fallback (int64 (n * 10 + (of_char r - 48))) rs)"

definition atoiOr :: "string \<Rightarrow> int \<Rightarrow> int" where
  "atoiOr s fallback = (let s = TrimSpace s in if s = [] then fallback else atoi_loop fallback 0 s)"

definition parseBool :: "string \<Rightarrow> bool" where
  "parseBool s \<longleftrightarrow> ToLower (TrimSpace s) \<in> {''yes'', ''y'', ''true'', ''t'', ''on'', ''1''}"

definition parseBoolOr :: "string \<Rightarrow> bool \<Rightarrow> bool" where
  "parseBoolOr s fallback =
     (let s = ToLower (TrimSpace s) in
      if s = [] then fallback
      else if s \<in> {''yes'', ''y'', ''true'', ''t'', ''on'', ''1''} then True
      else if s \<in> {''no'', ''n'', ''false'', ''f'', ''off'', ''0''} then False
      else fallback)"

definition boolStr :: "bool \<Rightarrow> string" where
  "boolStr b = (if b then ''yes'' else ''no'')"

definition targetHint :: "CheckType \<Rightarrow> string" where
  "targetHint t =
     (if t = CheckHTTP then ''https://example.com/health''
      else if t = CheckTCP then ''db.internal:5432''
      else if t = CheckICMP then ''10.0.0.1''
      else if t = CheckTLS then ''example.com[:443] or https://example.com''
      else if t = CheckDNS then ''example.com''
      else [])"

definition shortID8 :: "string \<Rightarrow> string" where
  "shortID8 ident = (if length ident \<le> 8 then ident else take 8 ident)"

text \<open>\<open>alerts.TemplateVarsHint\<close> (\<open>internal/alerts/help.go\<close>).\<close>

definition TemplateVarsHint :: string where
  "TemplateVarsHint =
     ''Go text/template '' @ emdash @ '' leave empty to use the built-in format.'' @ nl @
     ''  Vars: {{.Check.Name}}, {{.Check.Target}}, {{.Check.Type}}, {{.Check.ID}},'' @ nl @
     ''        {{.Verb}} (UP|DOWN|RECOVERED), {{.VerbLower}}, {{.From}}, {{.To}}, {{.NodeID}}, {{.When}},'' @ nl @
     ''        {{.Snapshot.Detail}}, {{.Snapshot.Reports}}, {{.Snapshot.OKCount}}, {{.Snapshot.NotOK}}''"

section \<open>The forms\<close>

text \<open>The fields the add and the edit form of a check have in common, with the values shown: name,
  target, interval, timeout, alerts, then the pair or triple of the type.\<close>

definition check_fields :: "'w widgets \<Rightarrow> CheckType \<Rightarrow> string list \<Rightarrow> string list \<Rightarrow> 'w formField list" where
  "check_fields W ty base extra =
     [textFieldWithValue W ''Name'' ''human-friendly identifier'' (base ! 0) True,
      textFieldWithValue W ''Target'' (targetHint ty) (base ! 1) True,
      textFieldWithValue W ''Interval'' ''e.g. 30s, 1m'' (base ! 2) False,
      textFieldWithValue W ''Timeout'' ''e.g. 10s'' (base ! 3) False,
      textFieldWithValue W ''Alerts'' ''comma-separated alert IDs/names (optional)'' (base ! 4) False] @
     (if ty = CheckHTTP then
        [textFieldWithValue W ''Expect status'' ''e.g. 200 (HTTP only)'' (extra ! 0) False,
         textFieldWithValue W ''Body match'' ''substring required (HTTP only)'' (extra ! 1) False]
      else if ty = CheckTLS then
        [textFieldWithValue W ''Warn days'' ''fail when cert expires within N days (default 14)'' (extra ! 0) False,
         textFieldWithValue W ''SNI'' ''override server name; blank = host from target'' (extra ! 1) False]
      else if ty = CheckDNS then
        [textFieldWithValue W ''Record'' ''a | aaaa | cname | mx | txt | ns (default a)'' (extra ! 0) False,
         textFieldWithValue W ''Resolver'' ''host:port; blank = system resolver'' (extra ! 1) False,
         textFieldWithValue W ''Expect'' ''substring required in an answer (optional)'' (extra ! 2) False]
      else [])"

definition newAddCheckForm :: "'w widgets \<Rightarrow> CheckType \<Rightarrow> 'w form" where
  "newAddCheckForm W ty =
     newForm W (''Add '' @ ToUpper ty @ '' check'') (check_fields W ty [[], [], [], [], []] [[], [], []]) (AddCheckForm ty)"

definition positive_text :: "int \<Rightarrow> string" where
  "positive_text n = (if n > 0 then Itoa n else [])"

definition edit_base :: "(duration \<Rightarrow> string) \<Rightarrow> Check \<Rightarrow> string list" where
  "edit_base dtext c =
     [ck_Name c, ck_Target c, (if ck_Interval c > 0 then dtext (ck_Interval c) else []),
      (if ck_Timeout c > 0 then dtext (ck_Timeout c) else []), Join (ck_AlertIDs c) '','']"

definition edit_extra :: "Check \<Rightarrow> string list" where
  "edit_extra c =
     (if ck_Type c = CheckHTTP then [positive_text (ck_ExpectStatus c), ck_BodyMatch c]
      else if ck_Type c = CheckTLS then [positive_text (ck_TLSWarnDays c), ck_TLSServerName c]
      else [ck_DNSRecord c, ck_DNSResolver c, ck_DNSExpect c])"

definition newEditCheckForm :: "'w widgets \<Rightarrow> (duration \<Rightarrow> string) \<Rightarrow> Check \<Rightarrow> 'w form" where
  "newEditCheckForm W dtext c =
     newForm W (''Edit '' @ ToUpper (ck_Type c) @ '' check'') (check_fields W (ck_Type c) (edit_base dtext c) (edit_extra c)) (EditCheckForm c)"

definition discord_fields :: "'w widgets \<Rightarrow> string \<Rightarrow> string \<Rightarrow> string \<Rightarrow> string \<Rightarrow> 'w formField list" where
  "discord_fields W nm webhook dflt body =
     [textFieldWithValue W ''Name'' ''human-friendly identifier'' nm True,
      textFieldWithValue W ''Webhook URL'' ''https://discord.com/api/webhooks/...'' webhook True,
      textFieldWithValue W ''Default'' (''yes/no '' @ emdash @ '' attach to every check automatically'') dflt False,
      textAreaFieldWithValue W ''Body template'' TemplateVarsHint body False]"

definition newAddDiscordForm :: "'w widgets \<Rightarrow> 'w form" where
  "newAddDiscordForm W = newForm W ''Add Discord alert'' (discord_fields W [] [] [] []) AddDiscordForm"

definition newEditDiscordForm :: "'w widgets \<Rightarrow> Alert \<Rightarrow> 'w form" where
  "newEditDiscordForm W a =
     newForm W ''Edit Discord alert'' (discord_fields W (al_Name a) (al_DiscordWebhook a) (boolStr (al_Default a)) (al_BodyTemplate a))
       (EditDiscordForm a)"

text \<open>The values in the order of the fields: name, host, port, user, password, from, to, STARTTLS,
  default, subject, body.\<close>

definition smtp_fields :: "'w widgets \<Rightarrow> string list \<Rightarrow> 'w formField list" where
  "smtp_fields W v =
     [textFieldWithValue W ''Name'' ''human-friendly identifier'' (v ! 0) True,
      textFieldWithValue W ''Host'' ''smtp.example.com'' (v ! 1) True,
      textFieldWithValue W ''Port'' ''default 587'' (v ! 2) False,
      textFieldWithValue W ''User'' ''leave empty for anonymous'' (v ! 3) False,
      passwordFieldWithValue W ''Password'' ''smtp auth password'' (v ! 4),
      textFieldWithValue W ''From'' ''envelope From address'' (v ! 5) True,
      textFieldWithValue W ''To'' ''comma-separated recipient addresses'' (v ! 6) True,
      textFieldWithValue W ''StartTLS'' (''yes/no '' @ emdash @ '' default yes'') (v ! 7) False,
      textFieldWithValue W ''Default'' (''yes/no '' @ emdash @ '' attach to every check'') (v ! 8) False,
      textFieldWithValue W ''Subject template'' TemplateVarsHint (v ! 9) False,
      textAreaFieldWithValue W ''Body template'' TemplateVarsHint (v ! 10) False]"

definition newAddSMTPForm :: "'w widgets \<Rightarrow> 'w form" where
  "newAddSMTPForm W = newForm W ''Add SMTP alert'' (smtp_fields W (replicate 11 [])) AddSMTPForm"

definition newEditSMTPForm :: "'w widgets \<Rightarrow> Alert \<Rightarrow> 'w form" where
  "newEditSMTPForm W a =
     newForm W ''Edit SMTP alert''
       (smtp_fields W [al_Name a, al_SMTPHost a, positive_text (al_SMTPPort a), al_SMTPUser a, al_SMTPPassword a, al_SMTPFrom a,
          Join (al_SMTPTo a) '','', boolStr (al_SMTPStartTLS a), boolStr (al_Default a), al_SubjectTemplate a, al_BodyTemplate a])
       (EditSMTPForm a)"

definition newAddNodeForm :: "'w widgets \<Rightarrow> 'w form" where
  "newAddNodeForm W =
     newForm W ''Add peer (enrollment token)''
       [textField W ''Name'' ''optional label for this token (e.g. host name)'' False,
        textField W ''TTL'' ''how long the token is valid (default 1h)'' False,
        textField W ''Auto-approve'' ''y to skip cluster-side approval, blank for manual'' False] AddNodeForm"

definition newEditNodeForm :: "'w widgets \<Rightarrow> PeerInfo \<Rightarrow> 'w form" where
  "newEditNodeForm W p =
     newForm W (''Edit node '' @ shortID8 (pi_NodeID p))
       [textFieldWithValue W ''Address'' (''host:9901 '' @ emdash @ '' peer'' @ [CHR 0x27] @ ''s advertise endpoint'') (pi_Advertise p) True]
       (EditNodeForm p)"

definition form_of :: "'w widgets \<Rightarrow> (duration \<Rightarrow> string) \<Rightarrow> form_kind \<Rightarrow> 'w form" where
  "form_of W dtext kind =
     (case kind of
        AddCheckForm ty \<Rightarrow> newAddCheckForm W ty
      | AddDiscordForm \<Rightarrow> newAddDiscordForm W
      | AddSMTPForm \<Rightarrow> newAddSMTPForm W
      | AddNodeForm \<Rightarrow> newAddNodeForm W
      | EditCheckForm c \<Rightarrow> newEditCheckForm W dtext c
      | EditDiscordForm a \<Rightarrow> newEditDiscordForm W a
      | EditSMTPForm a \<Rightarrow> newEditSMTPForm W a
      | EditNodeForm p \<Rightarrow> newEditNodeForm W p)"

section \<open>What a form submits\<close>

definition form_alert_ids :: "string \<Rightarrow> string list" where
  "form_alert_ids v = (let a = TrimSpace v in if a \<noteq> [] then clean_csv a else [])"

definition typed_values :: "CheckType \<Rightarrow> string list \<Rightarrow> Check \<Rightarrow> Check" where
  "typed_values ty vals ch =
     (if ty = CheckHTTP then ch\<lparr>ck_ExpectStatus := atoiOr (vals ! 5) 200, ck_BodyMatch := TrimSpace (vals ! 6)\<rparr>
      else if ty = CheckTLS then ch\<lparr>ck_TLSWarnDays := atoiOr (vals ! 5) 14, ck_TLSServerName := TrimSpace (vals ! 6)\<rparr>
      else if ty = CheckDNS then
        ch\<lparr>ck_DNSRecord := ToLower (TrimSpace (vals ! 5)), ck_DNSResolver := TrimSpace (vals ! 6), ck_DNSExpect := TrimSpace (vals ! 7)\<rparr>
      else ch)"

text \<open>The check of an add or an edit form; an edit form captures the ID, the type and the suppressed
  alerts of the check it edits.\<close>

definition check_of_values ::
  "(string \<Rightarrow> err + duration) \<Rightarrow> string \<Rightarrow> CheckType \<Rightarrow> string list \<Rightarrow> string list \<Rightarrow> Check" where
  "check_of_values pd ident ty suppress vals =
     typed_values ty vals
       (zero_Check\<lparr>ck_ID := ident, ck_Name := TrimSpace (vals ! 0), ck_Type := ty, ck_Target := TrimSpace (vals ! 1),
          ck_Interval := parseDurationOr pd (vals ! 2) (30 * Second), ck_Timeout := parseDurationOr pd (vals ! 3) (10 * Second),
          ck_SuppressAlertIDs := suppress, ck_AlertIDs := form_alert_ids (vals ! 4)\<rparr>)"

definition discord_of_values :: "string \<Rightarrow> string \<Rightarrow> string list \<Rightarrow> Alert" where
  "discord_of_values ident subject vals =
     zero_Alert\<lparr>al_ID := ident, al_Name := TrimSpace (vals ! 0), al_Type := AlertDiscord, al_DiscordWebhook := TrimSpace (vals ! 1),
       al_Default := parseBool (vals ! 2), al_BodyTemplate := vals ! 3, al_SubjectTemplate := subject\<rparr>"

definition smtp_of_values :: "string \<Rightarrow> string list \<Rightarrow> Alert" where
  "smtp_of_values ident vals =
     zero_Alert\<lparr>al_ID := ident, al_Name := TrimSpace (vals ! 0), al_Type := AlertSMTP, al_SMTPHost := TrimSpace (vals ! 1),
       al_SMTPPort := atoiOr (vals ! 2) 587, al_SMTPUser := TrimSpace (vals ! 3), al_SMTPPassword := vals ! 4,
       al_SMTPFrom := TrimSpace (vals ! 5), al_SMTPTo := map TrimSpace (Split (CHR '','') (TrimSpace (vals ! 6))),
       al_SMTPStartTLS := parseBoolOr (vals ! 7) True, al_Default := parseBool (vals ! 8), al_SubjectTemplate := vals ! 9,
       al_BodyTemplate := vals ! 10\<rparr>"

definition peer_of_values :: "PeerInfo \<Rightarrow> string list \<Rightarrow> PeerInfo" where
  "peer_of_values p vals =
     \<lparr>pi_NodeID = pi_NodeID p, pi_Advertise = TrimSpace (vals ! 0), pi_Fingerprint = pi_Fingerprint p, pi_CertPEM = pi_CertPEM p\<rparr>"

text \<open>The request of the enrollment form, or the text of the error it shows.\<close>

definition enroll_of_values :: "(string \<Rightarrow> err + duration) \<Rightarrow> string list \<Rightarrow> string + EnrollCreateBody" where
  "enroll_of_values pd vals =
     (let raw = TrimSpace (vals ! 1) in
      case (if raw = [] then Inr (1 * Hour) else pd raw) of
        Inl e \<Rightarrow> Inl (''ttl: '' @ err_text e)
      | Inr ttl \<Rightarrow>
         (let answer = ToLower (TrimSpace (vals ! 2)) in
          if answer \<in> {[], ''n'', ''no'', ''false''} then Inr \<lparr>eb_Name = TrimSpace (vals ! 0), eb_TTL = ttl, eb_AutoApprove = False\<rparr>
          else if answer \<in> {''y'', ''yes'', ''true''} then Inr \<lparr>eb_Name = TrimSpace (vals ! 0), eb_TTL = ttl, eb_AutoApprove = True\<rparr>
          else Inl ''auto-approve must be y/n''))"

text \<open>\<open>mutateAdd\<close> and \<open>mutateRemove\<close> marshal their payload and send one \<open>mutate\<close> command.\<close>

definition mutateAdd :: "'s cli_env \<Rightarrow> MutationKind \<Rightarrow> err + string \<Rightarrow> 's \<Rightarrow> err option \<times> 's" where
  "mutateAdd R kind payload s =
     (case submit_marshalled (cv_json R) (cv_call R) kind payload s of (Inl e, s') \<Rightarrow> (Some e, s') | (Inr v, s') \<Rightarrow> (None, s'))"

definition mutateRemove :: "'s cli_env \<Rightarrow> MutationKind \<Rightarrow> string \<Rightarrow> 's \<Rightarrow> err option \<times> 's" where
  "mutateRemove R kind idOrName s = mutateAdd R kind (qe_Target (cv_json R) idOrName) s"

definition form_answer :: "string \<Rightarrow> err option \<times> 's \<Rightarrow> tea_msg \<times> 's" where
  "form_answer txt r = (case r of (Some e, s) \<Rightarrow> (FormSubmitErr (err_text e), s) | (None, s) \<Rightarrow> (ModalDone txt flashInfo, s))"

definition token_flash :: "'s cli_env \<Rightarrow> EnrollCreateResult \<Rightarrow> string" where
  "token_flash R res =
     ''token '' @ ec_ID res @ '' created ('' @ (if ec_AutoApprove res then ''auto'' else ''manual'') @ '', expires in '' @
     cv_duration R (round_second (cv_until R (ec_ExpiresAt res))) @ ''). run on the new host:'' @ nl @ ''  qu enroll join '' @ ec_Token res"

definition submit_enroll :: "'s cli_env \<Rightarrow> string list \<Rightarrow> 's \<Rightarrow> tea_msg \<times> 's" where
  "submit_enroll R vals s =
     (case enroll_of_values (cv_pd R) vals of
        Inl msg \<Rightarrow> (FormSubmitErr msg, s)
      | Inr body \<Rightarrow>
         (case cv_call R CtrlEnrollCreate (Some (qe_EnrollCreate (cv_json R) body)) s of
            (Inl e, s') \<Rightarrow> (FormSubmitErr (err_text e), s')
          | (Inr raw, s') \<Rightarrow>
             (case qd_Created (cv_json R) raw of
                Inl e \<Rightarrow> (FormSubmitErr (err_text e), s')
              | Inr res \<Rightarrow> (ModalDone (token_flash R res) flashInfo, s'))))"

definition run_submit :: "'s cli_env \<Rightarrow> form_kind \<Rightarrow> string list \<Rightarrow> 's \<Rightarrow> tea_msg \<times> 's" where
  "run_submit R kind vals s =
     (case kind of
        AddCheckForm ty \<Rightarrow>
          (let ch = check_of_values (cv_pd R) (cv_uuid R) ty [] vals
           in form_answer (''added check '' @ ck_Name ch) (mutateAdd R MutationAddCheck (qe_Check (cv_json R) ch) s))
      | EditCheckForm c \<Rightarrow>
          (let ch = check_of_values (cv_pd R) (ck_ID c) (ck_Type c) (ck_SuppressAlertIDs c) vals
           in form_answer (''updated check '' @ ck_Name ch) (mutateAdd R MutationAddCheck (qe_Check (cv_json R) ch) s))
      | AddDiscordForm \<Rightarrow>
          (let a = discord_of_values (cv_uuid R) [] vals
           in form_answer (''added discord alert '' @ al_Name a) (mutateAdd R MutationAddAlert (qe_Alert (cv_json R) a) s))
      | EditDiscordForm a0 \<Rightarrow>
          (let a = discord_of_values (al_ID a0) (al_SubjectTemplate a0) vals
           in form_answer (''updated discord alert '' @ al_Name a) (mutateAdd R MutationAddAlert (qe_Alert (cv_json R) a) s))
      | AddSMTPForm \<Rightarrow>
          (let a = smtp_of_values (cv_uuid R) vals
           in form_answer (''added smtp alert '' @ al_Name a) (mutateAdd R MutationAddAlert (qe_Alert (cv_json R) a) s))
      | EditSMTPForm a0 \<Rightarrow>
          (let a = smtp_of_values (al_ID a0) vals
           in form_answer (''updated smtp alert '' @ al_Name a) (mutateAdd R MutationAddAlert (qe_Alert (cv_json R) a) s))
      | AddNodeForm \<Rightarrow> submit_enroll R vals s
      | EditNodeForm p \<Rightarrow>
          form_answer (''updated node '' @ shortID8 (pi_NodeID p))
            (mutateAdd R MutationAddPeer (qe_Peer (cv_json R) (peer_of_values p vals)) s))"

section \<open>Pickers and confirmations\<close>

datatype picker_choice = ChooseForm form_kind | ActCmd tea_cmd

record pickerOption =
  po_label :: string
  po_hint :: string
  po_choice :: picker_choice

record picker =
  pk_title :: string
  pk_options :: "pickerOption list"
  pk_cursor :: nat

definition newPicker :: "string \<Rightarrow> pickerOption list \<Rightarrow> picker" where
  "newPicker title options = \<lparr>pk_title = title, pk_options = options, pk_cursor = 0\<rparr>"

record confirm =
  cm_prompt :: string
  cm_onConfirm :: remove_target
  cm_yes :: bool
  cm_busy :: bool
  cm_err :: string

definition newConfirm :: "string \<Rightarrow> remove_target \<Rightarrow> confirm" where
  "newConfirm prompt target = \<lparr>cm_prompt = prompt, cm_onConfirm = target, cm_yes = False, cm_busy = False, cm_err = []\<rparr>"

definition commit :: "confirm \<Rightarrow> tea_cmd \<times> confirm" where
  "commit c = (if cm_busy c then (NilCmd, c) else (RemoveCmd (cm_onConfirm c), c\<lparr>cm_busy := True, cm_err := []\<rparr>))"

definition confirm_Update :: "tea_msg \<Rightarrow> confirm \<Rightarrow> tea_cmd \<times> confirm" where
  "confirm_Update msg c =
     (case msg of
        FormSubmitErr e \<Rightarrow> (NilCmd, c\<lparr>cm_busy := False, cm_err := e\<rparr>)
      | KeyMsg key \<Rightarrow>
          (if key = ''esc'' then (DoneCmd [] flashInfo, c)
           else if key \<in> {''left'', ''right'', ''h'', ''l'', ''tab''} then (NilCmd, c\<lparr>cm_yes := \<not> cm_yes c\<rparr>)
           else if key = ''y'' \<or> key = ''Y'' then commit (c\<lparr>cm_yes := True\<rparr>)
           else if key = ''n'' \<or> key = ''N'' then (DoneCmd ''cancelled'' flashInfo, c)
           else if key = ''enter'' then (if cm_yes c then commit c else (DoneCmd ''cancelled'' flashInfo, c))
           else (NilCmd, c))
      | _ \<Rightarrow> (NilCmd, c))"

datatype 'w modal = FormM "'w form" | PickerM picker | ConfirmM confirm

text \<open>The picker's \<open>Update\<close>: the last component says that another dialog took its place.\<close>

definition picker_Update :: "'w widgets \<Rightarrow> (duration \<Rightarrow> string) \<Rightarrow> tea_msg \<Rightarrow> picker \<Rightarrow> tea_cmd \<times> 'w modal \<times> bool" where
  "picker_Update W dtext msg p =
     (case msg of
        KeyMsg key \<Rightarrow>
          (if key = ''esc'' then (DoneCmd [] flashInfo, PickerM p, False)
           else if key = ''up'' \<or> key = ''k'' then (NilCmd, PickerM (p\<lparr>pk_cursor := pk_cursor p - 1\<rparr>), False)
           else if key = ''down'' \<or> key = ''j'' then
             (NilCmd, PickerM (if int (pk_cursor p) < int (length (pk_options p)) - 1 then p\<lparr>pk_cursor := pk_cursor p + 1\<rparr> else p), False)
           else if key = ''enter'' \<and> pk_cursor p < length (pk_options p) then
             (case po_choice (pk_options p ! pk_cursor p) of
                ActCmd cmd \<Rightarrow> (cmd, PickerM p, False)
              | ChooseForm kind \<Rightarrow> (NilCmd, FormM (form_of W dtext kind), True))
           else (NilCmd, PickerM p, False))
      | _ \<Rightarrow> (NilCmd, PickerM p, False))"

definition modal_Update :: "'w widgets \<Rightarrow> (duration \<Rightarrow> string) \<Rightarrow> tea_msg \<Rightarrow> 'w modal \<Rightarrow> tea_cmd \<times> 'w modal \<times> bool" where
  "modal_Update W dtext msg m =
     (case m of
        FormM f \<Rightarrow> (case form_Update W msg f of (cmd, f') \<Rightarrow> (cmd, FormM f', False))
      | PickerM p \<Rightarrow> picker_Update W dtext msg p
      | ConfirmM c \<Rightarrow> (case confirm_Update msg c of (cmd, c') \<Rightarrow> (cmd, ConfirmM c', False)))"

definition modal_Init :: "'w modal \<Rightarrow> tea_cmd" where
  "modal_Init m = (case m of FormM f \<Rightarrow> fm_initCmd f | _ \<Rightarrow> NilCmd)"

definition modal_Title :: "'w modal \<Rightarrow> string" where
  "modal_Title m = (case m of FormM f \<Rightarrow> fm_title f | PickerM p \<Rightarrow> pk_title p | ConfirmM c \<Rightarrow> ''Confirm'')"

fun options_view :: "(style \<Rightarrow> string \<Rightarrow> string) \<Rightarrow> nat \<Rightarrow> nat \<Rightarrow> pickerOption list \<Rightarrow> string" where
  "options_view render cursor i [] = []"
| "options_view render cursor i (opt # os) =
     (if i = cursor then cursor_mark @ render AccentStyle (po_label opt) else ''  '' @ render SubtleStyle (po_label opt)) @ nl @
     (if po_hint opt \<noteq> [] then ''    '' @ render HelpStyle (po_hint opt) @ nl else []) @ options_view render cursor (Suc i) os"

definition picker_View :: "(style \<Rightarrow> string \<Rightarrow> string) \<Rightarrow> picker \<Rightarrow> string" where
  "picker_View render p =
     render TitleStyle (pk_title p) @ nl @ nl @ options_view render (pk_cursor p) 0 (pk_options p) @ nl @
     render HelpStyle (up_arrow @ down_arrow @ '' select   enter pick   esc cancel'') @ nl"

definition confirm_View :: "(style \<Rightarrow> string \<Rightarrow> string) \<Rightarrow> confirm \<Rightarrow> string" where
  "confirm_View render c =
     cm_prompt c @ nl @ nl @ ''  ['' @ render (if cm_yes c then SubtleStyle else AccentStyle) ''No'' @ '']   ['' @
     render (if cm_yes c then AccentStyle else SubtleStyle) ''Yes'' @ '']'' @ nl @
     (if cm_err c \<noteq> [] then nl @ render FlashErrorStyle (''error: '' @ cm_err c) @ nl else []) @
     (if cm_busy c then nl @ render FlashWarnStyle (''working'' @ ellipsis) @ nl
      else nl @ render HelpStyle ([CHR 0xE2, CHR 0x86, CHR 0x90, CHR 0xE2, CHR 0x86, CHR 0x92] @ '' or h/l select   enter confirm   esc cancel''))"

definition modal_View :: "(style \<Rightarrow> string \<Rightarrow> string) \<Rightarrow> 'w widgets \<Rightarrow> 'w modal \<Rightarrow> string" where
  "modal_View render W m =
     (case m of FormM f \<Rightarrow> form_View render W f | PickerM p \<Rightarrow> picker_View render p | ConfirmM c \<Rightarrow> confirm_View render c)"

section \<open>Lemmas\<close>

text \<open>What the code relies on of the library's inputs: only \<open>Focus\<close> and \<open>Blur\<close> change the focus.\<close>

definition widget_laws :: "'w widgets \<Rightarrow> bool" where
  "widget_laws W \<longleftrightarrow> (\<forall>w. wg_focused W (wg_focus W w) \<and> \<not> wg_focused W (wg_blur W w)) \<and>
     (\<forall>n w. wg_focused W (wg_setWidth W n w) = wg_focused W w) \<and> (\<forall>m w. wg_focused W (wg_update W m w) = wg_focused W w)"

text \<open>The cursor is on a field, and that field is the one with the focus.\<close>

definition form_ok :: "'w widgets \<Rightarrow> 'w form \<Rightarrow> bool" where
  "form_ok W f \<longleftrightarrow> fm_cursor f < length (fm_fields f) \<and>
     (\<forall>i < length (fm_fields f). wg_focused W (fd_input (fm_fields f ! i)) = (i = fm_cursor f))"

lemma focus_at_length [simp]: "length (focus_at W i fs) = length fs"
  by (induction W i fs rule: focus_at.induct) (auto split: nat.split)

lemma focus_at_nth: "j < length fs \<Longrightarrow> focus_at W i fs ! j = (if j = i then field_focus W (fs ! j) else field_blur W (fs ! j))"
proof (induction W i fs arbitrary: j rule: focus_at.induct)
  case (2 W i fld fs)
  then show ?case by (cases i; cases j) auto
qed simp

lemma focusOnly_ok:
  assumes "widget_laws W" and "i < length (fm_fields f)" and "fm_cursor f = i"
  shows "form_ok W (snd (focusOnly W i f))"
  using assms by (auto simp: form_ok_def focusOnly_def focus_at_nth field_focus_def field_blur_def widget_laws_def)

lemma newForm_ok: "widget_laws W \<Longrightarrow> fds \<noteq> [] \<Longrightarrow> form_ok W (newForm W title fds kind)"
  by (auto simp: form_ok_def newForm_def Let_def focus_at_nth field_focus_def field_blur_def widget_laws_def)

lemma form_of_ok: "widget_laws W \<Longrightarrow> form_ok W (form_of W dtext kind)"
  by (cases kind) (simp_all add: form_of_def newAddCheckForm_def newEditCheckForm_def newAddDiscordForm_def newEditDiscordForm_def
      newAddSMTPForm_def newEditSMTPForm_def newAddNodeForm_def newEditNodeForm_def newForm_ok check_fields_def discord_fields_def smtp_fields_def)

lemma advance_ok:
  assumes "widget_laws W" and "form_ok W f"
  shows "form_ok W (snd (advance W delta f))"
proof -
  let ?n = "length (fm_fields f)" let ?c = "nat ((int (fm_cursor f) + delta + int ?n) mod int ?n)"
  have "0 < ?n" using assms(2) by (auto simp: form_ok_def)
  then have "?c < ?n" by (simp add: nat_less_iff)
  then show ?thesis using focusOnly_ok [OF assms(1), of ?c "f\<lparr>fm_cursor := ?c\<rparr>"] assms(2) by (simp add: advance_def Let_def)
qed

lemma first_missing_index: "first_missing W i fs = Some (k, label) \<Longrightarrow> i \<le> k \<and> k < i + length fs"
  by (induction fs arbitrary: i) (force split: if_splits)+

lemma first_missing_none:
  "first_missing W i fs = None \<longleftrightarrow> (\<forall>fld \<in> set fs. fd_required fld \<longrightarrow> TrimSpace (field_value W fld) \<noteq> [])"
  by (induction fs arbitrary: i) auto

lemma form_ok_err [simp]: "form_ok W (f\<lparr>fm_err := e\<rparr>) = form_ok W f" "form_ok W (f\<lparr>fm_busy := b\<rparr>) = form_ok W f"
  by (simp_all add: form_ok_def)

lemma submitOrAdvance_ok:
  assumes "widget_laws W" and "form_ok W f"
  shows "form_ok W (snd (submitOrAdvance W f))"
proof (cases "first_missing W 0 (fm_fields f)")
  case None
  then show ?thesis using assms advance_ok [OF assms, of 1] by (simp add: submitOrAdvance_def)
next
  case (Some m)
  obtain i label where m: "m = (i, label)" by fastforce
  then have "i < length (fm_fields f)" using Some first_missing_index by fastforce
  then show ?thesis
    using Some m assms advance_ok [OF assms, of 1] focusOnly_ok [OF assms(1), of i "f\<lparr>fm_err := label @ '' is required'', fm_cursor := i\<rparr>"]
    by (simp add: submitOrAdvance_def)
qed

lemma to_input_ok: "widget_laws W \<Longrightarrow> form_ok W f \<Longrightarrow> form_ok W (snd (to_input W msg f))"
  by (auto simp: to_input_def form_ok_def widget_laws_def nth_list_update)

lemma form_key_ok: "widget_laws W \<Longrightarrow> form_ok W f \<Longrightarrow> form_ok W (snd (form_key W key f))"
  by (simp add: form_key_def Let_def advance_ok submitOrAdvance_ok to_input_ok)

lemma form_Update_ok:
  assumes "widget_laws W" and "form_ok W f"
  shows "form_ok W (snd (form_Update W msg f))"
proof (cases msg)
  case (WindowSizeMsg w h)
  then show ?thesis using assms by (auto simp: form_Update_def form_ok_def field_setWidth_def widget_laws_def)
qed (use assms in \<open>simp_all add: form_Update_def form_key_ok to_input_ok\<close>)

text \<open>What never changes in a form: how many fields it has, which are required, what it submits to.\<close>

definition form_shape :: "'w form \<Rightarrow> bool list \<times> form_kind" where
  "form_shape f = (map fd_required (fm_fields f), fm_submit f)"

lemma focus_at_required: "map fd_required (focus_at W i fs) = map fd_required fs"
  by (rule nth_equalityI) (auto simp: focus_at_nth field_focus_def field_blur_def)

lemma advance_shape: "advance W d f = (cmd, f') \<Longrightarrow> form_shape f' = form_shape f \<and> fm_busy f' = fm_busy f \<and> (cmd = NilCmd \<or> cmd = BlinkCmd)"
  by (auto simp: advance_def Let_def focusOnly_def form_shape_def focus_at_required split: if_splits)

lemma to_input_shape: "to_input W msg f = (cmd, f') \<Longrightarrow> form_shape f' = form_shape f \<and> fm_busy f' = fm_busy f \<and> cmd = LibCmd"
  by (cases "fm_cursor f < length (fm_fields f)") (auto simp: to_input_def form_shape_def map_update list_update_same_conv list_update_beyond not_less)

lemma submitOrAdvance_cases:
  assumes "submitOrAdvance W f = (cmd, f')"
  shows "form_shape f' = form_shape f \<and>
     (fm_busy f' = fm_busy f \<and> (cmd = NilCmd \<or> cmd = BlinkCmd) \<or>
      \<not> fm_busy f \<and> fm_busy f' \<and> cmd = SubmitCmd (fm_submit f) (map (field_value W) (fm_fields f)) \<and>
        (\<forall>fld \<in> set (fm_fields f). fd_required fld \<longrightarrow> TrimSpace (field_value W fld) \<noteq> []))"
proof -
  consider "fm_busy f" | "\<not> fm_busy f" "int (fm_cursor f) < int (length (fm_fields f)) - 1"
    | "\<not> fm_busy f" "\<not> int (fm_cursor f) < int (length (fm_fields f)) - 1" by blast
  then show ?thesis
  proof cases
    case 2
    then show ?thesis using assms advance_shape [of W 1 f] by (simp add: submitOrAdvance_def)
  next
    case 3
    show ?thesis
    proof (cases "first_missing W 0 (fm_fields f)")
      case None
      then show ?thesis using 3 assms first_missing_none [of W 0 "fm_fields f"] by (auto simp: submitOrAdvance_def form_shape_def)
    next
      case (Some m)
      then show ?thesis using 3 assms by (cases m) (auto simp: submitOrAdvance_def focusOnly_def form_shape_def focus_at_required split: if_splits)
    qed
  qed (use assms in \<open>simp add: submitOrAdvance_def\<close>)
qed

definition is_submit :: "tea_cmd \<Rightarrow> bool" where
  "is_submit cmd = (case cmd of SubmitCmd k vals \<Rightarrow> True | _ \<Rightarrow> False)"

definition is_refusal :: "tea_msg \<Rightarrow> bool" where
  "is_refusal msg = (case msg of FormSubmitErr e \<Rightarrow> True | _ \<Rightarrow> False)"

definition complete_values :: "bool list \<Rightarrow> string list \<Rightarrow> bool" where
  "complete_values required vals \<longleftrightarrow> length vals = length required \<and> (\<forall>i < length vals. required ! i \<longrightarrow> TrimSpace (vals ! i) \<noteq> [])"

definition good_step :: "tea_msg \<Rightarrow> 'w form \<Rightarrow> tea_cmd \<Rightarrow> 'w form \<Rightarrow> bool" where
  "good_step msg f cmd f' \<longleftrightarrow> form_shape f' = form_shape f \<and>
     (is_submit cmd \<longrightarrow> \<not> fm_busy f \<and> fm_busy f' \<and>
        (\<exists>vals. cmd = SubmitCmd (fm_submit f) vals \<and> complete_values (map fd_required (fm_fields f)) vals)) \<and>
     (\<not> is_submit cmd \<longrightarrow> fm_busy f' = (fm_busy f \<and> \<not> is_refusal msg))"

lemma quiet_step:
  "form_shape f' = form_shape f \<and> fm_busy f' = fm_busy f \<Longrightarrow> \<not> is_submit cmd \<Longrightarrow> \<not> is_refusal msg \<Longrightarrow> good_step msg f cmd f'"
  by (simp add: good_step_def)

lemma input_step: "to_input W msg f = (cmd, f') \<Longrightarrow> \<not> is_refusal msg' \<Longrightarrow> good_step msg' f cmd f'"
  using to_input_shape [of W msg f cmd f'] by (simp add: quiet_step is_submit_def)

lemma advance_step: "advance W d f = (cmd, f') \<Longrightarrow> \<not> is_refusal msg \<Longrightarrow> good_step msg f cmd f'"
  using advance_shape [of W d f cmd f'] by (intro quiet_step) (auto simp: is_submit_def)

lemma submit_step:
  assumes "submitOrAdvance W f = (cmd, f')" and "\<not> is_refusal msg"
  shows "good_step msg f cmd f'"
proof -
  note c = submitOrAdvance_cases [OF assms(1)]
  show ?thesis
  proof (cases "is_submit cmd")
    case True
    then have "\<not> fm_busy f \<and> fm_busy f' \<and> cmd = SubmitCmd (fm_submit f) (map (field_value W) (fm_fields f)) \<and>
        (\<forall>fld \<in> set (fm_fields f). fd_required fld \<longrightarrow> TrimSpace (field_value W fld) \<noteq> [])"
      using c by (auto simp: is_submit_def)
    then show ?thesis using c by (simp add: good_step_def complete_values_def is_submit_def)
  next
    case False
    then show ?thesis using c assms(2) by (intro quiet_step) (auto simp: is_submit_def)
  qed
qed

lemma key_step:
  assumes "form_key W key f = (cmd, f')"
  shows "good_step (KeyMsg key) f cmd f'"
proof -
  have n: "\<not> is_refusal (KeyMsg key)" by (simp add: is_refusal_def)
  from assms consider "submitOrAdvance W f = (cmd, f')" | "advance W 1 f = (cmd, f')" | "advance W (- 1) f = (cmd, f')"
    | "to_input W (KeyMsg key) f = (cmd, f')" | "cmd = DoneCmd [] flashInfo" "f' = f"
    unfolding form_key_def Let_def by (metis prod.inject)
  then show ?thesis
    by cases (use n in \<open>simp_all add: submit_step advance_step input_step quiet_step is_submit_def\<close>)
qed

lemma form_Update_step:
  assumes "form_Update W msg f = (cmd, f')"
  shows "good_step msg f cmd f'"
proof (cases msg)
  case (KeyMsg key)
  then show ?thesis using assms key_step by (simp add: form_Update_def)
next
  case (WindowSizeMsg w h)
  then have "form_shape f' = form_shape f \<and> fm_busy f' = fm_busy f \<and> cmd = NilCmd"
    using assms by (auto simp: form_Update_def form_shape_def field_setWidth_def)
  with WindowSizeMsg show ?thesis by (intro quiet_step) (auto simp: is_submit_def is_refusal_def)
next
  case (FormSubmitErr e)
  then show ?thesis using assms by (auto simp: form_Update_def form_shape_def good_step_def is_submit_def is_refusal_def)
qed (rule input_step [of W msg]; use assms in \<open>simp add: form_Update_def is_refusal_def\<close>)+

text \<open>A form over its life: the commands it issues and what it ends as.\<close>

fun form_run :: "'w widgets \<Rightarrow> tea_msg list \<Rightarrow> 'w form \<Rightarrow> tea_cmd list \<times> 'w form" where
  "form_run W [] f = ([], f)"
| "form_run W (msg # msgs) f =
     (case form_Update W msg f of (cmd, f1) \<Rightarrow> (case form_run W msgs f1 of (cmds, f2) \<Rightarrow> (cmd # cmds, f2)))"

lemma form_run_ok: "widget_laws W \<Longrightarrow> form_ok W f \<Longrightarrow> form_ok W (snd (form_run W msgs f))"
  by (induction msgs arbitrary: f) (auto simp: split_beta dest: form_Update_ok)

lemma form_run_submits:
  assumes "form_run W msgs f = (cmds, f')"
  shows "(if fm_busy f then 1 else 0) + length (filter is_submit cmds) \<le> (if fm_busy f' then 1 else 0) + length (filter is_refusal msgs) \<and>
     (\<forall>kind vals. SubmitCmd kind vals \<in> set cmds \<longrightarrow> kind = fm_submit f \<and> complete_values (map fd_required (fm_fields f)) vals)"
  using assms
proof (induction msgs arbitrary: f cmds)
  case Nil
  then show ?case by simp
next
  case (Cons msg msgs)
  obtain cmd f1 cmds1 where 1: "form_Update W msg f = (cmd, f1)" and 2: "form_run W msgs f1 = (cmds1, f')" and c: "cmds = cmd # cmds1"
    using Cons.prems by (auto split: prod.splits)
  note step = form_Update_step [OF 1, unfolded good_step_def] and ih = Cons.IH [OF 2]
  have shape: "fm_submit f1 = fm_submit f" "map fd_required (fm_fields f1) = map fd_required (fm_fields f)"
    using step by (simp_all add: form_shape_def)
  have count: "(if fm_busy f then 1 else 0) + (if is_submit cmd then 1 else 0) \<le>
      (if fm_busy f1 then 1 else 0) + (if is_refusal msg then 1 else (0 :: nat))"
    using step by (cases "is_submit cmd") auto
  have "SubmitCmd kind vals = cmd \<Longrightarrow> kind = fm_submit f \<and> complete_values (map fd_required (fm_fields f)) vals" for kind vals
    using step by (auto simp: is_submit_def)
  with ih shape have "\<forall>kind vals. SubmitCmd kind vals \<in> set cmds \<longrightarrow> kind = fm_submit f \<and> complete_values (map fd_required (fm_fields f)) vals"
    unfolding c by (metis set_ConsD)
  with ih count show ?case unfolding c by (simp split: if_splits)
qed

section \<open>Properties\<close>

text \<open>C32. A form submits complete input, and once. Whatever messages reach an open form in whatever order
  (keys, resizes, answers), the cursor stays on one of its fields and that field alone has the focus;
  each submission is to what the form was opened for and has a value for every field, none blank
  where one is required; and there is at most one submission more than there were refusals, so no
  second one while an answer is outstanding.\<close>

theorem form_submits_once:
  assumes "widget_laws W" and "form_run W msgs (form_of W dtext kind) = (cmds, f)"
  shows "form_ok W f \<and> length (filter is_submit cmds) \<le> Suc (length (filter is_refusal msgs)) \<and>
     (\<forall>kind' vals. SubmitCmd kind' vals \<in> set cmds \<longrightarrow> kind' = kind \<and>
        complete_values (map fd_required (fm_fields (form_of W dtext kind))) vals)"
proof -
  have k: "fm_submit (form_of W dtext kind) = kind"
    by (cases kind) (simp_all add: form_of_def newAddCheckForm_def newEditCheckForm_def newAddDiscordForm_def newEditDiscordForm_def
        newAddSMTPForm_def newEditSMTPForm_def newAddNodeForm_def newEditNodeForm_def newForm_def)
  have "form_ok W f" using form_run_ok [OF assms(1) form_of_ok [OF assms(1)]] assms(2) by (metis snd_conv)
  with form_run_submits [OF assms(2)] k show ?thesis by (auto split: if_splits)
qed

text \<open>Inputs that hold a text and the focus; a key is appended.\<close>

definition demo_widgets :: "(string \<times> bool) widgets" where
  "demo_widgets = \<lparr>wg_new = (\<lambda>k hint v. (v, False)), wg_limit = (\<lambda>w. w), wg_value = fst, wg_focused = snd, wg_focus = (\<lambda>(t, b). (t, True)),
     wg_blur = (\<lambda>(t, b). (t, False)), wg_setWidth = (\<lambda>n w. w),
     wg_update = (\<lambda>m (t, b). (case m of KeyMsg k \<Rightarrow> t @ k | _ \<Rightarrow> t, b)), wg_view = fst\<rparr>"

lemma demo_widget_laws: "widget_laws demo_widgets"
  by (simp add: widget_laws_def demo_widgets_def)

text \<open>Blank at first, refused; then an address, submitted; a second enter while it is under way.\<close>

definition demo_typing :: "tea_msg list" where
  "demo_typing = [KeyMsg ''enter'', KeyMsg ''x'', KeyMsg ''enter'', KeyMsg ''enter'']"

lemma demo_form_run: "fst (form_run demo_widgets demo_typing (form_of demo_widgets (\<lambda>_. []) (EditNodeForm (demo_peer ''b''\<lparr>pi_Advertise := []\<rparr>)))) =
    [BlinkCmd, LibCmd, SubmitCmd (EditNodeForm (demo_peer ''b''\<lparr>pi_Advertise := []\<rparr>)) [''x''], NilCmd]"
  by (simp add: demo_typing_def form_of_def newEditNodeForm_def newForm_def textFieldWithValue_def demo_widgets_def form_Update_def form_key_def
      multiline_at_cursor_def submitOrAdvance_def focusOnly_def to_input_def field_focus_def field_value_def TrimSpace_def is_space_def)

theorem form_submits_once_witness:
  "let (cmds, f) = form_run demo_widgets demo_typing (form_of demo_widgets (\<lambda>_. []) (EditNodeForm (demo_peer ''b''\<lparr>pi_Advertise := []\<rparr>)))
   in form_ok demo_widgets f \<and> length (filter is_submit cmds) = 1"
proof -
  obtain cmds f where run: "form_run demo_widgets demo_typing (form_of demo_widgets (\<lambda>_. []) (EditNodeForm (demo_peer ''b''\<lparr>pi_Advertise := []\<rparr>))) = (cmds, f)"
    by fastforce
  have "cmds = [BlinkCmd, LibCmd, SubmitCmd (EditNodeForm (demo_peer ''b''\<lparr>pi_Advertise := []\<rparr>)) [''x''], NilCmd]"
    using demo_form_run run by simp
  with form_submits_once [OF demo_widget_laws run] run show ?thesis by (simp add: is_submit_def)
qed

section \<open>The window around the focus\<close>

lemma clip_start_bounds:
  assumes "0 < maxH" and "maxH < n" and "0 \<le> a" and "a < b" and "b \<le> n"
  shows "0 \<le> clip_start n a (b - a) maxH" and "clip_start n a (b - a) maxH \<le> a" and "clip_start n a (b - a) maxH + maxH \<le> n"
    and "b \<le> clip_start n a (b - a) maxH + maxH \<or> clip_start n a (b - a) maxH = a"
proof -
  obtain q where q: "(maxH - (b - a)) div 2 = q" and half: "b - a < maxH \<Longrightarrow> 0 \<le> q \<and> 2 * q \<le> maxH - (b - a)"
    by simp
  note defs = clip_start_def Let_def q
  show "0 \<le> clip_start n a (b - a) maxH" by (simp add: defs)
  show "clip_start n a (b - a) maxH \<le> a" using assms half by (auto simp: defs)
  show "clip_start n a (b - a) maxH + maxH \<le> n" using assms by (simp add: defs)
  show "b \<le> clip_start n a (b - a) maxH + maxH \<or> clip_start n a (b - a) maxH = a" using assms half by (auto simp: defs)
qed

text \<open>C37. The window around the focus. A form taller than the dialog is cut to exactly the height there is;
  the lines of the focused field are shown as they are, all of them if they fit and from the label on
  if they do not, and never overwritten by the markers for what is above and below.\<close>

theorem focus_stays_visible:
  assumes "0 < maxH" and "maxH < int (length ls)" and "0 \<le> a" and "a < b" and "b \<le> int (length ls)"
  shows "length (clipAroundFocus render ls a b maxH) = nat maxH \<and>
     (\<exists>start. 0 \<le> start \<and> start \<le> a \<and> (b \<le> start + maxH \<or> start = a) \<and>
        (\<forall>i. a \<le> i \<and> i < b \<and> i < start + maxH \<longrightarrow> clipAroundFocus render ls a b maxH ! nat (i - start) = ls ! nat i))"
proof -
  let ?n = "int (length ls)" and ?s = "clip_start (int (length ls)) a (b - a) maxH"
  note B = clip_start_bounds [OF assms]
  define w where "w = take (nat maxH) (drop (nat ?s) ls)"
  define w1 where "w1 = (if ?s > 0 \<and> a > ?s then w[0 := render SubtleStyle (up_arrow @ '' '' @ Itoa ?s @ '' more above'')] else w)"
  define w2 where "w2 = (if ?s + maxH < ?n \<and> b \<le> ?s + maxH - 1
     then w1[length w1 - 1 := render SubtleStyle (down_arrow @ '' '' @ Itoa (?n - (?s + maxH)) @ '' more below'')] else w1)"
  have clip: "clipAroundFocus render ls a b maxH = w2"
    using assms by (simp add: clipAroundFocus_def Let_def w2_def w1_def w_def)
  have len: "length w = nat maxH" using B(1,3) assms(1) by (simp add: w_def nat_le_iff)
  then have len2: "length w2 = nat maxH" "length w1 = nat maxH" by (simp_all add: w1_def w2_def)
  have same: "w2 ! nat (i - ?s) = ls ! nat i" if i: "a \<le> i" "i < b" "i < ?s + maxH" for i
  proof -
    have k: "nat (i - ?s) < nat maxH" "nat ?s + nat (i - ?s) = nat i" using i B(1,2) by linarith+
    have "nat ?s \<le> length ls" using B(1,3) assms(1) by linarith
    then have w: "w ! nat (i - ?s) = ls ! nat i" by (simp only: w_def nth_take [OF k(1)] nth_drop k(2))
    have "w1 ! nat (i - ?s) = w ! nat (i - ?s)" using i B(2) by (simp add: w1_def) 
    moreover have "b \<le> ?s + maxH - 1 \<Longrightarrow> nat (i - ?s) \<noteq> length w1 - 1" using i k(1) len2(2) B(2) assms(1) by linarith
    then have "w2 ! nat (i - ?s) = w1 ! nat (i - ?s)" by (auto simp: w2_def)
    ultimately show ?thesis using w by simp
  qed
  show ?thesis unfolding clip
  proof (intro conjI exI)
    show "length w2 = nat maxH" by (rule len2)
    show "0 \<le> ?s" "?s \<le> a" "b \<le> ?s + maxH \<or> ?s = a" by (rule B)+
    show "\<forall>i. a \<le> i \<and> i < b \<and> i < ?s + maxH \<longrightarrow> w2 ! nat (i - ?s) = ls ! nat i" using same by blast
  qed
qed

theorem focus_stays_visible_witness:
  "length (clipAroundFocus (\<lambda>st t. t) [''a'', ''b'', ''c'', ''d'', ''e''] 3 4 2) = 2"
  using focus_stays_visible [of 2 "[''a'', ''b'', ''c'', ''d'', ''e'']" 3 4 "\<lambda>st t. t"] by simp

section \<open>What an edit form gives back\<close>

lemma atoi_ppi: "atoi_loop fb n rs = (case ppi_loop s n rs of Inl e \<Rightarrow> fb | Inr v \<Rightarrow> v)"
  by (induction rs arbitrary: n) auto

lemma atoiOr_parse: "atoiOr s fb = (if TrimSpace s = [] then fb else case parsePositiveInt s of Inl e \<Rightarrow> fb | Inr v \<Rightarrow> v)"
  using atoi_ppi [of fb 0 "TrimSpace s" "TrimSpace s"] by (simp add: atoiOr_def parsePositiveInt_def Let_def)

lemma nat_digits_ok: "list_all is_digit (nat_digits n) \<and> digits_val (nat_digits n) = n \<and> nat_digits n \<noteq> []"
proof (induction n rule: nat_digits.induct)
  case (1 n)
  have d: "is_digit (char_of (48 + k)) \<and> of_char (char_of (48 + k) :: char) = 48 + k" if "k < 10" for k :: nat
    using that by (simp add: is_digit_def Let_def)
  show ?case
  proof (cases "n < 10")
    case True
    then show ?thesis using d [of n] by (simp add: nat_digits.simps [of n] digits_val_def)
  next
    case False
    have "n mod 10 < 10" by simp
    moreover have "10 * (n div 10) + n mod 10 = n" by simp
    ultimately show ?thesis using False 1 [OF False] d [of "n mod 10"] by (simp add: nat_digits.simps [of n] digits_val_def)
  qed
qed

lemma digit_not_space: "is_digit c \<Longrightarrow> \<not> is_space c"
  by (simp add: is_digit_def is_space_def Let_def)

lemma digits_trim: "list_all is_digit s \<Longrightarrow> s \<noteq> [] \<Longrightarrow> TrimSpace s = s"
  by (simp add: TrimSpace_fix digit_not_space list_all_iff)

lemma atoiOr_text:
  assumes "0 < n" and "n < 2 ^ 63"
  shows "atoiOr (positive_text n) fb = n"
proof -
  let ?s = "nat_digits (nat n)"
  note d = nat_digits_ok [of "nat n"]
  have t: "TrimSpace ?s = ?s" using d digits_trim by blast
  have "int64 n = n" using assms by simp
  then have "parsePositiveInt ?s = Inr n" using d assms(1) by (simp add: parse_value t)
  then show ?thesis using d t assms(1) by (simp add: positive_text_def Itoa_def atoiOr_parse)
qed

text \<open>A list of trimmed items without commas survives being shown and read back.\<close>

definition plain_item :: "string \<Rightarrow> bool" where
  "plain_item x \<longleftrightarrow> x \<noteq> [] \<and> TrimSpace x = x \<and> CHR '','' \<notin> set x"

lemma Split_nonempty [simp]: "Split sep s \<noteq> []"
  by (induction s) (auto split: list.split)

lemma Split_last: "sep \<notin> set x \<Longrightarrow> Split sep x = [x]"
  by (induction x) auto

lemma Split_item: "sep \<notin> set x \<Longrightarrow> Split sep (x @ sep # rest) = x # Split sep rest"
  by (induction x) auto

lemma Split_shown: "list_all plain_item xs \<Longrightarrow> xs \<noteq> [] \<Longrightarrow> Split (CHR '','') (Join xs '','') = xs"
  by (induction xs "'',''" rule: Join.induct) (auto simp: plain_item_def Split_last Split_item)

lemma Join_ends: "list_all plain_item xs \<Longrightarrow> xs \<noteq> [] \<Longrightarrow> Join xs '','' \<noteq> [] \<and> \<not> is_space (hd (Join xs '','')) \<and> \<not> is_space (last (Join xs '',''))"
  by (induction xs "'',''" rule: Join.induct) (auto simp: plain_item_def TrimSpace_fix)

lemma clean_plain: "list_all plain_item xs \<Longrightarrow> clean_items xs = xs"
  by (induction xs) (auto simp: clean_items_def plain_item_def)

lemma alert_ids_shown: "list_all plain_item xs \<Longrightarrow> form_alert_ids (Join xs '','') = xs"
proof (cases "xs = []")
  case False
  assume p: "list_all plain_item xs"
  have "TrimSpace (Join xs '','') = Join xs '',''" "Join xs '','' \<noteq> []" using Join_ends [OF p False] by (simp_all add: TrimSpace_fix)
  then show ?thesis using clean_plain [OF p] Split_shown [OF p False] by (simp add: form_alert_ids_def clean_csv_def)
qed (simp add: form_alert_ids_def)

text \<open>An input opened with a value holds it, as the library does for a line of printable text.\<close>

definition keeps_text :: "'w widgets \<Rightarrow> string \<Rightarrow> bool" where
  "keeps_text W v \<longleftrightarrow> (\<forall>hint. wg_value W (wg_focus W (wg_limit W (wg_new W TextInput hint v))) = v \<and>
     wg_value W (wg_blur W (wg_limit W (wg_new W TextInput hint v))) = v)"

lemma edit_form_values:
  assumes "\<forall>v \<in> set (edit_base dtext c @ edit_extra c). keeps_text W v"
  shows "map (field_value W) (fm_fields (newEditCheckForm W dtext c)) =
     edit_base dtext c @ (if ck_Type c \<in> {CheckHTTP, CheckTLS, CheckDNS} then edit_extra c else [])"
  using assms
  by (simp add: newEditCheckForm_def newForm_def check_fields_def textFieldWithValue_def field_value_def field_focus_def field_blur_def
      edit_base_def edit_extra_def keeps_text_def)

text \<open>What the form can write out and read back: durations, numbers below the overflow of \<open>atoiOr\<close>, and alert IDs
  without blanks around them or commas in them. All other values of a check are arbitrary.\<close>

definition form_readable :: "(string \<Rightarrow> err + duration) \<Rightarrow> (duration \<Rightarrow> string) \<Rightarrow> Check \<Rightarrow> bool" where
  "form_readable pd dtext c \<longleftrightarrow>
     list_all plain_item (ck_AlertIDs c) \<and>
     list_all (\<lambda>d. 0 < d \<longrightarrow> dtext d \<noteq> [] \<and> TrimSpace (dtext d) = dtext d \<and> pd (dtext d) = Inr d) [ck_Interval c, ck_Timeout c] \<and>
     ck_ExpectStatus c < 2 ^ 63 \<and> ck_TLSWarnDays c < 2 ^ 63"

text \<open>The check an untouched edit form submits, field by field.\<close>

definition resubmitted :: "Check \<Rightarrow> Check" where
  "resubmitted c =
     \<lparr>ck_ID = ck_ID c, ck_Name = TrimSpace (ck_Name c), ck_Type = ck_Type c, ck_Target = TrimSpace (ck_Target c),
      ck_Interval = (if 0 < ck_Interval c then ck_Interval c else 30 * Second),
      ck_Timeout = (if 0 < ck_Timeout c then ck_Timeout c else 10 * Second),
      ck_ExpectStatus = (if ck_Type c \<noteq> CheckHTTP then 0 else if 0 < ck_ExpectStatus c then ck_ExpectStatus c else 200),
      ck_BodyMatch = (if ck_Type c \<noteq> CheckHTTP then [] else TrimSpace (ck_BodyMatch c)),
      ck_TLSWarnDays = (if ck_Type c \<noteq> CheckTLS then 0 else if 0 < ck_TLSWarnDays c then ck_TLSWarnDays c else 14),
      ck_TLSServerName = (if ck_Type c \<noteq> CheckTLS then [] else TrimSpace (ck_TLSServerName c)),
      ck_DNSRecord = (if ck_Type c \<noteq> CheckDNS then [] else ToLower (TrimSpace (ck_DNSRecord c))),
      ck_DNSResolver = (if ck_Type c \<noteq> CheckDNS then [] else TrimSpace (ck_DNSResolver c)),
      ck_DNSExpect = (if ck_Type c \<noteq> CheckDNS then [] else TrimSpace (ck_DNSExpect c)),
      ck_AlertIDs = ck_AlertIDs c, ck_SuppressAlertIDs = ck_SuppressAlertIDs c, ck_Disabled = False, ck_Resolvers = []\<rparr>"

text \<open>A check that comes out as it went in, but for the last two fields.\<close>

definition form_editable :: "Check \<Rightarrow> bool" where
  "form_editable c \<longleftrightarrow>
     field_types c \<and> 0 < ck_Interval c \<and> 0 < ck_Timeout c \<and>
     list_all (\<lambda>s. TrimSpace s = s) [ck_Name c, ck_Target c, ck_BodyMatch c, ck_TLSServerName c, ck_DNSRecord c, ck_DNSResolver c, ck_DNSExpect c] \<and>
     ToLower (ck_DNSRecord c) = ck_DNSRecord c \<and>
     (ck_Type c = CheckHTTP \<longrightarrow> 0 < ck_ExpectStatus c) \<and> (ck_Type c = CheckTLS \<longrightarrow> 0 < ck_TLSWarnDays c)"

lemma editable_same: "form_editable c \<Longrightarrow> resubmitted c = c\<lparr>ck_Disabled := False, ck_Resolvers := []\<rparr>"
  by (cases c) (auto simp: form_editable_def resubmitted_def field_types_def)

lemma empty_shown [simp]: "atoiOr [] fb = fb" "parseDurationOr pd [] fd = fd"
  by (simp_all add: atoiOr_def parseDurationOr_def TrimSpace_def)

lemma number_shown: "n < 2 ^ 63 \<Longrightarrow> atoiOr (positive_text n) fb = (if 0 < n then n else fb)"
  using atoiOr_text [of n fb] by (auto simp: positive_text_def)

lemma duration_shown:
  "(0 < d \<longrightarrow> dtext d \<noteq> [] \<and> TrimSpace (dtext d) = dtext d \<and> pd (dtext d) = Inr d) \<Longrightarrow>
     parseDurationOr pd (if 0 < d then dtext d else []) fb = (if 0 < d then d else fb)"
  by (cases "0 < d") (simp add: parseDurationOr_def, simp)

lemma edited_check:
  assumes "form_readable pd dtext c"
  shows "check_of_values pd (ck_ID c) (ck_Type c) (ck_SuppressAlertIDs c)
       (edit_base dtext c @ (if ck_Type c \<in> {CheckHTTP, CheckTLS, CheckDNS} then edit_extra c else [])) = resubmitted c"
proof -
  note e = assms [unfolded form_readable_def]
  have d: "parseDurationOr pd (if 0 < ck_Interval c then dtext (ck_Interval c) else []) (30 * Second) = (if 0 < ck_Interval c then ck_Interval c else 30 * Second)"
    "parseDurationOr pd (if 0 < ck_Timeout c then dtext (ck_Timeout c) else []) (10 * Second) = (if 0 < ck_Timeout c then ck_Timeout c else 10 * Second)"
    using e by (simp_all add: duration_shown)
  have n: "atoiOr (positive_text (ck_ExpectStatus c)) 200 = (if 0 < ck_ExpectStatus c then ck_ExpectStatus c else 200)"
    "atoiOr (positive_text (ck_TLSWarnDays c)) 14 = (if 0 < ck_TLSWarnDays c then ck_TLSWarnDays c else 14)"
    using e by (simp_all add: number_shown)
  have v: "(edit_base dtext c @ xs) ! 0 = ck_Name c" "(edit_base dtext c @ xs) ! 1 = ck_Target c"
    "(edit_base dtext c @ xs) ! 2 = (if 0 < ck_Interval c then dtext (ck_Interval c) else [])"
    "(edit_base dtext c @ xs) ! 3 = (if 0 < ck_Timeout c then dtext (ck_Timeout c) else [])"
    "(edit_base dtext c @ xs) ! 4 = Join (ck_AlertIDs c) '',''" for xs
    by (simp_all add: edit_base_def)
  have x: "(edit_base dtext c @ y # ys) ! 5 = y" "(edit_base dtext c @ y # z # ys) ! 6 = z" "(edit_base dtext c @ y # z # w # ys) ! 7 = w" for y z w ys
    by (simp_all add: edit_base_def)
  have ids: "form_alert_ids (Join (ck_AlertIDs c) '','') = ck_AlertIDs c" using e alert_ids_shown by blast
  show ?thesis
    unfolding check_of_values_def v d ids
    by (simp add: typed_values_def edit_extra_def x n resubmitted_def zero_Check_def tag_defs)
qed


text \<open>A disabled check with a resolver of its own and the expected status 0.\<close>

definition shown_check :: Check where
  "shown_check = cli_check\<lparr>ck_Interval := 1 * Minute, ck_Timeout := 1 * Minute, ck_AlertIDs := [''ops'', ''mail''], ck_ExpectStatus := 0,
     ck_Disabled := True, ck_Resolvers := [''1.1.1.1'']\<rparr>"

lemma shown_readable: "form_readable (\<lambda>_. Inr (1 * Minute)) (\<lambda>_. ''1m'') shown_check"
  by (simp add: form_readable_def shown_check_def cli_check_def zero_Check_def plain_item_def TrimSpace_def is_space_def unit_defs)


end
