(* ===== verification/Tui.thy ===== *)
theory Tui
  imports Forms
begin

text \<open>
  The terminal UI: \<open>internal/tui/tui.go\<close> and \<open>tabs.go\<close>. The model is a record; \<open>tui_Update\<close> is the
  function the \<open>bubbletea\<close> runtime calls with each message, and \<open>perform\<close> runs the command it
  returns. The library's table is a value of type \<open>'t\<close> with the operations of \<open>tables\<close>, and the layout
  functions of \<open>lipgloss\<close> are the fields of \<open>gloss\<close>. The tabs are pointers in the code, so what they do
  to their table stays done; here the tables are fields of the model.
\<close>

section \<open>Parameters\<close>

record 't tables =
  tb_new :: "(string \<times> int) list \<Rightarrow> 't"
  tb_SetRows :: "string list list \<Rightarrow> 't \<Rightarrow> 't"
  tb_SelectedRow :: "'t \<Rightarrow> string list option"
  tb_Cursor :: "'t \<Rightarrow> int"
  tb_SetSize :: "int \<Rightarrow> int \<Rightarrow> 't \<Rightarrow> 't"
  tb_Update :: "tea_msg \<Rightarrow> 't \<Rightarrow> 't"
  tb_View :: "'t \<Rightarrow> string"

record gloss =
  lg_style :: "style \<Rightarrow> string \<Rightarrow> string"
  lg_width :: "string \<Rightarrow> int"
  lg_height :: "string \<Rightarrow> int"
  lg_horizontal :: "string list \<Rightarrow> string"
  lg_vertical :: "string list \<Rightarrow> string"
  lg_header :: "int \<Rightarrow> string \<Rightarrow> string"
  lg_body :: "int \<Rightarrow> string \<Rightarrow> string"
  lg_maxWidth :: "int \<Rightarrow> string \<Rightarrow> string"
  lg_tabActive :: "string \<Rightarrow> string"
  lg_tabIdle :: "string \<Rightarrow> string"
  lg_modal :: "string \<Rightarrow> string"
  lg_center :: "int \<Rightarrow> int \<Rightarrow> string \<Rightarrow> string"

record ('w, 't) ui =
  ui_widgets :: "'w widgets"
  ui_tables :: "'t tables"
  ui_gloss :: gloss
  ui_duration :: "duration \<Rightarrow> string"
  ui_rfc3339 :: "gotime \<Rightarrow> string"

section \<open>The tabs\<close>

definition peers_columns :: "(string \<times> int) list" where
  "peers_columns = [(''NODE_ID'', 38), (''ADVERTISE'', 28), (''LIVE'', 8), (''LAST SEEN'', 22)]"

definition checks_columns :: "(string \<times> int) list" where
  "checks_columns = [(''ID'', 38), (''NAME'', 18), (''ON'', 4), (''STATE'', 12), (''OK/TOTAL'', 10), (''ALERTS'', 24), (''DETAIL'', 40)]"

definition alerts_columns :: "(string \<times> int) list" where
  "alerts_columns = [(''ID'', 38), (''NAME'', 16), (''ON'', 4), (''TYPE'', 10), (''DEFAULT'', 8), (''CUSTOM-MSG'', 11), (''ENDPOINT'', 36)]"

definition Selected :: "'t tables \<Rightarrow> 't \<Rightarrow> string" where
  "Selected T t = (case tb_SelectedRow T t of None \<Rightarrow> [] | Some r \<Rightarrow> r ! 0)"

definition SelectedName :: "'t tables \<Rightarrow> 't \<Rightarrow> string" where
  "SelectedName T t = (case tb_SelectedRow T t of None \<Rightarrow> [] | Some r \<Rightarrow> r ! 1)"

definition livenessText :: "bool \<Rightarrow> string" where
  "livenessText live = (if live then ''live'' else ''dead'')"

definition enabledCol :: "bool \<Rightarrow> string" where
  "enabledCol enabled = (if enabled then ''yes'' else ''no'')"

definition truncateText :: "string \<Rightarrow> int \<Rightarrow> string" where
  "truncateText s mx =
     (if mx \<le> 0 \<or> int (length s) \<le> mx then s
      else if mx < 4 then take (nat mx) s
      else take (nat (mx - 1)) s @ ellipsis)"

definition full_circle :: string where "full_circle = [CHR 0xE2, CHR 0x97, CHR 0x8F]"
definition empty_circle :: string where "empty_circle = [CHR 0xE2, CHR 0x97, CHR 0x8B]"

definition renderState :: "string \<Rightarrow> string" where
  "renderState s =
     (if s = ''up'' then full_circle @ '' up'' else if s = ''down'' then full_circle @ '' down'' else empty_circle @ '' unknown'')"

definition peers_refresh :: "(gotime \<Rightarrow> string) \<Rightarrow> string \<Rightarrow> PeerLiveness list \<Rightarrow> string list list" where
  "peers_refresh rfc selfID ps =
     map (\<lambda>p. [if pl_NodeID p = selfID then ''* '' @ pl_NodeID p else pl_NodeID p, pl_Advertise p, livenessText (pl_Live p),
       if pl_LastSeen p = 0 then ''-'' else rfc (pl_LastSeen p)]) ps"

definition checks_refresh :: "CheckSnapshot list \<Rightarrow> string list list" where
  "checks_refresh cs =
     map (\<lambda>c. [cs_CheckID c, cs_Name c, enabledCol (\<not> cs_Disabled c), renderState (cs_State c),
       if cs_Total c > 0 then Itoa (int (cs_OKCount c)) @ ''/'' @ Itoa (int (cs_Total c)) else ''0/0'',
       if Join (cs_Alerts c) '','' = [] then ''-'' else Join (cs_Alerts c) '','', truncateText (cs_Detail c) 38]) cs"

record alertRow =
  ar_ID :: string
  ar_Name :: string
  ar_Type :: string
  ar_Enabled :: bool
  ar_Default :: bool
  ar_HasTmpl :: bool
  ar_Endpoint :: string

definition toAlertRows :: "Alert list \<Rightarrow> alertRow list" where
  "toAlertRows as =
     map (\<lambda>a. \<lparr>ar_ID = al_ID a, ar_Name = al_Name a, ar_Type = al_Type a, ar_Enabled = (\<not> al_Disabled a), ar_Default = al_Default a,
        ar_HasTmpl = (al_SubjectTemplate a \<noteq> [] \<or> al_BodyTemplate a \<noteq> []),
        ar_Endpoint = (if al_Type a = AlertDiscord then al_DiscordWebhook a
          else if al_Type a = AlertSMTP then
            al_SMTPHost a @ '':'' @ Itoa (al_SMTPPort a) @ [CHR '' '', CHR 0xE2, CHR 0x86, CHR 0x92, CHR '' ''] @ Join (al_SMTPTo a) '',''
          else [])\<rparr>) as"

definition alerts_refresh :: "alertRow list \<Rightarrow> string list list" where
  "alerts_refresh rs =
     map (\<lambda>r. [ar_ID r, ar_Name r, enabledCol (ar_Enabled r), ar_Type r, if ar_Default r then ''yes'' else ''-'',
       if ar_HasTmpl r then ''yes'' else ''-'', truncateText (ar_Endpoint r) 34]) rs"

section \<open>The model\<close>

definition tabPeers :: nat where "tabPeers = 0"
definition tabChecks :: nat where "tabChecks = 1"
definition tabAlerts :: nat where "tabAlerts = 2"

record ('w, 't) tui =
  tm_width :: int
  tm_height :: int
  tm_status :: StatusResponse
  tm_statusLoaded :: bool
  tm_statusErr :: string
  tm_peersFull :: "PeerInfo list"
  tm_checksFull :: "Check list"
  tm_alerts :: "Alert list"
  tm_active :: nat
  tm_peers :: 't
  tm_checks :: 't
  tm_alertsT :: 't
  tm_alertRows :: "alertRow list"
  tm_modal :: "'w modal option"
  tm_flash :: string
  tm_flashLevel :: flashLevel
  tm_flashUntil :: gotime

definition zero_status :: StatusResponse where
  "zero_status = \<lparr>sr_NodeID = [], sr_Term = 0, sr_MasterID = [], sr_Version = 0, sr_Peers = [], sr_Checks = [], sr_HasQuorum = False, sr_QuorumSize = 0\<rparr>"

definition initialModel :: "('w, 't) ui \<Rightarrow> ('w, 't) tui" where
  "initialModel U =
     \<lparr>tm_width = 0, tm_height = 0, tm_status = zero_status, tm_statusLoaded = False, tm_statusErr = [], tm_peersFull = [],
      tm_checksFull = [], tm_alerts = [], tm_active = tabPeers, tm_peers = tb_new (ui_tables U) peers_columns,
      tm_checks = tb_new (ui_tables U) checks_columns, tm_alertsT = tb_new (ui_tables U) alerts_columns, tm_alertRows = [],
      tm_modal = None, tm_flash = [], tm_flashLevel = flashInfo, tm_flashUntil = 0\<rparr>"

definition tui_Init :: tea_cmd where
  "tui_Init = BatchCmd [LoadStatusCmd, LoadConfigCmd, TickCmd]"

definition SelectedAlert :: "('w, 't) ui \<Rightarrow> ('w, 't) tui \<Rightarrow> alertRow option" where
  "SelectedAlert U m =
     (let idx = tb_Cursor (ui_tables U) (tm_alertsT m) in
      if idx < 0 \<or> idx \<ge> int (length (tm_alertRows m)) then None else Some (tm_alertRows m ! nat idx))"

definition setFlash :: "gotime \<Rightarrow> string \<Rightarrow> flashLevel \<Rightarrow> ('w, 't) tui \<Rightarrow> ('w, 't) tui" where
  "setFlash now s level m = m\<lparr>tm_flash := s, tm_flashLevel := level, tm_flashUntil := now + 4 * Second\<rparr>"

definition liveCount :: "PeerLiveness list \<Rightarrow> nat" where
  "liveCount ps = length (filter pl_Live ps)"

section \<open>Layout and header\<close>

definition renderHeader :: "('w, 't) ui \<Rightarrow> ('w, 't) tui \<Rightarrow> string" where
  "renderHeader U m =
     (let G = ui_gloss U; st = lg_style G;
          outerW = (if tm_width m < 20 then 20 else tm_width m);
          innerW = (if outerW - 4 < 1 then 1 else outerW - 4)
      in if \<not> tm_statusLoaded m then
           (let msg = (if tm_statusErr m \<noteq> [] then ''daemon: '' @ tm_statusErr m else ''connecting to daemon'' @ ellipsis)
            in lg_header G outerW (st TitleStyle ''QUptime'' @ ''  '' @ st HelpStyle msg))
         else
           (let s = tm_status m;
                quorum = (if sr_HasQuorum s
                  then st StateUpStyle (full_circle @ '' quorum '' @ Itoa (int (liveCount (sr_Peers s))) @ ''/'' @ Itoa (int (sr_QuorumSize s)))
                  else st StateDownStyle (full_circle @ '' no quorum''));
                master = (if sr_MasterID s \<noteq> [] then ''master: '' @ shortID8 (sr_MasterID s) else st StateUnknownStyle (''master: '' @ emdash));
                role = (if sr_NodeID s = sr_MasterID s then st StateUpStyle ''(you are master)'' else st SubtleStyle ''(follower)'');
                left = lg_horizontal G [st TitleStyle ''QUptime'', ''  '', ''node: '' @ shortID8 (sr_NodeID s), ''  '', master, ''  '', role];
                right = lg_horizontal G [quorum, ''  '', st SubtleStyle (''term '' @ ver_text (sr_Term s) @ ''   ver '' @ ver_text (sr_Version s))];
                leftW = lg_width G left; rightW = lg_width G right
            in if leftW + rightW + 1 \<le> innerW
               then lg_header G outerW (left @ replicate (nat (innerW - leftW - rightW)) (CHR '' '') @ right)
               else lg_header G outerW (lg_vertical G [left, right])))"

definition headerHeight :: "('w, 't) ui \<Rightarrow> ('w, 't) tui \<Rightarrow> int" where
  "headerHeight U m = (if tm_width m = 0 then 3 else lg_height (ui_gloss U) (renderHeader U m))"

definition bodyHeight :: "('w, 't) ui \<Rightarrow> ('w, 't) tui \<Rightarrow> int" where
  "bodyHeight U m =
     (let reserved = headerHeight U m + 5; bodyH = tm_height m - reserved in if bodyH < 1 then 1 else bodyH)"

definition resizeTabs :: "('w, 't) ui \<Rightarrow> ('w, 't) tui \<Rightarrow> ('w, 't) tui" where
  "resizeTabs U m =
     (let bodyW = (if tm_width m - 4 < 20 then 20 else tm_width m - 4); set = tb_SetSize (ui_tables U) bodyW (bodyHeight U m)
      in m\<lparr>tm_peers := set (tm_peers m), tm_checks := set (tm_checks m), tm_alertsT := set (tm_alertsT m)\<rparr>)"

section \<open>Opening dialogs\<close>

definition installModal :: "('w, 't) ui \<Rightarrow> ('w, 't) tui \<Rightarrow> tea_cmd \<times> ('w, 't) tui" where
  "installModal U m =
     (case tm_modal m of
        None \<Rightarrow> (NilCmd, m)
      | Some md \<Rightarrow>
         (let md' = (if tm_width m > 0
             then fst (snd (modal_Update (ui_widgets U) (ui_duration U) (WindowSizeMsg (tm_width m) (tm_height m)) md)) else md)
          in (modal_Init md', m\<lparr>tm_modal := Some md'\<rparr>)))"

definition open_modal :: "('w, 't) ui \<Rightarrow> 'w modal \<Rightarrow> ('w, 't) tui \<Rightarrow> tea_cmd \<times> ('w, 't) tui" where
  "open_modal U md m = installModal U (m\<lparr>tm_modal := Some md\<rparr>)"

definition open_form :: "('w, 't) ui \<Rightarrow> form_kind \<Rightarrow> ('w, 't) tui \<Rightarrow> tea_cmd \<times> ('w, 't) tui" where
  "open_form U kind m = open_modal U (FormM (form_of (ui_widgets U) (ui_duration U) kind)) m"

definition option_for :: "string \<Rightarrow> string \<Rightarrow> form_kind \<Rightarrow> pickerOption" where
  "option_for label hint kind = \<lparr>po_label = label, po_hint = hint, po_choice = ChooseForm kind\<rparr>"

definition openAddPicker :: "('w, 't) ui \<Rightarrow> ('w, 't) tui \<Rightarrow> 'w modal option" where
  "openAddPicker U m =
     (if tm_active m = tabPeers then Some (FormM (form_of (ui_widgets U) (ui_duration U) AddNodeForm))
      else if tm_active m = tabChecks then Some (PickerM (newPicker (''Add check '' @ emdash @ '' pick type'')
        [option_for ''HTTP'' ''url + status code'' (AddCheckForm CheckHTTP), option_for ''TCP'' ''host:port connect'' (AddCheckForm CheckTCP),
         option_for ''ICMP'' ''ping a host'' (AddCheckForm CheckICMP), option_for ''TLS'' ''cert expiry warning'' (AddCheckForm CheckTLS),
         option_for ''DNS'' ''record resolution'' (AddCheckForm CheckDNS)]))
      else if tm_active m = tabAlerts then Some (PickerM (newPicker (''Add alert '' @ emdash @ '' pick type'')
        [option_for ''Discord'' ''webhook URL'' AddDiscordForm, option_for ''SMTP'' ''email via relay'' AddSMTPForm]))
      else None)"

definition removal :: "('w, 't) ui \<Rightarrow> ('w, 't) tui \<Rightarrow> (string \<times> remove_target) option" where
  "removal U m =
     (let T = ui_tables U in
      if tm_active m = tabPeers then
        (let ident = Selected T (tm_peers m) in
         if ident = [] then None
         else Some (''Remove peer '' @ shortID8 (TrimPrefix ident ''* '') @ '' from the cluster?'' @ nl @
                ''This revokes trust and updates cluster.yaml.'', RemovePeer (TrimPrefix ident ''* '')))
      else if tm_active m = tabChecks then
        (let ident = Selected T (tm_checks m); nm = SelectedName T (tm_checks m) in
         if ident = [] then None else Some (''Remove check '' @ Quote nm @ ''?'', RemoveCheck ident nm))
      else if tm_active m = tabAlerts then
        (let ident = Selected T (tm_alertsT m); nm = SelectedName T (tm_alertsT m) in
         if ident = [] then None else Some (''Remove alert '' @ Quote nm @ ''?'', RemoveAlert ident nm))
      else None)"

definition openRemoveConfirm :: "('w, 't) ui \<Rightarrow> ('w, 't) tui \<Rightarrow> tea_cmd \<times> ('w, 't) tui" where
  "openRemoveConfirm U m =
     (case removal U m of
        None \<Rightarrow> (NilCmd, m)
      | Some (prompt, target) \<Rightarrow> open_modal U (ConfirmM (newConfirm prompt target)) m)"

text \<open>The lookup loops: the first record with that ID.\<close>

definition flashing :: "gotime \<Rightarrow> string \<Rightarrow> flashLevel \<Rightarrow> ('w, 't) tui \<Rightarrow> tea_cmd \<times> ('w, 't) tui" where
  "flashing now txt level m = (NilCmd, setFlash now txt level m)"

definition openEditForm :: "('w, 't) ui \<Rightarrow> gotime \<Rightarrow> ('w, 't) tui \<Rightarrow> tea_cmd \<times> ('w, 't) tui" where
  "openEditForm U now m =
     (let T = ui_tables U in
      if tm_active m = tabPeers then
        (let ident = TrimPrefix (Selected T (tm_peers m)) ''* '' in
         if ident = [] then flashing now ''no peer selected'' flashWarn m
         else (case find (\<lambda>p. pi_NodeID p = ident) (tm_peersFull m) of
                 Some p \<Rightarrow> open_form U (EditNodeForm p) m
               | None \<Rightarrow> flashing now ''peer not found in local cluster.yaml'' flashError m))
      else if tm_active m = tabChecks then
        (let ident = Selected T (tm_checks m) in
         if ident = [] then flashing now ''no check selected'' flashWarn m
         else (case find (\<lambda>c. ck_ID c = ident) (tm_checksFull m) of
                 Some c \<Rightarrow> open_form U (EditCheckForm c) m
               | None \<Rightarrow> flashing now ''check not found in local cluster.yaml'' flashError m))
      else if tm_active m = tabAlerts then
        (let ident = Selected T (tm_alertsT m) in
         if ident = [] then flashing now ''no alert selected'' flashWarn m
         else (case find (\<lambda>a. al_ID a = ident) (tm_alerts m) of
                 Some a \<Rightarrow>
                   if al_Type a = AlertDiscord then open_form U (EditDiscordForm a) m
                   else if al_Type a = AlertSMTP then open_form U (EditSMTPForm a) m
                   else flashing now ''unsupported alert type'' flashError m
               | None \<Rightarrow> flashing now ''alert not found in local cluster.yaml'' flashError m))
      else (NilCmd, m))"

definition right_arrow :: string where "right_arrow = [CHR '' '', CHR 0xE2, CHR 0x86, CHR 0x92, CHR '' '']"

definition fire_option :: "string \<Rightarrow> string \<Rightarrow> string \<Rightarrow> string \<Rightarrow> string \<Rightarrow> string \<Rightarrow> pickerOption" where
  "fire_option ident nm label hint state verb =
     \<lparr>po_label = label, po_hint = hint, po_choice = ActCmd (TestCheckCmd ident state verb nm)\<rparr>"

definition test_picker :: "string \<Rightarrow> string \<Rightarrow> picker" where
  "test_picker ident nm =
     newPicker (''Test alert for '' @ nm @ '' '' @ emdash @ '' pick transition'')
       [fire_option ident nm ''DOWN'' (''Up'' @ right_arrow @ ''Down (most common test)'') ''down'' ''DOWN'',
        fire_option ident nm ''RECOVERED'' (''Down'' @ right_arrow @ ''Up '' @ emdash @ '' exercise the recovery message'') ''recovered'' ''RECOVERED'',
        fire_option ident nm ''UP'' (''Unknown'' @ right_arrow @ ''Up '' @ emdash @ '' bypasses the normal cold-start suppression'') ''up'' ''UP'']"

definition openTestCheckPicker :: "('w, 't) ui \<Rightarrow> ('w, 't) tui \<Rightarrow> tea_cmd \<times> ('w, 't) tui" where
  "openTestCheckPicker U m =
     (let ident = Selected (ui_tables U) (tm_checks m); nm = SelectedName (ui_tables U) (tm_checks m) in
      if ident = [] then (NilCmd, m) else open_modal U (PickerM (test_picker ident nm)) m)"

definition testSelectedAlert :: "('w, 't) ui \<Rightarrow> gotime \<Rightarrow> ('w, 't) tui \<Rightarrow> tea_cmd \<times> ('w, 't) tui" where
  "testSelectedAlert U now m =
     (let ident = Selected (ui_tables U) (tm_alertsT m); nm = SelectedName (ui_tables U) (tm_alertsT m) in
      if ident = [] then (NilCmd, m)
      else (TestAlertCmd ident nm, setFlash now (''sending test to '' @ nm @ ellipsis) flashInfo m))"

definition toggleSelectedCheckEnabled :: "('w, 't) ui \<Rightarrow> gotime \<Rightarrow> ('w, 't) tui \<Rightarrow> tea_cmd \<times> ('w, 't) tui" where
  "toggleSelectedCheckEnabled U now m =
     (let ident = Selected (ui_tables U) (tm_checks m) in
      if ident = [] then (NilCmd, m)
      else (case find (\<lambda>c. ck_ID c = ident) (tm_checksFull m) of
              None \<Rightarrow> flashing now ''check not found in local cluster.yaml'' flashError m
            | Some c \<Rightarrow> (ToggleCheckCmd (c\<lparr>ck_Disabled := \<not> ck_Disabled c\<rparr>), m)))"

definition toggleSelectedAlertEnabled :: "('w, 't) ui \<Rightarrow> gotime \<Rightarrow> ('w, 't) tui \<Rightarrow> tea_cmd \<times> ('w, 't) tui" where
  "toggleSelectedAlertEnabled U now m =
     (let ident = Selected (ui_tables U) (tm_alertsT m) in
      if ident = [] then (NilCmd, m)
      else (case find (\<lambda>a. al_ID a = ident) (tm_alerts m) of
              None \<Rightarrow> flashing now ''alert not found in local cluster.yaml'' flashError m
            | Some a \<Rightarrow> (ToggleAlertCmd (a\<lparr>al_Disabled := \<not> al_Disabled a\<rparr>), m)))"

definition toggleSelectedDefault :: "('w, 't) ui \<Rightarrow> gotime \<Rightarrow> ('w, 't) tui \<Rightarrow> tea_cmd \<times> ('w, 't) tui" where
  "toggleSelectedDefault U now m =
     (case SelectedAlert U m of
        None \<Rightarrow> (NilCmd, m)
      | Some r \<Rightarrow>
          (case find (\<lambda>a. al_ID a = ar_ID r) (tm_alerts m) of
             None \<Rightarrow> flashing now ''alert not found in local cluster.yaml'' flashError m
           | Some a \<Rightarrow> (ToggleDefaultCmd (a\<lparr>al_Default := \<not> al_Default a\<rparr>), m)))"

section \<open>Update\<close>

definition forwardToActiveTab :: "('w, 't) ui \<Rightarrow> tea_msg \<Rightarrow> ('w, 't) tui \<Rightarrow> tea_cmd \<times> ('w, 't) tui" where
  "forwardToActiveTab U msg m =
     (let upd = tb_Update (ui_tables U) msg in
      if tm_active m = tabPeers then (LibCmd, m\<lparr>tm_peers := upd (tm_peers m)\<rparr>)
      else if tm_active m = tabChecks then (LibCmd, m\<lparr>tm_checks := upd (tm_checks m)\<rparr>)
      else if tm_active m = tabAlerts then (LibCmd, m\<lparr>tm_alertsT := upd (tm_alertsT m)\<rparr>)
      else (NilCmd, m))"

definition refresh_cmd :: tea_cmd where
  "refresh_cmd = BatchCmd [LoadStatusCmd, LoadConfigCmd]"

definition handleKey :: "('w, 't) ui \<Rightarrow> gotime \<Rightarrow> string \<Rightarrow> ('w, 't) tui \<Rightarrow> tea_cmd \<times> ('w, 't) tui" where
  "handleKey U now key m =
     (if key = ''ctrl+c'' \<or> key = ''q'' then (QuitCmd, m)
      else if key \<in> {''tab'', ''right'', ''L''} then (ClearScreenCmd, m\<lparr>tm_active := (tm_active m + 1) mod 3\<rparr>)
      else if key \<in> {''shift+tab'', ''left'', ''H''} then (ClearScreenCmd, m\<lparr>tm_active := (tm_active m + 2) mod 3\<rparr>)
      else if key \<in> {''1'', ''2'', ''3''} then (ClearScreenCmd, m\<lparr>tm_active := of_char (hd key) - of_char (CHR ''1'')\<rparr>)
      else if key = ''r'' then (refresh_cmd, setFlash now (''refreshing'' @ ellipsis) flashInfo m)
      else if key = ''a'' then installModal U (m\<lparr>tm_modal := openAddPicker U m\<rparr>)
      else if key = ''d'' then openRemoveConfirm U m
      else if key = ''e'' then openEditForm U now m
      else if key = ''t'' \<and> tm_active m = tabAlerts then testSelectedAlert U now m
      else if key = ''t'' \<and> tm_active m = tabChecks then openTestCheckPicker U m
      else if key = ''D'' \<and> tm_active m = tabAlerts then toggleSelectedDefault U now m
      else if key = ''x'' \<and> tm_active m = tabChecks then toggleSelectedCheckEnabled U now m
      else if key = ''x'' \<and> tm_active m = tabAlerts then toggleSelectedAlertEnabled U now m
      else forwardToActiveTab U (KeyMsg key) m)"

definition on_status :: "('w, 't) ui \<Rightarrow> StatusResponse \<Rightarrow> ('w, 't) tui \<Rightarrow> ('w, 't) tui" where
  "on_status U st m =
     (let T = ui_tables U;
          m' = m\<lparr>tm_statusErr := [], tm_status := st, tm_statusLoaded := True,
            tm_peers := tb_SetRows T (peers_refresh (ui_rfc3339 U) (sr_NodeID st) (sr_Peers st)) (tm_peers m),
            tm_checks := tb_SetRows T (checks_refresh (sr_Checks st)) (tm_checks m)\<rparr>
      in if tm_statusLoaded m then m' else resizeTabs U m')"

definition on_config :: "('w, 't) ui \<Rightarrow> PeerInfo list \<Rightarrow> Check list \<Rightarrow> Alert list \<Rightarrow> ('w, 't) tui \<Rightarrow> ('w, 't) tui" where
  "on_config U ps cs as m =
     m\<lparr>tm_peersFull := ps, tm_checksFull := cs, tm_alerts := as, tm_alertRows := toAlertRows as,
       tm_alertsT := tb_SetRows (ui_tables U) (alerts_refresh (toAlertRows as)) (tm_alertsT m)\<rparr>"

text \<open>What reaches the open dialog, or the tab when there is none.\<close>

definition dispatch_msg :: "('w, 't) ui \<Rightarrow> gotime \<Rightarrow> tea_msg \<Rightarrow> ('w, 't) tui \<Rightarrow> tea_cmd \<times> ('w, 't) tui" where
  "dispatch_msg U now msg m =
     (case tm_modal m of
        Some md \<Rightarrow>
          (case modal_Update (ui_widgets U) (ui_duration U) msg md of
             (cmd, md', handed_off) \<Rightarrow>
               if handed_off
               then (case installModal U (m\<lparr>tm_modal := Some md'\<rparr>) of (c2, m') \<Rightarrow> (BatchCmd [cmd, c2], m'))
               else (cmd, m\<lparr>tm_modal := Some md'\<rparr>))
      | None \<Rightarrow> (case msg of KeyMsg key \<Rightarrow> handleKey U now key m | _ \<Rightarrow> forwardToActiveTab U msg m))"

definition tui_Update :: "('w, 't) ui \<Rightarrow> gotime \<Rightarrow> tea_msg \<Rightarrow> ('w, 't) tui \<Rightarrow> tea_cmd \<times> ('w, 't) tui" where
  "tui_Update U now msg m =
     (case msg of
        WindowSizeMsg w h \<Rightarrow>
          (let m' = resizeTabs U (m\<lparr>tm_width := w, tm_height := h\<rparr>)
           in (NilCmd, m'\<lparr>tm_modal := map_option (\<lambda>md. fst (snd (modal_Update (ui_widgets U) (ui_duration U) msg md))) (tm_modal m)\<rparr>))
      | TickMsg \<Rightarrow> (BatchCmd [LoadStatusCmd, LoadConfigCmd, TickCmd], m)
      | StatusMsg (Inl e) \<Rightarrow> (NilCmd, m\<lparr>tm_statusErr := err_text e\<rparr>)
      | StatusMsg (Inr st) \<Rightarrow> (NilCmd, on_status U st m)
      | ConfigMsg (Inl e) \<Rightarrow> (NilCmd, m)
      | ConfigMsg (Inr (ps, cs, as)) \<Rightarrow> (NilCmd, on_config U ps cs as m)
      | ModalDone txt level \<Rightarrow>
          (let m' = m\<lparr>tm_modal := None\<rparr> in (refresh_cmd, if txt \<noteq> [] then setFlash now txt level m' else m'))
      | _ \<Rightarrow> dispatch_msg U now msg m)"

section \<open>View\<close>

definition tab_part :: "('w, 't) ui \<Rightarrow> ('w, 't) tui \<Rightarrow> nat \<Rightarrow> string \<Rightarrow> nat \<Rightarrow> string" where
  "tab_part U m i nm cnt =
     (let label = nm @ '' ('' @ Itoa (int cnt) @ '')'' in
      if i = tm_active m then lg_tabActive (ui_gloss U) label
      else lg_tabIdle (ui_gloss U) (''['' @ Itoa (int i + 1) @ ''] '' @ label))"

definition renderTabs :: "('w, 't) ui \<Rightarrow> ('w, 't) tui \<Rightarrow> string" where
  "renderTabs U m =
     lg_horizontal (ui_gloss U)
       [tab_part U m tabPeers ''Peers'' (length (sr_Peers (tm_status m))), tab_part U m tabChecks ''Checks'' (length (sr_Checks (tm_status m))),
        tab_part U m tabAlerts ''Alerts'' (length (tm_alerts m))]"

definition renderActiveTab :: "('w, 't) ui \<Rightarrow> ('w, 't) tui \<Rightarrow> string" where
  "renderActiveTab U m =
     (let T = ui_tables U;
          view = (if tm_active m = tabPeers then tb_View T (tm_peers m) else if tm_active m = tabChecks then tb_View T (tm_checks m)
            else if tm_active m = tabAlerts then tb_View T (tm_alertsT m) else []);
          innerW = (if tm_width m - 4 < 1 then 1 else tm_width m - 4)
      in lg_body (ui_gloss U) (tm_width m) (lg_maxWidth (ui_gloss U) innerW view))"

definition renderHelp :: "('w, 't) ui \<Rightarrow> ('w, 't) tui \<Rightarrow> string" where
  "renderHelp U m =
     (let specific = (if tm_active m = tabPeers then ''a add  e edit  d remove''
            else if tm_active m = tabChecks then ''a add  e edit  d remove  t test  x toggle on/off''
            else if tm_active m = tabAlerts then ''a add  e edit  d remove  t test  D toggle default  x toggle on/off'' else [])
      in lg_style (ui_gloss U) HelpStyle (up_arrow @ down_arrow @ '' navigate   '' @ [CHR 0xE2, CHR 0x87, CHR 0xA5] @
           '' next tab   1/2/3 jump   r refresh   '' @ specific @ ''   q quit''))"

definition renderFlash :: "('w, 't) ui \<Rightarrow> gotime \<Rightarrow> ('w, 't) tui \<Rightarrow> string" where
  "renderFlash U now m =
     (if tm_flash m = [] \<or> now > tm_flashUntil m then []
      else lg_style (ui_gloss U) (case tm_flashLevel m of flashError \<Rightarrow> FlashErrorStyle | flashWarn \<Rightarrow> FlashWarnStyle | flashInfo \<Rightarrow> FlashInfoStyle)
             (tm_flash m))"

definition tui_View :: "('w, 't) ui \<Rightarrow> gotime \<Rightarrow> ('w, 't) tui \<Rightarrow> string" where
  "tui_View U now m =
     (let G = ui_gloss U in
      if tm_width m = 0 then ''loading'' @ ellipsis
      else (case tm_modal m of
              Some md \<Rightarrow> lg_center G (tm_width m) (tm_height m) (lg_modal G (modal_View (lg_style G) (ui_widgets U) md))
            | None \<Rightarrow> lg_vertical G [renderHeader U m, renderTabs U m, renderActiveTab U m, renderFlash U now m, renderHelp U m]))"

section \<open>Running the commands\<close>

definition run_load_status :: "'s cli_env \<Rightarrow> 's \<Rightarrow> tea_msg \<times> 's" where
  "run_load_status R s =
     (case cv_call R CtrlStatus None s of
        (Inl e, s') \<Rightarrow> (StatusMsg (Inl e), s')
      | (Inr raw, s') \<Rightarrow> (StatusMsg (qd_Status (cv_json R) raw), s'))"

definition run_load_config :: "'s cli_env \<Rightarrow> tea_msg" where
  "run_load_config R =
     ConfigMsg (case cv_load R of Inl e \<Rightarrow> Inl e | Inr c \<Rightarrow> Inr (cc_Peers c, cc_Checks c, cc_Alerts c))"

definition done_answer :: "string \<Rightarrow> string \<Rightarrow> err option \<times> 's \<Rightarrow> tea_msg \<times> 's" where
  "done_answer failed txt r =
     (case r of (Some e, s) \<Rightarrow> (ModalDone (failed @ err_text e) flashError, s) | (None, s) \<Rightarrow> (ModalDone txt flashInfo, s))"

definition call_err :: "(err + string) \<times> 's \<Rightarrow> err option \<times> 's" where
  "call_err r = (case r of (Inl e, s) \<Rightarrow> (Some e, s) | (Inr raw, s) \<Rightarrow> (None, s))"

definition run_remove :: "'s cli_env \<Rightarrow> remove_target \<Rightarrow> 's \<Rightarrow> tea_msg \<times> 's" where
  "run_remove R target s =
     (case target of
        RemovePeer ident \<Rightarrow>
          form_answer (''removed node '' @ shortID8 ident) (call_err (cv_call R CtrlNodeRemove (Some (qe_Node (cv_json R) ident)) s))
      | RemoveCheck ident nm \<Rightarrow> form_answer (''removed check '' @ nm) (mutateRemove R MutationRemoveCheck ident s)
      | RemoveAlert ident nm \<Rightarrow> form_answer (''removed alert '' @ nm) (mutateRemove R MutationRemoveAlert ident s))"

definition run_test_check :: "'s cli_env \<Rightarrow> string \<Rightarrow> string \<Rightarrow> string \<Rightarrow> string \<Rightarrow> 's \<Rightarrow> tea_msg \<times> 's" where
  "run_test_check R ident state verb nm s =
     done_answer ''test failed: '' (''fired synthetic '' @ verb @ '' for '' @ nm)
       (call_err (cv_call R CtrlCheckTest (Some (qe_CheckTest (cv_json R) \<lparr>ct_CheckID = ident, ct_State = state\<rparr>)) s))"

definition run_test_alert :: "'s cli_env \<Rightarrow> string \<Rightarrow> string \<Rightarrow> 's \<Rightarrow> tea_msg \<times> 's" where
  "run_test_alert R ident nm s =
     done_answer ''test failed: '' (''test sent via '' @ nm)
       (call_err (cv_call R CtrlAlertTest (Some (qe_AlertTest (cv_json R) ident)) s))"

definition run_toggle_check :: "'s cli_env \<Rightarrow> Check \<Rightarrow> 's \<Rightarrow> tea_msg \<times> 's" where
  "run_toggle_check R c s =
     done_answer ''toggle failed: '' (''check '' @ ck_Name c @ '' '' @ (if ck_Disabled c then ''disabled'' else ''enabled''))
       (mutateAdd R MutationAddCheck (qe_Check (cv_json R) c) s)"

definition run_toggle_alert :: "'s cli_env \<Rightarrow> Alert \<Rightarrow> 's \<Rightarrow> tea_msg \<times> 's" where
  "run_toggle_alert R a s =
     done_answer ''toggle failed: '' (''alert '' @ al_Name a @ '' '' @ (if al_Disabled a then ''disabled'' else ''enabled''))
       (mutateAdd R MutationAddAlert (qe_Alert (cv_json R) a) s)"

definition run_toggle_default :: "'s cli_env \<Rightarrow> Alert \<Rightarrow> 's \<Rightarrow> tea_msg \<times> 's" where
  "run_toggle_default R a s =
     done_answer ''toggle failed: '' (''alert '' @ al_Name a @ '' default='' @ (if al_Default a then ''on'' else ''off''))
       (mutateAdd R MutationAddAlert (qe_Alert (cv_json R) a) s)"

text \<open>The runtime runs the members of a batch each on its own; a command that belongs to the terminal or
  to a library sends the program nothing this model looks into.\<close>

definition perform :: "'s cli_env \<Rightarrow> tea_cmd \<Rightarrow> 's \<Rightarrow> tea_msg option \<times> 's" where
  "perform R cmd s =
     (let answer = (\<lambda>(msg, s'). (Some msg, s')) in
      case cmd of
        LoadStatusCmd \<Rightarrow> answer (run_load_status R s)
      | LoadConfigCmd \<Rightarrow> (Some (run_load_config R), s)
      | TickCmd \<Rightarrow> (Some TickMsg, s)
      | DoneCmd txt level \<Rightarrow> (Some (ModalDone txt level), s)
      | SubmitCmd kind vals \<Rightarrow> answer (run_submit R kind vals s)
      | RemoveCmd target \<Rightarrow> answer (run_remove R target s)
      | TestCheckCmd ident state verb nm \<Rightarrow> answer (run_test_check R ident state verb nm s)
      | TestAlertCmd ident nm \<Rightarrow> answer (run_test_alert R ident nm s)
      | ToggleCheckCmd c \<Rightarrow> answer (run_toggle_check R c s)
      | ToggleAlertCmd a \<Rightarrow> answer (run_toggle_alert R a s)
      | ToggleDefaultCmd a \<Rightarrow> answer (run_toggle_default R a s)
      | _ \<Rightarrow> (None, s))"

section \<open>Lemmas\<close>

text \<open>The question a confirmation shows, for what it removes.\<close>

definition prompt_of :: "remove_target \<Rightarrow> string" where
  "prompt_of target =
     (case target of
        RemovePeer ident \<Rightarrow> ''Remove peer '' @ shortID8 ident @ '' from the cluster?'' @ nl @ ''This revokes trust and updates cluster.yaml.''
      | RemoveCheck ident nm \<Rightarrow> ''Remove check '' @ Quote nm @ ''?''
      | RemoveAlert ident nm \<Rightarrow> ''Remove alert '' @ Quote nm @ ''?'')"

definition is_test :: "tea_cmd \<Rightarrow> bool" where
  "is_test cmd = (case cmd of TestCheckCmd i s v n \<Rightarrow> True | _ \<Rightarrow> False)"

definition option_ok :: "pickerOption \<Rightarrow> bool" where
  "option_ok opt = (case po_choice opt of ActCmd cmd \<Rightarrow> is_test cmd | ChooseForm kind \<Rightarrow> True)"

definition modal_ok :: "'w widgets \<Rightarrow> 'w modal \<Rightarrow> bool" where
  "modal_ok W md =
     (case md of
        FormM f \<Rightarrow> form_ok W f \<and> (fm_initCmd f = NilCmd \<or> fm_initCmd f = BlinkCmd)
      | PickerM p \<Rightarrow> pk_cursor p < length (pk_options p) \<and> list_all option_ok (pk_options p)
      | ConfirmM c \<Rightarrow> cm_prompt c = prompt_of (cm_onConfirm c))"

text \<open>A tab is active, the rows behind the alerts table are those of the alerts loaded, and an open
  dialog is well formed.\<close>

definition tui_core :: "('w, 't) tui \<Rightarrow> bool" where
  "tui_core m \<longleftrightarrow> tm_active m < 3 \<and> tm_alertRows m = toAlertRows (tm_alerts m)"

definition tui_ok :: "('w, 't) ui \<Rightarrow> ('w, 't) tui \<Rightarrow> bool" where
  "tui_ok U m \<longleftrightarrow> tui_core m \<and> (\<forall>md. tm_modal m = Some md \<longrightarrow> modal_ok (ui_widgets U) md)"

lemma form_Update_init: "fm_initCmd (snd (form_Update W msg f)) = fm_initCmd f"
  by (cases msg) (simp_all add: form_Update_def form_key_def to_input_def advance_def submitOrAdvance_def focusOnly_def Let_def split: option.split)

lemma form_of_modal: "widget_laws W \<Longrightarrow> modal_ok W (FormM (form_of W dtext kind))"
  by (cases kind) (simp_all add: modal_ok_def form_of_ok, simp_all add: form_of_def newAddCheckForm_def newEditCheckForm_def
      newAddDiscordForm_def newEditDiscordForm_def newAddSMTPForm_def newEditSMTPForm_def newAddNodeForm_def newEditNodeForm_def newForm_def)

lemma picker_Update_ok:
  assumes "widget_laws W" and "modal_ok W (PickerM p)"
  shows "modal_ok W (fst (snd (picker_Update W dtext msg p)))"
proof (cases msg)
  case (KeyMsg key)
  show ?thesis
  proof (cases "key = ''enter''")
    case True
    then show ?thesis
      using KeyMsg assms form_of_modal [OF assms(1)] by (auto simp: picker_Update_def split: picker_choice.split)
  next
    case False
    then show ?thesis using KeyMsg assms by (auto simp: picker_Update_def modal_ok_def)
  qed
qed (use assms in \<open>simp_all add: picker_Update_def\<close>)

lemma confirm_Update_same: "cm_prompt (snd (confirm_Update msg c)) = cm_prompt c \<and> cm_onConfirm (snd (confirm_Update msg c)) = cm_onConfirm c"
  by (cases msg) (simp_all add: confirm_Update_def commit_def)

lemma modal_Update_ok:
  assumes "widget_laws W" and "modal_ok W md"
  shows "modal_ok W (fst (snd (modal_Update W dtext msg md)))"
proof (cases md)
  case (FormM f)
  then show ?thesis
    using assms form_Update_ok [OF assms(1), of f msg] form_Update_init [of W msg f] by (simp add: modal_Update_def modal_ok_def split_beta)
next
  case (PickerM p)
  then show ?thesis using assms picker_Update_ok by (simp add: modal_Update_def)
next
  case (ConfirmM c)
  then show ?thesis using assms confirm_Update_same [of msg c] by (simp add: modal_Update_def modal_ok_def split_beta)
qed

lemma tui_ok_simps [simp]:
  "tui_ok U (m\<lparr>tm_modal := None\<rparr>) = tui_core m"
  "tui_ok U (m\<lparr>tm_modal := Some md\<rparr>) = (tui_core m \<and> modal_ok (ui_widgets U) md)"
  "tui_ok U (setFlash now txt level m) = tui_ok U m"
  "tui_core (setFlash now txt level m) = tui_core m"
  "tui_ok U (resizeTabs U m) = tui_ok U m"
  "tui_ok U (m\<lparr>tm_statusErr := e\<rparr>) = tui_ok U m"
  by (simp_all add: tui_ok_def tui_core_def setFlash_def resizeTabs_def Let_def)

lemma installModal_ok:
  assumes "widget_laws (ui_widgets U)" and "tui_ok U m"
  shows "tui_ok U (snd (installModal U m))"
proof (cases "tm_modal m")
  case (Some md)
  then show ?thesis
    using assms modal_Update_ok [OF assms(1), of md] by (simp add: installModal_def Let_def tui_ok_def tui_core_def)
qed (use assms in \<open>simp add: installModal_def\<close>)

lemma open_modal_ok:
  "widget_laws (ui_widgets U) \<Longrightarrow> tui_core m \<Longrightarrow> modal_ok (ui_widgets U) md \<Longrightarrow> tui_ok U (snd (open_modal U md m))"
  by (simp add: open_modal_def installModal_ok)

lemma open_form_ok: "widget_laws (ui_widgets U) \<Longrightarrow> tui_core m \<Longrightarrow> tui_ok U (snd (open_form U kind m))"
  by (simp add: open_form_def open_modal_ok form_of_modal)

lemma add_picker_ok: "widget_laws (ui_widgets U) \<Longrightarrow> openAddPicker U m = Some md \<Longrightarrow> modal_ok (ui_widgets U) md"
  using form_of_modal [of "ui_widgets U" "ui_duration U" AddNodeForm]
  by (auto simp: openAddPicker_def modal_ok_def newPicker_def option_for_def option_ok_def split: if_splits)

lemma removal_prompt: "removal U m = Some (prompt, target) \<Longrightarrow> prompt = prompt_of target"
  by (auto simp: removal_def prompt_of_def Let_def split: if_splits)

lemma remove_confirm_ok:
  assumes "widget_laws (ui_widgets U)" and "tui_ok U m"
  shows "tui_ok U (snd (openRemoveConfirm U m))"
proof (cases "removal U m")
  case (Some r)
  then show ?thesis
    using assms removal_prompt [of U m] by (cases r) (auto simp: openRemoveConfirm_def newConfirm_def tui_ok_def [of U m] modal_ok_def intro!: open_modal_ok)
qed (use assms in \<open>simp add: openRemoveConfirm_def\<close>)

lemma test_picker_ok: "modal_ok W (PickerM (test_picker ident nm))"
  by (simp add: modal_ok_def test_picker_def newPicker_def fire_option_def option_ok_def is_test_def)

lemma open_edit_ok:
  assumes "widget_laws (ui_widgets U)" and "tui_ok U m"
  shows "tui_ok U (snd (openEditForm U now m))"
proof -
  have core: "tui_core m" using assms(2) by (simp add: tui_ok_def)
  have "tui_ok U (snd (open_form U kind m))" for kind by (rule open_form_ok [OF assms(1) core])
  moreover have "tui_ok U (snd (flashing now t level m))" for t level using assms(2) by (simp add: flashing_def)
  ultimately show ?thesis using assms(2) by (simp add: openEditForm_def Let_def split: option.split)
qed

lemma forwardToActiveTab_ok: "tui_ok U m \<Longrightarrow> tui_ok U (snd (forwardToActiveTab U msg m))"
  by (simp add: forwardToActiveTab_def Let_def tui_ok_def tui_core_def)

lemma toggles_ok:
  assumes "tui_ok U m"
  shows "tui_ok U (snd (toggleSelectedCheckEnabled U now m))" and "tui_ok U (snd (toggleSelectedAlertEnabled U now m))"
    and "tui_ok U (snd (toggleSelectedDefault U now m))" and "tui_ok U (snd (testSelectedAlert U now m))"
  using assms
  by (simp_all add: toggleSelectedCheckEnabled_def toggleSelectedAlertEnabled_def toggleSelectedDefault_def testSelectedAlert_def
      flashing_def Let_def split: option.split)

lemma move_ok: "tui_ok U m \<Longrightarrow> i < 3 \<Longrightarrow> tui_ok U (m\<lparr>tm_active := i\<rparr>)"
  by (simp add: tui_ok_def tui_core_def)

lemma open_add_ok:
  assumes "widget_laws (ui_widgets U)" and "tui_ok U m"
  shows "tui_ok U (snd (installModal U (m\<lparr>tm_modal := openAddPicker U m\<rparr>)))"
proof (rule installModal_ok [OF assms(1)])
  show "tui_ok U (m\<lparr>tm_modal := openAddPicker U m\<rparr>)"
    using assms add_picker_ok [OF assms(1)] by (simp add: tui_ok_def tui_core_def)
qed

lemma handleKey_ok:
  assumes "widget_laws (ui_widgets U)" and "tui_ok U m"
  shows "tui_ok U (snd (handleKey U now key m))"
proof -
  have core: "tui_core m" using assms(2) by (simp add: tui_ok_def)
  have "tui_ok U (snd (openTestCheckPicker U m))"
    using assms core by (simp add: openTestCheckPicker_def Let_def open_modal_ok test_picker_ok)
  moreover have "key \<in> {''1'', ''2'', ''3''} \<Longrightarrow> of_char (hd key) - of_char (CHR ''1'') < (3 :: nat)" by auto
  ultimately show ?thesis
    using assms move_ok [OF assms(2)] toggles_ok [OF assms(2)] open_add_ok [OF assms] open_edit_ok [OF assms] remove_confirm_ok [OF assms]
      forwardToActiveTab_ok [OF assms(2)]
    by (simp add: handleKey_def)
qed

lemma dispatch_ok:
  assumes "widget_laws (ui_widgets U)" and "tui_ok U m"
  shows "tui_ok U (snd (dispatch_msg U now msg m))"
proof (cases "tm_modal m")
  case None
  then show ?thesis using handleKey_ok [OF assms] forwardToActiveTab_ok [OF assms(2)] by (simp add: dispatch_msg_def split: tea_msg.split)
next
  case (Some md)
  obtain cmd md' handed_off where u: "modal_Update (ui_widgets U) (ui_duration U) msg md = (cmd, md', handed_off)" by (metis prod_cases3)
  have md: "modal_ok (ui_widgets U) md'" using assms Some modal_Update_ok [OF assms(1), of md "ui_duration U" msg] u by (simp add: tui_ok_def)
  then have m': "tui_ok U (m\<lparr>tm_modal := Some md'\<rparr>)" using assms(2) by (simp add: tui_ok_def [of U m])
  show ?thesis using Some u md m' installModal_ok [OF assms(1) m'] by (simp add: dispatch_msg_def split_beta)
qed

lemma tui_Update_ok:
  assumes "widget_laws (ui_widgets U)" and "tui_ok U m"
  shows "tui_ok U (snd (tui_Update U now msg m))"
proof -
  have core: "tui_core m" using assms(2) by (simp add: tui_ok_def)
  have same: "tui_ok U (m\<lparr>tm_width := w, tm_height := h\<rparr>)" for w h using assms(2) by (simp add: tui_ok_def tui_core_def)
  show ?thesis
  proof (cases msg)
    case (WindowSizeMsg w h)
    let ?m = "resizeTabs U (m\<lparr>tm_width := w, tm_height := h\<rparr>)"
    have "tui_core ?m" "tm_modal m = None \<or> (\<exists>md. tm_modal m = Some md \<and> modal_ok (ui_widgets U) md)"
      using same [of w h] assms(2) by (simp_all add: tui_ok_def resizeTabs_def Let_def tui_core_def) auto
    then show ?thesis using WindowSizeMsg modal_Update_ok [OF assms(1)] by (auto simp: tui_Update_def Let_def)
  next
    case (StatusMsg r)
    have "tui_ok U (on_status U st m)" for st
      using assms(2) by (simp add: on_status_def Let_def) (simp add: tui_ok_def tui_core_def)
    then show ?thesis using StatusMsg assms(2) by (cases r) (simp_all add: tui_Update_def)
  next
    case (ConfigMsg r)
    have "tui_ok U (on_config U ps cs as m)" for ps cs as
      using assms(2) by (simp add: on_config_def tui_ok_def tui_core_def)
    then show ?thesis using ConfigMsg assms(2) by (cases r) (auto simp: tui_Update_def)
  next
    case (ModalDone t level)
    then show ?thesis using core by (simp add: tui_Update_def Let_def)
  qed (use assms dispatch_ok [OF assms] in \<open>simp_all add: tui_Update_def\<close>)
qed

section \<open>Runs\<close>

text \<open>The messages the program gets, each with the time it is handled at.\<close>

definition tui_step :: "('w, 't) ui \<Rightarrow> gotime \<times> tea_msg \<Rightarrow> ('w, 't) tui \<Rightarrow> ('w, 't) tui" where
  "tui_step U e m = snd (tui_Update U (fst e) (snd e) m)"

definition tui_run :: "('w, 't) ui \<Rightarrow> (gotime \<times> tea_msg) list \<Rightarrow> ('w, 't) tui" where
  "tui_run U es = fold (tui_step U) es (initialModel U)"

interpretation ui_loop: guarded_component "tui_step U" "\<lambda>e m. widget_laws (ui_widgets U)" "tui_ok U" for U :: "('w, 't) ui"
  by unfold_locales (simp add: tui_step_def tui_Update_ok)

lemma initial_ok: "tui_ok U (initialModel U)"
  by (simp add: tui_ok_def tui_core_def initialModel_def tabPeers_def toAlertRows_def)

lemma always_allowed: "P \<Longrightarrow> allowed_run (\<lambda>e s. P) step es s"
  by (induction es arbitrary: s) auto

lemma tui_run_ok: "widget_laws (ui_widgets U) \<Longrightarrow> tui_ok U (tui_run U es)"
  unfolding tui_run_def by (rule ui_loop.run_inv [OF initial_ok always_allowed])

section \<open>What the commands remove\<close>

text \<open>What a command, with all it batches, asks to remove.\<close>

fun removals :: "tea_cmd \<Rightarrow> remove_target list" where
  "removals (BatchCmd cs) = concat (map removals cs)"
| "removals (RemoveCmd target) = [target]"
| "removals cmd = []"

lemma removals_form: "removals (fst (form_Update W msg f)) = []"
proof -
  have a: "removals (fst (focusOnly W i g)) = []" for i and g :: "'a form" by (simp add: focusOnly_def)
  have b: "removals (fst (advance W d g)) = []" for d and g :: "'a form" by (simp add: advance_def Let_def a)
  have c: "removals (fst (submitOrAdvance W g)) = []" for g :: "'a form"
    by (simp add: submitOrAdvance_def Let_def a b split: option.split)
  show ?thesis by (cases msg) (simp_all add: form_Update_def form_key_def Let_def to_input_def b c)
qed

lemma removals_installModal:
  assumes "tui_ok U m"
  shows "removals (fst (installModal U m)) = []"
proof (cases "tm_modal m")
  case (Some md)
  have size: "fm_initCmd (snd (form_Update (ui_widgets U) (WindowSizeMsg (tm_width m) (tm_height m)) f)) = fm_initCmd f" for f
    by (rule form_Update_init)
  show ?thesis
  proof (cases md)
    case (FormM f)
    then have "fm_initCmd f = NilCmd \<or> fm_initCmd f = BlinkCmd" using assms Some by (simp add: tui_ok_def modal_ok_def)
    then show ?thesis using Some FormM size by (auto simp: installModal_def Let_def modal_Update_def modal_Init_def split_beta)
  qed (use Some in \<open>simp_all add: installModal_def Let_def modal_Update_def modal_Init_def picker_Update_def split_beta\<close>)
qed (simp add: installModal_def)

lemma removals_open_modal: "tui_core m \<Longrightarrow> modal_ok (ui_widgets U) md \<Longrightarrow> removals (fst (open_modal U md m)) = []"
  by (simp add: open_modal_def removals_installModal)

lemma removals_handleKey:
  assumes "widget_laws (ui_widgets U)" and "tui_ok U m"
  shows "removals (fst (handleKey U now key m)) = []"
proof -
  note W = assms(1)
  have core: "tui_core m" using assms(2) by (simp add: tui_ok_def)
  have form: "removals (fst (open_form U kind m)) = []" for kind
    by (simp add: open_form_def removals_open_modal [OF core form_of_modal [OF W]])
  have flash: "removals (fst (flashing now t level m)) = []" for t level by (simp add: flashing_def)
  have edit: "removals (fst (openEditForm U now m)) = []"
    using form flash by (simp add: openEditForm_def Let_def split: option.split)
  have ask: "removals (fst (openRemoveConfirm U m)) = []"
  proof (cases "removal U m")
    case (Some r)
    then show ?thesis using removal_prompt [of U m] core
      by (cases r) (simp add: openRemoveConfirm_def newConfirm_def removals_open_modal modal_ok_def)
  qed (simp add: openRemoveConfirm_def)
  have test: "removals (fst (openTestCheckPicker U m)) = []"
    using removals_open_modal [OF core test_picker_ok] by (simp add: openTestCheckPicker_def Let_def)
  have add: "removals (fst (installModal U (m\<lparr>tm_modal := openAddPicker U m\<rparr>))) = []"
    by (rule removals_installModal) (use assms(2) add_picker_ok [OF W] in \<open>simp add: tui_ok_def tui_core_def\<close>)
  have toggles: "removals (fst (toggleSelectedDefault U now m)) = []" "removals (fst (toggleSelectedCheckEnabled U now m)) = []"
    "removals (fst (toggleSelectedAlertEnabled U now m)) = []" "removals (fst (testSelectedAlert U now m)) = []"
    using flash by (simp_all add: toggleSelectedDefault_def toggleSelectedCheckEnabled_def toggleSelectedAlertEnabled_def
        testSelectedAlert_def Let_def split: option.split)
  have fwd: "removals (fst (forwardToActiveTab U msg m)) = []" for msg by (simp add: forwardToActiveTab_def Let_def)
  show ?thesis using edit ask test add toggles fwd by (simp add: handleKey_def refresh_cmd_def)
qed

text \<open>A confirmation that removes: which key, and what it is left as.\<close>

definition agrees :: "confirm \<Rightarrow> string \<Rightarrow> bool" where
  "agrees c key \<longleftrightarrow> \<not> cm_busy c \<and> (key = ''y'' \<or> key = ''Y'' \<or> key = ''enter'' \<and> cm_yes c)"

lemma removals_confirm:
  assumes "target \<in> set (removals (fst (confirm_Update msg c)))"
  shows "\<exists>key. msg = KeyMsg key \<and> agrees c key \<and> target = cm_onConfirm c \<and> cm_busy (snd (confirm_Update msg c))"
  using assms by (cases msg) (auto simp: confirm_Update_def commit_def agrees_def split: if_splits)

lemma removals_picker:
  assumes "modal_ok W (PickerM p)"
  shows "removals (fst (picker_Update W dtext msg p)) = []"
proof (cases msg)
  case (KeyMsg key)
  have "pk_cursor p < length (pk_options p) \<Longrightarrow> po_choice (pk_options p ! pk_cursor p) = ActCmd cmd \<Longrightarrow> removals cmd = []" for cmd
    using assms by (cases cmd) (auto simp: modal_ok_def list_all_length option_ok_def is_test_def)
  then show ?thesis using KeyMsg by (simp add: picker_Update_def split: picker_choice.split)
qed (simp_all add: picker_Update_def)

lemma removals_dispatch:
  assumes W: "widget_laws (ui_widgets U)" and ok: "tui_ok U m" and t: "target \<in> set (removals (fst (dispatch_msg U now msg m)))"
  shows "\<exists>c key c'. tm_modal m = Some (ConfirmM c) \<and> msg = KeyMsg key \<and> agrees c key \<and> cm_onConfirm c = target \<and>
     cm_prompt c = prompt_of target \<and> tm_modal (snd (dispatch_msg U now msg m)) = Some (ConfirmM c') \<and> cm_busy c'"
proof (cases "tm_modal m")
  case None
  then show ?thesis using t removals_handleKey [OF W ok]
    by (simp add: dispatch_msg_def forwardToActiveTab_def Let_def split: tea_msg.splits if_splits)
next
  case (Some md)
  note okd = ok [unfolded tui_ok_def, THEN conjunct2, rule_format, OF Some]
  obtain cmd md' h where u: "modal_Update (ui_widgets U) (ui_duration U) msg md = (cmd, md', h)" by (metis prod_cases3)
  have "modal_ok (ui_widgets U) md'" using modal_Update_ok [OF W okd] u by (metis fst_conv snd_conv)
  then have "tui_ok U (m\<lparr>tm_modal := Some md'\<rparr>)" using ok by (simp add: tui_ok_def [of U m])
  then have "removals (fst (installModal U (m\<lparr>tm_modal := Some md'\<rparr>))) = []" by (rule removals_installModal)
  then have t': "target \<in> set (removals cmd)" using t Some u by (simp add: dispatch_msg_def split_beta split: if_splits)
  show ?thesis
  proof (cases md)
    case (ConfirmM c)
    then have c: "cmd = fst (confirm_Update msg c)" "md' = ConfirmM (snd (confirm_Update msg c))" "\<not> h"
      using u by (auto simp: modal_Update_def split_beta)
    then show ?thesis using removals_confirm [of target msg c] t' Some ConfirmM okd u by (auto simp: dispatch_msg_def modal_ok_def)
  next
    case (FormM f)
    then show ?thesis using u t' removals_form [of "ui_widgets U" msg f] by (auto simp: modal_Update_def split_beta)
  next
    case (PickerM p)
    then show ?thesis using u t' okd removals_picker [of "ui_widgets U" p "ui_duration U" msg] by (simp add: modal_Update_def)
  qed
qed

lemma removals_Update:
  assumes "target \<in> set (removals (fst (tui_Update U now msg m)))"
  shows "tui_Update U now msg m = dispatch_msg U now msg m"
proof (cases msg)
  case (StatusMsg r)
  then show ?thesis using assms by (cases r) (simp_all add: tui_Update_def)
next
  case (ConfigMsg r)
  then show ?thesis using assms by (cases r) (auto simp: tui_Update_def)
qed (use assms in \<open>simp_all add: tui_Update_def Let_def refresh_cmd_def\<close>)

section \<open>Properties\<close>

text \<open>The terminal UI stays well formed. After any messages in any order (keys, resizes, ticks, late
  answers), one of the three tabs is active, the rows behind the alerts table are those of the alerts
  loaded, and an open dialog is usable: a form has its cursor and its focus on one of its fields, a
  picker has its cursor on one of its options, a confirmation asks about what it will remove. So
  whenever a row of the alerts tab is selected, toggling its default finds the alert.\<close>

theorem tui_invariant:
  assumes "widget_laws (ui_widgets U)"
  shows "tm_active (tui_run U es) < 3 \<and> tm_alertRows (tui_run U es) = toAlertRows (tm_alerts (tui_run U es)) \<and>
     (\<forall>md. tm_modal (tui_run U es) = Some md \<longrightarrow> modal_ok (ui_widgets U) md) \<and>
     (\<forall>r now. SelectedAlert U (tui_run U es) = Some r \<longrightarrow>
        (\<exists>a \<in> set (tm_alerts (tui_run U es)). al_ID a = ar_ID r \<and>
           toggleSelectedDefault U now (tui_run U es) = (ToggleDefaultCmd (a\<lparr>al_Default := \<not> al_Default a\<rparr>), tui_run U es)))"
proof -
  let ?m = "tui_run U es"
  have ok: "tui_ok U ?m" by (rule tui_run_ok [OF assms])
  then have rows: "tm_alertRows ?m = toAlertRows (tm_alerts ?m)" by (simp add: tui_ok_def tui_core_def)
  have "\<exists>a \<in> set (tm_alerts ?m). al_ID a = ar_ID r \<and>
      toggleSelectedDefault U now ?m = (ToggleDefaultCmd (a\<lparr>al_Default := \<not> al_Default a\<rparr>), ?m)"
    if sel: "SelectedAlert U ?m = Some r" for r now
  proof -
    have "r \<in> set (tm_alertRows ?m)" using sel by (auto simp: SelectedAlert_def Let_def split: if_splits intro!: nth_mem)
    then obtain a0 where "a0 \<in> set (tm_alerts ?m)" "al_ID a0 = ar_ID r" unfolding rows by (auto simp: toAlertRows_def)
    then obtain a where f: "find (\<lambda>a. al_ID a = ar_ID r) (tm_alerts ?m) = Some a"
      using find_None_iff [of "\<lambda>a. al_ID a = ar_ID r" "tm_alerts ?m"] by fastforce
    then have "a \<in> set (tm_alerts ?m) \<and> al_ID a = ar_ID r" by (auto simp: find_Some_iff)
    with f sel show ?thesis by (auto simp: toggleSelectedDefault_def)
  qed
  then show ?thesis using ok by (simp add: tui_ok_def tui_core_def)
qed

text \<open>C28. Nothing is removed without a yes. Whatever happened before, the command that removes a peer, a
  check or an alert is issued only by a key that agrees to an open confirmation (y, or enter with yes
  selected), for the very thing the question on the screen names, and not while a removal is under
  way; the confirmation is then busy, so the same answer cannot be given twice.\<close>

theorem removal_needs_consent:
  assumes "widget_laws (ui_widgets U)" and "target \<in> set (removals (fst (tui_Update U now msg (tui_run U es))))"
  shows "\<exists>c key c'. tm_modal (tui_run U es) = Some (ConfirmM c) \<and> msg = KeyMsg key \<and> agrees c key \<and>
     cm_onConfirm c = target \<and> cm_prompt c = prompt_of target \<and>
     tm_modal (snd (tui_Update U now msg (tui_run U es))) = Some (ConfirmM c') \<and> cm_busy c'"
  using removals_dispatch [OF assms(1) tui_run_ok [OF assms(1)]] assms(2) removals_Update [OF assms(2)] by metis

text \<open>A table that holds its rows, with the cursor on the first.\<close>

definition demo_tables :: "string list list tables" where
  "demo_tables = \<lparr>tb_new = (\<lambda>cols. []), tb_SetRows = (\<lambda>rows t. rows), tb_SelectedRow = (\<lambda>t. if t = [] then None else Some (hd t)),
     tb_Cursor = (\<lambda>t. 0), tb_SetSize = (\<lambda>w h t. t), tb_Update = (\<lambda>msg t. t), tb_View = (\<lambda>t. [])\<rparr>"

definition demo_gloss :: gloss where
  "demo_gloss = \<lparr>lg_style = (\<lambda>st t. t), lg_width = (\<lambda>t. int (length t)), lg_height = (\<lambda>t. 3), lg_horizontal = concat, lg_vertical = concat,
     lg_header = (\<lambda>w t. t), lg_body = (\<lambda>w t. t), lg_maxWidth = (\<lambda>w t. t), lg_tabActive = (\<lambda>t. t), lg_tabIdle = (\<lambda>t. t),
     lg_modal = (\<lambda>t. t), lg_center = (\<lambda>w h t. t)\<rparr>"

definition demo_ui :: "(string \<times> bool, string list list) ui" where
  "demo_ui = \<lparr>ui_widgets = demo_widgets, ui_tables = demo_tables, ui_gloss = demo_gloss, ui_duration = (\<lambda>_. []), ui_rfc3339 = (\<lambda>_. [])\<rparr>"

lemma demo_ui_laws: "widget_laws (ui_widgets demo_ui)"
  by (simp add: demo_ui_def demo_widget_laws)

definition hook_alert :: Alert where
  "hook_alert = zero_Alert\<lparr>al_ID := ''h1'', al_Name := ''hook'', al_Type := AlertDiscord, al_DiscordWebhook := ''https://d''\<rparr>"

text \<open>The configuration arrives, the alerts tab is chosen, \<open>d\<close> asks; the answer is yes.\<close>

definition demo_asking :: "(gotime \<times> tea_msg) list" where
  "demo_asking = [(0, ConfigMsg (Inr ([], [], [hook_alert]))), (0, KeyMsg ''3''), (0, KeyMsg ''d'')]"

lemma demo_asked: "tm_modal (tui_run demo_ui demo_asking) = Some (ConfirmM (newConfirm (''Remove alert '' @ Quote ''hook'' @ ''?'') (RemoveAlert ''h1'' ''hook'')))"
  "tm_alerts (tui_run demo_ui demo_asking) = [hook_alert]"
  by (simp_all add: tui_run_def demo_asking_def tui_step_def tui_Update_def dispatch_msg_def initialModel_def on_config_def handleKey_def
      toAlertRows_def alerts_refresh_def hook_alert_def zero_Alert_def truncateText_def openRemoveConfirm_def removal_def tabPeers_def tabChecks_def
      tabAlerts_def demo_ui_def demo_tables_def Selected_def SelectedName_def open_modal_def installModal_def tag_defs Let_def)

theorem tui_invariant_witness:
  "\<exists>r. SelectedAlert demo_ui (tui_run demo_ui demo_asking) = Some r \<and>
     (\<exists>a. toggleSelectedDefault demo_ui 0 (tui_run demo_ui demo_asking) = (ToggleDefaultCmd a, tui_run demo_ui demo_asking) \<and> al_Default a)"
proof -
  note inv = tui_invariant [OF demo_ui_laws, of demo_asking]
  obtain r where r: "SelectedAlert demo_ui (tui_run demo_ui demo_asking) = Some r"
    using inv demo_asked(2) by (simp add: SelectedAlert_def toAlertRows_def demo_ui_def demo_tables_def)
  then obtain a where "a \<in> set (tm_alerts (tui_run demo_ui demo_asking))"
    "toggleSelectedDefault demo_ui 0 (tui_run demo_ui demo_asking) = (ToggleDefaultCmd (a\<lparr>al_Default := \<not> al_Default a\<rparr>), tui_run demo_ui demo_asking)"
    using inv by blast
  with r demo_asked(2) show ?thesis by (simp add: hook_alert_def zero_Alert_def)
qed

theorem removal_needs_consent_witness:
  "\<exists>c c'. tm_modal (tui_run demo_ui demo_asking) = Some (ConfirmM c) \<and> agrees c ''y'' \<and> cm_prompt c = prompt_of (RemoveAlert ''h1'' ''hook'') \<and>
     tm_modal (snd (tui_Update demo_ui 0 (KeyMsg ''y'') (tui_run demo_ui demo_asking))) = Some (ConfirmM c') \<and> cm_busy c'"
proof -
  have "RemoveAlert ''h1'' ''hook'' \<in> set (removals (fst (tui_Update demo_ui 0 (KeyMsg ''y'') (tui_run demo_ui demo_asking))))"
    using demo_asked(1) by (simp add: tui_Update_def dispatch_msg_def modal_Update_def confirm_Update_def commit_def newConfirm_def)
  from removal_needs_consent [OF demo_ui_laws this] show ?thesis by auto
qed

text \<open>The toggle replaces the check by itself with the switch flipped.\<close>

lemma toggle_replaces:
  assumes "ch \<in> set (cc_Checks c)" and "ck_ID ch \<noteq> []" and "ck_Name ch \<noteq> []" and "distinct (cc_Checks c)"
    and "\<forall>x \<in> set (cc_Checks c). x \<noteq> ch \<longrightarrow> ck_ID x \<noteq> ck_ID ch \<and> ck_Name x \<noteq> ck_Name ch"
  shows "apply_add_check (ch\<lparr>ck_Disabled := b\<rparr>) c = (None, c\<lparr>cc_Checks := map (\<lambda>x. if x = ch then ch\<lparr>ck_Disabled := b\<rparr> else x) (cc_Checks c)\<rparr>)"
proof -
  have "upsert (\<lambda>x. ck_ID x = ck_ID ch \<or> ck_Name x = ck_Name ch) (ch\<lparr>ck_Disabled := b\<rparr>) (cc_Checks c) =
      map (\<lambda>x. if x = ch then ch\<lparr>ck_Disabled := b\<rparr> else x) (cc_Checks c)"
    by (rule upsert_replace) (use assms in auto)
  with assms show ?thesis by (simp add: apply_add_check_def)
qed

text \<open>The switch of a check, from the key to the cluster. With the cursor on a check of the loaded
  configuration and no dialog open, \<open>x\<close> yields one command; run against a master with quorum whose
  disk works, it commits the next version of the configuration, in which exactly that check changed
  and in nothing but its switch, broadcasts it, and reports which way the switch went.\<close>

theorem toggle_commits:
  assumes ui: "tm_modal m = None" "tm_active m = tabChecks" "Selected (ui_tables U) (tm_checks m) = ck_ID ch"
      "find (\<lambda>c. ck_ID c = ck_ID ch) (tm_checksFull m) = Some ch"
    and call: "cv_call R = tui_callDaemon C None None None sock (control_service D T J co)"
    and current: "ch \<in> set (cc_Checks (cs_cfg (d_cfg d)))"
    and named: "ck_ID ch \<noteq> []" "ck_Name ch \<noteq> []" and dist: "distinct (cc_Checks (cs_cfg (d_cfg d)))"
    and unique: "\<forall>x \<in> set (cc_Checks (cs_cfg (d_cfg d))). x \<noteq> ch \<longrightarrow> ck_ID x \<noteq> ck_ID ch \<and> ck_Name x \<noteq> ck_Name ch"
    and json: "qe_Check (cv_json R) (ch\<lparr>ck_Disabled := \<not> ck_Disabled ch\<rparr>) = Inr p" "js_Check (dv_json D) p = Inr (ch\<lparr>ck_Disabled := \<not> ck_Disabled ch\<rparr>)"
    and wire: "carries C J (cv_json R) \<lparr>mb_Kind = MutationAddCheck, mb_Payload = p\<rparr> (cc_Version (cs_cfg (d_cfg d)) + 1)"
    and master: "IsMaster (d_quorum d)" and quorum: "HasQuorum (mu_now (co_mut co)) (cs_cfg (d_cfg d)) (d_quorum d)"
    and disk: "ce_write (mu_call (co_mut co)) = io_good" "\<And>c. \<exists>bytes. yaml_Marshal (dv_yaml D) c = Inr bytes"
  shows "\<exists>cmd d'. tui_Update U now (KeyMsg ''x'') m = (cmd, m) \<and>
     perform R cmd (d, []) =
       (Some (ModalDone (''check '' @ ck_Name ch @ '' '' @ (if ck_Disabled ch then ''enabled'' else ''disabled'')) flashInfo),
        d', sent_effect (broadcast (self_of d) (d_cfg d'))) \<and>
     cs_cfg (d_cfg d') = bump (mu_call (co_mut co)) (self_of d)
       ((cs_cfg (d_cfg d))\<lparr>cc_Checks := map (\<lambda>x. if x = ch then ch\<lparr>ck_Disabled := \<not> ck_Disabled ch\<rparr> else x) (cc_Checks (cs_cfg (d_cfg d)))\<rparr>)"
proof -
  let ?ch = "ch\<lparr>ck_Disabled := \<not> ck_Disabled ch\<rparr>" and ?c = "cs_cfg (d_cfg d)"
  let ?c' = "?c\<lparr>cc_Checks := map (\<lambda>x. if x = ch then ?ch else x) (cc_Checks ?c)\<rparr>"
  have cmd: "tui_Update U now (KeyMsg ''x'') m = (ToggleCheckCmd ?ch, m)"
    using ui named by (simp add: tui_Update_def dispatch_msg_def handleKey_def toggleSelectedCheckEnabled_def tabAlerts_def tabChecks_def)
  have app: "apply_mutation (dv_json D) MutationAddCheck p ?c = (None, ?c')"
    using json toggle_replaces [OF current named dist unique] by (simp add: apply_mutation_def decode_def)
  obtain bytes where "yaml_Marshal (dv_yaml D) (bump (mu_call (co_mut co)) (self_of d) ?c') = Inr bytes" using disk(2) by blast
  from submit_commits [OF wire master quorum disk(1) this app, where sock = sock and T = T] obtain d' where
    "submit (cv_json R) (cv_call R) MutationAddCheck p (d, []) =
       (Inr (cc_Version ?c + 1), d', sent_effect (broadcast (self_of d) (d_cfg d')))"
    and "cs_cfg (d_cfg d') = bump (mu_call (co_mut co)) (self_of d) ?c'"
    by (auto simp: call tui_callDaemon)
  then show ?thesis
    using cmd json by (simp add: perform_def Let_def run_toggle_check_def done_answer_def mutateAdd_def submit_marshalled_def)
qed

text \<open>The master of \<open>check_edit_commits_witness\<close>, and a screen with the check under the cursor.\<close>

definition flipped :: Check where
  "flipped = cli_check\<lparr>ck_Disabled := \<not> ck_Disabled cli_check\<rparr>"

definition flip_denv :: daemon_env where
  "flip_denv = rem_denv\<lparr>dv_json := demo_json\<lparr>js_Check := (\<lambda>_. Inr flipped)\<rparr>\<rparr>"

definition flip_cli :: "token_json \<Rightarrow> control_env \<Rightarrow> (daemon \<times> effect list) cli_env" where
  "flip_cli T co = (run_cli T co)\<lparr>cv_call := tui_callDaemon run_client None None None ''qu.sock'' (control_service flip_denv T run_json (rem_env co))\<rparr>"

definition flip_screen :: "(string \<times> bool, string list list) tui" where
  "flip_screen = (initialModel demo_ui)\<lparr>tm_active := tabChecks, tm_checksFull := [demo_chk ''c0'' ''dns'', cli_check], tm_checks := [[ck_ID cli_check]]\<rparr>"

lemma flip_simps: "js_Check (dv_json flip_denv) s = Inr flipped" "yaml_Marshal (dv_yaml flip_denv) c = Inr ''yaml''"
  using run_simps by (simp_all add: flip_denv_def run_denv_def)

theorem toggle_commits_witness:
  "\<forall>T co. \<exists>cmd d'. tui_Update demo_ui 0 (KeyMsg ''x'') flip_screen = (cmd, flip_screen) \<and>
     fst (perform (flip_cli T co) cmd (run_daemon, [])) = Some (ModalDone ''check web disabled'' flashInfo) \<and>
     cc_Checks (cs_cfg (d_cfg d')) = [demo_chk ''c0'' ''dns'', flipped] \<and>
     snd (perform (flip_cli T co) cmd (run_daemon, [])) = (d', sent_effect (broadcast ''a'' (d_cfg d')))"
proof (intro allI)
  fix T co
  have ids: "ck_ID cli_check = ''c1''" "ck_Name cli_check = ''web''" "\<not> ck_Disabled cli_check"
    "ck_ID (demo_chk ''c0'' ''dns'') = ''c0''" "ck_Name (demo_chk ''c0'' ''dns'') = ''dns''"
    by (simp_all add: cli_check_def demo_chk_def zero_Check_def)
  have q: "HasQuorum (mu_now (co_mut (rem_env co))) (cs_cfg (d_cfg run_daemon)) (d_quorum run_daemon)"
    by (simp add: run_daemon_def demo_cluster_def enr_quorum)
  have w: "carries run_client run_json (cv_json (flip_cli T co)) \<lparr>mb_Kind = MutationAddCheck, mb_Payload = ''p''\<rparr>
      (cc_Version (cs_cfg (d_cfg run_daemon)) + 1)"
    using run_carries by (simp add: flip_cli_def run_cli_def)
  have "\<exists>cmd d'. tui_Update demo_ui 0 (KeyMsg ''x'') flip_screen = (cmd, flip_screen) \<and>
     perform (flip_cli T co) cmd (run_daemon, []) =
       (Some (ModalDone (''check '' @ ck_Name cli_check @ '' '' @ (if ck_Disabled cli_check then ''enabled'' else ''disabled'')) flashInfo),
        d', sent_effect (broadcast (self_of run_daemon) (d_cfg d'))) \<and>
     cs_cfg (d_cfg d') = bump (mu_call (co_mut (rem_env co))) (self_of run_daemon)
       ((cs_cfg (d_cfg run_daemon))\<lparr>cc_Checks := map (\<lambda>x. if x = cli_check then cli_check\<lparr>ck_Disabled := \<not> ck_Disabled cli_check\<rparr> else x)
          (cc_Checks (cs_cfg (d_cfg run_daemon)))\<rparr>)"
    by (rule toggle_commits [OF _ _ _ _ _ _ _ _ _ _ _ _ w, where D = flip_denv and sock = "''qu.sock''" and T = T])
      (use run_other ids q in \<open>simp_all add: flip_screen_def initialModel_def demo_ui_def demo_tables_def Selected_def flip_cli_def run_cli_def
        run_codec_def flip_simps flipped_def demo_call_def\<close>)
  with run_other ids show "\<exists>cmd d'. tui_Update demo_ui 0 (KeyMsg ''x'') flip_screen = (cmd, flip_screen) \<and>
     fst (perform (flip_cli T co) cmd (run_daemon, [])) = Some (ModalDone ''check web disabled'' flashInfo) \<and>
     cc_Checks (cs_cfg (d_cfg d')) = [demo_chk ''c0'' ''dns'', flipped] \<and>
     snd (perform (flip_cli T co) cmd (run_daemon, [])) = (d', sent_effect (broadcast ''a'' (d_cfg d')))"
    by (auto simp: flipped_def bump.simps)
qed

section \<open>Consequences of running commands in the background\<close>

text \<open>An answer closes whatever dialog is open when it comes, also one opened after the dialog it answers
  was left with escape; the input typed there is lost.\<close>

lemma late_answer_closes: "tm_modal (snd (tui_Update U now (ModalDone t level) m)) = None"
  by (simp add: tui_Update_def Let_def setFlash_def)

text \<open>A refusal that comes when its dialog has been left is shown nowhere: it goes to the active table.\<close>

lemma late_refusal_unseen:
  "tm_modal m = None \<Longrightarrow> tui_Update U now (FormSubmitErr e) m = forwardToActiveTab U (FormSubmitErr e) m \<and>
     tm_flash (snd (tui_Update U now (FormSubmitErr e) m)) = tm_flash m"
  by (simp add: tui_Update_def dispatch_msg_def forwardToActiveTab_def Let_def)

text \<open>The picker of test transitions stays open while the daemon works, and each enter fires again.\<close>

lemma test_picker_stays:
  "tui_Update U now (KeyMsg ''enter'') (m\<lparr>tm_modal := Some (PickerM (test_picker ident nm))\<rparr>) =
     (TestCheckCmd ident ''down'' ''DOWN'' nm, m\<lparr>tm_modal := Some (PickerM (test_picker ident nm))\<rparr>)"
  by (simp add: tui_Update_def dispatch_msg_def modal_Update_def picker_Update_def test_picker_def newPicker_def fire_option_def)

text \<open>A text is cut by bytes, also inside a character.\<close>

lemma truncate_cuts_character: "truncateText [CHR ''a'', CHR 0xC3, CHR 0xA9, CHR ''b'', CHR ''c'', CHR ''d''] 3 = [CHR ''a'', CHR 0xC3, CHR 0xA9]
  \<and> truncateText [CHR ''a'', CHR ''a'', CHR ''a'', CHR 0xC3, CHR 0xA9, CHR ''b''] 5 = [CHR ''a'', CHR ''a'', CHR ''a'', CHR 0xC3] @ ellipsis"
  by (simp add: truncateText_def)

end
