(* ===== verification/Update.thy ===== *)
theory Update
  imports Paths Crypto
begin

text \<open>
  \<open>internal/cli/update.go\<close>: \<open>qu update\<close> downloads a release, checks it against the published
  SHA-256 sums and replaces its own binary. The network, the JSON decoding of the release pages and
  the outcomes of the system calls are parameters; files are the \<open>fs\<close> of \<open>Paths\<close>.
\<close>

section \<open>Strings\<close>

text \<open>\<open>strings.Fields\<close> and \<open>strings.TrimRight(s, c)\<close>; \<open>strings.EqualFold\<close> on ASCII.\<close>

fun fields_from :: "string \<Rightarrow> string \<Rightarrow> string list" where
  "fields_from word [] = (if word = [] then [] else [word])"
| "fields_from word (c # cs) =
     (if is_space c then (if word = [] then fields_from [] cs else word # fields_from [] cs)
      else fields_from (word @ [c]) cs)"

definition Fields :: "string \<Rightarrow> string list" where
  "Fields s = fields_from [] s"

definition TrimRight :: "char \<Rightarrow> string \<Rightarrow> string" where
  "TrimRight c s = rev (dropWhile (\<lambda>x. x = c) (rev s))"

definition EqualFold :: "string \<Rightarrow> string \<Rightarrow> bool" where
  "EqualFold a b \<longleftrightarrow> ToLower a = ToLower b"

text \<open>\<open>filepath.Dir\<close>.\<close>

definition path_Dir :: "string \<Rightarrow> string" where
  "path_Dir p = path_Clean (case last_index_of (CHR ''/'') p of None \<Rightarrow> [] | Some i \<Rightarrow> take (Suc i) p)"

section \<open>Sources\<close>

record releaseSource =
  rl_name :: string
  rl_apiLatest :: string
  rl_apiBeta :: string
  rl_releaseBase :: string

definition updateSources :: "releaseSource list" where
  "updateSources =
     [\<lparr>rl_name = ''gitea'',
       rl_apiLatest = ''https://git.jas.pe/api/v1/repos/vrepsaj/quptime/releases/latest'',
       rl_apiBeta = ''https://git.jas.pe/api/v1/repos/vrepsaj/quptime/releases'',
       rl_releaseBase = ''https://git.jas.pe/vrepsaj/quptime/releases/download''\<rparr>,
      \<lparr>rl_name = ''github'',
       rl_apiLatest = ''https://api.github.com/repos/vrepsaj/QUptime/releases/latest'',
       rl_apiBeta = ''https://api.github.com/repos/vrepsaj/QUptime/releases'',
       rl_releaseBase = ''https://github.com/vrepsaj/QUptime/releases/download''\<rparr>]"

definition updateArch :: "string \<Rightarrow> err + string" where
  "updateArch goarch =
     (if goarch = ''amd64'' then Inr ''amd64''
      else if goarch = ''arm64'' then Inr ''arm64''
      else Inl (ErrMsg (''unsupported architecture '' @ goarch @ '' '' @ emdash @
              '' pre-built binaries are published for amd64 and arm64 only; build from source'')))"

definition pickSources :: "string \<Rightarrow> err + releaseSource list" where
  "pickSources name =
     (if name = [] then Inr updateSources
      else case List.find (\<lambda>s. EqualFold (rl_name s) name) updateSources of
        Some s \<Rightarrow> Inr [s]
      | None \<Rightarrow> Inl (ErrMsg (''unknown source '' @ Quote name @ '' (valid: '' @ Join (map rl_name updateSources) '', '' @ '')'')))"

text \<open>\<open>sameVersion\<close>.\<close>

definition sameVersion :: "string \<Rightarrow> string \<Rightarrow> bool" where
  "sameVersion current tag =
     (if current = [] \<or> current = ''dev'' then False else TrimPrefix current ''v'' = TrimPrefix tag ''v'')"

section \<open>Fetching\<close>

text \<open>A reply: the status code, the bytes of the body, and the error that ends the body early, if any.\<close>

record http_reply =
  hy_status :: nat
  hy_body :: string
  hy_read_err :: "err option"

definition http_limit :: nat where "http_limit = 64 * 1024 * 1024"

definition httpGet :: "(string \<Rightarrow> err + http_reply) \<Rightarrow> string \<Rightarrow> err + string" where
  "httpGet net url =
     (case net url of
        Inl e \<Rightarrow> Inl e
      | Inr resp \<Rightarrow>
         (if hy_status resp div 100 \<noteq> 2 then Inl (ErrMsg (''GET '' @ url @ '': HTTP '' @ Itoa (int (hy_status resp))))
          else if length (hy_body resp) \<ge> http_limit then Inr (take http_limit (hy_body resp))
          else (case hy_read_err resp of Some e \<Rightarrow> Inl e | None \<Rightarrow> Inr (hy_body resp))))"

record release_json =
  ru_urls :: "string \<Rightarrow> err + string list"
  ru_tag :: "string \<Rightarrow> err + string"

definition resolveFirstReleaseURL :: "release_json \<Rightarrow> (string \<Rightarrow> err + http_reply) \<Rightarrow> string \<Rightarrow> err + string" where
  "resolveFirstReleaseURL J net api =
     (case httpGet net api of
        Inl e \<Rightarrow> Inl e
      | Inr body \<Rightarrow>
         (case ru_urls J body of
            Inl e \<Rightarrow> Inl (ErrWrap ''parse releases JSON'' e)
          | Inr [] \<Rightarrow> Inl (ErrMsg ''no releases found'')
          | Inr (u # us) \<Rightarrow> (if u = [] then Inl (ErrMsg ''first release missing url'') else Inr u)))"

definition fetchTag :: "release_json \<Rightarrow> (string \<Rightarrow> err + http_reply) \<Rightarrow> string \<Rightarrow> err + string" where
  "fetchTag J net api =
     (case httpGet net api of
        Inl e \<Rightarrow> Inl e
      | Inr body \<Rightarrow>
         (case ru_tag J body of
            Inl e \<Rightarrow> Inl (ErrWrap ''parse release JSON'' e)
          | Inr tag \<Rightarrow> (if tag = [] then Inl (ErrMsg ''empty tag_name in release response'') else Inr tag)))"

text \<open>One turn of the loop of \<open>fetchLatestRelease\<close>, and the loop with its \<open>lastErr\<close>.\<close>

definition source_tag :: "release_json \<Rightarrow> (string \<Rightarrow> err + http_reply) \<Rightarrow> bool \<Rightarrow> releaseSource \<Rightarrow> err + string" where
  "source_tag J net beta s =
     (case (if beta then resolveFirstReleaseURL J net (rl_apiBeta s) else Inr (rl_apiLatest s)) of
        Inl e \<Rightarrow> Inl (ErrWrap (rl_name s) e)
      | Inr api \<Rightarrow> (case fetchTag J net api of Inl e \<Rightarrow> Inl (ErrWrap (rl_name s) e) | Inr tag \<Rightarrow> Inr tag))"

fun fetch_from :: "release_json \<Rightarrow> (string \<Rightarrow> err + http_reply) \<Rightarrow> bool \<Rightarrow> err option \<Rightarrow> releaseSource list \<Rightarrow>
    err + string \<times> releaseSource" where
  "fetch_from J net beta lastErr [] =
     Inl (ErrWrap ''no release source reachable'' (case lastErr of None \<Rightarrow> ErrMsg ''no sources configured'' | Some e \<Rightarrow> e))"
| "fetch_from J net beta lastErr (s # ss) =
     (case source_tag J net beta s of Inl e \<Rightarrow> fetch_from J net beta (Some e) ss | Inr tag \<Rightarrow> Inr (tag, s))"

definition fetchLatestRelease :: "release_json \<Rightarrow> (string \<Rightarrow> err + http_reply) \<Rightarrow> releaseSource list \<Rightarrow> bool \<Rightarrow> err + string \<times> releaseSource" where
  "fetchLatestRelease J net sources beta = fetch_from J net beta None sources"

section \<open>Checksums\<close>

fun find_sum :: "string \<Rightarrow> string list \<Rightarrow> string option" where
  "find_sum filename [] = None"
| "find_sum filename (l # ls) =
     (case Fields (TrimSpace l) of
        [h, entry] \<Rightarrow> (if TrimPrefix entry ''*'' = filename then Some (ToLower h) else find_sum filename ls)
      | _ \<Rightarrow> find_sum filename ls)"

definition expectedSum :: "string \<Rightarrow> string \<Rightarrow> err + string" where
  "expectedSum listing filename =
     (case find_sum filename (Split (CHR 0x0A) listing) of
        Some h \<Rightarrow> Inr h
      | None \<Rightarrow> Inl (ErrMsg (''no SHA256SUMS entry for '' @ filename)))"

section \<open>Replacing the binary\<close>

text \<open>\<open>assertCanReplace\<close>: the directory's \<open>Stat\<close> (an error, or whether it is a directory) and the
  probe file (an error and whether it is a permission error, or whether removing it worked).\<close>

record probe_env =
  pv_stat :: "err + bool"
  pv_probe :: "(err \<times> bool) + bool"
  pv_path :: string

definition assertCanReplace :: "probe_env \<Rightarrow> string \<Rightarrow> fs \<Rightarrow> err option \<times> fs" where
  "assertCanReplace pv exe f =
     (let dir = path_Dir exe in
      case pv_stat pv of
        Inl e \<Rightarrow> (Some (ErrWrap (''stat '' @ dir) e), f)
      | Inr isdir \<Rightarrow>
         (if \<not> isdir then (Some (ErrMsg (dir @ '' is not a directory'')), f)
          else (case pv_probe pv of
                  Inl (e, denied) \<Rightarrow>
                    (Some (if denied then ErrMsg (''cannot write to '' @ dir @ '' '' @ emdash @ '' re-run as the user that owns '' @ exe @ '' (try sudo)'')
                          else ErrWrap (''probe write access on '' @ dir) e), f)
                | Inr removed \<Rightarrow> (None, if removed then f else f(pv_path pv \<mapsto> \<lparr>f_data = [], f_perm = 384\<rparr>)))))"

record install_env =
  iv_create :: "err option"
  iv_tmp :: string
  iv_torn :: string
  iv_write :: "err option"
  iv_sync :: "err option"
  iv_close :: "err option"
  iv_chmod :: "err option"
  iv_rename :: "err option"
  iv_remove_ok :: bool

definition cleanup :: "install_env \<Rightarrow> fs \<Rightarrow> fs" where
  "cleanup iv f = (if iv_remove_ok iv then f(iv_tmp iv := None) else f)"

definition replaceBinary :: "install_env \<Rightarrow> string \<Rightarrow> string \<Rightarrow> fs \<Rightarrow> err option \<times> fs" where
  "replaceBinary iv exe payload f =
     (case iv_create iv of Some e \<Rightarrow> (Some (ErrWrap (''create temp file in '' @ path_Dir exe) e), f) | None \<Rightarrow>
      (case iv_write iv of
         Some e \<Rightarrow> (Some (ErrWrap ''write temp binary'' e), cleanup iv (f(iv_tmp iv \<mapsto> \<lparr>f_data = iv_torn iv, f_perm = 384\<rparr>)))
       | None \<Rightarrow>
      (let f1 = f(iv_tmp iv \<mapsto> \<lparr>f_data = payload, f_perm = 384\<rparr>) in
       case iv_sync iv of Some e \<Rightarrow> (Some (ErrWrap ''fsync temp binary'' e), cleanup iv f1) | None \<Rightarrow>
      (case iv_close iv of Some e \<Rightarrow> (Some (ErrWrap ''close temp binary'' e), cleanup iv f1) | None \<Rightarrow>
      (case iv_chmod iv of Some e \<Rightarrow> (Some (ErrWrap ''chmod temp binary'' e), cleanup iv f1) | None \<Rightarrow>
      (let f2 = f(iv_tmp iv \<mapsto> \<lparr>f_data = payload, f_perm = 493\<rparr>) in
       case iv_rename iv of
         Some e \<Rightarrow> (Some (ErrWrap (''rename '' @ iv_tmp iv @ '' -> '' @ exe) e), cleanup iv f2)
       | None \<Rightarrow> (None, f2(iv_tmp iv := None, exe \<mapsto> \<lparr>f_data = payload, f_perm = 493\<rparr>))))))))"

text \<open>\<open>resolveSelf\<close>: the results of \<open>os.Executable\<close>, \<open>filepath.EvalSymlinks\<close> and \<open>filepath.Abs\<close>.\<close>

definition resolveSelf :: "(err + string) \<Rightarrow> (string \<Rightarrow> err + string) \<Rightarrow> (string \<Rightarrow> err + string) \<Rightarrow> err + string" where
  "resolveSelf executable eval_symlinks abs_path =
     (case executable of
        Inl e \<Rightarrow> Inl (ErrWrap ''locate self'' e)
      | Inr exe \<Rightarrow>
         (case eval_symlinks exe of
            Inl e \<Rightarrow> Inl (ErrWrap (''resolve symlinks for '' @ exe) e)
          | Inr resolved \<Rightarrow>
             (case abs_path resolved of
                Inl e \<Rightarrow> Inl (ErrWrap (''absolute path for '' @ resolved) e)
              | Inr p \<Rightarrow> Inr p)))"

section \<open>runUpdate\<close>

record updateOptions =
  uo_beta :: bool
  uo_checkOnly :: bool
  uo_force :: bool
  uo_source :: string

record update_env =
  up_goos :: string
  up_goarch :: string
  up_version :: string
  up_json :: release_json
  up_net :: "string \<Rightarrow> err + http_reply"
  up_sha256 :: "string \<Rightarrow> string"
  up_executable :: "err + string"
  up_symlinks :: "string \<Rightarrow> err + string"
  up_abs :: "string \<Rightarrow> err + string"
  up_probe :: probe_env
  up_install :: install_env

datatype update_outcome = UpToDate | Available string | Installed string string

definition binary_name :: "string \<Rightarrow> string \<Rightarrow> string" where
  "binary_name tag arch = ''qu-'' @ tag @ ''-linux-'' @ arch"

definition release_url :: "releaseSource \<Rightarrow> string \<Rightarrow> string \<Rightarrow> string" where
  "release_url src tag entry = TrimRight (CHR ''/'') (rl_releaseBase src) @ ''/'' @ tag @ ''/'' @ entry"

text \<open>The download and the comparison of the checksums: the bytes to install.\<close>

definition verified_download :: "update_env \<Rightarrow> releaseSource \<Rightarrow> string \<Rightarrow> string \<Rightarrow> err + string" where
  "verified_download U src tag arch =
     (let binaryName = binary_name tag arch in
      case httpGet (up_net U) (release_url src tag binaryName) of
        Inl e \<Rightarrow> Inl (ErrWrap ''download binary'' e)
      | Inr binBytes \<Rightarrow>
         (case httpGet (up_net U) (release_url src tag ''SHA256SUMS'') of
            Inl e \<Rightarrow> Inl (ErrWrap ''download SHA256SUMS'' e)
          | Inr sumsBytes \<Rightarrow>
             (case expectedSum sumsBytes binaryName of
                Inl e \<Rightarrow> Inl e
              | Inr want \<Rightarrow>
                 (if hex_EncodeToString (up_sha256 U binBytes) \<noteq> want then
                    Inl (ErrMsg (''checksum mismatch for '' @ binaryName @ '' '' @ emdash @ '' refusing to install''))
                  else Inr binBytes))))"

definition runUpdate :: "update_env \<Rightarrow> updateOptions \<Rightarrow> fs \<Rightarrow> (err + update_outcome) \<times> fs" where
  "runUpdate U opts f =
     (if up_goos U \<noteq> ''linux'' then (Inl (ErrMsg (''qu update only supports linux; got '' @ up_goos U)), f)
      else case updateArch (up_goarch U) of Inl e \<Rightarrow> (Inl e, f) | Inr arch \<Rightarrow>
      (case pickSources (uo_source opts) of Inl e \<Rightarrow> (Inl e, f) | Inr sources \<Rightarrow>
      (let current = (if up_version U = [] then ''dev'' else up_version U) in
       case fetchLatestRelease (up_json U) (up_net U) sources (uo_beta opts) of Inl e \<Rightarrow> (Inl e, f) | Inr (tag, src) \<Rightarrow>
      (if \<not> uo_force opts \<and> sameVersion current tag then (Inr UpToDate, f)
       else if uo_checkOnly opts then (Inr (Available tag), f)
       else case resolveSelf (up_executable U) (up_symlinks U) (up_abs U) of Inl e \<Rightarrow> (Inl e, f) | Inr exe \<Rightarrow>
      (case assertCanReplace (up_probe U) exe f of (Some e, f1) \<Rightarrow> (Inl e, f1) | (None, f1) \<Rightarrow>
      (case verified_download U src tag arch of Inl e \<Rightarrow> (Inl e, f1) | Inr binBytes \<Rightarrow>
      (case replaceBinary (up_install U) exe binBytes f1 of
         (Some e, f2) \<Rightarrow> (Inl e, f2)
       | (None, f2) \<Rightarrow> (Inr (Installed tag exe), f2))))))))"

section \<open>Lemmas\<close>

lemma fetch_from_ok:
  "fetch_from J net beta le ss = Inr (tag, s) \<longleftrightarrow>
     List.find (\<lambda>x. \<not> isl (source_tag J net beta x)) ss = Some s \<and> source_tag J net beta s = Inr tag"
  by (induction ss arbitrary: le) (auto split: sum.split)

lemma replaceBinary_ok:
  "replaceBinary iv exe payload f = (None, f') \<Longrightarrow> f' = f(iv_tmp iv := None, exe \<mapsto> \<lparr>f_data = payload, f_perm = 493\<rparr>)"
  by (auto simp: replaceBinary_def Let_def split: option.splits)

lemma replaceBinary_err:
  "replaceBinary iv exe payload f = (Some e, f') \<Longrightarrow> p \<noteq> iv_tmp iv \<Longrightarrow> f' p = f p"
  by (auto simp: replaceBinary_def cleanup_def Let_def split: option.splits)

lemma replaceBinary_tmp:
  "replaceBinary iv exe payload f = (r, f') \<Longrightarrow> iv_remove_ok iv \<Longrightarrow> f (iv_tmp iv) = None \<Longrightarrow> iv_tmp iv \<noteq> exe \<Longrightarrow> f' (iv_tmp iv) = None"
  by (auto simp: replaceBinary_def cleanup_def Let_def split: option.splits)

lemma assertCanReplace_frame:
  "assertCanReplace pv exe f = (r, f') \<Longrightarrow> p \<noteq> pv_path pv \<Longrightarrow> f' p = f p"
  by (auto simp: assertCanReplace_def Let_def split: sum.splits if_splits)

lemma find_sum_listed:
  "find_sum n ls = Some h \<Longrightarrow> \<exists>l \<in> set ls. \<exists>x entry. Fields (TrimSpace l) = [x, entry] \<and> TrimPrefix entry ''*'' = n \<and> h = ToLower x"
  by (induction ls) (auto split: list.splits if_splits)

text \<open>The release page of \<open>src\<close> serves \<open>b\<close> as the binary of \<open>tag\<close>, and its list of sums has a line with
  the binary's name and the digest of \<open>b\<close>.\<close>

definition published :: "update_env \<Rightarrow> releaseSource \<Rightarrow> string \<Rightarrow> string \<Rightarrow> string \<Rightarrow> bool" where
  "published U src tag arch b \<longleftrightarrow>
     httpGet (up_net U) (release_url src tag (binary_name tag arch)) = Inr b \<and>
     (case httpGet (up_net U) (release_url src tag ''SHA256SUMS'') of
        Inl e \<Rightarrow> False
      | Inr listing \<Rightarrow> list_ex (\<lambda>l. case Fields (TrimSpace l) of
            [x, entry] \<Rightarrow> TrimPrefix entry ''*'' = binary_name tag arch \<and> hex_EncodeToString (up_sha256 U b) = ToLower x
          | _ \<Rightarrow> False) (Split (CHR 0x0A) listing))"

lemma verified_download_ok:
  assumes "verified_download U src tag arch = Inr b"
  shows "published U src tag arch b"
proof -
  obtain listing want where "httpGet (up_net U) (release_url src tag (binary_name tag arch)) = Inr b"
    and "httpGet (up_net U) (release_url src tag ''SHA256SUMS'') = Inr listing"
    and want: "expectedSum listing (binary_name tag arch) = Inr want" and "hex_EncodeToString (up_sha256 U b) = want"
    using assms by (auto simp: verified_download_def Let_def split: sum.splits if_splits)
  moreover have "find_sum (binary_name tag arch) (Split (CHR 0x0A) listing) = Some want"
    using want by (auto simp: expectedSum_def split: option.splits)
  then obtain l x entry where "l \<in> set (Split (CHR 0x0A) listing)" "Fields (TrimSpace l) = [x, entry]"
    "TrimPrefix entry ''*'' = binary_name tag arch" "want = ToLower x"
    using find_sum_listed by blast
  ultimately show ?thesis by (simp add: published_def list_ex_iff) (rule bexI [of _ l], simp_all)
qed

lemma runUpdate_installed:
  assumes "runUpdate U opts f = (Inr (Installed tag exe), f')"
  obtains src sources arch f1 b where "fetchLatestRelease (up_json U) (up_net U) sources (uo_beta opts) = Inr (tag, src)"
    and "pickSources (uo_source opts) = Inr sources" and "assertCanReplace (up_probe U) exe f = (None, f1)"
    and "verified_download U src tag arch = Inr b" and "replaceBinary (up_install U) exe b f1 = (None, f')"
    and "updateArch (up_goarch U) = Inr arch" and "\<not> uo_checkOnly opts"
  using assms by (auto simp: runUpdate_def Let_def split: if_splits sum.splits prod.splits option.splits)

lemma runUpdate_not_installed:
  assumes "runUpdate U opts f = (r, f')" and "\<forall>tag exe. r \<noteq> Inr (Installed tag exe)"
    and "p \<noteq> iv_tmp (up_install U)" and "p \<noteq> pv_path (up_probe U)"
  shows "f' p = f p"
  using assms assertCanReplace_frame replaceBinary_err
  by (fastforce simp: runUpdate_def Let_def split: if_splits sum.splits prod.splits option.splits)

lemma pickSources_subset: "pickSources n = Inr ss \<Longrightarrow> set ss \<subseteq> set updateSources"
  by (auto simp: pickSources_def dest!: find_Some_iff_first split: if_splits option.splits)

section \<open>Properties\<close>

text \<open>C21. \<open>qu update\<close> installs only what it has verified. If it reports an installation, the binary's
  path holds, with mode 0755, exactly the bytes downloaded from the release of the first source (in
  the built-in order) that names a tag, and the \<open>SHA256SUMS\<close> file of that release lists their digest
  under the name of this architecture's binary. In every other outcome (any failure at any step, up to
  date, check only) the binary is what it was. No file other than the binary changes, apart from the
  two temporary names.\<close>

theorem update_installs_verified:
  assumes run: "runUpdate U opts f = (r, f')" and fresh: "f (iv_tmp (up_install U)) = None" "f (pv_path (up_probe U)) = None"
    and names: "pv_path (up_probe U) \<noteq> iv_tmp (up_install U)"
  shows "(case r of
       Inr (Installed tag exe) \<Rightarrow> iv_tmp (up_install U) \<noteq> exe \<longrightarrow>
         (\<exists>src b arch. f' exe = Some \<lparr>f_data = b, f_perm = 493\<rparr> \<and> src \<in> set updateSources \<and>
            source_tag (up_json U) (up_net U) (uo_beta opts) src = Inr tag \<and> updateArch (up_goarch U) = Inr arch \<and>
            published U src tag arch b) \<and>
         (\<forall>p. p \<noteq> exe \<and> p \<noteq> pv_path (up_probe U) \<longrightarrow> f' p = f p)
     | _ \<Rightarrow> (\<forall>p. p \<noteq> iv_tmp (up_install U) \<and> p \<noteq> pv_path (up_probe U) \<longrightarrow> f' p = f p))"
proof (cases "\<exists>tag exe. r = Inr (Installed tag exe)")
  case False
  then have "f' p = f p" if "p \<noteq> iv_tmp (up_install U)" "p \<noteq> pv_path (up_probe U)" for p
    using runUpdate_not_installed [OF run _ that] by simp
  with False show ?thesis by (cases r) (auto split: update_outcome.split)
next
  case True
  then obtain tag exe where r: "r = Inr (Installed tag exe)" by blast
  obtain src sources arch f1 b where fetch: "fetchLatestRelease (up_json U) (up_net U) sources (uo_beta opts) = Inr (tag, src)"
    and pick: "pickSources (uo_source opts) = Inr sources" and probe: "assertCanReplace (up_probe U) exe f = (None, f1)"
    and dl: "verified_download U src tag arch = Inr b" and inst: "replaceBinary (up_install U) exe b f1 = (None, f')"
    and arch: "updateArch (up_goarch U) = Inr arch"
    using run unfolding r by (rule runUpdate_installed)
  have src: "src \<in> set updateSources" "source_tag (up_json U) (up_net U) (uo_beta opts) src = Inr tag"
    using fetch pickSources_subset [OF pick] by (auto simp: fetchLatestRelease_def fetch_from_ok dest!: find_Some_iff_first)
  have files: "f' p = f p" if "p \<noteq> exe" "p \<noteq> pv_path (up_probe U)" for p
    using replaceBinary_ok [OF inst] assertCanReplace_frame [OF probe, of p] fresh names that
      assertCanReplace_frame [OF probe, of "iv_tmp (up_install U)"] by auto
  have "iv_tmp (up_install U) \<noteq> exe \<Longrightarrow> f' exe = Some \<lparr>f_data = b, f_perm = 493\<rparr>"
    using replaceBinary_ok [OF inst] by simp
  then show ?thesis unfolding r using verified_download_ok [OF dl] src arch files by auto
qed

text \<open>A run that finds the first source down and installs from the second.\<close>

definition up_demo_net :: "string \<Rightarrow> err + http_reply" where
  "up_demo_net url =
     (if url = ''https://api.github.com/repos/vrepsaj/QUptime/releases/latest'' then Inr \<lparr>hy_status = 200, hy_body = ''v2'', hy_read_err = None\<rparr>
      else if url = ''https://github.com/vrepsaj/QUptime/releases/download/v2/qu-v2-linux-amd64'' then Inr \<lparr>hy_status = 200, hy_body = ''B'', hy_read_err = None\<rparr>
      else if url = ''https://github.com/vrepsaj/QUptime/releases/download/v2/SHA256SUMS'' then
        Inr \<lparr>hy_status = 200, hy_body = ''00  qu-v2-linux-arm64'' @ [CHR 0x0A] @ ''42 *qu-v2-linux-amd64'' @ [CHR 0x0A], hy_read_err = None\<rparr>
      else Inl (ErrLib ''connection refused''))"

definition up_demo :: update_env where
  "up_demo = \<lparr>up_goos = ''linux'', up_goarch = ''amd64'', up_version = ''v1'',
     up_json = \<lparr>ru_urls = (\<lambda>_. Inl (ErrLib ''json'')), ru_tag = Inr\<rparr>, up_net = up_demo_net, up_sha256 = (\<lambda>s. s),
     up_executable = Inr ''/usr/bin/qu'', up_symlinks = Inr, up_abs = Inr,
     up_probe = \<lparr>pv_stat = Inr True, pv_probe = Inr True, pv_path = ''/usr/bin/.qu-update-probe-1''\<rparr>,
     up_install = \<lparr>iv_create = None, iv_tmp = ''/usr/bin/.qu-update-2'', iv_torn = [], iv_write = None, iv_sync = None, iv_close = None,
       iv_chmod = None, iv_rename = None, iv_remove_ok = True\<rparr>\<rparr>"

definition up_opts :: updateOptions where
  "up_opts = \<lparr>uo_beta = False, uo_checkOnly = False, uo_force = False, uo_source = []\<rparr>"

lemma up_demo_tag: "fetchLatestRelease (up_json up_demo) (up_net up_demo) updateSources False =
    Inr (''v2'', updateSources ! 1)"
  by (simp add: fetchLatestRelease_def updateSources_def source_tag_def fetchTag_def httpGet_def up_demo_def up_demo_net_def http_limit_def)

lemma up_demo_urls:
  "release_url (updateSources ! 1) ''v2'' (binary_name ''v2'' ''amd64'') = ''https://github.com/vrepsaj/QUptime/releases/download/v2/qu-v2-linux-amd64''"
  "release_url (updateSources ! 1) ''v2'' ''SHA256SUMS'' = ''https://github.com/vrepsaj/QUptime/releases/download/v2/SHA256SUMS''"
  by (simp_all add: release_url_def updateSources_def TrimRight_def binary_name_def)

lemma up_demo_sum: "expectedSum (''00  qu-v2-linux-arm64'' @ [CHR 0x0A] @ ''42 *qu-v2-linux-amd64'' @ [CHR 0x0A]) (binary_name ''v2'' ''amd64'') = Inr ''42''"
  by code_simp

lemma up_demo_hex: "hex_EncodeToString ''B'' = ''42''"
  by code_simp

lemma up_demo_download: "verified_download up_demo (updateSources ! 1) ''v2'' ''amd64'' = Inr ''B''"
  unfolding verified_download_def Let_def up_demo_urls
  using up_demo_sum up_demo_hex by (simp add: httpGet_def up_demo_def up_demo_net_def http_limit_def)

lemma up_demo_run: "fst (runUpdate up_demo up_opts (\<lambda>_. None)) = Inr (Installed ''v2'' ''/usr/bin/qu'')"
proof -
  have env: "up_goos up_demo = ''linux''" "up_goarch up_demo = ''amd64''" "up_version up_demo = ''v1''"
    "up_executable up_demo = Inr ''/usr/bin/qu''" "up_symlinks up_demo = Inr" "up_abs up_demo = Inr"
    by (simp_all add: up_demo_def)
  have "assertCanReplace (up_probe up_demo) ''/usr/bin/qu'' (\<lambda>_. None) = (None, \<lambda>_. None)"
    by (simp add: up_demo_def assertCanReplace_def Let_def)
  moreover have "\<exists>f'. replaceBinary (up_install up_demo) ''/usr/bin/qu'' ''B'' (\<lambda>_. None) = (None, f')"
    by (simp add: up_demo_def replaceBinary_def Let_def)
  moreover have "\<not> sameVersion ''v1'' ''v2''" by code_simp
  ultimately show ?thesis
    using up_demo_tag up_demo_download
    by (auto simp: runUpdate_def env up_opts_def updateArch_def pickSources_def resolveSelf_def)
qed

theorem update_installs_verified_witness:
  "\<exists>f' src. runUpdate up_demo up_opts (\<lambda>_. None) = (Inr (Installed ''v2'' ''/usr/bin/qu''), f') \<and>
     src \<in> set updateSources \<and> (\<exists>b arch. f' ''/usr/bin/qu'' = Some \<lparr>f_data = b, f_perm = 493\<rparr> \<and> published up_demo src ''v2'' arch b)"
proof -
  obtain f' where run: "runUpdate up_demo up_opts (\<lambda>_. None) = (Inr (Installed ''v2'' ''/usr/bin/qu''), f')"
    using up_demo_run by (metis prod.collapse)
  have n: "pv_path (up_probe up_demo) \<noteq> iv_tmp (up_install up_demo)" "iv_tmp (up_install up_demo) \<noteq> ''/usr/bin/qu''"
    by (simp_all add: up_demo_def)
  from update_installs_verified [OF run refl refl n(1)] n(2) run show ?thesis by auto
qed

end
