(* ===== verification/Lifecycle.thy ===== *)
theory Lifecycle
  imports Control Scheduler
begin

text \<open>
  The life of a running daemon: \<open>Run\<close> of \<open>internal/daemon/daemon.go\<close> with the two servers
  (\<open>Serve\<close>, \<open>Stop\<close> and the bookkeeping of connections in \<open>transport/rpc.go\<close> and \<open>daemon/control.go\<close>)
  and the loops it starts (\<open>quorum/manager.go\<close>, \<open>checks/scheduler.go\<close>, \<open>daemon/watcher.go\<close>). A goroutine
  is its state here and what it does next is a step; all interleavings are runs of the step relation.
  What the steps do to the data is in the other theories: this one has only who is running, which
  listeners and connections are open, and which workers the scheduler has.
\<close>

section \<open>A server\<close>

text \<open>Where \<open>Serve\<close> is: before its listener exists, in the accept loop, or returned with a result.\<close>

datatype phase = Starting | Accepting | Exited "err option"

text \<open>\<open>ls_ln\<close> is the field \<open>ln\<close>: nil, or a listener that is open or closed. A connection is in \<open>ls_open\<close>
  while its socket is open, in \<open>ls_handlers\<close> while the goroutine of \<open>handleConn\<close> runs, and in
  \<open>ls_conns\<close> while it is tracked.\<close>

record listener =
  ls_phase :: phase
  ls_ln :: "bool option"
  ls_conns :: "nat set"
  ls_open :: "nat set"
  ls_handlers :: "nat set"

definition NewServer :: listener where
  "NewServer = \<lparr>ls_phase = Starting, ls_ln = None, ls_conns = {}, ls_open = {}, ls_handlers = {}\<rparr>"

text \<open>What \<open>Serve\<close> of the peer server does before its loop; the control server's part is \<open>Serve_bind\<close>.
  \<open>cfg\<close> is the outcome of \<open>ServerConfig\<close>, which fails exactly when \<open>tlsCert\<close> does.\<close>

definition ServerConfig :: "pki \<Rightarrow> string \<Rightarrow> err + cert" where
  "ServerConfig K certPEM = (case tlsCert K certPEM of Inl e \<Rightarrow> Inl e | Inr c \<Rightarrow> Inr c)"

definition rpc_bind :: "err + cert \<Rightarrow> string \<Rightarrow> err option \<Rightarrow> err option" where
  "rpc_bind cfg addr listen =
     (case cfg of
        Inl e \<Rightarrow> Some e
      | Inr c \<Rightarrow> (case listen of Some e \<Rightarrow> Some (ErrWrap (''listen '' @ addr) e) | None \<Rightarrow> None))"

lemma rpc_bind_ok: "rpc_bind (ServerConfig K pem) addr listen = None \<longleftrightarrow> (\<exists>c. tlsCert K pem = Inr c) \<and> listen = None"
  by (auto simp: rpc_bind_def ServerConfig_def split: sum.splits option.splits)

definition serve_bound :: "err option \<Rightarrow> listener \<Rightarrow> listener" where
  "serve_bound r s =
     (case r of Some e \<Rightarrow> s\<lparr>ls_phase := Exited (Some e)\<rparr> | None \<Rightarrow> s\<lparr>ls_phase := Accepting, ls_ln := Some True\<rparr>)"

definition close_ln :: "listener \<Rightarrow> listener" where
  "close_ln s = s\<lparr>ls_ln := map_option (\<lambda>b. False) (ls_ln s)\<rparr>"

text \<open>\<open>Accept\<close> returns a connection, or an error: \<open>None\<close> stands for \<open>net.ErrClosed\<close>.\<close>

definition accept_conn :: "nat \<Rightarrow> listener \<Rightarrow> listener" where
  "accept_conn c s = s\<lparr>ls_open := insert c (ls_open s), ls_handlers := insert c (ls_handlers s)\<rparr>"

definition accept_err :: "err option \<Rightarrow> listener \<Rightarrow> listener" where
  "accept_err e s = s\<lparr>ls_phase := Exited e\<rparr>"

definition trackConn :: "nat \<Rightarrow> listener \<Rightarrow> listener" where
  "trackConn c s = s\<lparr>ls_conns := insert c (ls_conns s)\<rparr>"

definition untrackConn :: "nat \<Rightarrow> listener \<Rightarrow> listener" where
  "untrackConn c s = s\<lparr>ls_conns := ls_conns s - {c}\<rparr>"

definition conn_done :: "nat \<Rightarrow> listener \<Rightarrow> listener" where
  "conn_done c s = (let s' = untrackConn c s in s'\<lparr>ls_open := ls_open s' - {c}, ls_handlers := ls_handlers s' - {c}\<rparr>)"

definition Stop :: "listener \<Rightarrow> listener" where
  "Stop s = (let s' = close_ln s in s'\<lparr>ls_open := ls_open s' - ls_conns s', ls_conns := {}\<rparr>)"

text \<open>The control server has its own constructor and \<open>Stop\<close>; they do the same to its connections.\<close>

definition newControlServer :: listener where
  "newControlServer = \<lparr>ls_phase = Starting, ls_ln = None, ls_conns = {}, ls_open = {}, ls_handlers = {}\<rparr>"

definition ctl_Stop :: "listener \<Rightarrow> listener" where
  "ctl_Stop c = (let c' = (case ls_ln c of None \<Rightarrow> c | Some b \<Rightarrow> close_ln c) in
     c'\<lparr>ls_open := {cn \<in> ls_open c'. cn \<notin> ls_conns c'}, ls_conns := {}\<rparr>)"

lemma newControlServer [simp]: "newControlServer = NewServer"
  by (simp add: newControlServer_def NewServer_def)

lemma ctl_Stop [simp]: "ctl_Stop c = Stop c"
  by (cases "ls_ln c") (simp_all add: ctl_Stop_def Stop_def close_ln_def set_diff_eq)

text \<open>The steps of \<open>Serve\<close> and of the goroutine that closes its listener when the context is done.\<close>

inductive serve_step :: "bool \<Rightarrow> listener \<Rightarrow> listener \<Rightarrow> bool" where
  bind: "ls_phase s = Starting \<Longrightarrow> serve_step ctx s (serve_bound r s)"
| watch: "ctx \<Longrightarrow> ls_ln s = Some True \<Longrightarrow> serve_step ctx s (close_ln s)"
| closed: "ls_phase s = Accepting \<Longrightarrow> ls_ln s = Some False \<Longrightarrow> serve_step ctx s (accept_err None s)"
| broken: "ls_phase s = Accepting \<Longrightarrow> ls_ln s = Some True \<Longrightarrow> serve_step ctx s (accept_err (Some e) s)"

text \<open>Clients come and go.\<close>

inductive conn_step :: "listener \<Rightarrow> listener \<Rightarrow> bool" where
  accept: "ls_phase s = Accepting \<Longrightarrow> ls_ln s = Some True \<Longrightarrow> c \<notin> ls_handlers s \<Longrightarrow> c \<notin> ls_open s \<Longrightarrow> conn_step s (accept_conn c s)"
| track: "c \<in> ls_handlers s \<Longrightarrow> conn_step s (trackConn c s)"
| finish: "c \<in> ls_handlers s \<Longrightarrow> conn_step s (conn_done c s)"

inductive_cases serve_stepE: "serve_step ctx s s'"
inductive_cases conn_stepE: "conn_step s s'"

section \<open>Run\<close>

text \<open>Where \<open>Run\<close> itself is: the \<open>select\<close>, the calls after it in their order, the wait for the five
  goroutines, and back at the caller.\<close>

datatype main_phase = Select | StopRpc | StopCtl | ClosePool | WaitAll | Returned

record run_state =
  rn_ctx :: bool
  rn_rpc :: listener
  rn_ctl :: listener
  rn_quorum :: bool
  rn_sched :: bool
  rn_watch :: bool
  rn_running :: workers
  rn_pool :: bool
  rn_main :: main_phase

definition run_start :: run_state where
  "run_start = \<lparr>rn_ctx = False, rn_rpc = NewServer, rn_ctl = newControlServer, rn_quorum = True, rn_sched = True, rn_watch = True,
     rn_running = [], rn_pool = True, rn_main = Select\<rparr>"

definition exited :: "listener \<Rightarrow> bool" where
  "exited s = (case ls_phase s of Exited r \<Rightarrow> True | _ \<Rightarrow> False)"

text \<open>What the daemon's goroutines do on their own.\<close>

inductive own_step :: "run_state \<Rightarrow> run_state \<Rightarrow> bool" where
  rpc: "serve_step (rn_ctx s) (rn_rpc s) l \<Longrightarrow> own_step s (s\<lparr>rn_rpc := l\<rparr>)"
| ctl: "serve_step (rn_ctx s) (rn_ctl s) l \<Longrightarrow> own_step s (s\<lparr>rn_ctl := l\<rparr>)"
| quorum: "rn_ctx s \<Longrightarrow> rn_quorum s \<Longrightarrow> own_step s (s\<lparr>rn_quorum := False\<rparr>)"
| sched: "rn_ctx s \<Longrightarrow> rn_sched s \<Longrightarrow> own_step s (s\<lparr>rn_sched := False, rn_running := snd (stopAll (rn_running s))\<rparr>)"
| manual: "rn_ctx s \<Longrightarrow> rn_watch s \<Longrightarrow> own_step s (s\<lparr>rn_watch := False\<rparr>)"
| wake: "rn_main s = Select \<Longrightarrow> rn_ctx s \<or> exited (rn_rpc s) \<or> exited (rn_ctl s) \<Longrightarrow> own_step s (s\<lparr>rn_main := StopRpc\<rparr>)"
| stop_rpc: "rn_main s = StopRpc \<Longrightarrow> own_step s (s\<lparr>rn_rpc := Stop (rn_rpc s), rn_main := StopCtl\<rparr>)"
| stop_ctl: "rn_main s = StopCtl \<Longrightarrow> own_step s (s\<lparr>rn_ctl := ctl_Stop (rn_ctl s), rn_main := ClosePool\<rparr>)"
| close_pool: "rn_main s = ClosePool \<Longrightarrow> own_step s (s\<lparr>rn_pool := False, rn_main := WaitAll\<rparr>)"
| finish: "rn_main s = WaitAll \<Longrightarrow> exited (rn_rpc s) \<Longrightarrow> exited (rn_ctl s) \<Longrightarrow> \<not> rn_quorum s \<Longrightarrow> \<not> rn_sched s \<Longrightarrow>
     \<not> rn_watch s \<Longrightarrow> own_step s (s\<lparr>rn_main := Returned\<rparr>)"

text \<open>What comes from outside: the cancellation, clients, and the tick of the scheduler with the
  configuration it then finds. The other tickers leave these fields alone.\<close>

inductive env_step :: "run_state \<Rightarrow> run_state \<Rightarrow> bool" where
  cancel: "env_step s (s\<lparr>rn_ctx := True\<rparr>)"
| rpc_client: "conn_step (rn_rpc s) l \<Longrightarrow> env_step s (s\<lparr>rn_rpc := l\<rparr>)"
| ctl_client: "conn_step (rn_ctl s) l \<Longrightarrow> env_step s (s\<lparr>rn_ctl := l\<rparr>)"
| sched_tick: "rn_sched s \<Longrightarrow> env_step s (s\<lparr>rn_running := snd (snd (reconcile c (rn_running s)))\<rparr>)"

inductive_cases own_stepE: "own_step s s'"
inductive_cases env_stepE: "env_step s s'"

text \<open>Runs, with the number of own steps.\<close>

inductive run_steps :: "nat \<Rightarrow> run_state \<Rightarrow> run_state \<Rightarrow> bool" where
  start: "run_steps 0 s s"
| own: "run_steps n s t \<Longrightarrow> own_step t u \<Longrightarrow> run_steps (Suc n) s u"
| env: "run_steps n s t \<Longrightarrow> env_step t u \<Longrightarrow> run_steps n s u"

section \<open>Lemmas\<close>

lemma exited_simps [simp]:
  "exited (serve_bound (Some e) s)" "\<not> exited (serve_bound None s)" "exited (close_ln s) = exited s" "exited (accept_err r s)"
  "exited (accept_conn c s) = exited s" "exited (trackConn c s) = exited s" "exited (conn_done c s) = exited s"
  "exited (Stop s) = exited s" "\<not> exited NewServer"
  by (simp_all add: exited_def serve_bound_def close_ln_def accept_err_def accept_conn_def trackConn_def conn_done_def untrackConn_def
      Stop_def NewServer_def Let_def)

lemma serve_step_exited: "serve_step ctx s s' \<Longrightarrow> exited s \<Longrightarrow> exited s'"
  by (erule serve_stepE) (auto simp: exited_def serve_bound_def close_ln_def accept_err_def)

lemma conn_step_same: "conn_step s s' \<Longrightarrow> ls_phase s' = ls_phase s \<and> ls_ln s' = ls_ln s"
  by (erule conn_stepE) (auto simp: accept_conn_def trackConn_def conn_done_def untrackConn_def Let_def)

text \<open>What is true at every moment: a loop has ended only because the context is done, the scheduler's
  workers are stopped with it, and \<open>Run\<close> has returned only after all five goroutines.\<close>

definition run_inv :: "run_state \<Rightarrow> bool" where
  "run_inv s \<longleftrightarrow> (\<not> rn_ctx s \<longrightarrow> rn_quorum s \<and> rn_sched s \<and> rn_watch s) \<and> (\<not> rn_sched s \<longrightarrow> rn_running s = []) \<and>
     (rn_main s = Returned \<longrightarrow> exited (rn_rpc s) \<and> exited (rn_ctl s) \<and> \<not> rn_quorum s \<and> \<not> rn_sched s \<and> \<not> rn_watch s \<and> \<not> rn_pool s) \<and>
     (rn_main s = WaitAll \<longrightarrow> \<not> rn_pool s)"

lemma own_step_inv: "own_step s s' \<Longrightarrow> run_inv s \<Longrightarrow> run_inv s'"
  by (erule own_stepE) (auto simp: run_inv_def stopAll_def dest: serve_step_exited)

lemma env_step_inv: "env_step s s' \<Longrightarrow> run_inv s \<Longrightarrow> run_inv s'"
  by (erule env_stepE) (auto simp: run_inv_def exited_def dest: conn_step_same)

lemma run_steps_inv: "run_steps n s t \<Longrightarrow> run_inv s \<Longrightarrow> run_inv t"
  by (induction rule: run_steps.induct) (auto intro: own_step_inv env_step_inv)

lemma run_start_inv: "run_inv run_start"
  by (simp add: run_inv_def run_start_def)

lemma run_steps_ctx: "run_steps n s t \<Longrightarrow> rn_ctx s \<Longrightarrow> rn_ctx t"
proof (induction rule: run_steps.induct)
  case (own n s t u)
  then show ?case by (auto elim: own_stepE)
next
  case (env n s t u)
  then show ?case by (auto elim: env_stepE)
qed simp

text \<open>What is left to do once the context is done.\<close>

definition serve_left :: "listener \<Rightarrow> nat" where
  "serve_left s = (case ls_phase s of Starting \<Rightarrow> 3 | Accepting \<Rightarrow> 1 | Exited r \<Rightarrow> 0) + (if ls_ln s = Some True then 1 else 0)"

definition main_left :: "main_phase \<Rightarrow> nat" where
  "main_left p = (case p of Select \<Rightarrow> 5 | StopRpc \<Rightarrow> 4 | StopCtl \<Rightarrow> 3 | ClosePool \<Rightarrow> 2 | WaitAll \<Rightarrow> 1 | Returned \<Rightarrow> 0)"

definition steps_left :: "run_state \<Rightarrow> nat" where
  "steps_left s = serve_left (rn_rpc s) + serve_left (rn_ctl s) + main_left (rn_main s) +
     (if rn_quorum s then 1 else 0) + (if rn_sched s then 1 else 0) + (if rn_watch s then 1 else 0)"

text \<open>The field \<open>ln\<close> is set when the accept loop starts.\<close>

definition fresh_ln :: "listener \<Rightarrow> bool" where
  "fresh_ln s \<longleftrightarrow> (ls_phase s = Starting \<longrightarrow> ls_ln s = None) \<and> (ls_phase s = Accepting \<longrightarrow> ls_ln s \<noteq> None)"

lemma serve_step_left: "serve_step ctx s s' \<Longrightarrow> fresh_ln s \<Longrightarrow> serve_left s' < serve_left s \<and> fresh_ln s'"
  by (erule serve_stepE) (auto simp: serve_left_def fresh_ln_def serve_bound_def close_ln_def accept_err_def split: option.splits phase.splits)

lemma Stop_left: "serve_left (Stop s) \<le> serve_left s" "fresh_ln s \<Longrightarrow> fresh_ln (Stop s)"
  by (auto simp: serve_left_def fresh_ln_def Stop_def close_ln_def Let_def)

lemma conn_step_left: "conn_step s s' \<Longrightarrow> serve_left s' = serve_left s \<and> fresh_ln s' = fresh_ln s"
  by (drule conn_step_same) (simp add: serve_left_def fresh_ln_def)

definition fresh_run :: "run_state \<Rightarrow> bool" where
  "fresh_run s \<longleftrightarrow> fresh_ln (rn_rpc s) \<and> fresh_ln (rn_ctl s)"

lemma own_step_left:
  assumes "own_step s s'" and "fresh_run s"
  shows "steps_left s' < steps_left s \<and> fresh_run s'"
  using assms(1)
proof cases
  case (rpc l)
  then show ?thesis using serve_step_left [OF rpc(2)] assms(2) by (simp add: steps_left_def fresh_run_def)
next
  case (ctl l)
  then show ?thesis using serve_step_left [OF ctl(2)] assms(2) by (simp add: steps_left_def fresh_run_def)
next
  case stop_rpc
  then show ?thesis using Stop_left [of "rn_rpc s"] assms(2) by (simp add: steps_left_def fresh_run_def main_left_def)
next
  case stop_ctl
  then show ?thesis using Stop_left [of "rn_ctl s"] assms(2) by (simp add: steps_left_def fresh_run_def main_left_def)
qed (use assms(2) in \<open>simp_all add: steps_left_def fresh_run_def main_left_def\<close>)

lemma env_step_left: "env_step s s' \<Longrightarrow> fresh_run s \<Longrightarrow> steps_left s' = steps_left s \<and> fresh_run s'"
  by (erule env_stepE) (auto simp: steps_left_def fresh_run_def dest: conn_step_left)

lemma run_steps_left: "run_steps n s t \<Longrightarrow> fresh_run s \<Longrightarrow> n + steps_left t \<le> steps_left s \<and> fresh_run t"
proof (induction rule: run_steps.induct)
  case (own n s t u)
  then show ?case using own_step_left [of t u] by fastforce
next
  case (env n s t u)
  then show ?case using env_step_left [of t u] by fastforce
qed simp

lemma run_start_fresh: "fresh_run run_start" "steps_left run_start = 14"
  by (simp_all add: fresh_run_def fresh_ln_def run_start_def NewServer_def steps_left_def serve_left_def main_left_def)

text \<open>Nobody waits for something that does not come: once the context is done, some goroutine can move
  until \<open>Run\<close> is back.\<close>

lemma serve_progress:
  assumes "fresh_ln s" and "\<not> exited s" and "ctx"
  shows "\<exists>s'. serve_step ctx s s'"
proof (cases "ls_phase s")
  case Starting
  then show ?thesis using serve_step.bind [of s] by metis
next
  case Accepting
  then obtain b where b: "ls_ln s = Some b" using assms(1) unfolding fresh_ln_def by (cases "ls_ln s") simp_all
  show ?thesis
  proof (cases b)
    case True
    with b have "ls_ln s = Some True" by simp
    then show ?thesis using serve_step.watch [OF assms(3)] by metis
  next
    case False
    with b have "ls_ln s = Some False" by simp
    then show ?thesis using serve_step.closed [OF Accepting] by metis
  qed
qed (use assms(2) in \<open>simp add: exited_def\<close>)

lemma own_progress:
  assumes "fresh_run s" and "rn_ctx s" and "rn_main s \<noteq> Returned"
  shows "\<exists>s'. own_step s s'"
proof (rule ccontr)
  assume "\<nexists>s'. own_step s s'"
  then have stuck: "\<not> own_step s s'" for s' by blast
  have "exited (rn_rpc s)"
    using serve_progress [OF _ _ assms(2)] assms(1) own_step.rpc [of s] stuck unfolding fresh_run_def by metis
  moreover have "exited (rn_ctl s)"
    using serve_progress [OF _ _ assms(2)] assms(1) own_step.ctl [of s] stuck unfolding fresh_run_def by metis
  moreover have "\<not> rn_quorum s" using own_step.quorum [OF assms(2)] stuck by metis
  moreover have "\<not> rn_sched s" using own_step.sched [OF assms(2)] stuck by metis
  moreover have "\<not> rn_watch s" using own_step.manual [OF assms(2)] stuck by metis
  moreover have "rn_main s = WaitAll"
    using own_step.wake [of s] own_step.stop_rpc [of s] own_step.stop_ctl [of s] own_step.close_pool [of s] stuck assms(2,3)
    by (cases "rn_main s") simp_all
  ultimately show False using own_step.finish [of s] stuck by simp
qed

section \<open>Properties\<close>

text \<open>C25. \<open>Run\<close> comes back exactly when it should. In every interleaving of the daemon's goroutines with
  clients, ticks and the cancellation: when \<open>Run\<close> has returned, the context was cancelled, both
  servers and the three loops have ended, no scheduled worker is left and the pool is closed; the
  daemon's own steps are at most fourteen in all; and after the cancellation there is always one to
  take until \<open>Run\<close> has returned. So a signal ends the process, whatever the clients do meanwhile.\<close>

theorem run_returns:
  assumes "run_steps n run_start s"
  shows "(rn_main s = Returned \<longrightarrow> rn_ctx s \<and> exited (rn_rpc s) \<and> exited (rn_ctl s) \<and>
            \<not> rn_quorum s \<and> \<not> rn_sched s \<and> \<not> rn_watch s \<and> rn_running s = [] \<and> \<not> rn_pool s) \<and>
     n \<le> 14 \<and> (rn_ctx s \<and> rn_main s \<noteq> Returned \<longrightarrow> (\<exists>s'. own_step s s' \<and> run_steps (Suc n) run_start s'))"
proof -
  have inv: "run_inv s" by (rule run_steps_inv [OF assms run_start_inv])
  have "n \<le> 14" "fresh_run s" using run_steps_left [OF assms] run_start_fresh by simp_all
  with inv own_progress [of s] run_steps.own [OF assms] show ?thesis unfolding run_inv_def by blast
qed

text \<open>The peer port is taken: the peer server returns its error, \<open>Run\<close> stops the control server and waits.\<close>

definition port_taken :: err where "port_taken = ErrMsg ''address already in use''"

definition hung :: run_state where
  "hung = run_start\<lparr>rn_rpc := serve_bound (Some port_taken) NewServer,
     rn_ctl := accept_err None (Stop (serve_bound None NewServer)), rn_pool := False, rn_main := WaitAll\<rparr>"

lemma step_to: "run_steps n s t \<Longrightarrow> own_step t u \<Longrightarrow> u = v \<Longrightarrow> Suc n = k \<Longrightarrow> run_steps k s v"
  using run_steps.own by blast

lemma run_hung: "run_steps 7 run_start hung"
proof -
  let ?r = "serve_bound (Some port_taken) NewServer" and ?c = "serve_bound None NewServer"
  let ?s2 = "run_start\<lparr>rn_rpc := ?r, rn_ctl := ?c\<rparr>"
  have start: "rn_rpc run_start = NewServer" "rn_ctl run_start = NewServer" "rn_main run_start = Select"
    by (simp_all add: run_start_def)
  have b: "serve_step ctx NewServer (serve_bound r NewServer)" for ctx r by (rule serve_step.bind) (simp add: NewServer_def)
  have 1: "run_steps 1 run_start (run_start\<lparr>rn_rpc := ?r\<rparr>)"
    by (rule step_to [OF run_steps.start own_step.rpc [of run_start ?r] refl]) (use b start in simp_all)
  have 2: "run_steps 2 run_start ?s2"
    by (rule step_to [OF 1 own_step.ctl [of "run_start\<lparr>rn_rpc := ?r\<rparr>" ?c]]) (use b start in simp_all)
  have 3: "run_steps 3 run_start (?s2\<lparr>rn_main := StopRpc\<rparr>)"
    by (rule step_to [OF 2 own_step.wake [of ?s2] refl]) (use start in simp_all)
  have 4: "run_steps 4 run_start (?s2\<lparr>rn_main := StopCtl\<rparr>)"
    by (rule step_to [OF 3 own_step.stop_rpc [of "?s2\<lparr>rn_main := StopRpc\<rparr>"]])
      (simp_all add: Stop_def close_ln_def serve_bound_def NewServer_def Let_def)
  have 5: "run_steps 5 run_start (?s2\<lparr>rn_ctl := Stop ?c, rn_main := ClosePool\<rparr>)"
    by (rule step_to [OF 4 own_step.stop_ctl [of "?s2\<lparr>rn_main := StopCtl\<rparr>"]]) simp_all
  have 6: "run_steps 6 run_start (?s2\<lparr>rn_ctl := Stop ?c, rn_pool := False, rn_main := WaitAll\<rparr>)"
    by (rule step_to [OF 5 own_step.close_pool [of "?s2\<lparr>rn_ctl := Stop ?c, rn_main := ClosePool\<rparr>"]]) simp_all
  have c: "serve_step ctx (Stop ?c) (accept_err None (Stop ?c))" for ctx
    by (rule serve_step.closed) (simp_all add: Stop_def close_ln_def serve_bound_def Let_def)
  show ?thesis
    by (rule step_to [OF 6 own_step.ctl [of "?s2\<lparr>rn_ctl := Stop ?c, rn_pool := False, rn_main := WaitAll\<rparr>" "accept_err None (Stop ?c)"]])
      (use c in \<open>simp_all add: hung_def\<close>)
qed

theorem run_returns_witness:
  "\<exists>s. run_steps 7 run_start s \<and> rn_ctx s \<and> rn_main s = WaitAll \<and> (\<exists>s'. own_step s s' \<and> run_steps 8 run_start s')"
proof -
  have r: "run_steps 7 run_start (hung\<lparr>rn_ctx := True\<rparr>)" by (rule run_steps.env [OF run_hung env_step.cancel])
  have "rn_main (hung\<lparr>rn_ctx := True\<rparr>) = WaitAll" "rn_ctx (hung\<lparr>rn_ctx := True\<rparr>)" by (simp_all add: hung_def)
  with run_returns [OF r] r show ?thesis by auto
qed

text \<open>A server that fails does not end the process. \<open>Run\<close> leaves its \<open>select\<close> but does not cancel the context
  of the loops it then waits for: it hangs with its listeners closed, while the loops go on, until a
  signal comes; without one it never returns.\<close>

lemma failed_server_hangs:
  "run_steps 7 run_start hung \<and> ls_phase (rn_rpc hung) = Exited (Some port_taken) \<and> ls_ln (rn_ctl hung) = Some False \<and>
     rn_sched hung \<and> (\<forall>s'. \<not> own_step hung s') \<and> (\<forall>n s. run_steps n run_start s \<and> \<not> rn_ctx s \<longrightarrow> rn_main s \<noteq> Returned)"
proof (intro conjI allI impI)
  show "\<not> own_step hung s'" for s'
    by (auto elim!: own_stepE serve_stepE simp: hung_def run_start_def serve_bound_def accept_err_def Stop_def close_ln_def NewServer_def Let_def)
  show "rn_main s \<noteq> Returned" if "run_steps n run_start s \<and> \<not> rn_ctx s" for n s
    using run_steps_inv [of n run_start s] run_start_inv that by (auto simp: run_inv_def)
qed (use run_hung in \<open>simp_all add: hung_def run_start_def serve_bound_def accept_err_def Stop_def close_ln_def Let_def\<close>)

text \<open>After \<open>Stop\<close> no tracked connection is open and none is tracked. A connection that was accepted but
  whose goroutine has not yet tracked it survives.\<close>

lemma stop_closes_tracked: "ls_conns s \<inter> ls_open (Stop s) = {} \<and> ls_conns (Stop s) = {} \<and> ls_open (Stop s) = ls_open s - ls_conns s"
  by (auto simp: Stop_def close_ln_def Let_def)

lemma late_connection_survives:
  "ls_phase s = Accepting \<Longrightarrow> ls_ln s = Some True \<Longrightarrow> c \<notin> ls_handlers s \<Longrightarrow> c \<notin> ls_open s \<Longrightarrow> c \<notin> ls_conns s \<Longrightarrow>
     conn_step s (accept_conn c s) \<and> c \<in> ls_open (trackConn c (Stop (accept_conn c s)))"
  by (intro conjI conn_step.accept) (simp_all add: Stop_def close_ln_def accept_conn_def trackConn_def Let_def)

end
