(* ===== verification/Monitoring.thy ===== *)
theory Monitoring
  imports Daemon
begin

text \<open>
  The whole path from a probe to the operator's inbox, over many probes on many nodes: the scheduler's
  worker hands a result to \<open>sink.Submit\<close> (\<open>daemon/daemon.go\<close>), which aggregates it or reports it to the
  master, whose \<open>ReportResult\<close> handler (\<open>daemon/handlers.go\<close>) feeds the same aggregator
  (\<open>checks/aggregator.go\<close>), whose transitions the dispatcher (\<open>alerts/dispatcher.go\<close>) turns into
  messages. The operations are those of \<open>Daemon\<close>; here they run on the nodes of a cluster, in any
  order, while configurations and views of the quorum change.
\<close>

section \<open>The cluster as it monitors\<close>

type_synonym nodes = "string \<Rightarrow> daemon"
type_synonym sent_alerts = "(Alert \<times> Message \<times> err option) list"

text \<open>A probe of node \<open>i\<close> with the result \<open>r\<close>; \<open>ok\<close> tells whether a report to the master arrives. The
  call is pinned to the master's node ID, so it is that node that handles it. The result: which node
  sent what.\<close>

definition probe_at :: "agg_env \<Rightarrow> string \<Rightarrow> Result \<Rightarrow> bool \<Rightarrow> nodes \<Rightarrow> (string \<times> sent_alerts) \<times> nodes" where
  "probe_at E i r ok C =
     (case sink_Submit E r (C i) of
        (sent, RouteRemote m addr req, d) \<Rightarrow>
          if ok then (case handle_report E req (C m) of (sent', d') \<Rightarrow> ((m, sent'), C(m := d'))) else ((i, sent), C)
      | (sent, _, d) \<Rightarrow> ((i, sent), C(i := d)))"

text \<open>Besides probes, a node's configuration and its view of the quorum change.\<close>

datatype mon_event = Probing agg_env string Result bool | Changing string cfg_state manager

fun mon_step :: "mon_event \<Rightarrow> nodes \<Rightarrow> (string \<times> string \<times> sent_alerts) \<times> nodes" where
  "mon_step (Probing E i r ok) C = (case probe_at E i r ok C of ((j, sent), C') \<Rightarrow> ((j, rs_CheckID r, sent), C'))"
| "mon_step (Changing i s q) C = ((i, [], []), C(i := (C i)\<lparr>d_cfg := s, d_quorum := q\<rparr>))"

fun mon_run :: "mon_event list \<Rightarrow> nodes \<Rightarrow> (string \<times> string \<times> sent_alerts) list \<times> nodes" where
  "mon_run [] C = ([], C)"
| "mon_run (s # ss) C = (case mon_step s C of (x, C') \<Rightarrow> case mon_run ss C' of (xs, C'') \<Rightarrow> (x # xs, C''))"

text \<open>What an alert channel has received about a check, from all nodes, in order.\<close>

definition received :: "Alert \<Rightarrow> sent_alerts \<Rightarrow> Message list" where
  "received a sent = map (\<lambda>x. fst (snd x)) (filter (\<lambda>x. fst x = a) sent)"

definition inbox :: "string \<Rightarrow> Alert \<Rightarrow> (string \<times> string \<times> sent_alerts) list \<Rightarrow> Message list" where
  "inbox cid a log = concat (map (\<lambda>(j, c, sent). if c = cid then received a sent else []) log)"

lemma inbox_simps [simp]: "inbox cid a [] = []" "inbox cid a ((j, c, sent) # log) = (if c = cid then received a sent else []) @ inbox cid a log"
  by (simp_all add: inbox_def)

lemma received_Nil [simp]: "received a [] = []"
  by (simp add: received_def)

section \<open>One report\<close>

lemma filter_one: "distinct xs \<Longrightarrow> a \<in> set xs \<Longrightarrow> filter (\<lambda>x. x = a) xs = [a]"
  by (induction xs) (auto simp: filter_empty_conv)

text \<open>Of a transition worth an alert, each effective alert gets one message.\<close>

lemma received_transition:
  assumes "a \<in> set (EffectiveAlertsFor c (Some ch))" and "shouldAlert from to"
  shows "received a (OnTransition exec chs when self c ch from to snap) = [fst (RenderFor exec when when (Some a) self ch from to snap)]"
proof -
  have "distinct (EffectiveAlertsFor c (Some ch))"
    using effective_alerts_distinct [of c ch] by (simp add: distinct_map)
  from filter_one [OF this assms(1)] show ?thesis
    using assms(2) by (simp add: received_def OnTransition_def Let_def filter_map comp_def)
qed

text \<open>A fresh report cannot leave the committed state unknown unless it was.\<close>

lemma fresh_candidate:
  assumes "(n, nr) \<in> set latest" and "t - freshWindowFor iv \<le> nr_At nr"
  shows "candidate_for t iv latest \<noteq> StateUnknown"
proof -
  let ?cut = "t - freshWindowFor iv" and ?rs = "map snd latest"
  have nr: "nr \<in> set ?rs" using assms(1) by force
  have "0 < fresh_ok ?cut ?rs + fresh_bad ?cut ?rs"
  proof (cases "nr_OK nr")
    case True
    with nr assms(2) have "nr \<in> set (filter (\<lambda>nr. ?cut \<le> nr_At nr \<and> nr_OK nr) ?rs)" by simp
    from length_pos_if_in_set [OF this] show ?thesis by (simp add: fresh_ok_def)
  next
    case False
    with nr assms(2) have "nr \<in> set (filter (\<lambda>nr. ?cut \<le> nr_At nr \<and> \<not> nr_OK nr) ?rs)" by simp
    from length_pos_if_in_set [OF this] show ?thesis by (simp add: fresh_bad_def)
  qed
  then show ?thesis by (auto simp: candidate_for_eq Let_def)
qed

lemma hysteresis_committed: "hysteresis v st = (f, st') \<Longrightarrow> st_committed st' = st_committed st \<or> st_committed st' = v"
  by (auto simp: hysteresis_def Let_def split: if_splits)

lemma Submit_committed:
  assumes sub: "Submit ord t u v c n r a = (fired, a')" and cid: "rs_CheckID r \<noteq> []"
    and look: "lookupCheck c (rs_CheckID r) = Some ch" and fresh: "t - freshWindowFor (ck_Interval ch) \<le> rs_Timestamp r"
  shows "committed_state (rs_CheckID r) a' = committed_state (rs_CheckID r) a \<or> committed_state (rs_CheckID r) a' \<noteq> StateUnknown"
proof -
  obtain st where st: "map_of (ag_perCheck (record_report n r a)) (rs_CheckID r) = Some st"
    and com: "st_committed st = committed_state (rs_CheckID r) a"
    using record_report_committed by blast
  have "(n, \<lparr>nr_OK = rs_OK r, nr_Detail = rs_Detail r, nr_At = rs_Timestamp r\<rparr>) \<in> set (st_latest st)"
    using st by (auto simp: record_report_def Let_def update_conv' intro: map_of_SomeD)
  from fresh_candidate [OF this] fresh have cand: "candidate_for t (ck_Interval ch) (st_latest st) \<noteq> StateUnknown" by simp
  obtain f st' where h: "hysteresis (candidate_for t (ck_Interval ch) (st_latest st)) st = (f, st')" by fastforce
  have "committed_state (rs_CheckID r) a' = st_committed st'"
    using sub cid look st h
    by (auto simp: Submit_def evaluate_def Let_def committed_state_def update_conv' split: option.splits prod.splits if_splits)
  with hysteresis_committed [OF h] cand com show ?thesis by auto
qed

lemma Submit_elsewhere:
  "rs_CheckID r \<noteq> cid \<Longrightarrow> committed_state cid (snd (Submit ord t u v c n r a)) = committed_state cid a"
  using submit_other [of "\<lparr>sb_order = ord, sb_eval = t, sb_snap = u, sb_upd = v, sb_cfg = c, sb_node = n, sb_result = r\<rparr>" cid a]
  by (simp add: submit_step_def committed_state_def)

lemma Submit_transition: "ag_transition (snd (Submit ord t u v c n r a)) = ag_transition a"
  using submit_keeps_transition [of "\<lparr>sb_order = ord, sb_eval = t, sb_snap = u, sb_upd = v, sb_cfg = c, sb_node = n, sb_result = r\<rparr>" a]
  by (simp add: submit_step_def)

text \<open>\<open>aggregate\<close> touches the aggregator only, and of a check that is not reported on it changes nothing.\<close>

lemma aggregate_frame:
  assumes "aggregate E n r d = (sent, d')"
  shows "d' = d\<lparr>d_agg := d_agg d'\<rparr>" and "ag_transition (d_agg d') = ag_transition (d_agg d)"
    and "rs_CheckID r \<noteq> cid \<Longrightarrow> committed_state cid (d_agg d') = committed_state cid (d_agg d)"
proof -
  have d': "d' = d\<lparr>d_agg := snd (Submit (ae_order E) (ae_eval E) (ae_snap E) (ae_upd E) (cs_cfg (d_cfg d)) n r (d_agg d))\<rparr>"
    using assms by (auto simp: aggregate_def split: prod.splits)
  then show "d' = d\<lparr>d_agg := d_agg d'\<rparr>" by simp
  show "ag_transition (d_agg d') = ag_transition (d_agg d)" by (simp add: d' Submit_transition)
  show "rs_CheckID r \<noteq> cid \<Longrightarrow> committed_state cid (d_agg d') = committed_state cid (d_agg d)"
    by (simp add: d' Submit_elsewhere)
qed

text \<open>A message about check \<open>ch\<close> to channel \<open>a\<close> that says it is now \<open>to\<close>; \<open>m\<close> is the node that sends it.\<close>

definition says :: "string \<Rightarrow> Check \<Rightarrow> Alert \<Rightarrow> Message \<Rightarrow> State \<Rightarrow> bool" where
  "says m ch a msg to \<longleftrightarrow> (\<exists>exec when from snap. msg = fst (RenderFor exec when when (Some a) m ch from to snap) \<and>
     from \<noteq> to \<and> (to = StateUp \<longrightarrow> from = StateDown))"

text \<open>A fresh report on the master about a check that alerts \<open>a\<close>: the committed state stays, or goes
  silently from unknown to up, or flips and the channel gets one message that says so.\<close>

lemma master_report:
  assumes agg: "aggregate E n r d = (sent, d')" and cid: "rs_CheckID r = cid" "cid \<noteq> []"
    and master: "IsMaster (d_quorum d)" "ag_transition (d_agg d)" "self_of d = m"
    and look: "lookupCheck (cs_cfg (d_cfg d)) cid = Some ch"
    and a: "a \<in> set (EffectiveAlertsFor (cs_cfg (d_cfg d)) (Some ch))"
    and fresh: "ae_eval E - freshWindowFor (ck_Interval ch) \<le> rs_Timestamp r"
  defines "old \<equiv> committed_state cid (d_agg d)" and "new \<equiv> committed_state cid (d_agg d')"
  shows "if old = new \<or> old = StateUnknown \<and> new = StateUp then received a sent = []
     else new \<noteq> StateUnknown \<and> (\<exists>msg. received a sent = [msg] \<and> says m ch a msg new)"
proof -
  obtain fired g where sub: "Submit (ae_order E) (ae_eval E) (ae_snap E) (ae_upd E) (cs_cfg (d_cfg d)) n r (d_agg d) = (fired, g)"
    by fastforce
  have d': "d_agg d' = g" using agg sub by (auto simp: aggregate_def)
  have known: "new = old \<or> new \<noteq> StateUnknown"
    using Submit_committed [OF sub] cid look fresh by (simp add: old_def new_def d')
  have f: "if new = old then fired = None else (\<exists>snap. fired = Some (ch, old, new, snap))"
    using Submit_fires [OF sub] cid look master(2) by (auto simp: old_def new_def d')
  show ?thesis
  proof (cases "new = old")
    case True
    with f have "sent = []" using agg sub by (simp add: aggregate_def)
    with True show ?thesis by simp
  next
    case False
    with f obtain snap where "fired = Some (ch, old, new, snap)" by auto
    then have sent: "sent = OnTransition (ae_exec E) (ae_channels E) (ae_when E) m (cs_cfg (d_cfg d)) ch old new snap"
      using agg sub master(1,3) by (simp add: aggregate_def)
    show ?thesis
    proof (cases "old = StateUnknown \<and> new = StateUp")
      case True
      with sent show ?thesis by (simp add: OnTransition_quiet)
    next
      case loud: False
      with known False have "shouldAlert old new" by (simp add: shouldAlert_def)
      from received_transition [OF a this] have r: "received a sent =
          [fst (RenderFor (ae_exec E) (ae_when E) (ae_when E) (Some a) m ch old new snap)]" by (simp add: sent)
      moreover have "says m ch a (fst (RenderFor (ae_exec E) (ae_when E) (ae_when E) (Some a) m ch old new snap)) new"
        unfolding says_def using False loud by (cases old) blast+
      ultimately show ?thesis using False loud known by auto
    qed
  qed
qed

section \<open>Any number of probes\<close>

text \<open>What \<open>New\<close> sets up on every node: one ID for the node, its sink and its quorum manager, and a wired
  transition callback.\<close>

definition nodes_wf :: "nodes \<Rightarrow> bool" where
  "nodes_wf C \<longleftrightarrow> (\<forall>i. self_of (C i) = i \<and> m_selfID (d_quorum (C i)) = i \<and> ag_transition (d_agg (C i)))"

text \<open>The node whose aggregator a probe ends up in, if any.\<close>

definition lands :: "string \<Rightarrow> Result \<Rightarrow> bool \<Rightarrow> nodes \<Rightarrow> string option" where
  "lands i r ok C =
     (case sink_route r (C i) of RouteLocal \<Rightarrow> Some i | RouteDrop \<Rightarrow> None | RouteRemote m addr req \<Rightarrow> if ok then Some m else None)"

lemma probe_at_eq:
  assumes "nodes_wf C"
  shows "probe_at E i r ok C =
     (case lands i r ok C of
        None \<Rightarrow> ((i, []), C)
      | Some j \<Rightarrow> (case aggregate E i r (C j) of (sent, d') \<Rightarrow> ((j, sent), C(j := d'))))"
proof (cases "sink_route r (C i)")
  case (RouteRemote m addr req)
  have ids: "self_of (C i) = i" "m_selfID (d_quorum (C i)) = self_of (C i)" using assms by (simp_all add: nodes_wf_def)
  note same = reports_are_transparent [OF ids(2) RouteRemote, of E "C m", unfolded ids(1)]
  have "handle_report E req (C m) = aggregate E i r (C m)" "sink_Submit E r (C i) = ([], RouteRemote m addr req, C i)"
    by (rule conjunct1 [OF same], rule conjunct1 [OF conjunct2 [OF same]])
  then show ?thesis by (simp add: probe_at_def lands_def RouteRemote)
qed (use assms in \<open>simp_all add: probe_at_def lands_def sink_Submit_def nodes_wf_def split: prod.split\<close>)

lemma lands_master: "lands i r ok C = Some j \<Longrightarrow> m_selfID (d_quorum (C i)) = i \<Longrightarrow> j = Master (d_quorum (C i))"
  by (auto simp: lands_def sink_route_def Let_def IsMaster_def Master_def split: route.splits if_splits)

text \<open>Monitoring of the check \<open>cid\<close> is steady in a step: a report about it comes from a node that takes
  \<open>m\<close> for the master, as \<open>m\<close> itself does, while \<open>m\<close>'s configuration has the check as \<open>ch\<close> and alerts \<open>a\<close> for
  it, and is not older than the freshness window when it is evaluated. A change keeps the node's ID.\<close>

fun steady_step :: "string \<Rightarrow> string \<Rightarrow> Check \<Rightarrow> Alert \<Rightarrow> mon_event \<Rightarrow> nodes \<Rightarrow> bool" where
  "steady_step m cid ch a (Probing E i r ok) C \<longleftrightarrow>
     (if rs_CheckID r = cid
      then Master (d_quorum (C i)) = m \<and> IsMaster (d_quorum (C m)) \<and> lookupCheck (cs_cfg (d_cfg (C m))) cid = Some ch \<and>
        a \<in> set (EffectiveAlertsFor (cs_cfg (d_cfg (C m))) (Some ch)) \<and> ae_eval E - freshWindowFor (ck_Interval ch) \<le> rs_Timestamp r
      else True)"
| "steady_step m cid ch a (Changing i s q) C \<longleftrightarrow> m_selfID q = i"

fun steady :: "string \<Rightarrow> string \<Rightarrow> Check \<Rightarrow> Alert \<Rightarrow> mon_event list \<Rightarrow> nodes \<Rightarrow> bool" where
  "steady m cid ch a [] C \<longleftrightarrow> True"
| "steady m cid ch a (s # ss) C \<longleftrightarrow> steady_step m cid ch a s C \<and> steady m cid ch a ss (snd (mon_step s C))"

lemma mon_step_wf:
  assumes "nodes_wf C" and "steady_step m cid ch a s C"
  shows "nodes_wf (snd (mon_step s C))"
proof (cases s)
  case (Probing E i r ok)
  show ?thesis
  proof (cases "lands i r ok C")
    case None
    with assms(1) show ?thesis by (simp add: Probing probe_at_eq)
  next
    case (Some j)
    obtain sent d' where agg: "aggregate E i r (C j) = (sent, d')" by fastforce
    have "d_node d' = d_node (C j)" "d_quorum d' = d_quorum (C j)" using aggregate_frame(1) [OF agg] by (metis daemon.select_convs daemon.update_convs(6) daemon.surjective)+
    with Some agg assms(1) aggregate_frame(2) [OF agg] show ?thesis by (simp add: Probing probe_at_eq nodes_wf_def)
  qed
qed (use assms in \<open>auto simp: nodes_wf_def\<close>)

text \<open>What the \<open>k\<close>-th message says: down, recovered, down, and so on.\<close>

definition told :: "nat \<Rightarrow> State" where
  "told k = (if even k then StateDown else StateUp)"

text \<open>One step: the check goes down or recovers, and the channel is told; or nothing of the kind happens.\<close>

lemma mon_step_told:
  assumes wf: "nodes_wf C" and st: "steady_step m cid ch a s C" and cid: "cid \<noteq> []"
    and step: "mon_step s C = ((j, c, sent), C')"
    and k: "committed_state cid (d_agg (C m)) = StateDown \<longleftrightarrow> odd k"
  shows "(if c = cid then received a sent else []) = [] \<and> (committed_state cid (d_agg (C' m)) = StateDown \<longleftrightarrow> odd k) \<or>
     (\<exists>msg. c = cid \<and> received a sent = [msg] \<and> says m ch a msg (told k)) \<and> (committed_state cid (d_agg (C' m)) = StateDown \<longleftrightarrow> even k)"
proof (cases s)
  case (Changing i q z)
  with step have "c = []" "C' = C(i := (C i)\<lparr>d_cfg := q, d_quorum := z\<rparr>)" by auto
  with cid k show ?thesis by (cases "m = i") simp_all
next
  case (Probing E i r ok)
  show ?thesis
  proof (cases "lands i r ok C")
    case None
    with step wf k show ?thesis by (auto simp: Probing probe_at_eq)
  next
    case (Some l)
    obtain sent' d' where agg: "aggregate E i r (C l) = (sent', d')" by fastforce
    with step wf Some have c: "c = rs_CheckID r" "sent = sent'" "C' = C(l := d')" by (auto simp: Probing probe_at_eq)
    show ?thesis
    proof (cases "rs_CheckID r = cid")
      case False
      with aggregate_frame(3) [OF agg False] k c show ?thesis by (auto simp: fun_upd_def)
    next
      case True
      with st have led: "Master (d_quorum (C i)) = m" "IsMaster (d_quorum (C m))" "lookupCheck (cs_cfg (d_cfg (C m))) cid = Some ch"
        "a \<in> set (EffectiveAlertsFor (cs_cfg (d_cfg (C m))) (Some ch))" "ae_eval E - freshWindowFor (ck_Interval ch) \<le> rs_Timestamp r"
        by (simp_all add: Probing)
      have ids: "m_selfID (d_quorum (C i)) = i" "self_of (C m) = m" "ag_transition (d_agg (C m))" using wf by (simp_all add: nodes_wf_def)
      have l: "l = m" using lands_master [OF Some ids(1)] led(1) by simp
      define old new where "old = committed_state cid (d_agg (C m))" and "new = committed_state cid (d_agg d')"
      have rep: "if old = new \<or> old = StateUnknown \<and> new = StateUp then received a sent = []
          else new \<noteq> StateUnknown \<and> (\<exists>msg. received a sent = [msg] \<and> says m ch a msg new)"
        using master_report [OF agg [unfolded l] True cid led(2) ids(3,2) led(3,4,5)] c by (simp add: old_def new_def)
      have C': "d_agg (C' m) = d_agg d'" by (simp add: c l)
      show ?thesis
      proof (cases "old = new \<or> old = StateUnknown \<and> new = StateUp")
        case True
        with rep k show ?thesis by (auto simp: C' old_def new_def)
      next
        case loud: False
        with rep obtain msg where msg: "received a sent = [msg]" "says m ch a msg new" "new \<noteq> StateUnknown" by auto
        have "new = told k \<and> (new = StateDown \<longleftrightarrow> even k)"
          using k loud msg(3) by (cases new; cases old) (auto simp: old_def [symmetric] told_def)
        with msg c(1,2) True show ?thesis unfolding C' new_def [symmetric] by auto
      qed
    qed
  qed
qed

lemma mon_run_told:
  assumes "nodes_wf C" and "steady m cid ch a ss C" and "cid \<noteq> []"
    and "committed_state cid (d_agg (C m)) = StateDown \<longleftrightarrow> odd k"
    and "mon_run ss C = (log, C')"
  shows "\<exists>n \<ge> k. list_all2 (says m ch a) (inbox cid a log) (map told [k..<n]) \<and>
     (committed_state cid (d_agg (C' m)) = StateDown \<longleftrightarrow> odd n)"
  using assms
proof (induction ss arbitrary: C k log)
  case Nil
  then show ?case by (intro exI [of _ k]) simp
next
  case (Cons s ss)
  obtain j c sent C1 where s: "mon_step s C = ((j, c, sent), C1)" by (metis surj_pair)
  obtain log' where r: "mon_run ss C1 = (log', C')" and log: "log = (j, c, sent) # log'"
    using Cons.prems(5) by (auto simp: s split: prod.splits)
  have C1: "nodes_wf C1" using mon_step_wf [OF Cons.prems(1), of m cid ch a s] Cons.prems(2) s by simp
  have st: "steady_step m cid ch a s C" "steady m cid ch a ss C1" using Cons.prems(2) s by simp_all
  from mon_step_told [OF Cons.prems(1) st(1) Cons.prems(3) s Cons.prems(4)] show ?case
  proof (elim disjE conjE exE)
    assume "(if c = cid then received a sent else []) = []" "committed_state cid (d_agg (C1 m)) = StateDown \<longleftrightarrow> odd k"
    with Cons.IH [OF C1 st(2) Cons.prems(3) _ r, of k] show ?thesis unfolding log by simp
  next
    fix msg assume msg: "c = cid" "received a sent = [msg]" "says m ch a msg (told k)"
      and down: "committed_state cid (d_agg (C1 m)) = StateDown \<longleftrightarrow> even k"
    from Cons.IH [OF C1 st(2) Cons.prems(3) _ r, of "Suc k"] down obtain n where n: "Suc k \<le> n" "list_all2 (says m ch a) (inbox cid a log') (map told [Suc k..<n])"
      "committed_state cid (d_agg (C' m)) = StateDown \<longleftrightarrow> odd n" by auto
    have "[k..<n] = k # [Suc k..<n]" using n(1) by (simp add: upt_conv_Cons)
    with n msg show ?thesis unfolding log by (intro exI [of _ n]) simp
  qed
qed

section \<open>Properties\<close>

text \<open>The subject of a message that says so, for a channel without a subject template of its own.\<close>

definition zero_Snapshot :: Snapshot where
  "zero_Snapshot = \<lparr>sn_CheckID = [], sn_State = StateUnknown, sn_Reports = 0, sn_OKCount = 0, sn_NotOK = 0, sn_Detail = [], sn_UpdateAt = 0\<rparr>"

definition verb_subject :: "Check \<Rightarrow> string \<Rightarrow> string" where
  "verb_subject ch verb = default_subject (ck_Type ch) (newContext [] [] ch StateUp StateDown zero_Snapshot\<lparr>tc_Verb := verb\<rparr>)"

lemma says_subject:
  assumes "says m ch a msg to" and "al_SubjectTemplate a = []" and "to \<noteq> StateUnknown"
  shows "msg_Subject msg = verb_subject ch (if to = StateDown then ''DOWN'' else ''RECOVERED'')"
proof -
  from assms(1) obtain exec w fr snap where m: "msg = fst (RenderFor exec w w (Some a) m ch fr to snap)"
    and src: "fr \<noteq> to" "to = StateUp \<longrightarrow> fr = StateDown" unfolding says_def by blast
  have "transitionVerb fr to = (if to = StateDown then ''DOWN'' else ''RECOVERED'')"
    using src assms(3) by (cases to) (simp_all add: transitionVerb_def)
  then show ?thesis
    by (simp add: m RenderFor_fields field_of_def assms(2) Let_def Render_def newContext_def verb_subject_def default_subject_def)
qed

text \<open>C4. The inbox tells the state of the check. Under a steady master, over any number of probes on any
  nodes, with reports lost, and with any other checks, configurations and views of the quorum
  changing in between: the messages a channel receives about a check from the whole cluster are
  DOWN, RECOVERED, DOWN, and so on, each once, the first one DOWN; and the check is committed as down
  on the master exactly when the last message was a DOWN. So an outage is announced once however
  many probes see it, a recovery only after an outage, and no announcement is missed or repeated.\<close>

theorem inbox_tells_state:
  assumes "nodes_wf C" and "d_agg (C m) = NewAggregator True" and "cid \<noteq> []" and "steady m cid ch a ss C"
    and "mon_run ss C = (log, C')"
  shows "\<exists>n. list_all2 (says m ch a) (inbox cid a log) (map told [0..<n]) \<and>
     (committed_state cid (d_agg (C' m)) = StateDown \<longleftrightarrow> odd n) \<and>
     (al_SubjectTemplate a = [] \<longrightarrow> map msg_Subject (inbox cid a log) =
        map (\<lambda>k. verb_subject ch (if even k then ''DOWN'' else ''RECOVERED'')) [0..<n])"
proof -
  have "committed_state cid (d_agg (C m)) = StateDown \<longleftrightarrow> odd (0::nat)"
    by (simp add: assms(2) committed_state_def NewAggregator_def)
  from mon_run_told [OF assms(1,4,3) this assms(5)] obtain n
    where n: "list_all2 (says m ch a) (inbox cid a log) (map told [0..<n])" "committed_state cid (d_agg (C' m)) = StateDown \<longleftrightarrow> odd n" by auto
  have "map msg_Subject (inbox cid a log) = map (\<lambda>k. verb_subject ch (if even k then ''DOWN'' else ''RECOVERED'')) [0..<n]"
    if "al_SubjectTemplate a = []"
    using n(1) says_subject [OF _ that, of m ch]
    by (intro nth_equalityI) (auto simp: list_all2_conv_all_nth told_def)
  with n show ?thesis by blast
qed

text \<open>Three nodes, one check, one default alert; node b sees two outages of two probes each.\<close>

definition mon_alert :: Alert where
  "mon_alert = demo_alert ''1'' True"

definition mon_check :: Check where
  "mon_check = zero_Check\<lparr>ck_ID := ''c1'', ck_Interval := 30 * Second\<rparr>"

definition mon_cluster :: nodes where
  "mon_cluster i = (demo_daemon i demo_members)\<lparr>d_cfg := demo_members\<lparr>cs_cfg := demo_cluster\<lparr>cc_Checks := [mon_check], cc_Alerts := [mon_alert]\<rparr>\<rparr>\<rparr>"

definition mon_env :: "gotime \<Rightarrow> agg_env" where
  "mon_env t = \<lparr>ae_order = (\<lambda>xs. xs), ae_eval = t, ae_snap = t, ae_upd = t, ae_exec = (\<lambda>n s x. Inr s),
     ae_channels = \<lparr>ch_post = (\<lambda>u b. Inl (ErrLib ''offline'')), ch_smtp = (\<lambda>done c. None)\<rparr>, ae_when = ''now''\<rparr>"

definition mon_probe :: "string \<Rightarrow> bool \<Rightarrow> gotime \<Rightarrow> mon_event" where
  "mon_probe i ok t = Probing (mon_env t) i \<lparr>rs_CheckID = ''c1'', rs_OK = ok, rs_Detail = [], rs_Latency = 0, rs_Timestamp = t\<rparr> True"

definition mon_events :: "mon_event list" where
  "mon_events = [mon_probe ''b'' False 1, mon_probe ''b'' False 2, mon_probe ''b'' True 3, mon_probe ''b'' True 4, mon_probe ''b'' False 5,
     mon_probe ''b'' True 6, mon_probe ''b'' False 7, mon_probe ''b'' False 8]"

lemma mon_steady: "steady ''a'' ''c1'' mon_check mon_alert mon_events mon_cluster"
  by code_simp

lemma mon_down: "committed_state ''c1'' (d_agg (snd (mon_run mon_events mon_cluster) ''a'')) = StateDown"
  by code_simp

lemma mon_inbox: "length (inbox ''c1'' mon_alert (fst (mon_run mon_events mon_cluster))) = 3"
  by code_simp

theorem inbox_tells_state_witness:
  "map msg_Subject (inbox ''c1'' mon_alert (fst (mon_run mon_events mon_cluster))) =
     map (verb_subject mon_check) [''DOWN'', ''RECOVERED'', ''DOWN'']"
proof -
  have wf: "nodes_wf mon_cluster" by (simp add: nodes_wf_def mon_cluster_def NewAggregator_def)
  have start: "d_agg (mon_cluster ''a'') = NewAggregator True" by (simp add: mon_cluster_def)
  have ne: "''c1'' \<noteq> []" by simp
  from inbox_tells_state [OF wf start ne mon_steady prod.collapse [symmetric]] mon_inbox obtain n
    where n: "n = 3" "al_SubjectTemplate mon_alert = [] \<longrightarrow> map msg_Subject (inbox ''c1'' mon_alert (fst (mon_run mon_events mon_cluster))) =
        map (\<lambda>k. verb_subject mon_check (if even k then ''DOWN'' else ''RECOVERED'')) [0..<n]"
    by (auto dest: list_all2_lengthD)
  moreover have "al_SubjectTemplate mon_alert = []" by (simp add: mon_alert_def demo_alert_def zero_Alert_def)
  moreover have "[0..<3] = [0, 1, 2::nat]" by (simp add: upt_rec)
  ultimately show ?thesis by simp
qed

text \<open>Without a steady master it can be wrong. Leadership passes from a to b during an outage that a has
  announced: the recovery is from unknown to up on b, and nobody is told. And the aggregator of a former
  master keeps what it had committed: a announces again, when it is back, the outage that b announced.\<close>

definition mon_follow :: "string \<Rightarrow> mon_event list" where
  "mon_follow m = map (\<lambda>i. Changing i (d_cfg (mon_cluster i)) (demo_mgr i m)) [''a'', ''b'', ''c'']"

lemma failover_recovery_untold:
  "let (log, C) = mon_run ([mon_probe ''c'' False 1, mon_probe ''c'' False 2] @ mon_follow ''b'' @
       [mon_probe ''c'' True 3, mon_probe ''c'' True 4, mon_probe ''c'' True 5]) mon_cluster in
     map msg_Subject (inbox ''c1'' mon_alert log) = [verb_subject mon_check ''DOWN''] \<and>
     committed_state ''c1'' (d_agg (C ''b'')) = StateUp \<and> committed_state ''c1'' (d_agg (C ''a'')) = StateDown"
  by code_simp

lemma returning_master_repeats:
  "let (log, C) = mon_run ([mon_probe ''c'' True 1, mon_probe ''c'' True 2] @ mon_follow ''b'' @
       [mon_probe ''c'' False 3, mon_probe ''c'' False 4] @ mon_follow ''a'' @ [mon_probe ''c'' False 5, mon_probe ''c'' False 6]) mon_cluster in
     map msg_Subject (inbox ''c1'' mon_alert log) = [verb_subject mon_check ''DOWN'', verb_subject mon_check ''DOWN'']"
  by code_simp

section \<open>Alerts from the history of reports\<close>

text \<open>The submission that a report makes.\<close>

definition submission_of :: "agg_env \<Rightarrow> string \<Rightarrow> Result \<Rightarrow> daemon \<Rightarrow> submission" where
  "submission_of E n r d = \<lparr>sb_order = ae_order E, sb_eval = ae_eval E, sb_snap = ae_snap E, sb_upd = ae_upd E,
     sb_cfg = cs_cfg (d_cfg d), sb_node = n, sb_result = r\<rparr>"

lemma OnTransition_none: "\<not> shouldAlert from to \<Longrightarrow> OnTransition exec chs w self c ch from to snap = []"
  by (simp add: OnTransition_def)

text \<open>C13. When an alert goes out, from the reports alone. On a daemon whose aggregator has handled any
  submissions so far, a report about a configured check sends messages if and only if the daemon is
  master and the majority verdict after this report and the one after the report before it are
  the same, down or up, and differ from what was committed before, unknown to up excepted. Then every
  effective alert of the check gets one. So a single bad verdict never alerts, two in a row always do.\<close>

theorem alerts_from_reports:
  assumes "d_agg d = fold submit_step subs (NewAggregator True)" and "rs_CheckID r = cid" and "cid \<noteq> []"
    and "list_all (\<lambda>s. lookupCheck (sb_cfg s) cid \<noteq> None) (about cid subs)" and look: "lookupCheck (cs_cfg (d_cfg d)) cid = Some ch"
  shows "map fst (fst (aggregate E n r d)) =
     (let vs = verdicts cid (about cid subs); v = verdict_now cid (about cid subs @ [submission_of E n r d]) in
      if IsMaster (d_quorum d) \<and> vs \<noteq> [] \<and> v = hd vs \<and> v \<noteq> last_pair vs \<and> v \<noteq> StateUnknown \<and> \<not> (last_pair vs = StateUnknown \<and> v = StateUp)
      then EffectiveAlertsFor (cs_cfg (d_cfg d)) (Some ch) else [])"
proof -
  let ?s = "submission_of E n r d"
  define vs v where "vs = verdicts cid (about cid subs)" and "v = verdict_now cid (about cid subs @ [?s])"
  have trans: "ag_transition (d_agg d)" unfolding assms(1) by (simp add: run_keeps_transition NewAggregator_def)
  have s: "sb_order ?s = ae_order E" "sb_eval ?s = ae_eval E" "sb_snap ?s = ae_snap E" "sb_upd ?s = ae_upd E"
    "sb_cfg ?s = cs_cfg (d_cfg d)" "sb_node ?s = n" "sb_result ?s = r" by (simp_all add: submission_of_def)
  have tr: "tracks cid (about cid subs) (d_agg d)" unfolding assms(1) by (rule run_tracks [OF assms(3,4)])
  have look': "lookupCheck (sb_cfg ?s) cid = Some ch" and about: "rs_CheckID (sb_result ?s) = cid" using look assms(2) by (simp_all add: s)
  obtain fired g where sub: "Submit (ae_order E) (ae_eval E) (ae_snap E) (ae_upd E) (cs_cfg (d_cfg d)) n r (d_agg d) = (fired, g)"
    by fastforce
  have "fired = (let old = last_pair vs; new = last_pair (v # vs) in
      if new = old then None else Some (ch, old, new, the (SnapshotFor (ae_order E) (ae_snap E) (ae_upd E) (cs_cfg (d_cfg d)) cid (submit_step ?s (d_agg d)))))"
    using conjunct2 [OF submit_tracks [OF tr assms(3) about look']] by (simp add: s sub trans verdicts_snoc vs_def v_def Let_def)
  then have "map fst (fst (aggregate E n r d)) =
      (if last_pair (v # vs) \<noteq> last_pair vs \<and> IsMaster (d_quorum d) \<and> shouldAlert (last_pair vs) (last_pair (v # vs))
       then EffectiveAlertsFor (cs_cfg (d_cfg d)) (Some ch) else [])"
    by (simp add: aggregate_def sub OnTransition_alerts OnTransition_none Let_def)
  then show ?thesis
    unfolding vs_def [symmetric] v_def [symmetric] by (cases vs) (auto simp: shouldAlert_def Let_def)
qed

definition mon_second :: daemon where
  "mon_second = (mon_cluster ''a'')\<lparr>d_agg := fold submit_step [demo_sub ''b'' False 1] (NewAggregator True)\<rparr>"

lemma mon_second_facts:
  "IsMaster (d_quorum mon_second)" "EffectiveAlertsFor (cs_cfg (d_cfg mon_second)) (Some mon_check) = [mon_alert]"
  "lookupCheck (cs_cfg (d_cfg mon_second)) ''c1'' = Some mon_check"
  "verdicts ''c1'' [demo_sub ''b'' False 1] = [StateDown]"
  "verdict_now ''c1'' [demo_sub ''b'' False 1, submission_of (mon_env 2) ''c'' (sb_result (demo_sub ''c'' False 2)) mon_second] = StateDown"
  by (code_simp+)

theorem alerts_from_reports_witness:
  "map fst (fst (aggregate (mon_env 2) ''c'' (sb_result (demo_sub ''c'' False 2)) mon_second)) = [mon_alert]"
proof -
  have agg: "d_agg mon_second = fold submit_step [demo_sub ''b'' False 1] (NewAggregator True)" by (simp add: mon_second_def)
  have ab: "about ''c1'' [demo_sub ''b'' False 1] = [demo_sub ''b'' False 1]" by (simp add: about_def demo_sub_ok)
  then have "list_all (\<lambda>s. lookupCheck (sb_cfg s) ''c1'' \<noteq> None) (about ''c1'' [demo_sub ''b'' False 1])" using demo_sub_ok(1) by simp
  from alerts_from_reports [OF agg demo_sub_ok(2) _ this mon_second_facts(3), of "mon_env 2" "''c''"]
  show ?thesis by (simp add: ab mon_second_facts)
qed

end
