(* ===== verification/Join.thy ===== *)
theory Join
  imports Daemon
begin

text \<open>
  A node's first steps: key files (\<open>internal/crypto/keys.go\<close>), \<open>bootstrapNode\<close> and \<open>autoInitIfNeeded\<close>
  (\<open>internal/cli/init.go\<close>, \<open>serve.go\<close>), the trust-on-first-use probe (\<open>internal/transport/tofu.go\<close>)
  and the joiner's side of enrollment, \<open>runEnrollJoin\<close> (\<open>internal/cli/enroll.go\<close>). All of it acts on
  the file system; key generation, PEM, the network and the operator's answer are parameters.
\<close>

section \<open>Keys on disk\<close>

record key_material =
  km_priv :: string
  km_pub :: "err + string"
  km_cert :: "cert_template \<Rightarrow> err + string"

type_synonym pem_encoder = "string \<Rightarrow> string \<Rightarrow> string"

definition EnsureDataDir :: "err option \<Rightarrow> err option \<Rightarrow> err option" where
  "EnsureDataDir mkdir_keys mkdir_socket = (case mkdir_keys of Some e \<Rightarrow> Some e | None \<Rightarrow> mkdir_socket)"

definition writePEM :: "pem_encoder \<Rightarrow> write_env \<Rightarrow> string \<Rightarrow> string \<Rightarrow> string \<Rightarrow> nat \<Rightarrow> fs \<Rightarrow> err option \<times> fs" where
  "writePEM pem w path blockType der perm f = AtomicWrite w path (pem blockType der) perm f"

record boot_env =
  bt_keys :: "err option"
  bt_socket :: "err option"
  bt_uuid :: string
  bt_node_write :: write_env
  bt_rsa :: "err + key_material"
  bt_serial :: "err + nat"
  bt_cert_now :: "gotime \<times> gotime"
  bt_priv_write :: write_env
  bt_pub_write :: write_env
  bt_cert_write :: write_env
  bt_cert_read :: "err option"
  bt_call :: call_env

definition GenerateKeyPair :: "pem_encoder \<Rightarrow> os_env \<Rightarrow> boot_env \<Rightarrow> string \<Rightarrow> fs \<Rightarrow> err option \<times> fs" where
  "GenerateKeyPair pem e bt commonName f =
     (if f (PrivateKeyPath e) \<noteq> None then (Some (ErrMsg ''key material already exists; refusing to overwrite''), f)
      else case EnsureDataDir (bt_keys bt) (bt_socket bt) of Some x \<Rightarrow> (Some x, f) | None \<Rightarrow>
      (case bt_rsa bt of Inl x \<Rightarrow> (Some (ErrWrap ''generate rsa key'' x), f) | Inr key \<Rightarrow>
      (case writePEM pem (bt_priv_write bt) (PrivateKeyPath e) ''RSA PRIVATE KEY'' (km_priv key) 384 f of
         (Some x, f1) \<Rightarrow> (Some x, f1)
       | (None, f1) \<Rightarrow>
      (case km_pub key of Inl x \<Rightarrow> (Some x, f1) | Inr pubDER \<Rightarrow>
      (case writePEM pem (bt_pub_write bt) (PublicKeyPath e) ''PUBLIC KEY'' pubDER 420 f1 of
         (Some x, f2) \<Rightarrow> (Some x, f2)
       | (None, f2) \<Rightarrow>
      (case buildSelfSignedCert (km_cert key) (bt_serial bt) (fst (bt_cert_now bt)) (snd (bt_cert_now bt)) commonName of Inl x \<Rightarrow> (Some x, f2) | Inr certDER \<Rightarrow>
         writePEM pem (bt_cert_write bt) (CertFilePath e) ''CERTIFICATE'' certDER 420 f2))))))"

definition LoadCertPEM :: "os_env \<Rightarrow> err option \<Rightarrow> fs \<Rightarrow> err + string" where
  "LoadCertPEM e read_err f =
     (case read_err of Some x \<Rightarrow> Inl x | None \<Rightarrow>
      (case f (CertFilePath e) of None \<Rightarrow> Inl (ErrLib ''no such file or directory'') | Some raw \<Rightarrow> Inr (f_data raw)))"

text \<open>\<open>LoadPrivateKey\<close>: the decoders of PEM blocks (type and bytes) and of the two key formats; a
  PKCS 8 key that is not RSA is \<open>None\<close>.\<close>

record key_parsers =
  kp_pem :: "string \<Rightarrow> (string \<times> string) option"
  kp_pkcs1 :: "string \<Rightarrow> err + string"
  kp_pkcs8 :: "string \<Rightarrow> err + string option"

definition LoadPrivateKey :: "key_parsers \<Rightarrow> os_env \<Rightarrow> err option \<Rightarrow> fs \<Rightarrow> err + string" where
  "LoadPrivateKey P e read_err f =
     (case read_err of Some x \<Rightarrow> Inl x | None \<Rightarrow>
      (case f (PrivateKeyPath e) of None \<Rightarrow> Inl (ErrLib ''no such file or directory'') | Some raw \<Rightarrow>
      (case kp_pem P (f_data raw) of None \<Rightarrow> Inl (ErrMsg ''private key: no PEM block'') | Some (ty, bytes) \<Rightarrow>
        (if ty = ''RSA PRIVATE KEY'' then kp_pkcs1 P bytes
         else if ty = ''PRIVATE KEY'' then
           (case kp_pkcs8 P bytes of
              Inl x \<Rightarrow> Inl x
            | Inr None \<Rightarrow> Inl (ErrMsg ''private key: not RSA'')
            | Inr (Some k) \<Rightarrow> Inr k)
         else Inl (ErrNotFound ''private key: unexpected PEM type'' ty)))))"

section \<open>bootstrapNode\<close>

definition self_peer :: "NodeConfig \<Rightarrow> string \<Rightarrow> string \<Rightarrow> PeerInfo" where
  "self_peer n fp certPEM = \<lparr>pi_NodeID = nc_NodeID n, pi_Advertise = AdvertiseAddr n, pi_Fingerprint = fp, pi_CertPEM = certPEM\<rparr>"

definition boot_defaults :: "string \<Rightarrow> NodeConfig \<Rightarrow> NodeConfig" where
  "boot_defaults uuid cfg =
     (let cfg = (if nc_NodeID cfg = [] then cfg\<lparr>nc_NodeID := uuid\<rparr> else cfg);
          cfg = (if nc_BindAddr cfg = [] then cfg\<lparr>nc_BindAddr := ''0.0.0.0''\<rparr> else cfg)
      in (if nc_BindPort cfg = 0 then cfg\<lparr>nc_BindPort := 9901\<rparr> else cfg))"

definition bootstrapNode ::
  "pem_encoder \<Rightarrow> node_codec \<Rightarrow> daemon_env \<Rightarrow> boot_env \<Rightarrow> NodeConfig \<Rightarrow> fs \<Rightarrow> (err + NodeConfig) \<times> fs" where
  "bootstrapNode pem N D bt cfg f =
     (case EnsureDataDir (bt_keys bt) (bt_socket bt) of Some x \<Rightarrow> (Inl x, f) | None \<Rightarrow>
      (let cfg = boot_defaults (bt_uuid bt) cfg in
       case NodeConfig_Save N (dv_os D) (bt_node_write bt) cfg f of
         (Some x, f1) \<Rightarrow> (Inl (ErrWrap ''save node.yaml'' x), f1)
       | (None, f1) \<Rightarrow>
      (case GenerateKeyPair pem (dv_os D) bt (nc_NodeID cfg) f1 of
         (Some x, f2) \<Rightarrow> (Inl (ErrWrap ''generate keys'' x), f2)
       | (None, f2) \<Rightarrow>
      (case LoadCertPEM (dv_os D) (bt_cert_read bt) f2 of
         Inl x \<Rightarrow> (Inl (ErrWrap ''load cert'' x), f2)
       | Inr certPEM \<Rightarrow>
      (case FingerprintFromCertPEM (dv_pki D) certPEM of
         Inl x \<Rightarrow> (Inl (ErrWrap ''fingerprint own cert'' x), f2)
       | Inr fp \<Rightarrow>
      (case Mutate (dv_yaml D) (dv_os D) (bt_call bt) (nc_NodeID cfg) (\<lambda>c. (None, c\<lparr>cc_Peers := [self_peer cfg fp certPEM]\<rparr>))
              \<lparr>cs_cfg = zero_ClusterConfig, cs_lastSum = zero_sum, cs_onChange = [], cs_fs = f2\<rparr> of
         (Some x, s, _) \<Rightarrow> (Inl (ErrWrap ''seed cluster.yaml'' x), cs_fs s)
       | (None, s, _) \<Rightarrow> (Inr cfg, cs_fs s)))))))"

text \<open>\<open>autoInitIfNeeded\<close>; \<open>stat\<close> is the outcome of \<open>os.Stat\<close> on \<open>node.yaml\<close> when it fails for another
  reason than the file being absent.\<close>

definition autoInitIfNeeded ::
  "pem_encoder \<Rightarrow> node_codec \<Rightarrow> daemon_env \<Rightarrow> boot_env \<Rightarrow> err option \<Rightarrow> fs \<Rightarrow> err option \<times> fs" where
  "autoInitIfNeeded pem N D bt stat f =
     (case stat of
        Some x \<Rightarrow> (Some (ErrWrap ''stat node.yaml'' x), f)
      | None \<Rightarrow>
         (if f (NodeFilePath (dv_os D)) \<noteq> None then (None, f)
          else case ApplyEnvOverrides (dv_os D) zero_NodeConfig of
            (Some x, _) \<Rightarrow> (Some x, f)
          | (None, n) \<Rightarrow>
             (case bootstrapNode pem N D bt n f of
                (Inl x, f') \<Rightarrow> (Some (ErrWrap ''auto-init'' x), f')
              | (Inr _, f') \<Rightarrow> (None, f'))))"

text \<open>The \<open>RunE\<close> of \<open>qu init\<close>: flags given on the command line, then the environment, then the flags'
  defaults.\<close>

record init_flags =
  if_bind :: "string option"
  if_port :: "int option"
  if_advertise :: "string option"

definition init_node :: "os_env \<Rightarrow> init_flags \<Rightarrow> err + NodeConfig" where
  "init_node e fl =
     (let n = zero_NodeConfig;
          n = (case if_bind fl of Some v \<Rightarrow> n\<lparr>nc_BindAddr := v\<rparr> | None \<Rightarrow> n);
          n = (case if_port fl of Some v \<Rightarrow> n\<lparr>nc_BindPort := v\<rparr> | None \<Rightarrow> n);
          n = (case if_advertise fl of Some v \<Rightarrow> n\<lparr>nc_Advertise := v\<rparr> | None \<Rightarrow> n)
      in case ApplyEnvOverrides e n of
           (Some x, _) \<Rightarrow> Inl x
         | (None, n) \<Rightarrow>
            (let n = (if nc_BindAddr n = [] then n\<lparr>nc_BindAddr := (case if_bind fl of Some v \<Rightarrow> v | None \<Rightarrow> ''0.0.0.0'')\<rparr> else n)
             in Inr (if nc_BindPort n = 0 then n\<lparr>nc_BindPort := (case if_port fl of Some v \<Rightarrow> v | None \<Rightarrow> 9901)\<rparr> else n)))"

definition runInit ::
  "pem_encoder \<Rightarrow> node_codec \<Rightarrow> daemon_env \<Rightarrow> boot_env \<Rightarrow> init_flags \<Rightarrow> fs \<Rightarrow> (err + NodeConfig) \<times> fs" where
  "runInit pem N D bt fl f =
     (if f (NodeFilePath (dv_os D)) \<noteq> None then
        (Inl (ErrMsg (''node.yaml already exists in data dir '' @ emdash @ '' refusing to overwrite'')), f)
      else case init_node (dv_os D) fl of Inl x \<Rightarrow> (Inl x, f) | Inr n \<Rightarrow> bootstrapNode pem N D bt n f)"

section \<open>The probe\<close>

record PeerCertSample =
  sm_Cert :: cert
  sm_CertPEM :: string
  sm_Fingerprint :: string

text \<open>\<open>dial\<close> is the unverified TLS dial: the certificates the peer presents.\<close>

definition FetchPeerCert ::
  "pki \<Rightarrow> pem_encoder \<Rightarrow> (string \<Rightarrow> err + cert list) \<Rightarrow> string \<Rightarrow> string \<Rightarrow> err + PeerCertSample" where
  "FetchPeerCert K pem dial ownPEM addr =
     (case tlsCert K ownPEM of
        Inl e \<Rightarrow> Inl e
      | Inr own \<Rightarrow>
         (case dial addr of
            Inl e \<Rightarrow> Inl (ErrWrap (''dial '' @ addr) e)
          | Inr [] \<Rightarrow> Inl (ErrMsg ''peer presented no certificate'')
          | Inr (leaf # rest) \<Rightarrow>
             Inr \<lparr>sm_Cert = leaf, sm_CertPEM = pem ''CERTIFICATE'' (cert_Raw leaf), sm_Fingerprint = fingerprintOf K leaf\<rparr>))"

text \<open>The loop over the token's endpoints: the first whose certificate has the expected fingerprint.\<close>

fun pick_endpoint ::
  "pki \<Rightarrow> pem_encoder \<Rightarrow> (string \<Rightarrow> err + cert list) \<Rightarrow> string \<Rightarrow> EnrollEndpoint list \<Rightarrow> (EnrollEndpoint \<times> PeerCertSample) option" where
  "pick_endpoint K pem dial ownPEM [] = None"
| "pick_endpoint K pem dial ownPEM (ep # eps) =
     (case FetchPeerCert K pem dial ownPEM (ee_Advertise ep) of
        Inl e \<Rightarrow> pick_endpoint K pem dial ownPEM eps
      | Inr sample \<Rightarrow>
         (if sm_Fingerprint sample \<noteq> ee_Fingerprint ep then pick_endpoint K pem dial ownPEM eps
          else Some (ep, sample)))"

section \<open>runEnrollJoin\<close>

record join_env =
  jn_now :: gotime
  jn_boot :: boot_env
  jn_key_read :: "err option"
  jn_cert_read :: "err option"
  jn_trust_read :: "err option"
  jn_dial :: "string \<Rightarrow> err + cert list"
  jn_yes :: bool
  jn_answer :: string
  jn_add :: "nat \<Rightarrow> call_env"
  jn_wire :: "string \<Rightarrow> err + string list"
  jn_reply :: "EnrollRequest \<Rightarrow> err + EnrollResponse"
  jn_cluster_read :: "err option"
  jn_seed :: call_env

datatype join_outcome = JoinPending | JoinAccepted nat

text \<open>A request put on the wire: the address, the certificates the peer presented in the handshake of
  that connection, and the request.\<close>

type_synonym sent_requests = "(string \<times> string list \<times> EnrollRequest) list"

text \<open>\<open>client.Call\<close> on a fresh client: dial with the pinned configuration, then send.\<close>

definition pinned_call ::
  "daemon_env \<Rightarrow> join_env \<Rightarrow> string \<Rightarrow> string \<Rightarrow> string \<Rightarrow> EnrollRequest \<Rightarrow> trust_store \<Rightarrow> (err + EnrollResponse) \<times> sent_requests" where
  "pinned_call D jn ownPEM nodeID addr req st =
     (case ClientConfig (dv_pki D) (dv_ord D) ownPEM nodeID st of
        Inl e \<Rightarrow> (Inl e, [])
      | Inr (own, verify) \<Rightarrow>
         (case jn_wire jn addr of
            Inl e \<Rightarrow> (Inl (ErrWrap (''dial '' @ addr) e), [])
          | Inr rawCerts \<Rightarrow>
             (case verify rawCerts of
                Some e \<Rightarrow> (Inl (ErrWrap (''dial '' @ addr) e), [])
              | None \<Rightarrow> (jn_reply jn req, [(addr, rawCerts, req)]))))"

fun seed_peers :: "string list \<Rightarrow> PeerInfo list \<Rightarrow> PeerInfo list" where
  "seed_peers seen [] = []"
| "seed_peers seen (p # ps) =
     (if pi_NodeID p \<in> set seen then seed_peers seen ps else p # seed_peers (pi_NodeID p # seen) ps)"

definition seedJoinerClusterYaml ::
  "daemon_env \<Rightarrow> err option \<Rightarrow> call_env \<Rightarrow> NodeConfig \<Rightarrow> string \<Rightarrow> PeerInfo list \<Rightarrow> fs \<Rightarrow> err option \<times> fs" where
  "seedJoinerClusterYaml D read_err ce n myCertPEM peers f =
     (case FingerprintFromCertPEM (dv_pki D) myCertPEM of
        Inl x \<Rightarrow> (Some x, f)
      | Inr selfFP \<Rightarrow>
         (case LoadClusterConfig (dv_yaml D) (dv_os D) read_err f of
            Inl x \<Rightarrow> (Some x, f)
          | Inr cluster \<Rightarrow>
             (case Mutate (dv_yaml D) (dv_os D) ce (nc_NodeID n)
                     (\<lambda>c. (None, c\<lparr>cc_Peers := self_peer n selfFP myCertPEM # seed_peers [nc_NodeID n] peers\<rparr>)) cluster of
                (r, s, _) \<Rightarrow> (r, cs_fs s))))"

text \<open>The loop over the peers an accepted joiner is told: the trust store, the peers to seed and the
  number added. A peer whose fingerprint does not match its certificate is skipped.\<close>

definition entry_of_enrolled :: "EnrolledPeer \<Rightarrow> trust_entry" where
  "entry_of_enrolled p = \<lparr>te_NodeID = ep_NodeID p, te_Address = ep_Advertise p, te_Fingerprint = ep_Fingerprint p,
     te_PublicKeyPEM = [], te_CertPEM = ep_CertPEM p, te_AddedAt = 0\<rparr>"

fun trust_peers ::
  "daemon_env \<Rightarrow> (nat \<Rightarrow> call_env) \<Rightarrow> string \<Rightarrow> nat \<Rightarrow> EnrolledPeer list \<Rightarrow> trust_store \<Rightarrow> PeerInfo list \<times> nat \<times> trust_store" where
  "trust_peers D ce bootID n [] st = ([], 0, st)"
| "trust_peers D ce bootID n (p # ps) st =
     (if FingerprintFromCertPEM (dv_pki D) (ep_CertPEM p) \<noteq> Inr (ep_Fingerprint p) then trust_peers D ce bootID (Suc n) ps st
      else case trust_Add (dv_tyaml D) (dv_os D) (dv_ord D) (ce n) (entry_of_enrolled p) st of
        (Some e, st') \<Rightarrow> trust_peers D ce bootID (Suc n) ps st'
      | (None, st') \<Rightarrow>
         (case trust_peers D ce bootID (Suc n) ps st' of
            (peers, added, st'') \<Rightarrow>
              ((if ep_NodeID p \<noteq> bootID
                then [\<lparr>pi_NodeID = ep_NodeID p, pi_Advertise = ep_Advertise p, pi_Fingerprint = ep_Fingerprint p, pi_CertPEM = ep_CertPEM p\<rparr>]
                else []) @ peers, Suc added, st'')))"

text \<open>After the local identity exists: everything that needs the network. A failed seed is a warning.\<close>

definition confirmed :: "join_env \<Rightarrow> bool" where
  "confirmed jn \<longleftrightarrow> jn_yes jn \<or> (let ans = ToLower (TrimSpace (jn_answer jn)) in ans = ''y'' \<or> ans = ''yes'')"

definition enroll_at ::
  "pem_encoder \<Rightarrow> daemon_env \<Rightarrow> join_env \<Rightarrow> EnrollmentTokenPayload \<Rightarrow> NodeConfig \<Rightarrow> string \<Rightarrow> string \<Rightarrow>
     EnrollEndpoint \<Rightarrow> PeerCertSample \<Rightarrow> trust_store \<Rightarrow> (err + join_outcome) \<times> fs \<times> sent_requests" where
  "enroll_at pem D jn payload n myCertPEM myFP ep sample st =
     (let peerNodeID = cert_CommonName (sm_Cert sample) in
      if peerNodeID = [] then (Inl (ErrMsg ''cluster peer cert has empty CommonName; cannot identify it''), ts_fs st, [])
      else if \<not> confirmed jn then (Inl (ErrMsg ''aborted by operator''), ts_fs st, [])
      else case trust_Add (dv_tyaml D) (dv_os D) (dv_ord D) (jn_add jn 0)
                  \<lparr>te_NodeID = peerNodeID, te_Address = ee_Advertise ep, te_Fingerprint = sm_Fingerprint sample,
                   te_PublicKeyPEM = [], te_CertPEM = sm_CertPEM sample, te_AddedAt = 0\<rparr> st of
        (Some x, st1) \<Rightarrow> (Inl (ErrWrap ''trust bootstrap peer'' x), ts_fs st1, [])
      | (None, st1) \<Rightarrow>
      (case pinned_call D jn myCertPEM peerNodeID (ee_Advertise ep)
              \<lparr>er_TokenID = tp_ID payload, er_TokenSecret = tp_Secret payload, er_NodeID = nc_NodeID n,
               er_Advertise = AdvertiseAddr n, er_Fingerprint = myFP, er_CertPEM = myCertPEM\<rparr> st1 of
         (Inl x, sent) \<Rightarrow> (Inl (ErrWrap ''enroll'' x), ts_fs st1, sent)
       | (Inr resp, sent) \<Rightarrow>
      (let boot = \<lparr>pi_NodeID = peerNodeID, pi_Advertise = ee_Advertise ep, pi_Fingerprint = sm_Fingerprint sample,
                   pi_CertPEM = sm_CertPEM sample\<rparr> in
       if en_Error resp \<noteq> [] then (Inl (ErrMsg (''cluster rejected enrollment: '' @ en_Error resp)), ts_fs st1, sent)
       else if en_Pending resp then
         (Inr JoinPending, snd (seedJoinerClusterYaml D (jn_cluster_read jn) (jn_seed jn) n myCertPEM [boot] (ts_fs st1)), sent)
       else if \<not> en_Accepted resp then (Inl (ErrMsg ''cluster returned neither accepted nor pending''), ts_fs st1, sent)
       else (case trust_peers D (jn_add jn) peerNodeID 1 (EnrollSummaryPeers (en_Cluster resp)) st1 of
               (peers, added, st2) \<Rightarrow>
                 (Inr (JoinAccepted added),
                  snd (seedJoinerClusterYaml D (jn_cluster_read jn) (jn_seed jn) n myCertPEM (boot # peers) (ts_fs st2)), sent)))))"

definition runEnrollJoin ::
  "pem_encoder \<Rightarrow> node_codec \<Rightarrow> key_parsers \<Rightarrow> daemon_env \<Rightarrow> token_json \<Rightarrow> join_env \<Rightarrow> string \<Rightarrow> NodeConfig \<Rightarrow> fs \<Rightarrow>
     (err + join_outcome) \<times> fs \<times> sent_requests" where
  "runEnrollJoin pem N P D T jn tokenStr flags f =
     (if f (NodeFilePath (dv_os D)) \<noteq> None then
        (Inl (ErrMsg (''node.yaml already exists at '' @ NodeFilePath (dv_os D) @ '' '' @ emdash @
                      '' refusing to overwrite; wipe the data dir first to re-enroll'')), f, [])
      else case DecodeEnrollmentToken T tokenStr of Inl x \<Rightarrow> (Inl (ErrWrap ''decode token'' x), f, []) | Inr payload \<Rightarrow>
      (if tp_ExpiresAt payload \<noteq> 0 \<and> jn_now jn > tp_ExpiresAt payload then
         (Inl (ErrMsg (''token has already expired '' @ emdash @ '' ask the cluster operator for a fresh one'')), f, [])
       else case bootstrapNode pem N D (jn_boot jn) flags f of
         (Inl x, f1) \<Rightarrow> (Inl (ErrWrap ''bootstrap local identity'' x), f1, [])
       | (Inr n, f1) \<Rightarrow>
      (case LoadPrivateKey P (dv_os D) (jn_key_read jn) f1 of Inl x \<Rightarrow> (Inl (ErrWrap ''load private key'' x), f1, []) | Inr priv \<Rightarrow>
      (case LoadCertPEM (dv_os D) (jn_cert_read jn) f1 of Inl x \<Rightarrow> (Inl (ErrWrap ''load cert'' x), f1, []) | Inr myCertPEM \<Rightarrow>
      (case FingerprintFromCertPEM (dv_pki D) myCertPEM of Inl x \<Rightarrow> (Inl (ErrWrap ''fingerprint own cert'' x), f1, []) | Inr myFP \<Rightarrow>
      (case trust_Load (dv_tyaml D) (dv_os D) (jn_trust_read jn) f1 of Inl x \<Rightarrow> (Inl (ErrWrap ''load trust.yaml'' x), f1, []) | Inr st \<Rightarrow>
      (case pick_endpoint (dv_pki D) pem (jn_dial jn) myCertPEM (tp_Endpoints payload) of
         None \<Rightarrow> (Inl (ErrMsg (''no token endpoint answered with the expected fingerprint '' @ emdash @
                              '' token may be stale or the cluster has rotated certs'')), f1, [])
       | Some (ep, sample) \<Rightarrow> enroll_at pem D jn payload n myCertPEM myFP ep sample st)))))))"

section \<open>Lemmas\<close>

lemma pick_endpoint_ok:
  "pick_endpoint K pem dial own eps = Some (ep, sample) \<Longrightarrow>
     ep \<in> set eps \<and> sm_Fingerprint sample = ee_Fingerprint ep \<and> FetchPeerCert K pem dial own (ee_Advertise ep) = Inr sample"
  by (induction eps) (auto split: sum.splits if_splits)

lemma FetchPeerCert_fingerprint: "FetchPeerCert K pem dial own addr = Inr sample \<Longrightarrow> sm_Fingerprint sample \<noteq> []"
  by (auto simp: FetchPeerCert_def fingerprintOf_def split: sum.splits list.splits)

lemma trust_Load_wf: "trust_Load L e x f = Inr st \<Longrightarrow> trust_wf (ts_entries st)"
  using trust.wf_fold_put [of "[]"] by (auto simp: trust_Load_def split: option.splits sum.splits)

lemma pinned_call_sent:
  assumes "pinned_call D jn own nodeID addr req st = (r, sent)" and "x \<in> set sent" and "nodeID \<noteq> []"
  shows "sent = [x] \<and> (\<exists>raws. x = (addr, raws, req) \<and> makeStrictVerifier (dv_pki D) nodeID st raws = None)"
  using assms by (auto simp: pinned_call_def ClientConfig_def split: sum.splits option.splits prod.splits)

lemma strict_verifier_leaf:
  assumes "makeStrictVerifier K n st raws = None" and "trust_Get n st = Some entry"
  shows "\<exists>raw rest c. raws = raw # rest \<and> pk_der K raw = Inr c \<and> Fingerprint K c = te_Fingerprint entry"
  using assms by (auto simp: makeStrictVerifier_def fingerprintOf_eq Let_def split: list.splits sum.splits if_splits)

lemma enroll_at_sent:
  assumes "enroll_at pem D jn payload n own fp ep sample st = (r, f', sent)" and x: "x \<in> set sent"
    and wf: "trust_wf (ts_entries st)" and ne: "sm_Fingerprint sample \<noteq> []"
  shows "sent = [x] \<and> confirmed jn \<and> er_TokenSecret (snd (snd x)) = tp_Secret payload \<and> fst x = ee_Advertise ep \<and>
     (\<exists>raw rest c. fst (snd x) = raw # rest \<and> pk_der (dv_pki D) raw = Inr c \<and> Fingerprint (dv_pki D) c = sm_Fingerprint sample)"
proof -
  let ?n = "cert_CommonName (sm_Cert sample)"
  let ?e = "\<lparr>te_NodeID = ?n, te_Address = ee_Advertise ep, te_Fingerprint = sm_Fingerprint sample,
      te_PublicKeyPEM = [], te_CertPEM = sm_CertPEM sample, te_AddedAt = 0\<rparr>"
  let ?req = "\<lparr>er_TokenID = tp_ID payload, er_TokenSecret = tp_Secret payload, er_NodeID = nc_NodeID n,
      er_Advertise = AdvertiseAddr n, er_Fingerprint = fp, er_CertPEM = own\<rparr>"
  obtain a st1 where add: "trust_Add (dv_tyaml D) (dv_os D) (dv_ord D) (jn_add jn 0) ?e st = (a, st1)" by fastforce
  obtain r1 sent1 where call: "pinned_call D jn own ?n (ee_Advertise ep) ?req st1 = (r1, sent1)" by fastforce
  from assms(1) x add call have c: "?n \<noteq> []" "confirmed jn" "sent = sent1"
    by (auto simp: enroll_at_def Let_def split: if_splits option.splits sum.splits prod.splits)
  have get: "\<exists>entry. trust_Get ?n st1 = Some entry \<and> te_Fingerprint entry = sm_Fingerprint sample"
    using trust_Add_entries(2) [where x = ?e and s = st and L = "dv_tyaml D" and e = "dv_os D" and ord = "dv_ord D"
        and env = "jn_add jn 0" and k = ?n] c(1) ne wf add by auto
  from pinned_call_sent [OF call _ c(1)] x c(3) obtain raws where
    s: "sent1 = [x]" "x = (ee_Advertise ep, raws, ?req)" "makeStrictVerifier (dv_pki D) ?n st1 raws = None" by blast
  with get strict_verifier_leaf [OF s(3)] show ?thesis using c by fastforce
qed

section \<open>Properties\<close>

text \<open>C14. The joiner gives its token's secret to nobody but the cluster the token names. \<open>qu enroll join\<close>
  sends at most one request; if it sends one, then this node had no identity before, the token was
  well formed and not expired, the operator confirmed (or waived the question), and the address is
  an endpoint of the token whose certificate, presented on the very connection that carries the
  request, has the fingerprint the token lists for that endpoint.\<close>

theorem join_secret_pinned:
  assumes run: "runEnrollJoin pem N P D T jn tok flags f = (r, f', sent)" and x: "(addr, raws, req) \<in> set sent"
  shows "length sent = 1 \<and> f (NodeFilePath (dv_os D)) = None \<and>
     (\<exists>p ep raw rest c. DecodeEnrollmentToken T tok = Inr p \<and> (tp_ExpiresAt p = 0 \<or> jn_now jn \<le> tp_ExpiresAt p) \<and> confirmed jn \<and>
        er_TokenSecret req = tp_Secret p \<and> ep \<in> set (tp_Endpoints p) \<and> addr = ee_Advertise ep \<and>
        raws = raw # rest \<and> pk_der (dv_pki D) raw = Inr c \<and> Fingerprint (dv_pki D) c = ee_Fingerprint ep)"
proof -
  obtain p n own fp st ep sample f1 where new: "f (NodeFilePath (dv_os D)) = None" and dec: "DecodeEnrollmentToken T tok = Inr p"
    and live: "tp_ExpiresAt p = 0 \<or> jn_now jn \<le> tp_ExpiresAt p"
    and st: "trust_Load (dv_tyaml D) (dv_os D) (jn_trust_read jn) f1 = Inr st"
    and pick: "pick_endpoint (dv_pki D) pem (jn_dial jn) own (tp_Endpoints p) = Some (ep, sample)"
    and at: "enroll_at pem D jn p n own fp ep sample st = (r, f', sent)"
    using run x by (auto simp: runEnrollJoin_def Let_def split: if_splits sum.splits prod.splits option.splits)
  have wf: "trust_wf (ts_entries st)" by (rule trust_Load_wf [OF st])
  note ep = pick_endpoint_ok [OF pick]
  have "sm_Fingerprint sample \<noteq> []" using ep FetchPeerCert_fingerprint by blast
  from enroll_at_sent [OF at x wf this] new dec live ep show ?thesis by auto
qed

text \<open>A join that goes through to approval on the spot.\<close>

definition jn_denv :: daemon_env where
  "jn_denv = (demo_denv demo_cluster)\<lparr>dv_yaml := (demo_codec demo_cluster)\<lparr>yaml_Marshal := (\<lambda>_. Inr ''yaml'')\<rparr>,
     dv_tyaml := demo_trust_codec\<lparr>tyaml_Marshal := (\<lambda>_. Inr ''trust'')\<rparr>\<rparr>"

definition jn_codec :: node_codec where
  "jn_codec = \<lparr>nyaml_Marshal = (\<lambda>n. Inr (nc_NodeID n)), nyaml_Unmarshal = (\<lambda>s. Inr (zero_NodeConfig\<lparr>nc_NodeID := s\<rparr>))\<rparr>"

definition jn_parsers :: key_parsers where
  "jn_parsers = \<lparr>kp_pem = (\<lambda>s. Some (''RSA PRIVATE KEY'', s)), kp_pkcs1 = Inr, kp_pkcs8 = (\<lambda>_. Inr None)\<rparr>"

definition jn_payload :: EnrollmentTokenPayload where
  "jn_payload = \<lparr>tp_ID = ''t9'', tp_Secret = ''s3cret'',
     tp_Endpoints = [\<lparr>ee_Advertise = ''a:9901'', ee_Fingerprint = Fingerprint demo_pki \<lparr>cert_SPKI = ''a'', cert_CommonName = ''a'', cert_Raw = ''a''\<rparr>\<rparr>],
     tp_ExpiresAt = 100\<rparr>"

definition jn_token :: token_json where
  "jn_token = \<lparr>tj_Marshal = (\<lambda>_. Inr ''tok''), tj_Unmarshal = (\<lambda>_. Inr jn_payload)\<rparr>"

definition jn_boot0 :: boot_env where
  "jn_boot0 = \<lparr>bt_keys = None, bt_socket = None, bt_uuid = ''d'', bt_node_write = io_good,
     bt_rsa = Inr \<lparr>km_priv = ''priv-d'', km_pub = Inr ''pub-d'', km_cert = (\<lambda>t. Inr (tm_CommonName t))\<rparr>, bt_serial = Inr 1, bt_cert_now = (0, 0), bt_priv_write = io_good,
     bt_pub_write = io_good, bt_cert_write = io_good, bt_cert_read = None, bt_call = demo_call\<rparr>"

definition jn_env :: join_env where
  "jn_env = \<lparr>jn_now = 50, jn_boot = jn_boot0, jn_key_read = None, jn_cert_read = None, jn_trust_read = None,
     jn_dial = (\<lambda>_. Inr [\<lparr>cert_SPKI = ''a'', cert_CommonName = ''a'', cert_Raw = ''a''\<rparr>]), jn_yes = True, jn_answer = [],
     jn_add = (\<lambda>_. demo_call), jn_wire = (\<lambda>_. Inr [''a'']),
     jn_reply = (\<lambda>_. Inr \<lparr>en_Accepted = True, en_Pending = False, en_Error = [], en_Cluster = None\<rparr>),
     jn_cluster_read = None, jn_seed = demo_call\<rparr>"

lemma demo_env_paths:
  "NodeFilePath demo_env = ''/etc/quptime/node.yaml''" "ClusterFilePath demo_env = ''/etc/quptime/cluster.yaml''"
  "TrustFilePath demo_env = ''/etc/quptime/trust.yaml''" "PrivateKeyPath demo_env = ''/etc/quptime/keys/private.pem''"
  "PublicKeyPath demo_env = ''/etc/quptime/keys/public.pem''" "CertFilePath demo_env = ''/etc/quptime/keys/cert.pem''"
  by code_simp+

lemma AtomicWrite_io_good: "path \<noteq> [] \<Longrightarrow> AtomicWrite io_good path data perm f =
    (None, f(tmp_name path io_good := None, path \<mapsto> \<lparr>f_data = data, f_perm = perm\<rparr>))"
  using AtomicWrite_good [of path data perm f] AtomicWrite_ok [of io_good path data perm f]
  by (cases "AtomicWrite io_good path data perm f") auto

lemma jn_simps [simp]:
  "dv_os jn_denv = demo_env" "dv_pki jn_denv = demo_pki" "yaml_Marshal (dv_yaml jn_denv) c = Inr ''yaml''"
  "tyaml_Marshal (dv_tyaml jn_denv) es = Inr ''trust''" "nyaml_Marshal jn_codec n = Inr (nc_NodeID n)"
  "ce_write demo_call = io_good"
  by (simp_all add: jn_denv_def demo_denv_def jn_codec_def demo_call_def)

lemma write_config_io_good:
  "ce_write env = io_good \<Longrightarrow> yaml_Marshal L (cs_cfg s) = Inr out \<Longrightarrow>
    write_config L e env s = (None, s\<lparr>cs_fs := (cs_fs s)(tmp_name (ClusterFilePath e) io_good := None,
       ClusterFilePath e \<mapsto> \<lparr>f_data = out, f_perm = 384\<rparr>), cs_lastSum := sha256 L out\<rparr>)"
  by (simp add: write_config_def AtomicWrite_io_good ClusterFilePath_def)

lemma tmp_rand_io_good: "tmp_rand io_good = ''1''"
  by (simp add: io_good_def)

definition jn_booted :: fs where
  "jn_booted = snd (bootstrapNode (\<lambda>ty der. der) jn_codec jn_denv jn_boot0 zero_NodeConfig (\<lambda>_. None))"

lemma jn_boot:
  "bootstrapNode (\<lambda>ty der. der) jn_codec jn_denv jn_boot0 zero_NodeConfig (\<lambda>_. None) =
     (Inr \<lparr>nc_NodeID = ''d'', nc_BindAddr = ''0.0.0.0'', nc_BindPort = 9901, nc_Advertise = [], nc_ClusterSecret = []\<rparr>, jn_booted)"
  "jn_booted ''/etc/quptime/keys/private.pem'' = Some \<lparr>f_data = ''priv-d'', f_perm = 384\<rparr>"
  "jn_booted ''/etc/quptime/keys/cert.pem'' = Some \<lparr>f_data = ''d'', f_perm = 420\<rparr>"
  "jn_booted ''/etc/quptime/trust.yaml'' = None"
  by (simp_all add: jn_booted_def bootstrapNode_def EnsureDataDir_def jn_boot0_def boot_defaults_def zero_NodeConfig_def NodeConfig_Save_def
      GenerateKeyPair_def buildSelfSignedCert_def writePEM_def AtomicWrite_io_good demo_env_paths LoadCertPEM_def FingerprintFromCertPEM_def demo_pki_def
      Mutate_cases write_config_io_good tmp_name_def tmp_rand_io_good Let_def)

lemma jn_accepted:
  "\<exists>f' raws req. runEnrollJoin (\<lambda>ty der. der) jn_codec jn_parsers jn_denv jn_token jn_env [] zero_NodeConfig (\<lambda>_. None) =
     (Inr (JoinAccepted 0), f', [(''a:9901'', raws, req)])"
proof -
  have tok: "DecodeEnrollmentToken jn_token [] = Inr jn_payload"
    by (simp add: DecodeEnrollmentToken_def jn_token_def jn_payload_def b64_DecodeString_def)
  have probe: "pick_endpoint demo_pki (\<lambda>ty der. der) (jn_dial jn_env) ''d'' (tp_Endpoints jn_payload) =
      Some (\<lparr>ee_Advertise = ''a:9901'', ee_Fingerprint = Fingerprint demo_pki \<lparr>cert_SPKI = ''a'', cert_CommonName = ''a'', cert_Raw = ''a''\<rparr>\<rparr>,
        \<lparr>sm_Cert = \<lparr>cert_SPKI = ''a'', cert_CommonName = ''a'', cert_Raw = ''a''\<rparr>, sm_CertPEM = ''a'',
         sm_Fingerprint = Fingerprint demo_pki \<lparr>cert_SPKI = ''a'', cert_CommonName = ''a'', cert_Raw = ''a''\<rparr>\<rparr>)"
    by (simp add: jn_payload_def jn_env_def FetchPeerCert_def tlsCert_def demo_pki_def fingerprintOf_eq)
  have mine: "FingerprintFromCertPEM demo_pki ''d'' = Inr (Fingerprint demo_pki \<lparr>cert_SPKI = ''d'', cert_CommonName = ''d'', cert_Raw = ''d''\<rparr>)"
    by (simp add: FingerprintFromCertPEM_def demo_pki_def)
  have boot: "bootstrapNode (\<lambda>ty der. der) jn_codec jn_denv (jn_boot jn_env) zero_NodeConfig (\<lambda>_. None) =
     (Inr \<lparr>nc_NodeID = ''d'', nc_BindAddr = ''0.0.0.0'', nc_BindPort = 9901, nc_Advertise = [], nc_ClusterSecret = []\<rparr>, jn_booted)"
    using jn_boot(1) by (simp add: jn_env_def)
  have env: "jn_now jn_env = 50" "tp_ExpiresAt jn_payload = 100" "jn_key_read jn_env = None" "jn_cert_read jn_env = None"
    "jn_trust_read jn_env = None" "confirmed jn_env" "jn_add jn_env n = demo_call" "jn_wire jn_env a = Inr [''a'']"
    "jn_reply jn_env rq = Inr \<lparr>en_Accepted = True, en_Pending = False, en_Error = [], en_Cluster = None\<rparr>" for n a rq
    by (simp_all add: jn_env_def jn_payload_def confirmed_def)
  have pki: "pk_der demo_pki s = Inr \<lparr>cert_SPKI = s, cert_CommonName = s, cert_Raw = s\<rparr>" "pk_pem demo_pki s = Some s" for s
    by (simp_all add: demo_pki_def)
  show ?thesis
    by (simp add: runEnrollJoin_def demo_env_paths tok env boot LoadPrivateKey_def jn_parsers_def LoadCertPEM_def jn_boot(2-4) mine
        trust_Load_def probe enroll_at_def Let_def trust_Add_def trust_Save_def AtomicWrite_io_good
        pinned_call_def ClientConfig_def tlsCert_def pki makeStrictVerifier_def fingerprintOf_eq trust_Get_def trust_put_def
        EnrollSummaryPeers_def)
qed

theorem join_secret_pinned_witness:
  "\<exists>f' raws req. runEnrollJoin (\<lambda>ty der. der) jn_codec jn_parsers jn_denv jn_token jn_env [] zero_NodeConfig (\<lambda>_. None) =
     (Inr (JoinAccepted 0), f', [(''a:9901'', raws, req)]) \<and> er_TokenSecret req = ''s3cret'' \<and> (\<exists>raw rest. raws = raw # rest)"
proof -
  obtain f' raws req where run: "runEnrollJoin (\<lambda>ty der. der) jn_codec jn_parsers jn_denv jn_token jn_env [] zero_NodeConfig (\<lambda>_. None) =
     (Inr (JoinAccepted 0), f', [(''a:9901'', raws, req)])" using jn_accepted by blast
  have tok: "DecodeEnrollmentToken jn_token [] = Inr jn_payload"
    by (simp add: DecodeEnrollmentToken_def jn_token_def jn_payload_def b64_DecodeString_def)
  have "(''a:9901'', raws, req) \<in> set [(''a:9901'', raws, req)]" by simp
  from join_secret_pinned [OF run this] obtain p raw rest where p: "DecodeEnrollmentToken jn_token [] = Inr p"
    and req: "er_TokenSecret req = tp_Secret p" and raws: "raws = raw # rest" by blast
  have "p = jn_payload" using p tok by simp
  with req have "er_TokenSecret req = ''s3cret''" by (simp add: jn_payload_def)
  with run raws show ?thesis by blast
qed

text \<open>\<open>qu init\<close> applies the environment after the flags: a bind address given on the command line is
  overwritten by \<open>QUPTIME_BIND_ADDR\<close>, although the comment there says that flags win.\<close>

lemma env_bind_wins:
  "ApplyEnvOverrides e n = (None, m) \<Longrightarrow> Getenv e ''QUPTIME_BIND_ADDR'' \<noteq> [] \<Longrightarrow> nc_BindAddr m = Getenv e ''QUPTIME_BIND_ADDR''"
  by (auto simp: ApplyEnvOverrides_eq layered_def Let_def split: if_splits option.splits)

lemma init_flag_loses_to_env:
  assumes "Getenv e ''QUPTIME_BIND_ADDR'' \<noteq> []" and "init_node e fl = Inr n"
  shows "nc_BindAddr n = Getenv e ''QUPTIME_BIND_ADDR''"
proof -
  obtain n0 m where "ApplyEnvOverrides e n0 = (None, m)" and n: "n = (let n = (if nc_BindAddr m = [] then m\<lparr>nc_BindAddr := (case if_bind fl of Some v \<Rightarrow> v | None \<Rightarrow> ''0.0.0.0'')\<rparr> else m)
             in (if nc_BindPort n = 0 then n\<lparr>nc_BindPort := (case if_port fl of Some v \<Rightarrow> v | None \<Rightarrow> 9901)\<rparr> else n))"
    using assms(2) unfolding init_node_def Let_def by (auto split: prod.splits option.splits)
  with env_bind_wins [OF _ assms(1)] assms(1) show ?thesis by (auto simp: Let_def)
qed

lemma bootstrap_existing_key:
  assumes "f (PrivateKeyPath (dv_os D)) = Some k" and "PrivateKeyPath (dv_os D) \<noteq> NodeFilePath (dv_os D)"
    and "PrivateKeyPath (dv_os D) \<noteq> tmp_name (NodeFilePath (dv_os D)) (bt_node_write bt)"
    and "bootstrapNode pem N D bt cfg f = (r, f')"
  shows "f' (PrivateKeyPath (dv_os D)) = Some k \<and> (\<exists>x. r = Inl x)"
proof -
  obtain a f1 where save: "NodeConfig_Save N (dv_os D) (bt_node_write bt) (boot_defaults (bt_uuid bt) cfg) f = (a, f1)" by fastforce
  have f1: "f1 (PrivateKeyPath (dv_os D)) = Some k"
  proof (cases a)
    case None
    with save assms(1-3) show ?thesis by (auto simp: NodeConfig_Save_def dest!: AtomicWrite_ok split: sum.splits)
  next
    case (Some x)
    with save assms(1-3) show ?thesis by (auto simp: NodeConfig_Save_def AtomicWrite_err split: sum.splits)
  qed
  then have "GenerateKeyPair pem (dv_os D) bt (nc_NodeID (boot_defaults (bt_uuid bt) cfg)) f1 = (Some (ErrMsg ''key material already exists; refusing to overwrite''), f1)"
    by (simp add: GenerateKeyPair_def)
  with save f1 assms(1,4) show ?thesis
    by (cases a) (auto simp: bootstrapNode_def Let_def split: option.splits)
qed

text \<open>A node's identity is never overwritten. Where \<open>node.yaml\<close> exists, \<open>qu init\<close> and \<open>qu enroll join\<close>
  refuse and the automatic initialisation of \<open>qu serve\<close> does nothing, without touching any file or
  sending anything; and where a private key exists (its path being none of those the node file is
  written through), \<open>bootstrapNode\<close> fails and leaves it in place.\<close>

theorem identity_kept:
  assumes "PrivateKeyPath (dv_os D) \<noteq> NodeFilePath (dv_os D)"
    and "PrivateKeyPath (dv_os D) \<noteq> tmp_name (NodeFilePath (dv_os D)) (bt_node_write bt)"
  shows "(f (NodeFilePath (dv_os D)) \<noteq> None \<longrightarrow>
        (\<exists>x. runInit pem N D bt fl f = (Inl x, f)) \<and> autoInitIfNeeded pem N D bt None f = (None, f) \<and>
        (\<exists>x. runEnrollJoin pem N P D T jn tok cfg f = (Inl x, f, []))) \<and>
     (\<forall>k. f (PrivateKeyPath (dv_os D)) = Some k \<longrightarrow>
        (\<exists>x f'. bootstrapNode pem N D bt cfg f = (Inl x, f') \<and> f' (PrivateKeyPath (dv_os D)) = Some k))"
proof -
  have "f (PrivateKeyPath (dv_os D)) = Some k \<Longrightarrow>
      \<exists>x f'. bootstrapNode pem N D bt cfg f = (Inl x, f') \<and> f' (PrivateKeyPath (dv_os D)) = Some k" for k
    using bootstrap_existing_key [OF _ assms] by (cases "bootstrapNode pem N D bt cfg f") blast
  then show ?thesis by (auto simp: runInit_def autoInitIfNeeded_def runEnrollJoin_def)
qed

theorem identity_kept_witness:
  "\<exists>x f'. bootstrapNode (\<lambda>ty der. der) jn_codec jn_denv jn_boot0 zero_NodeConfig
       [''/etc/quptime/keys/private.pem'' \<mapsto> \<lparr>f_data = ''old'', f_perm = 384\<rparr>] = (Inl x, f') \<and>
     f' ''/etc/quptime/keys/private.pem'' = Some \<lparr>f_data = ''old'', f_perm = 384\<rparr>"
proof -
  have "PrivateKeyPath (dv_os jn_denv) \<noteq> NodeFilePath (dv_os jn_denv)"
    and "PrivateKeyPath (dv_os jn_denv) \<noteq> tmp_name (NodeFilePath (dv_os jn_denv)) (bt_node_write jn_boot0)"
    by (simp_all add: demo_env_paths tmp_name_def jn_boot0_def)
  from identity_kept [OF this, where f = "[''/etc/quptime/keys/private.pem'' \<mapsto> \<lparr>f_data = ''old'', f_perm = 384\<rparr>]"
      and pem = "\<lambda>ty der. der" and N = jn_codec and cfg = zero_NodeConfig]
  show ?thesis by (simp add: demo_env_paths)
qed

end
