(* ===== verification/Onboard.thy ===== *)
theory Onboard
  imports Join Enroll
begin

text \<open>
  A node joins a cluster, both sides together: \<open>qu enroll join\<close> on the new machine (\<open>runEnrollJoin\<close> of
  \<open>internal/cli/enroll.go\<close>, theory \<open>Join\<close>) and the master that answers it (\<open>handleEnroll\<close> of
  \<open>internal/daemon/handlers.go\<close>, theory \<open>Enroll\<close>), each with its own disk, and the network between them.
\<close>

section \<open>The two sides\<close>

text \<open>The request goes to the daemon \<open>d\<close> when it is put on the wire; \<open>lost\<close> is the error the joiner gets
  instead of the answer when the connection breaks. The result: what the command returns, the
  joiner's disk, what was sent, and the daemon afterwards.\<close>

definition reply_of :: "daemon_env \<Rightarrow> enroll_env \<Rightarrow> daemon \<Rightarrow> err option \<Rightarrow> EnrollRequest \<Rightarrow> err + EnrollResponse" where
  "reply_of DC E d lost req = (case lost of Some e \<Rightarrow> Inl e | None \<Rightarrow> Inr (fst (handleEnroll DC E req d)))"

definition answered :: "daemon_env \<Rightarrow> enroll_env \<Rightarrow> sent_requests \<Rightarrow> daemon \<Rightarrow> daemon" where
  "answered DC E sent d = fold (\<lambda>(addr, raws, req) d. fst (snd (handleEnroll DC E req d))) sent d"

definition join_cluster ::
  "pem_encoder \<Rightarrow> node_codec \<Rightarrow> key_parsers \<Rightarrow> daemon_env \<Rightarrow> token_json \<Rightarrow> join_env \<Rightarrow> string \<Rightarrow> NodeConfig \<Rightarrow> fs \<Rightarrow>
     daemon_env \<Rightarrow> enroll_env \<Rightarrow> err option \<Rightarrow> daemon \<Rightarrow> (err + join_outcome) \<times> fs \<times> sent_requests \<times> daemon" where
  "join_cluster pem N P DJ T jn tok flags f DC E lost d =
     (case runEnrollJoin pem N P DJ T (jn\<lparr>jn_reply := reply_of DC E d lost\<rparr>) tok flags f of
        (r, f', sent) \<Rightarrow> (r, f', sent, answered DC E sent d))"

section \<open>The joiner's side\<close>

abbreviation boot_entry :: "EnrollEndpoint \<Rightarrow> PeerCertSample \<Rightarrow> trust_entry" where
  "boot_entry ep sample \<equiv> \<lparr>te_NodeID = cert_CommonName (sm_Cert sample), te_Address = ee_Advertise ep,
     te_Fingerprint = sm_Fingerprint sample, te_PublicKeyPEM = [], te_CertPEM = sm_CertPEM sample, te_AddedAt = 0\<rparr>"

abbreviation boot_peer :: "EnrollEndpoint \<Rightarrow> PeerCertSample \<Rightarrow> PeerInfo" where
  "boot_peer ep sample \<equiv> \<lparr>pi_NodeID = cert_CommonName (sm_Cert sample), pi_Advertise = ee_Advertise ep,
     pi_Fingerprint = sm_Fingerprint sample, pi_CertPEM = sm_CertPEM sample\<rparr>"

abbreviation join_request :: "EnrollmentTokenPayload \<Rightarrow> NodeConfig \<Rightarrow> string \<Rightarrow> string \<Rightarrow> EnrollRequest" where
  "join_request p n own fp \<equiv> \<lparr>er_TokenID = tp_ID p, er_TokenSecret = tp_Secret p, er_NodeID = nc_NodeID n,
     er_Advertise = AdvertiseAddr n, er_Fingerprint = fp, er_CertPEM = own\<rparr>"

lemma pinned_call_ok:
  "pinned_call D jn own nodeID addr req st = (Inr resp, sent) \<Longrightarrow>
     \<exists>raws. sent = [(addr, raws, req)] \<and> jn_reply jn req = Inr resp"
  by (auto simp: pinned_call_def split: sum.splits option.splits prod.splits)

lemma enroll_at_accepted:
  assumes "enroll_at pem D jn p n own fp ep sample st = (Inr (JoinAccepted added), f', sent)"
  shows "\<exists>st1 raws resp peers st2. trust_Add (dv_tyaml D) (dv_os D) (dv_ord D) (jn_add jn 0) (boot_entry ep sample) st = (None, st1) \<and>
     sent = [(ee_Advertise ep, raws, join_request p n own fp)] \<and> jn_reply jn (join_request p n own fp) = Inr resp \<and> en_Accepted resp \<and>
     trust_peers D (jn_add jn) (cert_CommonName (sm_Cert sample)) 1 (EnrollSummaryPeers (en_Cluster resp)) st1 = (peers, added, st2) \<and>
     f' = snd (seedJoinerClusterYaml D (jn_cluster_read jn) (jn_seed jn) n own (boot_peer ep sample # peers) (ts_fs st2))"
proof -
  let ?id = "cert_CommonName (sm_Cert sample)"
  obtain a st1 where add: "trust_Add (dv_tyaml D) (dv_os D) (dv_ord D) (jn_add jn 0) (boot_entry ep sample) st = (a, st1)" by fastforce
  obtain r1 sent1 where call: "pinned_call D jn own ?id (ee_Advertise ep) (join_request p n own fp) st1 = (r1, sent1)" by fastforce
  have a: "a = None" and "\<exists>resp. r1 = Inr resp"
    using assms add call by (auto simp: enroll_at_def Let_def split: if_splits option.splits sum.splits)
  then obtain resp where r1: "r1 = Inr resp" by blast
  obtain peers c st2 where tp: "trust_peers D (jn_add jn) ?id 1 (EnrollSummaryPeers (en_Cluster resp)) st1 = (peers, c, st2)"
    by (metis prod_cases3)
  have "sent = sent1 \<and> en_Accepted resp \<and> c = added \<and>
      f' = snd (seedJoinerClusterYaml D (jn_cluster_read jn) (jn_seed jn) n own (boot_peer ep sample # peers) (ts_fs st2))"
    using assms by (simp add: enroll_at_def Let_def add a call r1 tp [unfolded One_nat_def] split: if_splits)
  with pinned_call_ok [OF call [unfolded r1]] add a tp show ?thesis by blast
qed

lemma join_accepted_steps:
  assumes "runEnrollJoin pem N P D T jn tok flags f = (Inr (JoinAccepted added), f', sent)"
  shows "\<exists>p n own fp st ep sample. DecodeEnrollmentToken T tok = Inr p \<and> f (NodeFilePath (dv_os D)) = None \<and>
     FingerprintFromCertPEM (dv_pki D) own = Inr fp \<and> trust_wf (ts_entries st) \<and>
     enroll_at pem D jn p n own fp ep sample st = (Inr (JoinAccepted added), f', sent)"
proof -
  obtain p n own fp st ep sample f1 where "f (NodeFilePath (dv_os D)) = None" and "DecodeEnrollmentToken T tok = Inr p"
    and "FingerprintFromCertPEM (dv_pki D) own = Inr fp" and st: "trust_Load (dv_tyaml D) (dv_os D) (jn_trust_read jn) f1 = Inr st"
    and "enroll_at pem D jn p n own fp ep sample st = (Inr (JoinAccepted added), f', sent)"
    using assms by (auto simp: runEnrollJoin_def Let_def split: if_splits sum.splits prod.splits option.splits)
  with trust_Load_wf [OF st] show ?thesis by blast
qed

text \<open>The store in memory is the one on disk.\<close>

definition stored :: "daemon_env \<Rightarrow> trust_store \<Rightarrow> bool" where
  "stored D st \<longleftrightarrow> (\<exists>s. trust_Load (dv_tyaml D) (dv_os D) None (ts_fs st) = Inr s \<and> (\<forall>k. trust_Get k s = trust_Get k st))"

lemma trust_Add_stored:
  assumes yaml: "\<And>c out. tyaml_Marshal (dv_tyaml D) c = Inr out \<Longrightarrow> tyaml_Unmarshal (dv_tyaml D) out = Inr c"
    and ord: "\<And>xs. mset (dv_ord D xs) = mset xs" and wf: "trust_wf (ts_entries s)"
    and ok: "trust_Add (dv_tyaml D) (dv_os D) (dv_ord D) env x s = (None, s')"
  shows "stored D s' \<and> trust_wf (ts_entries s') \<and>
     (\<forall>k. trust_Get k s' = (if k = te_NodeID x then Some (if te_AddedAt x = 0 then x\<lparr>te_AddedAt := ce_now env\<rparr> else x) else trust_Get k s))"
proof -
  let ?x = "if te_AddedAt x = 0 then x\<lparr>te_AddedAt := ce_now env\<rparr> else x"
  let ?s = "s\<lparr>ts_entries := trust_put ?x (ts_entries s)\<rparr>"
  have ne: "te_NodeID x \<noteq> []" "te_Fingerprint x \<noteq> []"
    and save: "trust_Save (dv_tyaml D) (dv_os D) (dv_ord D) (ce_write env) ?s = (None, s')"
    using ok by (auto simp: trust_Add_def Let_def split: if_splits)
  have "trust_wf (ts_entries ?s)" using trust_wf_put [OF wf, of ?x] by simp
  from trust_Load_Save [OF yaml ord save this] have "stored D s'"
    using trust_Save_entries [of "dv_tyaml D" "dv_os D" "dv_ord D" "ce_write env" ?s] save
    by (auto simp: stored_def trust_Get_def)
  with trust_Add_entries [OF ne wf, where L = "dv_tyaml D" and e = "dv_os D" and ord = "dv_ord D" and env = env] ok show ?thesis by simp
qed

lemma trust_peers_count: "trust_peers D ce b n ps st = (peers, added, st') \<Longrightarrow> added \<le> length ps"
proof (induction ps arbitrary: n st peers added)
  case (Cons p ps)
  obtain r st1 where add: "trust_Add (dv_tyaml D) (dv_os D) (dv_ord D) (ce n) (entry_of_enrolled p) st = (r, st1)" by fastforce
  obtain ps1 a1 u1 where s: "trust_peers D ce b (Suc n) ps st = (ps1, a1, u1)" by (metis prod_cases3)
  obtain ps2 a2 u2 where t: "trust_peers D ce b (Suc n) ps st1 = (ps2, a2, u2)" by (metis prod_cases3)
  have "added = a1 \<and> u1 = st' \<or> added = a2 \<and> u2 = st' \<or> added = Suc a2 \<and> u2 = st'"
    using Cons.prems s t add by (cases r) (simp_all split: if_splits)
  with Cons.IH [of "Suc n" st ps1 a1] Cons.IH [of "Suc n" st1 ps2 a2] s t show ?case by auto
qed simp

text \<open>When every peer was added, each of them is in the store with its fingerprint, on disk too.\<close>

lemma trust_peers_all:
  assumes "trust_peers D ce b n ps st = (peers, length ps, st')" and "distinct (map ep_NodeID ps)"
    and "trust_wf (ts_entries st)" and "stored D st"
    and yaml: "\<And>c out. tyaml_Marshal (dv_tyaml D) c = Inr out \<Longrightarrow> tyaml_Unmarshal (dv_tyaml D) out = Inr c"
    and ord: "\<And>xs. mset (dv_ord D xs) = mset xs"
  shows "stored D st' \<and> (\<forall>p \<in> set ps. \<exists>x. trust_Get (ep_NodeID p) st' = Some x \<and> te_Fingerprint x = ep_Fingerprint p) \<and>
     (\<forall>k. k \<notin> ep_NodeID ` set ps \<longrightarrow> trust_Get k st' = trust_Get k st)"
  using assms(1-4)
proof (induction ps arbitrary: n st peers)
  case (Cons p ps)
  let ?x = "entry_of_enrolled p"
  have fits: "FingerprintFromCertPEM (dv_pki D) (ep_CertPEM p) = Inr (ep_Fingerprint p)"
    using Cons.prems(1) trust_peers_count [of D ce b "Suc n" ps st peers "length (p # ps)" st'] by (auto split: if_splits)
  obtain r st1 where add: "trust_Add (dv_tyaml D) (dv_os D) (dv_ord D) (ce n) ?x st = (r, st1)" by fastforce
  have r: "r = None"
    using Cons.prems(1) fits add trust_peers_count [of D ce b "Suc n" ps st1 peers "length (p # ps)" st'] by (cases r) auto
  obtain peers' where rest: "trust_peers D ce b (Suc n) ps st1 = (peers', length ps, st')"
    using Cons.prems(1) fits add r by (auto split: prod.splits)
  have ids: "te_NodeID ?x = ep_NodeID p" "te_Fingerprint ?x = ep_Fingerprint p" by (simp_all add: entry_of_enrolled_def)
  have st1: "stored D st1" "trust_wf (ts_entries st1)"
    "trust_Get k st1 = (if k = ep_NodeID p then Some (if te_AddedAt ?x = 0 then ?x\<lparr>te_AddedAt := ce_now (ce n)\<rparr> else ?x) else trust_Get k st)" for k
    using trust_Add_stored [OF yaml ord Cons.prems(3) add [unfolded r]] ids by simp_all
  have "distinct (map ep_NodeID ps)" "ep_NodeID p \<notin> ep_NodeID ` set ps" using Cons.prems(2) by auto
  with Cons.IH [OF rest _ st1(2,1)] st1(3) ids show ?case by auto
qed simp

text \<open>Writing \<open>cluster.yaml\<close> leaves \<open>trust.yaml\<close> alone.\<close>

lemma write_config_keeps_trust: "cs_fs (snd (write_config L e env s)) (TrustFilePath e) = cs_fs s (TrustFilePath e)"
proof (cases "yaml_Marshal L (cs_cfg s)")
  case (Inr out)
  obtain r f where w: "AtomicWrite (ce_write env) (ClusterFilePath e) out 384 (cs_fs s) = (r, f)" by fastforce
  have "f (TrustFilePath e) = cs_fs s (TrustFilePath e)"
    using w AtomicWrite_ok [of _ _ out 384 _ f] AtomicWrite_err [of _ _ out 384 _ _ f] data_files_distinct(1,2) [of e]
    by (cases r) (auto dest!: AtomicWrite_ok simp: AtomicWrite_err)
  with w Inr show ?thesis by (simp add: write_config_def split: option.split)
qed (simp add: write_config_def)

lemma Mutate_keeps_trust: "cs_fs (fst (snd (Mutate L e env who fn s))) (TrustFilePath e) = cs_fs s (TrustFilePath e)"
proof (cases "fn (cs_cfg s)")
  case (Pair r c)
  show ?thesis
    using write_config_keeps_trust [of L e env "s\<lparr>cs_cfg := bump env who c\<rparr>"]
    by (cases r; cases "write_config L e env (s\<lparr>cs_cfg := bump env who c\<rparr>)") (auto simp: Mutate_cases Pair split: option.split)
qed

lemma seed_keeps_trust:
  "snd (seedJoinerClusterYaml D re ce n own ps f) (TrustFilePath (dv_os D)) = f (TrustFilePath (dv_os D))"
proof -
  have "cs_fs s = f" if "LoadClusterConfig (dv_yaml D) (dv_os D) re f = Inr s" for s
    using that by (auto simp: LoadClusterConfig_def split: option.splits sum.splits)
  with Mutate_keeps_trust [of "dv_yaml D" "dv_os D" ce] show ?thesis
    by (auto simp: seedJoinerClusterYaml_def split: sum.split prod.splits) (metis fst_conv snd_conv)+
qed

section \<open>The cluster's side\<close>

lemma cfg_wf_applied:
  "apply_mutation J kind raw c = (None, c') \<Longrightarrow> kind \<noteq> MutationReplaceConfig \<Longrightarrow> cfg_wf c \<Longrightarrow> cfg_wf c'"
  using edit_wf_mutation [of J kind raw] by (force simp: payload_ok_def edit_wf_def)

lemma trusted_by_entry:
  assumes "\<And>xs. mset (ord xs) = mset xs" and "trust_Get k st = Some x" and "te_Fingerprint x = fp" and "fp \<noteq> []"
  shows "peerTrusted ord fp st"
proof -
  have "x \<in> set (map snd (ts_entries st))" using assms(2) unfolding trust_Get_def by (force dest: map_of_SomeD)
  then have "x \<in> set (trust_values ord (ts_entries st))" using assms(1) by (metis mset_eq_setD trust_values_def)
  then have "LookupByFingerprint ord fp st \<noteq> None"
    unfolding LookupByFingerprint_def find_None_ball using assms(3) by auto
  then show ?thesis using assms(4) by (auto simp: peerTrusted_def)
qed

lemma accepted_cluster:
  assumes wf: "cfg_wf (cs_cfg (d_cfg d))" and twf: "trust_wf (ts_entries (d_trust d))" and master: "IsMaster (d_quorum d)"
    and json: "\<And>x raw. jm_RecordPending (dv_enc D) x = Inr raw \<Longrightarrow> js_RecordPending (dv_json D) raw = Inr x"
      "\<And>t raw. jm_Target (dv_enc D) t = Inr raw \<Longrightarrow> js_Target (dv_json D) raw = Inr t"
    and names: "\<forall>e \<in> set (cc_PendingEnrollments (cs_cfg (d_cfg d))). pe_Name e \<noteq> er_TokenID req"
    and h: "handleEnroll D E req d = (resp, d', out)" and acc: "en_Accepted resp"
  shows "cfg_wf (cs_cfg (d_cfg d')) \<and> en_Cluster resp = NewEnrollSummary (enrollPeersForJoiner (er_NodeID req) d') \<and>
     row_get pi_NodeID (er_NodeID req) (cc_Peers (cs_cfg (d_cfg d'))) = Some (peer_of_join (join_of (ee_submit E) req)) \<and>
     FindEnrollmentByID (cs_cfg (d_cfg d')) (er_TokenID req) = None \<and> er_NodeID req \<noteq> [] \<and> er_Fingerprint req \<noteq> [] \<and>
     cc_Version (cs_cfg (d_cfg d')) = cc_Version (cs_cfg (d_cfg d)) + 2 \<and>
     (\<exists>x. trust_Get (er_NodeID req) (d_trust d') = Some x \<and> te_Fingerprint x = er_Fingerprint req)"
proof -
  let ?pj = "join_of (ee_submit E) req"
  obtain entry d1 out1 d2 out2 v1 v2 where chk: "enroll_check D (ee_check E) req (cs_cfg (d_cfg d)) = Inr entry"
    and rec: "record_join D (ee_record E) (pe_ID entry) ?pj d = (Inr v1, d1, out1)"
    and app: "approve_join D (ee_approve E) (pe_ID entry) d1 = (Inr v2, d2, out2)"
    and d': "d' = trust_joiner D (ee_trust E) ?pj d2" and told: "en_Cluster resp = NewEnrollSummary (enrollPeersForJoiner (er_NodeID req) d')"
    and m1: "IsMaster (d_quorum d1)"
    by (rule auto_approve_steps [OF master h acc])
  have ident: "pe_ID entry = er_TokenID req" and ne: "pj_NodeID ?pj \<noteq> []" "pj_Fingerprint ?pj \<noteq> []"
    using enroll_check_fields [OF chk] by simp_all
  note eff = auto_approve_config [OF wf master json names rec [unfolded ident] m1 app [unfolded ident]]
  have cfg: "cs_cfg (d_cfg d') = cs_cfg (d_cfg d2)" by (simp add: d')
  obtain raw1 c1 where 1: "apply_mutation (dv_json D) MutationRecordEnrollPending raw1 (cs_cfg (d_cfg d)) = (None, c1)"
      "cs_cfg (d_cfg d1) = bump (mu_call (ee_record E)) (self_of d) c1"
    by (rule record_join_config [OF rec master json(1)])
  obtain raw2 c2 where 2: "apply_mutation (dv_json D) MutationApproveEnrollment raw2 (cs_cfg (d_cfg d1)) = (None, c2)"
      "cs_cfg (d_cfg d2) = bump (mu_call (ee_approve E)) (self_of d1) c2"
    by (rule approve_join_config [OF app m1 json(2)])
  have "cfg_wf (cs_cfg (d_cfg d2))"
    using cfg_wf_applied [OF 1(1) _ wf] cfg_wf_applied [OF 2(1)] 1(2) 2(2) by simp
  moreover have "trust_wf (ts_entries (d_trust d2))"
    using daemon_mutate_frame [OF rec [unfolded record_join_def]] daemon_mutate_frame [OF app [unfolded approve_join_def]] twf by simp
  moreover from trust_joiner_get [OF this ne] have "\<exists>x. trust_Get (er_NodeID req) (d_trust d') = Some x \<and> te_Fingerprint x = er_Fingerprint req"
    by (auto simp: d')
  ultimately show ?thesis using eff told ne by (simp add: cfg)
qed

section \<open>Both sides\<close>

lemma pin_accepts:
  "trust_Get k st = Some x \<Longrightarrow> te_Fingerprint x = Fingerprint K c \<Longrightarrow> pk_der K raw = Inr c \<Longrightarrow> makeStrictVerifier K k st (raw # rest) = None"
  by (simp add: makeStrictVerifier_def fingerprintOf_eq)

text \<open>What the joiner's store lets it dial, when it has added every peer it was told.\<close>

lemma joiner_store:
  assumes tp: "trust_peers DJ ce b m (enrollPeersForJoiner j d') st1 = (peers, length (enrollPeersForJoiner j d'), st2)"
    and wf: "cfg_wf (cs_cfg (d_cfg d'))" and st1: "trust_wf (ts_entries st1)" "stored DJ st1"
    and yaml: "\<And>c out. tyaml_Marshal (dv_tyaml DJ) c = Inr out \<Longrightarrow> tyaml_Unmarshal (dv_tyaml DJ) out = Inr c"
    and ord: "\<And>xs. mset (dv_ord DJ xs) = mset xs"
  shows "\<exists>st. trust_Load (dv_tyaml DJ) (dv_os DJ) None (snd (seedJoinerClusterYaml DJ re sc n own ps (ts_fs st2))) = Inr st \<and>
     (\<forall>q \<in> set (cc_Peers (cs_cfg (d_cfg d'))). syncable j q \<longrightarrow>
       (\<forall>raw rest c. pk_der K raw = Inr c \<and> Fingerprint K c = pi_Fingerprint q \<longrightarrow> makeStrictVerifier K (pi_NodeID q) st (raw # rest) = None))"
proof -
  let ?told = "enrollPeersForJoiner j d'" and ?f = "snd (seedJoinerClusterYaml DJ re sc n own ps (ts_fs st2))"
  have ids: "map ep_NodeID ?told = map pi_NodeID (filter (syncable j) (cc_Peers (cs_cfg (d_cfg d'))))"
    by (auto simp: enrollPeersForJoiner_def syncable_def comp_def intro!: arg_cong [where f = "map pi_NodeID"] filter_cong)
  have "distinct (map ep_NodeID ?told)" unfolding ids using wf by (simp add: cfg_wf_def distinct_map_filter)
  then have st2: "stored DJ st2" "\<forall>p \<in> set ?told. \<exists>x. trust_Get (ep_NodeID p) st2 = Some x \<and> te_Fingerprint x = ep_Fingerprint p"
    using trust_peers_all [OF tp _ st1 yaml ord] by simp_all
  obtain s where s: "trust_Load (dv_tyaml DJ) (dv_os DJ) None (ts_fs st2) = Inr s" "\<forall>k. trust_Get k s = trust_Get k st2"
    using st2(1) unfolding stored_def by blast
  have "trust_Load (dv_tyaml DJ) (dv_os DJ) None ?f = Inr (s\<lparr>ts_fs := ?f\<rparr>)"
    using s(1) seed_keeps_trust [of DJ] by (auto simp: trust_Load_def split: option.splits sum.splits)
  moreover have "makeStrictVerifier K (pi_NodeID q) (s\<lparr>ts_fs := ?f\<rparr>) (raw # rest) = None"
    if "q \<in> set (cc_Peers (cs_cfg (d_cfg d')))" "syncable j q" "pk_der K raw = Inr c" "Fingerprint K c = pi_Fingerprint q" for q raw rest c
  proof -
    have "\<lparr>ep_NodeID = pi_NodeID q, ep_Advertise = pi_Advertise q, ep_Fingerprint = pi_Fingerprint q, ep_CertPEM = pi_CertPEM q\<rparr> \<in> set ?told"
      using that by (auto simp: enrollPeersForJoiner_def syncable_def)
    with st2(2) obtain x where "trust_Get (pi_NodeID q) st2 = Some x" "te_Fingerprint x = pi_Fingerprint q" by force
    with s(2) that show ?thesis by (intro pin_accepts [of _ _ x]) (simp_all add: trust_Get_def)
  qed
  ultimately show ?thesis by blast
qed

text \<open>C12. After an accepted join the two sides can talk. When \<open>qu enroll join\<close> reports acceptance, it sent
  exactly one request; the cluster that answered it lists the joiner with the submitted identity,
  the token is used up, and the master's trust gate is open for the joiner's certificate. And if the
  joiner counts as many trusted peers as it was told of, then its trust store as a later start reads
  it from the disk lets it dial every other peer that the cluster can identify: the pinned TLS check
  accepts the certificate the cluster knows for that peer.\<close>

theorem join_connects_both_sides:
  assumes run: "join_cluster pem N P DJ T jn tok flags f DC E lost d = (Inr (JoinAccepted added), f', sent, d')"
    and pki: "dv_pki DJ = K" "dv_pki DC = K"
    and cluster: "cfg_wf (cs_cfg (d_cfg d))" "trust_wf (ts_entries (d_trust d))" "IsMaster (d_quorum d)"
    and json: "\<And>x raw. jm_RecordPending (dv_enc DC) x = Inr raw \<Longrightarrow> js_RecordPending (dv_json DC) raw = Inr x"
      "\<And>t raw. jm_Target (dv_enc DC) t = Inr raw \<Longrightarrow> js_Target (dv_json DC) raw = Inr t"
    and names: "\<forall>e \<in> set (cc_PendingEnrollments (cs_cfg (d_cfg d))). \<forall>p. DecodeEnrollmentToken T tok = Inr p \<longrightarrow> pe_Name e \<noteq> tp_ID p"
    and yaml: "\<And>c out. tyaml_Marshal (dv_tyaml DJ) c = Inr out \<Longrightarrow> tyaml_Unmarshal (dv_tyaml DJ) out = Inr c"
    and ord: "\<And>xs. mset (dv_ord DJ xs) = mset xs" "\<And>xs. mset (dv_ord DC xs) = mset xs"
  shows "\<exists>addr raws req. sent = [(addr, raws, req)] \<and>
     row_get pi_NodeID (er_NodeID req) (cc_Peers (cs_cfg (d_cfg d'))) = Some (peer_of_join (join_of (ee_submit E) req)) \<and>
     FindEnrollmentByID (cs_cfg (d_cfg d')) (er_TokenID req) = None \<and>
     peerTrusted (dv_ord DC) (er_Fingerprint req) (d_trust d') \<and> FingerprintFromCertPEM K (er_CertPEM req) = Inr (er_Fingerprint req) \<and>
     (added = length (enrollPeersForJoiner (er_NodeID req) d') \<longrightarrow>
       (\<exists>st. trust_Load (dv_tyaml DJ) (dv_os DJ) None f' = Inr st \<and>
         (\<forall>q \<in> set (cc_Peers (cs_cfg (d_cfg d'))). syncable (er_NodeID req) q \<longrightarrow>
           (\<forall>raw rest c. pk_der K raw = Inr c \<and> Fingerprint K c = pi_Fingerprint q \<longrightarrow>
              makeStrictVerifier K (pi_NodeID q) st (raw # rest) = None))))"
proof -
  let ?jn = "jn\<lparr>jn_reply := reply_of DC E d lost\<rparr>"
  have join: "runEnrollJoin pem N P DJ T ?jn tok flags f = (Inr (JoinAccepted added), f', sent)" and d': "d' = answered DC E sent d"
    using run by (auto simp: join_cluster_def split: prod.splits)
  obtain p n own fp st ep sample where dec: "DecodeEnrollmentToken T tok = Inr p" and own: "FingerprintFromCertPEM (dv_pki DJ) own = Inr fp"
    and twf: "trust_wf (ts_entries st)" and at: "enroll_at pem DJ ?jn p n own fp ep sample st = (Inr (JoinAccepted added), f', sent)"
    using join_accepted_steps [OF join] by blast
  let ?req = "join_request p n own fp" and ?id = "cert_CommonName (sm_Cert sample)"
  obtain st1 raws resp peers st2 where add: "trust_Add (dv_tyaml DJ) (dv_os DJ) (dv_ord DJ) (jn_add ?jn 0) (boot_entry ep sample) st = (None, st1)"
    and sent: "sent = [(ee_Advertise ep, raws, ?req)]" and reply: "jn_reply ?jn ?req = Inr resp" and acc: "en_Accepted resp"
    and tp: "trust_peers DJ (jn_add ?jn) ?id 1 (EnrollSummaryPeers (en_Cluster resp)) st1 = (peers, added, st2)"
    and f': "f' = snd (seedJoinerClusterYaml DJ (jn_cluster_read ?jn) (jn_seed ?jn) n own (boot_peer ep sample # peers) (ts_fs st2))"
    using enroll_at_accepted [OF at] by blast
  obtain out where h: "handleEnroll DC E ?req d = (resp, d', out)"
    using reply by (cases "handleEnroll DC E ?req d") (auto simp: reply_of_def d' answered_def sent split: option.splits)
  have nm: "\<forall>e \<in> set (cc_PendingEnrollments (cs_cfg (d_cfg d))). pe_Name e \<noteq> er_TokenID ?req" using names dec by simp
  note acc' = accepted_cluster [OF cluster json nm h acc]
  have told: "EnrollSummaryPeers (en_Cluster resp) = enrollPeersForJoiner (er_NodeID ?req) d'" using acc' by simp
  have gate: "peerTrusted (dv_ord DC) (er_Fingerprint ?req) (d_trust d')"
    using acc' trusted_by_entry [OF ord(2)] by blast
  have store: "stored DJ st1" "trust_wf (ts_entries st1)" using trust_Add_stored [OF yaml ord(1) twf add] by simp_all
  have wf': "cfg_wf (cs_cfg (d_cfg d'))" using acc' by simp
  show ?thesis
  proof (intro exI [of _ "ee_Advertise ep"] exI [of _ raws] exI [of _ ?req] conjI impI)
    show "sent = [(ee_Advertise ep, raws, ?req)]" by (rule sent)
    assume all: "added = length (enrollPeersForJoiner (er_NodeID ?req) d')"
    show "\<exists>st. trust_Load (dv_tyaml DJ) (dv_os DJ) None f' = Inr st \<and>
        (\<forall>q \<in> set (cc_Peers (cs_cfg (d_cfg d'))). syncable (er_NodeID ?req) q \<longrightarrow>
          (\<forall>raw rest c. pk_der K raw = Inr c \<and> Fingerprint K c = pi_Fingerprint q \<longrightarrow> makeStrictVerifier K (pi_NodeID q) st (raw # rest) = None))"
      unfolding f' by (rule joiner_store [OF tp [unfolded told all] wf' store(2,1) yaml ord(1)])
  qed (use acc' gate own pki in simp_all)
qed

section \<open>A concrete join\<close>

text \<open>The cluster of a, b and c has certificate material for a only; d joins with an auto-approve token.\<close>

definition onb_a :: PeerInfo where
  "onb_a = \<lparr>pi_NodeID = ''a'', pi_Advertise = ''a:9901'',
     pi_Fingerprint = Fingerprint demo_pki \<lparr>cert_SPKI = ''a'', cert_CommonName = ''a'', cert_Raw = ''a''\<rparr>, pi_CertPEM = ''a''\<rparr>"

definition onb_peers :: "PeerInfo list" where
  "onb_peers = [onb_a, demo_peer ''b''\<lparr>pi_CertPEM := []\<rparr>, demo_peer ''c''\<lparr>pi_CertPEM := []\<rparr>]"

definition onb_cfg :: ClusterConfig where
  "onb_cfg = zero_ClusterConfig\<lparr>cc_Version := 2, cc_Peers := onb_peers, cc_PendingEnrollments := [enr_entry]\<rparr>"

definition onb_master :: daemon where
  "onb_master = demo_daemon ''a'' (enr_start\<lparr>cs_cfg := onb_cfg\<rparr>)"

definition onb_recorded :: ClusterConfig where
  "onb_recorded = bump demo_call ''a'' (onb_cfg\<lparr>cc_PendingEnrollments := [enr_entry\<lparr>pe_PendingJoin := Some (join_of 50 enr_req)\<rparr>]\<rparr>)"

lemma onb_simps [simp]:
  "IsMaster (d_quorum onb_master)" "self_of onb_master = ''a''" "cs_cfg (d_cfg onb_master) = onb_cfg"
  "cc_Peers onb_cfg = onb_peers" "cc_PendingEnrollments onb_cfg = [enr_entry]" "cc_Peers onb_recorded = onb_peers"
  "trust_wf (ts_entries (d_trust onb_master))" "cfg_wf onb_cfg"
  by (simp_all add: onb_master_def IsMaster_def Master_def onb_cfg_def onb_recorded_def bump.simps cfg_wf_def onb_peers_def onb_a_def demo_peer_def)

lemma onb_mutations:
  "apply_mutation (dv_json enr_denv) MutationRecordEnrollPending ''rp'' onb_cfg =
     (None, onb_cfg\<lparr>cc_PendingEnrollments := [enr_entry\<lparr>pe_PendingJoin := Some (join_of 50 enr_req)\<rparr>]\<rparr>)"
  "apply_mutation (dv_json enr_denv) MutationApproveEnrollment ''t9'' onb_recorded =
     (None, onb_recorded\<lparr>cc_Peers := onb_peers @ [peer_of_join (join_of 50 enr_req)], cc_PendingEnrollments := []\<rparr>)"
  by (simp_all add: apply_mutation_def decode_def apply_record_pending_def apply_approve_def enr_entry_def onb_cfg_def onb_peers_def onb_a_def
      onb_recorded_def bump.simps Let_def enrollment_matches_def peer_of_join_def demo_peer_def enr_req_def)

lemma onb_checked: "enroll_check enr_denv 50 enr_req onb_cfg = Inr enr_entry"
  by (simp add: enroll_check_ok enr_req_def enr_entry_def FindEnrollmentByID_def FingerprintFromCertPEM_def
      demo_pki_def verifyEnrollSecret_def hashEnrollSecret_def decodeHashHex_def Let_def)

definition onb_told :: EnrolledPeer where
  "onb_told = \<lparr>ep_NodeID = ''a'', ep_Advertise = ''a:9901'', ep_Fingerprint = pi_Fingerprint onb_a, ep_CertPEM = ''a''\<rparr>"

lemma onb_answer:
  "\<exists>d' out. handleEnroll enr_denv enr_env enr_req onb_master =
     (\<lparr>en_Accepted = True, en_Pending = False, en_Error = [], en_Cluster = NewEnrollSummary [onb_told]\<rparr>, d', out) \<and>
     enrollPeersForJoiner ''d'' d' = [onb_told]"
proof -
  have q: "HasQuorum (mu_now enr_mut) (cs_cfg (d_cfg onb_master)) (d_quorum onb_master)"
    by (simp add: onb_master_def onb_cfg_def onb_peers_def enr_quorum)
  obtain d1 v1 out1 where 1: "daemon_mutate enr_denv enr_mut MutationRecordEnrollPending (Inr ''rp'') onb_master = (Inr v1, d1, out1)"
    "cs_cfg (d_cfg d1) = onb_recorded" "d_quorum d1 = d_quorum onb_master" "d_node d1 = d_node onb_master"
    using daemon_mutate_good [OF onb_simps(1) q, of enr_denv _ "''yaml''" MutationRecordEnrollPending "''rp''"] onb_mutations(1)
    by (auto simp: onb_recorded_def)
  have m1: "IsMaster (d_quorum d1)" and q1: "HasQuorum (mu_now enr_mut) (cs_cfg (d_cfg d1)) (d_quorum d1)"
    using q by (simp_all add: 1 HasQuorum_def QuorumSize_def)
  obtain d2 v2 out2 where 2: "daemon_mutate enr_denv enr_mut MutationApproveEnrollment (Inr ''t9'') d1 = (Inr v2, d2, out2)"
    "cc_Peers (cs_cfg (d_cfg d2)) = onb_peers @ [peer_of_join (join_of 50 enr_req)]"
    using daemon_mutate_good [OF m1 q1, of enr_denv _ "''yaml''" MutationApproveEnrollment "''t9''"] onb_mutations(2) 1(2)
    by (auto simp: bump.simps)
  have told: "enrollPeersForJoiner ''d'' (trust_joiner enr_denv demo_call (join_of 50 enr_req) d2) = [onb_told]"
    using 2(2) by (simp add: enrollPeersForJoiner_def Snapshot_def onb_peers_def onb_a_def demo_peer_def peer_of_join_def enr_req_def onb_told_def)
  have "pe_ID enr_entry = ''t9''" "pe_AutoApprove enr_entry" "er_NodeID enr_req = ''d''" by (simp_all add: enr_entry_def enr_req_def)
  with 1(1) 2(1) onb_checked told show ?thesis
    by (simp add: handleEnroll_def enr_env_def record_join_def approve_join_def Let_def)
qed

definition onb_entry :: trust_entry where
  "onb_entry = \<lparr>te_NodeID = ''a'', te_Address = ''a:9901'', te_Fingerprint = pi_Fingerprint onb_a, te_PublicKeyPEM = [],
     te_CertPEM = ''a'', te_AddedAt = 7\<rparr>"

definition onb_denv :: daemon_env where
  "onb_denv = jn_denv\<lparr>dv_tyaml := \<lparr>tyaml_Marshal = (\<lambda>es. if es = [onb_entry] then Inr ''trust'' else Inl (ErrLib ''yaml'')),
     tyaml_Unmarshal = (\<lambda>s. Inr [onb_entry])\<rparr>\<rparr>"

definition onb_boot :: boot_env where
  "onb_boot = jn_boot0\<lparr>bt_rsa := Inr \<lparr>km_priv = ''priv-d'', km_pub = Inr ''pub-d'', km_cert = (\<lambda>t. Inr (''pem-'' @ tm_CommonName t))\<rparr>\<rparr>"

definition onb_flags :: NodeConfig where
  "onb_flags = zero_NodeConfig\<lparr>nc_Advertise := ''d:9901''\<rparr>"

definition onb_booted :: fs where
  "onb_booted = snd (bootstrapNode (\<lambda>ty der. der) jn_codec onb_denv onb_boot onb_flags (\<lambda>_. None))"

definition onb_node :: NodeConfig where
  "onb_node = \<lparr>nc_NodeID = ''d'', nc_BindAddr = ''0.0.0.0'', nc_BindPort = 9901, nc_Advertise = ''d:9901'', nc_ClusterSecret = []\<rparr>"

lemma onb_denv_simps [simp]:
  "dv_os onb_denv = demo_env" "dv_pki onb_denv = demo_pki" "yaml_Marshal (dv_yaml onb_denv) c = Inr ''yaml''" "dv_ord onb_denv = rev"
  "tyaml_Marshal (dv_tyaml onb_denv) es = (if es = [onb_entry] then Inr ''trust'' else Inl (ErrLib ''yaml''))"
  "tyaml_Unmarshal (dv_tyaml onb_denv) s = Inr [onb_entry]"
  by (simp_all add: onb_denv_def jn_denv_def demo_denv_def)

lemma onb_bootstrap:
  "bootstrapNode (\<lambda>ty der. der) jn_codec onb_denv onb_boot onb_flags (\<lambda>_. None) = (Inr onb_node, onb_booted)"
  "onb_booted ''/etc/quptime/keys/private.pem'' = Some \<lparr>f_data = ''priv-d'', f_perm = 384\<rparr>"
  "onb_booted ''/etc/quptime/keys/cert.pem'' = Some \<lparr>f_data = ''pem-d'', f_perm = 420\<rparr>"
  "onb_booted ''/etc/quptime/trust.yaml'' = None"
  by (simp_all add: onb_booted_def bootstrapNode_def EnsureDataDir_def onb_boot_def jn_boot0_def boot_defaults_def onb_flags_def zero_NodeConfig_def
      NodeConfig_Save_def GenerateKeyPair_def buildSelfSignedCert_def writePEM_def AtomicWrite_io_good demo_env_paths LoadCertPEM_def FingerprintFromCertPEM_def demo_pki_def
      Mutate_cases write_config_io_good tmp_name_def tmp_rand_io_good Let_def onb_node_def)

definition onb_env :: join_env where
  "onb_env = jn_env\<lparr>jn_boot := onb_boot\<rparr>"

lemma onb_request: "join_request jn_payload onb_node ''pem-d'' (Fingerprint demo_pki \<lparr>cert_SPKI = ''pem-d'', cert_CommonName = ''pem-d'', cert_Raw = ''pem-d''\<rparr>) = enr_req"
  by (simp add: jn_payload_def onb_node_def enr_req_def AdvertiseAddr_def)

lemma onb_run:
  "\<exists>f' raws d'. join_cluster (\<lambda>ty der. der) jn_codec jn_parsers onb_denv jn_token onb_env [] onb_flags (\<lambda>_. None) enr_denv enr_env None onb_master =
     (Inr (JoinAccepted 1), f', [(''a:9901'', raws, enr_req)], d') \<and> enrollPeersForJoiner ''d'' d' = [onb_told]"
proof -
  let ?jn = "onb_env\<lparr>jn_reply := reply_of enr_denv enr_env onb_master None\<rparr>"
  obtain d' out where h: "handleEnroll enr_denv enr_env enr_req onb_master =
     (\<lparr>en_Accepted = True, en_Pending = False, en_Error = [], en_Cluster = NewEnrollSummary [onb_told]\<rparr>, d', out)"
    and told: "enrollPeersForJoiner ''d'' d' = [onb_told]" using onb_answer by blast
  have tok: "DecodeEnrollmentToken jn_token [] = Inr jn_payload"
    by (simp add: DecodeEnrollmentToken_def jn_token_def jn_payload_def b64_DecodeString_def)
  have probe: "pick_endpoint demo_pki (\<lambda>ty der. der) (jn_dial onb_env) ''pem-d'' (tp_Endpoints jn_payload) =
      Some (\<lparr>ee_Advertise = ''a:9901'', ee_Fingerprint = Fingerprint demo_pki \<lparr>cert_SPKI = ''a'', cert_CommonName = ''a'', cert_Raw = ''a''\<rparr>\<rparr>,
        \<lparr>sm_Cert = \<lparr>cert_SPKI = ''a'', cert_CommonName = ''a'', cert_Raw = ''a''\<rparr>, sm_CertPEM = ''a'',
         sm_Fingerprint = Fingerprint demo_pki \<lparr>cert_SPKI = ''a'', cert_CommonName = ''a'', cert_Raw = ''a''\<rparr>\<rparr>)"
    by (simp add: jn_payload_def onb_env_def jn_env_def FetchPeerCert_def tlsCert_def demo_pki_def fingerprintOf_eq)
  have mine: "FingerprintFromCertPEM demo_pki ''pem-d'' = Inr (Fingerprint demo_pki \<lparr>cert_SPKI = ''pem-d'', cert_CommonName = ''pem-d'', cert_Raw = ''pem-d''\<rparr>)"
    "FingerprintFromCertPEM demo_pki ''a'' = Inr (pi_Fingerprint onb_a)"
    by (simp_all add: FingerprintFromCertPEM_def demo_pki_def onb_a_def)
  have env: "jn_now onb_env = 50" "tp_ExpiresAt jn_payload = 100" "jn_key_read onb_env = None" "jn_cert_read onb_env = None" "jn_boot onb_env = onb_boot"
    "jn_trust_read onb_env = None" "confirmed ?jn" "jn_add onb_env n = demo_call" "jn_wire onb_env a = Inr [''a'']" for n a
    by (simp_all add: onb_env_def jn_env_def jn_payload_def confirmed_def)
  have pki: "pk_der demo_pki s = Inr \<lparr>cert_SPKI = s, cert_CommonName = s, cert_Raw = s\<rparr>" "pk_pem demo_pki s = Some s" for s
    by (simp_all add: demo_pki_def)
  have call: "ce_now demo_call = 7" "ce_write demo_call = io_good" by (simp_all add: demo_call_def)
  have entry: "onb_entry = \<lparr>te_NodeID = ''a'', te_Address = ''a:9901'', te_Fingerprint = Fingerprint demo_pki \<lparr>cert_SPKI = ''a'', cert_CommonName = ''a'', cert_Raw = ''a''\<rparr>,
      te_PublicKeyPEM = [], te_CertPEM = ''a'', te_AddedAt = 7\<rparr>" by (simp add: onb_entry_def onb_a_def)
  have told': "entry_of_enrolled onb_told = \<lparr>te_NodeID = ''a'', te_Address = ''a:9901'', te_Fingerprint = Fingerprint demo_pki \<lparr>cert_SPKI = ''a'', cert_CommonName = ''a'', cert_Raw = ''a''\<rparr>,
      te_PublicKeyPEM = [], te_CertPEM = ''a'', te_AddedAt = 0\<rparr>" by (simp add: entry_of_enrolled_def onb_told_def onb_a_def)
  have told_fields: "ep_NodeID onb_told = ''a''" "ep_CertPEM onb_told = ''a''"
    "ep_Fingerprint onb_told = Fingerprint demo_pki \<lparr>cert_SPKI = ''a'', cert_CommonName = ''a'', cert_Raw = ''a''\<rparr>"
    "pi_Fingerprint onb_a = Fingerprint demo_pki \<lparr>cert_SPKI = ''a'', cert_CommonName = ''a'', cert_Raw = ''a''\<rparr>"
    by (simp_all add: onb_told_def onb_a_def)
  have "\<exists>f' raws. runEnrollJoin (\<lambda>ty der. der) jn_codec jn_parsers onb_denv jn_token ?jn [] onb_flags (\<lambda>_. None) =
      (Inr (JoinAccepted 1), f', [(''a:9901'', raws, enr_req)])"
    by (simp add: runEnrollJoin_def demo_env_paths tok env onb_bootstrap LoadPrivateKey_def jn_parsers_def LoadCertPEM_def mine
        trust_Load_def probe enroll_at_def Let_def trust_Add_def trust_Save_def AtomicWrite_io_good call entry told' told_fields
        trust_values_def pinned_call_def ClientConfig_def tlsCert_def pki makeStrictVerifier_def fingerprintOf_eq trust_Get_def trust_put_def
        onb_request reply_of_def h)
  then show ?thesis using told by (auto simp: join_cluster_def answered_def h)
qed

theorem join_connects_both_sides_witness:
  "\<exists>f' raws d' st. join_cluster (\<lambda>ty der. der) jn_codec jn_parsers onb_denv jn_token onb_env [] onb_flags (\<lambda>_. None) enr_denv enr_env None onb_master =
     (Inr (JoinAccepted 1), f', [(''a:9901'', raws, enr_req)], d') \<and>
     row_get pi_NodeID ''d'' (cc_Peers (cs_cfg (d_cfg d'))) \<noteq> None \<and> peerTrusted rev (er_Fingerprint enr_req) (d_trust d') \<and>
     trust_Load (dv_tyaml onb_denv) demo_env None f' = Inr st"
proof -
  obtain f' raws d' where run: "join_cluster (\<lambda>ty der. der) jn_codec jn_parsers onb_denv jn_token onb_env [] onb_flags (\<lambda>_. None) enr_denv enr_env None onb_master =
     (Inr (JoinAccepted 1), f', [(''a:9901'', raws, enr_req)], d')" and told: "enrollPeersForJoiner ''d'' d' = [onb_told]"
    using onb_run by blast
  have pki: "dv_pki onb_denv = demo_pki" "dv_pki enr_denv = demo_pki" by simp_all
  have wf: "cfg_wf (cs_cfg (d_cfg onb_master))" by simp
  have j1: "jm_RecordPending (dv_enc enr_denv) x = Inr raw \<Longrightarrow> js_RecordPending (dv_json enr_denv) raw = Inr x" for x raw
    by (simp split: if_splits)
  have j2: "jm_Target (dv_enc enr_denv) t = Inr raw \<Longrightarrow> js_Target (dv_json enr_denv) raw = Inr t" for t raw by simp
  have names: "\<forall>e \<in> set (cc_PendingEnrollments (cs_cfg (d_cfg onb_master))). \<forall>p. DecodeEnrollmentToken jn_token [] = Inr p \<longrightarrow> pe_Name e \<noteq> tp_ID p"
    by (simp add: enr_entry_def DecodeEnrollmentToken_def jn_token_def jn_payload_def b64_DecodeString_def)
  have yaml: "tyaml_Marshal (dv_tyaml onb_denv) c = Inr out \<Longrightarrow> tyaml_Unmarshal (dv_tyaml onb_denv) out = Inr c" for c out
    by (simp split: if_splits)
  have ord: "mset (dv_ord onb_denv xs) = mset xs" "mset (dv_ord enr_denv xs) = mset xs" "dv_ord enr_denv = rev" for xs
    by (simp_all add: enr_denv_def demo_denv_def)
  have "er_NodeID enr_req = ''d''" by (simp add: enr_req_def)
  with join_connects_both_sides [OF run pki wf onb_simps(7) onb_simps(1) j1 j2 names yaml ord(1,2)] run told ord(3) show ?thesis by auto
qed

text \<open>A join can succeed on one side only. When the answer of the cluster is lost, the command reports an
  error, although the cluster has admitted the joiner and used up the token.\<close>

lemma no_answer_fails:
  assumes "\<And>req. jn_reply jn req = Inl e"
  shows "\<exists>x. fst (enroll_at pem D jn p n own fp ep sample st) = Inl x"
proof -
  have "\<exists>x. fst (pinned_call D jn own i a req s) = Inl x" for own i a req s
    using assms by (auto simp: pinned_call_def split: sum.split option.split)
  then show ?thesis
    by (auto simp: enroll_at_def Let_def split: option.split prod.split sum.split) (metis fst_conv sum.distinct(1))+
qed

lemma lost_answer:
  assumes "join_cluster pem N P DJ T jn tok flags f DC E (Some e) d = (r, f', [(addr, raws, req)], d')"
    and "handleEnroll DC E req d = (resp, d1, out)" and "en_Accepted resp"
    and "cfg_wf (cs_cfg (d_cfg d))" "trust_wf (ts_entries (d_trust d))" "IsMaster (d_quorum d)"
    and "\<And>x raw. jm_RecordPending (dv_enc DC) x = Inr raw \<Longrightarrow> js_RecordPending (dv_json DC) raw = Inr x"
      "\<And>t raw. jm_Target (dv_enc DC) t = Inr raw \<Longrightarrow> js_Target (dv_json DC) raw = Inr t"
    and "\<forall>x \<in> set (cc_PendingEnrollments (cs_cfg (d_cfg d))). pe_Name x \<noteq> er_TokenID req"
  shows "(\<exists>x. r = Inl x) \<and> row_get pi_NodeID (er_NodeID req) (cc_Peers (cs_cfg (d_cfg d'))) \<noteq> None \<and>
     FindEnrollmentByID (cs_cfg (d_cfg d')) (er_TokenID req) = None"
proof -
  let ?jn = "jn\<lparr>jn_reply := reply_of DC E d (Some e)\<rparr>"
  have run: "runEnrollJoin pem N P DJ T ?jn tok flags f = (r, f', [(addr, raws, req)])" and "d' = d1"
    using assms(1,2) by (auto simp: join_cluster_def answered_def split: prod.splits)
  have "\<exists>x. r = Inl x"
  proof (cases r)
    case (Inr y)
    then obtain p n own fp ep sample st where "enroll_at pem DJ ?jn p n own fp ep sample st = (r, f', [(addr, raws, req)])"
      using run by (auto simp: runEnrollJoin_def Let_def split: if_splits sum.splits prod.splits option.splits)
    with no_answer_fails [of ?jn e pem DJ p n own fp ep sample st] show ?thesis by (simp add: reply_of_def)
  qed simp
  with accepted_cluster [OF assms(4-9) assms(2,3)] \<open>d' = d1\<close> show ?thesis by simp
qed

end
