(* ===== verification/CatchUp.thy ===== *)
theory CatchUp
  imports Daemon
begin

text \<open>
  How a configuration spreads without a broadcast: heartbeats carry versions, and a node that hears of a
  newer one pulls it. One exchange of \<open>tick\<close>'s goroutine on one node with \<open>HandleHeartbeat\<close> on another
  (\<open>internal/quorum/manager.go\<close>), with the version observer that \<open>New\<close> installs
  (\<open>internal/daemon/daemon.go\<close>) and \<open>PullFrom\<close> (\<open>internal/replicate/replicator.go\<close>) on both sides; and
  any sequence of such exchanges between any nodes, with any of the calls failing.
\<close>

section \<open>One exchange\<close>

type_synonym members = "string \<Rightarrow> daemon"

text \<open>Clocks, outcomes of writes, and which of the four calls fail: the request of node \<open>i\<close>, the pull that
  node \<open>j\<close> makes while it handles it, the answer, and the pull that \<open>i\<close> makes on the answer.\<close>

record beat_env =
  bt_mut_j :: mut_env
  bt_mut_i :: mut_env
  bt_mark_j :: gotime
  bt_live_j :: gotime
  bt_elect_j :: gotime
  bt_mark_i :: gotime
  bt_request :: "err option"
  bt_pull_j :: "err option"
  bt_answer :: "err option"
  bt_pull_i :: "err option"

text \<open>The \<open>GetClusterCfg\<close> call to a node: the connection is pinned to its ID.\<close>

definition pull_rpc :: "err option \<Rightarrow> members \<Rightarrow> string \<Rightarrow> string \<Rightarrow> err + GetClusterCfgResponse" where
  "pull_rpc fail C peerID addr = (case fail of Some e \<Rightarrow> Inl e | None \<Rightarrow> Inr (HandleGetClusterCfg (d_cfg (C peerID))))"

definition beat_request :: "daemon \<Rightarrow> HeartbeatRequest" where
  "beat_request d = heartbeat_request (d_quorum d) (m_selfAdvertise (d_quorum d)) (Master (d_quorum d)) (cc_Version (cs_cfg (d_cfg d)))"

definition exchange :: "(string \<Rightarrow> daemon_env) \<Rightarrow> beat_env \<Rightarrow> string \<Rightarrow> string \<Rightarrow> members \<Rightarrow> members" where
  "exchange D B i j C =
     (case bt_request B of
        Some e \<Rightarrow> C
      | None \<Rightarrow>
         (case daemon_heartbeat (D j) (bt_mut_j B) (pull_rpc (bt_pull_j B) C) (bt_mark_j B) (bt_live_j B) (bt_elect_j B) (beat_request (C i)) (C j) of
            (resp, note, dj) \<Rightarrow>
              (let C1 = C(j := dj);
                   res = (case bt_answer B of Some e \<Rightarrow> Inl e | None \<Rightarrow> Inr resp)
               in C1(i := daemon_heard (D i) (bt_mut_i B) (pull_rpc (bt_pull_i B) C1) (bt_mark_i B) j res (C1 i)))))"

definition lossless :: "beat_env \<Rightarrow> bool" where
  "lossless B \<longleftrightarrow> bt_request B = None \<and> bt_pull_j B = None \<and> bt_answer B = None \<and> bt_pull_i B = None"

section \<open>What a node takes over\<close>

abbreviation conf :: "members \<Rightarrow> string \<Rightarrow> ClusterConfig" where
  "conf C i \<equiv> cs_cfg (d_cfg (C i))"

abbreviation vers :: "members \<Rightarrow> string \<Rightarrow> 64 word" where
  "vers C i \<equiv> cc_Version (conf C i)"

text \<open>What \<open>New\<close> sets up: the manager has the node's ID, an address to announce and the observer.\<close>

definition beating :: "members \<Rightarrow> bool" where
  "beating C \<longleftrightarrow> (\<forall>i. m_selfID (d_quorum (C i)) = i \<and> m_observer (d_quorum (C i)) \<and> m_selfAdvertise (d_quorum (C i)) \<noteq> [])"

lemma observe_version_eq:
  "cs_cfg (d_cfg (snd (observe_version D mu (pull_rpc fail C) p addr d))) =
     (if p = [] \<or> addr = [] \<or> fail \<noteq> None \<or> vers C p \<le> cc_Version (cs_cfg (d_cfg d)) then cs_cfg (d_cfg d) else conf C p) \<and>
   d_quorum (snd (observe_version D mu (pull_rpc fail C) p addr d)) = d_quorum d"
proof -
  obtain r s cbs where pf: "PullFrom (dv_yaml D) (dv_os D) (mu_call mu) (pull_rpc fail C) p addr (d_cfg d) = (r, s, cbs)"
    by (metis prod_cases3)
  have "cs_cfg s = (if p = [] \<or> addr = [] \<or> fail \<noteq> None \<or> vers C p \<le> cc_Version (cs_cfg (d_cfg d)) then cs_cfg (d_cfg d) else conf C p)"
    using pf Replace_cfg [of "dv_yaml D" "dv_os D" "mu_call mu" "conf C p" "d_cfg d"]
    by (cases fail) (auto simp: PullFrom_def pull_rpc_def HandleGetClusterCfg_def split: if_splits prod.splits sum.splits)
  then show ?thesis using pf by (simp add: observe_version_def run_callbacks_frame)
qed

definition taken :: "err option \<Rightarrow> members \<Rightarrow> string \<Rightarrow> ClusterConfig \<Rightarrow> ClusterConfig" where
  "taken fail C p c = (if fail \<noteq> None \<or> vers C p \<le> cc_Version c then c else conf C p)"

lemma observed_eq:
  assumes "note = None \<or> note = Some (p, addr, v) \<and> p \<noteq> [] \<and> addr \<noteq> []"
  shows "cs_cfg (d_cfg (observed D mu (pull_rpc fail C) note d)) = (if note = None then cs_cfg (d_cfg d) else taken fail C p (cs_cfg (d_cfg d))) \<and>
     d_quorum (observed D mu (pull_rpc fail C) note d) = d_quorum d"
  using assms observe_version_eq [of D mu fail C p addr d] by (auto simp: observed_def taken_def)

lemma manager_kept:
  "m_selfID (recomputeMaster t u c m) = m_selfID m" "m_observer (recomputeMaster t u c m) = m_observer m"
  "m_selfAdvertise (recomputeMaster t u c m) = m_selfAdvertise m" "m_selfID (markLive t p m) = m_selfID m"
  "m_observer (markLive t p m) = m_observer m" "m_selfAdvertise (markLive t p m) = m_selfAdvertise m"
  "m_selfID (set_addr p a m) = m_selfID m" "m_observer (set_addr p a m) = m_observer m"
  "m_selfAdvertise (set_addr p a m) = m_selfAdvertise m" "map_of (m_addrOf (set_addr p a m)) p = Some a"
  by (simp_all add: recomputeMaster_def elect_def markLive_def set_addr_def update_conv' Let_def)

text \<open>The receiving side.\<close>

lemma heartbeat_side:
  assumes wf: "beating C" and ij: "i \<noteq> j" "i \<noteq> []"
    and hb: "daemon_heartbeat D mu (pull_rpc fail C) t u v (beat_request (C i)) (C j) = (resp, note, dj)"
  shows "cs_cfg (d_cfg dj) = taken fail C i (conf C j) \<and> hr_Version resp = cc_Version (cs_cfg (d_cfg dj)) \<and> hr_Advertise resp \<noteq> [] \<and>
     m_selfID (d_quorum dj) = j \<and> m_observer (d_quorum dj) \<and> m_selfAdvertise (d_quorum dj) \<noteq> []"
proof -
  let ?n = "if vers C i \<le> vers C j then None else Some (i, m_selfAdvertise (d_quorum (C i)), vers C i)"
  let ?obs = "\<lambda>n. cs_cfg (d_cfg (observed D mu (pull_rpc fail C) (Some n) (C j)))"
  obtain resp' note' m where h: "HandleHeartbeat t u v ?obs (conf C j) (beat_request (C i)) (d_quorum (C j)) = (resp', note', m)"
    by (metis prod_cases3)
  have me: "m_selfID (d_quorum (C i)) = i" "m_selfID (d_quorum (C j)) = j" "m_observer (d_quorum (C j))"
    "m_selfAdvertise (d_quorum (C i)) \<noteq> []" "m_selfAdvertise (d_quorum (C j)) \<noteq> []" using wf by (simp_all add: beating_def)
  have n: "note' = ?n" and m: "m_selfID m = j" "m_observer m" "m_selfAdvertise m \<noteq> []" and adv: "hr_Advertise resp' \<noteq> []"
    and ver: "hr_Version resp' = cc_Version (case ?n of None \<Rightarrow> conf C j | Some n \<Rightarrow> ?obs n)"
    using h ij me by (auto simp: HandleHeartbeat_def beat_request_def heartbeat_request_def maybeNotifyVersion_def manager_kept Let_def)
  have "?n = None \<or> ?n = Some (i, m_selfAdvertise (d_quorum (C i)), vers C i) \<and> i \<noteq> [] \<and> m_selfAdvertise (d_quorum (C i)) \<noteq> []"
    using ij me by simp
  note ob = observed_eq [OF this, of D mu fail C "C j"]
  have "dj = (observed D mu (pull_rpc fail C) note' (C j))\<lparr>d_quorum := m\<rparr>" "resp = resp'"
    using hb h by (auto simp: daemon_heartbeat_def)
  then have dj: "dj = (observed D mu (pull_rpc fail C) ?n (C j))\<lparr>d_quorum := m\<rparr>" "resp = resp'" unfolding n by simp_all
  have cfg: "cs_cfg (d_cfg dj) = taken fail C i (conf C j)"
    using ob by (auto simp: dj taken_def)
  moreover have "hr_Version resp' = cc_Version (cs_cfg (d_cfg dj))"
    unfolding ver dj by (simp add: observed_def split: option.split)
  ultimately show ?thesis using m adv by (simp add: dj)
qed

text \<open>The sending side, when the answer comes.\<close>

lemma heard_side:
  assumes wf: "beating C" and j: "j \<noteq> []"
    and res: "res = Inl e \<or> res = Inr resp \<and> hr_Version resp = vers C j \<and> hr_Advertise resp \<noteq> []"
    and di: "di = daemon_heard D mu (pull_rpc fail C) t j res (C i)"
  shows "cs_cfg (d_cfg di) = (case res of Inl e \<Rightarrow> conf C i | Inr r \<Rightarrow> taken fail C j (conf C i)) \<and>
     m_selfID (d_quorum di) = i \<and> m_observer (d_quorum di) \<and> m_selfAdvertise (d_quorum di) \<noteq> []"
proof -
  have me: "m_selfID (d_quorum (C i)) = i" "m_observer (d_quorum (C i))" "m_selfAdvertise (d_quorum (C i)) \<noteq> []"
    using wf by (simp_all add: beating_def)
  show ?thesis
  proof (cases res)
    case (Inl x)
    then show ?thesis using me by (simp add: di daemon_heard_def heartbeat_reply_def observed_def)
  next
    case (Inr r)
    with res have r: "res = Inr resp" "hr_Version resp = vers C j" "hr_Advertise resp \<noteq> []" by auto
    let ?m = "set_addr j (hr_Advertise resp) (markLive t j (d_quorum (C i)))"
    let ?n = "if vers C j \<le> vers C i then None else Some (j, hr_Advertise resp, vers C j)"
    have d: "di = observed D mu (pull_rpc fail C) ?n ((C i)\<lparr>d_quorum := ?m\<rparr>)"
      using r me by (simp add: di daemon_heard_def heartbeat_reply_def maybeNotifyVersion_def manager_kept Let_def)
    have "?n = None \<or> ?n = Some (j, hr_Advertise resp, vers C j) \<and> j \<noteq> [] \<and> hr_Advertise resp \<noteq> []" using j r by simp
    from observed_eq [OF this, of D mu fail C "(C i)\<lparr>d_quorum := ?m\<rparr>"] show ?thesis
      using me r by (auto simp: d taken_def manager_kept)
  qed
qed

text \<open>One exchange, with whatever fails: the two nodes' configurations are among those they had, no version
  goes down, no other node is touched; when nothing fails, both hold the newer one.\<close>

lemma exchange_effect:
  assumes wf: "beating C" and ij: "i \<noteq> j" "i \<noteq> []" "j \<noteq> []"
    and ex: "C' = exchange D B i j C"
  shows "beating C' \<and> (\<forall>k. k \<noteq> i \<and> k \<noteq> j \<longrightarrow> C' k = C k) \<and>
     (\<forall>k. vers C k \<le> vers C' k) \<and> (\<forall>k. conf C' k = conf C k \<or> conf C' k = conf C i \<or> conf C' k = conf C j) \<and>
     (lossless B \<longrightarrow> vers C i \<le> vers C' j \<and> vers C j \<le> vers C' i)"
proof (cases "bt_request B")
  case (Some e)
  then show ?thesis using wf by (simp add: ex exchange_def lossless_def)
next
  case None
  obtain resp nt dj where hb: "daemon_heartbeat (D j) (bt_mut_j B) (pull_rpc (bt_pull_j B) C) (bt_mark_j B) (bt_live_j B) (bt_elect_j B)
      (beat_request (C i)) (C j) = (resp, nt, dj)" by (metis prod_cases3)
  note hs = heartbeat_side [OF wf ij(1,2) hb]
  define C1 where "C1 = C(j := dj)"
  define res where "res = (case bt_answer B of Some e \<Rightarrow> Inl e | None \<Rightarrow> Inr resp)"
  have wf1: "beating C1" using wf hs by (simp add: beating_def C1_def)
  have "res = Inl (the (bt_answer B)) \<or> res = Inr resp \<and> hr_Version resp = vers C1 j \<and> hr_Advertise resp \<noteq> []"
    using hs by (auto simp: res_def C1_def split: option.split)
  define di where "di = daemon_heard (D i) (bt_mut_i B) (pull_rpc (bt_pull_i B) C1) (bt_mark_i B) j res (C1 i)"
  note hd = heard_side [OF wf1 ij(3) \<open>res = _ \<or> _\<close> di_def]
  have C': "C' = C1(i := di)"
    using None hb by (simp add: ex exchange_def C1_def res_def di_def Let_def)
  have c: "conf C1 j = taken (bt_pull_j B) C i (conf C j)" "conf C1 i = conf C i"
    using hs ij(1) by (simp_all add: C1_def)
  have ci: "cs_cfg (d_cfg di) = (case res of Inl e \<Rightarrow> conf C i | Inr r \<Rightarrow> taken (bt_pull_i B) C1 j (conf C i))"
    using conjunct1 [OF hd] unfolding c(2) .
  have "beating C'" using wf1 hd by (simp add: beating_def C')
  moreover have "C' k = C k" if "k \<noteq> i" "k \<noteq> j" for k using that by (simp add: C' C1_def)
  moreover have "vers C k \<le> vers C' k \<and> (conf C' k = conf C k \<or> conf C' k = conf C i \<or> conf C' k = conf C j)" for k
    using ij(1) c ci by (auto simp: C' taken_def split: sum.split if_splits) (auto simp: C1_def taken_def split: if_splits)
  moreover have "vers C i \<le> vers C' j \<and> vers C j \<le> vers C' i" if "lossless B"
  proof -
    have ok: "bt_pull_j B = None" "bt_pull_i B = None" "res = Inr resp" using that by (simp_all add: lossless_def res_def)
    have "conf C' j = taken None C i (conf C j)" "conf C' i = taken None C1 j (conf C i)"
      using ij(1) c ci ok by (simp_all add: C')
    then show ?thesis using c(1) ok by (auto simp: taken_def split: if_splits)
  qed
  ultimately show ?thesis by blast
qed

section \<open>Any number of exchanges\<close>

type_synonym meeting = "beat_env \<times> string \<times> string"

fun gossip :: "(string \<Rightarrow> daemon_env) \<Rightarrow> meeting list \<Rightarrow> members \<Rightarrow> members" where
  "gossip D [] C = C"
| "gossip D ((B, i, j) # ms) C = gossip D ms (exchange D B i j C)"

text \<open>Between two different nodes, with IDs.\<close>

definition proper :: "meeting \<Rightarrow> bool" where
  "proper x = (case x of (B, i, j) \<Rightarrow> i \<noteq> j \<and> i \<noteq> [] \<and> j \<noteq> [])"

text \<open>Who has heard, directly or through others, from a node of the set \<open>S\<close>.\<close>

fun informed :: "string set \<Rightarrow> meeting list \<Rightarrow> string set" where
  "informed S [] = S"
| "informed S ((B, i, j) # ms) = informed (if lossless B \<and> (i \<in> S \<or> j \<in> S) then insert i (insert j S) else S) ms"

text \<open>The newest configuration is \<open>c\<close>, the only one of its version, and the nodes of \<open>S\<close> hold it.\<close>

definition newest :: "ClusterConfig \<Rightarrow> string set \<Rightarrow> members \<Rightarrow> bool" where
  "newest c S C \<longleftrightarrow> (\<forall>k. cc_Version (conf C k) \<le> cc_Version c \<and> (vers C k = cc_Version c \<longrightarrow> conf C k = c)) \<and> (\<forall>k \<in> S. conf C k = c)"

lemma newest_exchange:
  assumes wf: "beating C" and p: "proper (B, i, j)" and n: "newest c S C"
  shows "newest c (if lossless B \<and> (i \<in> S \<or> j \<in> S) then insert i (insert j S) else S) (exchange D B i j C)"
proof -
  define C' where "C' = exchange D B i j C"
  have ij: "i \<noteq> j" "i \<noteq> []" "j \<noteq> []" using p by (simp_all add: proper_def)
  note ex = exchange_effect [OF wf ij C'_def]
  have top: "vers C' k \<le> cc_Version c \<and> (vers C' k = cc_Version c \<longrightarrow> conf C' k = c)" for k
    using ex n unfolding newest_def by metis
  have up: "conf C' k = c" if "cc_Version c \<le> vers C' k" for k using that top [of k] by auto
  have "vers C k \<le> vers C' k" for k using ex by blast
  with n up have kept: "conf C' k = c" if "k \<in> S" for k using that unfolding newest_def by metis
  have "conf C' i = c \<and> conf C' j = c" if "lossless B" "i \<in> S \<or> j \<in> S"
  proof -
    have l: "vers C i \<le> vers C' j" "vers C j \<le> vers C' i" using ex that(1) by blast+
    from that(2) show ?thesis
    proof
      assume "i \<in> S"
      then have "conf C i = c" using n unfolding newest_def by blast
      with l(1) up kept \<open>i \<in> S\<close> show ?thesis by metis
    next
      assume "j \<in> S"
      then have "conf C j = c" using n unfolding newest_def by blast
      with l(2) up kept \<open>j \<in> S\<close> show ?thesis by metis
    qed
  qed
  with top kept show ?thesis unfolding C'_def [symmetric] newest_def by auto
qed

lemma gossip_newest:
  "beating C \<Longrightarrow> list_all proper ms \<Longrightarrow> newest c S C \<Longrightarrow> newest c (informed S ms) (gossip D ms C)"
proof (induction ms arbitrary: S C)
  case (Cons x ms)
  obtain B i j where x: "x = (B, i, j)" by (metis prod_cases3)
  have p: "proper (B, i, j)" "list_all proper ms" using Cons.prems(2) x by simp_all
  then have "i \<noteq> j" "i \<noteq> []" "j \<noteq> []" by (simp_all add: proper_def)
  then have "beating (exchange D B i j C)" using exchange_effect [OF Cons.prems(1) _ _ _ refl] by blast
  from Cons.IH [OF this p(2) newest_exchange [OF Cons.prems(1) p(1) Cons.prems(3)]] show ?case by (simp add: x)
qed simp

lemma gossip_append: "gossip D (ms @ ns) C = gossip D ns (gossip D ms C)"
  by (induction D ms C rule: gossip.induct) simp_all

lemma gossip_forward: "beating C \<Longrightarrow> list_all proper ms \<Longrightarrow> beating (gossip D ms C) \<and> vers C l \<le> vers (gossip D ms C) l"
proof (induction ms arbitrary: C)
  case (Cons x ms)
  obtain B i j where x: "x = (B, i, j)" by (metis prod_cases3)
  have "i \<noteq> j" "i \<noteq> []" "j \<noteq> []" using Cons.prems(2) x by (simp_all add: proper_def)
  then have ex: "beating (exchange D B i j C)" "vers C l \<le> vers (exchange D B i j C) l"
    using exchange_effect [OF Cons.prems(1) _ _ _ refl] by blast+
  from Cons.IH [OF ex(1)] Cons.prems(2) ex(2) show ?case by (auto simp: x)
qed simp

section \<open>Properties\<close>

text \<open>C6. The newest configuration reaches everybody who can be reached. While nobody edits, let node \<open>h\<close>
  hold the highest version, and let no other configuration have that version. Then after any
  sequence of heartbeat exchanges between any nodes in any order, some or all of whose calls failed,
  every node that is connected to \<open>h\<close> by a chain of undisturbed exchanges holds exactly the
  configuration of \<open>h\<close>, and no node holds anything newer. On the way no node ever goes back: from any
  point of the sequence to any later one, its version does not decrease.\<close>

theorem gossip_converges:
  assumes "beating C" and "list_all proper ms" and "\<forall>k. vers C k \<le> vers C h \<and> (vers C k = vers C h \<longrightarrow> conf C k = conf C h)"
  shows "(\<forall>k \<in> informed {h} ms. conf (gossip D ms C) k = conf C h) \<and> (\<forall>l. vers (gossip D ms C) l \<le> vers C h) \<and>
     (\<forall>before after l. before @ after = ms \<longrightarrow> vers C l \<le> vers (gossip D before C) l \<and> vers (gossip D before C) l \<le> vers (gossip D ms C) l)"
proof -
  have "newest (conf C h) {h} C" using assms(3) by (auto simp: newest_def)
  note top = gossip_newest [OF assms(1,2) this, of D]
  have "vers C l \<le> vers (gossip D before C) l \<and> vers (gossip D before C) l \<le> vers (gossip D ms C) l" if ms: "before @ after = ms" for before after l
  proof -
    have p: "list_all proper before" "list_all proper after" using assms(2) by (simp_all add: ms [symmetric])
    note b = gossip_forward [OF assms(1) p(1), of D l]
    from gossip_forward [OF conjunct1 [OF b] p(2), of D l] b show ?thesis by (simp add: ms [symmetric] gossip_append)
  qed
  with top show ?thesis unfolding newest_def by blast
qed

definition beat_ok :: beat_env where
  "beat_ok = \<lparr>bt_mut_j = \<lparr>mu_now = 1, mu_call = demo_call, mu_rpc = \<lambda>_ _ _. Inl (ErrLib []), mu_trust = \<lambda>_. demo_call\<rparr>,
     bt_mut_i = \<lparr>mu_now = 1, mu_call = demo_call, mu_rpc = \<lambda>_ _ _. Inl (ErrLib []), mu_trust = \<lambda>_. demo_call\<rparr>,
     bt_mark_j = 1, bt_live_j = 1, bt_elect_j = 1, bt_mark_i = 1, bt_request = None, bt_pull_j = None, bt_answer = None, bt_pull_i = None\<rparr>"

definition beat_start :: members where
  "beat_start i = (demo_daemon i (demo_members\<lparr>cs_cfg := (if i = ''c'' then demo_cluster\<lparr>cc_Version := 2, cc_Resolvers := [''1.1.1.1'']\<rparr> else demo_cluster)\<rparr>))
     \<lparr>d_quorum := (demo_mgr i ''a'')\<lparr>m_selfAdvertise := i @ '':9901'', m_observer := True\<rparr>\<rparr>"

text \<open>c wakes up with a newer configuration; its own heartbeat to a is lost, b hears from it, a from b.\<close>

theorem gossip_converges_witness:
  "\<forall>D. cc_Resolvers (conf (gossip D [(beat_ok\<lparr>bt_request := Some (ErrLib ''timeout'')\<rparr>, ''c'', ''a''), (beat_ok, ''b'', ''c''), (beat_ok, ''b'', ''a'')] beat_start) ''a'') = [''1.1.1.1'']"
proof
  fix D
  let ?ms = "[(beat_ok\<lparr>bt_request := Some (ErrLib ''timeout'')\<rparr>, ''c'', ''a''), (beat_ok, ''b'', ''c''), (beat_ok, ''b'', ''a'')]"
  have b: "beating beat_start" by (simp add: beating_def beat_start_def)
  have p: "list_all proper ?ms" by (simp add: proper_def)
  have c: "conf beat_start k = (if k = ''c'' then demo_cluster\<lparr>cc_Version := 2, cc_Resolvers := [''1.1.1.1'']\<rparr> else demo_cluster)" for k
    by (simp add: beat_start_def)
  have top: "\<forall>k. vers beat_start k \<le> vers beat_start ''c'' \<and> (vers beat_start k = vers beat_start ''c'' \<longrightarrow> conf beat_start k = conf beat_start ''c'')"
    unfolding c by (simp add: demo_cluster_def)
  have "''a'' \<in> informed {''c''} ?ms" by (simp add: lossless_def beat_ok_def)
  with gossip_converges [OF b p top, of D] have "conf (gossip D ?ms beat_start) ''a'' = conf beat_start ''c''" by blast
  then show "cc_Resolvers (conf (gossip D ?ms beat_start) ''a'') = [''1.1.1.1'']" by (simp add: c)
qed

end
