(* ===== verification/Startup.thy ===== *)
theory Startup
  imports Join
begin

text \<open>
  \<open>qu serve\<close> from the process start to the running daemon (\<open>internal/cli/serve.go\<close>): the automatic
  initialisation of theory \<open>Join\<close>, \<open>New\<close> of theory \<open>Daemon\<close> on the files it leaves, and the first steps
  of the quorum loop. A second launch finds the files of the first.
\<close>

section \<open>The command\<close>

text \<open>The errors of the reads of \<open>New\<close> other than a missing file, and what its writes see.\<close>

record serve_reads =
  sr_node :: "err option"
  sr_cluster :: "err option"
  sr_trust :: "err option"
  sr_key :: "err option"
  sr_cert :: "err option"
  sr_node_write :: write_env
  sr_sync :: "nat \<Rightarrow> call_env"

definition start_on :: "key_parsers \<Rightarrow> os_env \<Rightarrow> serve_reads \<Rightarrow> fs \<Rightarrow> start_env" where
  "start_on P e rd f = \<lparr>sx_fs = f, sx_node_err = sr_node rd, sx_node_write = sr_node_write rd, sx_cluster_err = sr_cluster rd,
     sx_trust_err = sr_trust rd, sx_key = (case LoadPrivateKey P e (sr_key rd) f of Inl x \<Rightarrow> Some x | Inr _ \<Rightarrow> None),
     sx_cert = LoadCertPEM e (sr_cert rd) f, sx_trust = sr_sync rd\<rparr>"

text \<open>The \<open>RunE\<close> of \<open>qu serve\<close> up to \<open>Run\<close>, which is theory \<open>Lifecycle\<close>; \<open>stat\<close> as in \<open>autoInitIfNeeded\<close>.\<close>

definition serve_cmd ::
  "pem_encoder \<Rightarrow> node_codec \<Rightarrow> key_parsers \<Rightarrow> daemon_env \<Rightarrow> boot_env \<Rightarrow> err option \<Rightarrow> serve_reads \<Rightarrow> fs \<Rightarrow> err + daemon" where
  "serve_cmd pem N P D bt stat rd f =
     (case autoInitIfNeeded pem N D bt stat f of
        (Some x, _) \<Rightarrow> Inl x
      | (None, f') \<Rightarrow> New_daemon D N (start_on P (dv_os D) rd f'))"

definition readable :: "serve_reads \<Rightarrow> bool" where
  "readable rd \<longleftrightarrow> sr_node rd = None \<and> sr_cluster rd = None \<and> sr_trust rd = None \<and> sr_key rd = None \<and> sr_cert rd = None"

section \<open>What a successful initialisation leaves on disk\<close>

lemma AtomicWrite_file:
  "AtomicWrite w path data perm f = (None, f') \<Longrightarrow>
     f' p = (if p = path then Some \<lparr>f_data = data, f_perm = perm\<rparr> else if p = tmp_name path w then None else f p)"
  by (auto dest: AtomicWrite_ok)

lemma GenerateKeyPair_ok:
  assumes "GenerateKeyPair pem e bt cn f = (None, f')"
  shows "\<exists>key pub der g1 g2. bt_rsa bt = Inr key \<and> km_pub key = Inr pub \<and>
     buildSelfSignedCert (km_cert key) (bt_serial bt) (fst (bt_cert_now bt)) (snd (bt_cert_now bt)) cn = Inr der \<and>
     AtomicWrite (bt_priv_write bt) (PrivateKeyPath e) (pem ''RSA PRIVATE KEY'' (km_priv key)) 384 f = (None, g1) \<and>
     AtomicWrite (bt_pub_write bt) (PublicKeyPath e) (pem ''PUBLIC KEY'' pub) 420 g1 = (None, g2) \<and>
     AtomicWrite (bt_cert_write bt) (CertFilePath e) (pem ''CERTIFICATE'' der) 420 g2 = (None, f')"
proof -
  obtain k where k: "bt_rsa bt = Inr k"
    using assms by (simp add: GenerateKeyPair_def split: if_splits option.splits sum.splits)
  obtain g1 where 1: "AtomicWrite (bt_priv_write bt) (PrivateKeyPath e) (pem ''RSA PRIVATE KEY'' (km_priv k)) 384 f = (None, g1)"
    using assms by (cases "AtomicWrite (bt_priv_write bt) (PrivateKeyPath e) (pem ''RSA PRIVATE KEY'' (km_priv k)) 384 f") (simp add: GenerateKeyPair_def writePEM_def k split: if_splits option.splits)
  obtain pub where pub: "km_pub k = Inr pub"
    using assms by (cases "km_pub k") (simp_all add: GenerateKeyPair_def writePEM_def k 1 split: if_splits option.splits)
  obtain g2 where 2: "AtomicWrite (bt_pub_write bt) (PublicKeyPath e) (pem ''PUBLIC KEY'' pub) 420 g1 = (None, g2)"
    using assms by (cases "AtomicWrite (bt_pub_write bt) (PublicKeyPath e) (pem ''PUBLIC KEY'' pub) 420 g1") (simp add: GenerateKeyPair_def writePEM_def k 1 pub split: if_splits option.splits)
  let ?crt = "buildSelfSignedCert (km_cert k) (bt_serial bt) (fst (bt_cert_now bt)) (snd (bt_cert_now bt)) cn"
  obtain der where der: "?crt = Inr der"
    using assms by (cases ?crt) (simp_all add: GenerateKeyPair_def writePEM_def k 1 pub 2 split: if_splits option.splits)
  have "AtomicWrite (bt_cert_write bt) (CertFilePath e) (pem ''CERTIFICATE'' der) 420 g2 = (None, f')"
    using assms by (simp add: GenerateKeyPair_def writePEM_def k 1 pub 2 der split: if_splits option.splits)
  with k pub der 1 2 show ?thesis by blast
qed

lemma bootstrapNode_ok:
  assumes "bootstrapNode pem N D bt cfg0 f = (Inr cfg, f')"
  shows "\<exists>f1 f2 certPEM fp s cbs. cfg = boot_defaults (bt_uuid bt) cfg0 \<and> f' = cs_fs s \<and>
     NodeConfig_Save N (dv_os D) (bt_node_write bt) cfg f = (None, f1) \<and> GenerateKeyPair pem (dv_os D) bt (nc_NodeID cfg) f1 = (None, f2) \<and>
     LoadCertPEM (dv_os D) (bt_cert_read bt) f2 = Inr certPEM \<and> FingerprintFromCertPEM (dv_pki D) certPEM = Inr fp \<and>
     Mutate (dv_yaml D) (dv_os D) (bt_call bt) (nc_NodeID cfg) (\<lambda>c. (None, c\<lparr>cc_Peers := [self_peer cfg fp certPEM]\<rparr>))
       \<lparr>cs_cfg = zero_ClusterConfig, cs_lastSum = zero_sum, cs_onChange = [], cs_fs = f2\<rparr> = (None, s, cbs)"
proof -
  define c where "c = boot_defaults (bt_uuid bt) cfg0"
  note run = assms [unfolded bootstrapNode_def Let_def, folded c_def]
  obtain r1 f1 where 1: "NodeConfig_Save N (dv_os D) (bt_node_write bt) c f = (r1, f1)" by fastforce
  obtain r2 f2 where 2: "GenerateKeyPair pem (dv_os D) bt (nc_NodeID c) f1 = (r2, f2)" by fastforce
  have n: "EnsureDataDir (bt_keys bt) (bt_socket bt) = None" "r1 = None" "r2 = None"
    using run by (auto simp: 1 2 split: option.splits)
  obtain certPEM fp where 3: "LoadCertPEM (dv_os D) (bt_cert_read bt) f2 = Inr certPEM" "FingerprintFromCertPEM (dv_pki D) certPEM = Inr fp"
    using run by (auto simp: 1 2 n split: sum.splits)
  obtain r4 s cbs where 4: "Mutate (dv_yaml D) (dv_os D) (bt_call bt) (nc_NodeID c) (\<lambda>c'. (None, c'\<lparr>cc_Peers := [self_peer c fp certPEM]\<rparr>))
       \<lparr>cs_cfg = zero_ClusterConfig, cs_lastSum = zero_sum, cs_onChange = [], cs_fs = f2\<rparr> = (r4, s, cbs)" by (metis prod_cases3)
  have "r4 = None \<and> cfg = c \<and> f' = cs_fs s" using run by (cases r4) (simp_all add: 1 2 n 3 4)
  with 1 2 3 4 n show ?thesis unfolding c_def by blast
qed

lemma bootstrap_files:
  assumes "bootstrapNode pem N D bt cfg0 f = (Inr cfg, f')"
  shows "cfg = boot_defaults (bt_uuid bt) cfg0 \<and>
     (\<exists>node key cert fp out. nyaml_Marshal N cfg = Inr node \<and> bt_rsa bt = Inr key \<and>
        buildSelfSignedCert (km_cert key) (bt_serial bt) (fst (bt_cert_now bt)) (snd (bt_cert_now bt)) (nc_NodeID cfg) = Inr cert \<and>
        f' (NodeFilePath (dv_os D)) = Some \<lparr>f_data = node, f_perm = 384\<rparr> \<and>
        f' (PrivateKeyPath (dv_os D)) = Some \<lparr>f_data = pem ''RSA PRIVATE KEY'' (km_priv key), f_perm = 384\<rparr> \<and>
        f' (CertFilePath (dv_os D)) = Some \<lparr>f_data = pem ''CERTIFICATE'' cert, f_perm = 420\<rparr> \<and>
        FingerprintFromCertPEM (dv_pki D) (pem ''CERTIFICATE'' cert) = Inr fp \<and>
        yaml_Marshal (dv_yaml D) (bump (bt_call bt) (nc_NodeID cfg) (zero_ClusterConfig\<lparr>cc_Peers := [self_peer cfg fp (pem ''CERTIFICATE'' cert)]\<rparr>)) = Inr out \<and>
        f' (ClusterFilePath (dv_os D)) = Some \<lparr>f_data = out, f_perm = 384\<rparr> \<and>
        (f (TrustFilePath (dv_os D)) = None \<longrightarrow> f' (TrustFilePath (dv_os D)) = None))"
proof -
  let ?e = "dv_os D" and ?cfg = "boot_defaults (bt_uuid bt) cfg0"
  obtain f1 f2 certPEM fp s cbs where save: "NodeConfig_Save N ?e (bt_node_write bt) ?cfg f = (None, f1)"
    and gen: "GenerateKeyPair pem ?e bt (nc_NodeID ?cfg) f1 = (None, f2)" and cert: "LoadCertPEM ?e (bt_cert_read bt) f2 = Inr certPEM"
    and fp: "FingerprintFromCertPEM (dv_pki D) certPEM = Inr fp"
    and seed: "Mutate (dv_yaml D) ?e (bt_call bt) (nc_NodeID ?cfg) (\<lambda>c. (None, c\<lparr>cc_Peers := [self_peer ?cfg fp certPEM]\<rparr>))
              \<lparr>cs_cfg = zero_ClusterConfig, cs_lastSum = zero_sum, cs_onChange = [], cs_fs = f2\<rparr> = (None, s, cbs)"
    and r: "cfg = ?cfg" "f' = cs_fs s"
    using bootstrapNode_ok [OF assms] by blast
  obtain node where node: "nyaml_Marshal N ?cfg = Inr node" "AtomicWrite (bt_node_write bt) (NodeFilePath ?e) node 384 f = (None, f1)"
    using save by (auto simp: NodeConfig_Save_def split: sum.splits)
  obtain key pub der g1 g2 where key: "bt_rsa bt = Inr key"
    "AtomicWrite (bt_priv_write bt) (PrivateKeyPath ?e) (pem ''RSA PRIVATE KEY'' (km_priv key)) 384 f1 = (None, g1)"
    "AtomicWrite (bt_pub_write bt) (PublicKeyPath ?e) (pem ''PUBLIC KEY'' pub) 420 g1 = (None, g2)"
    "AtomicWrite (bt_cert_write bt) (CertFilePath ?e) (pem ''CERTIFICATE'' der) 420 g2 = (None, f2)"
    "buildSelfSignedCert (km_cert key) (bt_serial bt) (fst (bt_cert_now bt)) (snd (bt_cert_now bt)) (nc_NodeID ?cfg) = Inr der"
    using GenerateKeyPair_ok [OF gen] by blast
  obtain out where out: "yaml_Marshal (dv_yaml D) (bump (bt_call bt) (nc_NodeID ?cfg) (zero_ClusterConfig\<lparr>cc_Peers := [self_peer ?cfg fp certPEM]\<rparr>)) = Inr out"
    "AtomicWrite (ce_write (bt_call bt)) (ClusterFilePath ?e) out 384 f2 = (None, f')"
    using seed r by (auto simp: Mutate_cases write_config_def split: option.splits prod.splits sum.splits)
  note files = AtomicWrite_file [OF node(2)] AtomicWrite_file [OF key(2)] AtomicWrite_file [OF key(3)] AtomicWrite_file [OF key(4)]
    AtomicWrite_file [OF out(2)]
  have "certPEM = pem ''CERTIFICATE'' der" using cert by (simp add: LoadCertPEM_def files split: option.splits)
  with r(1) node(1) key(1,5) fp out(1) show ?thesis by (simp add: files data_paths)
qed

section \<open>What the daemon finds\<close>

text \<open>The environment is read twice, by the initialisation and again by \<open>New\<close>, to the same effect.\<close>

lemma reload_node:
  assumes env: "ApplyEnvOverrides e zero_NodeConfig = (None, n)" and uuid: "uuid \<noteq> []"
    and disk: "f (NodeFilePath e) = Some \<lparr>f_data = raw, f_perm = p\<rparr>" "nyaml_Unmarshal N raw = Inr (boot_defaults uuid n)"
  shows "LoadNodeConfig N e None f = Inr (boot_defaults uuid n)" and "nc_NodeID (boot_defaults uuid n) \<noteq> []"
    and "nc_ClusterSecret (boot_defaults uuid n) = []"
proof -
  let ?c = "boot_defaults uuid n" and ?v = "Getenv e ''QUPTIME_BIND_PORT''"
  have again: "layered v (if layered v [] [] = [] then x else layered v [] []) [] = (if v = [] then x else v)" "layered v [] [] = v" for v x
    by (simp_all add: layered_def)
  have c: "nc_NodeID ?c = (if nc_NodeID n = [] then uuid else nc_NodeID n)" "nc_BindAddr ?c = (if nc_BindAddr n = [] then ''0.0.0.0'' else nc_BindAddr n)"
    "nc_BindPort ?c = (if nc_BindPort n = 0 then 9901 else nc_BindPort n)" "nc_Advertise ?c = nc_Advertise n" "nc_ClusterSecret ?c = nc_ClusterSecret n"
    by (simp_all add: boot_defaults_def Let_def)
  have n: "nc_NodeID n = Getenv e ''QUPTIME_NODE_ID''" "nc_BindAddr n = Getenv e ''QUPTIME_BIND_ADDR''" "nc_ClusterSecret n = []"
    "nc_Advertise n = Getenv e ''QUPTIME_ADVERTISE''" and port: "?v = [] \<and> nc_BindPort n = 0 \<or> ?v \<noteq> [] \<and> Atoi ?v = Some (nc_BindPort n)"
    using env by (cases "Atoi ?v"; cases "?v = []"; auto simp: ApplyEnvOverrides_eq zero_NodeConfig_def Let_def again)+
  show "nc_NodeID ?c \<noteq> []" "nc_ClusterSecret ?c = []" using uuid by (simp_all add: c n)
  have "ApplyEnvOverrides e ?c = (None, ?c\<lparr>nc_BindPort := if ?v = [] then nc_BindPort ?c else nc_BindPort n\<rparr>)"
    using port by (cases "?v = []") (auto simp: ApplyEnvOverrides_eq Let_def c n layered_def intro!: NodeConfig.equality)
  moreover have "nc_BindAddr ?c \<noteq> []" by (simp add: c)
  moreover have "?c\<lparr>nc_BindPort := nc_BindPort ?c\<rparr> = ?c" by simp
  ultimately show "LoadNodeConfig N e None f = Inr ?c"
    using port by (auto simp: LoadNodeConfig_def disk Let_def c intro!: NodeConfig.equality)
qed

lemma first_files:
  assumes nyaml: "\<And>c out. nyaml_Marshal N c = Inr out \<Longrightarrow> nyaml_Unmarshal N out = Inr c"
    and yaml: "\<And>c out. yaml_Marshal (dv_yaml D) c = Inr out \<Longrightarrow> yaml_Unmarshal (dv_yaml D) out = Inr c"
    and pem: "\<And>der. kp_pem P (pem ''RSA PRIVATE KEY'' der) = Some (''RSA PRIVATE KEY'', der)"
    and pkcs1: "\<And>key. bt_rsa bt = Inr key \<Longrightarrow> \<exists>k. kp_pkcs1 P (km_priv key) = Inr k"
    and issued: "\<forall>key t der. bt_rsa bt = Inr key \<longrightarrow> km_cert key t = Inr der \<longrightarrow>
      (\<exists>c. tlsCert (dv_pki D) (pem ''CERTIFICATE'' der) = Inr c \<and> cert_CommonName c = tm_CommonName t)"
    and uuid: "bt_uuid bt \<noteq> []" and fresh: "f (NodeFilePath (dv_os D)) = None" "f (TrustFilePath (dv_os D)) = None"
    and ok: "autoInitIfNeeded pem N D bt None f = (None, f')"
  shows "\<exists>n cert x c sum. nc_NodeID n \<noteq> [] \<and> tlsCert (dv_pki D) cert = Inr x \<and> cert_CommonName x = nc_NodeID n \<and>
     c = bump (bt_call bt) (nc_NodeID n) (zero_ClusterConfig\<lparr>cc_Peers := [self_peer n (Fingerprint (dv_pki D) x) cert]\<rparr>) \<and>
     f' (NodeFilePath (dv_os D)) \<noteq> None \<and>
     (\<forall>rd. readable rd \<longrightarrow> New_daemon D N (start_on P (dv_os D) rd f') =
        Inr (New_assemble D (sr_sync rd) n cert \<lparr>cs_cfg = c, cs_lastSum = sum, cs_onChange = [], cs_fs = f'\<rparr> \<lparr>ts_entries = [], ts_fs = f'\<rparr>))"
proof -
  let ?e = "dv_os D"
  obtain n where env: "ApplyEnvOverrides ?e zero_NodeConfig = (None, n)" and boot: "\<exists>cfg. bootstrapNode pem N D bt n f = (Inr cfg, f')"
    using ok fresh(1) by (auto simp: autoInitIfNeeded_def split: prod.splits option.splits sum.splits)
  then obtain cfg where run: "bootstrapNode pem N D bt n f = (Inr cfg, f')" by blast
  from bootstrap_files [OF run] obtain node key cert fp out where cfg: "cfg = boot_defaults (bt_uuid bt) n"
    and node: "nyaml_Marshal N cfg = Inr node" "f' (NodeFilePath ?e) = Some \<lparr>f_data = node, f_perm = 384\<rparr>"
    and key: "bt_rsa bt = Inr key"
      "f' (PrivateKeyPath ?e) = Some \<lparr>f_data = pem ''RSA PRIVATE KEY'' (km_priv key), f_perm = 384\<rparr>"
    and made: "buildSelfSignedCert (km_cert key) (bt_serial bt) (fst (bt_cert_now bt)) (snd (bt_cert_now bt)) (nc_NodeID cfg) = Inr cert"
    and cert: "f' (CertFilePath ?e) = Some \<lparr>f_data = pem ''CERTIFICATE'' cert, f_perm = 420\<rparr>"
      "FingerprintFromCertPEM (dv_pki D) (pem ''CERTIFICATE'' cert) = Inr fp"
    and seed: "yaml_Marshal (dv_yaml D) (bump (bt_call bt) (nc_NodeID cfg) (zero_ClusterConfig\<lparr>cc_Peers := [self_peer cfg fp (pem ''CERTIFICATE'' cert)]\<rparr>)) = Inr out"
      "f' (ClusterFilePath ?e) = Some \<lparr>f_data = out, f_perm = 384\<rparr>" and trust: "f' (TrustFilePath ?e) = None"
    using fresh(2) by blast
  note load = reload_node [where f = f', OF env uuid node(2) nyaml [OF node(1), unfolded cfg], folded cfg]
  obtain k where "kp_pkcs1 P (km_priv key) = Inr k" using pkcs1 [OF key(1)] by auto
  then have "New_daemon D N (start_on P ?e rd f') =
      Inr (New_assemble D (sr_sync rd) cfg (pem ''CERTIFICATE'' cert) \<lparr>cs_cfg = bump (bt_call bt) (nc_NodeID cfg)
        (zero_ClusterConfig\<lparr>cc_Peers := [self_peer cfg fp (pem ''CERTIFICATE'' cert)]\<rparr>), cs_lastSum = sha256 (dv_yaml D) out,
        cs_onChange = [], cs_fs = f'\<rparr> \<lparr>ts_entries = [], ts_fs = f'\<rparr>)" if "readable rd" for rd
    using that load by (simp add: New_daemon_def New_node_def start_on_def readable_def LoadPrivateKey_def LoadCertPEM_def key(2) pem cert(1)
        LoadClusterConfig_def seed(2) yaml [OF seed(1)] trust_Load_def trust)
  moreover obtain t where "km_cert key t = Inr cert" "tm_CommonName t = nc_NodeID cfg"
    using made by (auto simp: buildSelfSignedCert_def split: sum.splits)
  then obtain x where "tlsCert (dv_pki D) (pem ''CERTIFICATE'' cert) = Inr x" "cert_CommonName x = nc_NodeID cfg"
    using issued key(1) by metis
  moreover from this(1) cert(2) have "fp = Fingerprint (dv_pki D) x"
    by (auto simp: tlsCert_def FingerprintFromCertPEM_def split: option.splits sum.splits)
  ultimately show ?thesis using load(2) node(2) by blast
qed

lemma assemble_alone:
  assumes "c = bump ce (nc_NodeID n) (zero_ClusterConfig\<lparr>cc_Peers := [self_peer n fp cert]\<rparr>)" and "nc_NodeID n \<noteq> []"
  shows "New_assemble D tce n cert \<lparr>cs_cfg = c, cs_lastSum = h, cs_onChange = [], cs_fs = f\<rparr> st =
     \<lparr>d_node = n, d_cert = cert, d_cfg = \<lparr>cs_cfg = c, cs_lastSum = h, cs_onChange = [0], cs_fs = f\<rparr>, d_trust = st,
      d_quorum = SetVersionObserver (SetSelfAdvertise (AdvertiseAddr n) (New_Manager (nc_NodeID n))),
      d_agg = SetTransition True (NewAggregator False)\<rparr>"
  using assms by (simp add: New_assemble_def syncTrustFromCluster_def OnChange_def bump.simps sync_peer_def self_peer_def)

section \<open>Properties\<close>

text \<open>C24. The first launch on an empty data directory, and every one after it. Where the automatic
  initialisation of \<open>qu serve\<close> reports success, the daemon comes up in the same run: its configuration
  is version 1 with this node as the only peer, under its own address, certificate and fingerprint, the
  certificate names the node, it trusts nobody, and once the quorum loop has taken its first steps it is master with term 1 and has
  quorum. A later launch on the files it left, whatever identifier or key would have been drawn then,
  brings up the very same daemon.\<close>

theorem first_boot:
  assumes nyaml: "\<And>c out. nyaml_Marshal N c = Inr out \<Longrightarrow> nyaml_Unmarshal N out = Inr c"
    and yaml: "\<And>c out. yaml_Marshal (dv_yaml D) c = Inr out \<Longrightarrow> yaml_Unmarshal (dv_yaml D) out = Inr c"
    and pem: "\<And>der. kp_pem P (pem ''RSA PRIVATE KEY'' der) = Some (''RSA PRIVATE KEY'', der)"
    and pkcs1: "\<And>key. bt_rsa bt = Inr key \<Longrightarrow> \<exists>k. kp_pkcs1 P (km_priv key) = Inr k"
    and issued: "\<forall>key t der. bt_rsa bt = Inr key \<longrightarrow> km_cert key t = Inr der \<longrightarrow>
      (\<exists>c. tlsCert (dv_pki D) (pem ''CERTIFICATE'' der) = Inr c \<and> cert_CommonName c = tm_CommonName t)"
    and uuid: "bt_uuid bt \<noteq> []" and fresh: "f (NodeFilePath (dv_os D)) = None" "f (TrustFilePath (dv_os D)) = None"
    and ok: "autoInitIfNeeded pem N D bt None f = (None, f')" and rd: "readable rd"
  shows "\<exists>d x. serve_cmd pem N P D bt None rd f = Inr d \<and> cs_fs (d_cfg d) = f' \<and>
     tlsCert (dv_pki D) (d_cert d) = Inr x \<and> cert_CommonName x = self_of d \<and> ts_entries (d_trust d) = [] \<and>
     cc_Version (cs_cfg (d_cfg d)) = 1 \<and> cc_Peers (cs_cfg (d_cfg d)) = [self_peer (d_node d) (Fingerprint (dv_pki D) x) (d_cert d)] \<and>
     (let m = Start t_mark t_live t_now (cs_cfg (d_cfg d)) (d_quorum d)
      in IsMaster m \<and> Term m = 1 \<and> HasQuorum t_live (cs_cfg (d_cfg d)) m) \<and>
     (\<forall>bt' rd'. readable rd' \<longrightarrow> serve_cmd pem N P D bt' None rd' f' = Inr d)"
proof -
  from first_files [OF nyaml yaml pem pkcs1 issued uuid fresh ok] obtain n cert x c h where n: "nc_NodeID n \<noteq> []"
    and x: "tlsCert (dv_pki D) cert = Inr x" "cert_CommonName x = nc_NodeID n"
    and c: "c = bump (bt_call bt) (nc_NodeID n) (zero_ClusterConfig\<lparr>cc_Peers := [self_peer n (Fingerprint (dv_pki D) x) cert]\<rparr>)"
    and there: "f' (NodeFilePath (dv_os D)) \<noteq> None"
    and new: "\<And>rd. readable rd \<Longrightarrow> New_daemon D N (start_on P (dv_os D) rd f') =
        Inr (New_assemble D (sr_sync rd) n cert \<lparr>cs_cfg = c, cs_lastSum = h, cs_onChange = [], cs_fs = f'\<rparr> \<lparr>ts_entries = [], ts_fs = f'\<rparr>)"
    by blast
  let ?d = "\<lparr>d_node = n, d_cert = cert, d_cfg = \<lparr>cs_cfg = c, cs_lastSum = h, cs_onChange = [0], cs_fs = f'\<rparr>,
      d_trust = \<lparr>ts_entries = [], ts_fs = f'\<rparr>, d_quorum = SetVersionObserver (SetSelfAdvertise (AdvertiseAddr n) (New_Manager (nc_NodeID n))),
      d_agg = SetTransition True (NewAggregator False)\<rparr>"
  have up: "New_daemon D N (start_on P (dv_os D) rd f') = Inr ?d" if "readable rd" for rd
    using new [OF that] assemble_alone [OF c n] by simp
  have "serve_cmd pem N P D bt None rd f = Inr ?d" using ok up [OF rd] by (simp add: serve_cmd_def)
  moreover have "serve_cmd pem N P D bt' None rd' f' = Inr ?d" if "readable rd'" for bt' rd'
    using there up [OF that] by (simp add: serve_cmd_def autoInitIfNeeded_def)
  moreover have "cc_Version c = 1" "cc_Peers c = [self_peer n (Fingerprint (dv_pki D) x) cert]" by (simp_all add: c bump.simps zero_ClusterConfig_def)
  moreover have "IsMaster (Start t_mark t_live t_now c (d_quorum ?d)) \<and> Term (Start t_mark t_live t_now c (d_quorum ?d)) = 1 \<and>
      HasQuorum t_live c (Start t_mark t_live t_now c (d_quorum ?d))"
    using single_node_starts_as_master [of "d_quorum ?d" c t_mark t_live t_now] n
    by (simp add: SetVersionObserver_def SetSelfAdvertise_def New_Manager_def \<open>cc_Peers c = _\<close>)
  ultimately show ?thesis using x by (intro exI [of _ ?d] exI [of _ x]) (simp add: Let_def)
qed

text \<open>An empty volume, and codings that only know the two documents of this launch.\<close>

definition boot_node :: NodeConfig where
  "boot_node = \<lparr>nc_NodeID = ''d'', nc_BindAddr = ''0.0.0.0'', nc_BindPort = 9901, nc_Advertise = [], nc_ClusterSecret = []\<rparr>"

definition boot_ncodec :: node_codec where
  "boot_ncodec = \<lparr>nyaml_Marshal = (\<lambda>c. if c = boot_node then Inr ''n'' else Inl (ErrLib ''yaml'')),
     nyaml_Unmarshal = (\<lambda>s. if s = ''n'' then Inr boot_node else Inl (ErrLib ''yaml''))\<rparr>"

definition boot_seed :: ClusterConfig where
  "boot_seed = bump demo_call ''d'' (zero_ClusterConfig\<lparr>cc_Peers := [self_peer boot_node
     (Fingerprint demo_pki \<lparr>cert_SPKI = ''d'', cert_CommonName = ''d'', cert_Raw = ''d''\<rparr>) ''d'']\<rparr>)"

definition boot_denv :: daemon_env where
  "boot_denv = jn_denv\<lparr>dv_yaml := demo_codec boot_seed\<rparr>"

definition boot_reads :: serve_reads where
  "boot_reads = \<lparr>sr_node = None, sr_cluster = None, sr_trust = None, sr_key = None, sr_cert = None, sr_node_write = io_good,
     sr_sync = (\<lambda>_. demo_call)\<rparr>"

lemma boot_init: "\<exists>f'. autoInitIfNeeded (\<lambda>ty der. der) boot_ncodec boot_denv jn_boot0 None (\<lambda>_. None) = (None, f')"
proof -
  have env: "ApplyEnvOverrides demo_env zero_NodeConfig = (None, zero_NodeConfig)"
    by (simp add: ApplyEnvOverrides_def demo_env_def Let_def)
  have d: "boot_defaults ''d'' zero_NodeConfig = boot_node" by (simp add: boot_defaults_def zero_NodeConfig_def boot_node_def Let_def)
  have p: "dv_os boot_denv = demo_env" "dv_pki boot_denv = demo_pki" "dv_yaml boot_denv = demo_codec boot_seed" "nc_NodeID boot_node = ''d''"
    "yaml_Marshal (demo_codec boot_seed) boot_seed = Inr ''yaml''" "nyaml_Marshal boot_ncodec boot_node = Inr ''n''"
    by (simp_all add: boot_denv_def boot_node_def demo_codec_def boot_ncodec_def)
  show ?thesis
    by (simp add: autoInitIfNeeded_def p env bootstrapNode_def EnsureDataDir_def jn_boot0_def d NodeConfig_Save_def
        GenerateKeyPair_def buildSelfSignedCert_def writePEM_def AtomicWrite_io_good demo_env_paths LoadCertPEM_def FingerprintFromCertPEM_def demo_pki_def
        Mutate_cases write_config_io_good tmp_name_def tmp_rand_io_good Let_def boot_seed_def [symmetric, unfolded demo_pki_def])
qed

theorem first_boot_witness:
  "\<exists>d. serve_cmd (\<lambda>ty der. der) boot_ncodec jn_parsers boot_denv jn_boot0 None boot_reads (\<lambda>_. None) = Inr d \<and>
     cc_Version (cs_cfg (d_cfg d)) = 1 \<and> IsMaster (Start 5 6 7 (cs_cfg (d_cfg d)) (d_quorum d))"
proof -
  obtain f' where ok: "autoInitIfNeeded (\<lambda>ty der. der) boot_ncodec boot_denv jn_boot0 None (\<lambda>_. None) = (None, f')"
    using boot_init by blast
  have nyaml: "nyaml_Marshal boot_ncodec c = Inr out \<Longrightarrow> nyaml_Unmarshal boot_ncodec out = Inr c" for c out
    by (auto simp: boot_ncodec_def split: if_splits)
  have yaml: "yaml_Marshal (dv_yaml boot_denv) c = Inr out \<Longrightarrow> yaml_Unmarshal (dv_yaml boot_denv) out = Inr c" for c out
    by (auto simp: boot_denv_def demo_codec_def split: if_splits)
  have pem: "kp_pem jn_parsers der = Some (''RSA PRIVATE KEY'', der)" "\<exists>k. kp_pkcs1 jn_parsers der = Inr k" for der
    by (simp_all add: jn_parsers_def)
  have issued: "\<forall>key t der. bt_rsa jn_boot0 = Inr key \<longrightarrow> km_cert key t = Inr der \<longrightarrow>
      (\<exists>c. tlsCert (dv_pki boot_denv) der = Inr c \<and> cert_CommonName c = tm_CommonName t)"
    by (auto simp: boot_denv_def jn_boot0_def tlsCert_def demo_pki_def)
  have "readable boot_reads" "bt_uuid jn_boot0 \<noteq> []" by (simp_all add: readable_def boot_reads_def jn_boot0_def)
  with first_boot [of boot_ncodec boot_denv jn_parsers "\<lambda>ty der. der" jn_boot0 "\<lambda>_. None" f' boot_reads 5 6 7, OF nyaml yaml pem(1) pem(2) issued _ _ _ ok]
  show ?thesis by (auto simp: Let_def)
qed

section \<open>Launches that fail half-way\<close>

text \<open>\<open>node.yaml\<close> is written before the keys. When the private key cannot be written (a full disk), the
  launch fails with the node file in place, and from then on no command gets the node going: \<open>qu serve\<close>
  takes the node as initialised and fails on the missing key, \<open>qu init\<close> and \<open>qu enroll join\<close> refuse.\<close>

lemma failed_key_leaves_node:
  assumes "NodeConfig_Save N (dv_os D) (bt_node_write bt) (boot_defaults (bt_uuid bt) cfg) f = (None, f1)"
    and "bt_rsa bt = Inr key" and "AtomicWrite (bt_priv_write bt) (PrivateKeyPath (dv_os D)) (pem ''RSA PRIVATE KEY'' (km_priv key)) 384 f1 = (Some x, f2)"
    and "bt_keys bt = None" "bt_socket bt = None" and "f (PrivateKeyPath (dv_os D)) = None"
  shows "bootstrapNode pem N D bt cfg f = (Inl (ErrWrap ''generate keys'' x), f2) \<and>
     f2 (NodeFilePath (dv_os D)) \<noteq> None \<and> f2 (PrivateKeyPath (dv_os D)) = None"
proof -
  obtain node where "AtomicWrite (bt_node_write bt) (NodeFilePath (dv_os D)) node 384 f = (None, f1)"
    using assms(1) by (auto simp: NodeConfig_Save_def split: sum.splits)
  note f1 = AtomicWrite_file [OF this]
  have f2: "f2 p = f1 p" if "p \<noteq> tmp_name (PrivateKeyPath (dv_os D)) (bt_priv_write bt)" for p
    using AtomicWrite_err [OF assms(3) that] .
  have "f1 (PrivateKeyPath (dv_os D)) = None" "f1 (NodeFilePath (dv_os D)) \<noteq> None"
    using assms(6) by (simp_all add: f1 data_paths)
  moreover from this(1) have "GenerateKeyPair pem (dv_os D) bt (nc_NodeID (boot_defaults (bt_uuid bt) cfg)) f1 = (Some x, f2)"
    using assms(2-5) by (simp add: GenerateKeyPair_def EnsureDataDir_def writePEM_def)
  ultimately show ?thesis
    using assms(1,4,5) f2 by (simp add: bootstrapNode_def EnsureDataDir_def Let_def data_paths)
qed

lemma half_bootstrap_stuck:
  assumes "f (NodeFilePath (dv_os D)) \<noteq> None" and "f (PrivateKeyPath (dv_os D)) = None"
  shows "(\<exists>x. serve_cmd pem N P D bt stat rd f = Inl x) \<and> (\<exists>x. runInit pem N D bt fl f = (Inl x, f)) \<and>
     (\<exists>x. runEnrollJoin pem N P D T jn tok cfg f = (Inl x, f, []))"
proof -
  have "\<exists>x. New_daemon D N (start_on P (dv_os D) rd g) = Inl x" if "g (PrivateKeyPath (dv_os D)) = None" for g
    using that by (auto simp: New_daemon_def start_on_def LoadPrivateKey_def split: sum.split prod.split option.split)
  with assms show ?thesis
    by (auto simp: serve_cmd_def autoInitIfNeeded_def runInit_def runEnrollJoin_def split: option.split)
qed

text \<open>When the last write, that of \<open>cluster.yaml\<close>, failed, the next launch does come up, but on an empty
  configuration: the state the comment in \<open>bootstrapNode\<close> warns of, which leads to two masters once
  another node joins.\<close>

lemma unseeded_cluster_starts_empty:
  assumes "New_daemon D N (start_on P (dv_os D) rd f) = Inr d" and "f (ClusterFilePath (dv_os D)) = None"
    and "nyaml_Unmarshal N raw = Inr n" "f (NodeFilePath (dv_os D)) = Some \<lparr>f_data = raw, f_perm = p\<rparr>"
      "nc_ClusterSecret n = []"
  shows "cs_cfg (d_cfg d) = zero_ClusterConfig"
  using assms
  by (auto simp: New_daemon_def New_node_def start_on_def LoadClusterConfig_def LoadNodeConfig_def New_assemble_def syncTrustFromCluster_def OnChange_def
      ApplyEnvOverrides_eq Let_def split: sum.splits option.splits if_splits)

end
