(* ===== verification/Templates.thy ===== *)
theory Templates
  imports Alerts
begin

text \<open>
  \<open>internal/alerts/defaults.go\<close>: the texts of the built-in templates, and what \<open>text/template\<close> makes of
  them. The part of the package's language that the templates use is written out: text, the fields
  of the context, \<open>if\<close> on a field up to its \<open>end\<close>, and the trim markers. Any other source is left to
  \<open>rest\<close>, the engine of theory \<open>Alerts\<close>. The parsed templates of \<open>init\<close> are what \<open>default_subject\<close> and
  \<open>default_body\<close> render.
\<close>

section \<open>text/template\<close>

datatype tvalue = VStr string | VInt int

definition template_fields :: "(string list \<times> (TemplateContext \<Rightarrow> tvalue)) list" where
  "template_fields =
     [([''From''], \<lambda>x. VStr (tc_From x)), ([''To''], \<lambda>x. VStr (tc_To x)), ([''Verb''], \<lambda>x. VStr (tc_Verb x)),
      ([''VerbLower''], \<lambda>x. VStr (tc_VerbLower x)), ([''NodeID''], \<lambda>x. VStr (tc_NodeID x)), ([''When''], \<lambda>x. VStr (tc_When x)),
      ([''Check'', ''ID''], \<lambda>x. VStr (ck_ID (tc_Check x))), ([''Check'', ''Name''], \<lambda>x. VStr (ck_Name (tc_Check x))),
      ([''Check'', ''Type''], \<lambda>x. VStr (ck_Type (tc_Check x))), ([''Check'', ''Target''], \<lambda>x. VStr (ck_Target (tc_Check x))),
      ([''Check'', ''ExpectStatus''], \<lambda>x. VInt (ck_ExpectStatus (tc_Check x))),
      ([''Check'', ''BodyMatch''], \<lambda>x. VStr (ck_BodyMatch (tc_Check x))),
      ([''Check'', ''TLSWarnDays''], \<lambda>x. VInt (ck_TLSWarnDays (tc_Check x))),
      ([''Check'', ''TLSServerName''], \<lambda>x. VStr (ck_TLSServerName (tc_Check x))),
      ([''Check'', ''DNSRecord''], \<lambda>x. VStr (ck_DNSRecord (tc_Check x))),
      ([''Check'', ''DNSResolver''], \<lambda>x. VStr (ck_DNSResolver (tc_Check x))),
      ([''Check'', ''DNSExpect''], \<lambda>x. VStr (ck_DNSExpect (tc_Check x))),
      ([''Snapshot'', ''CheckID''], \<lambda>x. VStr (sn_CheckID (tc_Snapshot x))),
      ([''Snapshot'', ''State''], \<lambda>x. VStr (state_string (sn_State (tc_Snapshot x)))),
      ([''Snapshot'', ''Reports''], \<lambda>x. VInt (int (sn_Reports (tc_Snapshot x)))),
      ([''Snapshot'', ''OKCount''], \<lambda>x. VInt (int (sn_OKCount (tc_Snapshot x)))),
      ([''Snapshot'', ''NotOK''], \<lambda>x. VInt (int (sn_NotOK (tc_Snapshot x)))),
      ([''Snapshot'', ''Detail''], \<lambda>x. VStr (sn_Detail (tc_Snapshot x)))]"

definition field :: "string list \<Rightarrow> TemplateContext \<Rightarrow> tvalue" where
  "field p x = (case map_of template_fields p of Some g \<Rightarrow> g x | None \<Rightarrow> VStr [])"

fun print_value :: "tvalue \<Rightarrow> string" where
  "print_value (VStr s) = s"
| "print_value (VInt i) = Itoa i"

fun is_true :: "tvalue \<Rightarrow> bool" where
  "is_true (VStr s) = (s \<noteq> [])"
| "is_true (VInt i) = (i \<noteq> 0)"

text \<open>Lexing: text up to the next left delimiter, then the action up to the right one. A trim marker
  removes the white space of the text beside it.\<close>

datatype item = IText string | IField "string list" | IIf "string list" | IEnd

fun until :: "string \<Rightarrow> string \<Rightarrow> (string \<times> string) option" where
  "until d [] = None"
| "until d (c # cs) =
     (if HasPrefix (c # cs) d then Some ([], drop (length d) (c # cs))
      else map_option (\<lambda>(a, b). (c # a, b)) (until d cs))"

definition is_tspace :: "char \<Rightarrow> bool" where
  "is_tspace c \<longleftrightarrow> c \<in> {CHR 0x20, CHR 0x09, CHR 0x0D, CHR 0x0A}"

definition trim_left :: "string \<Rightarrow> string" where "trim_left = dropWhile is_tspace"
definition trim_right :: "string \<Rightarrow> string" where "trim_right s = rev (dropWhile is_tspace (rev s))"

definition field_path :: "string \<Rightarrow> string list option" where
  "field_path w =
     (case w of
        c # p \<Rightarrow> (if c = CHR 0x2E \<and> map_of template_fields (Split (CHR 0x2E) p) \<noteq> None then Some (Split (CHR 0x2E) p) else None)
      | [] \<Rightarrow> None)"

definition action :: "string \<Rightarrow> item option" where
  "action body =
     (case Split (CHR 0x20) (TrimSpace body) of
        [w] \<Rightarrow> (if w = ''end'' then Some IEnd else map_option IField (field_path w))
      | [k, w] \<Rightarrow> (if k = ''if'' then map_option IIf (field_path w) else None)
      | _ \<Rightarrow> None)"

lemma until_strict: "until d s = Some (a, b) \<Longrightarrow> d \<noteq> [] \<Longrightarrow> length b < length s"
  by (induction s arbitrary: a b) (fastforce split: if_splits)+

lemma trim_left_shorter: "length (trim_left s) \<le> length s"
  by (simp add: trim_left_def length_dropWhile_le)

lemma lex_shorter:
  assumes "until ''{{'' s = Some (t, opened)" and "until ''}}'' opened = Some (act, after)"
  shows "length after < length s \<and> length (trim_left after) < length s"
  using until_strict [OF assms(1)] until_strict [OF assms(2)] trim_left_shorter [of after] by simp

function template_Lex :: "string \<Rightarrow> item list option" where
  "template_Lex s =
     (case until ''{{'' s of
        None \<Rightarrow> Some [IText s]
      | Some (txt, opened) \<Rightarrow>
         (case until ''}}'' opened of
            None \<Rightarrow> None
          | Some (act, after) \<Rightarrow>
             (let ltrim = HasPrefix act ''- ''; act = (if ltrim then drop 2 act else act);
                  rtrim = HasPrefix (rev act) ''- ''; act = (if rtrim then take (length act - 2) act else act)
              in case action act of
                   None \<Rightarrow> None
                 | Some i \<Rightarrow>
                    map_option (\<lambda>items. IText (if ltrim then trim_right txt else txt) # i # items)
                      (template_Lex (if rtrim then trim_left after else after)))))"
  by pat_completeness auto

termination
proof (relation "measure length", goal_cases)
  case 1
  then show ?case by simp
next
  case prems: (2 s)
  have "length y < length s \<and> length (trim_left y) < length s" if "until ''{{'' s = Some (x, y')" "until ''}}'' y' = Some (x', y)" for x x' y y'
    using lex_shorter [OF that] .
  then show ?case using prems by auto
qed

declare template_Lex.simps [simp del]

text \<open>Parsing: the lists of nodes still open, innermost first.\<close>

datatype tnode = Text string | Field "string list" | If "string list" "tnode list"

fun parse_items :: "item list \<Rightarrow> tnode list \<Rightarrow> (string list \<times> tnode list) list \<Rightarrow> tnode list option" where
  "parse_items [] cur [] = Some (rev cur)"
| "parse_items [] cur (_ # _) = None"
| "parse_items (IText s # items) cur st = parse_items items (Text s # cur) st"
| "parse_items (IField p # items) cur st = parse_items items (Field p # cur) st"
| "parse_items (IIf p # items) cur st = parse_items items [] ((p, cur) # st)"
| "parse_items (IEnd # items) cur [] = None"
| "parse_items (IEnd # items) cur ((p, outer) # st) = parse_items items (If p (rev cur) # outer) st"

definition template_Parse :: "string \<Rightarrow> tnode list option" where
  "template_Parse s = (case template_Lex s of None \<Rightarrow> None | Some items \<Rightarrow> parse_items items [] [])"

fun template_Execute :: "TemplateContext \<Rightarrow> tnode list \<Rightarrow> string" where
  "template_Execute x [] = []"
| "template_Execute x (Text s # ns) = s @ template_Execute x ns"
| "template_Execute x (Field p # ns) = print_value (field p x) @ template_Execute x ns"
| "template_Execute x (If p b # ns) = (if is_true (field p x) then template_Execute x b else []) @ template_Execute x ns"

text \<open>\<open>execTemplate\<close> of \<open>message.go\<close>: sources outside the part written out go to \<open>rest\<close>.\<close>

definition execTemplate :: "template_engine \<Rightarrow> template_engine" where
  "execTemplate rest name src x =
     (case template_Parse src of Some ns \<Rightarrow> Inr (template_Execute x ns) | None \<Rightarrow> rest name src x)"

section \<open>The texts\<close>

definition text_lines :: "string list \<Rightarrow> string" where
  "text_lines ls = concat (map (\<lambda>l. l @ nl) ls)"

definition DefaultSubjectHTTP :: string where
  \<open>DefaultSubjectHTTP = ''[quptime] HTTP {{.Verb}} '' @ emdash @ '' {{.Check.Name}} ({{.Check.Target}})''\<close>

definition DefaultBodyHTTP :: string where
  \<open>DefaultBodyHTTP = text_lines
    [''HTTP endpoint "{{.Check.Name}}" is now {{.VerbLower}}.'',
     [],
     ''URL:        {{.Check.Target}}'',
     ''{{- if .Check.ExpectStatus}}'',
     ''Expected:   HTTP {{.Check.ExpectStatus}}'',
     ''{{- end}}'',
     ''{{- if .Check.BodyMatch}}'',
     ''Body match: contains "{{.Check.BodyMatch}}"'',
     ''{{- end}}'',
     ''{{- if .Snapshot.Detail}}'',
     ''Detail:     {{.Snapshot.Detail}}'',
     ''{{- end}}'',
     ''Previous:   {{.From}}'',
     ''Reporters:  {{.Snapshot.OKCount}}/{{.Snapshot.Reports}} OK, {{.Snapshot.NotOK}} failing'',
     ''Master:     {{.NodeID}}'',
     ''When:       {{.When}}'']\<close>

definition DefaultSubjectTLS :: string where
  \<open>DefaultSubjectTLS = ''[quptime] TLS cert {{.Verb}} '' @ emdash @ '' {{.Check.Name}} ({{.Check.Target}})''\<close>

definition DefaultBodyTLS :: string where
  \<open>DefaultBodyTLS = text_lines
    [''TLS certificate for "{{.Check.Name}}" is now {{.VerbLower}}.'',
     [],
     ''Host:        {{.Check.Target}}'',
     ''{{- if .Check.TLSServerName}}'',
     ''SNI:         {{.Check.TLSServerName}}'',
     ''{{- end}}'',
     ''{{- if .Check.TLSWarnDays}}'',
     ''Warn window: {{.Check.TLSWarnDays}}d before NotAfter'',
     ''{{- end}}'',
     ''{{- if .Snapshot.Detail}}'',
     ''Cert state:  {{.Snapshot.Detail}}'',
     ''{{- end}}'',
     ''Previous:    {{.From}}'',
     ''Reporters:   {{.Snapshot.OKCount}}/{{.Snapshot.Reports}} OK, {{.Snapshot.NotOK}} failing'',
     ''Master:      {{.NodeID}}'',
     ''When:        {{.When}}'']\<close>

definition DefaultSubjectTCP :: string where
  \<open>DefaultSubjectTCP = ''[quptime] TCP {{.Verb}} '' @ emdash @ '' {{.Check.Name}} ({{.Check.Target}})''\<close>

definition DefaultBodyTCP :: string where
  \<open>DefaultBodyTCP = text_lines
    [''TCP service "{{.Check.Name}}" is now {{.VerbLower}}.'',
     [],
     ''Endpoint:   {{.Check.Target}}'',
     ''{{- if .Snapshot.Detail}}'',
     ''Detail:     {{.Snapshot.Detail}}'',
     ''{{- end}}'',
     ''Previous:   {{.From}}'',
     ''Reporters:  {{.Snapshot.OKCount}}/{{.Snapshot.Reports}} OK, {{.Snapshot.NotOK}} failing'',
     ''Master:     {{.NodeID}}'',
     ''When:       {{.When}}'']\<close>

definition DefaultSubjectICMP :: string where
  \<open>DefaultSubjectICMP = ''[quptime] Ping {{.Verb}} '' @ emdash @ '' {{.Check.Name}} ({{.Check.Target}})''\<close>

definition DefaultBodyICMP :: string where
  \<open>DefaultBodyICMP = text_lines
    [''Host "{{.Check.Name}}" is now {{.VerbLower}}.'',
     [],
     ''Host:       {{.Check.Target}}'',
     ''{{- if .Snapshot.Detail}}'',
     ''Detail:     {{.Snapshot.Detail}}'',
     ''{{- end}}'',
     ''Previous:   {{.From}}'',
     ''Reporters:  {{.Snapshot.OKCount}}/{{.Snapshot.Reports}} OK, {{.Snapshot.NotOK}} failing'',
     ''Master:     {{.NodeID}}'',
     ''When:       {{.When}}'']\<close>

definition DefaultSubjectDNS :: string where
  \<open>DefaultSubjectDNS = ''[quptime] DNS {{.Verb}} '' @ emdash @ '' {{.Check.Name}} ({{.Check.Target}})''\<close>

definition DefaultBodyDNS :: string where
  \<open>DefaultBodyDNS = text_lines
    [''DNS lookup for "{{.Check.Name}}" is now {{.VerbLower}}.'',
     [],
     ''Target:     {{.Check.Target}}'',
     ''{{- if .Check.DNSRecord}}'',
     ''Record:     {{.Check.DNSRecord}}'',
     ''{{- end}}'',
     ''{{- if .Check.DNSResolver}}'',
     ''Resolver:   {{.Check.DNSResolver}}'',
     ''{{- end}}'',
     ''{{- if .Check.DNSExpect}}'',
     ''Expected:   contains "{{.Check.DNSExpect}}"'',
     ''{{- end}}'',
     ''{{- if .Snapshot.Detail}}'',
     ''Detail:     {{.Snapshot.Detail}}'',
     ''{{- end}}'',
     ''Previous:   {{.From}}'',
     ''Reporters:  {{.Snapshot.OKCount}}/{{.Snapshot.Reports}} OK, {{.Snapshot.NotOK}} failing'',
     ''Master:     {{.NodeID}}'',
     ''When:       {{.When}}'']\<close>

definition DefaultSubjectGeneric :: string where
  \<open>DefaultSubjectGeneric = ''[quptime] {{.Check.Name}} {{.Verb}} '' @ emdash @ '' {{.Check.Target}}''\<close>

definition DefaultBodyGeneric :: string where
  \<open>DefaultBodyGeneric = text_lines
    [''Check "{{.Check.Name}}" is now {{.VerbLower}}.'',
     [],
     ''Target:     {{.Check.Target}} ({{.Check.Type}})'',
     ''{{- if .Snapshot.Detail}}'',
     ''Detail:     {{.Snapshot.Detail}}'',
     ''{{- end}}'',
     ''Previous:   {{.From}}'',
     ''Reporters:  {{.Snapshot.OKCount}}/{{.Snapshot.Reports}} OK, {{.Snapshot.NotOK}} failing'',
     ''Master:     {{.NodeID}}'',
     ''When:       {{.When}}'']\<close>

definition DefaultTemplate :: "CheckType \<Rightarrow> string \<times> string" where
  "DefaultTemplate t =
     (if t = CheckHTTP then (DefaultSubjectHTTP, DefaultBodyHTTP)
      else if t = CheckTLS then (DefaultSubjectTLS, DefaultBodyTLS)
      else if t = CheckTCP then (DefaultSubjectTCP, DefaultBodyTCP)
      else if t = CheckICMP then (DefaultSubjectICMP, DefaultBodyICMP)
      else if t = CheckDNS then (DefaultSubjectDNS, DefaultBodyDNS)
      else (DefaultSubjectGeneric, DefaultBodyGeneric))"

section \<open>What the texts parse to\<close>

lemma parse_DefaultSubjectHTTP:
  \<open>template_Parse DefaultSubjectHTTP = Some
    ([Text ''[quptime] HTTP '', Field [''Verb''], Text ('' '' @ emdash @ '' ''), Field [''Check'', ''Name''], Text '' ('',
     Field [''Check'', ''Target''], Text '')''])\<close>
  by code_simp

lemma parse_DefaultBodyHTTP:
  \<open>template_Parse DefaultBodyHTTP = Some
    ([Text ''HTTP endpoint "'', Field [''Check'', ''Name''], Text ''" is now '', Field [''VerbLower''],
     Text (''.'' @ nl @ nl @ ''URL:        ''), Field [''Check'', ''Target''], Text [],
     If [''Check'', ''ExpectStatus''] [Text (nl @ ''Expected:   HTTP ''), Field [''Check'', ''ExpectStatus''], Text []],
     Text [], If [''Check'', ''BodyMatch''] [Text (nl @ ''Body match: contains "''), Field [''Check'', ''BodyMatch''],
     Text ''"''], Text [], If [''Snapshot'', ''Detail''] [Text (nl @ ''Detail:     ''), Field [''Snapshot'', ''Detail''],
     Text []], Text (nl @ ''Previous:   ''), Field [''From''], Text (nl @ ''Reporters:  ''),
     Field [''Snapshot'', ''OKCount''], Text ''/'', Field [''Snapshot'', ''Reports''], Text '' OK, '',
     Field [''Snapshot'', ''NotOK''], Text ('' failing'' @ nl @ ''Master:     ''), Field [''NodeID''],
     Text (nl @ ''When:       ''), Field [''When''], Text nl])\<close>
  by code_simp

lemma parse_DefaultSubjectTLS:
  \<open>template_Parse DefaultSubjectTLS = Some
    ([Text ''[quptime] TLS cert '', Field [''Verb''], Text ('' '' @ emdash @ '' ''), Field [''Check'', ''Name''], Text '' ('',
     Field [''Check'', ''Target''], Text '')''])\<close>
  by code_simp

lemma parse_DefaultBodyTLS:
  \<open>template_Parse DefaultBodyTLS = Some
    ([Text ''TLS certificate for "'', Field [''Check'', ''Name''], Text ''" is now '', Field [''VerbLower''],
     Text (''.'' @ nl @ nl @ ''Host:        ''), Field [''Check'', ''Target''], Text [],
     If [''Check'', ''TLSServerName''] [Text (nl @ ''SNI:         ''), Field [''Check'', ''TLSServerName''], Text []],
     Text [], If [''Check'', ''TLSWarnDays''] [Text (nl @ ''Warn window: ''), Field [''Check'', ''TLSWarnDays''],
     Text ''d before NotAfter''], Text [], If [''Snapshot'', ''Detail''] [Text (nl @ ''Cert state:  ''),
     Field [''Snapshot'', ''Detail''], Text []], Text (nl @ ''Previous:    ''), Field [''From''],
     Text (nl @ ''Reporters:   ''), Field [''Snapshot'', ''OKCount''], Text ''/'', Field [''Snapshot'', ''Reports''],
     Text '' OK, '', Field [''Snapshot'', ''NotOK''], Text ('' failing'' @ nl @ ''Master:      ''), Field [''NodeID''],
     Text (nl @ ''When:        ''), Field [''When''], Text nl])\<close>
  by code_simp

lemma parse_DefaultSubjectTCP:
  \<open>template_Parse DefaultSubjectTCP = Some
    ([Text ''[quptime] TCP '', Field [''Verb''], Text ('' '' @ emdash @ '' ''), Field [''Check'', ''Name''], Text '' ('',
     Field [''Check'', ''Target''], Text '')''])\<close>
  by code_simp

lemma parse_DefaultBodyTCP:
  \<open>template_Parse DefaultBodyTCP = Some
    ([Text ''TCP service "'', Field [''Check'', ''Name''], Text ''" is now '', Field [''VerbLower''],
     Text (''.'' @ nl @ nl @ ''Endpoint:   ''), Field [''Check'', ''Target''], Text [],
     If [''Snapshot'', ''Detail''] [Text (nl @ ''Detail:     ''), Field [''Snapshot'', ''Detail''], Text []],
     Text (nl @ ''Previous:   ''), Field [''From''], Text (nl @ ''Reporters:  ''), Field [''Snapshot'', ''OKCount''],
     Text ''/'', Field [''Snapshot'', ''Reports''], Text '' OK, '', Field [''Snapshot'', ''NotOK''],
     Text ('' failing'' @ nl @ ''Master:     ''), Field [''NodeID''], Text (nl @ ''When:       ''), Field [''When''], Text nl])\<close>
  by code_simp

lemma parse_DefaultSubjectICMP:
  \<open>template_Parse DefaultSubjectICMP = Some
    ([Text ''[quptime] Ping '', Field [''Verb''], Text ('' '' @ emdash @ '' ''), Field [''Check'', ''Name''], Text '' ('',
     Field [''Check'', ''Target''], Text '')''])\<close>
  by code_simp

lemma parse_DefaultBodyICMP:
  \<open>template_Parse DefaultBodyICMP = Some
    ([Text ''Host "'', Field [''Check'', ''Name''], Text ''" is now '', Field [''VerbLower''],
     Text (''.'' @ nl @ nl @ ''Host:       ''), Field [''Check'', ''Target''], Text [],
     If [''Snapshot'', ''Detail''] [Text (nl @ ''Detail:     ''), Field [''Snapshot'', ''Detail''], Text []],
     Text (nl @ ''Previous:   ''), Field [''From''], Text (nl @ ''Reporters:  ''), Field [''Snapshot'', ''OKCount''],
     Text ''/'', Field [''Snapshot'', ''Reports''], Text '' OK, '', Field [''Snapshot'', ''NotOK''],
     Text ('' failing'' @ nl @ ''Master:     ''), Field [''NodeID''], Text (nl @ ''When:       ''), Field [''When''], Text nl])\<close>
  by code_simp

lemma parse_DefaultSubjectDNS:
  \<open>template_Parse DefaultSubjectDNS = Some
    ([Text ''[quptime] DNS '', Field [''Verb''], Text ('' '' @ emdash @ '' ''), Field [''Check'', ''Name''], Text '' ('',
     Field [''Check'', ''Target''], Text '')''])\<close>
  by code_simp

lemma parse_DefaultBodyDNS:
  \<open>template_Parse DefaultBodyDNS = Some
    ([Text ''DNS lookup for "'', Field [''Check'', ''Name''], Text ''" is now '', Field [''VerbLower''],
     Text (''.'' @ nl @ nl @ ''Target:     ''), Field [''Check'', ''Target''], Text [],
     If [''Check'', ''DNSRecord''] [Text (nl @ ''Record:     ''), Field [''Check'', ''DNSRecord''], Text []], Text [],
     If [''Check'', ''DNSResolver''] [Text (nl @ ''Resolver:   ''), Field [''Check'', ''DNSResolver''], Text []], Text [],
     If [''Check'', ''DNSExpect''] [Text (nl @ ''Expected:   contains "''), Field [''Check'', ''DNSExpect''], Text ''"''],
     Text [], If [''Snapshot'', ''Detail''] [Text (nl @ ''Detail:     ''), Field [''Snapshot'', ''Detail''], Text []],
     Text (nl @ ''Previous:   ''), Field [''From''], Text (nl @ ''Reporters:  ''), Field [''Snapshot'', ''OKCount''],
     Text ''/'', Field [''Snapshot'', ''Reports''], Text '' OK, '', Field [''Snapshot'', ''NotOK''],
     Text ('' failing'' @ nl @ ''Master:     ''), Field [''NodeID''], Text (nl @ ''When:       ''), Field [''When''], Text nl])\<close>
  by code_simp

lemma parse_DefaultSubjectGeneric:
  \<open>template_Parse DefaultSubjectGeneric = Some
    ([Text ''[quptime] '', Field [''Check'', ''Name''], Text '' '', Field [''Verb''], Text ('' '' @ emdash @ '' ''),
     Field [''Check'', ''Target''], Text []])\<close>
  by code_simp

lemma parse_DefaultBodyGeneric:
  \<open>template_Parse DefaultBodyGeneric = Some
    ([Text ''Check "'', Field [''Check'', ''Name''], Text ''" is now '', Field [''VerbLower''],
     Text (''.'' @ nl @ nl @ ''Target:     ''), Field [''Check'', ''Target''], Text '' ('', Field [''Check'', ''Type''],
     Text '')'', If [''Snapshot'', ''Detail''] [Text (nl @ ''Detail:     ''), Field [''Snapshot'', ''Detail''], Text []],
     Text (nl @ ''Previous:   ''), Field [''From''], Text (nl @ ''Reporters:  ''), Field [''Snapshot'', ''OKCount''],
     Text ''/'', Field [''Snapshot'', ''Reports''], Text '' OK, '', Field [''Snapshot'', ''NotOK''],
     Text ('' failing'' @ nl @ ''Master:     ''), Field [''NodeID''], Text (nl @ ''When:       ''), Field [''When''], Text nl])\<close>
  by code_simp

section \<open>What they render to\<close>

lemma field_eqs:
  "field [''From''] x = VStr (tc_From x)" "field [''Verb''] x = VStr (tc_Verb x)" "field [''VerbLower''] x = VStr (tc_VerbLower x)"
  "field [''NodeID''] x = VStr (tc_NodeID x)" "field [''When''] x = VStr (tc_When x)"
  "field [''Check'', ''Name''] x = VStr (ck_Name (tc_Check x))" "field [''Check'', ''Type''] x = VStr (ck_Type (tc_Check x))"
  "field [''Check'', ''Target''] x = VStr (ck_Target (tc_Check x))"
  "field [''Check'', ''ExpectStatus''] x = VInt (ck_ExpectStatus (tc_Check x))"
  "field [''Check'', ''BodyMatch''] x = VStr (ck_BodyMatch (tc_Check x))"
  "field [''Check'', ''TLSWarnDays''] x = VInt (ck_TLSWarnDays (tc_Check x))"
  "field [''Check'', ''TLSServerName''] x = VStr (ck_TLSServerName (tc_Check x))"
  "field [''Check'', ''DNSRecord''] x = VStr (ck_DNSRecord (tc_Check x))"
  "field [''Check'', ''DNSResolver''] x = VStr (ck_DNSResolver (tc_Check x))"
  "field [''Check'', ''DNSExpect''] x = VStr (ck_DNSExpect (tc_Check x))"
  "field [''Snapshot'', ''Reports''] x = VInt (int (sn_Reports (tc_Snapshot x)))"
  "field [''Snapshot'', ''OKCount''] x = VInt (int (sn_OKCount (tc_Snapshot x)))"
  "field [''Snapshot'', ''NotOK''] x = VInt (int (sn_NotOK (tc_Snapshot x)))"
  "field [''Snapshot'', ''Detail''] x = VStr (sn_Detail (tc_Snapshot x))"
  by (simp_all add: field_def template_fields_def)

lemma Join_lines: "Join (ls @ [[]]) nl = text_lines ls"
  by (induction ls nl rule: Join.induct) (simp_all add: text_lines_def)

lemma text_lines_append: "text_lines (a @ b) = text_lines a @ text_lines b" "text_lines [] = []" "text_lines (l # ls) = l @ nl @ text_lines ls"
  by (simp_all add: text_lines_def)

lemmas render_defs = field_eqs opt_line_def detail_line_def dquoted_def reporters_def text_lines_append nl_def emdash_def

lemma tail_lines_eq: "tail_lines x = [''Previous:   '' @ tc_From x, ''Reporters:  '' @ reporters (tc_Snapshot x),
     ''Master:     '' @ tc_NodeID x, ''When:       '' @ tc_When x] @ [[]]"
  by (simp add: tail_lines_def)

definition runs_to :: "TemplateContext \<Rightarrow> string \<Rightarrow> string \<Rightarrow> bool" where
  "runs_to x src out \<longleftrightarrow> map_option (template_Execute x) (template_Parse src) = Some out"

lemma subjects_run:
  "runs_to x DefaultSubjectHTTP (default_subject CheckHTTP x)" "runs_to x DefaultSubjectTLS (default_subject CheckTLS x)"
  "runs_to x DefaultSubjectTCP (default_subject CheckTCP x)" "runs_to x DefaultSubjectICMP (default_subject CheckICMP x)"
  "runs_to x DefaultSubjectDNS (default_subject CheckDNS x)"
  "t \<notin> {CheckHTTP, CheckTLS, CheckTCP, CheckICMP, CheckDNS} \<Longrightarrow> runs_to x DefaultSubjectGeneric (default_subject t x)"
  by (simp_all add: runs_to_def default_subject_def parse_DefaultSubjectHTTP parse_DefaultSubjectTLS parse_DefaultSubjectTCP
      parse_DefaultSubjectICMP parse_DefaultSubjectDNS parse_DefaultSubjectGeneric render_defs tag_defs Let_def)

lemma body_HTTP_run: "runs_to x DefaultBodyHTTP (body_HTTP x)"
  unfolding runs_to_def body_HTTP_def tail_lines_eq Let_def append_assoc [symmetric] Join_lines
  by (cases "ck_ExpectStatus (tc_Check x) = 0"; cases "ck_BodyMatch (tc_Check x) = []"; cases "sn_Detail (tc_Snapshot x) = []";
      simp add: parse_DefaultBodyHTTP render_defs)

lemma Join_lines4: "Join (ls @ [a, b, c, d, []]) nl = text_lines (ls @ [a, b, c, d])"
  using Join_lines [of "ls @ [a, b, c, d]"] by simp

lemma body_TLS_run: "runs_to x DefaultBodyTLS (body_TLS x)"
  unfolding runs_to_def body_TLS_def Let_def append_assoc [symmetric] Join_lines4
  by (cases "ck_TLSServerName (tc_Check x) = []"; cases "ck_TLSWarnDays (tc_Check x) = 0"; cases "sn_Detail (tc_Snapshot x) = []";
      simp add: parse_DefaultBodyTLS render_defs)

lemma body_TCP_run: "runs_to x DefaultBodyTCP (body_TCP x)"
  unfolding runs_to_def body_TCP_def tail_lines_eq append_assoc [symmetric] Join_lines
  by (cases "sn_Detail (tc_Snapshot x) = []"; simp add: parse_DefaultBodyTCP render_defs)

lemma body_ICMP_run: "runs_to x DefaultBodyICMP (body_ICMP x)"
  unfolding runs_to_def body_ICMP_def tail_lines_eq append_assoc [symmetric] Join_lines
  by (cases "sn_Detail (tc_Snapshot x) = []"; simp add: parse_DefaultBodyICMP render_defs)

lemma body_DNS_run: "runs_to x DefaultBodyDNS (body_DNS x)"
  unfolding runs_to_def body_DNS_def tail_lines_eq Let_def append_assoc [symmetric] Join_lines
  by (cases "ck_DNSRecord (tc_Check x) = []"; cases "ck_DNSResolver (tc_Check x) = []"; cases "ck_DNSExpect (tc_Check x) = []";
      cases "sn_Detail (tc_Snapshot x) = []"; simp add: parse_DefaultBodyDNS render_defs)

lemma body_Generic_run: "runs_to x DefaultBodyGeneric (body_Generic x)"
  unfolding runs_to_def body_Generic_def tail_lines_eq Let_def append_assoc [symmetric] Join_lines
  by (cases "sn_Detail (tc_Snapshot x) = []"; simp add: parse_DefaultBodyGeneric render_defs)

lemma defaults_run: "runs_to x (fst (DefaultTemplate t)) (default_subject t x) \<and> runs_to x (snd (DefaultTemplate t)) (default_body t x)"
proof (cases "t \<in> {CheckHTTP, CheckTLS, CheckTCP, CheckICMP, CheckDNS}")
  case True
  then show ?thesis
    using subjects_run(1-5) body_HTTP_run body_TLS_run body_TCP_run body_ICMP_run body_DNS_run
    by (auto simp: DefaultTemplate_def default_body_def tag_defs)
next
  case False
  then show ?thesis using subjects_run(6) [OF False] body_Generic_run by (simp add: DefaultTemplate_def default_body_def)
qed

lemma execTemplate_runs: "runs_to x src out \<Longrightarrow> execTemplate rest name src x = Inr out"
  by (auto simp: runs_to_def execTemplate_def)

section \<open>Properties\<close>

text \<open>C34. The built-in templates say what the daemon sends. For every kind of check and every context,
  the subject and body texts of \<open>DefaultTemplate\<close> parse, and executing them gives exactly the subject
  and body of the default message. When an operator copies either text into an alert, \<open>RenderFor\<close> still
  gives the default subject and body, without an error (the copied part carries the second time stamp, the
  rest the first), so the e-mail is the same. On Discord that holds for the subject text only: with the body
  text in the alert, the webhook gets the rendered body alone, without the subject line and the code fence.\<close>

theorem default_templates_exact:
  "runs_to x (fst (DefaultTemplate t)) (default_subject t x) \<and> runs_to x (snd (DefaultTemplate t)) (default_body t x) \<and>
   (let subject = fst (DefaultTemplate (ck_Type check)); body = snd (DefaultTemplate (ck_Type check));
        msg = Render w self check from to snap; msg' = Render w' self check from to snap;
        none = a\<lparr>al_SubjectTemplate := [], al_BodyTemplate := []\<rparr>
    in RenderFor (execTemplate rest) w w' (Some none) self check from to snap = (msg, None) \<and>
       RenderFor (execTemplate rest) w w' (Some (none\<lparr>al_SubjectTemplate := subject, al_BodyTemplate := body\<rparr>)) self check from to snap = (msg', None) \<and>
       RenderFor (execTemplate rest) w w' (Some (none\<lparr>al_SubjectTemplate := subject\<rparr>)) self check from to snap =
         (msg\<lparr>msg_Subject := msg_Subject msg'\<rparr>, None) \<and>
       RenderFor (execTemplate rest) w w' (Some (none\<lparr>al_BodyTemplate := body\<rparr>)) self check from to snap = (msg\<lparr>msg_Body := msg_Body msg'\<rparr>, None) \<and>
       buildRFC822 from_addr tos (fst (RenderFor (execTemplate rest) w w (Some (none\<lparr>al_SubjectTemplate := subject, al_BodyTemplate := body\<rparr>))
         self check from to snap)) = buildRFC822 from_addr tos msg \<and>
       discord_content (none\<lparr>al_SubjectTemplate := subject\<rparr>) msg = discord_content none msg \<and>
       discord_content (none\<lparr>al_SubjectTemplate := subject, al_BodyTemplate := body\<rparr>) msg = msg_Body msg \<and>
       discord_content none msg \<noteq> msg_Body msg)"
proof -
  have ex: "execTemplate rest n (fst (DefaultTemplate t)) x = Inr (default_subject t x)" "execTemplate rest n (snd (DefaultTemplate t)) x = Inr (default_body t x)"
    for n t x using defaults_run [of x t] execTemplate_runs by blast+
  have ne: "fst (DefaultTemplate t) \<noteq> []" "snd (DefaultTemplate t) \<noteq> []" for t
    by (simp_all add: DefaultTemplate_def text_lines_def DefaultSubjectHTTP_def DefaultSubjectTLS_def DefaultSubjectTCP_def DefaultSubjectICMP_def DefaultSubjectDNS_def
        DefaultSubjectGeneric_def DefaultBodyHTTP_def DefaultBodyTLS_def DefaultBodyTCP_def DefaultBodyICMP_def DefaultBodyDNS_def DefaultBodyGeneric_def)
  have fence: "discord_content (a\<lparr>al_SubjectTemplate := [], al_BodyTemplate := []\<rparr>) m \<noteq> msg_Body m" for m
    using arg_cong [of _ _ length] by (fastforce simp: discord_content_def)
  show ?thesis using defaults_run ex ne fence by (simp add: RenderFor_def Render_def Let_def discord_content_def)
qed

text \<open>What the parser makes of a template with a mistake, and of one outside the part written out.\<close>

lemma stray_end: "template_Parse ''{{.Verb}}{{end}}'' = None" and open_if: "template_Parse ''{{if .Verb}}x'' = None"
  and other_action: "template_Parse ''{{len .Verb}}'' = None" and trims: "template_Parse ''a {{- .Verb -}} b'' = Some [Text ''a'', Field [''Verb''], Text ''b'']"
  by code_simp+

end
