(* ===== verification/Builder.thy ===== *)
theory Builder
  imports Templates
begin

text \<open>
  \<open>qu builder\<close> (\<open>internal/cli/builder.go\<close>): the page for composing alert templates, with the built-in
  templates put in place of twelve markers. The embedded page and the JSON coding of a string are
  parameters; the substitutions are kept in a Go map, so their order is a parameter too.
\<close>

section \<open>The command\<close>

text \<open>\<open>strings.ReplaceAll\<close> for a non-empty \<open>old\<close>.\<close>

function ReplaceAll :: "string \<Rightarrow> string \<Rightarrow> string \<Rightarrow> string" where
  "ReplaceAll [] old new = []"
| "ReplaceAll (c # cs) old new =
     (if HasPrefix (c # cs) old then new @ ReplaceAll (drop (length old - 1) cs) old new else c # ReplaceAll cs old new)"
  by pat_completeness auto
termination by (relation "measure (length o fst)") auto

definition builder_subs :: "(string \<times> string) list" where
  "builder_subs =
     [(''__QU_DEFAULT_HTTP_SUBJECT__'', DefaultSubjectHTTP), (''__QU_DEFAULT_HTTP_BODY__'', DefaultBodyHTTP),
      (''__QU_DEFAULT_TLS_SUBJECT__'', DefaultSubjectTLS), (''__QU_DEFAULT_TLS_BODY__'', DefaultBodyTLS),
      (''__QU_DEFAULT_TCP_SUBJECT__'', DefaultSubjectTCP), (''__QU_DEFAULT_TCP_BODY__'', DefaultBodyTCP),
      (''__QU_DEFAULT_ICMP_SUBJECT__'', DefaultSubjectICMP), (''__QU_DEFAULT_ICMP_BODY__'', DefaultBodyICMP),
      (''__QU_DEFAULT_DNS_SUBJECT__'', DefaultSubjectDNS), (''__QU_DEFAULT_DNS_BODY__'', DefaultBodyDNS),
      (''__QU_DEFAULT_GENERIC_SUBJECT__'', DefaultSubjectGeneric), (''__QU_DEFAULT_GENERIC_BODY__'', DefaultBodyGeneric)]"

fun substitute :: "(string \<Rightarrow> err + string) \<Rightarrow> (string \<times> string) list \<Rightarrow> string \<Rightarrow> err + string" where
  "substitute json [] out = Inr out"
| "substitute json ((marker, val) # subs) out =
     (case json val of
        Inl e \<Rightarrow> Inl (ErrWrap (''encode '' @ marker) e)
      | Inr encoded \<Rightarrow>
         (if \<not> Contains out marker then Inl (ErrMsg (''builder.html missing placeholder '' @ marker))
          else substitute json subs (ReplaceAll out marker encoded)))"

definition renderBuilderHTML ::
  "((string \<times> string) list \<Rightarrow> (string \<times> string) list) \<Rightarrow> (string \<Rightarrow> err + string) \<Rightarrow> string \<Rightarrow> err + string" where
  "renderBuilderHTML ord json html = substitute json (ord builder_subs) html"

text \<open>The \<open>RunE\<close>: what is written to standard output, and the file written, if any. \<open>w\<close> and \<open>o\<close> are the
  errors of the two writes, \<open>abs\<close> is \<open>filepath.Abs\<close>.\<close>

definition runBuilder ::
  "((string \<times> string) list \<Rightarrow> (string \<times> string) list) \<Rightarrow> (string \<Rightarrow> err + string) \<Rightarrow> string \<Rightarrow> err option \<Rightarrow> err option \<Rightarrow>
     (string \<Rightarrow> string) \<Rightarrow> string \<Rightarrow> err option \<times> string \<times> (string \<times> string \<times> nat) option" where
  "runBuilder ord json html stdout_err file_err abs_of output =
     (case renderBuilderHTML ord json html of
        Inl e \<Rightarrow> (Some e, [], None)
      | Inr rendered \<Rightarrow>
         (if output = ''-'' then (stdout_err, rendered, None)
          else case file_err of
            Some e \<Rightarrow> (Some (ErrWrap (''write '' @ output) e), [], None)
          | None \<Rightarrow> (None, ''wrote '' @ abs_of output @ nl @ ''open it in a browser to start composing templates.'' @ nl,
              Some (output, rendered, 420))))"

section \<open>Pages as text and markers\<close>

datatype piece = Txt string | Mark string

fun flat :: "piece list \<Rightarrow> string" where
  "flat [] = []"
| "flat (Txt s # ps) = s @ flat ps"
| "flat (Mark m # ps) = m @ flat ps"

abbreviation markers :: "string set" where
  "markers \<equiv> fst ` set builder_subs"

text \<open>Text in which no marker can begin, nor end together with what surrounds it.\<close>

definition clean :: "string \<Rightarrow> bool" where
  "clean s \<longleftrightarrow> \<not> Contains s ''__'' \<and> \<not> HasPrefix s ''Q'' \<and> \<not> HasPrefix s ''_Q'' \<and> (s = [] \<or> last s \<noteq> CHR ''_'')"

fun page_ok :: "piece list \<Rightarrow> bool" where
  "page_ok [] = True"
| "page_ok (Txt s # ps) = (clean s \<and> page_ok ps)"
| "page_ok (Mark m # ps) = (m \<in> markers \<and> page_ok ps)"

definition fill :: "string \<Rightarrow> string \<Rightarrow> piece \<Rightarrow> piece" where
  "fill m v p = (if p = Mark m then Txt v else p)"

definition no_match :: "string \<Rightarrow> string \<Rightarrow> string \<Rightarrow> bool" where
  "no_match s R m \<longleftrightarrow> (\<forall>k < length s. \<not> HasPrefix (drop k s @ R) m)"

lemma no_match_Cons: "no_match (c # s) R m \<longleftrightarrow> \<not> HasPrefix (c # s @ R) m \<and> no_match s R m"
  by (auto simp: no_match_def less_Suc_eq_0_disj)

lemma no_match_skip: "no_match s R m \<Longrightarrow> ReplaceAll (s @ R) m v = s @ ReplaceAll R m v \<and> (Contains (s @ R) m \<longleftrightarrow> Contains R m)"
  by (induction s) (simp_all add: no_match_Cons)

lemma prefix_simps:
  "HasPrefix s []" "\<not> HasPrefix [] (d # p)" "HasPrefix (c # s) (d # p) \<longleftrightarrow> c = d \<and> HasPrefix s p"
  by (simp_all add: HasPrefix_def)

lemma HasPrefix_iff: "HasPrefix s p \<longleftrightarrow> (\<exists>r. s = p @ r)"
  by (metis HasPrefix_def append_eq_conv_conj append_take_drop_id)

lemma Contains_refl: "Contains (m @ R) m"
  using HasPrefix_append [of m R] by (cases "m @ R") auto

lemma ReplaceAll_at: "m \<noteq> [] \<Longrightarrow> ReplaceAll (m @ R) m v = v @ ReplaceAll R m v"
  using HasPrefix_append [of m R] by (cases m) (simp_all)

lemma markers_facts:
  "list_all (\<lambda>m. HasPrefix m ''__Q'') (map fst builder_subs)"
  "list_all (\<lambda>n. list_all (\<lambda>k. \<not> HasPrefix (drop k n) ''__Q'') [1..<length n]) (map fst builder_subs)"
  "list_all (\<lambda>n. drop (length n - 2) n = ''__'') (map fst builder_subs)"
  "list_all (\<lambda>m. list_all (\<lambda>n. take (length n) m = take (length m) n \<longrightarrow> m = n) (map fst builder_subs)) (map fst builder_subs)"
  "distinct (map fst builder_subs)"
  by code_simp+

lemma marker_start: "m \<in> markers \<Longrightarrow> \<exists>r. m = CHR ''_'' # CHR ''_'' # CHR ''Q'' # r"
  using markers_facts(1) unfolding list_all_iff set_map HasPrefix_iff by auto

lemma markers_ne: "m \<in> markers \<Longrightarrow> m \<noteq> []"
  by (drule marker_start) auto

lemma text_no_match:
  assumes "clean s" and "m \<in> markers"
  shows "no_match s R m"
proof -
  obtain r where m: "m = CHR ''_'' # CHR ''_'' # CHR ''Q'' # r" using marker_start [OF assms(2)] by blast
  have "no_match s R m" if "\<not> Contains s ''__''" "s = [] \<or> last s \<noteq> CHR ''_''"
    using that
  proof (induction s)
    case (Cons c s)
    have "\<not> HasPrefix (c # s @ R) m"
      using Cons.prems by (cases s) (auto simp: m prefix_simps)
    moreover have "no_match s R m" using Cons by (auto split: if_splits)
    ultimately show ?case by (simp add: no_match_Cons)
  qed (simp add: no_match_def)
  with assms(1) show ?thesis by (simp add: clean_def)
qed

definition guarded :: "string \<Rightarrow> bool" where
  "guarded R \<longleftrightarrow> \<not> HasPrefix R ''Q'' \<and> \<not> HasPrefix R ''_Q''"

lemma page_guarded: "page_ok ps \<Longrightarrow> guarded (flat ps)"
proof (induction ps rule: flat.induct)
  case (2 s ps)
  show ?case
  proof (cases s)
    case (Cons c t)
    then show ?thesis using 2 by (cases t) (auto simp: guarded_def clean_def prefix_simps)
  qed (use 2 in simp)
next
  case (3 m ps)
  then show ?case using marker_start [of m] by (auto simp: guarded_def prefix_simps)
qed (simp add: guarded_def prefix_simps)

lemma marker_apart:
  assumes "n \<in> markers" and "m \<in> markers" and "HasPrefix (n @ R) m"
  shows "m = n"
proof -
  have "take (length n) m = take (length m) n"
    using assms(3) by (auto simp: HasPrefix_iff append_eq_append_conv2)
  with assms(1,2) show ?thesis using markers_facts(4) unfolding list_all_iff set_map by blast
qed

lemma marker_inside:
  assumes n: "n \<in> markers" and k: "0 < k" "k < length n" and R: "guarded R"
  shows "\<not> HasPrefix (drop k n @ R) ''__Q''"
proof -
  have no: "\<not> HasPrefix (drop k n) ''__Q''" using markers_facts(2) n k unfolding list_all_iff set_map by auto
  have tail: "drop (length n - 2) n = ''__''" using markers_facts(3) n unfolding list_all_iff set_map by blast
  consider "k + 3 \<le> length n" | "k = length n - 2" | "k = length n - 1" using k by linarith
  then show ?thesis
  proof cases
    case 1
    then show ?thesis using no by (simp add: HasPrefix_def)
  next
    case 2
    then show ?thesis using tail R by (simp add: prefix_simps guarded_def)
  next
    case 3
    have "length n - 1 = 1 + (length n - 2)" using k by linarith
    then have "drop (length n - 1) n = drop 1 (drop (length n - 2) n)" by (simp only: drop_drop)
    then show ?thesis using 3 tail R by (simp add: prefix_simps guarded_def)
  qed
qed

lemma marker_no_match:
  assumes n: "n \<in> markers" and m: "m \<in> markers" and ne: "n \<noteq> m" and R: "guarded R"
  shows "no_match n R m"
  unfolding no_match_def
proof (intro allI impI)
  fix k assume k: "k < length n"
  show "\<not> HasPrefix (drop k n @ R) m"
  proof (cases "k = 0")
    case True
    then show ?thesis using marker_apart [OF n m, of R] ne by auto
  next
    case False
    then have "\<not> HasPrefix (drop k n @ R) ''__Q''" using marker_inside [OF n _ k R] by simp
    then show ?thesis using marker_start [OF m] by (auto simp: HasPrefix_iff)
  qed
qed

lemma flat_replace:
  assumes "page_ok ps" and m: "m \<in> markers"
  shows "ReplaceAll (flat ps) m v = flat (map (fill m v) ps) \<and> (Contains (flat ps) m \<longleftrightarrow> Mark m \<in> set ps)"
  using assms(1)
proof (induction ps rule: flat.induct)
  case 1
  then show ?case using markers_ne [OF m] by simp
next
  case (2 s ps)
  then show ?case using no_match_skip [OF text_no_match [OF _ m]] by (simp add: fill_def)
next
  case (3 n ps)
  show ?case
  proof (cases "n = m")
    case True
    then show ?thesis using 3 ReplaceAll_at [OF markers_ne [OF m]] Contains_refl by (simp add: fill_def)
  next
    case False
    have "no_match n (flat ps) m" using 3 False by (intro marker_no_match m page_guarded) auto
    then show ?thesis using 3 False no_match_skip [of n "flat ps" m v] by (simp add: fill_def)
  qed
qed

lemma page_fill: "page_ok ps \<Longrightarrow> clean v \<Longrightarrow> page_ok (map (fill m v) ps)"
  by (induction ps rule: page_ok.induct) (auto simp: fill_def)

section \<open>Properties\<close>

text \<open>What each marker stands for, as the page shows it.\<close>

definition filled :: "(string \<Rightarrow> err + string) \<Rightarrow> (string \<times> string) list \<Rightarrow> piece \<Rightarrow> piece" where
  "filled json subs p =
     (case p of
        Txt s \<Rightarrow> p
      | Mark m \<Rightarrow> (case map_of subs m of None \<Rightarrow> p | Some val \<Rightarrow> (case json val of Inl e \<Rightarrow> p | Inr v \<Rightarrow> Txt v)))"

lemma filled_fill: "json val = Inr v \<Longrightarrow> filled json subs (fill m v p) = filled json ((m, val) # subs) p"
  by (cases p) (auto simp: filled_def fill_def)

lemma mark_fill: "m \<noteq> n \<Longrightarrow> Mark n \<in> set (map (fill m v) ps) \<longleftrightarrow> Mark n \<in> set ps"
  by (auto simp: fill_def)

lemma substitute_page:
  assumes "page_ok ps" and "set subs \<subseteq> set builder_subs" and "distinct (map fst subs)"
    and "\<forall>(m, val) \<in> set subs. \<exists>v. json val = Inr v \<and> clean v"
  shows "if \<forall>(m, val) \<in> set subs. Mark m \<in> set ps then substitute json subs (flat ps) = Inr (flat (map (filled json subs) ps))
     else \<exists>e. substitute json subs (flat ps) = Inl e"
  using assms
proof (induction subs arbitrary: ps)
  case Nil
  have "filled json [] = id" by (auto simp: fun_eq_iff filled_def split: piece.split)
  then show ?case by simp
next
  case (Cons s subs)
  obtain m val where s: "s = (m, val)" by (cases s)
  obtain v where v: "json val = Inr v" "clean v" using Cons.prems(4) s by auto
  have m: "m \<in> markers" using Cons.prems(2) s by force
  note step = flat_replace [OF Cons.prems(1) m, of v] and ok = page_fill [OF Cons.prems(1) v(2), of m]
  let ?ps = "map (fill m v) ps" and ?all = "\<lambda>subs qs. \<forall>(n, val :: string) \<in> set subs. Mark n \<in> set qs"
  have eq: "Mark n \<in> set ?ps \<longleftrightarrow> Mark n \<in> set ps" if "(n, w) \<in> set subs" for n w
    using Cons.prems(3) that s by (intro mark_fill) force
  then have other: "?all subs ?ps \<longleftrightarrow> ?all subs ps"
    by (intro ball_cong refl) (simp only: split_paired_all prod.case)
  have "map (filled json subs) ?ps = map (filled json (s # subs)) ps"
    using filled_fill [of json, OF v(1)] s by simp
  moreover have "if ?all subs ?ps then substitute json subs (flat ?ps) = Inr (flat (map (filled json subs) ?ps))
      else \<exists>e. substitute json subs (flat ?ps) = Inl e"
    using Cons.prems ok by (intro Cons.IH) auto
  moreover have "substitute json (s # subs) (flat ps) =
      (if Mark m \<in> set ps then substitute json subs (flat ?ps) else Inl (ErrMsg (''builder.html missing placeholder '' @ m)))"
    using step v(1) by (simp add: s)
  moreover have "?all (s # subs) ps \<longleftrightarrow> Mark m \<in> set ps \<and> ?all subs ps" by (simp add: s)
  ultimately show ?case unfolding other by (cases "Mark m \<in> set ps"; cases "?all subs ps") (simp_all only: if_True if_False simp_thms sum.inject ex_simps; blast?)+
qed

text \<open>C40. The page does not depend on the order in which Go walks the map of substitutions. For a page
  made of plain text and the twelve markers, and JSON codings in which no marker can arise, every order
  gives the page with each marker replaced by the template it stands for; when a marker is missing,
  every order gives an error.\<close>

theorem builder_any_order:
  assumes "page_ok ps" and json: "\<forall>(m, val) \<in> set builder_subs. \<exists>v. json val = Inr v \<and> clean v"
    and ord: "mset (ord builder_subs) = mset builder_subs"
  shows "if \<forall>(m, val) \<in> set builder_subs. Mark m \<in> set ps
     then renderBuilderHTML ord json (flat ps) = Inr (flat (map (filled json builder_subs) ps))
     else \<exists>e. renderBuilderHTML ord json (flat ps) = Inl e"
proof -
  have d: "distinct (map fst builder_subs)" using markers_facts(5) .
  have set: "set (ord builder_subs) = set builder_subs" using ord by (rule mset_eq_setD)
  have dist: "distinct (map fst (ord builder_subs))"
    using d ord by (metis distinct_count_atmost_1 mset_map set_map set)
  then have "map_of (ord builder_subs) = map_of builder_subs" using d set map_of_inject_set by blast
  then have "filled json (ord builder_subs) = filled json builder_subs" unfolding filled_def [abs_def] by (rule arg_cong)
  then show ?thesis
    using substitute_page [OF assms(1), of "ord builder_subs" json] json set dist by (simp add: renderBuilderHTML_def)
qed

text \<open>The table of the page, its twelve markers in the order of the file, and the substitutions last first.\<close>

definition demo_page :: "piece list" where
  "demo_page = Txt ''const T = ['' # concat (map (\<lambda>(m, val). [Mark m, Txt '', '']) builder_subs) @ [Txt '']'']"

definition demo_json :: "string \<Rightarrow> err + string" where
  "demo_json val = Inr (''\"'' @ take 9 val @ ''\"'')"

lemma demo_page_ok: "page_ok demo_page"
  by code_simp

lemma demo_json_clean: "list_all (\<lambda>(m, val). clean (''\"'' @ take 9 val @ ''\"'')) builder_subs"
  by code_simp

theorem builder_any_order_witness:
  "renderBuilderHTML rev demo_json (flat demo_page) = Inr (flat (map (filled demo_json builder_subs) demo_page))"
proof -
  have "\<forall>(m, val) \<in> set builder_subs. \<exists>v. demo_json val = Inr v \<and> clean v"
    using demo_json_clean by (auto simp: demo_json_def list_all_iff)
  moreover have "\<forall>(m, val) \<in> set builder_subs. Mark m \<in> set demo_page" by (auto simp: demo_page_def)
  ultimately show ?thesis using builder_any_order [OF demo_page_ok, of demo_json rev] by (simp del: substitute.simps)
qed

end
