(* ===== verification/Process.thy ===== *)
theory Process
  imports Control Join CatchUp Monitoring
begin

text \<open>
  The running daemon as one state machine: what \<open>Run\<close> of \<open>internal/daemon/daemon.go\<close> starts, and everything
  that reaches it afterwards. One operation is one critical step of the process: a peer connects to the RPC
  listener, one request on one of the open connections (the body of the loop of \<open>handleConn\<close> in
  \<open>internal/transport/server.go\<close>), a connection ends, one command on the control socket, the first election
  and each tick of the quorum manager, the answer to one of its heartbeats, a probe result, a poll of the
  manual-edit watcher. Operations come in any order, so connections interleave with each other and with
  everything else; the arguments of an operation carry what it sees (clocks, outcomes of system calls, answers
  of other nodes). An operator who saves \<open>cluster.yaml\<close> by hand is an operation too: the file changes and
  stays, and what a poll reads is the file as it is. Each operation is atomic: finer interleavings of the
  mutation path are not modelled; and nobody else writes the other files.
\<close>

section \<open>Connections, operations, the step\<close>

record conn =
  cn_peerID :: string
  cn_peerFP :: string
  cn_trusted :: bool

text \<open>The process: the daemon with the log of what it sent, the open connections, and the handlers invoked so
  far (fingerprint of the peer, method) as a history variable.\<close>

record process =
  ps_serving :: serving
  ps_conns :: "nat \<Rightarrow> conn option"
  ps_calls :: "(string \<times> string) list"

record wiring =
  wi_env :: daemon_env
  wi_token :: token_json
  wi_control :: control_json
  wi_rpc :: rpc_json
  wi_runs :: "nat \<Rightarrow> handler_env"
  wi_decode :: "string \<Rightarrow> err + requestEnvelope"

abbreviation daemon_of :: "process \<Rightarrow> daemon" where
  "daemon_of p \<equiv> sg_daemon (ps_serving p)"

definition server_of :: "wiring \<Rightarrow> serving server" where
  "server_of W = rpc_server (wi_env W) (wi_rpc W) (wi_runs W) (wi_decode W)"

definition open_conn :: "wiring \<Rightarrow> cert list \<Rightarrow> serving \<Rightarrow> conn" where
  "open_conn W certs s =
     (let peerFP = peerFingerprintFromConnState (dv_pki (wi_env W)) certs
      in \<lparr>cn_peerID = peerNodeIDFromConnState certs, cn_peerFP = peerFP,
          cn_trusted = peerTrusted (dv_ord (wi_env W)) peerFP (sv_trust (server_of W) s)\<rparr>)"

text \<open>One turn of the loop of \<open>handleConn\<close>: the connection if it stays open, the handler invoked if any.\<close>

definition conn_turn :: "wiring \<Rightarrow> round \<Rightarrow> conn \<Rightarrow> serving \<Rightarrow> conn option \<times> string list \<times> serving" where
  "conn_turn W r cn s =
     (case rd_frame r of
        Inl e \<Rightarrow> (None, [], s)
      | Inr body \<Rightarrow>
         (case sv_decode (server_of W) body of
            Inl e \<Rightarrow> (None, [], s)
          | Inr req \<Rightarrow>
             (case serve_request (server_of W) (dv_ord (wi_env W)) (cn_peerID cn) (cn_peerFP cn) (cn_trusted cn) (rd_write_ok r) req s of
                (resp, call, continue, trusted', s1) \<Rightarrow>
                  (if continue then Some (cn\<lparr>cn_trusted := trusted'\<rparr>) else None, map fst call, s1))))"

datatype daemon_op =
    Accepted nat "cert list"
  | Framed nat round
  | HungUp nat
  | Commanded control_env CtrlRequest
  | Started gotime gotime gotime
  | Ticked gotime gotime gotime
  | Answered mut_env "string \<Rightarrow> string \<Rightarrow> err + GetClusterCfgResponse" gotime string "err + HeartbeatResponse"
  | Probed agg_env Result
  | Edited "fs_file option"
  | Polled mut_env "err option" "string \<Rightarrow> bool"

text \<open>An operator saves (or removes) \<open>cluster.yaml\<close>; and what \<open>os.ReadFile\<close> then gives the watcher.\<close>

definition hand_edit :: "daemon_env \<Rightarrow> fs_file option \<Rightarrow> daemon \<Rightarrow> daemon" where
  "hand_edit D f d = d\<lparr>d_cfg := (d_cfg d)\<lparr>cs_fs := (cs_fs (d_cfg d))(ClusterFilePath (dv_os D) := f)\<rparr>\<rparr>"

definition read_cluster :: "daemon_env \<Rightarrow> err option \<Rightarrow> daemon \<Rightarrow> err + string" where
  "read_cluster D read_err d =
     (case read_err of
        Some e \<Rightarrow> Inl e
      | None \<Rightarrow>
         (case cs_fs (d_cfg d) (ClusterFilePath (dv_os D)) of
            None \<Rightarrow> Inl (ErrLib ''no such file or directory'')
          | Some raw \<Rightarrow> Inr (f_data raw)))"

text \<open>What the operations other than those on connections do to the daemon, and what they send.\<close>

fun daemon_step :: "wiring \<Rightarrow> daemon_op \<Rightarrow> daemon \<Rightarrow> daemon \<times> effect list" where
  "daemon_step W (Commanded co req) d =
     (case dispatch (wi_env W) (wi_token W) (wi_control W) co req d of (resp, d', eff) \<Rightarrow> (d', eff))"
| "daemon_step W (Started t_mark t_live t_now) d =
     (d\<lparr>d_quorum := Start t_mark t_live t_now (cs_cfg (d_cfg d)) (d_quorum d)\<rparr>, [])"
| "daemon_step W (Ticked t_mark t_live t_now) d =
     (case tick t_mark t_live t_now (cs_cfg (d_cfg d)) (d_quorum d) of (targets, adv, master, ver, m) \<Rightarrow> (d\<lparr>d_quorum := m\<rparr>, []))"
| "daemon_step W (Answered mu rpc t_mark peerID res) d =
     (daemon_heard (wi_env W) mu rpc t_mark peerID res d,
      (case fst (heartbeat_reply t_mark peerID res (cs_cfg (d_cfg d)) (d_quorum d)) of None \<Rightarrow> [] | Some n \<Rightarrow> [Observed n]))"
| "daemon_step W (Probed E r) d = (case sink_Submit E r d of (sent, route, d') \<Rightarrow> (d', if route = RouteLocal then [Alerted sent] else []))"
| "daemon_step W (Edited f) d = (hand_edit (wi_env W) f d, [])"
| "daemon_step W (Polled mu read_err written) d =
     (case checkManualEdit (wi_env W) mu (read_cluster (wi_env W) read_err d) written d of (res, d', out) \<Rightarrow> (d', sent_effect out))"
| "daemon_step W _ d = (d, [])"

fun proc_step :: "wiring \<Rightarrow> daemon_op \<Rightarrow> process \<Rightarrow> process" where
  "proc_step W (Accepted c certs) p = p\<lparr>ps_conns := (ps_conns p)(c := Some (open_conn W certs (ps_serving p)))\<rparr>"
| "proc_step W (Framed c r) p =
     (case ps_conns p c of
        None \<Rightarrow> p
      | Some cn \<Rightarrow>
         (case conn_turn W r cn (ps_serving p) of
            (cn', methods, s) \<Rightarrow>
              p\<lparr>ps_serving := s, ps_conns := (ps_conns p)(c := cn'), ps_calls := ps_calls p @ map (Pair (cn_peerFP cn)) methods\<rparr>))"
| "proc_step W (HungUp c) p = p\<lparr>ps_conns := (ps_conns p)(c := None)\<rparr>"
| "proc_step W op p =
     (case daemon_step W op (daemon_of p) of
        (d', eff) \<Rightarrow> p\<lparr>ps_serving := (ps_serving p)\<lparr>sg_daemon := d', sg_log := sg_log (ps_serving p) @ eff\<rparr>\<rparr>)"

definition proc_run :: "wiring \<Rightarrow> daemon_op list \<Rightarrow> process \<Rightarrow> process" where
  "proc_run W ops p = fold (proc_step W) ops p"

definition boot :: "daemon \<Rightarrow> process" where
  "boot d = \<lparr>ps_serving = \<lparr>sg_daemon = d, sg_turn = 0, sg_log = []\<rparr>, ps_conns = (\<lambda>_. None), ps_calls = []\<rparr>"

lemma proc_run_simps [simp]:
  "proc_run W [] p = p" "proc_run W (op # ops) p = proc_run W ops (proc_step W op p)"
  by (simp_all add: proc_run_def)

lemma boot_simps [simp]: "daemon_of (boot d) = d" "ps_conns (boot d) c = None" "ps_calls (boot d) = []"
  by (simp_all add: boot_def)

section \<open>One connection alone\<close>

text \<open>A connection that nothing interleaves with behaves as \<open>handleConn\<close>.\<close>

lemma turns_are_rounds:
  assumes "ps_conns p c = Some cn"
  shows "ps_serving (proc_run W (map (Framed c) rs) p) =
      snd (snd (serve_rounds (server_of W) (dv_ord (wi_env W)) (cn_peerID cn) (cn_peerFP cn) (cn_trusted cn) rs (ps_serving p))) \<and>
    ps_calls (proc_run W (map (Framed c) rs) p) = ps_calls p @ map (\<lambda>(m, _). (cn_peerFP cn, m))
      (fst (snd (serve_rounds (server_of W) (dv_ord (wi_env W)) (cn_peerID cn) (cn_peerFP cn) (cn_trusted cn) rs (ps_serving p))))"
proof -
  have closed: "proc_run W (map (Framed c) rs) q = q" if "ps_conns q c = None" for rs q
    using that by (induction rs) simp_all
  show ?thesis
    using assms
  proof (induction rs arbitrary: p cn)
    case Nil
    then show ?case by simp
  next
    case (Cons r rs)
    show ?case
    proof (cases "\<exists>body req. rd_frame r = Inr body \<and> sv_decode (server_of W) body = Inr req")
      case False
      then have "conn_turn W r cn (ps_serving p) = (None, [], ps_serving p)"
        by (auto simp: conn_turn_def split: sum.split)
      with False Cons.prems show ?thesis
        by (auto simp: closed serve_rounds.simps(2) split: sum.split)
    next
      case True
      then obtain body req where fr: "rd_frame r = Inr body" "sv_decode (server_of W) body = Inr req" by blast
      obtain resp call continue trusted' s1 where q: "serve_request (server_of W) (dv_ord (wi_env W)) (cn_peerID cn)
          (cn_peerFP cn) (cn_trusted cn) (rd_write_ok r) req (ps_serving p) = (resp, call, continue, trusted', s1)"
        by (metis prod_cases5)
      let ?q = "proc_step W (Framed c r) p"
      have step: "ps_serving ?q = s1" "ps_calls ?q = ps_calls p @ map (\<lambda>(m, _). (cn_peerFP cn, m)) call"
        "ps_conns ?q c = (if continue then Some (cn\<lparr>cn_trusted := trusted'\<rparr>) else None)"
        using Cons.prems fr q by (auto simp: conn_turn_def comp_def case_prod_unfold)
      show ?thesis
      proof (cases continue)
        case False
        with step fr q show ?thesis by (simp add: closed serve_rounds.simps(2))
      next
        case True
        with step have "ps_conns ?q c = Some (cn\<lparr>cn_trusted := trusted'\<rparr>)" by simp
        from Cons.IH [OF this] True step fr q show ?thesis
          by (simp add: serve_rounds.simps(2) split: prod.split)
      qed
    qed
  qed
qed

text \<open>The interleaved process refines the sequential connection. If a peer connects and the frames on its
  connection come with nothing in between, the process ends with exactly the state that \<open>handleConn\<close> of the
  RPC server computes, and has invoked exactly the handlers it lists, in that order.\<close>

theorem lone_connection:
  "let p' = proc_run W (Accepted c certs # map (Framed c) rs) p;
       (out, calls, s') = handleConn (server_of W) (dv_ord (wi_env W)) (dv_pki (wi_env W)) certs rs (ps_serving p)
   in ps_serving p' = s' \<and>
      ps_calls p' = ps_calls p @ map (\<lambda>(m, _). (peerFingerprintFromConnState (dv_pki (wi_env W)) certs, m)) calls"
proof -
  let ?q = "proc_step W (Accepted c certs) p"
  have "ps_conns ?q c = Some (open_conn W certs (ps_serving p))" by simp
  from turns_are_rounds [OF this, of W rs] show ?thesis
    by (simp add: handleConn_def open_conn_def Let_def case_prod_unfold)
qed

section \<open>Frames\<close>

text \<open>The primitive changes of the configuration: an edit in memory, with or without a write of what it holds
  then, whole or failed. And the shape of every operation that makes one: the change, and the callbacks run on it.\<close>

definition cfg_write :: "daemon_env \<Rightarrow> cfg_state \<Rightarrow> cfg_state \<Rightarrow> bool" where
  "cfg_write D s s' \<longleftrightarrow> cs_onChange s' = cs_onChange s \<and>
     (cs_fs s' = cs_fs s \<or>
      (\<exists>out w r. yaml_Marshal (dv_yaml D) (cs_cfg s') = Inr out \<and>
         AtomicWrite w (ClusterFilePath (dv_os D)) out 384 (cs_fs s) = (r, cs_fs s')))"

lemma cfg_write_refl [simp]: "cfg_write D s s"
  by (simp add: cfg_write_def)

lemma write_config_write: "write_config (dv_yaml D) (dv_os D) env (s\<lparr>cs_cfg := c\<rparr>) = (r, s') \<Longrightarrow> cfg_write D s s'"
  by (auto simp: write_config_def cfg_write_def split: sum.splits prod.splits option.splits)

lemma applyLocally_write: "applyLocally J (dv_yaml D) (dv_os D) env self kind raw s = (r, s', cbs) \<Longrightarrow> cfg_write D s s'"
  by (auto simp: applyLocally_def Mutate_cases dest: write_config_write split: prod.splits option.splits) (simp_all add: cfg_write_def)

lemma Replace_write: "Replace (dv_yaml D) (dv_os D) env c s = (r, s', cbs) \<Longrightarrow> cfg_write D s s'"
  by (auto simp: Replace_def Let_def dest: write_config_write split: prod.splits option.splits if_splits)

definition follows :: "daemon_env \<Rightarrow> daemon \<Rightarrow> daemon \<Rightarrow> bool" where
  "follows D d d' \<longleftrightarrow> (\<exists>s tce cbs. cfg_write D (d_cfg d) s \<and> d' = run_callbacks D tce cbs (d\<lparr>d_cfg := s\<rparr>))"

lemma followsI: "d' = run_callbacks D tce cbs (d\<lparr>d_cfg := s\<rparr>) \<Longrightarrow> cfg_write D (d_cfg d) s \<Longrightarrow> follows D d d'"
  by (auto simp: follows_def)

lemma run_callbacks_Nil [simp]: "run_callbacks D tce [] d = d"
  by (simp add: run_callbacks_def)

lemma follows_refl [simp]: "follows D d d"
  by (rule followsI [where cbs = "[]" and s = "d_cfg d"]) simp_all

text \<open>What never changes in a running daemon.\<close>

definition wired :: "NodeConfig \<Rightarrow> string \<Rightarrow> callback list \<Rightarrow> daemon \<Rightarrow> bool" where
  "wired n cert cbs d \<longleftrightarrow> d_node d = n \<and> d_cert d = cert \<and> cs_onChange (d_cfg d) = cbs \<and>
     m_selfID (d_quorum d) = nc_NodeID n \<and> m_observer (d_quorum d) \<and> m_selfAdvertise (d_quorum d) = AdvertiseAddr n \<and>
     ag_transition (d_agg d) \<and> trust_wf (ts_entries (d_trust d))"

lemma follows_wired: "follows D d d' \<Longrightarrow> wired n cert cbs d \<Longrightarrow> wired n cert cbs d'"
  by (auto simp: follows_def wired_def cfg_write_def run_callbacks_frame run_callbacks_wf)

definition trusts :: "daemon \<Rightarrow> string \<Rightarrow> string \<Rightarrow> bool" where
  "trusts d k fp \<longleftrightarrow> (case trust_Get k (d_trust d) of None \<Rightarrow> False | Some x \<Rightarrow> te_Fingerprint x = fp)"

definition lists :: "daemon \<Rightarrow> string \<Rightarrow> string \<Rightarrow> bool" where
  "lists d k fp \<longleftrightarrow> list_ex (\<lambda>p. pi_NodeID p = k \<and> pi_Fingerprint p = fp) (cc_Peers (cs_cfg (d_cfg d)))"

lemma sync_peers_source:
  "trust_wf (ts_entries st) \<Longrightarrow> trust_Get k (sync_peers D self tce n ps st) = Some x \<Longrightarrow>
     trust_Get k st = Some x \<or> (\<exists>p \<in> set ps. pi_NodeID p = k \<and> te_Fingerprint x = pi_Fingerprint p)"
proof (induction ps arbitrary: n st)
  case Nil
  then show ?case by simp
next
  case (Cons p ps)
  from Cons.prems(2) have "trust_Get k (sync_peers D self tce (Suc n) ps (sync_peer D self (tce n) p st)) = Some x" by simp
  from Cons.IH [OF sync_peer_wf [OF Cons.prems(1)] this]
  have "trust_Get k (sync_peer D self (tce n) p st) = Some x \<or> (\<exists>p \<in> set (p # ps). pi_NodeID p = k \<and> te_Fingerprint x = pi_Fingerprint p)"
    by auto
  moreover have "trust_Get k st = Some x \<or> pi_NodeID p = k \<and> te_Fingerprint x = pi_Fingerprint p"
    if "trust_Get k (sync_peer D self (tce n) p st) = Some x"
    using that Cons.prems(1) by (auto simp: sync_peer_def trust_Add_entries split: if_splits)
  ultimately show ?case by auto
qed

lemma run_callbacks_source:
  assumes "trust_wf (ts_entries (d_trust d))" and "trusts (run_callbacks D tce cbs d) k fp"
  shows "trusts d k fp \<or> lists d k fp"
  using assms unfolding run_callbacks_def
proof (induction cbs arbitrary: d)
  case Nil
  then show ?case by simp
next
  case (Cons cb cbs)
  let ?d = "syncTrustFromCluster D tce d"
  from Cons.prems have "trusts ?d k fp \<or> lists ?d k fp" by (intro Cons.IH syncTrust_wf) simp_all
  moreover have "lists ?d k fp = lists d k fp" by (simp add: lists_def syncTrust_frame)
  moreover have "trusts d k fp \<or> lists d k fp" if "trusts ?d k fp"
  proof -
    from that obtain x where "trust_Get k (d_trust ?d) = Some x" "te_Fingerprint x = fp"
      by (auto simp: trusts_def split: option.splits)
    with sync_peers_source [OF Cons.prems(1)] show ?thesis
      by (fastforce simp: syncTrustFromCluster_def trusts_def lists_def list_ex_iff)
  qed
  ultimately show ?case by blast
qed

text \<open>A step justifies the trust it leaves: each trusted pair of ID and fingerprint was trusted before, or is in
  the membership list before or after.\<close>

definition justified :: "daemon \<Rightarrow> daemon \<Rightarrow> bool" where
  "justified d d' \<longleftrightarrow> (\<forall>k fp. trusts d' k fp \<longrightarrow> trusts d k fp \<or> lists d k fp \<or> lists d' k fp)"

lemma justifiedD: "justified d d' \<Longrightarrow> trusts d' k fp \<Longrightarrow> trusts d k fp \<or> lists d k fp \<or> lists d' k fp"
  by (simp add: justified_def)

lemma follows_justified:
  assumes "follows D d d'" and "trust_wf (ts_entries (d_trust d))"
  shows "justified d d'"
proof -
  obtain s tce cbs where d': "d' = run_callbacks D tce cbs (d\<lparr>d_cfg := s\<rparr>)" using assms(1) by (auto simp: follows_def)
  have "trusts (d\<lparr>d_cfg := s\<rparr>) k fp = trusts d k fp" "lists (d\<lparr>d_cfg := s\<rparr>) k fp = lists d' k fp" for k fp
    by (simp_all add: trusts_def lists_def d' run_callbacks_frame)
  with run_callbacks_source [of "d\<lparr>d_cfg := s\<rparr>" D tce cbs] assms(2) show ?thesis
    by (auto simp: justified_def d')
qed

section \<open>What each operation does to the configuration and the trust store\<close>

lemma daemon_mutate_follows: "daemon_mutate D mu kind m d = (r, d', out) \<Longrightarrow> follows D d d'"
  by (auto simp: daemon_mutate_def LocalMutate_def Let_def dest: applyLocally_write intro!: followsI
      split: prod.splits if_splits sum.splits option.splits)

lemma daemon_propose_follows: "daemon_propose D mu req d = (resp, d', out) \<Longrightarrow> follows D d d'"
  by (auto simp: daemon_propose_def HandleProposeMutation_def Let_def dest: applyLocally_write intro!: followsI
      split: prod.splits if_splits sum.splits)

lemma daemon_apply_follows: "daemon_apply D mu req d = (resp, d') \<Longrightarrow> follows D d d'"
  by (auto simp: daemon_apply_def HandleApplyClusterCfg_def Let_def dest: Replace_write intro!: followsI
      split: prod.splits if_splits sum.splits option.splits bool.splits)

lemma observed_follows: "follows D d (observed D mu rpc note d)"
  by (auto simp: observed_def observe_version_def PullFrom_def Let_def follows_refl dest: Replace_write intro!: followsI
      split: prod.splits if_splits sum.splits option.splits)

text \<open>Changes to the quorum manager or the aggregator leave configuration and trust alone.\<close>

lemma trusts_update [simp]:
  "trusts (d\<lparr>d_quorum := m\<rparr>) = trusts d" "trusts (d\<lparr>d_agg := a\<rparr>) = trusts d" "trusts (d\<lparr>d_cfg := s\<rparr>) = trusts d"
  "lists (d\<lparr>d_quorum := m\<rparr>) = lists d" "lists (d\<lparr>d_agg := a\<rparr>) = lists d" "lists (d\<lparr>d_trust := t\<rparr>) = lists d"
  by (simp_all add: fun_eq_iff trusts_def lists_def)

lemma justified_refl [simp]: "justified d d"
  by (simp add: justified_def)

lemma justified_quorum [simp]:
  "justified d (d'\<lparr>d_quorum := m\<rparr>) = justified d d'" "justified (d\<lparr>d_quorum := m\<rparr>) d' = justified d d'"
  "justified d (d'\<lparr>d_agg := a\<rparr>) = justified d d'"
  by (simp_all add: justified_def)

definition manager_wired :: "NodeConfig \<Rightarrow> manager \<Rightarrow> bool" where
  "manager_wired n m \<longleftrightarrow> m_selfID m = nc_NodeID n \<and> m_observer m \<and> m_selfAdvertise m = AdvertiseAddr n"

lemma manager_wired_kept [simp]:
  "manager_wired n (recomputeMaster t u c m) = manager_wired n m" "manager_wired n (markLive t p m) = manager_wired n m"
  "manager_wired n (set_addr p a m) = manager_wired n m"
  by (simp_all add: manager_wired_def manager_kept)

lemma manager_wired_handlers:
  "manager_wired n (snd (heartbeat_reply t p res c m)) = manager_wired n m"
  "manager_wired n (snd (snd (HandleHeartbeat t u v obs c req m))) = manager_wired n m"
  "manager_wired n (Start t u v c m) = manager_wired n m"
  by (simp_all add: heartbeat_reply_def HandleHeartbeat_def Start_def Let_def split: sum.split)

lemma manager_wired_remember [simp]: "manager_wired n (remember_addrs c m) = manager_wired n m"
proof -
  have "manager_wired n (fold (\<lambda>p m. if pi_NodeID p \<noteq> [] \<and> pi_Advertise p \<noteq> [] then set_addr (pi_NodeID p) (pi_Advertise p) m else m) ps m) =
      manager_wired n m" for ps
    by (induction ps arbitrary: m) simp_all
  then show ?thesis by (simp add: remember_addrs_def)
qed

lemma manager_wired_tick: "tick t u v c m = (ts, a, ma, ver, m') \<Longrightarrow> manager_wired n m' = manager_wired n m"
  by (auto simp: tick_def Let_def)

lemma wired_quorum: "wired n cert cbs d \<Longrightarrow> manager_wired n (d_quorum d) \<and> wired n cert cbs (d\<lparr>d_quorum := m\<rparr>) = manager_wired n m"
  by (auto simp: wired_def manager_wired_def)

lemma wired_trust_wf: "wired n cert cbs d \<Longrightarrow> trust_wf (ts_entries (d_trust d))"
  by (simp add: wired_def)

lemma wired_trust: "wired n cert cbs d \<Longrightarrow> trust_wf (ts_entries t) \<Longrightarrow> wired n cert cbs (d\<lparr>d_trust := t\<rparr>)"
  by (simp add: wired_def)

text \<open>A step that keeps the wiring and justifies its trust.\<close>

definition sound :: "NodeConfig \<Rightarrow> string \<Rightarrow> callback list \<Rightarrow> daemon \<Rightarrow> daemon \<Rightarrow> bool" where
  "sound n cert cbs d d' \<longleftrightarrow> wired n cert cbs d' \<and> justified d d'"

lemma follows_sound: "wired n cert cbs d \<Longrightarrow> follows D d d' \<Longrightarrow> sound n cert cbs d d'"
  by (simp add: sound_def follows_wired follows_justified wired_trust_wf)

lemma sound_refl [simp]: "wired n cert cbs d \<Longrightarrow> sound n cert cbs d d"
  by (simp add: sound_def)

lemma sound_quorum: "sound n cert cbs d d' \<Longrightarrow> manager_wired n m \<Longrightarrow> sound n cert cbs d (d'\<lparr>d_quorum := m\<rparr>)"
  by (simp add: sound_def wired_quorum)

lemma heartbeat_sound:
  assumes w: "wired n cert cbs d" and hb: "daemon_heartbeat D mu rpc t u v req d = (resp, nt, d')"
  shows "sound n cert cbs d d'"
proof -
  obtain resp' note' m where h: "HandleHeartbeat t u v (\<lambda>n. cs_cfg (d_cfg (observed D mu rpc (Some n) d))) (cs_cfg (d_cfg d)) req (d_quorum d) = (resp', note', m)"
    by (metis prod_cases3)
  with hb have d': "d' = (observed D mu rpc note' d)\<lparr>d_quorum := m\<rparr>" by (auto simp: daemon_heartbeat_def)
  have "manager_wired n m"
    using manager_wired_handlers(2) [of n t u v _ "cs_cfg (d_cfg d)" req "d_quorum d"] h wired_quorum [OF w] by (metis snd_conv)
  with follows_sound [OF w observed_follows] show ?thesis unfolding d' by (rule sound_quorum)
qed

lemma heard_sound:
  assumes w: "wired n cert cbs d"
  shows "sound n cert cbs d (daemon_heard D mu rpc t p res d)"
proof -
  obtain nt m where h: "heartbeat_reply t p res (cs_cfg (d_cfg d)) (d_quorum d) = (nt, m)" by fastforce
  then have d': "daemon_heard D mu rpc t p res d = observed D mu rpc nt (d\<lparr>d_quorum := m\<rparr>)" by (simp add: daemon_heard_def)
  have "manager_wired n m"
    using manager_wired_handlers(1) [of n t p res "cs_cfg (d_cfg d)" "d_quorum d"] h wired_quorum [OF w] by simp
  then have "wired n cert cbs (d\<lparr>d_quorum := m\<rparr>)" using wired_quorum [OF w] by simp
  from follows_sound [OF this observed_follows] show ?thesis by (simp add: d' sound_def)
qed

lemma aggregate_sound:
  assumes "wired n cert cbs d" and "aggregate E i r d = (sent, d')"
  shows "sound n cert cbs d d'"
proof -
  note a = aggregate_frame(1,2) [OF assms(2)]
  have "wired n cert cbs d'" by (subst a(1)) (use assms(1) a(2) in \<open>simp add: wired_def\<close>)
  moreover have "justified d d'" by (subst a(1)) simp
  ultimately show ?thesis by (simp add: sound_def)
qed

lemma remove_sound:
  assumes "wired n cert cbs d'" and "justified d d'" and "trust_Remove L e ord w k (d_trust d') = (r, t)"
  shows "sound n cert cbs d (d'\<lparr>d_trust := t\<rparr>)"
proof -
  note g = trust_Remove_get [OF assms(3) wired_trust_wf [OF assms(1)]]
  have "trusts (d'\<lparr>d_trust := t\<rparr>) i fp \<Longrightarrow> trusts d' i fp" for i fp
    by (simp add: trusts_def g(1) split: if_splits)
  with assms(1,2) g(2) show ?thesis by (auto simp: sound_def justified_def wired_trust)
qed

lemma manual_edit_follows: "checkManualEdit D mu raw written d = (res, d', out) \<Longrightarrow> follows D d d'"
proof -
  have pin: "follows D d (d\<lparr>d_cfg := SetLastSavedSum sum (d_cfg d)\<rparr>)" for sum
    by (rule followsI [where cbs = "[]" and s = "SetLastSavedSum sum (d_cfg d)"])
      (simp_all add: run_callbacks_def SetLastSavedSum_def cfg_write_def)
  have "follows D (d\<lparr>d_cfg := SetLastSavedSum sum (d_cfg d)\<rparr>) d1 \<Longrightarrow> follows D d d1" for sum d1
    by (auto simp: follows_def SetLastSavedSum_def cfg_write_def)
  then show "checkManualEdit D mu raw written d = (res, d', out) \<Longrightarrow> follows D d d'"
    using pin by (auto simp: checkManualEdit_def Let_def follows_refl dest!: daemon_mutate_follows
        split: sum.splits if_splits prod.splits)
qed

section \<open>Enrollment\<close>

lemma record_join_lists: "record_join D mu i pj d = (r, d1, out) \<Longrightarrow> lists d1 = lists d"
proof -
  have peers: "cc_Peers (snd (apply_mutation J MutationRecordEnrollPending raw c)) = cc_Peers c" for J raw c
    by (auto simp: apply_mutation_def decode_def apply_record_pending_def split: sum.split option.split prod.split)
  have "applyLocally J L e env self MutationRecordEnrollPending raw s = (r, s', cbs) \<Longrightarrow> cc_Peers (cs_cfg s') = cc_Peers (cs_cfg s)"
    for J L e env self raw s r s' cbs
    using peers [of J raw "cs_cfg s"]
    by (auto simp: applyLocally_def Mutate_cases bump.simps dest!: write_config_frame split: prod.splits option.splits)
  then show "record_join D mu i pj d = (r, d1, out) \<Longrightarrow> lists d1 = lists d"
    by (auto simp: fun_eq_iff lists_def record_join_def daemon_mutate_def LocalMutate_def Let_def run_callbacks_frame
        split: prod.splits if_splits sum.splits option.splits)
qed

text \<open>An \<open>Enroll\<close> request that admits its sender on the spot: the token check passes and the token says so.\<close>

definition grants :: "daemon_env \<Rightarrow> gotime \<Rightarrow> EnrollRequest \<Rightarrow> ClusterConfig \<Rightarrow> string \<Rightarrow> string \<Rightarrow> bool" where
  "grants D now req c k fp \<longleftrightarrow> er_NodeID req = k \<and> er_Fingerprint req = fp \<and>
     (case enroll_check D now req c of Inl msg \<Rightarrow> False | Inr entry \<Rightarrow> pe_AutoApprove entry)"

lemma trust_joiner_source:
  assumes "wired n cert cbs d"
  shows "wired n cert cbs (trust_joiner D ce pj d)"
    and "trusts (trust_joiner D ce pj d) k fp \<Longrightarrow> trusts d k fp \<or> k = pj_NodeID pj \<and> fp = pj_Fingerprint pj"
    and "lists (trust_joiner D ce pj d) = lists d"
proof -
  let ?x = "\<lparr>te_NodeID = pj_NodeID pj, te_Address = pj_Advertise pj, te_Fingerprint = pj_Fingerprint pj,
         te_PublicKeyPEM = [], te_CertPEM = pj_CertPEM pj, te_AddedAt = 0\<rparr>"
  have wf: "trust_wf (ts_entries (d_trust d))" by (rule wired_trust_wf [OF assms])
  have "trust_Add (dv_tyaml D) (dv_os D) (dv_ord D) ce ?x (d_trust d) =
      (Some (ErrMsg ''trust entry needs node_id and fingerprint''), d_trust d)" if "pj_NodeID pj = [] \<or> pj_Fingerprint pj = []"
    using that by (simp add: trust_Add_def)
  then show "wired n cert cbs (trust_joiner D ce pj d)"
    and "trusts (trust_joiner D ce pj d) k fp \<Longrightarrow> trusts d k fp \<or> k = pj_NodeID pj \<and> fp = pj_Fingerprint pj"
    using trust_Add_entries [where x = ?x and s = "d_trust d" and L = "dv_tyaml D" and e = "dv_os D" and ord = "dv_ord D" and env = ce] wf assms
    by (cases "pj_NodeID pj = [] \<or> pj_Fingerprint pj = []",
        auto simp: trust_joiner_def wired_trust trusts_def split: if_splits)+
  show "lists (trust_joiner D ce pj d) = lists d" by (simp add: trust_joiner_def)
qed

lemma enroll_sound:
  assumes w: "wired n cert cbs d" and h: "handleEnroll D E req d = (resp, d', out)"
  shows "wired n cert cbs d'"
    and "trusts d' k fp \<Longrightarrow> trusts d k fp \<or> lists d k fp \<or> lists d' k fp \<or> grants D (ee_check E) req (cs_cfg (d_cfg d)) k fp"
proof -
  have "wired n cert cbs d' \<and> (trusts d' k fp \<longrightarrow>
      trusts d k fp \<or> lists d k fp \<or> lists d' k fp \<or> grants D (ee_check E) req (cs_cfg (d_cfg d)) k fp)"
  proof (cases "enroll_check D (ee_check E) req (cs_cfg (d_cfg d))")
    case (Inl msg)
    with h w show ?thesis by (simp add: handleEnroll_def)
  next
    case (Inr entry)
    let ?pj = "join_of (ee_submit E) req"
    obtain r1 d1 out1 where 1: "record_join D (ee_record E) (pe_ID entry) ?pj d = (r1, d1, out1)" by (metis prod_cases3)
    obtain r2 d2 out2 where 2: "approve_join D (ee_approve E) (pe_ID entry) d1 = (r2, d2, out2)" by (metis prod_cases3)
    have s1: "sound n cert cbs d d1"
      by (rule follows_sound [OF w daemon_mutate_follows [OF 1 [unfolded record_join_def]]])
    then have w1: "wired n cert cbs d1" by (simp add: sound_def)
    have s2: "sound n cert cbs d1 d2"
      by (rule follows_sound [OF w1 daemon_mutate_follows [OF 2 [unfolded approve_join_def]]])
    then have w2: "wired n cert cbs d2" by (simp add: sound_def)
    have j1: "trusts d1 i f \<Longrightarrow> trusts d i f \<or> lists d i f" for i f
      using s1 record_join_lists [OF 1] by (auto simp: sound_def justified_def)
    have j2: "trusts d2 i f \<Longrightarrow> trusts d i f \<or> lists d i f \<or> lists d2 i f" for i f
      using s2 j1 record_join_lists [OF 1] by (auto simp: sound_def justified_def)
    note tj = trust_joiner_source [OF w2, of D "ee_trust E" ?pj]
    from h Inr 1 2 have "d' = d1 \<or> d' = d2 \<or> d' = trust_joiner D (ee_trust E) ?pj d2 \<and> pe_AutoApprove entry"
      by (auto simp: handleEnroll_def Let_def split: sum.splits if_splits)
    then show ?thesis
    proof (elim disjE conjE)
      assume "d' = d1"
      with w1 j1 show ?thesis by auto
    next
      assume "d' = d2"
      with w2 j2 show ?thesis by auto
    next
      assume d': "d' = trust_joiner D (ee_trust E) ?pj d2" and auto: "pe_AutoApprove entry"
      with tj(1,3) tj(2) [of k fp] j2 [of k fp] Inr show ?thesis by (auto simp: grants_def)
    qed
  qed
  then show "wired n cert cbs d'"
    and "trusts d' k fp \<Longrightarrow> trusts d k fp \<or> lists d k fp \<or> lists d' k fp \<or> grants D (ee_check E) req (cs_cfg (d_cfg d)) k fp"
    by blast+
qed

section \<open>Soundness of each step\<close>

lemma dispatch_sound:
  assumes w: "wired n cert cbs d" and run: "dispatch D T J co req d = (resp, d', eff)"
  shows "sound n cert cbs d d'"
proof -
  have mut: "daemon_mutate D mu kind m d = (r, d1, out) \<Longrightarrow> sound n cert cbs d d1" for mu kind m r d1 out
    by (rule follows_sound [OF w daemon_mutate_follows])
  have rm: "daemon_mutate D mu kind m d = (r, d1, out) \<Longrightarrow> trust_Remove L e ord wr k (d_trust d1) = (q, t) \<Longrightarrow>
      sound n cert cbs d (d1\<lparr>d_trust := t\<rparr>)" for mu kind m r d1 out L e ord wr k q t
    by (rule remove_sound) (use mut in \<open>auto simp: sound_def\<close>)
  have rm0: "trust_Remove L e ord wr k (d_trust d) = (q, t) \<Longrightarrow> sound n cert cbs d (d\<lparr>d_trust := t\<rparr>)" for L e ord wr k q t
    by (rule remove_sound [OF w justified_refl])
  have "ctrl_node_remove D J co i d = (resp, d', eff) \<Longrightarrow> sound n cert cbs d d'" for i
    by (auto simp: ctrl_node_remove_def dest: mut rm split: prod.splits sum.splits option.splits)
  moreover have "ctrl_trust_remove D J co i d = (resp, d', eff) \<Longrightarrow> sound n cert cbs d d'" for i
    by (auto simp: ctrl_trust_remove_def dest: rm0 split: prod.splits option.splits)
  moreover have "ctrl_mutation D J co kind m d = (resp, d', eff) \<Longrightarrow> sound n cert cbs d d'" for kind m
    by (auto simp: ctrl_mutation_def dest: mut split: prod.splits sum.splits)
  moreover have "ctrl_enroll_create D T J co body d = (resp, d', eff) \<Longrightarrow> sound n cert cbs d d'" for body
    using w by (auto simp: ctrl_enroll_create_def enrollCreate_def Let_def dest: mut split: prod.splits sum.splits if_splits)
  moreover have "ctrl_alert_test J co i d = (resp, d', eff) \<Longrightarrow> sound n cert cbs d d'" for i
    using w by (auto simp: ctrl_alert_test_def split: prod.splits option.splits)
  moreover have "ctrl_check_test J co body d = (resp, d', eff) \<Longrightarrow> sound n cert cbs d d'" for body
    using w by (auto simp: ctrl_check_test_def split: prod.splits option.splits)
  ultimately show ?thesis
    using run w by (auto simp: dispatch_def Let_def with_body_def split: if_splits sum.splits)
qed

lemma hand_edit_simps [simp]:
  "d_quorum (hand_edit D f d) = d_quorum d" "d_trust (hand_edit D f d) = d_trust d" "cs_cfg (d_cfg (hand_edit D f d)) = cs_cfg (d_cfg d)"
  "LastSavedSum (d_cfg (hand_edit D f d)) = LastSavedSum (d_cfg d)"
  "cs_fs (d_cfg (hand_edit D f d)) = (cs_fs (d_cfg d))(ClusterFilePath (dv_os D) := f)"
  by (simp_all add: hand_edit_def LastSavedSum_def)

lemma hand_edit_sound: "wired n cert cbs d \<Longrightarrow> sound n cert cbs d (hand_edit D f d)"
  by (auto simp: sound_def wired_def justified_def trusts_def lists_def hand_edit_def)

lemma daemon_step_sound:
  assumes w: "wired n cert cbs d" and step: "daemon_step W op d = (d', eff)"
  shows "sound n cert cbs d d'"
proof (cases op)
  case (Commanded co req)
  with step show ?thesis by (auto split: prod.splits intro: dispatch_sound [OF w])
next
  case (Started t u v)
  with step w manager_wired_handlers(3) wired_quorum [OF w] show ?thesis by (auto intro!: sound_quorum)
next
  case (Ticked t u v)
  with step w wired_quorum [OF w] show ?thesis by (auto split: prod.splits dest: manager_wired_tick intro!: sound_quorum)
next
  case (Answered mu rpc t p res)
  with step heard_sound [OF w] show ?thesis by auto
next
  case (Probed E r)
  with step w show ?thesis by (auto simp: sink_Submit_def dest: aggregate_sound [OF w] split: prod.splits route.splits)
next
  case (Edited f)
  with step hand_edit_sound [OF w] show ?thesis by auto
next
  case (Polled mu raw written)
  with step show ?thesis by (auto split: prod.splits dest: manual_edit_follows intro: follows_sound [OF w])
qed (use step w in auto)

lemma rpc_server_cases:
  assumes "sv_handlers (rpc_server D J H dec) m = Some fn"
  obtains body where "fn = handler H body" and
    "m = MethodEnroll \<and> body = serve_Enroll D J \<or> m \<noteq> MethodEnroll \<and> body \<in> {serve_Ping J, serve_WhoAmI D J, serve_Join J, serve_Heartbeat D J,
       serve_GetClusterCfg J, serve_ApplyClusterCfg D J, serve_ProposeMutation D J, serve_ReportResult J, serve_Status J}"
  using assms by (auto simp: rpc_server_def registerHandlers_def Handle_def Let_def tag_defs split: if_splits)

text \<open>The handlers other than \<open>Enroll\<close>.\<close>

lemma handler_sound:
  assumes w: "wired n cert cbs d" and run: "body h raw d = (r, d', eff)"
    and body: "body \<in> {serve_Ping J, serve_WhoAmI D J, serve_Join J, serve_Heartbeat D J,
       serve_GetClusterCfg J, serve_ApplyClusterCfg D J, serve_ProposeMutation D J, serve_ReportResult J, serve_Status J}"
  shows "sound n cert cbs d d'"
proof -
  have "serve_Heartbeat D J h raw d = (r, d', eff) \<Longrightarrow> sound n cert cbs d d'"
    using w by (auto simp: serve_Heartbeat_def dest: heartbeat_sound [OF w] split: sum.splits prod.splits)
  moreover have "serve_ApplyClusterCfg D J h raw d = (r, d', eff) \<Longrightarrow> sound n cert cbs d d'"
    using w by (auto simp: serve_ApplyClusterCfg_def dest: daemon_apply_follows intro: follows_sound [OF w] split: sum.splits prod.splits)
  moreover have "serve_ProposeMutation D J h raw d = (r, d', eff) \<Longrightarrow> sound n cert cbs d d'"
    using w by (auto simp: serve_ProposeMutation_def dest: daemon_propose_follows intro: follows_sound [OF w] split: sum.splits prod.splits)
  moreover have "serve_ReportResult J h raw d = (r, d', eff) \<Longrightarrow> sound n cert cbs d d'"
    using w by (auto simp: serve_ReportResult_def handle_report_def dest: aggregate_sound [OF w] split: sum.splits prod.splits)
  ultimately show ?thesis
    using run body w by (auto simp: serve_Ping_def serve_WhoAmI_def serve_Join_def serve_GetClusterCfg_def serve_Status_def split: sum.splits)
qed

text \<open>A frame that presents a valid auto-approve token for an identity.\<close>

definition presents :: "wiring \<Rightarrow> round \<Rightarrow> serving \<Rightarrow> string \<Rightarrow> string \<Rightarrow> bool" where
  "presents W r s k fp \<longleftrightarrow>
     (case rd_frame r of
        Inl e \<Rightarrow> False
      | Inr body \<Rightarrow>
         (case wi_decode W body of
            Inl e \<Rightarrow> False
          | Inr req \<Rightarrow> req_Method req = MethodEnroll \<and>
             (case rj_Enroll (wi_rpc W) (req_Params req) of
                Inl e \<Rightarrow> False
              | Inr er \<Rightarrow> grants (wi_env W) (ee_check (he_enroll (wi_runs W (sg_turn s)))) er (cs_cfg (d_cfg (sg_daemon s))) k fp)))"

fun admits :: "wiring \<Rightarrow> daemon_op \<Rightarrow> process \<Rightarrow> string \<Rightarrow> string \<Rightarrow> bool" where
  "admits W (Framed c r) p k fp \<longleftrightarrow> ps_conns p c \<noteq> None \<and> presents W r (ps_serving p) k fp"
| "admits W _ p k fp \<longleftrightarrow> False"

lemma server_of_simps [simp]:
  "sv_decode (server_of W) = wi_decode W" "sv_trust (server_of W) s = d_trust (sg_daemon s)"
  by (simp_all add: server_of_def)

lemma serve_request_state:
  assumes "serve_request sv ord peerID fp trusted ok req s = (resp, call, continue, trusted', s1)"
  shows "call = [] \<and> s1 = s \<and> trusted' = trusted \<or>
    (\<exists>fn r. sv_handlers sv (req_Method req) = Some fn \<and> fn peerID (req_Params req) s = (r, s1) \<and> map fst call = [req_Method req] \<and>
       (trusted \<or> bootstrap_method (req_Method req)) \<and> (trusted' \<longrightarrow> trusted \<or> peerTrusted ord fp (sv_trust sv s1)))"
  using assms unfolding serve_request_def bootstrap_method_def
  by (auto split: if_splits option.splits prod.splits sum.splits)

lemma turn_sound:
  assumes w: "wired n cert cbs (sg_daemon s)" and turn: "conn_turn W r cn s = (cn', ms, s')"
  shows "wired n cert cbs (sg_daemon s')"
    and "trusts (sg_daemon s') k fp \<Longrightarrow>
      trusts (sg_daemon s) k fp \<or> lists (sg_daemon s) k fp \<or> lists (sg_daemon s') k fp \<or> presents W r s k fp"
proof -
  let ?J = "wi_rpc W" and ?D = "wi_env W"
  have "wired n cert cbs (sg_daemon s') \<and> (trusts (sg_daemon s') k fp \<longrightarrow>
      trusts (sg_daemon s) k fp \<or> lists (sg_daemon s) k fp \<or> lists (sg_daemon s') k fp \<or> presents W r s k fp)"
  proof (cases "\<exists>body req. rd_frame r = Inr body \<and> wi_decode W body = Inr req")
    case False
    with turn have "s' = s" by (auto simp: conn_turn_def split: sum.splits)
    with w show ?thesis by simp
  next
    case True
    then obtain body req where fr: "rd_frame r = Inr body" "wi_decode W body = Inr req" by blast
    obtain resp call continue trusted' where
      q: "serve_request (server_of W) (dv_ord ?D) (cn_peerID cn) (cn_peerFP cn) (cn_trusted cn) (rd_write_ok r) req s = (resp, call, continue, trusted', s')"
      using turn fr by (auto simp: conn_turn_def split: prod.splits)
    from serve_request_state [OF q] consider "s' = s"
      | fn res where "sv_handlers (server_of W) (req_Method req) = Some fn" "fn (cn_peerID cn) (req_Params req) s = (res, s')" by blast
    then show ?thesis
    proof cases
      case 1
      with w show ?thesis by simp
    next
      case 2
      from 2(1) obtain bd where fn: "fn = handler (wi_runs W) bd" and
        bd: "req_Method req = MethodEnroll \<and> bd = serve_Enroll ?D ?J \<or> req_Method req \<noteq> MethodEnroll \<and>
          bd \<in> {serve_Ping ?J, serve_WhoAmI ?D ?J, serve_Join ?J, serve_Heartbeat ?D ?J, serve_GetClusterCfg ?J,
                serve_ApplyClusterCfg ?D ?J, serve_ProposeMutation ?D ?J, serve_ReportResult ?J, serve_Status ?J}"
        unfolding server_of_def by (rule rpc_server_cases)
      obtain d' eff where run: "bd (wi_runs W (sg_turn s)) (req_Params req) (sg_daemon s) = (res, d', eff)" and d': "sg_daemon s' = d'"
        using 2(2) by (auto simp: fn handler_def split: prod.splits)
      from bd show ?thesis
      proof (elim disjE conjE)
        assume m: "req_Method req = MethodEnroll" and bd: "bd = serve_Enroll ?D ?J"
        show ?thesis
        proof (cases "rj_Enroll ?J (req_Params req)")
          case (Inl e)
          with run bd d' w show ?thesis by (simp add: serve_Enroll_def)
        next
          case (Inr er)
          with run bd obtain rs out where "handleEnroll ?D (he_enroll (wi_runs W (sg_turn s))) er (sg_daemon s) = (rs, d', out)"
            by (auto simp: serve_Enroll_def split: prod.splits)
          from enroll_sound [OF w this] show ?thesis using d' m fr Inr by (auto simp: presents_def)
        qed
      next
        assume "bd \<in> {serve_Ping ?J, serve_WhoAmI ?D ?J, serve_Join ?J, serve_Heartbeat ?D ?J, serve_GetClusterCfg ?J,
                serve_ApplyClusterCfg ?D ?J, serve_ProposeMutation ?D ?J, serve_ReportResult ?J, serve_Status ?J}"
        from handler_sound [OF w run this] show ?thesis by (auto simp: d' sound_def justified_def)
      qed
    qed
  qed
  then show "wired n cert cbs (sg_daemon s')"
    and "trusts (sg_daemon s') k fp \<Longrightarrow>
      trusts (sg_daemon s) k fp \<or> lists (sg_daemon s) k fp \<or> lists (sg_daemon s') k fp \<or> presents W r s k fp" by blast+
qed

lemma step_sound:
  assumes w: "wired n cert cbs (daemon_of p)"
  shows "wired n cert cbs (daemon_of (proc_step W op p))"
    and "trusts (daemon_of (proc_step W op p)) k fp \<Longrightarrow> trusts (daemon_of p) k fp \<or> lists (daemon_of p) k fp \<or>
      lists (daemon_of (proc_step W op p)) k fp \<or> admits W op p k fp"
proof -
  have other: "sound n cert cbs (daemon_of p) (fst (daemon_step W op (daemon_of p)))"
    using daemon_step_sound [OF w] by (metis prod.collapse)
  have "wired n cert cbs (daemon_of (proc_step W op p)) \<and> (trusts (daemon_of (proc_step W op p)) k fp \<longrightarrow>
      trusts (daemon_of p) k fp \<or> lists (daemon_of p) k fp \<or> lists (daemon_of (proc_step W op p)) k fp \<or> admits W op p k fp)"
  proof (cases op)
    case (Framed c r)
    show ?thesis
    proof (cases "ps_conns p c")
      case None
      with w show ?thesis by (simp add: Framed)
    next
      case (Some cn)
      obtain cn' ms s' where turn: "conn_turn W r cn (ps_serving p) = (cn', ms, s')" by (metis prod_cases3)
      from turn_sound [OF w turn] Some turn show ?thesis by (simp add: Framed)
    qed
  qed (use w other in \<open>auto simp: sound_def justified_def case_prod_unfold simp del: daemon_step.simps\<close>)
  then show "wired n cert cbs (daemon_of (proc_step W op p))"
    and "trusts (daemon_of (proc_step W op p)) k fp \<Longrightarrow> trusts (daemon_of p) k fp \<or> lists (daemon_of p) k fp \<or>
      lists (daemon_of (proc_step W op p)) k fp \<or> admits W op p k fp" by blast+
qed

section \<open>Runs\<close>

interpretation proc: guarded_component "proc_step W" "\<lambda>op p. True" "\<lambda>p. wired n cert cbs (daemon_of p)" for W n cert cbs
  by unfold_locales (rule step_sound(1))

lemma allowed_all: "allowed_run (\<lambda>op p. True) step ops p"
  by (induction ops arbitrary: p) simp_all

lemma run_wired: "wired n cert cbs (daemon_of p) \<Longrightarrow> wired n cert cbs (daemon_of (proc_run W ops p))"
  unfolding proc_run_def by (rule proc.run_inv [OF _ allowed_all])

text \<open>Who vouched for an identity in the course of a run: some membership list the daemon held, before or
  after an operation, or a frame that presented a valid auto-approve token at its turn.\<close>

fun vouched :: "wiring \<Rightarrow> daemon_op list \<Rightarrow> process \<Rightarrow> string \<Rightarrow> string \<Rightarrow> bool" where
  "vouched W [] p k fp \<longleftrightarrow> lists (daemon_of p) k fp"
| "vouched W (op # ops) p k fp \<longleftrightarrow> lists (daemon_of p) k fp \<or> admits W op p k fp \<or> vouched W ops (proc_step W op p) k fp"

lemma vouched_listed: "lists (daemon_of p) k fp \<Longrightarrow> vouched W ops p k fp"
  by (cases ops) simp_all

lemma vouched_prefix: "vouched W ops p k fp \<Longrightarrow> vouched W (ops @ rest) p k fp"
  by (induction ops arbitrary: p) (auto simp: vouched_listed)

lemma run_trusts:
  "wired n cert cbs (daemon_of p) \<Longrightarrow> trusts (daemon_of (proc_run W ops p)) k fp \<Longrightarrow>
     trusts (daemon_of p) k fp \<or> vouched W ops p k fp"
proof (induction ops arbitrary: p)
  case Nil
  then show ?case by simp
next
  case (Cons op ops)
  note w = step_sound(1) [OF Cons.prems(1), of W op]
  from Cons.IH [OF w] Cons.prems(2) have "trusts (daemon_of (proc_step W op p)) k fp \<or> vouched W ops (proc_step W op p) k fp" by simp
  with step_sound(2) [OF Cons.prems(1), of W op k fp] show ?case by (auto simp: vouched_listed)
qed

text \<open>The connections that count as trusted, and the handlers invoked for them, belong to fingerprints in \<open>K\<close>.\<close>

definition gated :: "string set \<Rightarrow> process \<Rightarrow> bool" where
  "gated K p \<longleftrightarrow> (\<forall>c cn. ps_conns p c = Some cn \<and> cn_trusted cn \<longrightarrow> cn_peerFP cn \<in> K) \<and>
     (\<forall>(fp, m) \<in> set (ps_calls p). bootstrap_method m \<or> fp \<in> K)"

definition known_to :: "string set \<Rightarrow> daemon \<Rightarrow> bool" where
  "known_to K d \<longleftrightarrow> (\<forall>k fp. trusts d k fp \<longrightarrow> fp \<in> K)"

lemma peerTrusted_trusts:
  assumes ord: "\<And>xs. mset (ord xs) = mset xs" and wf: "trust_wf (ts_entries (d_trust d))" and t: "peerTrusted ord fp (d_trust d)"
  shows "\<exists>k. trusts d k fp"
proof -
  obtain x where x: "List.find (\<lambda>e. te_Fingerprint e = fp) (trust_values ord (ts_entries (d_trust d))) = Some x"
    using t by (auto simp: peerTrusted_def LookupByFingerprint_def split: if_splits option.splits)
  from find_Some_iff_first [OF this] have "te_Fingerprint x = fp" and "x \<in> set (trust_values ord (ts_entries (d_trust d)))" by auto
  then have "x \<in> set (map snd (ts_entries (d_trust d)))"
    using ord by (metis mset_eq_setD trust_values_def)
  then have "map_of (ts_entries (d_trust d)) (te_NodeID x) = Some x" by (simp add: trust_values_set [OF wf] del: set_map)
  then have "trusts d (te_NodeID x) fp" using \<open>te_Fingerprint x = fp\<close> by (simp add: trusts_def trust_Get_def)
  then show ?thesis ..
qed

lemma step_gated:
  assumes ord: "\<And>xs. mset (dv_ord (wi_env W) xs) = mset xs" and w: "wired n cert cbs (daemon_of p)"
    and g: "gated K p" and k: "known_to K (daemon_of p)" "known_to K (daemon_of (proc_step W op p))"
  shows "gated K (proc_step W op p)"
proof (cases op)
  case (Accepted c certs)
  have "peerTrusted (dv_ord (wi_env W)) fp (d_trust (daemon_of p)) \<Longrightarrow> fp \<in> K" for fp
    using peerTrusted_trusts [OF ord wired_trust_wf [OF w]] k(1) by (auto simp: known_to_def)
  with g show ?thesis by (auto simp: Accepted gated_def open_conn_def Let_def)
next
  case (Framed c r)
  show ?thesis
  proof (cases "ps_conns p c")
    case None
    with g show ?thesis by (simp add: Framed)
  next
    case (Some cn)
    obtain cn' ms s' where turn: "conn_turn W r cn (ps_serving p) = (cn', ms, s')" by (metis prod_cases3)
    have d': "daemon_of (proc_step W op p) = sg_daemon s'" using Some turn by (simp add: Framed)
    have pt: "peerTrusted (dv_ord (wi_env W)) fp (d_trust (sg_daemon s')) \<Longrightarrow> fp \<in> K" for fp
      using peerTrusted_trusts [OF ord, of "sg_daemon s'" fp] turn_sound(1) [OF w turn] k(2)
      by (auto simp: known_to_def d' wired_trust_wf)
    have cn: "cn_trusted cn \<Longrightarrow> cn_peerFP cn \<in> K" using g Some by (simp add: gated_def)
    have "(\<forall>cx. cn' = Some cx \<and> cn_trusted cx \<longrightarrow> cn_peerFP cx \<in> K) \<and> (\<forall>m \<in> set ms. bootstrap_method m \<or> cn_peerFP cn \<in> K)"
    proof (cases "\<exists>body req. rd_frame r = Inr body \<and> wi_decode W body = Inr req")
      case False
      with turn show ?thesis by (auto simp: conn_turn_def split: sum.splits)
    next
      case True
      then obtain body req resp call continue trusted' where fr: "rd_frame r = Inr body" "wi_decode W body = Inr req" and
        q: "serve_request (server_of W) (dv_ord (wi_env W)) (cn_peerID cn) (cn_peerFP cn) (cn_trusted cn) (rd_write_ok r) req (ps_serving p) =
          (resp, call, continue, trusted', s')" and cn': "cn' = (if continue then Some (cn\<lparr>cn_trusted := trusted'\<rparr>) else None)" "ms = map fst call"
        using turn by (auto simp: conn_turn_def split: prod.splits)
      from serve_request_state [OF q] cn pt show ?thesis by (auto simp: cn')
    qed
    with g Some turn show ?thesis by (auto simp: Framed gated_def)
  qed
qed (use g in \<open>auto simp: gated_def case_prod_unfold simp del: daemon_step.simps\<close>)

lemma run_gated:
  assumes ord: "\<And>xs. mset (dv_ord (wi_env W) xs) = mset xs" and w: "wired n cert cbs (daemon_of p)" and g: "gated K p"
    and k: "\<And>pre post. ops = pre @ post \<Longrightarrow> known_to K (daemon_of (proc_run W pre p))"
  shows "gated K (proc_run W ops p)"
  using w g k
proof (induction ops arbitrary: p)
  case Nil
  then show ?case by simp
next
  case (Cons op ops)
  have "known_to K (daemon_of p)" "known_to K (daemon_of (proc_step W op p))"
    using Cons.prems(3) [of "[]"] Cons.prems(3) [of "[op]"] by simp_all
  from step_gated [OF ord Cons.prems(1,2) this] have g: "gated K (proc_step W op p)" .
  have "known_to K (daemon_of (proc_run W pre (proc_step W op p)))" if "ops = pre @ post" for pre post
    using Cons.prems(3) [of "op # pre" post] that by simp
  from Cons.IH [OF step_sound(1) [OF Cons.prems(1)] g this] show ?case by simp
qed

lemma boot_gated [simp]: "gated K (boot d)"
  by (simp add: gated_def)

section \<open>Properties\<close>

lemma New_daemon_wired:
  assumes "New_daemon D N sx = Inr d"
  shows "wired (d_node d) (d_cert d) [0] d"
proof -
  obtain node cert cluster store where d: "d = New_assemble D (sx_trust sx) node cert cluster store"
    and c: "cs_onChange cluster = []" and st: "trust_wf (ts_entries store)"
    using assms by (auto simp: New_daemon_def LoadClusterConfig_def dest!: trust_Load_wf split: sum.splits prod.splits option.splits)
  have "trust_wf (ts_entries (d_trust d))" unfolding d New_assemble_def by (rule syncTrust_wf) (simp add: st)
  then show ?thesis
    by (simp add: wired_def d New_assemble_def syncTrust_frame c OnChange_def SetVersionObserver_def SetSelfAdvertise_def
        New_Manager_def SetTransition_def)
qed

text \<open>C26. What every reachable daemon keeps. Whatever a daemon that \<open>New\<close> brought up goes through, in whatever
  order: its identity and certificate are the ones it started with; the trust sync stays its only change
  callback; the quorum manager keeps that identity, the version observer and a non-empty address to announce; the aggregator
  keeps its transition hook; and every trust entry stays filed under its own node ID. (These are the
  assumptions the results on the trust gate, on catching up and on alerts make of a daemon.)\<close>

theorem process_invariant:
  assumes "New_daemon (wi_env W) N sx = Inr d0" and "d = daemon_of (proc_run W ops (boot d0))"
  shows "d_node d = d_node d0 \<and> d_cert d = d_cert d0 \<and> cs_onChange (d_cfg d) = [0] \<and>
     m_selfID (d_quorum d) = self_of d0 \<and> m_observer (d_quorum d) \<and>
     m_selfAdvertise (d_quorum d) = AdvertiseAddr (d_node d0) \<and> AdvertiseAddr (d_node d0) \<noteq> [] \<and>
     ag_transition (d_agg d) \<and> trust_wf (ts_entries (d_trust d))"
proof -
  have "wired (d_node d0) (d_cert d0) [0] d"
    using run_wired [of "d_node d0" "d_cert d0" "[0]" "boot d0" W ops] New_daemon_wired [OF assms(1)] assms(2) by simp
  then show ?thesis by (simp add: wired_def AdvertiseAddr_def Let_def)
qed

text \<open>C3. Only admitted nodes act. In every run of a daemon that \<open>New\<close> brought up, with any number of
  connections interleaved in any order with everything else, a handler other than those of
  \<open>Join\<close> and \<open>Enroll\<close>, which are open to strangers, is invoked only on a connection whose certificate fingerprint was vouched for: it was trusted at the start, or some
  membership list the daemon held in the run gives it, or a request on some connection presented a valid, unexpired auto-approve token for it.
  The same holds of whatever is in the trust store at the end.\<close>

theorem only_admitted_act:
  assumes ord: "\<And>xs. mset (dv_ord (wi_env W) xs) = mset xs"
    and up: "New_daemon (wi_env W) N sx = Inr d0" and p: "p = proc_run W ops (boot d0)"
  shows "((fp, m) \<in> set (ps_calls p) \<and> m \<noteq> MethodJoin \<and> m \<noteq> MethodEnroll \<longrightarrow>
       (\<exists>k. trusts d0 k fp \<or> vouched W ops (boot d0) k fp)) \<and>
     (trusts (daemon_of p) k fp \<longrightarrow> trusts d0 k fp \<or> vouched W ops (boot d0) k fp)"
proof -
  have w: "wired (d_node d0) (d_cert d0) [0] (daemon_of (boot d0))" using New_daemon_wired [OF up] by simp
  let ?K = "{fp. \<exists>k. trusts d0 k fp \<or> vouched W ops (boot d0) k fp}"
  have "known_to ?K (daemon_of (proc_run W pre (boot d0)))" if "ops = pre @ post" for pre post
    using run_trusts [OF w, of W pre] vouched_prefix [of W pre "boot d0" _ _ post] that by (fastforce simp: known_to_def)
  from run_gated [OF ord w boot_gated this] have "gated ?K p" by (simp add: p)
  moreover have "trusts (daemon_of p) k fp \<longrightarrow> trusts d0 k fp \<or> vouched W ops (boot d0) k fp"
    using run_trusts [OF w, of W ops k fp] by (auto simp: p)
  ultimately show ?thesis by (auto simp: gated_def bootstrap_method_def)
qed

text \<open>Trust is decided when a connection opens, and never taken back: after any command, the eviction of the very
  peer included, requests on a connection that was trusted are served as before.\<close>

lemma open_connection_outlives_trust:
  assumes "ps_conns p c = Some cn" and "cn_trusted cn" and "rd_frame r = Inr body" and "wi_decode W body = Inr rq"
    and "sv_handlers (server_of W) (req_Method rq) = Some fn"
  shows "ps_calls (proc_step W (Framed c r) (proc_step W (Commanded co req) p)) = ps_calls p @ [(cn_peerFP cn, req_Method rq)]"
  using assms by (auto simp: conn_turn_def serve_request_def split: prod.split sum.split)

text \<open>Dropping a member from the trust store alone lasts until the next change of the configuration, or the next start:
  the sync adds it again.\<close>

lemma removed_member_trusted_again:
  assumes "trust_wf (ts_entries (d_trust d))" and "distinct (map pi_NodeID (cc_Peers (cs_cfg (d_cfg d))))"
    and "q \<in> set (cc_Peers (cs_cfg (d_cfg d)))" and "syncable (self_of d) q"
    and "trust_Remove L e ord w (pi_NodeID q) (d_trust d) = (r, t)"
  shows "trust_Get (pi_NodeID q) t = None \<and> trusts (run_callbacks D tce [0] (d\<lparr>d_trust := t\<rparr>)) (pi_NodeID q) (pi_Fingerprint q)"
proof -
  note g = trust_Remove_get [OF assms(5,1)]
  obtain x where "trust_Get (pi_NodeID q) (sync_peers D (self_of d) tce 0 (cc_Peers (cs_cfg (d_cfg d))) t) = Some x"
    and "te_Fingerprint x = pi_Fingerprint q"
    using sync_peers_same [OF g(2) assms(2,3,4)] by blast
  with g(1) show ?thesis
    by (auto simp: run_callbacks_def syncTrustFromCluster_def trusts_def split: option.split)
qed

text \<open>A node \<open>a\<close> whose files list \<open>b\<close>, and \<open>b\<close> asking for its status.\<close>

definition proc_cert :: cert where
  "proc_cert = \<lparr>cert_SPKI = ''b'', cert_CommonName = ''b'', cert_Raw = ''b''\<rparr>"

definition proc_cluster :: ClusterConfig where
  "proc_cluster = zero_ClusterConfig\<lparr>cc_Version := 1,
     cc_Peers := [demo_peer ''a'', (demo_peer ''b'')\<lparr>pi_Fingerprint := Fingerprint demo_pki proc_cert\<rparr>]\<rparr>"

definition proc_start :: start_env where
  "proc_start = \<lparr>sx_fs = (\<lambda>p. if p = NodeFilePath demo_env \<or> p = ClusterFilePath demo_env then Some \<lparr>f_data = ''yaml'', f_perm = 384\<rparr> else None),
     sx_node_err = None, sx_node_write = io_good, sx_cluster_err = None, sx_trust_err = None, sx_key = None, sx_cert = Inr ''a'',
     sx_trust = (\<lambda>_. demo_call)\<rparr>"

definition proc_wiring :: "token_json \<Rightarrow> (nat \<Rightarrow> handler_env) \<Rightarrow> wiring" where
  "proc_wiring T H = \<lparr>wi_env = demo_denv proc_cluster, wi_token = T, wi_control = list_json, wi_rpc = guess_json, wi_runs = H,
     wi_decode = guess_decode\<rparr>"

definition proc_ops :: "daemon_op list" where
  "proc_ops = [Accepted 0 [proc_cert], HungUp 3, Framed 0 \<lparr>rd_frame = Inr ''S'', rd_write_ok = True\<rparr>]"

lemma proc_up: "\<exists>d. New_daemon (demo_denv proc_cluster) demo_node_codec proc_start = Inr d \<and> d_cert d = ''a'' \<and>
    (\<exists>x. ts_entries (d_trust d) = [(''b'', x)] \<and> te_NodeID x = ''b'' \<and> te_Fingerprint x = Fingerprint demo_pki proc_cert)"
proof -
  have ne: "Fingerprint demo_pki proc_cert \<noteq> []" by (simp add: Fingerprint_def FingerprintFromSPKI_def)
  have env: "ApplyEnvOverrides demo_env demo_node = (None, demo_node)"
    by (simp add: ApplyEnvOverrides_def demo_env_def Let_def)
  have "LoadNodeConfig demo_node_codec demo_env None (sx_fs proc_start) = Inr (demo_node\<lparr>nc_BindPort := 9901, nc_BindAddr := ''0.0.0.0''\<rparr>)"
    by (simp add: LoadNodeConfig_def proc_start_def demo_node_codec_def env) (simp add: demo_node_def zero_NodeConfig_def)
  moreover have "nc_NodeID demo_node = ''a''" "nc_ClusterSecret demo_node = []" by (simp_all add: demo_node_def zero_NodeConfig_def)
  ultimately have "New_node demo_node_codec demo_env proc_start = Inr (demo_node\<lparr>nc_BindPort := 9901, nc_BindAddr := ''0.0.0.0''\<rparr>, sx_fs proc_start)"
    and "nc_NodeID demo_node = ''a''" by (simp_all add: New_node_def) (simp add: proc_start_def)
  then show ?thesis
    using ne
    by (simp add: New_daemon_def proc_start_def demo_denv_def
        LoadClusterConfig_def demo_codec_def trust_Load_def demo_env_paths
        New_assemble_def syncTrustFromCluster_def proc_cluster_def OnChange_def sync_peer_def demo_peer_def trust_Get_def
        trust_Add_def trust_Save_entries trust_put_def entry_of_def)
qed

theorem process_invariant_witness:
  "\<forall>T H. \<exists>d0. New_daemon (wi_env (proc_wiring T H)) demo_node_codec proc_start = Inr d0 \<and>
     m_selfAdvertise (d_quorum (daemon_of (proc_run (proc_wiring T H) proc_ops (boot d0)))) = AdvertiseAddr (d_node d0)"
proof (intro allI)
  fix T H
  obtain d0 where up: "New_daemon (wi_env (proc_wiring T H)) demo_node_codec proc_start = Inr d0"
    using proc_up by (auto simp: proc_wiring_def)
  from process_invariant [OF up refl, of proc_ops] up
  show "\<exists>d0. New_daemon (wi_env (proc_wiring T H)) demo_node_codec proc_start = Inr d0 \<and>
     m_selfAdvertise (d_quorum (daemon_of (proc_run (proc_wiring T H) proc_ops (boot d0)))) = AdvertiseAddr (d_node d0)" by blast
qed

lemma proc_called:
  assumes x: "ts_entries (d_trust d) = [(''b'', x)]" "te_Fingerprint x = Fingerprint demo_pki proc_cert"
  shows "(Fingerprint demo_pki proc_cert, MethodStatus) \<in> set (ps_calls (proc_run (proc_wiring T H) proc_ops (boot d)))"
proof -
  have fp: "peerFingerprintFromConnState demo_pki [proc_cert] = Fingerprint demo_pki proc_cert" "Fingerprint demo_pki proc_cert \<noteq> []"
    by (simp_all add: peerFingerprintFromConnState_def fingerprintOf_eq Fingerprint_def FingerprintFromSPKI_def)
  have D: "dv_pki (wi_env (proc_wiring T H)) = demo_pki" "dv_ord (wi_env (proc_wiring T H)) = rev"
    by (simp_all add: proc_wiring_def demo_denv_def)
  have t: "peerTrusted rev (Fingerprint demo_pki proc_cert) (d_trust d)"
    using x fp(2) by (simp add: peerTrusted_def LookupByFingerprint_def trust_values_def)
  then have oc: "cn_trusted (open_conn (proc_wiring T H) [proc_cert] (ps_serving (boot d)))"
    "cn_peerFP (open_conn (proc_wiring T H) [proc_cert] (ps_serving (boot d))) = Fingerprint demo_pki proc_cert"
    by (simp_all add: open_conn_def D fp Let_def boot_def)
  have h: "sv_handlers (server_of (proc_wiring T H)) MethodStatus = Some (handler H (serve_Status guess_json))"
    by (simp add: server_of_def proc_wiring_def rpc_server_def registerHandlers_def Handle_def Let_def)
  have dec: "wi_decode (proc_wiring T H) ''S'' = Inr \<lparr>req_ID = 1, req_Method = MethodStatus, req_Params = []\<rparr>"
    by (simp add: proc_wiring_def guess_decode_def)
  show ?thesis
    using oc by (simp add: proc_ops_def conn_turn_def serve_request_def dec h handler_def serve_Status_def split: prod.split)
qed

theorem only_admitted_act_witness:
  "\<forall>T H. \<exists>d0. New_daemon (wi_env (proc_wiring T H)) demo_node_codec proc_start = Inr d0 \<and>
     (Fingerprint demo_pki proc_cert, MethodStatus) \<in> set (ps_calls (proc_run (proc_wiring T H) proc_ops (boot d0))) \<and>
     (\<exists>k. trusts d0 k (Fingerprint demo_pki proc_cert) \<or>
        vouched (proc_wiring T H) proc_ops (boot d0) k (Fingerprint demo_pki proc_cert))"
proof (intro allI)
  fix T H
  let ?W = "proc_wiring T H"
  obtain d0 x where up: "New_daemon (wi_env ?W) demo_node_codec proc_start = Inr d0"
    and x: "ts_entries (d_trust d0) = [(''b'', x)]" "te_Fingerprint x = Fingerprint demo_pki proc_cert"
    using proc_up by (auto simp: proc_wiring_def)
  have ord: "mset (dv_ord (wi_env ?W) xs) = mset xs" for xs by (simp add: proc_wiring_def demo_denv_def)
  have "MethodStatus \<noteq> MethodJoin \<and> MethodStatus \<noteq> MethodEnroll" by (simp add: tag_defs)
  with only_admitted_act [OF ord up refl, of "Fingerprint demo_pki proc_cert" MethodStatus proc_ops] proc_called [OF x, of T H] up
  show "\<exists>d0. New_daemon (wi_env ?W) demo_node_codec proc_start = Inr d0 \<and>
     (Fingerprint demo_pki proc_cert, MethodStatus) \<in> set (ps_calls (proc_run ?W proc_ops (boot d0))) \<and>
     (\<exists>k. trusts d0 k (Fingerprint demo_pki proc_cert) \<or> vouched ?W proc_ops (boot d0) k (Fingerprint demo_pki proc_cert))"
    by blast
qed
end
