(* ===== verification/Electing.thy ===== *)
theory Electing
  imports Process
begin

text \<open>
  Elections of running daemons. Every operation of a daemon (\<open>Process\<close>) acts on its quorum manager as a run
  of the manager's atomic events (\<open>internal/quorum/manager.go\<close>), and the only contacts it records are its own
  ticks, the heartbeats it answered on trusted connections and the answers it got to its own: \<open>beats\<close>. So the
  master a daemon elects is a function of its contact history, and nodes whose histories show the same
  reachable set with a quorum agree on the master.
\<close>

section \<open>Contacts of an operation\<close>

definition frame_beats :: "wiring \<Rightarrow> round \<Rightarrow> conn \<Rightarrow> serving \<Rightarrow> (string \<times> gotime) list" where
  "frame_beats W r cn s =
     (case rd_frame r of
        Inl e \<Rightarrow> []
      | Inr body \<Rightarrow>
         (case wi_decode W body of
            Inl e \<Rightarrow> []
          | Inr req \<Rightarrow>
             (if \<not> cn_trusted cn \<or> req_Method req \<noteq> MethodHeartbeat then []
              else (case rj_Heartbeat (wi_rpc W) (req_Params req) of
                      Inl e \<Rightarrow> []
                    | Inr hq \<Rightarrow>
                       (if hq_FromNodeID hq \<noteq> [] \<and> hq_FromNodeID hq \<noteq> m_selfID (d_quorum (sg_daemon s))
                        then [(hq_FromNodeID hq, he_mark (wi_runs W (sg_turn s)))] else [])))))"

fun beats :: "wiring \<Rightarrow> daemon_op \<Rightarrow> process \<Rightarrow> (string \<times> gotime) list" where
  "beats W (Framed c r) p = (case ps_conns p c of None \<Rightarrow> [] | Some cn \<Rightarrow> frame_beats W r cn (ps_serving p))"
| "beats W (Started t u v) p = [(m_selfID (d_quorum (daemon_of p)), t)]"
| "beats W (Ticked t u v) p = [(m_selfID (d_quorum (daemon_of p)), t)]"
| "beats W (Answered mu rpc t peerID res) p = (case res of Inl e \<Rightarrow> [] | Inr resp \<Rightarrow> [(peerID, t)])"
| "beats W _ p = []"

fun beat_log :: "wiring \<Rightarrow> daemon_op list \<Rightarrow> process \<Rightarrow> (string \<times> gotime) list" where
  "beat_log W [] p = []"
| "beat_log W (op # ops) p = beats W op p @ beat_log W ops (proc_step W op p)"

text \<open>The contacts with one node, newest first.\<close>

definition times_of :: "string \<Rightarrow> (string \<times> gotime) list \<Rightarrow> gotime list" where
  "times_of k log = rev (map snd (filter (\<lambda>b. fst b = k) log))"

abbreviation heard_from :: "wiring \<Rightarrow> daemon_op list \<Rightarrow> daemon \<Rightarrow> string \<Rightarrow> gotime list" where
  "heard_from W ops d k \<equiv> times_of k (beat_log W ops (boot d))"

section \<open>Operations as runs of manager events\<close>

definition marks :: "mgr_event list \<Rightarrow> (string \<times> gotime) list" where
  "marks es = concat (map (\<lambda>e. case e of EvMarkLive t i \<Rightarrow> [(i, t)] | _ \<Rightarrow> []) es)"

lemma marks_simps [simp]:
  "marks [] = []" "marks (EvMarkLive t i # es) = (i, t) # marks es" "marks (EvSetAddr i a # es) = marks es"
  "marks (EvElect t q l # es) = marks es" "marks (es @ es') = marks es @ marks es'"
  by (simp_all add: marks_def)

lemma contacts_marks: "contacts k es = times_of k (marks es)"
  by (induction es rule: rev_induct) (auto simp: contacts_snoc times_of_def marks_def split: mgr_event.split)

text \<open>A change of the manager that is a run of events with the given contacts.\<close>

definition events :: "(string \<times> gotime) list \<Rightarrow> manager \<Rightarrow> manager \<Rightarrow> bool" where
  "events bs m m' \<longleftrightarrow> (\<exists>es. m' = fold mgr_step es m \<and> marks es = bs)"

lemma eventsI: "m' = fold mgr_step es m \<Longrightarrow> marks es = bs \<Longrightarrow> events bs m m'"
  by (auto simp: events_def)

lemma events_refl [simp]: "events [] m m"
  by (rule eventsI [of _ "[]"]) simp_all

lemma events_trans: "events bs m m' \<Longrightarrow> events bs' m' m'' \<Longrightarrow> events (bs @ bs') m m''"
proof -
  assume "events bs m m'" and "events bs' m' m''"
  then obtain es es' where "m' = fold mgr_step es m" "marks es = bs" "m'' = fold mgr_step es' m'" "marks es' = bs'"
    by (auto simp: events_def)
  then show ?thesis by (intro eventsI [of _ "es @ es'"]) simp_all
qed

lemma events_recompute: "events bs m m' \<Longrightarrow> events bs m (recomputeMaster t u c m')"
  using events_trans [of bs m m' "[]"] eventsI [of "recomputeMaster t u c m'" "[EvElect u (QuorumSize c) (LiveSet t m')]" m' "[]"]
  by (simp add: recomputeMaster_def)

lemma events_remember: "events [] m (remember_addrs c m)"
proof -
  have "marks (map (\<lambda>p. EvSetAddr (pi_NodeID p) (pi_Advertise p)) ps) = []" for ps
    by (induction ps) simp_all
  then show ?thesis unfolding remember_addrs_run by (intro eventsI [OF refl])
qed

text \<open>The manager a tick elects with: addresses remembered, itself marked live.\<close>

definition tick_prep :: "gotime \<Rightarrow> ClusterConfig \<Rightarrow> manager \<Rightarrow> manager" where
  "tick_prep t c m = markLive t (m_selfID (remember_addrs c m)) (remember_addrs c m)"

lemma remember_self [simp]: "m_selfID (remember_addrs c m) = m_selfID m"
  using mgr_run_const unfolding remember_addrs_run by blast

lemma tick_prep_events: "events [(m_selfID m, t)] m (tick_prep t c m)"
  using events_trans [OF events_remember [of m c], of "[(m_selfID m, t)]" "tick_prep t c m"]
    eventsI [of "tick_prep t c m" "[EvMarkLive t (m_selfID m)]" "remember_addrs c m"]
  by (simp add: tick_prep_def)

lemma tick_manager: "snd (snd (snd (snd (tick t u v c m)))) = recomputeMaster u v c (tick_prep t c m)"
  by (simp add: tick_def tick_prep_def Let_def)

lemma heartbeat_events:
  "events (if hq_FromNodeID req \<noteq> [] \<and> hq_FromNodeID req \<noteq> m_selfID m then [(hq_FromNodeID req, t)] else []) m
     (snd (snd (HandleHeartbeat t u v obs c req m)))"
proof -
  let ?i = "hq_FromNodeID req"
  have "events [(?i, t)] m (markLive t ?i m)" by (rule eventsI [of _ "[EvMarkLive t ?i]"]) simp_all
  moreover have "events [(?i, t)] m (set_addr ?i a (markLive t ?i m))" for a
    by (rule eventsI [of _ "[EvMarkLive t ?i, EvSetAddr ?i a]"]) simp_all
  ultimately show ?thesis by (auto simp: HandleHeartbeat_def Let_def intro: events_recompute)
qed

lemma reply_events: "events (case res of Inl e \<Rightarrow> [] | Inr resp \<Rightarrow> [(k, t)]) m (snd (heartbeat_reply t k res c m))"
proof -
  have "events [(k, t)] m (markLive t k m)" by (rule eventsI [of _ "[EvMarkLive t k]"]) simp_all
  moreover have "events [(k, t)] m (set_addr k a (markLive t k m))" for a
    by (rule eventsI [of _ "[EvMarkLive t k, EvSetAddr k a]"]) simp_all
  ultimately show ?thesis by (auto simp: heartbeat_reply_def Let_def split: sum.split)
qed

section \<open>What leaves the manager alone\<close>

lemma follows_quorum: "follows D d d' \<Longrightarrow> d_quorum d' = d_quorum d"
  by (auto simp: follows_def run_callbacks_frame)

lemma observed_quorum [simp]: "d_quorum (observed D mu rpc nt d) = d_quorum d"
  by (rule follows_quorum [OF observed_follows])

lemma mutate_quorum: "daemon_mutate D mu kind m d = (r, d', out) \<Longrightarrow> d_quorum d' = d_quorum d"
  by (rule follows_quorum [OF daemon_mutate_follows])

lemma aggregate_quorum: "aggregate E i r d = (sent, d') \<Longrightarrow> d_quorum d' = d_quorum d"
  by (drule aggregate_frame(1)) (metis daemon.select_convs(5) daemon.surjective daemon.update_convs(6))

lemma enroll_quorum: "handleEnroll D E req d = (resp, d', out) \<Longrightarrow> d_quorum d' = d_quorum d"
  by (auto simp: handleEnroll_def record_join_def approve_join_def Let_def dest!: mutate_quorum
      split: sum.splits prod.splits if_splits)

lemma dispatch_quorum: "dispatch D T J co req d = (resp, d', eff) \<Longrightarrow> d_quorum d' = d_quorum d"
proof -
  have "ctrl_node_remove D J co i d = (resp, d', eff) \<Longrightarrow> d_quorum d' = d_quorum d" for i
    by (auto simp: ctrl_node_remove_def dest: mutate_quorum split: prod.splits sum.splits option.splits)
  moreover have "ctrl_trust_remove D J co i d = (resp, d', eff) \<Longrightarrow> d_quorum d' = d_quorum d" for i
    by (auto simp: ctrl_trust_remove_def split: prod.splits option.splits)
  moreover have "ctrl_mutation D J co kind m d = (resp, d', eff) \<Longrightarrow> d_quorum d' = d_quorum d" for kind m
    by (auto simp: ctrl_mutation_def dest: mutate_quorum split: prod.splits sum.splits)
  moreover have "ctrl_enroll_create D T J co body d = (resp, d', eff) \<Longrightarrow> d_quorum d' = d_quorum d" for body
    by (auto simp: ctrl_enroll_create_def enrollCreate_def Let_def dest: mutate_quorum split: prod.splits sum.splits if_splits)
  moreover have "ctrl_alert_test J co i d = (resp, d', eff) \<Longrightarrow> d_quorum d' = d_quorum d" for i
    by (auto simp: ctrl_alert_test_def split: prod.splits option.splits)
  moreover have "ctrl_check_test J co body d = (resp, d', eff) \<Longrightarrow> d_quorum d' = d_quorum d" for body
    by (auto simp: ctrl_check_test_def split: prod.splits option.splits)
  ultimately show "dispatch D T J co req d = (resp, d', eff) \<Longrightarrow> d_quorum d' = d_quorum d"
    by (auto simp: dispatch_def Let_def with_body_def split: if_splits sum.splits)
qed

lemma other_handler_quorum:
  assumes "body h raw d = (r, d', eff)"
    and "body \<in> {serve_Ping J, serve_WhoAmI D J, serve_Join J, serve_Enroll D J, serve_GetClusterCfg J, serve_ApplyClusterCfg D J,
       serve_ProposeMutation D J, serve_ReportResult J, serve_Status J}"
  shows "d_quorum d' = d_quorum d"
  using assms
  by (auto simp: serve_Ping_def serve_WhoAmI_def serve_Join_def serve_Enroll_def serve_GetClusterCfg_def serve_ApplyClusterCfg_def
      serve_ProposeMutation_def serve_ReportResult_def serve_Status_def handle_report_def
      dest: enroll_quorum aggregate_quorum follows_quorum [OF daemon_apply_follows] follows_quorum [OF daemon_propose_follows]
      split: sum.splits prod.splits)

section \<open>Every operation\<close>

lemma rpc_server_split:
  assumes "sv_handlers (rpc_server D J H dec) m = Some fn"
  obtains "m = MethodHeartbeat" "fn = handler H (serve_Heartbeat D J)"
  | body where "m \<noteq> MethodHeartbeat" "fn = handler H body" and "body \<in> {serve_Ping J, serve_WhoAmI D J, serve_Join J, serve_Enroll D J,
       serve_GetClusterCfg J, serve_ApplyClusterCfg D J, serve_ProposeMutation D J, serve_ReportResult J, serve_Status J}"
  using assms by (auto simp: rpc_server_def registerHandlers_def Handle_def Let_def tag_defs split: if_splits)

lemma turn_events:
  assumes "conn_turn W r cn s = (cn', ms, s')"
  shows "events (frame_beats W r cn s) (d_quorum (sg_daemon s)) (d_quorum (sg_daemon s'))"
proof (cases "\<exists>body req. rd_frame r = Inr body \<and> wi_decode W body = Inr req")
  case False
  with assms show ?thesis by (auto simp: conn_turn_def frame_beats_def split: sum.splits)
next
  case True
  let ?D = "wi_env W" and ?J = "wi_rpc W" and ?h = "wi_runs W (sg_turn s)" and ?d = "sg_daemon s"
  obtain body req where fr: "rd_frame r = Inr body" "wi_decode W body = Inr req" using True by blast
  obtain resp call continue trusted' where
    q: "serve_request (server_of W) (dv_ord ?D) (cn_peerID cn) (cn_peerFP cn) (cn_trusted cn) (rd_write_ok r) req s = (resp, call, continue, trusted', s')"
    using assms fr by (auto simp: conn_turn_def split: prod.splits)
  have beat: "sv_handlers (server_of W) MethodHeartbeat = Some (handler (wi_runs W) (serve_Heartbeat ?D ?J))"
    by (simp add: server_of_def rpc_server_methods)
  show ?thesis
  proof (cases "req_Method req = MethodHeartbeat \<and> cn_trusted cn")
    case True
    obtain rs d' eff where run: "serve_Heartbeat ?D ?J ?h (req_Params req) ?d = (rs, d', eff)" by (metis prod_cases3)
    have s': "sg_daemon s' = d'"
      using q True run beat by (auto simp: serve_request_def handler_def split: sum.splits if_splits)
    show ?thesis
    proof (cases "rj_Heartbeat ?J (req_Params req)")
      case (Inl e)
      with run True fr show ?thesis by (simp add: s' frame_beats_def serve_Heartbeat_def)
    next
      case (Inr hq)
      with run have "d_quorum d' = snd (snd (HandleHeartbeat (he_mark ?h) (he_live ?h) (he_elect ?h)
          (\<lambda>n. cs_cfg (d_cfg (observed ?D (he_mut ?h) (he_pull ?h) (Some n) ?d))) (cs_cfg (d_cfg ?d)) hq (d_quorum ?d)))"
        by (auto simp: serve_Heartbeat_def daemon_heartbeat_def split: prod.splits)
      with heartbeat_events [of hq "d_quorum ?d" "he_mark ?h"] Inr True fr show ?thesis
        by (auto simp: s' frame_beats_def split: if_splits)
    qed
  next
    case False
    then have none: "frame_beats W r cn s = []" using fr by (auto simp: frame_beats_def)
    have "bootstrap_method MethodHeartbeat = False" by (simp add: bootstrap_method_def tag_defs)
    with serve_request_state [OF q] False consider "s' = s"
      | fn res where "sv_handlers (server_of W) (req_Method req) = Some fn" "fn (cn_peerID cn) (req_Params req) s = (res, s')"
          "req_Method req \<noteq> MethodHeartbeat" by metis
    then have "d_quorum (sg_daemon s') = d_quorum ?d"
    proof cases
      case 2
      then obtain bd where bd: "fn = handler (wi_runs W) bd" "bd \<in> {serve_Ping ?J, serve_WhoAmI ?D ?J, serve_Join ?J,
          serve_Enroll ?D ?J, serve_GetClusterCfg ?J, serve_ApplyClusterCfg ?D ?J, serve_ProposeMutation ?D ?J, serve_ReportResult ?J, serve_Status ?J}"
        unfolding server_of_def by (auto elim: rpc_server_split)
      obtain d' eff where "bd ?h (req_Params req) ?d = (res, d', eff)" and "sg_daemon s' = d'"
        using 2(2) by (auto simp: bd(1) handler_def split: prod.splits)
      with other_handler_quorum [OF _ bd(2)] show ?thesis by blast
    qed simp
    with none show ?thesis by simp
  qed
qed

lemma step_events: "events (beats W op p) (d_quorum (daemon_of p)) (d_quorum (daemon_of (proc_step W op p)))"
proof (cases op)
  case (Framed c r)
  show ?thesis
  proof (cases "ps_conns p c")
    case (Some cn)
    obtain cn' ms s' where turn: "conn_turn W r cn (ps_serving p) = (cn', ms, s')" by (metis prod_cases3)
    from turn_events [OF turn] Some turn show ?thesis by (simp add: Framed)
  qed (simp add: Framed)
next
  case (Commanded co req)
  then show ?thesis by (auto dest: dispatch_quorum split: prod.split)
next
  case (Started t u v)
  have "events [(m_selfID m, t)] m (markLive t (m_selfID m) m)" for m
    by (rule eventsI [of _ "[EvMarkLive t (m_selfID m)]"]) simp_all
  then show ?thesis by (simp add: Started Start_def events_recompute)
next
  case (Ticked t u v)
  with tick_manager [of t u v "cs_cfg (d_cfg (daemon_of p))" "d_quorum (daemon_of p)"] tick_prep_events
  show ?thesis by (auto simp: events_recompute split: prod.split)
next
  case (Answered mu rpc t k res)
  with reply_events [where c = "cs_cfg (d_cfg (daemon_of p))" and m = "d_quorum (daemon_of p)"]
  show ?thesis by (auto simp: daemon_heard_def split: prod.split) (metis snd_conv)
next
  case (Probed E r)
  then show ?thesis by (auto simp: sink_Submit_def dest: aggregate_quorum split: prod.split route.split)
next
  case (Polled mu raw written)
  then show ?thesis by (auto dest: follows_quorum [OF manual_edit_follows] split: prod.split)
qed simp_all

lemma run_events: "events (beat_log W ops p) (d_quorum (daemon_of p)) (d_quorum (daemon_of (proc_run W ops p)))"
  by (induction ops arbitrary: p) (auto intro: events_trans step_events)

section \<open>The election of a daemon with a given history\<close>

lemma New_daemon_manager:
  "New_daemon D N sx = Inr d \<Longrightarrow>
     d_quorum d = SetVersionObserver (SetSelfAdvertise (AdvertiseAddr (d_node d)) (New_Manager (self_of d)))"
  by (auto simp: New_daemon_def New_assemble_def syncTrust_frame split: sum.splits prod.splits option.splits)

lemma run_distinct: "distinct (map fst (m_lastSeen m)) \<Longrightarrow> distinct (map fst (m_lastSeen (fold mgr_step es m)))"
proof (induction es arbitrary: m)
  case (Cons e es)
  have "distinct (map fst (m_lastSeen (mgr_step e m)))"
    using Cons.prems by (cases e) (simp_all add: markLive_def set_addr_def elect_def SetSelfAdvertise_def Let_def distinct_update)
  from Cons.IH [OF this] show ?case by simp
qed simp

text \<open>What the manager of a running daemon knows is its history.\<close>

lemma manager_history:
  assumes up: "New_daemon D N sx = Inr d" and ev: "events log (d_quorum d) m"
  shows "map_of (m_lastSeen m) k = (case times_of k log of [] \<Rightarrow> None | t # _ \<Rightarrow> Some t)"
    and "map_of (m_liveSince m) k = streak_start (4 * Second) (times_of k log)"
    and "m_deadAfter m = 4 * Second" and "m_masterCooldown m = 2 * Minute" and "m_selfID m = self_of d"
    and "distinct (map fst (m_lastSeen m))"
proof -
  let ?m = "d_quorum d"
  have new: "m_lastSeen ?m = []" "m_liveSince ?m = []" "m_deadAfter ?m = 4 * Second" "m_masterCooldown ?m = 2 * Minute" "m_selfID ?m = self_of d"
    unfolding New_daemon_manager [OF up]
    by (simp_all add: SetVersionObserver_def SetSelfAdvertise_def New_Manager_def DefaultDeadAfter_def DefaultMasterCooldown_def)
  obtain es where es: "m = fold mgr_step es ?m" "marks es = log" using ev by (auto simp: events_def)
  have d: "0 \<le> m_deadAfter ?m" "m_deadAfter ?m < 2 ^ 63 - 1" unfolding new by (simp_all add: unit_defs)
  show "map_of (m_lastSeen m) k = (case times_of k log of [] \<Rightarrow> None | t # _ \<Rightarrow> Some t)"
    and "map_of (m_liveSince m) k = streak_start (4 * Second) (times_of k log)"
    using streak_run [OF d new(1,2), of es k] by (simp_all add: es contacts_marks new(3))
  show "m_deadAfter m = 4 * Second" "m_masterCooldown m = 2 * Minute" "m_selfID m = self_of d"
    using mgr_run_const [of es ?m] new by (simp_all add: es)
  show "distinct (map fst (m_lastSeen m))" unfolding es by (rule run_distinct) (simp add: new)
qed

lemma LiveSet_history:
  assumes up: "New_daemon D N sx = Inr d" and ev: "events log (d_quorum d) m"
    and seen: "\<And>k. k \<in> L \<longleftrightarrow> (case times_of k log of [] \<Rightarrow> False | u # us \<Rightarrow> t - 4 * Second < u \<or> k = self_of d)"
  shows "set (LiveSet t m) = L" and "length (LiveSet t m) = card L"
proof -
  note h = manager_history [OF up ev]
  have pair: "(k, ts) \<in> set (m_lastSeen m) \<longleftrightarrow> map_of (m_lastSeen m) k = Some ts" for k ts
    using h(6) by (metis map_of_eq_Some_iff)
  show "set (LiveSet t m) = L"
    unfolding set_LiveSet pair h(1,3,5) using seen by (auto split: list.splits)
  then show "length (LiveSet t m) = card L"
    using LiveSet_distinct [OF h(6), of t] by (metis distinct_card)
qed

lemma elected_from_history:
  assumes up: "New_daemon (wi_env W) N sx = Inr d" and q: "p = proc_run W ops (boot d)"
    and p': "p' = proc_step W (Ticked mk lv nw) p"
    and seen: "\<And>k. k \<in> L \<longleftrightarrow> (case heard_from W (ops @ [Ticked mk lv nw]) d k of [] \<Rightarrow> False | u # us \<Rightarrow> lv - 4 * Second < u \<or> k = self_of d)"
    and quorum: "QuorumSize (cs_cfg (d_cfg (daemon_of p'))) \<le> card L" and ne: "L \<noteq> {}"
    and cool: "streak_start (4 * Second) (heard_from W (ops @ [Ticked mk lv nw]) d (Min L)) = Some s" "2 * Minute \<le> nw - s"
  shows "Master (d_quorum (daemon_of p')) = Min L" and "m_selfID (d_quorum (daemon_of p')) = self_of d"
proof -
  let ?c = "cs_cfg (d_cfg (daemon_of p))" and ?m = "d_quorum (daemon_of p)"
  let ?m' = "tick_prep mk ?c ?m" and ?log = "beat_log W (ops @ [Ticked mk lv nw]) (boot d)"
  have log: "beat_log W (ops @ more) r = beat_log W ops r @ beat_log W more (proc_run W ops r)" for more r
    by (induction ops arbitrary: r) simp_all
  have ev: "events ?log (d_quorum d) ?m'"
    using events_trans [OF run_events [of W ops "boot d"] tick_prep_events, of mk ?c] by (simp add: log q)
  note h = manager_history [OF up ev] and live = LiveSet_history [OF up ev seen]
  have p'': "d_quorum (daemon_of p') = recomputeMaster lv nw ?c ?m'" "cs_cfg (d_cfg (daemon_of p')) = ?c"
    using tick_manager [of mk lv nw ?c ?m] by (auto simp: p' split: prod.split)
  have "LiveSet lv ?m' \<noteq> []" using live(1) ne by auto
  moreover have "time_Sub nw s \<ge> m_masterCooldown ?m'"
    unfolding h(4) using cool(2) by (simp add: time_Sub_ge unit_defs)
  ultimately have "m_masterID (recomputeMaster lv nw ?c ?m') = Min L"
    using lowest_wins [of lv ?m' ?c "Min L" nw] live quorum cool(1) h(2) p''(2) by simp
  then show "Master (d_quorum (daemon_of p')) = Min L" by (simp add: Master_def p'')
  show "m_selfID (d_quorum (daemon_of p')) = self_of d" by (simp add: p'' h(5) manager_kept)
qed

section \<open>Properties\<close>

text \<open>C7. Nodes that hear each other agree on the master. Take any set \<open>L\<close> of daemons, each brought up by \<open>New\<close>, each
  with its own history of operations in its own order up to a tick of its quorum manager. If at that tick each of them has
  heard from exactly the nodes of \<open>L\<close> within the last 4 seconds (itself included), those are a quorum of its own configuration,
  and its unbroken contact with the lowest of them, its own ticks for that node itself, began at least 2 minutes ago, then they all hold the lowest ID of \<open>L\<close> for
  the master and exactly that node acts as master: whatever masters, terms and configurations they went through before.\<close>

theorem histories_agree:
  assumes up: "\<forall>i \<in> L. New_daemon (wi_env (W i)) (N i) (sx i) = Inr (d i) \<and> self_of (d i) = i"
    and p: "\<forall>i \<in> L. p i = proc_run (W i) (ops i @ [Ticked (mk i) (lv i) (nw i)]) (boot (d i))"
    and h: "\<forall>i \<in> L. \<forall>k. h i k = heard_from (W i) (ops i @ [Ticked (mk i) (lv i) (nw i)]) (d i) k"
    and seen: "\<forall>i \<in> L. \<forall>k. k \<in> L \<longleftrightarrow> (case h i k of [] \<Rightarrow> False | u # us \<Rightarrow> lv i - 4 * Second < u \<or> k = i)"
    and quorum: "\<forall>i \<in> L. QuorumSize (cs_cfg (d_cfg (daemon_of (p i)))) \<le> card L"
    and cool: "\<forall>i \<in> L. \<exists>s. streak_start (4 * Second) (h i (Min L)) = Some s \<and> 2 * Minute \<le> nw i - s"
  shows "\<forall>i \<in> L. Master (d_quorum (daemon_of (p i))) = Min L \<and> (IsMaster (d_quorum (daemon_of (p i))) \<longleftrightarrow> i = Min L)"
proof
  fix i assume i: "i \<in> L"
  let ?p = "proc_run (W i) (ops i) (boot (d i))"
  have run: "p i = proc_step (W i) (Ticked (mk i) (lv i) (nw i)) ?p"
    using p i by (simp add: proc_run_def)
  obtain s where s: "streak_start (4 * Second) (h i (Min L)) = Some s" "2 * Minute \<le> nw i - s" using cool i by blast
  have si: "self_of (d i) = i" and hi: "\<And>k. heard_from (W i) (ops i @ [Ticked (mk i) (lv i) (nw i)]) (d i) k = h i k"
    using up h i by auto
  have "L \<noteq> {}" using i by blast
  with elected_from_history [OF conjunct1 [OF bspec [OF up i]] refl run, of L s] seen quorum s i
  show "Master (d_quorum (daemon_of (p i))) = Min L \<and> (IsMaster (d_quorum (daemon_of (p i))) \<longleftrightarrow> i = Min L)"
    unfolding hi si by (auto simp: IsMaster_def)
qed

section \<open>Two nodes that meet\<close>

text \<open>Nodes \<open>a\<close> and \<open>b\<close> of a cluster of three, beating every 4 seconds for two minutes; \<open>c\<close> is away.\<close>

definition meet_codec :: "string \<Rightarrow> node_codec" where
  "meet_codec i = \<lparr>nyaml_Marshal = (\<lambda>_. Inl (ErrLib ''yaml'')), nyaml_Unmarshal = (\<lambda>_. Inr (demo_node\<lparr>nc_NodeID := i\<rparr>))\<rparr>"

definition meet_wiring :: wiring where
  "meet_wiring = \<lparr>wi_env = demo_denv demo_cluster, wi_token = undefined, wi_control = list_json, wi_rpc = guess_json, wi_runs = undefined,
     wi_decode = guess_decode\<rparr>"

definition quiet :: HeartbeatResponse where
  "quiet = \<lparr>hr_NodeID = [], hr_Advertise = [], hr_Term = 0, hr_MasterID = [], hr_Version = 0\<rparr>"

definition meet_round :: "string \<Rightarrow> gotime \<Rightarrow> daemon_op list" where
  "meet_round other t = [Ticked t t t, Answered \<lparr>mu_now = t, mu_call = demo_call, mu_rpc = (\<lambda>_ _ _. Inl (ErrLib [])), mu_trust = (\<lambda>_. demo_call)\<rparr>
     (\<lambda>_ _. Inl (ErrLib [])) t other (Inr quiet)]"

definition meet_times :: "gotime list" where
  "meet_times = map (\<lambda>j. int j * 4000000000) [0..<31]"

definition meet_ops :: "string \<Rightarrow> daemon_op list" where
  "meet_ops other = concat (map (meet_round other) meet_times)"

lemma events_self: "events bs m m' \<Longrightarrow> m_selfID m' = m_selfID m"
  using mgr_run_const by (auto simp: events_def)

lemma meet_rounds:
  "m_selfID (d_quorum (daemon_of p)) = i \<Longrightarrow>
     beat_log W (concat (map (meet_round other) ts) @ [Ticked t u v]) p = concat (map (\<lambda>s. [(i, s), (other, s)]) ts) @ [(i, t)] \<and>
     cs_cfg (d_cfg (daemon_of (proc_run W (concat (map (meet_round other) ts) @ [Ticked t u v]) p))) = cs_cfg (d_cfg (daemon_of p))"
proof (induction ts arbitrary: p)
  case Nil
  then show ?case by (auto split: prod.split)
next
  case (Cons s ts)
  define q where "q = proc_run W (meet_round other s) p"
  have quiet_note: "maybeNotifyVersion k (hr_Version quiet) c m = None" for k c m
    by (simp add: maybeNotifyVersion_def quiet_def)
  have step: "proc_run W (meet_round other s @ rest) p = proc_run W rest q" "beat_log W (meet_round other s @ rest) p = beat_log W (meet_round other s) p @ beat_log W rest q" for rest
    by (simp_all add: q_def meet_round_def del: proc_step.simps)
  have self: "m_selfID (d_quorum (daemon_of (proc_step W op p))) = i" for op
    using events_self [OF step_events] Cons.prems by simp
  have "m_selfID (d_quorum (daemon_of q)) = i"
    using events_self [OF run_events [of W "meet_round other s" p]] Cons.prems by (simp add: q_def)
  moreover have "beat_log W (meet_round other s) p = [(i, s), (other, s)]"
    using Cons.prems by (simp add: meet_round_def del: proc_step.simps)
  moreover have "cs_cfg (d_cfg (daemon_of q)) = cs_cfg (d_cfg (daemon_of p))"
    by (simp add: q_def meet_round_def daemon_heard_def heartbeat_reply_def quiet_note observed_def Let_def split: prod.split)
  ultimately show ?case using Cons.IH [of q] by (simp add: step)
qed

lemma meet_up: "i \<noteq> [] \<Longrightarrow> \<exists>d. New_daemon (wi_env meet_wiring) (meet_codec i) proc_start = Inr d \<and> self_of d = i \<and> cs_cfg (d_cfg d) = demo_cluster"
proof -
  assume i: "i \<noteq> []"
  have env: "ApplyEnvOverrides demo_env n = (None, n)" for n
    by (simp add: ApplyEnvOverrides_def demo_env_def Let_def)
  let ?n = "demo_node\<lparr>nc_NodeID := i, nc_BindPort := 9901, nc_BindAddr := ''0.0.0.0''\<rparr>"
  have "LoadNodeConfig (meet_codec i) demo_env None (sx_fs proc_start) = Inr ?n"
    by (simp add: LoadNodeConfig_def proc_start_def meet_codec_def env) (simp add: demo_node_def zero_NodeConfig_def)
  moreover have "nc_ClusterSecret demo_node = []" by (simp add: demo_node_def zero_NodeConfig_def)
  ultimately have "New_node (meet_codec i) demo_env proc_start = Inr (?n, sx_fs proc_start)"
    using i by (simp add: New_node_def) (simp add: proc_start_def)
  then show ?thesis
    by (simp add: meet_wiring_def New_daemon_def proc_start_def demo_denv_def LoadClusterConfig_def demo_codec_def trust_Load_def
        demo_env_paths New_assemble_def syncTrust_frame OnChange_def)
qed

lemma meet_history:
  "times_of ''b'' (concat (map (\<lambda>s. [(''a'', s), (''b'', s)]) meet_times) @ [(''a'', 121000000000)]) = rev meet_times"
  "times_of ''a'' (concat (map (\<lambda>s. [(''a'', s), (''b'', s)]) meet_times) @ [(''a'', 121000000000)]) = 121000000000 # rev meet_times"
  "times_of ''a'' (concat (map (\<lambda>s. [(''b'', s), (''a'', s)]) meet_times) @ [(''b'', 121000000000)]) = rev meet_times"
  "times_of ''b'' (concat (map (\<lambda>s. [(''b'', s), (''a'', s)]) meet_times) @ [(''b'', 121000000000)]) = 121000000000 # rev meet_times"
  by code_simp+

lemma meet_others: "k \<noteq> ''a'' \<Longrightarrow> k \<noteq> ''b'' \<Longrightarrow> times_of k (concat (map (\<lambda>s. [(''a'', s), (''b'', s)]) ts) @ [(''a'', t)]) = []"
  "k \<noteq> ''a'' \<Longrightarrow> k \<noteq> ''b'' \<Longrightarrow> times_of k (concat (map (\<lambda>s. [(''b'', s), (''a'', s)]) ts) @ [(''b'', t)]) = []"
  by (auto simp: times_of_def filter_empty_conv)

lemma meet_streak: "streak_start (4 * Second) (rev meet_times) = Some 0" "streak_start (4 * Second) (121000000000 # rev meet_times) = Some 0"
  "rev meet_times = 120000000000 # tl (rev meet_times)"
  by code_simp+

theorem histories_agree_witness:
  "\<exists>d. (\<forall>i \<in> {''a'', ''b''}. New_daemon (wi_env meet_wiring) (meet_codec i) proc_start = Inr (d i)) \<and>
     (\<forall>i \<in> {''a'', ''b''}. Master (d_quorum (daemon_of (proc_run meet_wiring
        (meet_ops (if i = ''a'' then ''b'' else ''a'') @ [Ticked 121000000000 121000000000 121000000000]) (boot (d i))))) = ''a'')"
proof -
  obtain da db where da: "New_daemon (wi_env meet_wiring) (meet_codec ''a'') proc_start = Inr da" "self_of da = ''a''" "cs_cfg (d_cfg da) = demo_cluster"
    and db: "New_daemon (wi_env meet_wiring) (meet_codec ''b'') proc_start = Inr db" "self_of db = ''b''" "cs_cfg (d_cfg db) = demo_cluster"
    using meet_up [of "''a''"] meet_up [of "''b''"] by auto
  let ?L = "{''a'', ''b''} :: string set" and ?T = "Ticked 121000000000 121000000000 121000000000"
  define d where "d = (\<lambda>i :: string. if i = ''a'' then da else db)"
  define ops where "ops = (\<lambda>i :: string. meet_ops (if i = ''a'' then ''b'' else ''a''))"
  define p where "p = (\<lambda>i. proc_run meet_wiring (ops i @ [?T]) (boot (d i)))"
  define h where "h = (\<lambda>i. heard_from meet_wiring (ops i @ [?T]) (d i))"
  have up: "\<forall>i \<in> ?L. New_daemon (wi_env meet_wiring) (meet_codec i) proc_start = Inr (d i) \<and> self_of (d i) = i"
    using da db by (simp add: d_def)
  have self: "m_selfID (d_quorum (daemon_of (boot (d i)))) = i" if "i \<in> ?L" for i
    using that New_daemon_wired up by (force simp: wired_def)
  have log: "beat_log meet_wiring (ops i @ [?T]) (boot (d i)) =
      concat (map (\<lambda>s. [(i, s), (if i = ''a'' then ''b'' else ''a'', s)]) meet_times) @ [(i, 121000000000)]"
    and cfg: "cs_cfg (d_cfg (daemon_of (p i))) = demo_cluster" if "i \<in> ?L" for i
    using meet_rounds [OF self [OF that]] da(3) db(3) unfolding p_def ops_def meet_ops_def by (auto simp: d_def)
  have ha: "h ''a'' ''a'' = 121000000000 # rev meet_times" "h ''a'' ''b'' = rev meet_times" "k \<noteq> ''a'' \<Longrightarrow> k \<noteq> ''b'' \<Longrightarrow> h ''a'' k = []" for k
    using log [of "''a''"] meet_history meet_others(1) by (simp_all add: h_def)
  have hb: "h ''b'' ''b'' = 121000000000 # rev meet_times" "h ''b'' ''a'' = rev meet_times" "k \<noteq> ''a'' \<Longrightarrow> k \<noteq> ''b'' \<Longrightarrow> h ''b'' k = []" for k
    using log [of "''b''"] meet_history meet_others(2) by (simp_all add: h_def)
  have lt: "''a'' < (''b'' :: string)" by code_simp
  then have min: "Min ?L = ''a''" by (simp add: min_def less_imp_le)
  obtain ms where last: "rev meet_times = 120000000000 # ms" using meet_streak(3) by blast
  have seen: "\<forall>i \<in> ?L. \<forall>k. k \<in> ?L \<longleftrightarrow> (case h i k of [] \<Rightarrow> False | u # us \<Rightarrow> 121000000000 - 4 * Second < u \<or> k = i)"
  proof (intro ballI allI)
    fix i k :: string
    assume i: "i \<in> ?L"
    have ks: "h ''a'' k = (if k = ''a'' then 121000000000 # rev meet_times else if k = ''b'' then 120000000000 # ms else [])"
      "h ''b'' k = (if k = ''b'' then 121000000000 # rev meet_times else if k = ''a'' then 120000000000 # ms else [])"
      using ha(1,2) ha(3) [of k] hb(1,2) hb(3) [of k] by (simp_all add: last)
    have ab: "i = ''a'' \<or> i = ''b''" using i by simp
    have "4 * Second = 4000000000" by (simp add: unit_defs)
    then show "k \<in> ?L \<longleftrightarrow> (case h i k of [] \<Rightarrow> False | u # us \<Rightarrow> 121000000000 - 4 * Second < u \<or> k = i)"
      using ab ks by (elim disjE) simp_all
  qed
  have "QuorumSize demo_cluster = 2" by (simp add: QuorumSize_def demo_cluster_def)
  then have quorum: "\<forall>i \<in> ?L. QuorumSize (cs_cfg (d_cfg (daemon_of (p i)))) \<le> card ?L" using cfg by simp
  have cool: "\<forall>i \<in> ?L. \<exists>s. streak_start (4 * Second) (h i (Min ?L)) = Some s \<and> 2 * Minute \<le> 121000000000 - s"
    unfolding min using ha hb meet_streak(1,2) by (simp add: unit_defs)
  have p: "\<forall>i \<in> ?L. p i = proc_run meet_wiring (ops i @ [?T]) (boot (d i))" by (simp add: p_def)
  have h: "\<forall>i \<in> ?L. \<forall>k. h i k = heard_from meet_wiring (ops i @ [?T]) (d i) k" by (simp add: h_def)
  from histories_agree [OF up p h seen quorum cool] have "\<forall>i \<in> ?L. Master (d_quorum (daemon_of (p i))) = ''a''" by (simp add: min)
  then show ?thesis using up unfolding p_def ops_def by (intro exI [of _ d]) simp
qed
end
