(* ===== verification/Outgoing.thy ===== *)
theory Outgoing
  imports Electing
begin

text \<open>
  What leaves a running daemon (\<open>Process\<close>) besides its answers: snapshots broadcast to the peers
  (\<open>internal/replicate/replicator.go\<close>), alert messages (\<open>internal/alerts/dispatcher.go\<close>), and the pulls of the
  version observer. Each of them is logged by the operation that causes it; here, which operations do.
\<close>

section \<open>Broadcasts and alerts of the parts\<close>

lemma mutate_out: "daemon_mutate D mu kind m d = (r, d', out) \<Longrightarrow> out \<noteq> [] \<Longrightarrow> IsMaster (d_quorum d)"
  by (auto simp: daemon_mutate_def LocalMutate_def view_def Let_def split: prod.splits if_splits sum.splits option.splits)

lemma propose_out: "daemon_propose D mu req d = (resp, d', out) \<Longrightarrow> out \<noteq> [] \<Longrightarrow> IsMaster (d_quorum d)"
  by (auto simp: daemon_propose_def HandleProposeMutation_def view_def Let_def split: prod.splits if_splits sum.splits)

lemma enroll_out:
  assumes "handleEnroll D E req d = (resp, d', out)" and "out \<noteq> []"
  shows "IsMaster (d_quorum d)"
proof (cases "enroll_check D (ee_check E) req (cs_cfg (d_cfg d))")
  case (Inl msg)
  with assms show ?thesis by (simp add: handleEnroll_def)
next
  case (Inr entry)
  obtain r1 d1 out1 where 1: "record_join D (ee_record E) (pe_ID entry) (join_of (ee_submit E) req) d = (r1, d1, out1)" by (metis prod_cases3)
  obtain r2 d2 out2 where 2: "approve_join D (ee_approve E) (pe_ID entry) d1 = (r2, d2, out2)" by (metis prod_cases3)
  from assms Inr 1 2 have "out1 \<noteq> [] \<or> out2 \<noteq> []"
    by (auto simp: handleEnroll_def Let_def split: sum.splits if_splits)
  then show ?thesis
    using mutate_out [OF 1 [unfolded record_join_def]] mutate_out [OF 2 [unfolded approve_join_def]]
      mutate_quorum [OF 1 [unfolded record_join_def]] by auto
qed

lemma aggregate_sent: "aggregate E i r d = (sent, d') \<Longrightarrow> sent \<noteq> [] \<Longrightarrow> IsMaster (d_quorum d)"
  by (auto simp: aggregate_def split: prod.splits option.splits if_splits)

text \<open>An effect that a master may have at any time.\<close>

definition masterly :: "manager \<Rightarrow> effect \<Rightarrow> bool" where
  "masterly m e \<longleftrightarrow> (case e of Sent out \<Rightarrow> IsMaster m | Alerted sent \<Rightarrow> sent = [] \<or> IsMaster m | Observed n \<Rightarrow> False)"

lemma sent_effect_masterly: "(out \<noteq> [] \<Longrightarrow> IsMaster m) \<Longrightarrow> e \<in> set (sent_effect out) \<Longrightarrow> masterly m e"
  by (auto simp: sent_effect_def masterly_def split: if_splits)

lemma mutate_effect: "daemon_mutate D mu kind m d = (r, d', out) \<Longrightarrow> e \<in> set (sent_effect out) \<Longrightarrow> masterly (d_quorum d) e"
  by (rule sent_effect_masterly [OF mutate_out])

lemma masterly_alerted: "(sent \<noteq> [] \<Longrightarrow> IsMaster m) \<Longrightarrow> masterly m (Alerted sent)"
  by (auto simp: masterly_def)

lemma dispatch_effects:
  assumes "dispatch D T J co req d = (resp, d', eff)" and "e \<in> set eff"
  shows "masterly (d_quorum d) e \<or> cr_Method req \<in> {CtrlAlertTest, CtrlCheckTest} \<and> (\<exists>sent. e = Alerted sent)"
proof -
  have "ctrl_node_remove D J co i d = (resp, d', eff) \<Longrightarrow> masterly (d_quorum d) e" for i
    using assms(2) by (auto simp: ctrl_node_remove_def dest: mutate_effect split: prod.splits sum.splits option.splits)
  moreover have "ctrl_trust_remove D J co i d = (resp, d', eff) \<Longrightarrow> masterly (d_quorum d) e" for i
    using assms(2) by (auto simp: ctrl_trust_remove_def split: prod.splits option.splits)
  moreover have "ctrl_mutation D J co kind m d = (resp, d', eff) \<Longrightarrow> masterly (d_quorum d) e" for kind m
    using assms(2) by (auto simp: ctrl_mutation_def dest: mutate_effect split: prod.splits sum.splits)
  moreover have "ctrl_enroll_create D T J co body d = (resp, d', eff) \<Longrightarrow> masterly (d_quorum d) e" for body
    using assms(2) by (auto simp: ctrl_enroll_create_def enrollCreate_def Let_def dest: mutate_effect
        split: prod.splits sum.splits if_splits) (simp_all add: sent_effect_def)
  moreover have "ctrl_alert_test J co i d = (resp, d', eff) \<Longrightarrow> \<exists>sent. e = Alerted sent" for i
    using assms(2) by (auto simp: ctrl_alert_test_def split: prod.splits option.splits)
  moreover have "ctrl_check_test J co body d = (resp, d', eff) \<Longrightarrow> \<exists>sent. e = Alerted sent" for body
    using assms(2) by (auto simp: ctrl_check_test_def split: prod.splits option.splits)
  ultimately show ?thesis
    using assms by (auto simp: dispatch_def Let_def with_body_def split: if_splits sum.splits)
qed

lemma handler_effects:
  assumes "body h raw d = (r, d', eff)" and "e \<in> set eff"
    and "body \<in> {serve_Ping J, serve_WhoAmI D J, serve_Join J, serve_Enroll D J, serve_Heartbeat D J,
       serve_GetClusterCfg J, serve_ApplyClusterCfg D J, serve_ProposeMutation D J, serve_ReportResult J, serve_Status J}"
  shows "masterly (d_quorum d) e \<or> (\<exists>n. e = Observed n)"
proof -
  have "serve_Enroll D J h raw d = (r, d', eff) \<Longrightarrow> masterly (d_quorum d) e"
    using assms(2) by (auto simp: serve_Enroll_def intro: sent_effect_masterly [OF enroll_out] split: sum.splits prod.splits)
  moreover have "serve_ProposeMutation D J h raw d = (r, d', eff) \<Longrightarrow> masterly (d_quorum d) e"
    using assms(2) by (auto simp: serve_ProposeMutation_def intro: sent_effect_masterly [OF propose_out] split: sum.splits prod.splits)
  moreover have "serve_ReportResult J h raw d = (r, d', eff) \<Longrightarrow> masterly (d_quorum d) e"
    using assms(2) by (auto simp: serve_ReportResult_def handle_report_def intro: masterly_alerted [OF aggregate_sent] split: sum.splits prod.splits)
  moreover have "serve_Heartbeat D J h raw d = (r, d', eff) \<Longrightarrow> \<exists>n. e = Observed n"
    using assms(2) by (auto simp: serve_Heartbeat_def split: sum.splits prod.splits option.splits)
  ultimately show ?thesis
    using assms by (auto simp: serve_Ping_def serve_WhoAmI_def serve_Join_def serve_GetClusterCfg_def serve_ApplyClusterCfg_def serve_Status_def
        split: sum.splits prod.splits)
qed

section \<open>Operations\<close>

text \<open>What an operation sends: what it appends to the log.\<close>

definition proc_sent :: "wiring \<Rightarrow> daemon_op \<Rightarrow> process \<Rightarrow> effect list" where
  "proc_sent W op p = drop (length (sg_log (ps_serving p))) (sg_log (ps_serving (proc_step W op p)))"

text \<open>A frame with an \<open>Enroll\<close> request for an outstanding token, with its secret.\<close>

definition bears_token :: "wiring \<Rightarrow> round \<Rightarrow> serving \<Rightarrow> bool" where
  "bears_token W r s \<longleftrightarrow>
     (case rd_frame r of
        Inl e \<Rightarrow> False
      | Inr body \<Rightarrow>
         (case wi_decode W body of
            Inl e \<Rightarrow> False
          | Inr req \<Rightarrow> req_Method req = MethodEnroll \<and>
              \<not> tokenless (wi_env W) (wi_rpc W) (cs_cfg (d_cfg (sg_daemon s))) (req_Params req)))"

lemma turn_effects:
  assumes turn: "conn_turn W r cn s = (cn', ms, s')"
  shows "\<exists>eff. sg_log s' = sg_log s @ eff \<and> (\<forall>e \<in> set eff. (masterly (d_quorum (sg_daemon s)) e \<or> (\<exists>n. e = Observed n)) \<and>
    (cn_trusted cn \<or> bears_token W r s))"
proof (cases "\<exists>body req. rd_frame r = Inr body \<and> wi_decode W body = Inr req")
  case False
  with turn show ?thesis by (auto simp: conn_turn_def split: sum.splits)
next
  case True
  let ?D = "wi_env W" and ?J = "wi_rpc W"
  obtain body req where fr: "rd_frame r = Inr body" "wi_decode W body = Inr req" using True by blast
  obtain resp call continue trusted' where
    q: "serve_request (server_of W) (dv_ord ?D) (cn_peerID cn) (cn_peerFP cn) (cn_trusted cn) (rd_write_ok r) req s = (resp, call, continue, trusted', s')"
    using turn fr by (auto simp: conn_turn_def split: prod.splits)
  from serve_request_state [OF q] consider "s' = s"
    | fn res where "sv_handlers (server_of W) (req_Method req) = Some fn" "fn (cn_peerID cn) (req_Params req) s = (res, s')"
        "cn_trusted cn \<or> bootstrap_method (req_Method req)" by blast
  then show ?thesis
  proof cases
    case 2
    from 2(1) obtain bd where bd: "fn = handler (wi_runs W) bd" "bd \<in> {serve_Ping ?J, serve_WhoAmI ?D ?J, serve_Join ?J,
        serve_Enroll ?D ?J, serve_Heartbeat ?D ?J, serve_GetClusterCfg ?J, serve_ApplyClusterCfg ?D ?J, serve_ProposeMutation ?D ?J,
        serve_ReportResult ?J, serve_Status ?J}"
      unfolding server_of_def by (elim rpc_server_cases) blast
    obtain d' eff where run: "bd (wi_runs W (sg_turn s)) (req_Params req) (sg_daemon s) = (res, d', eff)" and log: "sg_log s' = sg_log s @ eff"
      using 2(2) by (auto simp: bd(1) handler_def split: prod.splits)
    have "eff = []" if strange: "\<not> cn_trusted cn" "\<not> bears_token W r s"
    proof -
      from strange 2(3) have "req_Method req = MethodJoin \<or> req_Method req = MethodEnroll" by (simp add: bootstrap_method_def)
      then show ?thesis
      proof
        assume "req_Method req = MethodJoin"
        with 2(1) have "fn = handler (wi_runs W) (serve_Join ?J)" by (simp add: server_of_def rpc_server_methods)
        with 2(2) log show ?thesis by (auto simp: handler_def serve_Join_def)
      next
        assume m: "req_Method req = MethodEnroll"
        with 2(1) have f: "fn = handler (wi_runs W) (serve_Enroll ?D ?J)" by (simp add: server_of_def rpc_server_methods)
        have "tokenless ?D ?J (cs_cfg (d_cfg (sg_daemon s))) (req_Params req)" using strange(2) fr m by (simp add: bears_token_def)
        moreover obtain q2 d2 e2 where er: "serve_Enroll ?D ?J (wi_runs W (sg_turn s)) (req_Params req) (sg_daemon s) = (q2, d2, e2)"
          by (metis prod_cases3)
        ultimately have "e2 = []" using stranger_enroll by blast
        with 2(2) log f er show ?thesis by (auto simp: handler_def)
      qed
    qed
    with handler_effects [OF run _ bd(2)] log show ?thesis by (cases "cn_trusted cn \<or> bears_token W r s") auto
  qed auto
qed

lemma step_effects:
  "\<exists>eff. sg_log (ps_serving (proc_step W op p)) = sg_log (ps_serving p) @ eff \<and>
     (\<forall>e \<in> set eff.
        (masterly (d_quorum (daemon_of p)) e \<or> (\<exists>n. e = Observed n) \<and> ((\<exists>c r. op = Framed c r) \<or> (\<exists>mu rpc t k res. op = Answered mu rpc t k res)) \<or>
           (\<exists>co req sent. op = Commanded co req \<and> cr_Method req \<in> {CtrlAlertTest, CtrlCheckTest} \<and> e = Alerted sent)) \<and>
        (\<forall>c r. op = Framed c r \<longrightarrow> (\<exists>cn. ps_conns p c = Some cn \<and> (cn_trusted cn \<or> bears_token W r (ps_serving p)))))"
proof (cases op)
  case (Framed c r)
  show ?thesis
  proof (cases "ps_conns p c")
    case (Some cn)
    obtain cn' ms s' where turn: "conn_turn W r cn (ps_serving p) = (cn', ms, s')" by (metis prod_cases3)
    from turn_effects [OF turn] Some turn show ?thesis by (auto simp: Framed)
  qed (simp add: Framed)
next
  case (Commanded co req)
  obtain resp d' eff where run: "dispatch (wi_env W) (wi_token W) (wi_control W) co req (daemon_of p) = (resp, d', eff)" by (metis prod_cases3)
  with dispatch_effects [OF run] show ?thesis by (auto simp: Commanded)
next
  case (Probed E r)
  then show ?thesis
    by (auto simp: sink_Submit_def intro: masterly_alerted [OF aggregate_sent] split: prod.split route.split)
next
  case (Polled mu raw written)
  have "checkManualEdit (wi_env W) mu bytes written d = (res, d', out) \<Longrightarrow> e \<in> set (sent_effect out) \<Longrightarrow> masterly (d_quorum d) e" for bytes d res d' out e
    by (auto simp: checkManualEdit_def Let_def sent_effect_def masterly_def dest: mutate_out split: sum.splits if_splits prod.splits)
  then show ?thesis by (auto simp: Polled split: prod.split)
qed (auto split: prod.split option.split)

section \<open>Properties\<close>

text \<open>C5. Only the master speaks, and to nobody's order but the operator's, its own probes', and admitted nodes'. Whatever an
  operation of a daemon sends, in any state: a snapshot is broadcast only while it is master, an alert message goes out
  only while it is master or for one of the two test commands; and when a request on a connection is the cause
  (of these or of a pull), the connection is trusted or the request carries an outstanding token with its secret.\<close>

theorem only_master_speaks:
  assumes "e \<in> set (proc_sent W op p)"
  shows "(case e of
       Sent out \<Rightarrow> IsMaster (d_quorum (daemon_of p))
     | Alerted sent \<Rightarrow> sent = [] \<or> IsMaster (d_quorum (daemon_of p)) \<or>
         (\<exists>co req. op = Commanded co req \<and> (cr_Method req = CtrlAlertTest \<or> cr_Method req = CtrlCheckTest))
     | Observed n \<Rightarrow> (\<exists>c r. op = Framed c r) \<or> (\<exists>mu rpc t k res. op = Answered mu rpc t k res)) \<and>
     (\<forall>c r. op = Framed c r \<longrightarrow> (\<exists>cn. ps_conns p c = Some cn \<and> (cn_trusted cn \<or> bears_token W r (ps_serving p))))"
proof -
  obtain eff where log: "sg_log (ps_serving (proc_step W op p)) = sg_log (ps_serving p) @ eff"
    and eff: "\<forall>e \<in> set eff.
        (masterly (d_quorum (daemon_of p)) e \<or> (\<exists>n. e = Observed n) \<and> ((\<exists>c r. op = Framed c r) \<or> (\<exists>mu rpc t k res. op = Answered mu rpc t k res)) \<or>
           (\<exists>co req sent. op = Commanded co req \<and> cr_Method req \<in> {CtrlAlertTest, CtrlCheckTest} \<and> e = Alerted sent)) \<and>
        (\<forall>c r. op = Framed c r \<longrightarrow> (\<exists>cn. ps_conns p c = Some cn \<and> (cn_trusted cn \<or> bears_token W r (ps_serving p))))"
    using step_effects [of W op p] by (elim exE conjE) (rule that)
  have "e \<in> set eff" using assms by (simp add: proc_sent_def log)
  note f = bspec [OF eff this]
  have e: "masterly (d_quorum (daemon_of p)) e \<or> (\<exists>n. e = Observed n) \<and> ((\<exists>c r. op = Framed c r) \<or> (\<exists>mu rpc t k res. op = Answered mu rpc t k res)) \<or>
           (\<exists>co req sent. op = Commanded co req \<and> cr_Method req \<in> {CtrlAlertTest, CtrlCheckTest} \<and> e = Alerted sent)"
    and cn: "\<forall>c r. op = Framed c r \<longrightarrow> (\<exists>cn. ps_conns p c = Some cn \<and> (cn_trusted cn \<or> bears_token W r (ps_serving p)))"
    by (rule conjunct1 [OF f], rule conjunct2 [OF f])
  show ?thesis
  proof (rule conjI [OF _ cn])
    show "case e of
       Sent out \<Rightarrow> IsMaster (d_quorum (daemon_of p))
     | Alerted sent \<Rightarrow> sent = [] \<or> IsMaster (d_quorum (daemon_of p)) \<or>
         (\<exists>co req. op = Commanded co req \<and> (cr_Method req = CtrlAlertTest \<or> cr_Method req = CtrlCheckTest))
     | Observed n \<Rightarrow> (\<exists>c r. op = Framed c r) \<or> (\<exists>mu rpc t k res. op = Answered mu rpc t k res)"
      using e by (cases e) (simp_all add: masterly_def)
  qed
qed

definition speak_wiring :: "token_json \<Rightarrow> (nat \<Rightarrow> handler_env) \<Rightarrow> wiring" where
  "speak_wiring T H = (proc_wiring T H)\<lparr>wi_env := rem_denv\<rparr>"

text \<open>The eviction of \<open>b\<close> by the master \<open>a\<close> is broadcast.\<close>

lemma speak_sent:
  "\<exists>out. Sent out \<in> set (proc_sent (speak_wiring T H) (Commanded (rem_env co) \<lparr>cr_Method = CtrlNodeRemove, cr_Body = ''b''\<rparr>) (boot rem_daemon))"
proof -
  obtain resp d' eff where run: "dispatch rem_denv T list_json (rem_env co) \<lparr>cr_Method = CtrlNodeRemove, cr_Body = ''b''\<rparr> rem_daemon = (resp, d', eff)"
    and ne: "cp_Body resp \<noteq> []" using rem_run by blast
  then have rem: "ctrl_node_remove rem_denv list_json (rem_env co) ''b'' rem_daemon = (resp, d', eff)"
    by (simp add: dispatch_def tag_defs with_body_def list_json_def)
  then obtain v d1 out r t where mut: "daemon_mutate rem_denv (co_mut (rem_env co)) MutationRemovePeer (jm_Target (dv_enc rem_denv) ''b'') rem_daemon = (Inr v, d1, out)"
    and "trust_Remove (dv_tyaml rem_denv) (dv_os rem_denv) (dv_ord rem_denv) (co_trust (rem_env co)) ''b'' (d_trust d1) = (r, t)"
    by (rule node_remove_ok [OF _ ne])
  then have eff: "eff = sent_effect out" using rem by (auto simp: ctrl_node_remove_def split: prod.splits sum.splits option.splits)
  have wf: "cfg_wf (cs_cfg (d_cfg rem_daemon))" by (simp add: cfg_wf_def demo_members_def demo_cluster_def demo_peer_def zero_ClusterConfig_def)
  have "row_get pi_NodeID ''c'' (cc_Peers (cs_cfg (d_cfg d1))) = row_get pi_NodeID ''c'' (cc_Peers (cs_cfg (d_cfg rem_daemon)))"
    using remove_peer_config [OF mut rem_daemon_simps(1) wf, of "''c''"] by simp
  also have "\<dots> = Some (demo_peer ''c'')" by (simp add: row_get_def demo_members_def demo_cluster_def demo_peer_def)
  finally have "demo_peer ''c'' \<in> set (cc_Peers (cs_cfg (d_cfg d1)))" by (auto simp: row_get_def dest: find_Some_iff_first)
  moreover have "out = broadcast ''a'' (d_cfg d1)"
    using daemon_mutate_master [OF mut rem_daemon_simps(1)] by (auto simp: rem_daemon_def)
  ultimately have "out \<noteq> []" by (force simp: broadcast_def Let_def filter_empty_conv demo_peer_def)
  then have "Sent out \<in> set eff" by (simp add: eff sent_effect_def)
  moreover have "proc_sent (speak_wiring T H) (Commanded (rem_env co) \<lparr>cr_Method = CtrlNodeRemove, cr_Body = ''b''\<rparr>) (boot rem_daemon) = eff"
    using run by (simp add: proc_sent_def speak_wiring_def proc_wiring_def boot_def)
  ultimately show ?thesis by blast
qed

theorem only_master_speaks_witness:
  "\<forall>T H co. \<exists>out. Sent out \<in> set (proc_sent (speak_wiring T H) (Commanded (rem_env co) \<lparr>cr_Method = CtrlNodeRemove, cr_Body = ''b''\<rparr>) (boot rem_daemon)) \<and>
     IsMaster (d_quorum (daemon_of (boot rem_daemon)))"
proof (intro allI)
  fix T H co
  obtain out where "Sent out \<in> set (proc_sent (speak_wiring T H) (Commanded (rem_env co) \<lparr>cr_Method = CtrlNodeRemove, cr_Body = ''b''\<rparr>) (boot rem_daemon))"
    using speak_sent by blast
  with only_master_speaks [OF this] show "\<exists>out. Sent out \<in> set (proc_sent (speak_wiring T H) (Commanded (rem_env co) \<lparr>cr_Method = CtrlNodeRemove, cr_Body = ''b''\<rparr>) (boot rem_daemon)) \<and>
     IsMaster (d_quorum (daemon_of (boot rem_daemon)))" by (auto simp del: boot_simps)
qed
end
