(* ===== verification/Restart.thy ===== *)
theory Restart
  imports Process
begin

text \<open>
  Stopping and starting again. \<open>daemon_invariant\<close> is the induction principle for daemons: what survives the
  primitive changes the code makes (a configuration edited and perhaps written, a trust entry added or removed,
  the quorum manager and the aggregator replaced, \<open>cluster.yaml\<close> saved by an operator) survives every operation of the process (\<open>Process\<close>).
  It is used for the data directory: whatever happened, writes that failed half-way included, \<open>New\<close>
  (\<open>internal/daemon/daemon.go\<close>) starts again on the files that are there, unless an operator left a
  \<open>cluster.yaml\<close> that cannot be parsed.
\<close>

section \<open>Invariants of a daemon\<close>

locale daemon_invariant =
  fixes D :: daemon_env and Es :: "fs_file option set" and I :: "daemon \<Rightarrow> bool"
  assumes I_cfg: "I d \<Longrightarrow> cfg_write D (d_cfg d) s \<Longrightarrow> I (d\<lparr>d_cfg := s\<rparr>)"
    and I_trust: "I d \<Longrightarrow> I (d\<lparr>d_trust := snd (trust_Add (dv_tyaml D) (dv_os D) (dv_ord D) ce x (d_trust d))\<rparr>)"
    and I_untrust: "I d \<Longrightarrow> trust_Remove (dv_tyaml D) (dv_os D) (dv_ord D) w k (d_trust d) = (r, t) \<Longrightarrow> I (d\<lparr>d_trust := t\<rparr>)"
    and I_quorum: "I d \<Longrightarrow> I (d\<lparr>d_quorum := m\<rparr>)"
    and I_agg: "I d \<Longrightarrow> I (d\<lparr>d_agg := a\<rparr>)"
    and I_edit: "I d \<Longrightarrow> f \<in> Es \<Longrightarrow> I (hand_edit D f d)"
begin

lemma sync_peers_inv: "I d \<Longrightarrow> I (d\<lparr>d_trust := sync_peers D self tce n ps (d_trust d)\<rparr>)"
proof (induction ps arbitrary: d n)
  case (Cons p ps)
  have "I (d\<lparr>d_trust := sync_peer D self (tce n) p (d_trust d)\<rparr>)"
    using Cons.prems I_trust by (simp add: sync_peer_def)
  from Cons.IH [OF this] show ?case by simp
qed simp

lemma callbacks_inv: "I d \<Longrightarrow> I (run_callbacks D tce cbs d)"
  unfolding run_callbacks_def by (induction cbs arbitrary: d) (simp_all add: syncTrustFromCluster_def sync_peers_inv)

lemma follows_inv: "I d \<Longrightarrow> follows D d d' \<Longrightarrow> I d'"
  by (auto simp: follows_def intro: callbacks_inv I_cfg)

lemma mutate_inv: "I d \<Longrightarrow> daemon_mutate D mu kind m d = (r, d', out) \<Longrightarrow> I d'"
  by (rule follows_inv [OF _ daemon_mutate_follows])

lemma aggregate_inv: "I d \<Longrightarrow> aggregate E i r d = (sent, d') \<Longrightarrow> I d'"
  using aggregate_frame(1) [of E i r d sent d'] I_agg [of d "d_agg d'"] by metis

lemma enroll_inv: "I d \<Longrightarrow> handleEnroll D E req d = (resp, d', out) \<Longrightarrow> I d'"
  by (auto simp: handleEnroll_def record_join_def approve_join_def trust_joiner_def Let_def dest!: mutate_inv [rotated] intro!: I_trust
      split: sum.splits prod.splits if_splits)

lemma untrust_inv: "I d \<Longrightarrow> daemon_mutate D mu kind m d = (r, d1, out) \<Longrightarrow>
    trust_Remove (dv_tyaml D) (dv_os D) (dv_ord D) w k (d_trust d1) = (q, t) \<Longrightarrow> I (d1\<lparr>d_trust := t\<rparr>)"
  by (rule I_untrust [OF mutate_inv])

lemma dispatch_inv: "I d \<Longrightarrow> dispatch D T J co req d = (resp, d', eff) \<Longrightarrow> I d'"
proof -
  assume I: "I d"
  note rules = mutate_inv [OF I] untrust_inv [OF I] I_untrust [OF I]
  have "ctrl_node_remove D J co i d = (resp, d', eff) \<Longrightarrow> I d'" for i
    by (auto simp: ctrl_node_remove_def dest: rules split: prod.splits sum.splits option.splits)
  moreover have "ctrl_trust_remove D J co i d = (resp, d', eff) \<Longrightarrow> I d'" for i
    by (auto simp: ctrl_trust_remove_def dest: rules split: prod.splits option.splits)
  moreover have "ctrl_mutation D J co kind m d = (resp, d', eff) \<Longrightarrow> I d'" for kind m
    by (auto simp: ctrl_mutation_def dest: rules split: prod.splits sum.splits)
  moreover have "ctrl_enroll_create D T J co body d = (resp, d', eff) \<Longrightarrow> I d'" for body
    using I by (auto simp: ctrl_enroll_create_def enrollCreate_def Let_def dest: rules split: prod.splits sum.splits if_splits)
  moreover have "ctrl_alert_test J co i d = (resp, d', eff) \<Longrightarrow> I d'" for i
    using I by (auto simp: ctrl_alert_test_def split: prod.splits option.splits)
  moreover have "ctrl_check_test J co body d = (resp, d', eff) \<Longrightarrow> I d'" for body
    using I by (auto simp: ctrl_check_test_def split: prod.splits option.splits)
  ultimately show "dispatch D T J co req d = (resp, d', eff) \<Longrightarrow> I d'"
    using I by (auto simp: dispatch_def Let_def with_body_def split: if_splits sum.splits)
qed

lemma daemon_step_inv:
  assumes "wi_env W = D" and I: "I d" and "daemon_step W op d = (d', eff)" and edits: "\<And>f. op = Edited f \<Longrightarrow> f \<in> Es"
  shows "I d'"
proof (cases op)
  case (Probed E r)
  with assms show ?thesis by (auto simp: sink_Submit_def dest: aggregate_inv [OF I] split: prod.splits route.splits)
next
  case (Answered mu rpc t p res)
  with assms(3) show ?thesis
    by (auto simp: daemon_heard_def assms(1) intro: follows_inv [OF I_quorum [OF I] observed_follows] split: prod.splits)
next
  case (Edited f)
  with assms(1,3) I_edit [OF I edits [OF Edited]] show ?thesis by auto
qed (use assms(2,3) in \<open>auto simp: assms(1) split: prod.splits dest: dispatch_inv [OF I] manual_edit_follows
      intro: I_quorum follows_inv [OF I]\<close>)

lemma handler_inv:
  assumes I: "I d" and run: "body h raw d = (r, d', eff)"
    and body: "body \<in> {serve_Ping J, serve_WhoAmI D J, serve_Join J, serve_Enroll D J, serve_Heartbeat D J,
       serve_GetClusterCfg J, serve_ApplyClusterCfg D J, serve_ProposeMutation D J, serve_ReportResult J, serve_Status J}"
  shows "I d'"
proof -
  have "serve_Heartbeat D J h raw d = (r, d', eff) \<Longrightarrow> I d'"
    using I by (auto simp: serve_Heartbeat_def daemon_heartbeat_def split: sum.splits prod.splits
        intro!: I_quorum follows_inv [OF I observed_follows])
  moreover have "serve_ApplyClusterCfg D J h raw d = (r, d', eff) \<Longrightarrow> I d'"
    using I by (auto simp: serve_ApplyClusterCfg_def dest: daemon_apply_follows intro: follows_inv [OF I] split: sum.splits prod.splits)
  moreover have "serve_ProposeMutation D J h raw d = (r, d', eff) \<Longrightarrow> I d'"
    using I by (auto simp: serve_ProposeMutation_def dest: daemon_propose_follows intro: follows_inv [OF I] split: sum.splits prod.splits)
  moreover have "serve_ReportResult J h raw d = (r, d', eff) \<Longrightarrow> I d'"
    using I by (auto simp: serve_ReportResult_def handle_report_def dest: aggregate_inv [OF I] split: sum.splits prod.splits)
  moreover have "serve_Enroll D J h raw d = (r, d', eff) \<Longrightarrow> I d'"
    using I by (auto simp: serve_Enroll_def dest: enroll_inv [OF I] split: sum.splits prod.splits)
  ultimately show ?thesis
    using run body I by (auto simp: serve_Ping_def serve_WhoAmI_def serve_Join_def serve_GetClusterCfg_def serve_Status_def split: sum.splits)
qed

lemma turn_inv:
  assumes W: "wi_env W = D" and I: "I (sg_daemon s)" and turn: "conn_turn W r cn s = (cn', ms, s')"
  shows "I (sg_daemon s')"
proof (cases "\<exists>body req. rd_frame r = Inr body \<and> wi_decode W body = Inr req")
  case False
  with turn I show ?thesis by (auto simp: conn_turn_def split: sum.splits)
next
  case True
  then obtain body req resp call continue trusted' where
    q: "serve_request (server_of W) (dv_ord D) (cn_peerID cn) (cn_peerFP cn) (cn_trusted cn) (rd_write_ok r) req s = (resp, call, continue, trusted', s')"
    using turn by (auto simp: conn_turn_def W split: prod.splits)
  from serve_request_state [OF q] consider "s' = s"
    | fn res where "sv_handlers (server_of W) (req_Method req) = Some fn" "fn (cn_peerID cn) (req_Params req) s = (res, s')" by blast
  then show ?thesis
  proof cases
    case 2
    from 2(1) obtain bd where bd: "fn = handler (wi_runs W) bd" "bd \<in> {serve_Ping (wi_rpc W), serve_WhoAmI D (wi_rpc W), serve_Join (wi_rpc W),
        serve_Enroll D (wi_rpc W), serve_Heartbeat D (wi_rpc W), serve_GetClusterCfg (wi_rpc W), serve_ApplyClusterCfg D (wi_rpc W),
        serve_ProposeMutation D (wi_rpc W), serve_ReportResult (wi_rpc W), serve_Status (wi_rpc W)}"
      unfolding server_of_def W by (elim rpc_server_cases) blast
    obtain d' eff where "bd (wi_runs W (sg_turn s)) (req_Params req) (sg_daemon s) = (res, d', eff)" "sg_daemon s' = d'"
      using 2(2) by (auto simp: bd(1) handler_def split: prod.splits)
    with handler_inv [OF I _ bd(2)] show ?thesis by blast
  qed (use I in simp)
qed

lemma step_inv:
  assumes W: "wi_env W = D" and I: "I (daemon_of p)" and edits: "\<And>f. op = Edited f \<Longrightarrow> f \<in> Es"
  shows "I (daemon_of (proc_step W op p))"
proof (cases op)
  case (Framed c r)
  with I turn_inv [OF W I] show ?thesis by (auto split: option.split prod.split)
qed (use I daemon_step_inv [OF W I _ edits] in \<open>auto split: prod.split simp del: daemon_step.simps\<close>)

lemma run_inv: "wi_env W = D \<Longrightarrow> I (daemon_of p) \<Longrightarrow> (\<And>f. Edited f \<in> set ops \<Longrightarrow> f \<in> Es) \<Longrightarrow> I (daemon_of (proc_run W ops p))"
  by (induction ops arbitrary: p) (simp_all add: step_inv)

end

section \<open>The data directory\<close>

text \<open>The two stores of the model carry the part of the file system they write; together they are the data
  directory.\<close>

definition data_dir :: "os_env \<Rightarrow> daemon \<Rightarrow> fs" where
  "data_dir e d = (\<lambda>path. if path = TrustFilePath e then ts_fs (d_trust d) path else cs_fs (d_cfg d) path)"

text \<open>Against the files \<open>f0\<close> at the start: \<open>node.yaml\<close> is as it was, \<open>cluster.yaml\<close> and \<open>trust.yaml\<close> are
  what they were or the complete coding of some configuration and some list of entries; and \<open>cluster.yaml\<close>
  may also be what an operator saved, one of \<open>Es\<close>.\<close>

definition intact :: "daemon_env \<Rightarrow> fs \<Rightarrow> fs_file option set \<Rightarrow> daemon \<Rightarrow> bool" where
  "intact D f0 Es d \<longleftrightarrow>
     cs_fs (d_cfg d) (NodeFilePath (dv_os D)) = f0 (NodeFilePath (dv_os D)) \<and>
     (cs_fs (d_cfg d) (ClusterFilePath (dv_os D)) = f0 (ClusterFilePath (dv_os D)) \<or>
      cs_fs (d_cfg d) (ClusterFilePath (dv_os D)) \<in> Es \<or>
      (\<exists>c raw. cs_fs (d_cfg d) (ClusterFilePath (dv_os D)) = Some raw \<and> yaml_Marshal (dv_yaml D) c = Inr (f_data raw))) \<and>
     (ts_fs (d_trust d) (TrustFilePath (dv_os D)) = f0 (TrustFilePath (dv_os D)) \<or>
      (\<exists>es raw. ts_fs (d_trust d) (TrustFilePath (dv_os D)) = Some raw \<and> tyaml_Marshal (dv_tyaml D) es = Inr (f_data raw)))"

lemma AtomicWrite_target:
  "AtomicWrite w path out perm f = (r, f') \<Longrightarrow> f' path = f path \<or> f' path = Some \<lparr>f_data = out, f_perm = perm\<rparr>"
  by (cases r) (auto dest: AtomicWrite_ok AtomicWrite_err_target)

lemma AtomicWrite_elsewhere:
  "AtomicWrite w path out perm f = (r, f') \<Longrightarrow> p \<noteq> path \<Longrightarrow> p \<noteq> tmp_name path w \<Longrightarrow> f' p = f p"
  by (cases r) (auto dest: AtomicWrite_ok AtomicWrite_err)

lemma trust_Save_file:
  "trust_Save L e ord w st = (r, st') \<Longrightarrow>
     ts_fs st' (TrustFilePath e) = ts_fs st (TrustFilePath e) \<or>
     (\<exists>es raw. ts_fs st' (TrustFilePath e) = Some raw \<and> tyaml_Marshal L es = Inr (f_data raw))"
  by (auto simp: trust_Save_def dest!: AtomicWrite_target split: sum.splits prod.splits)

lemma trust_Add_file:
  "ts_fs (snd (trust_Add L e ord ce x st)) (TrustFilePath e) = ts_fs st (TrustFilePath e) \<or>
     (\<exists>es raw. ts_fs (snd (trust_Add L e ord ce x st)) (TrustFilePath e) = Some raw \<and> tyaml_Marshal L es = Inr (f_data raw))"
  using trust_Save_file [of L e ord "ce_write ce" "st\<lparr>ts_entries := trust_put (if te_AddedAt x = 0 then x\<lparr>te_AddedAt := ce_now ce\<rparr> else x) (ts_entries st)\<rparr>"]
  by (cases "trust_Save L e ord (ce_write ce) (st\<lparr>ts_entries := trust_put (if te_AddedAt x = 0 then x\<lparr>te_AddedAt := ce_now ce\<rparr> else x) (ts_entries st)\<rparr>)")
    (simp add: trust_Add_def Let_def)

lemma trust_Remove_file:
  "trust_Remove L e ord w k st = (r, st') \<Longrightarrow>
     ts_fs st' (TrustFilePath e) = ts_fs st (TrustFilePath e) \<or>
     (\<exists>es raw. ts_fs st' (TrustFilePath e) = Some raw \<and> tyaml_Marshal L es = Inr (f_data raw))"
  by (auto simp: trust_Remove_def dest: trust_Save_file split: option.splits prod.splits)

lemma cfg_write_files:
  assumes "cfg_write D s s'"
  shows "cs_fs s' (NodeFilePath (dv_os D)) = cs_fs s (NodeFilePath (dv_os D))"
    and "cs_fs s' (ClusterFilePath (dv_os D)) = cs_fs s (ClusterFilePath (dv_os D)) \<or>
      (\<exists>c raw. cs_fs s' (ClusterFilePath (dv_os D)) = Some raw \<and> yaml_Marshal (dv_yaml D) c = Inr (f_data raw))"
  using assms data_files_distinct(5,6) [of "dv_os D"]
  by (auto simp: cfg_write_def dest: AtomicWrite_elsewhere AtomicWrite_target)

interpretation dir: daemon_invariant D Es "intact D f0 Es" for D f0 Es
proof (unfold_locales, goal_cases)
  case (1 d s)
  with cfg_write_files [OF 1(2)] show ?case by (auto simp: intact_def)
next
  case (2 d ce x)
  with trust_Add_file [of "dv_tyaml D" "dv_os D" "dv_ord D" ce x "d_trust d"] show ?case by (auto simp: intact_def)
next
  case (3 d w k r t)
  with trust_Remove_file [OF 3(2)] show ?case by (auto simp: intact_def)
next
  case (6 d f)
  then show ?case using data_files_distinct(5,6) [of "dv_os D"] by (auto simp: intact_def)
qed (simp_all add: intact_def)

section \<open>Starting again\<close>

lemma layered_again: "layered v (layered v x []) [] = layered v x []"
  by (simp add: layered_def)

text \<open>The node file, as it was or as \<open>New\<close> rewrote it without the old secret, loads as the same node.\<close>

lemma saved_node_loads:
  assumes load: "LoadNodeConfig N e err f = Inr n"
    and disk: "f' (NodeFilePath e) = Some raw" "nyaml_Unmarshal N (f_data raw) = Inr (n\<lparr>nc_ClusterSecret := []\<rparr>)"
  shows "LoadNodeConfig N e None f' = Inr (n\<lparr>nc_ClusterSecret := []\<rparr>)"
proof -
  let ?v = "Getenv e ''QUPTIME_BIND_PORT''" and ?n = "n\<lparr>nc_ClusterSecret := []\<rparr>"
  obtain c m where env: "ApplyEnvOverrides e c = (None, m)"
    and n: "n = (let c = (if nc_BindPort m = 0 then m\<lparr>nc_BindPort := 9901\<rparr> else m)
                 in if nc_BindAddr c = [] then c\<lparr>nc_BindAddr := ''0.0.0.0''\<rparr> else c)"
    using load by (auto simp: LoadNodeConfig_def Let_def split: option.splits sum.splits prod.splits)
  have ne: "nc_BindPort n \<noteq> 0" "nc_BindAddr n \<noteq> []" by (simp_all add: n Let_def)
  have fields: "nc_NodeID n = nc_NodeID m" "nc_Advertise n = nc_Advertise m" "nc_BindPort n = (if nc_BindPort m = 0 then 9901 else nc_BindPort m)"
    "nc_BindAddr n = (if nc_BindAddr m = [] then ''0.0.0.0'' else nc_BindAddr m)" by (simp_all add: n Let_def)
  have m: "nc_NodeID m = layered (Getenv e ''QUPTIME_NODE_ID'') (nc_NodeID c) []"
    "nc_BindAddr m = layered (Getenv e ''QUPTIME_BIND_ADDR'') (nc_BindAddr c) []"
    "nc_Advertise m = layered (Getenv e ''QUPTIME_ADVERTISE'') (nc_Advertise c) []" "?v \<noteq> [] \<Longrightarrow> Atoi ?v = Some (nc_BindPort m)"
    using env by (auto simp: ApplyEnvOverrides_eq Let_def split: if_splits option.splits)
  have addr: "layered (Getenv e ''QUPTIME_BIND_ADDR'') (nc_BindAddr n) [] = nc_BindAddr n"
    unfolding fields m by (simp add: layered_def)
  have "\<exists>k. ApplyEnvOverrides e ?n = (None, k) \<and> k = ?n\<lparr>nc_BindPort := if ?v = [] then nc_BindPort n else nc_BindPort m\<rparr>"
    using m(4) addr by (auto simp: ApplyEnvOverrides_eq Let_def fields(1,2) m(1,3) layered_again intro!: NodeConfig.equality split: option.split)
  then have "LoadNodeConfig N e None f' = Inr (let c = ?n\<lparr>nc_BindPort := if ?v = [] then nc_BindPort n else nc_BindPort m\<rparr>
      in if nc_BindPort c = 0 then c\<lparr>nc_BindPort := 9901\<rparr> else c)"
    using ne(2) by (auto simp: LoadNodeConfig_def disk Let_def)
  then show ?thesis using ne(1) fields(3) by (auto simp: Let_def intro!: NodeConfig.equality split: if_splits)
qed

lemma New_node_again:
  assumes nyaml: "\<And>c out. nyaml_Marshal N c = Inr out \<Longrightarrow> nyaml_Unmarshal N out = Inr c"
    and new: "New_node N e sx = Inr (node, f)" and sx': "sx_node_err sx' = None" "sx_fs sx' (NodeFilePath e) = f (NodeFilePath e)"
  shows "New_node N e sx' = Inr (node, sx_fs sx')"
proof -
  obtain n where load: "LoadNodeConfig N e (sx_node_err sx) (sx_fs sx) = Inr n" and ident: "nc_NodeID n \<noteq> []"
    using new by (auto simp: New_node_def split: sum.splits if_splits)
  have again: "LoadNodeConfig N e None (sx_fs sx') = Inr node \<and> nc_NodeID node \<noteq> [] \<and> nc_ClusterSecret node = []"
  proof (cases "nc_ClusterSecret n = []")
    case True
    then have "node = n" "f = sx_fs sx" using new load ident by (auto simp: New_node_def)
    moreover have "sx_node_err sx = None" using load by (auto simp: LoadNodeConfig_def split: option.splits)
    ultimately show ?thesis using load sx' ident True by (simp add: LoadNodeConfig_def)
  next
    case False
    then have save: "NodeConfig_Save N e (sx_node_write sx) (n\<lparr>nc_ClusterSecret := []\<rparr>) (sx_fs sx) = (None, f)"
      and node: "node = n\<lparr>nc_ClusterSecret := []\<rparr>"
      using new load ident by (auto simp: New_node_def split: prod.splits option.splits)
    obtain out where out: "nyaml_Marshal N (n\<lparr>nc_ClusterSecret := []\<rparr>) = Inr out" "f (NodeFilePath e) = Some \<lparr>f_data = out, f_perm = 384\<rparr>"
      using save by (auto simp: NodeConfig_Save_def dest!: AtomicWrite_ok split: sum.splits)
    with saved_node_loads [OF load, of "sx_fs sx'"] nyaml sx'(2) ident node show ?thesis by simp
  qed
  then show ?thesis using sx'(1) by (simp add: New_node_def)
qed

lemma New_daemon_files:
  assumes "New_daemon D N sx = Inr d"
  obtains f st where "New_node N (dv_os D) sx = Inr (d_node d, f)" and "\<forall>Es. intact D f Es d"
    and "f (ClusterFilePath (dv_os D)) = None \<or> (\<exists>raw c. f (ClusterFilePath (dv_os D)) = Some raw \<and> yaml_Unmarshal (dv_yaml D) (f_data raw) = Inr c)"
    and "f (TrustFilePath (dv_os D)) = None \<or> (\<exists>raw es. f (TrustFilePath (dv_os D)) = Some raw \<and> tyaml_Unmarshal (dv_tyaml D) (f_data raw) = Inr es)"
proof -
  obtain node f cert cluster store where node: "New_node N (dv_os D) sx = Inr (node, f)"
    and c: "LoadClusterConfig (dv_yaml D) (dv_os D) (sx_cluster_err sx) f = Inr cluster"
    and t: "trust_Load (dv_tyaml D) (dv_os D) (sx_trust_err sx) f = Inr store"
    and d: "d = New_assemble D (sx_trust sx) node cert cluster store"
    using assms by (auto simp: New_daemon_def split: sum.splits prod.splits option.splits)
  let ?d = "\<lparr>d_node = node, d_cert = cert, d_cfg = OnChange 0 cluster, d_trust = store,
        d_quorum = SetVersionObserver (SetSelfAdvertise (AdvertiseAddr node) (New_Manager (nc_NodeID node))),
        d_agg = SetTransition True (NewAggregator False)\<rparr>"
  have "cs_fs cluster = f" "ts_fs store = f"
    using c t by (auto simp: LoadClusterConfig_def trust_Load_def split: option.splits sum.splits)
  then have "intact D f Es ?d" for Es by (simp add: intact_def OnChange_def)
  from dir.sync_peers_inv [OF this] have "intact D f Es d" for Es by (simp add: d New_assemble_def syncTrustFromCluster_def)
  moreover have "d_node d = node" by (simp add: d New_assemble_def syncTrust_frame)
  ultimately show ?thesis
    using that [of f] node c t by (auto simp: LoadClusterConfig_def trust_Load_def split: option.splits sum.splits)
qed

section \<open>Properties\<close>

text \<open>C22. A daemon that ran once starts again. Whatever operations a daemon went through, in whatever order, with
  writes failing at any point and hand edits of \<open>cluster.yaml\<close> among them, \<open>New\<close> on the data directory as it is then
  (its key and certificate still readable) succeeds with the same identity, unless \<open>cluster.yaml\<close> is a text that an
  operator saved in the course of the run and that does not parse: by its own writes the daemon never leaves a torn or
  undecodable file. The configuration of the new process is what the file says: the old one when its last
  change reached the disk and nobody has edited the file since.\<close>

theorem restart_after_any_run:
  assumes nyaml: "\<And>c out. nyaml_Marshal N c = Inr out \<Longrightarrow> nyaml_Unmarshal N out = Inr c"
    and yaml: "\<And>c out. yaml_Marshal (dv_yaml (wi_env W)) c = Inr out \<Longrightarrow> yaml_Unmarshal (dv_yaml (wi_env W)) out = Inr c"
    and tyaml: "\<And>es out. tyaml_Marshal (dv_tyaml (wi_env W)) es = Inr out \<Longrightarrow> tyaml_Unmarshal (dv_tyaml (wi_env W)) out = Inr es"
    and up: "New_daemon (wi_env W) N sx = Inr d0" and d: "d = daemon_of (proc_run W ops (boot d0))"
    and sx': "sx_fs sx' = data_dir (dv_os (wi_env W)) d" "sx_node_err sx' = None" "sx_cluster_err sx' = None" "sx_trust_err sx' = None"
      "sx_key sx' = None" "sx_cert sx' = Inr (d_cert d0)"
  shows "case New_daemon (wi_env W) N sx' of
      Inr d1 \<Rightarrow> d_node d1 = d_node d0 \<and> d_cert d1 = d_cert d0 \<and>
        (disk_synced (dv_yaml (wi_env W)) (dv_os (wi_env W)) (d_cfg d) \<longrightarrow> cs_cfg (d_cfg d1) = cs_cfg (d_cfg d)) \<and>
        (\<forall>raw. cs_fs (d_cfg d) (ClusterFilePath (dv_os (wi_env W))) = Some raw \<longrightarrow>
           yaml_Unmarshal (dv_yaml (wi_env W)) (f_data raw) = Inr (cs_cfg (d_cfg d1)))
    | Inl err \<Rightarrow> (\<exists>raw e. Edited (Some raw) \<in> set ops \<and> cs_fs (d_cfg d) (ClusterFilePath (dv_os (wi_env W))) = Some raw \<and>
        yaml_Unmarshal (dv_yaml (wi_env W)) (f_data raw) = Inl e)"
proof -
  let ?D = "wi_env W" and ?e = "dv_os (wi_env W)" and ?Es = "{f. Edited f \<in> set ops}"
  obtain f where node: "New_node N ?e sx = Inr (d_node d0, f)" and ok0: "\<forall>Es. intact ?D f Es d0"
    and f: "f (ClusterFilePath ?e) = None \<or> (\<exists>raw c. f (ClusterFilePath ?e) = Some raw \<and> yaml_Unmarshal (dv_yaml ?D) (f_data raw) = Inr c)"
      "f (TrustFilePath ?e) = None \<or> (\<exists>raw es. f (TrustFilePath ?e) = Some raw \<and> tyaml_Unmarshal (dv_tyaml ?D) (f_data raw) = Inr es)"
    by (rule New_daemon_files [OF up])
  have "intact ?D f ?Es (daemon_of (boot d0))" using ok0 by simp
  from dir.run_inv [OF refl this, of ops] have ok: "intact ?D f ?Es d" by (simp add: d)
  have paths: "NodeFilePath ?e \<noteq> TrustFilePath ?e" "ClusterFilePath ?e \<noteq> TrustFilePath ?e" by (simp_all add: data_file_prefix)
  have dir: "sx_fs sx' (NodeFilePath ?e) = f (NodeFilePath ?e)" "sx_fs sx' (ClusterFilePath ?e) = cs_fs (d_cfg d) (ClusterFilePath ?e)"
    "sx_fs sx' (TrustFilePath ?e) = ts_fs (d_trust d) (TrustFilePath ?e)"
    using ok paths by (simp_all add: sx'(1) data_dir_def intact_def)
  have again: "New_node N ?e sx' = Inr (d_node d0, sx_fs sx')" by (rule New_node_again [OF nyaml node sx'(2) dir(1)])
  have "sx_fs sx' (TrustFilePath ?e) = None \<or>
      (\<exists>raw es. sx_fs sx' (TrustFilePath ?e) = Some raw \<and> tyaml_Unmarshal (dv_tyaml ?D) (f_data raw) = Inr es)"
    using ok f(2) tyaml unfolding dir by (fastforce simp: intact_def)
  then obtain store where t: "trust_Load (dv_tyaml ?D) ?e None (sx_fs sx') = Inr store"
    by (auto simp: trust_Load_def)
  have cluster: "sx_fs sx' (ClusterFilePath ?e) = None \<or> (\<exists>raw c. sx_fs sx' (ClusterFilePath ?e) = Some raw \<and> yaml_Unmarshal (dv_yaml ?D) (f_data raw) = Inr c) \<or>
      Edited (sx_fs sx' (ClusterFilePath ?e)) \<in> set ops"
    using ok f(1) yaml unfolding dir by (fastforce simp: intact_def)
  show ?thesis
  proof (cases "LoadClusterConfig (dv_yaml ?D) ?e None (sx_fs sx')")
    case (Inl x)
    then obtain raw e where raw: "sx_fs sx' (ClusterFilePath ?e) = Some raw" "yaml_Unmarshal (dv_yaml ?D) (f_data raw) = Inl e"
      by (auto simp: LoadClusterConfig_def split: option.splits sum.splits)
    have "New_daemon ?D N sx' = Inl (ErrWrap ''load cluster.yaml'' x)" using again Inl by (simp add: New_daemon_def sx'(3))
    moreover have "Edited (Some raw) \<in> set ops" using cluster raw by auto
    moreover have "cs_fs (d_cfg d) (ClusterFilePath ?e) = Some raw" using raw(1) by (simp only: dir(2))
    ultimately show ?thesis using raw(2) by auto
  next
    case (Inr st)
    have "cs_cfg st = cs_cfg (d_cfg d)" if "disk_synced (dv_yaml ?D) ?e (d_cfg d)"
      using that Inr yaml by (auto simp: disk_synced_def LoadClusterConfig_def dir split: option.splits sum.splits)
    moreover have "yaml_Unmarshal (dv_yaml ?D) (f_data raw) = Inr (cs_cfg st)" if "cs_fs (d_cfg d) (ClusterFilePath ?e) = Some raw" for raw
      using that Inr by (auto simp: LoadClusterConfig_def dir split: option.splits sum.splits)
    ultimately show ?thesis
      using again Inr t sx' by (simp add: New_daemon_def New_assemble_def syncTrust_frame OnChange_def)
  qed
qed

text \<open>A hand edit that cannot be replicated, here for want of a quorum, is pinned before the attempt: no later
  poll takes it up. The file stays as it is, and the next start takes it, with whatever version it
  says, as the configuration of this node alone.\<close>

lemma failed_edit_resurfaces:
  assumes parse: "yaml_Unmarshal (dv_yaml D) (f_data raw) = Inr edited" and d: "d = hand_edit D (Some raw) d0"
    and poll: "checkManualEdit D mu (read_cluster D None d) written d = (Some r, d', out)"
    and lost: "\<not> HasQuorum (mu_now mu) (cs_cfg (d_cfg d0)) (d_quorum d0)"
  shows "(\<exists>e. r = Inl e) \<and> cs_cfg (d_cfg d') = cs_cfg (d_cfg d0) \<and> out = [] \<and>
     checkManualEdit D mu2 (read_cluster D None d') written2 d' = (None, d', []) \<and>
     (\<exists>st. LoadClusterConfig (dv_yaml D) (dv_os D) None (cs_fs (d_cfg d')) = Inr st \<and> cs_cfg st = edited)"
proof -
  let ?sum = "sha256 (dv_yaml D) (f_data raw)" and ?pin = "d\<lparr>d_cfg := SetLastSavedSum (sha256 (dv_yaml D) (f_data raw)) (d_cfg d)\<rparr>"
  have read: "read_cluster D None d = Inr (f_data raw)" by (simp add: read_cluster_def d)
  have "\<not> mv_HasQuorum (view (mu_now mu) ?pin)" using lost by (simp add: view_def d SetLastSavedSum_def)
  then have refused: "daemon_mutate D mu kind m ?pin = (Inl (ErrMsg ''no quorum: refusing mutation''), ?pin, [])" for kind m
    by (simp add: daemon_mutate_def LocalMutate_def)
  have "d' = ?pin \<and> (\<exists>e. r = Inl e) \<and> out = []"
    using poll parse refused by (auto simp: checkManualEdit_def read Let_def split: if_splits)
  moreover have "cs_fs (d_cfg ?pin) (ClusterFilePath (dv_os D)) = Some raw" "LastSavedSum (d_cfg ?pin) = ?sum"
    "cs_cfg (d_cfg ?pin) = cs_cfg (d_cfg d0)"
    by (simp_all add: SetLastSavedSum_def LastSavedSum_def d)
  ultimately show ?thesis using parse by (auto simp: checkManualEdit_def read_cluster_def LoadClusterConfig_def)
qed

theorem restart_after_any_run_witness:
  "\<forall>T H. \<exists>d0 d1. New_daemon (wi_env (proc_wiring T H)) demo_node_codec proc_start = Inr d0 \<and>
     New_daemon (wi_env (proc_wiring T H)) demo_node_codec
       (proc_start\<lparr>sx_fs := data_dir demo_env (daemon_of (proc_run (proc_wiring T H) (proc_ops @ [Edited (Some \<lparr>f_data = ''yaml'', f_perm = 420\<rparr>)]) (boot d0)))\<rparr>) = Inr d1 \<and> d_node d1 = d_node d0"
proof (intro allI)
  fix T H
  let ?W = "proc_wiring T H"
  obtain d0 where up: "New_daemon (wi_env ?W) demo_node_codec proc_start = Inr d0" and cert: "d_cert d0 = ''a''"
    using proc_up by (auto simp: proc_wiring_def)
  have D: "dv_yaml (wi_env ?W) = demo_codec proc_cluster" "dv_tyaml (wi_env ?W) = demo_trust_codec" "dv_os (wi_env ?W) = demo_env"
    by (simp_all add: proc_wiring_def demo_denv_def)
  have nyaml: "nyaml_Marshal demo_node_codec c = Inr out \<Longrightarrow> nyaml_Unmarshal demo_node_codec out = Inr c" for c out
    by (auto simp: demo_node_codec_def split: if_splits)
  have yaml: "yaml_Marshal (dv_yaml (wi_env ?W)) c = Inr out \<Longrightarrow> yaml_Unmarshal (dv_yaml (wi_env ?W)) out = Inr c" for c out
    by (auto simp: D demo_codec_def split: if_splits)
  have tyaml: "tyaml_Marshal (dv_tyaml (wi_env ?W)) es = Inr out \<Longrightarrow> tyaml_Unmarshal (dv_tyaml (wi_env ?W)) out = Inr es" for es out
    by (auto simp: D demo_trust_codec_def split: if_splits)
  from restart_after_any_run [of demo_node_codec ?W, OF nyaml yaml tyaml up refl,
      of "proc_start\<lparr>sx_fs := data_dir demo_env (daemon_of (proc_run ?W (proc_ops @ [Edited (Some \<lparr>f_data = ''yaml'', f_perm = 420\<rparr>)]) (boot d0)))\<rparr>" "proc_ops @ [Edited (Some \<lparr>f_data = ''yaml'', f_perm = 420\<rparr>)]"] up cert
  show "\<exists>d0 d1. New_daemon (wi_env ?W) demo_node_codec proc_start = Inr d0 \<and>
     New_daemon (wi_env ?W) demo_node_codec
       (proc_start\<lparr>sx_fs := data_dir demo_env (daemon_of (proc_run ?W (proc_ops @ [Edited (Some \<lparr>f_data = ''yaml'', f_perm = 420\<rparr>)]) (boot d0)))\<rparr>) = Inr d1 \<and> d_node d1 = d_node d0"
    by (auto simp: D proc_start_def demo_codec_def proc_ops_def split: sum.splits)
qed

end
