(* ===== verification/Redeem.thy ===== *)
theory Redeem
  imports Enroll
begin

text \<open>
  \<open>handleEnroll\<close> (\<open>internal/daemon/handlers.go\<close>) as the RPC server runs it: one goroutine per
  connection, and no lock over the whole handler, so other requests may be served between any two of
  its accesses to the shared state. A \<open>stage\<close> is the point a goroutine has reached,
  \<open>enroll_turn\<close> its next access (the check under the read lock, each \<open>Mutate\<close> under the write lock,
  the trust entry, the summary), \<open>enroll_turns\<close> a schedule over any number of requests. A request
  served alone behaves as \<open>handleEnroll\<close>; under every schedule at most one request per token is
  accepted; which machine becomes a member is another matter (\<open>race_admits_other\<close>).
\<close>

section \<open>The stages\<close>

datatype stage =
    Arrived
  | Recording PendingEnrollment PendingJoin
  | Approving PendingEnrollment PendingJoin
  | Trusting PendingJoin
  | Summing PendingJoin
  | Replied EnrollResponse

fun enroll_turn ::
  "daemon_env \<Rightarrow> enroll_env \<Rightarrow> EnrollRequest \<Rightarrow> stage \<Rightarrow> daemon \<Rightarrow> stage \<times> daemon \<times> outbox" where
  "enroll_turn D E req Arrived d =
     (case enroll_check D (ee_check E) req (cs_cfg (d_cfg d)) of
        Inl msg \<Rightarrow> (Replied (enroll_error msg), d, [])
      | Inr entry \<Rightarrow> (Recording entry (join_of (ee_submit E) req), d, []))"
| "enroll_turn D E req (Recording entry pj) d =
     (case record_join D (ee_record E) (pe_ID entry) pj d of
        (Inl e, d', out) \<Rightarrow> (Replied (enroll_error (''record pending join: '' @ err_text e)), d', out)
      | (Inr _, d', out) \<Rightarrow>
          (if pe_AutoApprove entry then Approving entry pj
           else Replied \<lparr>en_Accepted = False, en_Pending = True, en_Error = [], en_Cluster = None\<rparr>, d', out))"
| "enroll_turn D E req (Approving entry pj) d =
     (case approve_join D (ee_approve E) (pe_ID entry) d of
        (Inl e, d', out) \<Rightarrow> (Replied (enroll_error (''auto-approve: '' @ err_text e)), d', out)
      | (Inr _, d', out) \<Rightarrow> (Trusting pj, d', out))"
| "enroll_turn D E req (Trusting pj) d = (Summing pj, trust_joiner D (ee_trust E) pj d, [])"
| "enroll_turn D E req (Summing pj) d =
     (Replied \<lparr>en_Accepted = True, en_Pending = False, en_Error = [],
        en_Cluster = NewEnrollSummary (enrollPeersForJoiner (pj_NodeID pj) d)\<rparr>, d, [])"
| "enroll_turn D E req (Replied resp) d = (Replied resp, d, [])"

text \<open>Requests in progress, each with its own environment (its clock readings and the outcome of the
  I/O it does), and a schedule: the list of requests in the order they take their turns. A number
  that names no request is an idle turn.\<close>

record session =
  sn_env :: enroll_env
  sn_req :: EnrollRequest
  sn_stage :: stage

definition session_turn :: "daemon_env \<Rightarrow> nat \<Rightarrow> daemon \<times> session list \<Rightarrow> daemon \<times> session list" where
  "session_turn D i s =
     (if i < length (snd s) then
        (let sn = snd s ! i in
         case enroll_turn D (sn_env sn) (sn_req sn) (sn_stage sn) (fst s) of
           (st, d, out) \<Rightarrow> (d, (snd s)[i := sn\<lparr>sn_stage := st\<rparr>]))
      else s)"

definition enroll_turns :: "daemon_env \<Rightarrow> nat list \<Rightarrow> daemon \<times> session list \<Rightarrow> daemon \<times> session list" where
  "enroll_turns D sched s = fold (session_turn D) sched s"

definition arrive :: "enroll_env \<times> EnrollRequest \<Rightarrow> session" where
  "arrive x = \<lparr>sn_env = fst x, sn_req = snd x, sn_stage = Arrived\<rparr>"

text \<open>A request is won once its approval has gone through: it is, or will be, answered with accepted.\<close>

fun stage_won :: "stage \<Rightarrow> bool" where
  "stage_won (Trusting pj) = True"
| "stage_won (Summing pj) = True"
| "stage_won (Replied resp) = en_Accepted resp"
| "stage_won _ = False"

fun stage_token :: "stage \<Rightarrow> string option" where
  "stage_token (Recording entry pj) = Some (pe_ID entry)"
| "stage_token (Approving entry pj) = Some (pe_ID entry)"
| "stage_token _ = None"

definition winners :: "string \<Rightarrow> session list \<Rightarrow> nat set" where
  "winners i ss = {n. n < length ss \<and> er_TokenID (sn_req (ss ! n)) = i \<and> stage_won (sn_stage (ss ! n))}"

section \<open>A request served alone\<close>

fun turns_alone :: "daemon_env \<Rightarrow> enroll_env \<Rightarrow> EnrollRequest \<Rightarrow> nat \<Rightarrow> stage \<times> daemon \<times> outbox \<Rightarrow> stage \<times> daemon \<times> outbox" where
  "turns_alone D E req 0 s = s"
| "turns_alone D E req (Suc n) (st, d, out) =
     (case enroll_turn D E req st d of (st', d', out') \<Rightarrow> turns_alone D E req n (st', d', out @ out'))"

lemma turns_alone_replied [simp]: "turns_alone D E req n (Replied resp, d, out) = (Replied resp, d, out)"
  by (induction n) simp_all

text \<open>One turn at a time: the composition is the handler.\<close>

lemma turns_alone_5: "turns_alone D E req 5 s = turns_alone D E req (Suc (Suc (Suc (Suc (Suc 0))))) s"
  by (rule arg_cong [of _ _ "\<lambda>n. turns_alone D E req n s"]) simp

lemma stages_compose:
  "turns_alone D E req 5 (Arrived, d, []) = (case handleEnroll D E req d of (resp, d', out) \<Rightarrow> (Replied resp, d', out))"
proof (cases "enroll_check D (ee_check E) req (cs_cfg (d_cfg d))")
  case (Inl msg)
  then show ?thesis by (simp add: turns_alone_5 handleEnroll_def)
next
  case (Inr entry)
  obtain r1 d1 out1 where 1: "record_join D (ee_record E) (pe_ID entry) (join_of (ee_submit E) req) d = (r1, d1, out1)"
    by (metis prod_cases3)
  obtain r2 d2 out2 where 2: "approve_join D (ee_approve E) (pe_ID entry) d1 = (r2, d2, out2)"
    by (metis prod_cases3)
  show ?thesis
    by (cases r1; cases "pe_AutoApprove entry"; cases r2) (simp_all add: turns_alone_5 handleEnroll_def Inr 1 2 Let_def)
qed

section \<open>What a turn does to a token\<close>

definition spent :: "string \<Rightarrow> daemon \<Rightarrow> bool" where
  "spent i d \<longleftrightarrow> FindEnrollmentByID (cs_cfg (d_cfg d)) i = None"

text \<open>The configuration is well formed and no token is named like the ID \<open>i\<close>, so that \<open>i\<close> finds only
  the token of that ID.\<close>

definition addressable :: "string \<Rightarrow> ClusterConfig \<Rightarrow> bool" where
  "addressable i c \<longleftrightarrow> cfg_wf c \<and> (\<forall>e \<in> set (cc_PendingEnrollments c). pe_Name e \<noteq> i)"

definition token_ids :: "ClusterConfig \<Rightarrow> string set" where
  "token_ids c = pe_ID ` set (cc_PendingEnrollments c)"

lemma spent_ids: "spent i d \<longleftrightarrow> i \<notin> token_ids (cs_cfg (d_cfg d))"
  by (auto simp: spent_def token_ids_def FindEnrollmentByID_def find_None_ball)

lemma token_ids_bump [simp]: "token_ids (bump env n c) = token_ids c"
  by (simp add: token_ids_def bump.simps)

lemma addressable_bump [simp]: "addressable i (bump env n c) = addressable i c"
  by (simp add: addressable_def bump.simps cfg_wf_def)

lemma mutation_wf:
  assumes "cfg_wf c" and "apply_mutation J kind raw c = (r, c')" and "kind \<noteq> MutationReplaceConfig"
  shows "cfg_wf c'"
  using edit_wf_mutation [of J kind raw] assms by (force simp: payload_ok_def edit_wf_def)

lemma record_tokens:
  assumes "addressable i c" and "apply_mutation J MutationRecordEnrollPending raw c = (None, c')"
    and "js_RecordPending J raw = Inr (j, Some pj)"
  shows "addressable i c' \<and> token_ids c' = token_ids c"
proof -
  have wf: "cfg_wf c" and names: "\<forall>e \<in> set (cc_PendingEnrollments c). pe_Name e \<noteq> i" using assms(1) by (simp_all add: addressable_def)
  have "cfg_wf c'" by (rule mutation_wf [OF wf assms(2)]) simp
  moreover have es: "cc_PendingEnrollments c' =
      map (\<lambda>x. if pe_ID x = j then x\<lparr>pe_PendingJoin := Some pj\<rparr> else x) (cc_PendingEnrollments c)"
    by (simp add: record_pending_effect [OF wf assms(2,3)])
  moreover have "map pe_ID (cc_PendingEnrollments c') = map pe_ID (cc_PendingEnrollments c)" by (simp add: es)
  then have "token_ids c' = token_ids c" by (metis token_ids_def list.set_map)
  ultimately show ?thesis using names by (auto simp: addressable_def)
qed

lemma approve_tokens:
  assumes "addressable i c" and "apply_mutation J MutationApproveEnrollment raw c = (None, c')"
    and "js_Target J raw = Inr j"
  shows "addressable i c' \<and> token_ids c' \<subseteq> token_ids c \<and> (j = i \<longrightarrow> i \<in> token_ids c \<and> i \<notin> token_ids c')"
proof -
  have wf: "cfg_wf c" and names: "\<forall>e \<in> set (cc_PendingEnrollments c). pe_Name e \<noteq> i" using assms(1) by (simp_all add: addressable_def)
  obtain en as bs where find: "FindEnrollment c j = Some en"
    and before: "cc_PendingEnrollments c = as @ en # bs" and after: "cc_PendingEnrollments c' = as @ bs"
    and gone: "FindEnrollmentByID c' (pe_ID en) = None"
    using approve_effect [OF wf assms(2)] assms(3) by auto
  have "cfg_wf c'" by (rule mutation_wf [OF wf assms(2)]) simp
  with names before after have "addressable i c'" by (simp add: addressable_def)
  moreover have "pe_ID en = i" if "j = i"
    using find_Some_iff_first [OF find [unfolded FindEnrollment_def]] names that
    by (auto simp: enrollment_matches_def)
  moreover have "pe_ID en \<notin> token_ids c'" using gone
    by (auto simp: token_ids_def FindEnrollmentByID_def find_None_ball)
  moreover have "pe_ID en \<in> token_ids c" "token_ids c' \<subseteq> token_ids c" by (auto simp: token_ids_def before after)
  ultimately show ?thesis by blast
qed

text \<open>A mutation on the master leaves the configuration as it was, or is the decoded edit with the
  version bump, also when the write to disk then fails and the caller gets the error.\<close>

lemma applyLocally_config:
  assumes "applyLocally J L os env n kind raw s = (r, s', cbs)"
  obtains e where "r = Inl e" "cs_cfg s' = cs_cfg s"
  | c where "apply_mutation J kind raw (cs_cfg s) = (None, c)" "cs_cfg s' = bump env n c"
proof (cases "apply_mutation J kind raw (cs_cfg s)")
  case (Pair x c)
  show thesis
  proof (cases x)
    case None
    have "fst (snd (Mutate L os env n (apply_mutation J kind raw) s)) = s'"
      using assms by (simp add: applyLocally_def split: prod.splits option.splits)
    with Mutate_cfg [of L os env n "apply_mutation J kind raw" s] Pair None that(2) show thesis by simp
  next
    case (Some e)
    with Pair applyLocally_error [of J kind raw s e L os env n] assms that(1) show thesis by simp
  qed
qed

lemma LocalMutate_config:
  assumes L: "LocalMutate J L os env n mv rpc kind m s = (r, s', cbs, out)" and master: "mv_IsMaster mv"
  obtains e where "r = Inl e" "cs_cfg s' = cs_cfg s"
  | raw c where "m = Inr raw" "apply_mutation J kind raw (cs_cfg s) = (None, c)" "cs_cfg s' = bump env n c"
proof (cases "mv_HasQuorum mv")
  case False
  with L have "r = Inl (ErrMsg ''no quorum: refusing mutation'')" "s' = s" by (simp_all add: LocalMutate_def)
  with that(1) show thesis by metis
next
  case q: True
  show thesis
  proof (cases m)
    case (Inl e)
    with L q have "r = Inl (ErrWrap ''marshal payload'' e)" "s' = s" by (simp_all add: LocalMutate_def)
    with that(1) show thesis by metis
  next
    case (Inr raw)
    obtain r1 s1 cbs1 where al: "applyLocally J L os env n kind raw s = (r1, s1, cbs1)" by (metis prod_cases3)
    have "r = r1" "s' = s1" using L q master Inr al by (cases r1; simp add: LocalMutate_def)+
    with applyLocally_config [OF al] that Inr show thesis by metis
  qed
qed

lemma mutate_config:
  assumes "daemon_mutate D mu kind m d = (r, d', out)" and master: "IsMaster (d_quorum d)"
  obtains e where "r = Inl e" "cs_cfg (d_cfg d') = cs_cfg (d_cfg d)"
  | raw c where "m = Inr raw" "apply_mutation (dv_json D) kind raw (cs_cfg (d_cfg d)) = (None, c)"
      "cs_cfg (d_cfg d') = bump (mu_call mu) (self_of d) c"
proof -
  obtain s cbs where L: "LocalMutate (dv_json D) (dv_yaml D) (dv_os D) (mu_call mu) (self_of d) (view (mu_now mu) d)
      (mu_rpc mu) kind m (d_cfg d) = (r, s, cbs, out)"
    and d': "d' = run_callbacks D (mu_trust mu) cbs (d\<lparr>d_cfg := s\<rparr>)"
    using assms(1) by (auto simp: daemon_mutate_def split: prod.splits)
  have "d_cfg d' = s" by (simp add: d' run_callbacks_frame)
  moreover have "mv_IsMaster (view (mu_now mu) d)" using master by (simp add: view_def)
  ultimately show thesis using LocalMutate_config [OF L] that by metis
qed

text \<open>What every turn of every request keeps for the token ID \<open>i\<close>, and what it costs to win.\<close>

definition json_faithful :: "daemon_env \<Rightarrow> bool" where
  "json_faithful D \<longleftrightarrow>
     (\<forall>x raw. jm_RecordPending (dv_enc D) x = Inr raw \<longrightarrow> js_RecordPending (dv_json D) raw = Inr x) \<and>
     (\<forall>t raw. jm_Target (dv_enc D) t = Inr raw \<longrightarrow> js_Target (dv_json D) raw = Inr t)"

definition kept :: "string \<Rightarrow> daemon \<Rightarrow> daemon \<Rightarrow> bool" where
  "kept i d d' \<longleftrightarrow> d_quorum d' = d_quorum d \<and> addressable i (cs_cfg (d_cfg d')) \<and> (spent i d \<longrightarrow> spent i d')"

lemma record_turn:
  assumes json: "json_faithful D" and master: "IsMaster (d_quorum d)" and a: "addressable i (cs_cfg (d_cfg d))"
    and m: "record_join D mu j pj d = (r, d', out)"
  shows "kept i d d'"
proof -
  note q = daemon_mutate_frame [OF m [unfolded record_join_def]]
  show ?thesis
  proof (rule mutate_config [OF m [unfolded record_join_def] master])
    fix e assume "cs_cfg (d_cfg d') = cs_cfg (d_cfg d)"
    with q a show ?thesis by (simp add: kept_def spent_def)
  next
    fix raw c assume h: "jm_RecordPending (dv_enc D) (j, Some pj) = Inr raw"
      "apply_mutation (dv_json D) MutationRecordEnrollPending raw (cs_cfg (d_cfg d)) = (None, c)"
      "cs_cfg (d_cfg d') = bump (mu_call mu) (self_of d) c"
    have "js_RecordPending (dv_json D) raw = Inr (j, Some pj)" using json h(1) by (simp add: json_faithful_def)
    from record_tokens [OF a h(2) this] q h(3) show ?thesis by (simp add: kept_def spent_ids)
  qed
qed

lemma approve_turn:
  assumes json: "json_faithful D" and master: "IsMaster (d_quorum d)" and a: "addressable i (cs_cfg (d_cfg d))"
    and m: "approve_join D mu j d = (r, d', out)"
  shows "kept i d d' \<and> (j = i \<and> r = Inr v \<longrightarrow> \<not> spent i d \<and> spent i d')"
proof -
  note q = daemon_mutate_frame [OF m [unfolded approve_join_def]]
  show ?thesis
  proof (rule mutate_config [OF m [unfolded approve_join_def] master])
    fix e assume "r = Inl e" "cs_cfg (d_cfg d') = cs_cfg (d_cfg d)"
    with q a show ?thesis by (simp add: kept_def spent_def)
  next
    fix raw c assume h: "jm_Target (dv_enc D) j = Inr raw"
      "apply_mutation (dv_json D) MutationApproveEnrollment raw (cs_cfg (d_cfg d)) = (None, c)"
      "cs_cfg (d_cfg d') = bump (mu_call mu) (self_of d) c"
    have "js_Target (dv_json D) raw = Inr j" using json h(1) by (simp add: json_faithful_def)
    from approve_tokens [OF a h(2) this] q h(3) show ?thesis by (auto simp: kept_def spent_ids)
  qed
qed

lemma kept_refl: "addressable i (cs_cfg (d_cfg d)) \<Longrightarrow> kept i d d"
  by (simp add: kept_def)

lemma trust_joiner_kept: "addressable i (cs_cfg (d_cfg d)) \<Longrightarrow> kept i d (trust_joiner D ce pj d)"
  by (simp add: kept_def spent_def)

definition own_token :: "EnrollRequest \<Rightarrow> stage \<Rightarrow> bool" where
  "own_token req st \<longleftrightarrow> stage_token st \<in> {None, Some (er_TokenID req)}"

lemma enroll_turn_kept:
  assumes json: "json_faithful D" and master: "IsMaster (d_quorum d)" and a: "addressable i (cs_cfg (d_cfg d))"
    and own: "own_token req st" and t: "enroll_turn D E req st d = (st', d', out)"
  shows "kept i d d' \<and> own_token req st' \<and>
     (er_TokenID req = i \<and> stage_won st' \<and> \<not> stage_won st \<longrightarrow> \<not> spent i d \<and> spent i d')"
proof (cases st)
  case Arrived
  with t kept_refl [OF a] enroll_check_fields [of D "ee_check E" req "cs_cfg (d_cfg d)"] show ?thesis
    by (auto simp: own_token_def enroll_error_def split: sum.splits)
next
  case (Recording entry pj)
  obtain r d1 out1 where m: "record_join D (ee_record E) (pe_ID entry) pj d = (r, d1, out1)" by (metis prod_cases3)
  from record_turn [OF json master a m] t Recording m own show ?thesis
    by (cases r; cases "pe_AutoApprove entry") (auto simp: own_token_def enroll_error_def)
next
  case (Approving entry pj)
  obtain r d1 out1 where m: "approve_join D (ee_approve E) (pe_ID entry) d = (r, d1, out1)" by (metis prod_cases3)
  from approve_turn [OF json master a m] t Approving m own show ?thesis
    by (cases r) (auto simp: own_token_def enroll_error_def)
next
  case (Trusting pj)
  with t trust_joiner_kept [OF a] show ?thesis by (auto simp: own_token_def)
next
  case (Summing pj)
  with t kept_refl [OF a] show ?thesis by (auto simp: own_token_def)
next
  case (Replied resp)
  with t kept_refl [OF a] show ?thesis by (auto simp: own_token_def)
qed

section \<open>The invariant of a schedule\<close>

text \<open>At most one request has won the token \<open>i\<close>, and as soon as one has, the token is gone.\<close>

definition single_use :: "string \<Rightarrow> daemon \<times> session list \<Rightarrow> bool" where
  "single_use i s \<longleftrightarrow> IsMaster (d_quorum (fst s)) \<and> addressable i (cs_cfg (d_cfg (fst s))) \<and>
     (\<forall>sn \<in> set (snd s). own_token (sn_req sn) (sn_stage sn)) \<and>
     (\<forall>m \<in> winners i (snd s). \<forall>n \<in> winners i (snd s). m = n) \<and>
     (winners i (snd s) \<noteq> {} \<longrightarrow> spent i (fst s))"

lemma winners_update:
  "n < length ss \<Longrightarrow> sn_req sn = sn_req (ss ! n) \<Longrightarrow>
     winners i (ss[n := sn]) \<subseteq> winners i ss \<union>
       (if er_TokenID (sn_req sn) = i \<and> stage_won (sn_stage sn) \<and> \<not> stage_won (sn_stage (ss ! n)) then {n} else {})"
  by (auto simp: winners_def nth_list_update split: if_splits)

lemma session_turn_single:
  assumes json: "json_faithful D" and s: "single_use i s"
  shows "single_use i (session_turn D k s)"
proof (cases "k < length (snd s)")
  case False
  with s show ?thesis by (simp add: session_turn_def)
next
  case k: True
  obtain d ss where ds: "s = (d, ss)" by fastforce
  let ?sn = "ss ! k"
  obtain st d' out where t: "enroll_turn D (sn_env ?sn) (sn_req ?sn) (sn_stage ?sn) d = (st, d', out)" by (metis prod_cases3)
  let ?sn' = "?sn\<lparr>sn_stage := st\<rparr>"
  have res: "session_turn D k s = (d', ss[k := ?sn'])" using k t by (simp add: session_turn_def ds)
  have master: "IsMaster (d_quorum d)" and a: "addressable i (cs_cfg (d_cfg d))"
    and own: "\<forall>sn \<in> set ss. own_token (sn_req sn) (sn_stage sn)"
    and one: "\<forall>m \<in> winners i ss. \<forall>n \<in> winners i ss. m = n" and gone: "winners i ss \<noteq> {} \<longrightarrow> spent i d"
    using s by (simp_all add: single_use_def ds)
  have "own_token (sn_req ?sn) (sn_stage ?sn)" using own k ds by simp
  from enroll_turn_kept [OF json master a this t]
  have kept: "kept i d d'" and own': "own_token (sn_req ?sn) st"
    and win: "er_TokenID (sn_req ?sn) = i \<and> stage_won st \<and> \<not> stage_won (sn_stage ?sn) \<longrightarrow> \<not> spent i d \<and> spent i d'"
    by blast+
  have sub: "winners i (ss[k := ?sn']) \<subseteq> winners i ss \<union>
      (if er_TokenID (sn_req ?sn) = i \<and> stage_won st \<and> \<not> stage_won (sn_stage ?sn) then {k} else {})"
    using winners_update [of k ss ?sn' i] k ds by simp
  have "(\<forall>m \<in> winners i (ss[k := ?sn']). \<forall>n \<in> winners i (ss[k := ?sn']). m = n) \<and>
      (winners i (ss[k := ?sn']) \<noteq> {} \<longrightarrow> spent i d')"
  proof (cases "er_TokenID (sn_req ?sn) = i \<and> stage_won st \<and> \<not> stage_won (sn_stage ?sn)")
    case True
    with win gone have "winners i ss = {}" "spent i d'" by blast+
    with sub True show ?thesis by auto
  next
    case False
    with sub have "winners i (ss[k := ?sn']) \<subseteq> winners i ss" by auto
    with one gone kept show ?thesis unfolding kept_def by blast
  qed
  moreover have "\<forall>sn \<in> set (ss[k := ?sn']). own_token (sn_req sn) (sn_stage sn)"
    using own own' set_update_subset_insert [of ss k ?sn'] by auto
  moreover have "IsMaster (d_quorum d')" "addressable i (cs_cfg (d_cfg d'))" using kept master by (auto simp: kept_def IsMaster_def)
  ultimately show ?thesis by (simp add: single_use_def res)
qed

lemma enroll_turns_single:
  "json_faithful D \<Longrightarrow> single_use i s \<Longrightarrow> single_use i (enroll_turns D sched s)"
  unfolding enroll_turns_def by (induction sched arbitrary: s) (simp_all add: session_turn_single)

lemma arrived_single:
  "IsMaster (d_quorum d) \<Longrightarrow> addressable i (cs_cfg (d_cfg d)) \<Longrightarrow> single_use i (d, map arrive xs)"
  by (auto simp: single_use_def winners_def arrive_def own_token_def)

definition accepted :: "session \<Rightarrow> bool" where
  "accepted sn = (case sn_stage sn of Replied resp \<Rightarrow> en_Accepted resp | _ \<Rightarrow> False)"

lemma accepted_won: "accepted sn \<Longrightarrow> stage_won (sn_stage sn)"
  by (simp add: accepted_def split: stage.splits)

text \<open>C9. An enrollment token admits once. Any number of \<open>Enroll\<close> requests, each with its own clock
  readings and I/O outcomes, are served on the master by goroutines that take turns in any order, and
  no lock is held from the check to the approval. However they interleave, at most one of those that
  present the same token is answered with accepted, and when one is, the token is gone from the
  configuration for good: the approval looks the token up again under the write lock, so the second
  approval of one token fails. A request that meets no other behaves as \<open>handleEnroll\<close>.\<close>

theorem redeemed_once:
  assumes "IsMaster (d_quorum d)" and "addressable i (cs_cfg (d_cfg d))" and "json_faithful D"
    and "enroll_turns D sched (d, map arrive xs) = (d', ss)"
  shows "(\<forall>m n. m < length ss \<and> n < length ss \<and> er_TokenID (sn_req (ss ! m)) = i \<and> er_TokenID (sn_req (ss ! n)) = i \<and>
        accepted (ss ! m) \<and> accepted (ss ! n) \<longrightarrow> m = n) \<and>
     (\<forall>n < length ss. er_TokenID (sn_req (ss ! n)) = i \<and> accepted (ss ! n) \<longrightarrow> FindEnrollmentByID (cs_cfg (d_cfg d')) i = None) \<and>
     turns_alone D E req 5 (Arrived, d, []) = (case handleEnroll D E req d of (resp, d2, out) \<Rightarrow> (Replied resp, d2, out))"
proof -
  have "single_use i (d', ss)"
    using enroll_turns_single [OF assms(3) arrived_single [OF assms(1,2)], of sched xs] assms(4) by simp
  moreover have "n \<in> winners i ss" if "n < length ss" "er_TokenID (sn_req (ss ! n)) = i" "accepted (ss ! n)" for n
    using that accepted_won by (simp add: winners_def)
  ultimately show ?thesis
    unfolding single_use_def spent_def by (fastforce simp: stages_compose)
qed

section \<open>Two holders of one token\<close>

text \<open>The same auto-approve token in two hands. Both requests pass the check, both record their joiner
  under the token, then the first approves: what it approves is the joiner recorded last.\<close>

definition race_req :: EnrollRequest where
  "race_req = \<lparr>er_TokenID = ''t9'', er_TokenSecret = ''s3cret'', er_NodeID = ''e'', er_Advertise = ''e:9901'',
     er_Fingerprint = Fingerprint demo_pki \<lparr>cert_SPKI = ''pem-e'', cert_CommonName = ''pem-e'', cert_Raw = ''pem-e''\<rparr>,
     er_CertPEM = ''pem-e''\<rparr>"

definition race_denv :: daemon_env where
  "race_denv = enr_denv\<lparr>
     dv_json := demo_json\<lparr>js_RecordPending := (\<lambda>raw. Inr (''t9'', Some (join_of 50 (if raw = ''rp'' then enr_req else race_req))))\<rparr>,
     dv_enc := demo_enc\<lparr>jm_RecordPending := (\<lambda>x. if x = (''t9'', Some (join_of 50 enr_req)) then Inr ''rp''
        else if x = (''t9'', Some (join_of 50 race_req)) then Inr ''rq'' else Inl (ErrLib ''json''))\<rparr>\<rparr>"

lemma race_joins: "join_of 50 race_req \<noteq> join_of 50 enr_req"
  by (simp add: join_of_def race_req_def enr_req_def)

lemma race_denv_simps [simp]:
  "dv_pki race_denv = demo_pki" "dv_os race_denv = demo_env" "yaml_Marshal (dv_yaml race_denv) c = Inr ''yaml''"
  "js_Target (dv_json race_denv) = Inr" "jm_Target (dv_enc race_denv) = Inr"
  "jm_RecordPending (dv_enc race_denv) (''t9'', Some (join_of 50 enr_req)) = Inr ''rp''"
  "jm_RecordPending (dv_enc race_denv) (''t9'', Some (join_of 50 race_req)) = Inr ''rq''"
  using race_joins by (simp_all add: race_denv_def enr_denv_def demo_denv_def demo_json_def demo_enc_def)

lemma race_faithful: "json_faithful race_denv"
  using race_joins by (auto simp: json_faithful_def race_denv_def demo_json_def demo_enc_def split: if_splits)

lemma race_checked:
  "enroll_check race_denv 50 enr_req (cs_cfg enr_start) = Inr enr_entry"
  "enroll_check race_denv 50 race_req (cs_cfg enr_start) = Inr enr_entry"
  by (simp_all add: enroll_check_ok enr_start_def enr_req_def race_req_def enr_entry_def FindEnrollmentByID_def
      FingerprintFromCertPEM_def demo_pki_def verifyEnrollSecret_def hashEnrollSecret_def decodeHashHex_def Let_def)

definition race_recorded :: ClusterConfig where
  "race_recorded = bump demo_call ''a'' (enr_recorded\<lparr>cc_PendingEnrollments := [enr_entry\<lparr>pe_PendingJoin := Some (join_of 50 race_req)\<rparr>]\<rparr>)"

definition race_approved :: ClusterConfig where
  "race_approved = bump demo_call ''a'' (race_recorded\<lparr>cc_Peers := map demo_peer [''a'', ''b'', ''c''] @ [peer_of_join (join_of 50 race_req)],
     cc_PendingEnrollments := []\<rparr>)"

lemma race_mutations:
  "apply_mutation (dv_json race_denv) MutationRecordEnrollPending ''rp'' (cs_cfg enr_start) =
     (None, demo_cluster\<lparr>cc_PendingEnrollments := [enr_entry\<lparr>pe_PendingJoin := Some (join_of 50 enr_req)\<rparr>]\<rparr>)"
  "apply_mutation (dv_json race_denv) MutationRecordEnrollPending ''rq'' enr_recorded =
     (None, enr_recorded\<lparr>cc_PendingEnrollments := [enr_entry\<lparr>pe_PendingJoin := Some (join_of 50 race_req)\<rparr>]\<rparr>)"
  "apply_mutation (dv_json race_denv) MutationApproveEnrollment ''t9'' race_recorded =
     (None, race_recorded\<lparr>cc_Peers := map demo_peer [''a'', ''b'', ''c''] @ [peer_of_join (join_of 50 race_req)], cc_PendingEnrollments := []\<rparr>)"
  "fst (apply_mutation (dv_json race_denv) MutationApproveEnrollment ''t9'' race_approved) \<noteq> None"
  by (simp_all add: race_denv_def demo_json_def apply_mutation_def decode_def apply_record_pending_def apply_approve_def enr_start_def
      enr_entry_def enr_recorded_def race_recorded_def race_approved_def bump.simps Let_def enrollment_matches_def demo_cluster_def
      peer_of_join_def demo_peer_def race_req_def join_of_def)

lemma mutate_refused:
  assumes "fst (apply_mutation (dv_json D) kind raw (cs_cfg (d_cfg d))) \<noteq> None" and "IsMaster (d_quorum d)"
  shows "\<exists>e d' out. daemon_mutate D mu kind (Inr raw) d = (Inl e, d', out) \<and> cs_cfg (d_cfg d') = cs_cfg (d_cfg d) \<and>
    d_trust d' = d_trust d"
  using assms applyLocally_error [of "dv_json D" kind raw "d_cfg d" _ "dv_yaml D" "dv_os D" "mu_call mu" "self_of d"]
  by (auto simp: daemon_mutate_def LocalMutate_def view_def run_callbacks_def)

text \<open>The daemon of the race, as far as its mutations see it.\<close>

definition racing :: "ClusterConfig \<Rightarrow> daemon \<Rightarrow> bool" where
  "racing c d \<longleftrightarrow> cs_cfg (d_cfg d) = c \<and> d_quorum d = d_quorum (demo_daemon ''a'' enr_start) \<and> self_of d = ''a'' \<and>
     trust_wf (ts_entries (d_trust d))"

lemma racing_master: "racing c d \<Longrightarrow> IsMaster (d_quorum d)"
  by (simp add: racing_def IsMaster_def Master_def)

lemma racing_mutate:
  assumes r: "racing c0 d" and peers: "length (cc_Peers c0) = 3"
    and app: "apply_mutation (dv_json race_denv) kind raw c0 = (None, c)"
  shows "\<exists>v d' out. daemon_mutate race_denv enr_mut kind (Inr raw) d = (Inr v, d', out) \<and> racing (bump demo_call ''a'' c) d'"
proof -
  have q: "HasQuorum (mu_now enr_mut) (cs_cfg (d_cfg d)) (d_quorum d)" using r peers enr_quorum by (simp add: racing_def)
  obtain v d' out where m: "daemon_mutate race_denv enr_mut kind (Inr raw) d = (Inr v, d', out)"
    and c: "cs_cfg (d_cfg d') = bump demo_call ''a'' c" "d_quorum d' = d_quorum d" "d_node d' = d_node d"
    using daemon_mutate_good [OF racing_master [OF r] q, of race_denv c "''yaml''" kind raw] r app by (auto simp: racing_def)
  with daemon_mutate_frame [OF m] r show ?thesis by (auto simp: racing_def)
qed

lemma enr_entry_fields [simp]: "pe_ID enr_entry = ''t9''" "pe_AutoApprove enr_entry"
  by (simp_all add: enr_entry_def)

lemma race_steps:
  obtains v1 d1 out1 v2 d2 out2 v3 d3 out3 where
    "record_join race_denv enr_mut ''t9'' (join_of 50 enr_req) (demo_daemon ''a'' enr_start) = (Inr v1, d1, out1)"
    "record_join race_denv enr_mut ''t9'' (join_of 50 race_req) d1 = (Inr v2, d2, out2)"
    "approve_join race_denv enr_mut ''t9'' d2 = (Inr v3, d3, out3)" and "racing race_approved d3"
proof -
  have r0: "racing (cs_cfg enr_start) (demo_daemon ''a'' enr_start)" by (simp add: racing_def)
  have n: "length (cc_Peers (cs_cfg enr_start)) = 3" "length (cc_Peers enr_recorded) = 3" "length (cc_Peers race_recorded) = 3"
    by (simp_all add: enr_start_def enr_recorded_def race_recorded_def demo_cluster_def bump.simps)
  obtain v1 d1 out1 where 1: "daemon_mutate race_denv enr_mut MutationRecordEnrollPending (Inr ''rp'') (demo_daemon ''a'' enr_start) = (Inr v1, d1, out1)"
    and r1: "racing enr_recorded d1"
    using racing_mutate [OF r0 n(1) race_mutations(1)] unfolding enr_recorded_def by blast
  obtain v2 d2 out2 where 2: "daemon_mutate race_denv enr_mut MutationRecordEnrollPending (Inr ''rq'') d1 = (Inr v2, d2, out2)"
    and r2: "racing race_recorded d2"
    using racing_mutate [OF r1 n(2) race_mutations(2)] unfolding race_recorded_def by blast
  obtain v3 d3 out3 where 3: "daemon_mutate race_denv enr_mut MutationApproveEnrollment (Inr ''t9'') d2 = (Inr v3, d3, out3)"
    and r3: "racing race_approved d3"
    using racing_mutate [OF r2 n(3) race_mutations(3)] unfolding race_approved_def by blast
  show thesis by (rule that [of v1 d1 out1 v2 d2 out2 v3 d3 out3]) (simp_all add: record_join_def approve_join_def 1 2 3 r3)
qed

text \<open>The outcome: the first request is accepted and its machine trusted by the master, but it is not a
  member; the second is answered with an error, and its machine is the member.\<close>

lemma race_admits_other:
  "\<exists>d' a b. enroll_turns race_denv [0, 1, 0, 1, 0, 0, 0, 1] (demo_daemon ''a'' enr_start, map arrive [(enr_env, enr_req), (enr_env, race_req)]) = (d', [a, b]) \<and>
     sn_req a = enr_req \<and> accepted a \<and> sn_req b = race_req \<and> \<not> accepted b \<and>
     row_get pi_NodeID ''d'' (cc_Peers (cs_cfg (d_cfg d'))) = None \<and>
     row_get pi_NodeID ''e'' (cc_Peers (cs_cfg (d_cfg d'))) = Some (peer_of_join (join_of 50 race_req)) \<and>
     (\<exists>x. trust_Get ''d'' (d_trust d') = Some x)"
proof -
  obtain v1 d1 out1 v2 d2 out2 v3 d3 out3 where
    1: "record_join race_denv enr_mut ''t9'' (join_of 50 enr_req) (demo_daemon ''a'' enr_start) = (Inr v1, d1, out1)"
    and 2: "record_join race_denv enr_mut ''t9'' (join_of 50 race_req) d1 = (Inr v2, d2, out2)"
    and 3: "approve_join race_denv enr_mut ''t9'' d2 = (Inr v3, d3, out3)" and r: "racing race_approved d3"
    by (rule race_steps)
  let ?d = "trust_joiner race_denv demo_call (join_of 50 enr_req) d3"
  obtain e d4 out4 where 4: "approve_join race_denv enr_mut ''t9'' ?d = (Inl e, d4, out4)"
    and c4: "cs_cfg (d_cfg d4) = race_approved" and t4: "d_trust d4 = d_trust ?d"
    using mutate_refused [of race_denv MutationApproveEnrollment "''t9''" ?d enr_mut] race_mutations(4) racing_master [OF r] r
    by (auto simp: approve_join_def racing_def)
  have fields: "er_NodeID enr_req = ''d''" "er_Fingerprint enr_req \<noteq> []"
    by (simp_all add: enr_req_def Fingerprint_def FingerprintFromSPKI_def)
  have "\<exists>x. trust_Get ''d'' (d_trust d4) = Some x"
    using trust_joiner_get [of d3 "join_of 50 enr_req" race_denv demo_call] r fields by (auto simp: racing_def t4)
  moreover have "row_get pi_NodeID ''d'' (cc_Peers race_approved) = None"
    "row_get pi_NodeID ''e'' (cc_Peers race_approved) = Some (peer_of_join (join_of 50 race_req))"
    by (simp_all add: race_approved_def bump.simps row_get_def demo_peer_def peer_of_join_def race_req_def)
  ultimately show ?thesis
    by (simp add: enroll_turns_def session_turn_def arrive_def enr_env_def race_checked 1 2 3 4 c4 accepted_def enroll_error_def)
qed

theorem redeemed_once_witness:
  "\<exists>d' a b. enroll_turns race_denv [0, 1, 0, 1, 0, 0, 0, 1] (demo_daemon ''a'' enr_start, map arrive [(enr_env, enr_req), (enr_env, race_req)]) = (d', [a, b]) \<and>
     accepted a \<and> \<not> accepted b \<and> FindEnrollmentByID (cs_cfg (d_cfg d')) ''t9'' = None"
proof -
  obtain d' a b where run: "enroll_turns race_denv [0, 1, 0, 1, 0, 0, 0, 1]
      (demo_daemon ''a'' enr_start, map arrive [(enr_env, enr_req), (enr_env, race_req)]) = (d', [a, b])"
    and ab: "sn_req a = enr_req" "accepted a" "sn_req b = race_req"
    using race_admits_other by blast
  have m: "IsMaster (d_quorum (demo_daemon ''a'' enr_start))" by (simp add: IsMaster_def Master_def)
  have ad: "addressable ''t9'' (cs_cfg (d_cfg (demo_daemon ''a'' enr_start)))"
    by (simp add: addressable_def cfg_wf_def enr_start_def demo_cluster_def demo_peer_def enr_entry_def)
  have t: "er_TokenID enr_req = ''t9''" "er_TokenID race_req = ''t9''" by (simp_all add: enr_req_def race_req_def)
  note once = redeemed_once [OF m ad race_faithful run, THEN conjunct1, rule_format, of 0 1]
    and gone = redeemed_once [OF m ad race_faithful run, THEN conjunct2, THEN conjunct1, rule_format, of 0]
  from once ab t have "\<not> accepted b" by auto
  moreover from gone ab t have "FindEnrollmentByID (cs_cfg (d_cfg d')) ''t9'' = None" by simp
  ultimately show ?thesis using run ab by blast
qed

end
