(* ===== verification/Spec2Isabelle.thy ===== *)
theory Spec2Isabelle
  imports Cluster Tui Update Lifecycle Monitoring Onboard CatchUp Startup Builder Outgoing Restart Redeem
begin

text \<open>
  A model of QUptime (\<open>qu\<close>), a quorum-based uptime monitor in Go. Several nodes probe the same
  targets; they replicate one configuration (\<open>cluster.yaml\<close>), elect a master by a fixed rule,
  and the master turns the nodes' reports into one state per check and sends the alerts. Nodes talk
  over mutual TLS with pinned fingerprints, the operator over a Unix socket.

  Conventions. A Go struct is a record, an enumeration a datatype or its string constants, a map an
  association list or a function to options, a Go error a value of \<open>err\<close> whose text is \<open>err_text\<close>.
  Strings are char lists, one char per byte. Version and term are 64-bit words, lengths on the wire
  32-bit words; durations are integers with the wrap-around written out (\<open>int64\<close>) where the code
  multiplies; a time is the number of nanoseconds since the zero time. What is not under
  \<open>src/\<close> or depends on the outside (YAML and JSON coding, SHA-256, X.509, the TLS handshake, DNS,
  HTTP, clocks, random numbers, outcomes of system calls, the order in which Go walks a map) is a
  parameter: a field of an environment record, or an argument. A concurrent activity is the
  sequence of its steps; what may interleave is stated by quantifying over sequences of operations.
  Every loop of the code is bounded by its data, so the model has no fuel, except the reader of
  \<open>Frame\<close>: \<open>read_frames\<close> takes the number of frames to try, and one more than there are frames is
  enough (\<open>frames_roundtrip\<close>).

  Theories, from the bottom up, with the code they model (paths under \<open>src/internal\<close>).

  \<^item> \<open>Prelude\<close>: the standard library functions the code uses on strings, numbers and lists, and the
    list lemmas shared by all parts; the interfaces the parts rely on, as locales: \<open>keyed_table\<close> (lookup,
    insert, delete by key), \<open>roundtrip_codec\<close>, \<open>guarded_component\<close> and \<open>monotone_component\<close> (steps
    that keep an invariant, and let a measure only grow).
  \<^item> \<open>Paths\<close> (\<open>config/paths.go\<close>), \<open>Config\<close> (\<open>config/cluster.go\<close>), \<open>Node\<close> (\<open>config/node.go\<close>):
    files with atomic replacement, the replicated document with its version gate, the node's own
    settings.
  \<^item> \<open>Crypto\<close>, \<open>Trust\<close> (\<open>crypto/cert.go\<close>, \<open>trust/store.go\<close>): fingerprints, the trust store and the
    TLS callback that consults it.
  \<^item> \<open>Messages\<close>, \<open>Frame\<close>, \<open>Rpc\<close> (\<open>transport/\<close>): payloads, frames as bytes, the server's loop over a
    connection with its trust gate, and the client with its pool.
  \<^item> \<open>Quorum\<close> (\<open>quorum/manager.go\<close>): liveness and the election with its cooldown.
  \<^item> \<open>Replicate\<close>, \<open>Cluster\<close> (\<open>replicate/replicator.go\<close>): every mutation, forwarding, broadcast and
    pull; and many such nodes, each with seeds of its own, over a network that loses, repeats and reorders.
  \<^item> \<open>Resolver\<close>, \<open>Probes\<close>, \<open>Aggregator\<close>, \<open>Scheduler\<close> (\<open>checks/\<close>): the probes with their dialler, the
    majority and hysteresis, and which workers run.
  \<^item> \<open>Alerts\<close>, \<open>Templates\<close>, \<open>Builder\<close> (\<open>alerts/\<close>, \<open>cli/builder.go\<close>): which message goes to whom, the SMTP
    dialogue, Discord; the texts of the built-in templates with the part of \<open>text/template\<close> they use
    (lexer, parser, execution), and the page of \<open>qu builder\<close> they are filled into.
  \<^item> \<open>Daemon\<close> (\<open>daemon/daemon.go\<close>, \<open>watcher.go\<close>): the parts composed into one process, with the
    callbacks that keep the trust store in step, the result sink, the heartbeat handler with the pull
    it triggers, and the watcher of hand edits.
  \<^item> \<open>Lifecycle\<close> (\<open>Run\<close> of \<open>daemon/daemon.go\<close>, \<open>Serve\<close> and \<open>Stop\<close> of \<open>transport/rpc.go\<close> and
    \<open>daemon/control.go\<close>): the goroutines of a running daemon as a step relation, from start to return.
  \<^item> \<open>Monitoring\<close>, \<open>CatchUp\<close>: many daemons at work. A probe on any node goes through sink, report,
    aggregator and dispatcher to the inbox; a heartbeat between any two nodes carries versions and
    makes the older one pull.
  \<^item> \<open>Token\<close>, \<open>Enroll\<close>, \<open>Handlers\<close>, \<open>Control\<close> (\<open>daemon/handlers.go\<close>, \<open>control.go\<close>, \<open>cli/client.go\<close>):
    enrollment, the RPC methods, the commands of the control socket and the client that calls them.
    \<open>Redeem\<close> takes \<open>handleEnroll\<close> apart into the accesses between which other requests are served.
  \<^item> \<open>Process\<close>: a whole daemon as one state machine over all its entry points (\<open>handleConn\<close> of
    \<open>transport/rpc.go\<close> on any number of interleaved connections, the control socket, ticks, heartbeats, probe
    results, hand edits), with the facts every reachable daemon keeps and where trust comes from.
    An operation is atomic there (\<open>Redeem\<close> is the exception made for enrollment), and of the files others write only
    \<open>cluster.yaml\<close>, by hand, which is an operation.
    \<open>Electing\<close> reads elections off such runs, \<open>Outgoing\<close> what leaves the process and why; \<open>Restart\<close> has the
    induction principle for them (locale \<open>daemon_invariant\<close>), and what a restart finds on the disk.
  \<^item> \<open>Join\<close> (\<open>cli/init.go\<close>, \<open>serve.go\<close>, \<open>enroll.go\<close>, \<open>crypto/keys.go\<close>, \<open>transport/tofu.go\<close>): creating a
    node's identity and redeeming a token. \<open>Onboard\<close> puts the joining command and the master that
    answers it together, \<open>Startup\<close> the first launch of \<open>qu serve\<close> and the daemon that comes up.
  \<^item> \<open>Update\<close> (\<open>cli/update.go\<close>): self-update.
  \<^item> \<open>CliEdit\<close>, \<open>Client\<close> (\<open>cli/check.go\<close>, \<open>alert.go\<close>, \<open>node.go\<close>, \<open>cluster.go\<close>, \<open>status.go\<close>, \<open>trust.go\<close>,
    \<open>enroll.go\<close>): what the commands compute from their flags and the local configuration, and the
    commands as they run: what they submit over the control socket and what they print.
  \<^item> \<open>Forms\<close>, \<open>Tui\<close> (\<open>tui/forms.go\<close>, \<open>tui.go\<close>, \<open>tabs.go\<close>, \<open>styles.go\<close>): the terminal UI, first its dialogs,
    then its model with \<open>Update\<close> and \<open>View\<close>. Commands are values that say what will run with which
    captured variables; \<open>perform\<close> runs one against the same control socket.

  What the lemmas show, in the same order. Files are replaced all or nothing, and a configuration is
  only ever replaced by a newer one. A stranger on the peer port changes nothing, enrollment needs
  a valid token, which is redeemed at most once under any interleaving, and in any run only nodes that some membership list or token vouched for get a handler
  invoked, and only a master broadcasts or alerts. The election computes a closed rule, protects a live master for the cooldown, is the same on
  all nodes whose histories show each other, and settles while the live set stays the same. A mutation is all or
  nothing and, while every committer holds the newest version, replicas with the same version above the seeds are equal; heartbeats alone bring the newest configuration to every
  node they reach. The verdict on a check is the majority of
  fresh reports, committed when seen twice in a row, and alerts go out exactly on the master's
  transitions, so that an inbox reads down, recovered, down and ends with the committed state; the
  built-in template texts say exactly what is sent. A command on the control socket is one run of its handler, from the command line or
  a key of the terminal UI down to the broadcast configuration. Joining sends the secret to the
  pinned certificate only and leaves both sides able to authenticate each other; a first launch comes
  up as the one-node cluster that every later launch finds again, and a daemon starts again on its files after any run, unless an operator left one that does not parse; a signal makes \<open>Run\<close> return within
  fourteen steps of its own; and an update installs verified bytes only.

  Not modelled: the registration of commands, flags and help texts (\<open>cobra\<close>), the delivery of signals,
  timers as such (a tick is an operation that may happen at any time), the markup of \<open>cli/builder.html\<close>
  around its markers, and the colours of \<open>tui/styles.go\<close>. Libraries outside the repository (text
  inputs, tables and layout of the terminal UI, YAML, UUIDs) are parameters.
\<close>

end
